(* ===== verification/Prelude.thy ===== *)
theory Prelude
  imports Main "HOL-Library.Word"
begin

text \<open>
  Vocabulary shared by every component of the development: identifiers, instants and
  64-bit durations of Go, the parts of the package \<^verbatim>\<open>strings\<close> the services call, HTTP
  results, and generic lemmas about tables held as lists of rows.

  \<^item> A \<^verbatim>\<open>uuid.UUID\<close> is its 128 bits; \<^verbatim>\<open>uuid.Nil\<close> is the zero value.
  \<^item> A \<^verbatim>\<open>time.Time\<close> is its instant, in nanoseconds from the Unix epoch, as an unbounded
    integer; \<^verbatim>\<open>t.IsZero()\<close> compares with the first instant of the year 1.
  \<^item> A \<^verbatim>\<open>time.Duration\<close> is an int64 count of nanoseconds, and \<^verbatim>\<open>time.Duration(n) * time.Minute\<close>
    wraps; the wrap is written out.
  \<^item> A Go string is its list of bytes.
\<close>

text \<open>The collection of the lemmas that an operation keeps the invariant of its store.\<close>

named_theorems inv_intros

section \<open>Identifiers, instants and durations\<close>

type_synonym uuid = "128 word"
type_synonym time = int
type_synonym duration = int

definition uuid_nil :: uuid where
  "uuid_nil = 0"

definition nanosecond_per_minute :: int where
  "nanosecond_per_minute = 60000000000"

definition time_zero :: time where
  "time_zero = - 62135596800000000000"

definition IsZero :: "time \<Rightarrow> bool" where
  "IsZero t \<longleftrightarrow> t = time_zero"

text \<open>Two's complement wrap-around of Go's 64-bit \<^verbatim>\<open>int\<close> and \<^verbatim>\<open>time.Duration\<close>.\<close>

definition int64 :: "int \<Rightarrow> int" where
  "int64 x = (x + 2 ^ 63) mod 2 ^ 64 - 2 ^ 63"

definition Minutes :: "int \<Rightarrow> duration" where
  "Minutes n = int64 (n * nanosecond_per_minute)"

lemma int64_id: "- (2 ^ 63) \<le> x \<Longrightarrow> x < 2 ^ 63 \<Longrightarrow> int64 x = x"
  by (simp add: int64_def)

lemma int64_range: "- (2 ^ 63) \<le> int64 x \<and> int64 x < 2 ^ 63"
proof -
  have "0 \<le> (x + 2 ^ 63) mod 2 ^ 64" "(x + 2 ^ 63) mod 2 ^ 64 < (2 ^ 64 :: int)"
    by simp_all
  then show ?thesis by (simp add: int64_def)
qed

text \<open>Every number of minutes up to 292 years converts without wrapping.\<close>

lemma Minutes_exact:
  "\<bar>n\<bar> \<le> 150000000 \<Longrightarrow> Minutes n = n * nanosecond_per_minute"
  unfolding Minutes_def nanosecond_per_minute_def
  by (rule int64_id) (simp_all add: abs_le_iff)

lemma Minutes_0 [simp]: "Minutes 0 = 0"
  by (simp add: Minutes_exact)

lemma Minutes_mono_exact:
  "\<bar>m\<bar> \<le> 150000000 \<Longrightarrow> \<bar>n\<bar> \<le> 150000000 \<Longrightarrow> Minutes m < Minutes n \<longleftrightarrow> m < n"
  by (simp add: Minutes_exact nanosecond_per_minute_def)

lemma Minutes_pos: "0 < n \<Longrightarrow> n \<le> 150000000 \<Longrightarrow> 0 < Minutes n"
  by (simp add: Minutes_exact nanosecond_per_minute_def)

lemma Minutes_nonneg: "0 \<le> n \<Longrightarrow> n \<le> 150000000 \<Longrightarrow> 0 \<le> Minutes n"
  by (simp add: Minutes_exact nanosecond_per_minute_def)

section \<open>The package strings\<close>

text \<open>
  \<^verbatim>\<open>strings.TrimSpace\<close> removes leading and trailing Unicode white space. On UTF-8 text that is
  one of the byte sequences below, at either end.
\<close>

definition space_seqs :: "string list" where
  "space_seqs =
     [[CHR 0x09], [CHR 0x0A], [CHR 0x0B], [CHR 0x0C], [CHR 0x0D], [CHR 0x20],
      [CHR 0xC2, CHR 0x85], [CHR 0xC2, CHR 0xA0], [CHR 0xE1, CHR 0x9A, CHR 0x80]] @
     map (\<lambda>c. [CHR 0xE2, CHR 0x80, c])
       [CHR 0x80, CHR 0x81, CHR 0x82, CHR 0x83, CHR 0x84, CHR 0x85, CHR 0x86, CHR 0x87,
        CHR 0x88, CHR 0x89, CHR 0x8A, CHR 0xA8, CHR 0xA9, CHR 0xAF] @
     [[CHR 0xE2, CHR 0x81, CHR 0x9F], [CHR 0xE3, CHR 0x80, CHR 0x80]]"

fun is_prefix :: "'a list \<Rightarrow> 'a list \<Rightarrow> bool" where
  "is_prefix [] ys = True"
| "is_prefix (x # xs) [] = False"
| "is_prefix (x # xs) (y # ys) = (x = y \<and> is_prefix xs ys)"

text \<open>\<^verbatim>\<open>strings.Contains\<close>\<close>

fun Contains :: "string \<Rightarrow> string \<Rightarrow> bool" where
  "Contains [] sub = (sub = [])"
| "Contains (c # cs) sub = (is_prefix sub (c # cs) \<or> Contains cs sub)"

text \<open>\<^verbatim>\<open>strings.TrimRight(s, "/")\<close>\<close>

fun trim_right_slash :: "string \<Rightarrow> string" where
  "trim_right_slash s = rev (dropWhile (\<lambda>c. c = CHR ''/'') (rev s))"

definition hex_digit :: "nat \<Rightarrow> char" where
  "hex_digit n = (if n < 10 then char_of (48 + n) else char_of (55 + n))"

definition query_char :: "char \<Rightarrow> string" where
  "query_char c = (let n = (of_char c :: nat) in
     if 48 \<le> n \<and> n \<le> 57 \<or> 65 \<le> n \<and> n \<le> 90 \<or> 97 \<le> n \<and> n \<le> 122 \<or>
        c = CHR ''-'' \<or> c = CHR ''_'' \<or> c = CHR ''.'' \<or> c = CHR ''~'' then [c]
     else if c = CHR '' '' then ''+''
     else [CHR ''%'', hex_digit (n div 16), hex_digit (n mod 16)])"

text \<open>\<^verbatim>\<open>url.QueryEscape\<close>\<close>

definition QueryEscape :: "string \<Rightarrow> string" where
  "QueryEscape s = concat (map query_char s)"

fun strip_first :: "string list \<Rightarrow> string \<Rightarrow> string option" where
  "strip_first [] s = None"
| "strip_first (p # ps) s =
     (if p \<noteq> [] \<and> is_prefix p s then Some (drop (length p) s) else strip_first ps s)"

lemma is_prefix_length: "is_prefix xs ys \<Longrightarrow> length xs \<le> length ys"
  by (induction xs ys rule: is_prefix.induct) auto

lemma strip_first_shorter: "strip_first ps s = Some t \<Longrightarrow> length t < length s"
proof (induction ps)
  case (Cons p ps)
  show ?case
  proof (cases "p \<noteq> [] \<and> is_prefix p s")
    case True
    with Cons.prems is_prefix_length [of p s] show ?thesis by (cases p) auto
  next
    case False
    with Cons show ?thesis by auto
  qed
qed simp

lemma strip_first_drop: "strip_first ps s = Some t \<Longrightarrow> \<exists>n. t = drop n s"
  by (induction ps) (auto split: if_splits)

lemma is_prefix_take: "is_prefix p (take n s) \<Longrightarrow> is_prefix p s"
proof (induction p s arbitrary: n rule: is_prefix.induct)
  case (3 x xs y ys)
  then show ?case by (cases n) auto
qed auto

lemma strip_first_take: "strip_first ps s = None \<Longrightarrow> strip_first ps (take n s) = None"
  by (induction ps) (auto split: if_splits dest: is_prefix_take)

function trim_left :: "string list \<Rightarrow> string \<Rightarrow> string" where
  "trim_left ps s = (case strip_first ps s of None \<Rightarrow> s | Some t \<Rightarrow> trim_left ps t)"
  by pat_completeness auto
termination
  by (relation "measure (\<lambda>(ps, s). length s)") (auto dest: strip_first_shorter)

declare trim_left.simps [simp del]

definition TrimSpace :: "string \<Rightarrow> string" where
  "TrimSpace s = rev (trim_left (map rev space_seqs) (rev (trim_left space_seqs s)))"

text \<open>
  \<^verbatim>\<open>strings.ToLower\<close> on ASCII: the bytes A-Z become a-z and every other byte stays. (The Unicode
  case mapping of non-ASCII letters is outside the model.)
\<close>

definition lower_char :: "char \<Rightarrow> char" where
  "lower_char c = (if 65 \<le> (of_char c :: nat) \<and> (of_char c :: nat) \<le> 90
     then char_of ((of_char c :: nat) + 32) else c)"

definition ToLower :: "string \<Rightarrow> string" where
  "ToLower s = map lower_char s"

lemma lower_char_idem [simp]: "lower_char (lower_char c) = lower_char c"
proof (cases "65 \<le> (of_char c :: nat) \<and> (of_char c :: nat) \<le> 90")
  case True
  then have "(of_char (char_of ((of_char c :: nat) + 32) :: char) :: nat) = of_char c + 32"
    by (simp add: of_char_of)
  with True show ?thesis by (simp add: lower_char_def)
next
  case False
  then show ?thesis by (auto simp: lower_char_def)
qed

lemma ToLower_idem [simp]: "ToLower (ToLower s) = ToLower s"
  by (simp add: ToLower_def)

lemma trim_left_fix: "strip_first ps s = None \<Longrightarrow> trim_left ps s = s"
  by (simp add: trim_left.simps)

lemma trim_left_stripped: "strip_first ps (trim_left ps s) = None"
proof (induction ps s rule: trim_left.induct)
  case (1 ps s)
  then show ?case
    by (cases "strip_first ps s") (simp_all add: trim_left.simps [of ps s])
qed

lemma trim_left_idem [simp]: "trim_left ps (trim_left ps s) = trim_left ps s"
  by (rule trim_left_fix) (rule trim_left_stripped)

lemma trim_left_drop: "\<exists>n. trim_left ps s = drop n s"
proof (induction ps s rule: trim_left.induct)
  case (1 ps s)
  show ?case
  proof (cases "strip_first ps s")
    case None
    then have "trim_left ps s = drop 0 s" by (simp add: trim_left.simps [of ps s])
    then show ?thesis by blast
  next
    case (Some t)
    with 1 obtain n m where "trim_left ps t = drop n t" "t = drop m s"
      using strip_first_drop by blast
    then show ?thesis using Some by (auto simp: trim_left.simps [of ps s])
  qed
qed

lemma TrimSpace_idem [simp]: "TrimSpace (TrimSpace s) = TrimSpace s"
proof -
  let ?l = "trim_left space_seqs s" and ?rs = "map rev space_seqs"
  obtain n where n: "trim_left ?rs (rev ?l) = drop n (rev ?l)"
    using trim_left_drop by blast
  have "TrimSpace s = take (length ?l - n) ?l"
    by (simp add: TrimSpace_def n rev_drop)
  then have "strip_first space_seqs (TrimSpace s) = None"
    using strip_first_take trim_left_stripped by metis
  then have "trim_left space_seqs (TrimSpace s) = TrimSpace s"
    by (rule trim_left_fix)
  then show ?thesis by (simp add: TrimSpace_def)
qed

text \<open>\<^verbatim>\<open>utf8.RuneCountInString\<close> of a valid text: the bytes that do not continue a rune.\<close>

definition RuneCountInString :: "string \<Rightarrow> nat" where
  "RuneCountInString s = length (filter (\<lambda>c. \<not> (128 \<le> (of_char c :: nat) \<and> (of_char c :: nat) < 192)) s)"

section \<open>Numbers in text\<close>

definition is_digit :: "char \<Rightarrow> bool" where
  "is_digit c \<longleftrightarrow> 48 \<le> (of_char c :: nat) \<and> (of_char c :: nat) \<le> 57"

definition digit_val :: "char \<Rightarrow> int" where
  "digit_val c = int (of_char c :: nat) - 48"

text \<open>\<^verbatim>\<open>strconv.Atoi\<close>: an optional sign, at least one digit, in range of int64.\<close>

fun digits_val :: "int \<Rightarrow> string \<Rightarrow> int option" where
  "digits_val acc [] = Some acc"
| "digits_val acc (c # cs) = (if is_digit c then digits_val (10 * acc + digit_val c) cs else None)"

definition Atoi :: "string \<Rightarrow> int option" where
  "Atoi s =
     (let (neg, ds) = (case s of c # cs \<Rightarrow> if c = CHR ''-'' then (True, cs) else if c = CHR ''+'' then (False, cs)
                         else (False, s) | [] \<Rightarrow> (False, []))
      in if ds = [] then None
         else case digits_val 0 ds of
           None \<Rightarrow> None
         | Some n \<Rightarrow> let v = (if neg then - n else n)
             in if - (2 ^ 63) \<le> v \<and> v < 2 ^ 63 then Some v else None)"

section \<open>Tables as lists of rows\<close>

text \<open>\<^verbatim>\<open>LEAST(GREATEST(p_limit, 1), cap)\<close> as the length of a batch.\<close>

definition clamp_limit :: "int \<Rightarrow> int \<Rightarrow> nat" where
  "clamp_limit p_limit cap = nat (min (max p_limit 1) cap)"

lemma find_SomeD: "find P xs = Some x \<Longrightarrow> x \<in> set xs \<and> P x"
  by (induction xs) (auto split: if_splits)

lemma find_NoneD: "find P xs = None \<Longrightarrow> x \<in> set xs \<Longrightarrow> \<not> P x"
  by (auto simp: find_None_iff)

lemma find_is_Some: "x \<in> set xs \<Longrightarrow> P x \<Longrightarrow> \<exists>y. find P xs = Some y"
  by (induction xs) auto

lemma find_unique:
  assumes "distinct (map key xs)" and "x \<in> set xs" and "P x"
    and "\<And>y. y \<in> set xs \<Longrightarrow> P y \<Longrightarrow> key y = key x"
  shows "find P xs = Some x"
  using assms
proof (induction xs)
  case (Cons a xs)
  show ?case
  proof (cases "P a")
    case True
    then have "key a = key x" using Cons.prems(4) by simp
    then have "a = x" using Cons.prems(1,2) by (metis distinct.simps(2) image_eqI list.set_map
          list.simps(9) set_ConsD)
    with True show ?thesis by simp
  next
    case False
    then have "x \<in> set xs" using Cons.prems(2,3) by auto
    moreover have "distinct (map key xs)" using Cons.prems(1) by simp
    ultimately have "find P xs = Some x"
      using Cons.IH Cons.prems(3,4) by (metis list.set_intros(2))
    with False show ?thesis by simp
  qed
qed simp

lemma inj_key:
  "distinct (map key xs) \<Longrightarrow> x \<in> set xs \<Longrightarrow> y \<in> set xs \<Longrightarrow> key x = key y \<Longrightarrow> x = y"
  by (induction xs) (auto simp: image_iff)

lemma find_append:
  "find P (xs @ ys) = (case find P xs of None \<Rightarrow> find P ys | Some x \<Rightarrow> Some x)"
  by (induction xs) auto

lemma map_key_update:
  "(\<And>x. key (g x) = key x) \<Longrightarrow> map key (map (\<lambda>x. if P x then g x else x) xs) = map key xs"
  by simp

lemma find_map_update:
  "(\<And>x. P (g x) = P x) \<Longrightarrow>
     find P (map (\<lambda>x. if Q x then g x else x) xs) =
     map_option (\<lambda>x. if Q x then g x else x) (find P xs)"
  by (induction xs) auto

lemma filter_map_frame:
  "(\<And>x. P x \<Longrightarrow> \<not> V x \<and> \<not> V (upd x)) \<Longrightarrow> filter V (map (\<lambda>x. if P x then upd x else x) xs) = filter V xs"
  by (induction xs) auto

lemma map_filter_frame:
  "(\<And>x. V (upd x) = V x) \<Longrightarrow> (\<And>x. g (upd x) = g x) \<Longrightarrow>
     map g (filter V (map (\<lambda>x. if P x then upd x else x) xs)) = map g (filter V xs)"
  by (induction xs) auto

lemma distinct_rename:
  assumes "distinct (map key xs)" and "distinct (map ident xs)" and "\<And>x. P x \<longleftrightarrow> ident x = i" and "\<And>x. ident (upd x) = ident x"
    and "\<And>x y. x \<in> set xs \<Longrightarrow> y \<in> set xs \<Longrightarrow> P x \<Longrightarrow> \<not> P y \<Longrightarrow> key (upd x) \<noteq> key y"
  shows "distinct (map key (map (\<lambda>x. if P x then upd x else x) xs))"
  using assms(1,2,5)
proof (induction xs)
  case (Cons x xs)
  have IH: "distinct (map key (map (\<lambda>x. if P x then upd x else x) xs))" using Cons by (intro Cons.IH) auto
  have others: "\<not> (P x \<and> P y)" if "y \<in> set xs" for y using Cons.prems(2) that assms(3) by (metis distinct.simps(2) image_eqI list.simps(9) set_map)
  have "key (if P x then upd x else x) \<noteq> key (if P y then upd y else y)" if "y \<in> set xs" for y
    using that others [OF that] Cons.prems(1) Cons.prems(3) [of x y] Cons.prems(3) [of y x] by (cases "P x"; cases "P y") (auto simp: image_iff)
  then have "key (if P x then upd x else x) \<notin> set (map key (map (\<lambda>x. if P x then upd x else x) xs))"
    unfolding set_map image_image by blast
  then show ?case using IH by (simp del: map_map)
qed simp

lemma list_ex_update: "list_ex Q (map (\<lambda>x. if P x then upd x else x) xs) \<longleftrightarrow> list_ex (\<lambda>x. Q (if P x then upd x else x)) xs"
  by (induction xs) simp_all

lemma snd_case_pair: "snd (case p of (r, d') \<Rightarrow> (g r, d')) = snd p"
  by (cases p) simp

end
