(* ===== verification/Platform.thy ===== *)
theory Platform
  imports Prelude
begin

text \<open>
  The packages under \<^verbatim>\<open>platform/\<close> that every service shares.

  \<^item> \<^verbatim>\<open>platform/tenantctx\<close>: the tenant context of a request and its constructor.
  \<^item> \<^verbatim>\<open>platform/internalauth\<close>: the shared-secret verifiers of service-to-service calls.
  \<^item> \<^verbatim>\<open>platform/adminauth\<close>: the trusted context of a request, the admin session client and the
    role predicates.
  \<^item> \<^verbatim>\<open>platform/schedulingdeps\<close>: the private REST client of barber, catalog and tenant service.
  \<^item> \<^verbatim>\<open>platform/db\<close>: the tenant-scoped transaction.

  Code outside the repository is a parameter: the text form of identifiers (google/uuid), the
  HTTP transport, JSON decoding, the address grammar of \<^verbatim>\<open>net/mail\<close>, SHA-256 and the RFC 3339
  printer. They are the fields of the record \<open>externals\<close> or explicit arguments.
\<close>

record externals =
  uuid_String :: "uuid \<Rightarrow> string"
  uuid_Parse :: "string \<Rightarrow> uuid option"
  mail_ParseAddress :: "string \<Rightarrow> string option"
  sha256_hex :: "string \<Rightarrow> string"
  json_strings :: "string list \<Rightarrow> string"
  rfc3339nano :: "time \<Rightarrow> string"

section \<open>HTTP requests and responses\<close>

record http_req =
  hr_method :: string
  hr_url :: string
  hr_headers :: "(string \<times> string) list"

text \<open>The result of \<^verbatim>\<open>http.Client.Do\<close>: a transport error, or a status code and a body.\<close>

datatype http_resp = TransportError string | Response int string

text \<open>A request as fiber hands it to a handler.\<close>

record fiber_ctx =
  c_Get :: "string \<Rightarrow> string"
  c_Params :: "string \<Rightarrow> string"
  c_Query :: "string \<Rightarrow> string"
  c_Body :: string

datatype 'a response = SendStatus int | JSON int 'a | JSONError int string

section \<open>platform/tenantctx\<close>

definition TenantIDHeader :: string where
  "TenantIDHeader = ''X-Tenant-ID''"

definition AppTypeHeader :: string where
  "AppTypeHeader = ''X-App-Type''"

definition RequestIDHeader :: string where
  "RequestIDHeader = ''X-Request-ID''"

record tenant_ctx =
  TenantID :: uuid
  AppType :: string
  RequestID :: string

definition tenantctx_New :: "externals \<Rightarrow> string \<Rightarrow> string \<Rightarrow> string \<Rightarrow> string + tenant_ctx" where
  "tenantctx_New X tenantID appType requestID =
     (case uuid_Parse X tenantID of
        None \<Rightarrow> Inl ''invalid tenant id''
      | Some i \<Rightarrow>
          if appType \<noteq> ''booking'' \<and> appType \<noteq> ''admin'' then Inl ''invalid app type''
          else Inr \<lparr>TenantID = i, AppType = appType, RequestID = requestID\<rparr>)"

section \<open>platform/internalauth\<close>

definition InternalHeaderName :: string where
  "InternalHeaderName = ''X-Internal-Token''"

text \<open>
  \<^verbatim>\<open>TokenVerifier.Verify\<close> and \<^verbatim>\<open>MultiTokenVerifier.Verify\<close>; the result is whether the error
  is nil. \<^verbatim>\<open>subtle.ConstantTimeCompare\<close> is equality of the bytes.
\<close>

definition TokenVerifier_Verify :: "string \<Rightarrow> string \<Rightarrow> bool" where
  "TokenVerifier_Verify expected presented \<longleftrightarrow>
     \<not> (expected = [] \<or> presented = [] \<or> expected \<noteq> presented)"

definition NewMultiTokenVerifier :: "string list \<Rightarrow> string list" where
  "NewMultiTokenVerifier expected = filter (\<lambda>token. token \<noteq> []) expected"

fun any_token :: "string list \<Rightarrow> string \<Rightarrow> bool" where
  "any_token [] presented = False"
| "any_token (expected # rest) presented =
     (if expected = presented then True else any_token rest presented)"

definition MultiTokenVerifier_Verify :: "string list \<Rightarrow> string \<Rightarrow> bool" where
  "MultiTokenVerifier_Verify expected presented =
     (if presented = [] then False else any_token expected presented)"

lemma any_token_iff: "any_token ts p \<longleftrightarrow> p \<in> set ts"
  by (induction ts) auto

lemma MultiTokenVerifier_correct:
  "MultiTokenVerifier_Verify (NewMultiTokenVerifier ts) p \<longleftrightarrow> p \<noteq> [] \<and> p \<in> set ts"
  by (auto simp: MultiTokenVerifier_Verify_def NewMultiTokenVerifier_def any_token_iff)

section \<open>platform/adminauth\<close>

record admin_principal =
  ap_Role :: string
  ap_TenantID :: string
  ap_IdentityID :: uuid
  ap_MustChangePassword :: bool

text \<open>\<^verbatim>\<open>Context\<close>: only infrastructure trust is validated.\<close>

definition adminauth_Context ::
  "externals \<Rightarrow> (string \<Rightarrow> bool) \<Rightarrow> fiber_ctx \<Rightarrow> string + tenant_ctx" where
  "adminauth_Context X verify c =
     (if \<not> verify (c_Get c InternalHeaderName) then Inl ''internal authentication failed''
      else tenantctx_New X (c_Get c TenantIDHeader) (c_Get c AppTypeHeader)
             (c_Get c RequestIDHeader))"

definition tenant_headers :: "externals \<Rightarrow> string \<Rightarrow> tenant_ctx \<Rightarrow> (string \<times> string) list" where
  "tenant_headers X token t =
     [(InternalHeaderName, token), (TenantIDHeader, uuid_String X (TenantID t)),
      (AppTypeHeader, AppType t), (RequestIDHeader, RequestID t)]"

record auth_client =
  ac_baseURL :: string
  ac_token :: string
  ac_Do :: "http_req \<Rightarrow> http_resp"
  ac_decode :: "string \<Rightarrow> admin_principal option"

definition Authenticate ::
  "externals \<Rightarrow> auth_client \<Rightarrow> tenant_ctx \<Rightarrow> string \<Rightarrow> string + admin_principal" where
  "Authenticate X cl t cookie =
     (if AppType t \<noteq> ''admin'' \<or> cookie = [] then Inl ''admin session required''
      else case ac_Do cl
          \<lparr>hr_method = ''GET'', hr_url = ac_baseURL cl @ ''/internal/v1/auth/me'',
           hr_headers = tenant_headers X (ac_token cl) t @ [(''Cookie'', cookie)]\<rparr> of
        TransportError e \<Rightarrow> Inl e
      | Response status body \<Rightarrow>
          if status \<noteq> 200 then Inl ''invalid admin session''
          else case ac_decode cl body of
            None \<Rightarrow> Inl ''invalid response''
          | Some p \<Rightarrow>
              if ap_TenantID p \<noteq> uuid_String X (TenantID t) then Inl ''tenant mismatch''
              else if ap_MustChangePassword p then Inl ''password change required''
              else Inr p)"

datatype membership_error = ErrBarberMembershipIneligible | MembershipLookupError string

definition EnsureBarberMembership ::
  "externals \<Rightarrow> auth_client \<Rightarrow> tenant_ctx \<Rightarrow> uuid \<Rightarrow> membership_error option" where
  "EnsureBarberMembership X cl t identityID =
     (if AppType t \<noteq> ''admin'' \<or> identityID = uuid_nil
      then Some (MembershipLookupError ''invalid barber membership lookup'')
      else case ac_Do cl
          \<lparr>hr_method = ''GET'',
           hr_url = ac_baseURL cl @ ''/internal/v1/auth/members/'' @
             uuid_String X identityID @ ''/barber-eligibility'',
           hr_headers = tenant_headers X (ac_token cl) t\<rparr> of
        TransportError e \<Rightarrow> Some (MembershipLookupError e)
      | Response status body \<Rightarrow>
          if status = 204 then None
          else if status = 404 then Some ErrBarberMembershipIneligible
          else Some (MembershipLookupError ''barber membership lookup failed''))"

definition CanManageMembers :: "string \<Rightarrow> bool" where
  "CanManageMembers role \<longleftrightarrow> role = ''OWNER''"

definition CanManageTenantSettings :: "string \<Rightarrow> bool" where
  "CanManageTenantSettings role \<longleftrightarrow> role = ''OWNER'' \<or> role = ''MANAGER''"

definition CanWrite :: "string \<Rightarrow> bool" where
  "CanWrite role \<longleftrightarrow> role = ''OWNER'' \<or> role = ''MANAGER''"

definition CanRead :: "string \<Rightarrow> bool" where
  "CanRead role \<longleftrightarrow>
     role = ''OWNER'' \<or> role = ''MANAGER'' \<or> role = ''BARBER'' \<or> role = ''RECEPTIONIST''"

section \<open>platform/schedulingdeps\<close>

record dep_service =
  DurationMinutes :: int
  BufferBeforeMinutes :: int
  BufferAfterMinutes :: int

record dep_barber =
  db_IdentityID :: "uuid option"

record tenant_settings_view =
  Timezone :: string
  BookingIntervalMinutes :: int
  CancellationPolicy :: string
  CancellationNoticeMinutes :: int

datatype dep_error = DepErrNotFound | DepRequestFailed | DepTransport string | DepDecode | DepOther string

record sched_client =
  sc_barberURL :: string
  sc_catalogURL :: string
  sc_tenantURL :: string
  sc_token :: string
  sc_Do :: "http_req \<Rightarrow> http_resp"
  sc_decode_barber :: "string \<Rightarrow> dep_barber option"
  sc_decode_service :: "string \<Rightarrow> dep_service option"
  sc_decode_settings :: "string \<Rightarrow> tenant_settings_view option"

text \<open>
  \<^verbatim>\<open>Client.request\<close>: \<open>decode = None\<close> is the call with \<^verbatim>\<open>out == nil\<close>, which does not read the
  body.
\<close>

definition sched_request ::
  "externals \<Rightarrow> sched_client \<Rightarrow> tenant_ctx \<Rightarrow> string \<Rightarrow> (string \<Rightarrow> 'a option) option \<Rightarrow>
     dep_error + 'a option" where
  "sched_request X cl t url decode =
     (case sc_Do cl \<lparr>hr_method = ''GET'', hr_url = url,
                     hr_headers = tenant_headers X (sc_token cl) t\<rparr> of
        TransportError e \<Rightarrow> Inl (DepTransport e)
      | Response status body \<Rightarrow>
          if status = 404 then Inl DepErrNotFound
          else if status < 200 \<or> status \<ge> 300 then Inl DepRequestFailed
          else case decode of
            None \<Rightarrow> Inr None
          | Some d \<Rightarrow> (case d body of None \<Rightarrow> Inl DepDecode | Some v \<Rightarrow> Inr (Some v)))"

definition require_value :: "dep_error + 'a option \<Rightarrow> dep_error + 'a" where
  "require_value r = (case r of Inl e \<Rightarrow> Inl e | Inr None \<Rightarrow> Inl DepDecode | Inr (Some v) \<Rightarrow> Inr v)"

definition sd_Barber :: "externals \<Rightarrow> sched_client \<Rightarrow> tenant_ctx \<Rightarrow> uuid \<Rightarrow> dep_error + dep_barber" where
  "sd_Barber X cl t i = require_value (sched_request X cl t
     (sc_barberURL cl @ ''/internal/v1/barbers/'' @ uuid_String X i @ ''/scheduling-access'')
     (Some (sc_decode_barber cl)))"

definition sd_BranchBarber ::
  "externals \<Rightarrow> sched_client \<Rightarrow> tenant_ctx \<Rightarrow> uuid \<Rightarrow> uuid \<Rightarrow> dep_error + unit" where
  "sd_BranchBarber X cl t branchID barberID =
     (case sched_request X cl t
        (sc_barberURL cl @ ''/internal/v1/branches/'' @ uuid_String X branchID @ ''/barbers/'' @
           uuid_String X barberID @ ''/booking-access'') (None :: (string \<Rightarrow> unit option) option) of
        Inl e \<Rightarrow> Inl e | Inr _ \<Rightarrow> Inr ())"

definition sd_Service ::
  "externals \<Rightarrow> sched_client \<Rightarrow> tenant_ctx \<Rightarrow> uuid \<Rightarrow> uuid \<Rightarrow> dep_error + dep_service" where
  "sd_Service X cl t b s = require_value (sched_request X cl t
     (sc_catalogURL cl @ ''/internal/v1/barbers/'' @ uuid_String X b @ ''/services/'' @
        uuid_String X s @ ''/availability'')
     (Some (sc_decode_service cl)))"

definition sd_Settings :: "externals \<Rightarrow> sched_client \<Rightarrow> tenant_ctx \<Rightarrow> dep_error + tenant_settings_view" where
  "sd_Settings X cl t = require_value (sched_request X cl t
     (sc_tenantURL cl @ ''/internal/v1/public/config'') (Some (sc_decode_settings cl)))"

section \<open>platform/db: the tenant-scoped transaction\<close>

text \<open>
  Where a transaction can fail for reasons outside the statements' own semantics: opening it,
  setting the tenant, one of the statements (a lost connection, a cancelled context), or the
  commit. Whatever the place, the deferred rollback leaves the database as it was.
\<close>

datatype tx_fault = NoFault | BeginFails | SetConfigFails | StatementFails | CommitFails

text \<open>
  The errors a repository returns: its own sentinels, \<^verbatim>\<open>pgx.ErrNoRows\<close>, a value that does not fit
  the variable it is scanned into, an error with an SQLSTATE, or a fault of the transaction.
\<close>

datatype repo_error =
    RepoNotFound
  | RepoIdempotencyConflict
  | RepoInvalidTransition
  | RepoInvalidRecipient
  | RepoConflict
  | ErrNoRows
  | ScanError
  | PgError string
  | TxFault tx_fault

definition WithTenantTx ::
  "tx_fault \<Rightarrow> uuid \<Rightarrow> (uuid \<Rightarrow> 'db \<Rightarrow> repo_error + ('a \<times> 'db)) \<Rightarrow> 'db \<Rightarrow> (repo_error + 'a) \<times> 'db" where
  "WithTenantTx f tenantID fn d =
     (if f = BeginFails \<or> f = SetConfigFails \<or> f = StatementFails then (Inl (TxFault f), d)
      else case fn tenantID d of
        Inl e \<Rightarrow> (Inl e, d)
      | Inr (v, d') \<Rightarrow> if f = CommitFails then (Inl (TxFault f), d) else (Inr v, d'))"

text \<open>A failed transaction leaves no trace, whatever it did before it failed.\<close>

lemma WithTenantTx_atomic: "WithTenantTx f t fn d = (Inl e, d') \<Longrightarrow> d' = d"
  by (auto simp: WithTenantTx_def split: if_splits sum.splits)

lemma WithTenantTx_ok:
  "WithTenantTx f t fn d = (Inr v, d') \<longleftrightarrow> f = NoFault \<and> fn t d = Inr (v, d')"
  by (cases f) (auto simp: WithTenantTx_def split: sum.splits)

lemma WithTenantTx_cases:
  obtains e where "WithTenantTx f t fn d = (Inl e, d)"
  | v d' where "f = NoFault" "fn t d = Inr (v, d')" "WithTenantTx f t fn d = (Inr v, d')"
  by (cases f; cases "fn t d") (auto simp: WithTenantTx_def)

text \<open>An invariant kept by the body is kept by the transaction.\<close>

lemma WithTenantTx_inv:
  assumes "\<And>v d'. fn t d = Inr (v, d') \<Longrightarrow> P d'" and "P d"
  shows "P (snd (WithTenantTx f t fn d))"
  using assms by (cases rule: WithTenantTx_cases [of f t fn d]) auto

lemma WithTenantTx_NoFault:
  "WithTenantTx NoFault t fn d =
     (case fn t d of Inl e \<Rightarrow> (Inl e, d) | Inr (v, d') \<Rightarrow> (Inr v, d'))"
  by (auto simp: WithTenantTx_def split: sum.splits)

text \<open>A statement run on the pool, outside a transaction of the caller: it takes effect or fails.\<close>

definition pool_exec ::
  "tx_fault \<Rightarrow> ('db \<Rightarrow> repo_error + ('a \<times> 'db)) \<Rightarrow> 'db \<Rightarrow> (repo_error + 'a) \<times> 'db" where
  "pool_exec f fn d =
     (if f \<noteq> NoFault then (Inl (TxFault f), d)
      else case fn d of Inl e \<Rightarrow> (Inl e, d) | Inr (v, d') \<Rightarrow> (Inr v, d'))"

lemma pool_exec_ok: "pool_exec f fn d = (Inr v, d') \<longleftrightarrow> f = NoFault \<and> fn d = Inr (v, d')"
  by (cases "fn d") (auto simp: pool_exec_def)

lemma pool_exec_inv:
  "(\<And>v d'. fn d = Inr (v, d') \<Longrightarrow> P d') \<Longrightarrow> P d \<Longrightarrow> P (snd (pool_exec f fn d))"
  by (auto simp: pool_exec_def split: sum.splits)

text \<open>A transaction that only reads.\<close>

definition tenant_read :: "tx_fault \<Rightarrow> repo_error + 'a \<Rightarrow> repo_error + 'a" where
  "tenant_read f r = (if f = NoFault then r else if f = CommitFails then (case r of Inl e \<Rightarrow> Inl e | Inr _ \<Rightarrow> Inl (TxFault f))
     else Inl (TxFault f))"

lemma tenant_read_ok: "tenant_read f r = Inr v \<longleftrightarrow> f = NoFault \<and> r = Inr v"
  by (cases f) (auto simp: tenant_read_def split: sum.splits)

lemma tenant_read_NoFault [simp]: "tenant_read NoFault r = r"
  by (simp add: tenant_read_def)

lemma tenant_read_tx: "tenant_read f r = fst (WithTenantTx f t (\<lambda>_ d. case r of Inl e \<Rightarrow> Inl e | Inr v \<Rightarrow> Inr (v, d)) d)"
  by (cases f) (auto simp: tenant_read_def WithTenantTx_def split: sum.splits)

text \<open>What the body leaves alone, the transaction leaves alone.\<close>

lemma tx_frame:
  assumes "\<And>v d'. fn t d = Inr (v, d') \<Longrightarrow> g d' = g d"
  shows "g (snd (WithTenantTx f t fn d)) = g d"
  by (rule WithTenantTx_inv [where P = "\<lambda>d'. g d' = g d"]) (use assms in auto)

lemma pool_frame:
  assumes "\<And>v d'. fn d = Inr (v, d') \<Longrightarrow> g d' = g d"
  shows "g (snd (pool_exec f fn d)) = g d"
  by (rule pool_exec_inv [where P = "\<lambda>d'. g d' = g d"]) (use assms in auto)

end
