(* ===== verification/Appt_Store.thy ===== *)
theory Appt_Store
  imports Platform
begin

text \<open>
  The store of appointment-service: the four tables of its migrations with their constraints, and
  the operations of \<^verbatim>\<open>internal/repository/repository.go\<close> on them.

  A table is the list of its rows in insertion order. An SQL statement of the source is one
  definition; it returns \<open>Inl\<close> an error with the SQLSTATE the violated constraint raises, or the
  new tables. A repository operation runs its statements inside \<open>WithTenantTx\<close>. Values the database
  generates (\<^verbatim>\<open>gen_random_uuid()\<close>, \<^verbatim>\<open>now()\<close>, \<^verbatim>\<open>clock_timestamp()\<close>) come in the record \<open>pg_env\<close>.
\<close>

section \<open>internal/domain\<close>

record create_input =
  i_BranchID :: uuid
  i_BarberID :: uuid
  i_ServiceID :: uuid
  i_CustomerName :: string
  i_CustomerContact :: string
  i_StartAt :: time
  i_CustomerID :: "uuid option"

record appointment =
  a_ID :: uuid
  a_BranchID :: uuid
  a_BarberID :: uuid
  a_ServiceID :: uuid
  a_CustomerName :: string
  a_CustomerContact :: string
  a_StartAt :: time
  a_EndAt :: time
  a_OccupiedStartAt :: time
  a_OccupiedEndAt :: time
  a_Status :: string
  a_CanCancel :: bool
  a_CancellationDeadline :: "time option"

record event_payload =
  p_AppointmentID :: uuid
  p_BranchID :: uuid
  p_BarberID :: uuid
  p_ServiceID :: uuid
  p_StartAt :: time
  p_EndAt :: time
  p_Status :: string

record outbox_event =
  ob_ID :: uuid
  ob_TenantID :: uuid
  ob_AggregateID :: uuid
  ob_Type :: string
  ob_Payload :: event_payload
  ob_OccurredAt :: time

section \<open>Tables\<close>

record appointment_row =
  r_id :: uuid
  r_tenant_id :: uuid
  r_branch_id :: uuid
  r_barber_id :: uuid
  r_service_id :: uuid
  r_customer_id :: "uuid option"
  r_customer_name :: string
  r_customer_contact :: string
  r_start_at :: time
  r_end_at :: time
  r_occupied_start_at :: time
  r_occupied_end_at :: time
  r_status :: string
  r_created_at :: time
  r_updated_at :: time

record event_row =
  e_id :: uuid
  e_tenant_id :: uuid
  e_appointment_id :: uuid
  e_type :: string
  e_payload :: event_payload
  e_created_at :: time

record key_row =
  k_tenant_id :: uuid
  k_principal_scope :: string
  k_operation :: string
  k_key :: string
  k_fingerprint :: string
  k_appointment_id :: uuid
  k_created_at :: time

record outbox_row =
  o_id :: uuid
  o_tenant_id :: uuid
  o_aggregate_id :: uuid
  o_type :: string
  o_payload :: event_payload
  o_created_at :: time
  o_published_at :: "time option"
  o_publishing_at :: "time option"
  o_publish_attempts :: int
  o_failed_at :: "time option"

record appt_db =
  appointments :: "appointment_row list"
  appointment_events :: "event_row list"
  idempotency_keys :: "key_row list"
  outbox_events :: "outbox_row list"

record pg_env =
  pg_now :: time
  pg_uuid :: "nat \<Rightarrow> uuid"

definition empty_appt_db :: appt_db where
  "empty_appt_db = \<lparr>appointments = [], appointment_events = [], idempotency_keys = [],
     outbox_events = []\<rparr>"

section \<open>Constraints of the migrations\<close>

definition statuses :: "string list" where
  "statuses = [''pending'', ''confirmed'', ''cancelled'', ''completed'', ''no_show'']"

definition active_status :: "string \<Rightarrow> bool" where
  "active_status s \<longleftrightarrow> s = ''pending'' \<or> s = ''confirmed''"

definition row_checks :: "appointment_row \<Rightarrow> bool" where
  "row_checks r \<longleftrightarrow> r_status r \<in> set statuses \<and> r_start_at r < r_end_at r \<and>
     r_occupied_start_at r < r_occupied_end_at r"

text \<open>\<^verbatim>\<open>tstzrange(s, e, '[)') && tstzrange(s', e', '[)')\<close> on non-empty ranges.\<close>

definition overlaps :: "time \<Rightarrow> time \<Rightarrow> time \<Rightarrow> time \<Rightarrow> bool" where
  "overlaps s e s' e' \<longleftrightarrow> s < e' \<and> s' < e"

text \<open>The exclusion constraint \<^verbatim>\<open>appointments_no_overlap\<close>.\<close>

definition excluded_pair :: "appointment_row \<Rightarrow> appointment_row \<Rightarrow> bool" where
  "excluded_pair r r' \<longleftrightarrow> active_status (r_status r) \<and> active_status (r_status r') \<and>
     r_tenant_id r = r_tenant_id r' \<and> r_barber_id r = r_barber_id r' \<and>
     overlaps (r_occupied_start_at r) (r_occupied_end_at r)
              (r_occupied_start_at r') (r_occupied_end_at r')"

definition key_char :: "char \<Rightarrow> bool" where
  "key_char c = (let n = (of_char c :: nat) in
     (65 \<le> n \<and> n \<le> 90) \<or> (97 \<le> n \<and> n \<le> 122) \<or> (48 \<le> n \<and> n \<le> 57) \<or>
     c = CHR ''.'' \<or> c = CHR ''_'' \<or> c = CHR '':'' \<or> c = CHR ''-'')"

definition hex_char :: "char \<Rightarrow> bool" where
  "hex_char c = (let n = (of_char c :: nat) in (48 \<le> n \<and> n \<le> 57) \<or> (97 \<le> n \<and> n \<le> 102))"

definition key_checks :: "key_row \<Rightarrow> bool" where
  "key_checks k \<longleftrightarrow> 1 \<le> length (k_key k) \<and> length (k_key k) \<le> 128 \<and> list_all key_char (k_key k) \<and>
     length (k_fingerprint k) = 64 \<and> list_all hex_char (k_fingerprint k)"

definition key_pk :: "key_row \<Rightarrow> uuid \<times> string \<times> string \<times> string" where
  "key_pk k = (k_tenant_id k, k_principal_scope k, k_operation k, k_key k)"

section \<open>Statements\<close>

definition sql_find_appointment :: "uuid \<Rightarrow> uuid \<Rightarrow> appt_db \<Rightarrow> appointment_row option" where
  "sql_find_appointment t i d =
     find (\<lambda>r. r_tenant_id r = t \<and> r_id r = i) (appointments d)"

definition sql_insert_appointment ::
  "uuid \<Rightarrow> appointment_row \<Rightarrow> appt_db \<Rightarrow> repo_error + appt_db" where
  "sql_insert_appointment ctx r d =
     (if r_tenant_id r \<noteq> ctx then Inl (PgError ''42501'')
      else if \<not> row_checks r then Inl (PgError ''23514'')
      else if r_id r \<in> r_id ` set (appointments d) then Inl (PgError ''23505'')
      else if list_ex (excluded_pair r) (appointments d) then Inl (PgError ''23P01'')
      else Inr (d\<lparr>appointments := appointments d @ [r]\<rparr>))"

definition sql_update_appointment ::
  "uuid \<Rightarrow> uuid \<Rightarrow> (appointment_row \<Rightarrow> appointment_row) \<Rightarrow> appt_db \<Rightarrow>
     repo_error + (appointment_row \<times> appt_db)" where
  "sql_update_appointment ctx i f d =
     (case sql_find_appointment ctx i d of
        None \<Rightarrow> Inl ErrNoRows
      | Some r \<Rightarrow>
          if \<not> row_checks (f r) then Inl (PgError ''23514'')
          else if list_ex (\<lambda>r'. r_id r' \<noteq> i \<and> excluded_pair (f r) r') (appointments d)
          then Inl (PgError ''23P01'')
          else Inr (f r, d\<lparr>appointments :=
            map (\<lambda>r'. if r_tenant_id r' = ctx \<and> r_id r' = i then f r' else r') (appointments d)\<rparr>))"

definition sql_find_key ::
  "uuid \<Rightarrow> string \<Rightarrow> string \<Rightarrow> string \<Rightarrow> appt_db \<Rightarrow> key_row option" where
  "sql_find_key t scope oper key d =
     find (\<lambda>k. k_tenant_id k = t \<and> k_principal_scope k = scope \<and> k_operation k = oper \<and> k_key k = key)
       (idempotency_keys d)"

definition sql_insert_key :: "uuid \<Rightarrow> key_row \<Rightarrow> appt_db \<Rightarrow> repo_error + appt_db" where
  "sql_insert_key ctx k d =
     (if k_tenant_id k \<noteq> ctx then Inl (PgError ''42501'')
      else if \<not> key_checks k then Inl (PgError ''23514'')
      else if key_pk k \<in> key_pk ` set (idempotency_keys d) then Inl (PgError ''23505'')
      else if sql_find_appointment (k_tenant_id k) (k_appointment_id k) d = None
      then Inl (PgError ''23503'')
      else Inr (d\<lparr>idempotency_keys := idempotency_keys d @ [k]\<rparr>))"

definition sql_insert_event :: "uuid \<Rightarrow> event_row \<Rightarrow> appt_db \<Rightarrow> repo_error + appt_db" where
  "sql_insert_event ctx e d =
     (if e_tenant_id e \<noteq> ctx then Inl (PgError ''42501'')
      else if e_id e \<in> e_id ` set (appointment_events d) then Inl (PgError ''23505'')
      else if sql_find_appointment (e_tenant_id e) (e_appointment_id e) d = None
      then Inl (PgError ''23503'')
      else Inr (d\<lparr>appointment_events := appointment_events d @ [e]\<rparr>))"

definition sql_insert_outbox :: "uuid \<Rightarrow> outbox_row \<Rightarrow> appt_db \<Rightarrow> repo_error + appt_db" where
  "sql_insert_outbox ctx x d =
     (if o_tenant_id x \<noteq> ctx then Inl (PgError ''42501'')
      else if o_id x \<in> o_id ` set (outbox_events d) then Inl (PgError ''23505'')
      else Inr (d\<lparr>outbox_events := outbox_events d @ [x]\<rparr>))"

section \<open>Repository operations\<close>

text \<open>\<^verbatim>\<open>scan\<close> over \<^verbatim>\<open>appointmentColumns\<close>; the two fields it does not fill keep their zero values.\<close>

definition scan :: "appointment_row \<Rightarrow> appointment" where
  "scan r = \<lparr>a_ID = r_id r, a_BranchID = r_branch_id r, a_BarberID = r_barber_id r,
     a_ServiceID = r_service_id r, a_CustomerName = r_customer_name r,
     a_CustomerContact = r_customer_contact r, a_StartAt = r_start_at r, a_EndAt = r_end_at r,
     a_OccupiedStartAt = r_occupied_start_at r, a_OccupiedEndAt = r_occupied_end_at r,
     a_Status = r_status r, a_CanCancel = False, a_CancellationDeadline = None\<rparr>"

definition repo_Replay ::
  "tx_fault \<Rightarrow> uuid \<Rightarrow> string \<Rightarrow> string \<Rightarrow> string \<Rightarrow> string \<Rightarrow> appt_db \<Rightarrow>
     (repo_error + appointment option) \<times> appt_db" where
  "repo_Replay f tenantID scope oper key fp = WithTenantTx f tenantID (\<lambda>ctx d.
     case sql_find_key tenantID scope oper key d of
       None \<Rightarrow> Inr (None, d)
     | Some k \<Rightarrow>
         if k_fingerprint k \<noteq> fp then Inl RepoIdempotencyConflict
         else case sql_find_appointment tenantID (k_appointment_id k) d of
           None \<Rightarrow> Inl ErrNoRows
         | Some r \<Rightarrow> Inr (Some (scan r), d))"

definition eventPayload :: "appointment \<Rightarrow> event_payload" where
  "eventPayload a = \<lparr>p_AppointmentID = a_ID a, p_BranchID = a_BranchID a, p_BarberID = a_BarberID a,
     p_ServiceID = a_ServiceID a, p_StartAt = a_StartAt a, p_EndAt = a_EndAt a,
     p_Status = a_Status a\<rparr>"

definition appendEvent ::
  "pg_env \<Rightarrow> uuid \<Rightarrow> uuid \<Rightarrow> appointment \<Rightarrow> string \<Rightarrow> string \<Rightarrow> appt_db \<Rightarrow> repo_error + appt_db" where
  "appendEvent env ctx tenantID a eventName outboxType d =
     (let payload = eventPayload a in
      case sql_insert_event ctx
          \<lparr>e_id = pg_uuid env 1, e_tenant_id = tenantID, e_appointment_id = a_ID a,
           e_type = eventName, e_payload = payload, e_created_at = pg_now env\<rparr> d of
        Inl e \<Rightarrow> Inl e
      | Inr d' \<Rightarrow> sql_insert_outbox ctx
          \<lparr>o_id = pg_uuid env 2, o_tenant_id = tenantID, o_aggregate_id = a_ID a,
           o_type = outboxType, o_payload = payload, o_created_at = pg_now env,
           o_published_at = None, o_publishing_at = None, o_publish_attempts = 0,
           o_failed_at = None\<rparr> d')"

definition new_appointment_row ::
  "pg_env \<Rightarrow> uuid \<Rightarrow> create_input \<Rightarrow> time \<Rightarrow> time \<Rightarrow> time \<Rightarrow> appointment_row" where
  "new_appointment_row env tenantID inp endAt oStart oEnd =
     \<lparr>r_id = pg_uuid env 0, r_tenant_id = tenantID, r_branch_id = i_BranchID inp,
      r_barber_id = i_BarberID inp, r_service_id = i_ServiceID inp,
      r_customer_id = i_CustomerID inp, r_customer_name = i_CustomerName inp,
      r_customer_contact = i_CustomerContact inp, r_start_at = i_StartAt inp, r_end_at = endAt,
      r_occupied_start_at = oStart, r_occupied_end_at = oEnd, r_status = ''pending'',
      r_created_at = pg_now env, r_updated_at = pg_now env\<rparr>"

text \<open>
  \<^verbatim>\<open>Create\<close>. The advisory lock makes two attempts with one key run one after the other, so the
  body is one atomic step.
\<close>

definition repo_Create_fresh ::
  "pg_env \<Rightarrow> uuid \<Rightarrow> create_input \<Rightarrow> time \<Rightarrow> time \<Rightarrow> time \<Rightarrow> string \<Rightarrow> string \<Rightarrow> string \<Rightarrow> string \<Rightarrow>
     uuid \<Rightarrow> appt_db \<Rightarrow> repo_error + (appointment \<times> appt_db)" where
  "repo_Create_fresh env tenantID inp endAt oStart oEnd scope oper key fp ctx d =
     (let r = new_appointment_row env tenantID inp endAt oStart oEnd in
      case sql_insert_appointment ctx r d of
        Inl e \<Rightarrow> Inl e
      | Inr d1 \<Rightarrow>
        (case (if key \<noteq> [] then sql_insert_key ctx
                 \<lparr>k_tenant_id = tenantID, k_principal_scope = scope, k_operation = oper,
                  k_key = key, k_fingerprint = fp, k_appointment_id = r_id r,
                  k_created_at = pg_now env\<rparr> d1
               else Inr d1) of
           Inl e \<Rightarrow> Inl e
         | Inr d2 \<Rightarrow>
           (case appendEvent env ctx tenantID (scan r) ''AppointmentCreated''
                   ''appointment.created'' d2 of
              Inl e \<Rightarrow> Inl e
            | Inr d3 \<Rightarrow> Inr (scan r, d3))))"

definition repo_Create ::
  "tx_fault \<Rightarrow> pg_env \<Rightarrow> uuid \<Rightarrow> create_input \<Rightarrow> time \<Rightarrow> time \<Rightarrow> time \<Rightarrow> string \<Rightarrow> string \<Rightarrow>
     string \<Rightarrow> string \<Rightarrow> appt_db \<Rightarrow> (repo_error + appointment) \<times> appt_db" where
  "repo_Create f env tenantID inp endAt oStart oEnd scope oper key fp =
     WithTenantTx f tenantID (\<lambda>ctx d.
       case (if key \<noteq> [] then sql_find_key tenantID scope oper key d else None) of
         Some k \<Rightarrow>
           if k_fingerprint k \<noteq> fp then Inl RepoIdempotencyConflict
           else (case sql_find_appointment tenantID (k_appointment_id k) d of
                   None \<Rightarrow> Inl ErrNoRows
                 | Some r \<Rightarrow> Inr (scan r, d))
       | None \<Rightarrow> repo_Create_fresh env tenantID inp endAt oStart oEnd scope oper key fp ctx d)"

definition repo_Get :: "tx_fault \<Rightarrow> uuid \<Rightarrow> uuid \<Rightarrow> appt_db \<Rightarrow> (repo_error + appointment) \<times> appt_db" where
  "repo_Get f tenantID i = WithTenantTx f tenantID (\<lambda>ctx d.
     case sql_find_appointment tenantID i d of
       None \<Rightarrow> Inl RepoNotFound
     | Some r \<Rightarrow> Inr (scan r, d))"

text \<open>
  \<^verbatim>\<open>ORDER BY start_at DESC\<close>; rows with one start keep their insertion order, which is one of the
  orders the database may return.
\<close>

definition desc_by_start :: "appointment_row list \<Rightarrow> appointment_row list" where
  "desc_by_start rs = sort_key (\<lambda>r. - r_start_at r) rs"

definition repo_List :: "tx_fault \<Rightarrow> uuid \<Rightarrow> appt_db \<Rightarrow> (repo_error + appointment list) \<times> appt_db" where
  "repo_List f tenantID = WithTenantTx f tenantID (\<lambda>ctx d.
     Inr (map scan (desc_by_start (filter (\<lambda>r. r_tenant_id r = tenantID) (appointments d))), d))"

definition customer_row :: "time \<Rightarrow> uuid \<Rightarrow> uuid \<Rightarrow> bool \<Rightarrow> appointment_row \<Rightarrow> bool" where
  "customer_row now tenantID customerID upcoming r \<longleftrightarrow>
     r_tenant_id r = tenantID \<and> r_customer_id r = Some customerID \<and>
     (if upcoming then now \<le> r_start_at r \<and> r_status r \<in> {''pending'', ''confirmed''}
      else r_start_at r < now \<or> r_status r \<in> {''cancelled'', ''completed'', ''no_show''})"

definition repo_ListForCustomer ::
  "tx_fault \<Rightarrow> pg_env \<Rightarrow> uuid \<Rightarrow> uuid \<Rightarrow> bool \<Rightarrow> appt_db \<Rightarrow>
     (repo_error + appointment list) \<times> appt_db" where
  "repo_ListForCustomer f env tenantID customerID upcoming = WithTenantTx f tenantID (\<lambda>ctx d.
     Inr (map scan (desc_by_start
            (filter (customer_row (pg_now env) tenantID customerID upcoming) (appointments d))), d))"

definition repo_GetForCustomer ::
  "tx_fault \<Rightarrow> uuid \<Rightarrow> uuid \<Rightarrow> uuid \<Rightarrow> appt_db \<Rightarrow> (repo_error + appointment) \<times> appt_db" where
  "repo_GetForCustomer f tenantID customerID i = WithTenantTx f tenantID (\<lambda>ctx d.
     case find (\<lambda>r. r_tenant_id r = tenantID \<and> r_customer_id r = Some customerID \<and> r_id r = i)
            (appointments d) of
       None \<Rightarrow> Inl RepoNotFound
     | Some r \<Rightarrow> Inr (scan r, d))"

text \<open>The lifecycle of an appointment.\<close>

definition transitions :: "string \<Rightarrow> string \<Rightarrow> bool" where
  "transitions from to =
     (if from = ''pending'' then to = ''confirmed'' \<or> to = ''cancelled''
      else if from = ''confirmed'' then to = ''cancelled'' \<or> to = ''completed'' \<or> to = ''no_show''
      else False)"

definition titles :: "string \<Rightarrow> string" where
  "titles to =
     (if to = ''confirmed'' then ''AppointmentConfirmed''
      else if to = ''cancelled'' then ''AppointmentCancelled''
      else if to = ''completed'' then ''AppointmentCompleted''
      else if to = ''no_show'' then ''AppointmentNoShow'' else [])"

definition repo_Transition ::
  "tx_fault \<Rightarrow> pg_env \<Rightarrow> uuid \<Rightarrow> uuid \<Rightarrow> string \<Rightarrow> appt_db \<Rightarrow> (repo_error + appointment) \<times> appt_db" where
  "repo_Transition f env tenantID i to = WithTenantTx f tenantID (\<lambda>ctx d.
     case sql_find_appointment tenantID i d of
       None \<Rightarrow> Inl RepoNotFound
     | Some r \<Rightarrow>
         if \<not> transitions (r_status r) to then Inl RepoInvalidTransition
         else (case sql_update_appointment ctx i
                      (\<lambda>x. x\<lparr>r_status := to, r_updated_at := pg_now env\<rparr>) d of
                 Inl e \<Rightarrow> Inl e
               | Inr (r', d1) \<Rightarrow>
                   (case appendEvent env ctx tenantID (scan r') (titles to) (''appointment.'' @ to) d1 of
                      Inl e \<Rightarrow> Inl e
                    | Inr d2 \<Rightarrow> Inr (scan r', d2))))"

definition repo_Reschedule ::
  "tx_fault \<Rightarrow> pg_env \<Rightarrow> uuid \<Rightarrow> uuid \<Rightarrow> time \<Rightarrow> time \<Rightarrow> time \<Rightarrow> time \<Rightarrow> appt_db \<Rightarrow>
     (repo_error + appointment) \<times> appt_db" where
  "repo_Reschedule f env tenantID i startAt endAt oStart oEnd = WithTenantTx f tenantID (\<lambda>ctx d.
     case sql_find_appointment tenantID i d of
       None \<Rightarrow> Inl RepoNotFound
     | Some r \<Rightarrow>
         if r_status r \<noteq> ''pending'' \<and> r_status r \<noteq> ''confirmed'' then Inl RepoInvalidTransition
         else (case sql_update_appointment ctx i
                      (\<lambda>x. x\<lparr>r_start_at := startAt, r_end_at := endAt, r_occupied_start_at := oStart,
                             r_occupied_end_at := oEnd, r_updated_at := pg_now env\<rparr>) d of
                 Inl e \<Rightarrow> Inl e
               | Inr (r', d1) \<Rightarrow>
                   (case appendEvent env ctx tenantID (scan r') ''AppointmentRescheduled''
                           ''appointment.rescheduled'' d1 of
                      Inl e \<Rightarrow> Inl e
                    | Inr d2 \<Rightarrow> Inr (scan r', d2))))"

definition occupancy_row :: "uuid \<Rightarrow> uuid \<Rightarrow> time \<Rightarrow> time \<Rightarrow> appointment_row \<Rightarrow> bool" where
  "occupancy_row tenantID barberID from to r \<longleftrightarrow>
     r_tenant_id r = tenantID \<and> r_barber_id r = barberID \<and> active_status (r_status r) \<and>
     r_occupied_start_at r < to \<and> from < r_occupied_end_at r"

definition repo_Occupancy ::
  "tx_fault \<Rightarrow> uuid \<Rightarrow> uuid \<Rightarrow> time \<Rightarrow> time \<Rightarrow> appt_db \<Rightarrow> (repo_error + appointment list) \<times> appt_db" where
  "repo_Occupancy f tenantID barberID from to = WithTenantTx f tenantID (\<lambda>ctx d.
     Inr (map scan (filter (occupancy_row tenantID barberID from to) (appointments d)), d))"

definition IsConflict :: "repo_error \<Rightarrow> bool" where
  "IsConflict e = (case e of PgError s \<Rightarrow> s = ''23P01'' \<or> s = ''23505'' | _ \<Rightarrow> False)"

section \<open>The outbox and retention functions\<close>

text \<open>
  The SQL functions of migrations 000004 to 000006, called from the pool outside any tenant
  context. A statement that fails for lack of a connection is the flag \<open>fails\<close>.
\<close>

definition minute :: duration where
  "minute = 60000000000"

definition day :: duration where
  "day = 86400000000000"

definition claimable :: "time \<Rightarrow> outbox_row \<Rightarrow> bool" where
  "claimable now x \<longleftrightarrow> o_published_at x = None \<and> o_failed_at x = None \<and>
     (case o_publishing_at x of None \<Rightarrow> True | Some p \<Rightarrow> p < now - minute)"

definition claim_outbox_events :: "time \<Rightarrow> int \<Rightarrow> appt_db \<Rightarrow> outbox_row list \<times> appt_db" where
  "claim_outbox_events now p_limit d =
     (let candidates = take (clamp_limit p_limit 100)
            (sort_key o_created_at (filter (claimable now) (outbox_events d)))
      in (map (\<lambda>x. x\<lparr>o_publishing_at := Some now\<rparr>) candidates,
          d\<lparr>outbox_events := map (\<lambda>x. if o_id x \<in> o_id ` set candidates
             then x\<lparr>o_publishing_at := Some now\<rparr> else x) (outbox_events d)\<rparr>))"

definition mark_outbox_event_published :: "time \<Rightarrow> uuid \<Rightarrow> appt_db \<Rightarrow> appt_db" where
  "mark_outbox_event_published now i d = d\<lparr>outbox_events := map (\<lambda>x.
     if o_id x = i \<and> o_published_at x = None
     then x\<lparr>o_published_at := Some now, o_publishing_at := None\<rparr> else x) (outbox_events d)\<rparr>"

definition release_row :: "time \<Rightarrow> outbox_row \<Rightarrow> outbox_row" where
  "release_row now x = x\<lparr>o_publishing_at := None,
     o_publish_attempts := o_publish_attempts x + 1,
     o_failed_at := (if o_publish_attempts x + 1 \<ge> 20 then Some now else o_failed_at x)\<rparr>"

definition release_outbox_event :: "time \<Rightarrow> uuid \<Rightarrow> appt_db \<Rightarrow> outbox_row option \<times> appt_db" where
  "release_outbox_event now i d =
     (map_option (release_row now)
        (find (\<lambda>x. o_id x = i \<and> o_published_at x = None) (outbox_events d)),
      d\<lparr>outbox_events := map (\<lambda>x. if o_id x = i \<and> o_published_at x = None
         then release_row now x else x) (outbox_events d)\<rparr>)"

definition cleanup_expired_idempotency_keys :: "time \<Rightarrow> int \<Rightarrow> appt_db \<Rightarrow> nat \<times> appt_db" where
  "cleanup_expired_idempotency_keys now p_limit d =
     (let candidates = take (clamp_limit p_limit 1000)
            (sort_key k_created_at
              (filter (\<lambda>k. k_created_at k < now - 7 * day) (idempotency_keys d)));
          kept = filter (\<lambda>k. key_pk k \<notin> key_pk ` set candidates) (idempotency_keys d)
      in (length (idempotency_keys d) - length kept, d\<lparr>idempotency_keys := kept\<rparr>))"

definition cleanup_published_outbox_events :: "time \<Rightarrow> int \<Rightarrow> appt_db \<Rightarrow> nat \<times> appt_db" where
  "cleanup_published_outbox_events now p_limit d =
     (let candidates = take (clamp_limit p_limit 1000)
            (sort_key (\<lambda>x. case o_published_at x of None \<Rightarrow> 0 | Some p \<Rightarrow> p)
              (sort_key o_id
                (filter (\<lambda>x. case o_published_at x of None \<Rightarrow> False | Some p \<Rightarrow> p < now - 30 * day)
                   (outbox_events d))));
          kept = filter (\<lambda>x. o_id x \<notin> o_id ` set candidates) (outbox_events d)
      in (length (outbox_events d) - length kept, d\<lparr>outbox_events := kept\<rparr>))"

definition to_outbox_event :: "outbox_row \<Rightarrow> outbox_event" where
  "to_outbox_event x = \<lparr>ob_ID = o_id x, ob_TenantID = o_tenant_id x,
     ob_AggregateID = o_aggregate_id x, ob_Type = o_type x, ob_Payload = o_payload x,
     ob_OccurredAt = o_created_at x\<rparr>"

definition repo_ClaimOutbox ::
  "bool \<Rightarrow> time \<Rightarrow> int \<Rightarrow> appt_db \<Rightarrow> (repo_error + outbox_event list) \<times> appt_db" where
  "repo_ClaimOutbox fails now limit d =
     (if fails then (Inl (TxFault StatementFails), d)
      else let (xs, d') = claim_outbox_events now limit d in (Inr (map to_outbox_event xs), d'))"

definition repo_MarkOutboxPublished ::
  "bool \<Rightarrow> time \<Rightarrow> uuid \<Rightarrow> appt_db \<Rightarrow> (repo_error + unit) \<times> appt_db" where
  "repo_MarkOutboxPublished fails now i d =
     (if fails then (Inl (TxFault StatementFails), d)
      else (Inr (), mark_outbox_event_published now i d))"

definition repo_ReleaseOutbox ::
  "bool \<Rightarrow> time \<Rightarrow> uuid \<Rightarrow> appt_db \<Rightarrow> (repo_error + (int \<times> bool)) \<times> appt_db" where
  "repo_ReleaseOutbox fails now i d =
     (if fails then (Inl (TxFault StatementFails), d)
      else case release_outbox_event now i d of
        (None, d') \<Rightarrow> (Inl ErrNoRows, d')
      | (Some x, d') \<Rightarrow> (Inr (o_publish_attempts x, o_failed_at x \<noteq> None), d'))"

text \<open>
  The age is in nanoseconds; the detour of the source through float seconds is not modelled.
  The backlog query reads \<^verbatim>\<open>outbox_events\<close> directly. \<open>may_select\<close> is the privilege of the
  connecting role on that table; migration 000004 leaves the application role \<open>app_outbox_privileges\<close>.
\<close>

definition app_outbox_privileges :: "string list" where
  "app_outbox_privileges = [''INSERT'']"

definition repo_OutboxBacklogStats ::
  "bool \<Rightarrow> bool \<Rightarrow> time \<Rightarrow> appt_db \<Rightarrow> repo_error + (nat \<times> duration)" where
  "repo_OutboxBacklogStats may_select fails now d =
     (if fails \<or> \<not> may_select then Inl (TxFault StatementFails)
      else let xs = filter (\<lambda>x. o_published_at x = None \<and> o_failed_at x = None) (outbox_events d)
           in Inr (length xs, if xs = [] then 0 else now - Min (o_created_at ` set xs)))"

definition repo_CleanupRetention ::
  "bool \<Rightarrow> bool \<Rightarrow> time \<Rightarrow> int \<Rightarrow> appt_db \<Rightarrow> (repo_error \<times> nat \<times> nat + nat \<times> nat) \<times> appt_db" where
  "repo_CleanupRetention fails1 fails2 now limit d =
     (if fails1 then (Inl (TxFault StatementFails, 0, 0), d)
      else let (n, d1) = cleanup_expired_idempotency_keys now limit d in
        if fails2 then (Inl (TxFault StatementFails, n, 0), d1)
        else let (m, d2) = cleanup_published_outbox_events now limit d1 in (Inr (n, m), d2))"

lemmas appt_sql_defs = sql_insert_appointment_def sql_update_appointment_def sql_insert_key_def
  sql_insert_event_def sql_insert_outbox_def

lemmas appt_read_defs = repo_Replay_def repo_Get_def repo_List_def repo_ListForCustomer_def
  repo_GetForCustomer_def repo_Occupancy_def

end
