(* ===== verification/Appt_Inv.thy ===== *)
theory Appt_Inv
  imports Appt_Store
begin

text \<open>
  The invariant of the appointment tables and its preservation by every repository operation.

  \<open>appts_wf\<close>: identifiers are unique, every row satisfies the checks, and no two active rows of one
  barber overlap. \<open>keys_wf\<close>: one idempotency record per scope, operation and key, each tied to an
  appointment of its tenant. \<open>log_wf\<close>: the newest event of an appointment carries its current
  state, so the event log determines the table. \<open>outbox_wf\<close>: outbox identifiers are unique, and a
  row is terminal exactly when it has used up its twenty attempts.
\<close>

section \<open>The invariant\<close>

definition appts_wf :: "appt_db \<Rightarrow> bool" where
  "appts_wf d \<longleftrightarrow> distinct (map r_id (appointments d)) \<and>
     (\<forall>r \<in> set (appointments d). row_checks r) \<and>
     (\<forall>r \<in> set (appointments d). \<forall>r' \<in> set (appointments d).
        r_id r \<noteq> r_id r' \<longrightarrow> \<not> excluded_pair r r')"

definition keys_wf :: "appt_db \<Rightarrow> bool" where
  "keys_wf d \<longleftrightarrow> distinct (map key_pk (idempotency_keys d)) \<and>
     (\<forall>k \<in> set (idempotency_keys d). key_checks k \<and>
        (\<exists>r \<in> set (appointments d). r_tenant_id r = k_tenant_id k \<and> r_id r = k_appointment_id k))"

definition newest_payload :: "uuid \<Rightarrow> event_row list \<Rightarrow> event_payload option" where
  "newest_payload i es = map_option e_payload (find (\<lambda>e. e_appointment_id e = i) (rev es))"

definition log_wf :: "appt_db \<Rightarrow> bool" where
  "log_wf d \<longleftrightarrow> distinct (map e_id (appointment_events d)) \<and>
     (\<forall>e \<in> set (appointment_events d). \<exists>r \<in> set (appointments d). r_id r = e_appointment_id e) \<and>
     (\<forall>r \<in> set (appointments d).
        newest_payload (r_id r) (appointment_events d) = Some (eventPayload (scan r)))"

definition outbox_row_wf :: "outbox_row \<Rightarrow> bool" where
  "outbox_row_wf x \<longleftrightarrow> 0 \<le> o_publish_attempts x \<and>
     (o_failed_at x = None \<longleftrightarrow> o_publish_attempts x < 20)"

definition outbox_wf :: "appt_db \<Rightarrow> bool" where
  "outbox_wf d \<longleftrightarrow> distinct (map o_id (outbox_events d)) \<and>
     (\<forall>x \<in> set (outbox_events d). outbox_row_wf x)"

definition appt_inv :: "appt_db \<Rightarrow> bool" where
  "appt_inv d \<longleftrightarrow> appts_wf d \<and> keys_wf d \<and> log_wf d \<and> outbox_wf d"

lemma excluded_pair_sym: "excluded_pair r r' = excluded_pair r' r"
  by (auto simp: excluded_pair_def overlaps_def)

lemma appt_inv_empty: "appt_inv empty_appt_db"
  by (simp add: appt_inv_def appts_wf_def keys_wf_def log_wf_def outbox_wf_def empty_appt_db_def)

lemma scan_ID [simp]: "a_ID (scan r) = r_id r"
  by (simp add: scan_def)

section \<open>Lookups\<close>

lemma sql_find_appointmentD:
  "sql_find_appointment t i d = Some r \<Longrightarrow>
     r \<in> set (appointments d) \<and> r_tenant_id r = t \<and> r_id r = i"
  by (auto simp: sql_find_appointment_def dest: find_SomeD)

lemma sql_find_appointmentI:
  "appts_wf d \<Longrightarrow> r \<in> set (appointments d) \<Longrightarrow>
     sql_find_appointment (r_tenant_id r) (r_id r) d = Some r"
  by (auto simp: sql_find_appointment_def appts_wf_def intro: find_unique [where key = r_id])

lemma sql_find_appointment_ex:
  "r \<in> set (appointments d) \<Longrightarrow> sql_find_appointment (r_tenant_id r) (r_id r) d \<noteq> None"
  using find_is_Some [of r "appointments d" "\<lambda>x. r_tenant_id x = r_tenant_id r \<and> r_id x = r_id r"]
  by (auto simp: sql_find_appointment_def)

lemma sql_find_keyD:
  "sql_find_key t s p k d = Some x \<Longrightarrow> x \<in> set (idempotency_keys d) \<and> key_pk x = (t, s, p, k)"
  by (auto simp: sql_find_key_def key_pk_def dest: find_SomeD)

lemma sql_find_keyI:
  "keys_wf d \<Longrightarrow> x \<in> set (idempotency_keys d) \<Longrightarrow> key_pk x = (t, s, p, k) \<Longrightarrow>
     sql_find_key t s p k d = Some x"
  unfolding sql_find_key_def keys_wf_def
  by (rule find_unique [where key = key_pk]) (auto simp: key_pk_def)

section \<open>Statements keep the invariant\<close>

text \<open>What an accepted insert says of the new row and of the tables.\<close>

lemma sql_insert_appointmentD:
  "sql_insert_appointment ctx r d = Inr d' \<Longrightarrow>
     d' = d\<lparr>appointments := appointments d @ [r]\<rparr> \<and> r_tenant_id r = ctx \<and> row_checks r \<and>
     r_id r \<notin> r_id ` set (appointments d) \<and>
     (\<forall>r' \<in> set (appointments d). \<not> excluded_pair r r')"
  by (auto simp: sql_insert_appointment_def list_ex_iff split: if_splits)

lemma insert_appointment_wf:
  "appts_wf d \<Longrightarrow> sql_insert_appointment ctx r d = Inr d' \<Longrightarrow> appts_wf d'"
  using excluded_pair_sym by (auto simp: appts_wf_def dest!: sql_insert_appointmentD)

lemma sql_update_appointmentD:
  assumes "sql_update_appointment ctx i f d = Inr (r', d')"
  obtains r where "sql_find_appointment ctx i d = Some r" "r' = f r" "row_checks r'"
    "\<forall>x \<in> set (appointments d). r_id x \<noteq> i \<longrightarrow> \<not> excluded_pair r' x"
    "d' = d\<lparr>appointments :=
       map (\<lambda>x. if r_tenant_id x = ctx \<and> r_id x = i then f x else x) (appointments d)\<rparr>"
  using assms
  by (auto simp: sql_update_appointment_def list_ex_iff split: option.splits if_splits)

text \<open>With unique identifiers an update rewrites exactly one row.\<close>

lemma update_rows:
  assumes "appts_wf d" and "sql_find_appointment ctx i d = Some r"
  shows "map (\<lambda>x. if r_tenant_id x = ctx \<and> r_id x = i then f x else x) (appointments d) =
         map (\<lambda>x. if r_id x = i then f r else x) (appointments d)"
proof (rule map_cong [OF refl])
  fix x assume "x \<in> set (appointments d)"
  with assms show "(if r_tenant_id x = ctx \<and> r_id x = i then f x else x) =
      (if r_id x = i then f r else x)"
    using inj_key [of r_id "appointments d" x r] sql_find_appointmentD [OF assms(2)]
    by (auto simp: appts_wf_def)
qed

lemma update_appointment_wf:
  assumes wf: "appts_wf d" and upd: "sql_update_appointment ctx i f d = Inr (r', d')"
    and key: "\<And>x. r_id (f x) = r_id x"
  shows "appts_wf d'"
proof -
  from upd obtain r where r: "sql_find_appointment ctx i d = Some r" "r' = f r" "row_checks r'"
    and free: "\<forall>x \<in> set (appointments d). r_id x \<noteq> i \<longrightarrow> \<not> excluded_pair r' x"
    and d': "appointments d' = map (\<lambda>x. if r_id x = i then r' else x) (appointments d)"
    using update_rows [OF wf] by (auto elim!: sql_update_appointmentD)
  have id: "r_id r' = i" using r key sql_find_appointmentD by metis
  have "map r_id (appointments d') = map r_id (appointments d)"
    using id by (auto simp: d')
  moreover have "\<not> excluded_pair x y"
    if "x \<in> set (appointments d')" "y \<in> set (appointments d')" "r_id x \<noteq> r_id y" for x y
    using that wf free id excluded_pair_sym unfolding d' appts_wf_def
    by (auto split: if_splits)
  moreover have "\<forall>x \<in> set (appointments d'). row_checks x"
    using wf r(3) by (auto simp: d' appts_wf_def)
  ultimately show ?thesis using wf unfolding appts_wf_def by metis
qed

lemma find_appointment_frame [simp]:
  "sql_find_appointment t i (d\<lparr>idempotency_keys := ks\<rparr>) = sql_find_appointment t i d"
  "sql_find_appointment t i (d\<lparr>appointment_events := es\<rparr>) = sql_find_appointment t i d"
  "sql_find_appointment t i (d\<lparr>outbox_events := xs\<rparr>) = sql_find_appointment t i d"
  by (simp_all add: sql_find_appointment_def)

lemma sql_insert_keyD:
  "sql_insert_key ctx k d = Inr d' \<Longrightarrow>
     d' = d\<lparr>idempotency_keys := idempotency_keys d @ [k]\<rparr> \<and> k_tenant_id k = ctx \<and> key_checks k \<and>
     key_pk k \<notin> key_pk ` set (idempotency_keys d) \<and>
     (\<exists>r \<in> set (appointments d). r_tenant_id r = k_tenant_id k \<and> r_id r = k_appointment_id k)"
  by (auto simp: sql_insert_key_def split: if_splits dest!: sql_find_appointmentD)

lemma insert_key_wf: "keys_wf d \<Longrightarrow> sql_insert_key ctx k d = Inr d' \<Longrightarrow> keys_wf d'"
  by (auto simp: keys_wf_def dest!: sql_insert_keyD)

section \<open>appendEvent\<close>

lemma appendEventD:
  assumes "appendEvent env ctx t a nm ty d = Inr d'"
  shows "d' = d\<lparr>appointment_events := appointment_events d @
             [\<lparr>e_id = pg_uuid env 1, e_tenant_id = t, e_appointment_id = a_ID a, e_type = nm,
               e_payload = eventPayload a, e_created_at = pg_now env\<rparr>],
           outbox_events := outbox_events d @
             [\<lparr>o_id = pg_uuid env 2, o_tenant_id = t, o_aggregate_id = a_ID a, o_type = ty,
               o_payload = eventPayload a, o_created_at = pg_now env, o_published_at = None,
               o_publishing_at = None, o_publish_attempts = 0, o_failed_at = None\<rparr>]\<rparr> \<and>
         pg_uuid env 1 \<notin> e_id ` set (appointment_events d) \<and>
         pg_uuid env 2 \<notin> o_id ` set (outbox_events d) \<and> t = ctx"
  using assms
  by (auto simp: appendEvent_def Let_def sql_insert_event_def sql_insert_outbox_def
      split: sum.splits if_splits)

lemma appendEvent_ok:
  assumes "pg_uuid env 1 \<notin> e_id ` set (appointment_events d)"
    and "pg_uuid env 2 \<notin> o_id ` set (outbox_events d)"
    and "sql_find_appointment t (a_ID a) d \<noteq> None"
  shows "\<exists>d'. appendEvent env t t a nm ty d = Inr d'"
  using assms by (simp add: appendEvent_def Let_def sql_insert_event_def sql_insert_outbox_def)

lemma newest_payload_snoc:
  "newest_payload i (es @ [e]) =
     (if e_appointment_id e = i then Some (e_payload e) else newest_payload i es)"
  by (simp add: newest_payload_def)

lemma appendEvent_appts [simp]:
  "appendEvent env ctx t a nm ty d = Inr d' \<Longrightarrow> appointments d' = appointments d"
  "appendEvent env ctx t a nm ty d = Inr d' \<Longrightarrow> idempotency_keys d' = idempotency_keys d"
  by (auto dest!: appendEventD)

text \<open>
  After a row \<open>r\<close> was added or rewritten, appending its event restores the correspondence between
  the log and the table.
\<close>

lemma appendEvent_log_wf:
  assumes ev: "appendEvent env ctx t (scan r) nm ty d = Inr d'"
    and ids: "distinct (map e_id (appointment_events d))"
    and wf: "appts_wf d" and r: "r \<in> set (appointments d)"
    and refs: "\<forall>e \<in> set (appointment_events d). \<exists>x \<in> set (appointments d). r_id x = e_appointment_id e"
    and others: "\<forall>x \<in> set (appointments d). r_id x \<noteq> r_id r \<longrightarrow>
      newest_payload (r_id x) (appointment_events d) = Some (eventPayload (scan x))"
  shows "log_wf d'"
proof -
  have id: "a_ID (scan r) = r_id r" by (simp add: scan_def)
  have "newest_payload (r_id x) (appointment_events d') = Some (eventPayload (scan x))"
    if "x \<in> set (appointments d)" for x
  proof (cases "r_id x = r_id r")
    case True
    then have "x = r" using inj_key [of r_id "appointments d" x r] wf r that
      by (simp add: appts_wf_def)
    then show ?thesis using appendEventD [OF ev] id by (simp add: newest_payload_snoc)
  next
    case False
    then show ?thesis using appendEventD [OF ev] id others that
      by (simp add: newest_payload_snoc)
  qed
  then show ?thesis using appendEventD [OF ev] ids r refs id by (auto simp: log_wf_def)
qed

lemma appendEvent_outbox_wf:
  "appendEvent env ctx t a nm ty d = Inr d' \<Longrightarrow> outbox_wf d \<Longrightarrow> outbox_wf d'"
  by (auto simp: outbox_wf_def outbox_row_wf_def dest!: appendEventD)

lemma wf_frame:
  assumes "appointments d' = appointments d" and "idempotency_keys d' = idempotency_keys d"
  shows "appts_wf d' = appts_wf d" and "keys_wf d' = keys_wf d"
  using assms by (simp_all add: appts_wf_def keys_wf_def)

end
