(* ===== verification/Store_Spec.thy ===== *)
theory Store_Spec
  imports Prelude
begin

text \<open>
  Interfaces every store of the platform implements. A store is driven by operations; each is one
  atomic step (a transaction), and any interleaving of clients is a sequence of such steps.

  \<^item> \<open>invariant_store\<close>: every operation keeps the store's invariant.
  \<^item> \<open>tenant_store\<close>: additionally an operation belongs to a tenant, or to the service itself, and
    leaves what the other tenants see unchanged.
  \<^item> \<open>claim_store\<close>: work items are claimed under a fencing token; completion with a token that is
    no longer current has no effect.
  \<^item> \<open>session_store\<close>: a key once dead (a token whose session was revoked) stays dead whatever is
    done, and is refused at any time.
\<close>

definition run_ops :: "('op \<Rightarrow> 's \<Rightarrow> 's) \<Rightarrow> 'op list \<Rightarrow> 's \<Rightarrow> 's" where
  "run_ops exec ops s = fold exec ops s"

lemma run_ops_simps [simp]:
  "run_ops exec [] s = s"
  "run_ops exec (x # xs) s = run_ops exec xs (exec x s)"
  by (simp_all add: run_ops_def)

lemma run_ops_append: "run_ops exec (xs @ ys) s = run_ops exec ys (run_ops exec xs s)"
  by (simp add: run_ops_def)

locale invariant_store =
  fixes exec :: "'op \<Rightarrow> 's \<Rightarrow> 's" and invar :: "'s \<Rightarrow> bool" and initial :: 's
  assumes invar_initial: "invar initial"
    and invar_exec: "invar s \<Longrightarrow> invar (exec x s)"
begin

lemma invar_run: "invar s \<Longrightarrow> invar (run_ops exec xs s)"
  by (induction xs arbitrary: s) (auto intro: invar_exec)

lemma invar_reachable: "invar (run_ops exec xs initial)"
  by (rule invar_run) (rule invar_initial)

lemma stable_run:
  assumes step: "\<And>x s. invar s \<Longrightarrow> P s \<Longrightarrow> Q x \<Longrightarrow> P (exec x s)"
  shows "invar s \<Longrightarrow> P s \<Longrightarrow> list_all Q xs \<Longrightarrow> P (run_ops exec xs s)"
  by (induction xs arbitrary: s) (auto intro: invar_exec step)

end

locale tenant_store = invariant_store exec invar initial
  for exec :: "'op \<Rightarrow> 's \<Rightarrow> 's" and invar :: "'s \<Rightarrow> bool" and initial :: 's +
  fixes owner :: "'op \<Rightarrow> 't option" and view :: "'t \<Rightarrow> 's \<Rightarrow> 'v"
  assumes view_frame: "invar s \<Longrightarrow> owner x \<noteq> Some t \<Longrightarrow> view t (exec x s) = view t s"
begin

lemma view_run:
  "invar s \<Longrightarrow> list_all (\<lambda>x. owner x \<noteq> Some t) xs \<Longrightarrow> view t (run_ops exec xs s) = view t s"
  by (induction xs arbitrary: s) (auto simp: view_frame invar_exec)

end

locale claim_store = invariant_store exec invar initial
  for exec :: "'op \<Rightarrow> 's \<Rightarrow> 's" and invar :: "'s \<Rightarrow> bool" and initial :: 's +
  fixes holder :: "'s \<Rightarrow> 'i \<Rightarrow> 'c option" and finish :: "'i \<Rightarrow> 'c \<Rightarrow> 'o \<Rightarrow> 's \<Rightarrow> 's"
  assumes finish_stale: "invar s \<Longrightarrow> holder s i \<noteq> Some c \<Longrightarrow> finish i c r s = s"
    and finish_releases: "invar s \<Longrightarrow> holder s i = Some c \<Longrightarrow> holder (finish i c r s) i = None"
    and finish_other: "invar s \<Longrightarrow> i \<noteq> j \<Longrightarrow> holder (finish i c r s) j = holder s j"
    and finish_invar: "invar s \<Longrightarrow> invar (finish i c r s)"
begin

lemma finish_once: "invar s \<Longrightarrow> finish i c r' (finish i c r s) = finish i c r s"
proof (cases "holder s i = Some c")
  case True
  moreover assume "invar s"
  ultimately show ?thesis by (simp add: finish_stale finish_releases finish_invar)
next
  case False
  moreover assume "invar s"
  ultimately show ?thesis by (simp add: finish_stale)
qed

end

locale session_store = invariant_store exec invar initial
  for exec :: "'op \<Rightarrow> 's \<Rightarrow> 's" and invar :: "'s \<Rightarrow> bool" and initial :: 's +
  fixes dead :: "'s \<Rightarrow> 'k \<Rightarrow> bool" and accepts :: "'n \<Rightarrow> 's \<Rightarrow> 'k \<Rightarrow> bool"
  assumes dead_exec: "invar s \<Longrightarrow> dead s k \<Longrightarrow> dead (exec x s) k"
    and dead_refused: "invar s \<Longrightarrow> dead s k \<Longrightarrow> \<not> accepts n s k"
begin

lemma dead_run: "invar s \<Longrightarrow> dead s k \<Longrightarrow> dead (run_ops exec xs s) k"
  by (induction xs arbitrary: s) (auto intro: dead_exec invar_exec)

lemma refused_forever: "invar s \<Longrightarrow> dead s k \<Longrightarrow> \<not> accepts n (run_ops exec xs s) k"
  by (rule dead_refused) (auto intro: invar_run dead_run)

end

end
