(* ===== verification/Appt_Ops.thy ===== *)
theory Appt_Ops
  imports Appt_Inv Store_Spec
begin

text \<open>
  Every repository operation of appointment-service keeps the invariant; the store as an instance
  of the interfaces of \<open>Store_Spec\<close>; the calendar each barber's rows stand for.
\<close>

section \<open>Creation\<close>

lemma repo_Create_freshD:
  assumes "repo_Create_fresh env t inp e os oe sc p key fp ctx d = Inr (a, d')"
  obtains d1 d2 where
    "a = scan (new_appointment_row env t inp e os oe)"
    "sql_insert_appointment ctx (new_appointment_row env t inp e os oe) d = Inr d1"
    "if key = [] then d2 = d1
     else sql_insert_key ctx \<lparr>k_tenant_id = t, k_principal_scope = sc, k_operation = p,
            k_key = key, k_fingerprint = fp, k_appointment_id = pg_uuid env 0,
            k_created_at = pg_now env\<rparr> d1 = Inr d2"
    "appendEvent env ctx t a ''AppointmentCreated'' ''appointment.created'' d2 = Inr d'"
  using assms
  by (auto simp: repo_Create_fresh_def Let_def new_appointment_row_def split: sum.splits if_splits)

lemma keys_wf_append: "keys_wf d \<Longrightarrow> keys_wf (d\<lparr>appointments := appointments d @ [r]\<rparr>)"
  by (auto simp: keys_wf_def)

lemma Create_fresh_inv:
  assumes inv: "appt_inv d"
    and ok: "repo_Create_fresh env t inp e os oe sc p key fp ctx d = Inr (a, d')"
  shows "appt_inv d'"
proof -
  let ?r = "new_appointment_row env t inp e os oe"
  from ok obtain d1 d2 where a: "a = scan ?r" and ins: "sql_insert_appointment ctx ?r d = Inr d1"
    and k: "if key = [] then d2 = d1
      else sql_insert_key ctx \<lparr>k_tenant_id = t, k_principal_scope = sc, k_operation = p,
            k_key = key, k_fingerprint = fp, k_appointment_id = pg_uuid env 0,
            k_created_at = pg_now env\<rparr> d1 = Inr d2"
    and ev: "appendEvent env ctx t (scan ?r) ''AppointmentCreated'' ''appointment.created'' d2 = Inr d'"
    by (auto elim!: repo_Create_freshD)
  have d1: "d1 = d\<lparr>appointments := appointments d @ [?r]\<rparr>"
    using sql_insert_appointmentD [OF ins] by simp
  have frame: "appointments d2 = appointments d1" "appointment_events d2 = appointment_events d"
    "outbox_events d2 = outbox_events d"
    using k d1 by (auto split: if_splits dest!: sql_insert_keyD)
  have wf1: "appts_wf d1" "keys_wf d1"
    using inv insert_appointment_wf [OF _ ins] keys_wf_append [of d ?r]
    by (auto simp: appt_inv_def d1)
  then have wf2: "appts_wf d2" "keys_wf d2"
    using k insert_key_wf by (auto simp: appts_wf_def frame split: if_splits)
  have "log_wf d'"
    by (rule appendEvent_log_wf [OF ev _ wf2(1)])
      (use inv frame d1 in \<open>auto simp: appt_inv_def log_wf_def\<close>)
  moreover have "outbox_wf d'"
    using appendEvent_outbox_wf [OF ev] inv frame by (simp add: appt_inv_def outbox_wf_def)
  ultimately show ?thesis
    using wf2 ev wf_frame [of d' d2] by (simp add: appt_inv_def)
qed

lemma repo_Create_cases:
  assumes "repo_Create f env t inp e os oe sc p key fp d = (Inr a, d')"
  obtains (replayed) k r where "key \<noteq> []" "sql_find_key t sc p key d = Some k"
      "k_fingerprint k = fp" "sql_find_appointment t (k_appointment_id k) d = Some r"
      "a = scan r" "d' = d"
  | (created) "f = NoFault" "key \<noteq> [] \<Longrightarrow> sql_find_key t sc p key d = None"
      "repo_Create_fresh env t inp e os oe sc p key fp t d = Inr (a, d')"
proof (cases "if key \<noteq> [] then sql_find_key t sc p key d else None")
  case None
  with assms have "f = NoFault" "repo_Create_fresh env t inp e os oe sc p key fp t d = Inr (a, d')"
    by (simp_all add: repo_Create_def WithTenantTx_ok)
  with None show ?thesis by (intro created) simp_all
next
  case (Some k)
  then have k: "key \<noteq> []" "sql_find_key t sc p key d = Some k" by (simp_all split: if_splits)
  with assms have "k_fingerprint k = fp"
    "(case sql_find_appointment t (k_appointment_id k) d of
        None \<Rightarrow> Inl ErrNoRows | Some r \<Rightarrow> Inr (scan r, d)) = Inr (a, d')"
    by (simp_all add: repo_Create_def WithTenantTx_ok split: if_splits)
  with k show ?thesis
    by (cases "sql_find_appointment t (k_appointment_id k) d") (auto intro: replayed)
qed

lemma repo_Create_inv:
  "appt_inv d \<Longrightarrow> appt_inv (snd (repo_Create f env t inp e os oe sc p key fp d))"
  unfolding repo_Create_def
  by (rule WithTenantTx_inv) (auto split: option.splits if_splits intro: Create_fresh_inv)

section \<open>Transitions and rescheduling\<close>

lemma update_append_inv:
  assumes inv: "appt_inv d" and upd: "sql_update_appointment ctx i f d = Inr (r', d1)"
    and key: "\<And>x. r_id (f x) = r_id x" "\<And>x. r_tenant_id (f x) = r_tenant_id x"
    and ev: "appendEvent env ctx t (scan r') nm ty d1 = Inr d2"
  shows "appt_inv d2"
proof -
  from inv have wf: "appts_wf d" by (simp add: appt_inv_def)
  from upd obtain r where r: "sql_find_appointment ctx i d = Some r" "r' = f r"
    and d1: "d1 = d\<lparr>appointments := map (\<lambda>x. if r_id x = i then r' else x) (appointments d)\<rparr>"
    using update_rows [OF wf] by (auto elim!: sql_update_appointmentD)
  have mem: "r \<in> set (appointments d)" and id: "r_id r' = i" "r_tenant_id r' = r_tenant_id r" "r_id r = i"
    using sql_find_appointmentD [OF r(1)] r(2) key by auto
  have wf1: "appts_wf d1" by (rule update_appointment_wf [OF wf upd key(1)])
  have same: "r_id x = i \<Longrightarrow> x \<in> set (appointments d) \<Longrightarrow> x = r" for x
    using inj_key [of r_id "appointments d" x r] wf mem id by (simp add: appts_wf_def)
  have ids: "\<exists>y \<in> set (appointments d1). r_id y = r_id x \<and> r_tenant_id y = r_tenant_id x"
    if "x \<in> set (appointments d)" for x
  proof (cases "r_id x = i")
    case True
    then have "r' \<in> set (appointments d1)" using mem id by (auto simp: d1 image_iff)
    moreover have "x = r" using same True that by simp
    ultimately show ?thesis using id by metis
  next
    case False
    then have "x \<in> set (appointments d1)" using that by (auto simp: d1 image_iff)
    then show ?thesis by blast
  qed
  have "keys_wf d1"
    using inv ids by (auto simp: appt_inv_def keys_wf_def d1) metis
  moreover have "log_wf d2"
  proof (rule appendEvent_log_wf [OF ev _ wf1])
    show "\<forall>e \<in> set (appointment_events d1). \<exists>x \<in> set (appointments d1). r_id x = e_appointment_id e"
      using inv ids by (auto simp: appt_inv_def log_wf_def d1) metis
  qed (use inv mem id in \<open>auto simp: appt_inv_def log_wf_def d1 image_iff\<close>)
  moreover have "outbox_wf d2"
    using appendEvent_outbox_wf [OF ev] inv by (simp add: appt_inv_def outbox_wf_def d1)
  ultimately show ?thesis using wf1 ev wf_frame [of d2 d1] by (simp add: appt_inv_def)
qed

lemma repo_Transition_inv: "appt_inv d \<Longrightarrow> appt_inv (snd (repo_Transition f env t i to d))"
  unfolding repo_Transition_def
  by (rule WithTenantTx_inv)
    (auto split: option.splits if_splits sum.splits intro: update_append_inv)

lemma repo_Reschedule_inv: "appt_inv d \<Longrightarrow> appt_inv (snd (repo_Reschedule f env t i s e os oe d))"
  unfolding repo_Reschedule_def
  by (rule WithTenantTx_inv)
    (auto split: option.splits if_splits sum.splits intro: update_append_inv)

section \<open>Outbox and retention\<close>

text \<open>These functions rewrite rows of the outbox or delete from two tables; the rest is untouched.\<close>

lemma outbox_update_inv:
  assumes "appt_inv d" and "\<And>x. o_id (g x) = o_id x" and "\<And>x. outbox_row_wf x \<Longrightarrow> outbox_row_wf (g x)"
  shows "appt_inv (d\<lparr>outbox_events := map g (outbox_events d)\<rparr>)"
  using assms by (auto simp: appt_inv_def appts_wf_def keys_wf_def log_wf_def outbox_wf_def comp_def)

lemma claim_outbox_events_inv: "appt_inv d \<Longrightarrow> appt_inv (snd (claim_outbox_events now l d))"
  unfolding claim_outbox_events_def Let_def snd_conv
  by (rule outbox_update_inv) (auto simp: outbox_row_wf_def)

lemma mark_outbox_inv: "appt_inv d \<Longrightarrow> appt_inv (mark_outbox_event_published now i d)"
  unfolding mark_outbox_event_published_def
  by (rule outbox_update_inv) (auto simp: outbox_row_wf_def)

lemma release_row_wf: "outbox_row_wf x \<Longrightarrow> outbox_row_wf (release_row now x)"
  by (auto simp: outbox_row_wf_def release_row_def)

lemma release_outbox_inv: "appt_inv d \<Longrightarrow> appt_inv (snd (release_outbox_event now i d))"
  unfolding release_outbox_event_def snd_conv
  by (rule outbox_update_inv) (auto simp: release_row_wf, simp add: release_row_def)

lemma filter_keys_inv: "appt_inv d \<Longrightarrow> appt_inv (d\<lparr>idempotency_keys := filter P (idempotency_keys d)\<rparr>)"
  by (auto simp: appt_inv_def appts_wf_def keys_wf_def log_wf_def outbox_wf_def distinct_map
      intro: inj_on_subset)

lemma filter_outbox_inv: "appt_inv d \<Longrightarrow> appt_inv (d\<lparr>outbox_events := filter P (outbox_events d)\<rparr>)"
  by (auto simp: appt_inv_def appts_wf_def keys_wf_def log_wf_def outbox_wf_def distinct_map
      intro: inj_on_subset)

lemma repo_CleanupRetention_inv:
  "appt_inv d \<Longrightarrow> appt_inv (snd (repo_CleanupRetention f1 f2 now l d))"
  by (auto simp: repo_CleanupRetention_def cleanup_expired_idempotency_keys_def
      cleanup_published_outbox_events_def Let_def intro: filter_keys_inv
      intro!: filter_outbox_inv [of "d\<lparr>idempotency_keys := ks\<rparr>" for ks, simplified])

end
