(* ===== verification/Appt_Calendar.thy ===== *)
theory Appt_Calendar
  imports Appt_Ops
begin

text \<open>
  What the appointment tables promise, stated over the calendar they stand for. For one tenant and
  barber the calendar maps the identifier of each active appointment to its occupied range. Booking
  adds an entry when its range is free and is refused otherwise; rescheduling moves an entry under
  the same condition; confirming keeps it; cancelling, completing and no-show remove it.
\<close>

type_synonym calendar = "uuid \<rightharpoonup> time \<times> time"

definition calendar_of :: "uuid \<Rightarrow> uuid \<Rightarrow> appt_db \<Rightarrow> calendar" where
  "calendar_of t b d i = map_option (\<lambda>r. (r_occupied_start_at r, r_occupied_end_at r))
     (find (\<lambda>r. r_id r = i \<and> r_tenant_id r = t \<and> r_barber_id r = b \<and> active_status (r_status r))
        (appointments d))"

definition cal_free :: "calendar \<Rightarrow> uuid \<Rightarrow> time \<Rightarrow> time \<Rightarrow> bool" where
  "cal_free c i s e \<longleftrightarrow> (\<forall>j s' e'. j \<noteq> i \<longrightarrow> c j = Some (s', e') \<longrightarrow> \<not> overlaps s e s' e')"

definition cal_book :: "calendar \<Rightarrow> uuid \<Rightarrow> time \<Rightarrow> time \<Rightarrow> calendar option" where
  "cal_book c i s e = (if cal_free c i s e then Some (c(i \<mapsto> (s, e))) else None)"

definition cal_disjoint :: "calendar \<Rightarrow> bool" where
  "cal_disjoint c \<longleftrightarrow> (\<forall>i j s e s' e'. i \<noteq> j \<longrightarrow> c i = Some (s, e) \<longrightarrow> c j = Some (s', e') \<longrightarrow>
     \<not> overlaps s e s' e')"

lemma overlaps_sym: "overlaps s e s' e' = overlaps s' e' s e"
  by (auto simp: overlaps_def)

lemma cal_book_disjoint:
  assumes "cal_disjoint c" and "cal_book c i s e = Some c'"
  shows "cal_disjoint c'"
proof -
  from assms(2) have c': "c' = c(i \<mapsto> (s, e))" and free: "cal_free c i s e"
    by (simp_all add: cal_book_def split: if_splits)
  from free have "\<And>j s' e'. j \<noteq> i \<Longrightarrow> c j = Some (s', e') \<Longrightarrow> \<not> overlaps s' e' s e"
    using overlaps_sym by (auto simp: cal_free_def)
  with assms(1) free show ?thesis unfolding c' cal_disjoint_def cal_free_def by (auto, metis)
qed

section \<open>The calendar of the rows\<close>

lemma calendar_of_Some:
  assumes "appts_wf d"
  shows "calendar_of t b d i = Some (s, e) \<longleftrightarrow>
    (\<exists>r \<in> set (appointments d). r_id r = i \<and> r_tenant_id r = t \<and> r_barber_id r = b \<and>
       active_status (r_status r) \<and> r_occupied_start_at r = s \<and> r_occupied_end_at r = e)"
    (is "?l = ?r")
proof
  assume ?l
  then show ?r by (auto simp: calendar_of_def dest!: find_SomeD)
next
  assume ?r
  then obtain r where r: "r \<in> set (appointments d)" "r_id r = i" "r_tenant_id r = t"
    "r_barber_id r = b" "active_status (r_status r)"
    and se: "r_occupied_start_at r = s" "r_occupied_end_at r = e" by blast
  have "find (\<lambda>r. r_id r = i \<and> r_tenant_id r = t \<and> r_barber_id r = b \<and> active_status (r_status r))
      (appointments d) = Some r"
    using assms r by (intro find_unique [where key = r_id]) (auto simp: appts_wf_def)
  then show ?l using se by (simp add: calendar_of_def)
qed

lemma calendar_of_None:
  "calendar_of t b d i = None \<longleftrightarrow>
    (\<forall>r \<in> set (appointments d). \<not> (r_id r = i \<and> r_tenant_id r = t \<and> r_barber_id r = b \<and>
       active_status (r_status r)))"
  by (auto simp: calendar_of_def find_None_iff)

lemma calendar_disjoint: "appts_wf d \<Longrightarrow> cal_disjoint (calendar_of t b d)"
  unfolding cal_disjoint_def
  by (auto simp: calendar_of_Some appts_wf_def excluded_pair_def)

text \<open>The exclusion constraint of a row is freedom of its range in the calendar.\<close>

lemma exclusion_iff_free:
  assumes "appts_wf d" and "active_status (r_status r)"
  shows "(\<forall>x \<in> set (appointments d). r_id x \<noteq> r_id r \<longrightarrow> \<not> excluded_pair r x) \<longleftrightarrow>
    cal_free (calendar_of (r_tenant_id r) (r_barber_id r) d) (r_id r)
      (r_occupied_start_at r) (r_occupied_end_at r)"
proof -
  have "cal_free (calendar_of (r_tenant_id r) (r_barber_id r) d) (r_id r)
      (r_occupied_start_at r) (r_occupied_end_at r) \<longleftrightarrow>
    (\<forall>x \<in> set (appointments d). r_id x \<noteq> r_id r \<longrightarrow> r_tenant_id x = r_tenant_id r \<longrightarrow>
       r_barber_id x = r_barber_id r \<longrightarrow> active_status (r_status x) \<longrightarrow>
       \<not> overlaps (r_occupied_start_at r) (r_occupied_end_at r)
           (r_occupied_start_at x) (r_occupied_end_at x))"
    unfolding cal_free_def calendar_of_Some [OF assms(1)] by blast
  with assms(2) show ?thesis unfolding excluded_pair_def by metis
qed

lemma calendar_append:
  "calendar_of t b (d\<lparr>appointments := appointments d @ [r]\<rparr>) i =
     (case calendar_of t b d i of
        Some iv \<Rightarrow> Some iv
      | None \<Rightarrow> if r_id r = i \<and> r_tenant_id r = t \<and> r_barber_id r = b \<and> active_status (r_status r)
          then Some (r_occupied_start_at r, r_occupied_end_at r) else None)"
  by (auto simp: calendar_of_def find_append split: option.splits)

lemma calendar_frame:
  "appointments d' = appointments d \<Longrightarrow> calendar_of t b d' = calendar_of t b d"
  by (simp add: calendar_of_def fun_eq_iff)

section \<open>Booking\<close>

lemma new_row_simps [simp]:
  "r_id (new_appointment_row env t inp e os oe) = pg_uuid env 0"
  "r_tenant_id (new_appointment_row env t inp e os oe) = t"
  "r_barber_id (new_appointment_row env t inp e os oe) = i_BarberID inp"
  "r_status (new_appointment_row env t inp e os oe) = ''pending''"
  "r_start_at (new_appointment_row env t inp e os oe) = i_StartAt inp"
  "r_end_at (new_appointment_row env t inp e os oe) = e"
  "r_occupied_start_at (new_appointment_row env t inp e os oe) = os"
  "r_occupied_end_at (new_appointment_row env t inp e os oe) = oe"
  by (simp_all add: new_appointment_row_def)

lemma active_pending [simp]: "active_status ''pending''" "active_status ''confirmed''"
  by (simp_all add: active_status_def)

lemma Create_fresh_calendar:
  assumes "appt_inv d" and "repo_Create_fresh env t inp e os oe sc p key fp ctx d = Inr (a, d')"
  shows "calendar_of t' b' d' = (if t' = t \<and> b' = i_BarberID inp
    then (calendar_of t' b' d)(pg_uuid env 0 \<mapsto> (os, oe)) else calendar_of t' b' d)"
proof -
  let ?r = "new_appointment_row env t inp e os oe"
  from assms(2) obtain d1 where ins: "sql_insert_appointment ctx ?r d = Inr d1"
    and "appointments d' = appointments d1"
    by (elim repo_Create_freshD) (auto split: if_splits dest!: sql_insert_keyD)
  with sql_insert_appointmentD [OF ins]
  have "appointments d' = appointments (d\<lparr>appointments := appointments d @ [?r]\<rparr>)"
    and fresh: "pg_uuid env 0 \<notin> r_id ` set (appointments d)" by auto
  then have "calendar_of t' b' d' = calendar_of t' b' (d\<lparr>appointments := appointments d @ [?r]\<rparr>)"
    by (metis calendar_frame)
  moreover have "calendar_of t' b' d (pg_uuid env 0) = None"
    using fresh unfolding calendar_of_None by (metis image_eqI)
  ultimately show ?thesis by (auto simp: fun_eq_iff calendar_append split: option.splits)
qed

definition fresh_env :: "pg_env \<Rightarrow> appt_db \<Rightarrow> bool" where
  "fresh_env env d \<longleftrightarrow> pg_uuid env 0 \<notin> r_id ` set (appointments d) \<and>
     pg_uuid env 1 \<notin> e_id ` set (appointment_events d) \<and>
     pg_uuid env 2 \<notin> o_id ` set (outbox_events d)"

definition valid_key :: "string \<Rightarrow> string \<Rightarrow> bool" where
  "valid_key key fp \<longleftrightarrow> 1 \<le> length key \<and> length key \<le> 128 \<and> list_all key_char key \<and>
     length fp = 64 \<and> list_all hex_char fp"

lemma Create_fresh_decides:
  assumes inv: "appt_inv d" and env: "fresh_env env d" and kf: "valid_key key fp"
    and new: "sql_find_key t sc p key d = None" and rng: "i_StartAt inp < e" "os < oe"
  shows "cal_free (calendar_of t (i_BarberID inp) d) (pg_uuid env 0) os oe \<Longrightarrow>
      \<exists>d'. repo_Create_fresh env t inp e os oe sc p key fp t d =
        Inr (scan (new_appointment_row env t inp e os oe), d')"
    and "\<not> cal_free (calendar_of t (i_BarberID inp) d) (pg_uuid env 0) os oe \<Longrightarrow>
      repo_Create_fresh env t inp e os oe sc p key fp t d = Inl (PgError ''23P01'')"
proof -
  let ?r = "new_appointment_row env t inp e os oe"
  let ?k = "\<lparr>k_tenant_id = t, k_principal_scope = sc, k_operation = p, k_key = key,
    k_fingerprint = fp, k_appointment_id = pg_uuid env 0, k_created_at = pg_now env\<rparr>"
  let ?d1 = "d\<lparr>appointments := appointments d @ [?r]\<rparr>"
  have chk: "row_checks ?r" using rng by (simp add: row_checks_def statuses_def)
  have idf: "r_id x \<noteq> pg_uuid env 0" if "x \<in> set (appointments d)" for x
    using env that unfolding fresh_env_def by (metis image_eqI)
  have free: "cal_free (calendar_of t (i_BarberID inp) d) (pg_uuid env 0) os oe \<longleftrightarrow>
      \<not> list_ex (excluded_pair ?r) (appointments d)"
    using exclusion_iff_free [of d ?r] inv idf by (auto simp: appt_inv_def list_ex_iff)
  have pk: "key_pk ?k \<notin> key_pk ` set (idempotency_keys d)"
    using new by (auto simp: sql_find_key_def key_pk_def find_None_iff)
  have ref: "sql_find_appointment t (pg_uuid env 0) ?d1 \<noteq> None"
    using sql_find_appointment_ex [of ?r ?d1] by simp
  let ?d2 = "?d1\<lparr>idempotency_keys := idempotency_keys d @ [?k]\<rparr>"
  have k2: "sql_insert_key t ?k ?d1 = Inr ?d2"
    using pk ref kf by (simp add: sql_insert_key_def key_checks_def valid_key_def)
  have "\<exists>d3. appendEvent env t t (scan ?r) ''AppointmentCreated'' ''appointment.created'' ?d2 = Inr d3"
    by (rule appendEvent_ok) (use env ref in \<open>simp_all add: fresh_env_def\<close>)
  then obtain d3 where
    d3: "appendEvent env t t (scan ?r) ''AppointmentCreated'' ''appointment.created'' ?d2 = Inr d3"
    by blast
  have key: "key \<noteq> []" using kf by (auto simp: valid_key_def)
  show "\<exists>d'. repo_Create_fresh env t inp e os oe sc p key fp t d = Inr (scan ?r, d')"
    if "cal_free (calendar_of t (i_BarberID inp) d) (pg_uuid env 0) os oe"
  proof -
    have "sql_insert_appointment t ?r d = Inr ?d1"
      using that free chk env by (simp add: sql_insert_appointment_def fresh_env_def)
    then show ?thesis using k2 d3 key by (simp add: repo_Create_fresh_def Let_def)
  qed
  show "repo_Create_fresh env t inp e os oe sc p key fp t d = Inl (PgError ''23P01'')"
    if "\<not> cal_free (calendar_of t (i_BarberID inp) d) (pg_uuid env 0) os oe"
    using that free chk env
    by (simp add: repo_Create_fresh_def sql_insert_appointment_def fresh_env_def)
qed

end
