(* ===== verification/Appt_Safety.thy ===== *)
theory Appt_Safety
  imports Appt_Calendar
begin

text \<open>
  Safety of the appointment store under any interleaving of its operations. A run is a list of
  operations, each one transaction of the source with its own faults, generated identifiers and
  clock readings; the store instantiates \<open>tenant_store\<close>.
\<close>

section \<open>Operations and runs\<close>

datatype appt_op =
    OpCreate tx_fault pg_env uuid create_input time time time string string string string
  | OpTransition tx_fault pg_env uuid uuid string
  | OpReschedule tx_fault pg_env uuid uuid time time time time
  | OpClaim bool time int
  | OpMark bool time uuid
  | OpRelease bool time uuid
  | OpCleanup bool bool time int

fun exec_appt :: "appt_op \<Rightarrow> appt_db \<Rightarrow> appt_db" where
  "exec_appt (OpCreate f env t inp e os oe sc p key fp) d =
     snd (repo_Create f env t inp e os oe sc p key fp d)"
| "exec_appt (OpTransition f env t i to) d = snd (repo_Transition f env t i to d)"
| "exec_appt (OpReschedule f env t i s e os oe) d = snd (repo_Reschedule f env t i s e os oe d)"
| "exec_appt (OpClaim fl now l) d = snd (repo_ClaimOutbox fl now l d)"
| "exec_appt (OpMark fl now i) d = snd (repo_MarkOutboxPublished fl now i d)"
| "exec_appt (OpRelease fl now i) d = snd (repo_ReleaseOutbox fl now i d)"
| "exec_appt (OpCleanup f1 f2 now l) d = snd (repo_CleanupRetention f1 f2 now l d)"

fun appt_op_tenant :: "appt_op \<Rightarrow> uuid option" where
  "appt_op_tenant (OpCreate f env t inp e os oe sc p key fp) = Some t"
| "appt_op_tenant (OpTransition f env t i to) = Some t"
| "appt_op_tenant (OpReschedule f env t i s e os oe) = Some t"
| "appt_op_tenant _ = None"

definition tenant_view :: "uuid \<Rightarrow> appt_db \<Rightarrow> appointment_row list \<times> event_row list" where
  "tenant_view t d = (filter (\<lambda>r. r_tenant_id r = t) (appointments d),
     filter (\<lambda>e. e_tenant_id e = t) (appointment_events d))"

lemma repo_ClaimOutbox_snd:
  "snd (repo_ClaimOutbox fl now l d) = (if fl then d else snd (claim_outbox_events now l d))"
  by (simp add: repo_ClaimOutbox_def split: prod.splits)

lemma repo_ReleaseOutbox_snd:
  "snd (repo_ReleaseOutbox fl now i d) = (if fl then d else snd (release_outbox_event now i d))"
  by (simp add: repo_ReleaseOutbox_def split: prod.splits option.splits)

lemmas appt_inv_ops = repo_Create_inv repo_Transition_inv repo_Reschedule_inv
  claim_outbox_events_inv mark_outbox_inv release_outbox_inv repo_CleanupRetention_inv

lemma exec_appt_inv: "appt_inv d \<Longrightarrow> appt_inv (exec_appt x d)"
  by (cases x) (auto simp: repo_ClaimOutbox_snd repo_ReleaseOutbox_snd repo_MarkOutboxPublished_def
      intro: appt_inv_ops)

text \<open>The service operations touch neither appointments nor events.\<close>

lemma service_op_frame:
  "appointments (snd (claim_outbox_events now l d)) = appointments d"
  "appointments (mark_outbox_event_published now i d) = appointments d"
  "appointments (snd (release_outbox_event now i d)) = appointments d"
  "appointments (snd (repo_CleanupRetention f1 f2 now l d)) = appointments d"
  "appointment_events (snd (claim_outbox_events now l d)) = appointment_events d"
  "appointment_events (mark_outbox_event_published now i d) = appointment_events d"
  "appointment_events (snd (release_outbox_event now i d)) = appointment_events d"
  "appointment_events (snd (repo_CleanupRetention f1 f2 now l d)) = appointment_events d"
  by (simp_all add: claim_outbox_events_def mark_outbox_event_published_def
      release_outbox_event_def repo_CleanupRetention_def cleanup_expired_idempotency_keys_def
      cleanup_published_outbox_events_def Let_def)

section \<open>What a successful operation did to the rows\<close>

lemma Create_rows:
  assumes "repo_Create f env t inp e os oe sc p key fp d = (Inr a, d')"
  shows "d' = d \<or> (appointments d' = appointments d @ [new_appointment_row env t inp e os oe] \<and>
    (\<exists>ev. appointment_events d' = appointment_events d @ [ev] \<and> e_tenant_id ev = t))"
  using assms
proof (cases rule: repo_Create_cases)
  case created
  then show ?thesis
    by (elim repo_Create_freshD)
      (auto split: if_splits dest!: sql_insert_keyD sql_insert_appointmentD appendEventD)
qed simp

lemma update_append_rows:
  assumes "sql_update_appointment t i g d = Inr (r', d1)"
    and "appendEvent env t t (scan r') nm ty d1 = Inr d2"
  shows "sql_find_appointment t i d \<noteq> None \<and> r' = g (the (sql_find_appointment t i d)) \<and>
    appointments d2 =
      map (\<lambda>x. if r_tenant_id x = t \<and> r_id x = i then g x else x) (appointments d) \<and>
    (\<exists>ev. appointment_events d2 = appointment_events d @ [ev] \<and> e_tenant_id ev = t) \<and>
    idempotency_keys d2 = idempotency_keys d"
  using assms by (elim sql_update_appointmentD) (auto dest!: appendEventD)

lemma Transition_steps:
  assumes "repo_Transition f env t i to d = (Inr a, d')"
  obtains r r' d1 where "sql_find_appointment t i d = Some r" "transitions (r_status r) to"
    "sql_update_appointment t i (\<lambda>x. x\<lparr>r_status := to, r_updated_at := pg_now env\<rparr>) d = Inr (r', d1)"
    "appendEvent env t t (scan r') (titles to) (''appointment.'' @ to) d1 = Inr d'" "a = scan r'"
  using assms
  by (auto simp: repo_Transition_def WithTenantTx_ok split: option.splits if_splits sum.splits)

lemma Reschedule_steps:
  assumes "repo_Reschedule f env t i s e os oe d = (Inr a, d')"
  obtains r r' d1 where "sql_find_appointment t i d = Some r" "active_status (r_status r)"
    "sql_update_appointment t i (\<lambda>x. x\<lparr>r_start_at := s, r_end_at := e,
       r_occupied_start_at := os, r_occupied_end_at := oe, r_updated_at := pg_now env\<rparr>) d = Inr (r', d1)"
    "appendEvent env t t (scan r') ''AppointmentRescheduled'' ''appointment.rescheduled'' d1 = Inr d'"
    "a = scan r'"
  using assms
  by (auto simp: repo_Reschedule_def WithTenantTx_ok active_status_def
      split: option.splits if_splits sum.splits)

text \<open>
  Both updates as one fact: a successful transition or move rewrites the addressed row by a
  function that keeps its identity, appends one event of the tenant and leaves the keys alone.
\<close>

definition row_update :: "uuid \<Rightarrow> uuid \<Rightarrow> (appointment_row \<Rightarrow> appointment_row) \<Rightarrow> appt_db \<Rightarrow> appt_db \<Rightarrow> bool" where
  "row_update t i g d d' \<longleftrightarrow>
     appointments d' = map (\<lambda>x. if r_tenant_id x = t \<and> r_id x = i then g x else x) (appointments d) \<and>
     (\<exists>ev. appointment_events d' = appointment_events d @ [ev] \<and> e_tenant_id ev = t) \<and>
     idempotency_keys d' = idempotency_keys d"

lemma Transition_rows:
  assumes "repo_Transition f env t i to d = (Inr a, d')"
  obtains r where "sql_find_appointment t i d = Some r" "transitions (r_status r) to"
    "a = scan (r\<lparr>r_status := to, r_updated_at := pg_now env\<rparr>)"
    "row_update t i (\<lambda>x. x\<lparr>r_status := to, r_updated_at := pg_now env\<rparr>) d d'"
  using assms
proof (rule Transition_steps)
  fix r r' d1
  assume r: "sql_find_appointment t i d = Some r" "transitions (r_status r) to" "a = scan r'"
    and upd: "sql_update_appointment t i (\<lambda>x. x\<lparr>r_status := to, r_updated_at := pg_now env\<rparr>) d = Inr (r', d1)"
    and ev: "appendEvent env t t (scan r') (titles to) (''appointment.'' @ to) d1 = Inr d'"
  from update_append_rows [OF upd ev] r show thesis
    by (intro that [of r]) (simp_all add: row_update_def)
qed

lemma Reschedule_rows:
  assumes "repo_Reschedule f env t i s e os oe d = (Inr a, d')"
  obtains r where "sql_find_appointment t i d = Some r" "active_status (r_status r)"
    "a = scan (r\<lparr>r_start_at := s, r_end_at := e, r_occupied_start_at := os,
       r_occupied_end_at := oe, r_updated_at := pg_now env\<rparr>)"
    "row_update t i (\<lambda>x. x\<lparr>r_start_at := s, r_end_at := e, r_occupied_start_at := os,
       r_occupied_end_at := oe, r_updated_at := pg_now env\<rparr>) d d'"
  using assms
proof (rule Reschedule_steps)
  fix r r' d1
  assume r: "sql_find_appointment t i d = Some r" "active_status (r_status r)" "a = scan r'"
    and upd: "sql_update_appointment t i (\<lambda>x. x\<lparr>r_start_at := s, r_end_at := e,
       r_occupied_start_at := os, r_occupied_end_at := oe, r_updated_at := pg_now env\<rparr>) d = Inr (r', d1)"
    and ev: "appendEvent env t t (scan r') ''AppointmentRescheduled'' ''appointment.rescheduled'' d1 = Inr d'"
  from update_append_rows [OF upd ev] r show thesis
    by (intro that [of r]) (simp_all add: row_update_def)
qed

text \<open>A failed operation changed nothing.\<close>

lemma failed_frame:
  "repo_Create f env t inp e os oe sc p key fp d = (Inl er, d') \<Longrightarrow> d' = d"
  "repo_Transition f env t i to d = (Inl er, d') \<Longrightarrow> d' = d"
  "repo_Reschedule f env t i s e os oe d = (Inl er, d') \<Longrightarrow> d' = d"
  unfolding repo_Create_def repo_Transition_def repo_Reschedule_def
  by (erule WithTenantTx_atomic)+

section \<open>Tenant isolation\<close>

lemma row_update_view:
  assumes "row_update t i g d d'" and "\<And>x. r_tenant_id (g x) = r_tenant_id x" and "t' \<noteq> t"
  shows "tenant_view t' d' = tenant_view t' d"
proof -
  have "filter (\<lambda>r. r_tenant_id r = t') (map (\<lambda>x. if r_tenant_id x = t \<and> r_id x = i then g x else x) rs) =
      filter (\<lambda>r. r_tenant_id r = t') rs" for rs
    using assms(2,3) by (induction rs) auto
  with assms(1,3) show ?thesis by (auto simp: row_update_def tenant_view_def)
qed

lemma Create_view:
  assumes "repo_Create f env t inp e os oe sc p key fp d = (Inr a, d')" and "t' \<noteq> t"
  shows "tenant_view t' d' = tenant_view t' d"
  using Create_rows [OF assms(1)] assms(2) by (auto simp: tenant_view_def)

lemma exec_appt_view:
  assumes "appt_op_tenant x \<noteq> Some t'"
  shows "tenant_view t' (exec_appt x d) = tenant_view t' d"
proof (cases x)
  case (OpCreate f env t inp e os oe sc p key fp)
  obtain r d' where r: "repo_Create f env t inp e os oe sc p key fp d = (r, d')" by fastforce
  with OpCreate assms show ?thesis
    by (cases r) (auto dest: failed_frame Create_view)
next
  case (OpTransition f env t i to)
  obtain r d' where r: "repo_Transition f env t i to d = (r, d')" by fastforce
  with OpTransition assms show ?thesis
    by (cases r) (auto dest: failed_frame elim!: Transition_rows intro: row_update_view)
next
  case (OpReschedule f env t i s e os oe)
  obtain r d' where r: "repo_Reschedule f env t i s e os oe d = (r, d')" by fastforce
  with OpReschedule assms show ?thesis
    by (cases r) (auto dest: failed_frame elim!: Reschedule_rows intro: row_update_view)
qed (simp_all add: tenant_view_def service_op_frame repo_ClaimOutbox_snd repo_ReleaseOutbox_snd
    repo_MarkOutboxPublished_def)

interpretation appts: tenant_store exec_appt appt_inv empty_appt_db appt_op_tenant tenant_view
  by unfold_locales (simp_all add: appt_inv_empty exec_appt_inv exec_appt_view)

section \<open>The lifecycle of one appointment\<close>

text \<open>
  \<open>evolves r r'\<close>: \<open>r'\<close> is the same appointment as \<open>r\<close>, later in its life.
\<close>

definition evolves :: "appointment_row \<Rightarrow> appointment_row \<Rightarrow> bool" where
  "evolves r r' \<longleftrightarrow> r_id r' = r_id r \<and> r_tenant_id r' = r_tenant_id r \<and>
     r_branch_id r' = r_branch_id r \<and> r_barber_id r' = r_barber_id r \<and>
     r_service_id r' = r_service_id r \<and> r_customer_id r' = r_customer_id r \<and>
     r_customer_name r' = r_customer_name r \<and> r_customer_contact r' = r_customer_contact r \<and>
     transitions\<^sup>*\<^sup>* (r_status r) (r_status r')"

lemma transitions_final:
  "transitions\<^sup>*\<^sup>* a b \<Longrightarrow> a \<in> {''cancelled'', ''completed'', ''no_show''} \<Longrightarrow> b = a"
  by (induction rule: rtranclp_induct) (auto simp: transitions_def)

lemma transitions_forward: "transitions\<^sup>*\<^sup>* a b \<Longrightarrow> a = ''confirmed'' \<Longrightarrow> b \<noteq> ''pending''"
  by (induction rule: rtranclp_induct) (auto simp: transitions_def split: if_splits)

lemma evolves_refl [simp]: "evolves r r"
  by (simp add: evolves_def)

lemma evolves_trans: "evolves r r' \<Longrightarrow> evolves r' r'' \<Longrightarrow> evolves r r''"
  by (auto simp: evolves_def)

lemma evolves_reschedule:
  "evolves x (x\<lparr>r_start_at := s, r_end_at := e, r_occupied_start_at := os,
     r_occupied_end_at := oe, r_updated_at := now\<rparr>)"
  by (simp add: evolves_def)

definition continued :: "appointment_row \<Rightarrow> appt_db \<Rightarrow> bool" where
  "continued r d \<longleftrightarrow> (\<exists>r' \<in> set (appointments d). evolves r r')"

lemma row_update_continued:
  assumes "row_update t i g d d'" and "continued r d"
    and "\<And>x. x \<in> set (appointments d) \<Longrightarrow> r_tenant_id x = t \<Longrightarrow> r_id x = i \<Longrightarrow> evolves x (g x)"
  shows "continued r d'"
proof -
  from assms(2) obtain x where x: "x \<in> set (appointments d)" "evolves r x"
    by (auto simp: continued_def)
  let ?x = "if r_tenant_id x = t \<and> r_id x = i then g x else x"
  have "?x \<in> set (appointments d')" using assms(1) x(1) by (auto simp: row_update_def)
  moreover have "evolves r ?x" using x assms(3) by (auto intro: evolves_trans)
  ultimately show ?thesis unfolding continued_def by blast
qed

lemma continued_append:
  "continued r d \<Longrightarrow> appointments d' = appointments d @ xs \<Longrightarrow> continued r d'"
  by (auto simp: continued_def)

lemma continued_frame: "appointments d' = appointments d \<Longrightarrow> continued r d' = continued r d"
  by (simp add: continued_def)

lemma exec_appt_continued:
  assumes inv: "appt_inv d" and c: "continued r d"
  shows "continued r (exec_appt x d)"
proof (cases x)
  case (OpCreate f env t inp e os oe sc p key fp)
  obtain q d' where q: "repo_Create f env t inp e os oe sc p key fp d = (q, d')" by fastforce
  with OpCreate c show ?thesis
    by (cases q) (auto dest: failed_frame Create_rows intro: continued_append)
next
  case (OpTransition f env t i to)
  obtain q d' where q: "repo_Transition f env t i to d = (q, d')" by fastforce
  show ?thesis
  proof (cases q)
    case Inl
    with q OpTransition c show ?thesis by (auto dest: failed_frame)
  next
    case (Inr a)
    with q obtain y where y: "sql_find_appointment t i d = Some y" "transitions (r_status y) to"
      "row_update t i (\<lambda>x. x\<lparr>r_status := to, r_updated_at := pg_now env\<rparr>) d d'"
      by (auto elim!: Transition_rows)
    have "evolves z (z\<lparr>r_status := to, r_updated_at := pg_now env\<rparr>)"
      if "z \<in> set (appointments d)" "r_id z = i" for z
      using that y inj_key [of r_id "appointments d" z y] inv sql_find_appointmentD [OF y(1)]
      by (auto simp: evolves_def appt_inv_def appts_wf_def)
    with y(3) c have "continued r d'" by (auto intro: row_update_continued)
    with OpTransition q show ?thesis by simp
  qed
next
  case (OpReschedule f env t i s e os oe)
  obtain q d' where q: "repo_Reschedule f env t i s e os oe d = (q, d')" by fastforce
  show ?thesis
  proof (cases q)
    case Inl
    with q OpReschedule c show ?thesis by (auto dest: failed_frame)
  next
    case (Inr a)
    with q have "row_update t i (\<lambda>x. x\<lparr>r_start_at := s, r_end_at := e,
        r_occupied_start_at := os, r_occupied_end_at := oe, r_updated_at := pg_now env\<rparr>) d d'"
      by (auto elim: Reschedule_rows)
    then have "continued r d'" using c by (rule row_update_continued) (rule evolves_reschedule)
    with OpReschedule q show ?thesis by simp
  qed
qed (use c in \<open>simp_all add: service_op_frame repo_ClaimOutbox_snd repo_ReleaseOutbox_snd
    repo_MarkOutboxPublished_def continued_def\<close>)

section \<open>Idempotent creation\<close>

definition keeps_key :: "time \<Rightarrow> appt_op \<Rightarrow> bool" where
  "keeps_key created x = (case x of OpCleanup f1 f2 now l \<Rightarrow> now \<le> created + 7 * day | _ \<Rightarrow> True)"

definition has_key :: "key_row \<Rightarrow> appt_db \<Rightarrow> bool" where
  "has_key k d \<longleftrightarrow> k \<in> set (idempotency_keys d)"

lemma Create_has_key:
  assumes "repo_Create f env t inp e os oe sc p key fp d = (Inr a, d')" and "has_key k d"
  shows "has_key k d'"
  using assms(1)
proof (cases rule: repo_Create_cases)
  case created
  from created(3) assms(2) show ?thesis
    by (elim repo_Create_freshD)
      (auto simp: has_key_def split: if_splits dest!: sql_insert_keyD sql_insert_appointmentD
        appendEventD)
qed (use assms(2) in simp)

lemma cleanup_keeps_key:
  assumes "has_key k d" and "keys_wf d" and "now \<le> k_created_at k + 7 * day"
  shows "has_key k (snd (cleanup_expired_idempotency_keys now l d))"
proof -
  let ?old = "filter (\<lambda>k. k_created_at k < now - 7 * day) (idempotency_keys d)"
  have "key_pk k \<notin> key_pk ` set (take n (sort_key k_created_at ?old))" for n
  proof
    assume "key_pk k \<in> key_pk ` set (take n (sort_key k_created_at ?old))"
    then obtain k' where k': "k' \<in> set ?old" "key_pk k = key_pk k'"
      by (auto dest: in_set_takeD)
    then have "k = k'"
      using assms(1,2) inj_key [of key_pk "idempotency_keys d" k k']
      by (auto simp: has_key_def keys_wf_def)
    with k' assms(3) show False by simp
  qed
  with assms(1) show ?thesis
    by (simp add: cleanup_expired_idempotency_keys_def Let_def has_key_def)
qed

lemma exec_appt_has_key:
  assumes inv: "appt_inv d" and h: "has_key k d" and ok: "keeps_key (k_created_at k) x"
  shows "has_key k (exec_appt x d)"
proof (cases x)
  case (OpCreate f env t inp e os oe sc p key fp)
  obtain q d' where q: "repo_Create f env t inp e os oe sc p key fp d = (q, d')" by fastforce
  with OpCreate h show ?thesis by (cases q) (auto dest: failed_frame Create_has_key)
next
  case (OpTransition f env t i to)
  obtain q d' where q: "repo_Transition f env t i to d = (q, d')" by fastforce
  with OpTransition h show ?thesis
    by (cases q) (auto dest: failed_frame elim!: Transition_rows simp: row_update_def has_key_def)
next
  case (OpReschedule f env t i s e os oe)
  obtain q d' where q: "repo_Reschedule f env t i s e os oe d = (q, d')" by fastforce
  with OpReschedule h show ?thesis
    by (cases q) (auto dest: failed_frame elim!: Reschedule_rows simp: row_update_def has_key_def)
next
  case (OpCleanup f1 f2 now l)
  have "has_key k (snd (cleanup_expired_idempotency_keys now l d))"
    using inv h ok OpCleanup by (intro cleanup_keeps_key) (auto simp: appt_inv_def keeps_key_def)
  with OpCleanup h show ?thesis
    by (auto simp: repo_CleanupRetention_def cleanup_published_outbox_events_def Let_def has_key_def
        split: prod.splits)
qed (use h in \<open>simp_all add: has_key_def repo_ClaimOutbox_snd repo_ReleaseOutbox_snd
    repo_MarkOutboxPublished_def claim_outbox_events_def release_outbox_event_def
    mark_outbox_event_published_def Let_def\<close>)

lemma run_has_key:
  "appt_inv d \<Longrightarrow> has_key k d \<Longrightarrow> list_all (keeps_key (k_created_at k)) xs \<Longrightarrow>
     has_key k (run_ops exec_appt xs d)"
  by (rule appts.stable_run [where P = "has_key k" and Q = "keeps_key (k_created_at k)"])
    (auto intro: exec_appt_has_key)

section \<open>Theorems\<close>

text \<open>
  (C1) No double booking. After any sequence of creations, transitions, moves, outbox and retention
  operations of any tenants, with any faults, two different appointments of one barber that are
  both pending or confirmed occupy disjoint half-open ranges.
\<close>

theorem no_double_booking:
  assumes "d = run_ops exec_appt xs empty_appt_db"
    and "r \<in> set (appointments d)" and "r' \<in> set (appointments d)" and "r_id r \<noteq> r_id r'"
    and "r_tenant_id r = r_tenant_id r'" and "r_barber_id r = r_barber_id r'"
    and "active_status (r_status r)" and "active_status (r_status r')"
  shows "r_occupied_end_at r \<le> r_occupied_start_at r' \<or> r_occupied_end_at r' \<le> r_occupied_start_at r"
proof -
  have "appts_wf d" using appts.invar_reachable [of xs] assms(1) by (simp add: appt_inv_def)
  then have "\<not> excluded_pair r r'" using assms(2-4) by (simp add: appts_wf_def)
  with assms(5-8) show ?thesis by (auto simp: excluded_pair_def overlaps_def)
qed

text \<open>
  (C5) The event log is complete. In every reachable state the newest event of an appointment
  carries exactly its current branch, barber, service, times and status, so the log determines
  what a subscriber may know of the row.
\<close>

theorem event_log_current:
  assumes "d = run_ops exec_appt xs empty_appt_db" and "r \<in> set (appointments d)"
  shows "newest_payload (r_id r) (appointment_events d) = Some (eventPayload (scan r))"
  using appts.invar_reachable [of xs] assms by (simp add: appt_inv_def log_wf_def)

text \<open>
  Tenant isolation. Operations of other tenants and of the service itself, in any number and
  order, leave the appointments and events of a tenant exactly as they were.
\<close>

theorem appointments_tenant_isolated:
  assumes "d = run_ops exec_appt xs empty_appt_db"
    and "list_all (\<lambda>x. appt_op_tenant x \<noteq> Some t) ys"
  shows "tenant_view t (run_ops exec_appt ys d) = tenant_view t d"
  using assms appts.invar_reachable [of xs] by (simp add: appts.view_run)

text \<open>
  (C4) An appointment is never lost and only moves forward: whatever operations follow, its row is
  still there with the same tenant, branch, barber, service and customer data, and its new status
  is reached from the old one along the permitted transitions. A cancelled, completed or missed
  appointment keeps its status for good, and a confirmed one never becomes pending again.
\<close>

theorem appointment_lifecycle:
  assumes "d = run_ops exec_appt xs empty_appt_db" and "r \<in> set (appointments d)"
  shows "\<exists>r' \<in> set (appointments (run_ops exec_appt ys d)). evolves r r' \<and>
    (r_status r \<in> {''cancelled'', ''completed'', ''no_show''} \<longrightarrow> r_status r' = r_status r) \<and>
    (r_status r = ''confirmed'' \<longrightarrow> r_status r' \<noteq> ''pending'')"
proof -
  have "appt_inv d" using appts.invar_reachable [of xs] assms(1) by simp
  moreover have "continued r d" using assms(2) evolves_refl unfolding continued_def by blast
  ultimately have "continued r (run_ops exec_appt ys d)"
    by (rule appts.stable_run [where P = "continued r" and Q = "\<lambda>_. True", rotated])
      (auto intro: exec_appt_continued simp: list_all_iff)
  then obtain r' where r': "r' \<in> set (appointments (run_ops exec_appt ys d))" "evolves r r'"
    unfolding continued_def by blast
  then have "transitions\<^sup>*\<^sup>* (r_status r) (r_status r')" by (simp add: evolves_def)
  with r' show ?thesis using transitions_final transitions_forward by blast
qed

text \<open>
  (C2) Booking decides by the calendar. With fresh generated identifiers, an unused valid key and
  non-empty ranges, creation succeeds exactly when the occupied range is free in the barber's
  calendar; it then adds exactly that entry and touches no other calendar. Otherwise it fails with
  the exclusion violation and changes nothing.
\<close>

theorem create_refines_calendar:
  assumes "appt_inv d" and "fresh_env env d" and "valid_key key fp"
    and "sql_find_key t sc p key d = None" and "i_StartAt inp < e" and "os < oe"
  shows "case cal_book (calendar_of t (i_BarberID inp) d) (pg_uuid env 0) os oe of
      Some c \<Rightarrow> (\<exists>d'. repo_Create NoFault env t inp e os oe sc p key fp d =
          (Inr (scan (new_appointment_row env t inp e os oe)), d') \<and>
          calendar_of t (i_BarberID inp) d' = c \<and>
          (\<forall>t' b'. (t', b') \<noteq> (t, i_BarberID inp) \<longrightarrow> calendar_of t' b' d' = calendar_of t' b' d))
    | None \<Rightarrow> repo_Create NoFault env t inp e os oe sc p key fp d = (Inl (PgError ''23P01''), d)"
proof -
  have run: "repo_Create NoFault env t inp e os oe sc p key fp d =
      (case repo_Create_fresh env t inp e os oe sc p key fp t d of
         Inl er \<Rightarrow> (Inl er, d) | Inr (v, d') \<Rightarrow> (Inr v, d'))"
    using assms(4) by (simp add: repo_Create_def WithTenantTx_NoFault)
  note dec = Create_fresh_decides [OF assms]
  show ?thesis
  proof (cases "cal_free (calendar_of t (i_BarberID inp) d) (pg_uuid env 0) os oe")
    case True
    with dec(1) obtain d' where
      "repo_Create_fresh env t inp e os oe sc p key fp t d =
         Inr (scan (new_appointment_row env t inp e os oe), d')" by blast
    with True run Create_fresh_calendar [OF assms(1) this] show ?thesis
      by (auto simp: cal_book_def)
  next
    case False
    with dec(2) run show ?thesis by (simp add: cal_book_def)
  qed
qed

text \<open>
  The record of a key written by a creation is still there, and still names that appointment, after
  any operations within the retention window.
\<close>

lemma created_key_stays:
  assumes "appt_inv d" and "key \<noteq> []" and "sql_find_key t sc p key d = None"
    and first: "repo_Create f env t inp e os oe sc p key fp d = (Inr a, d1)"
    and "list_all (keeps_key (pg_now env)) xs" and "d2 = run_ops exec_appt xs d1"
  obtains k r where "sql_find_key t sc p key d2 = Some k" "k_fingerprint k = fp"
    "sql_find_appointment t (k_appointment_id k) d2 = Some r" "r_id r = a_ID a"
proof -
  define k where "k = \<lparr>k_tenant_id = t, k_principal_scope = sc, k_operation = p, k_key = key,
    k_fingerprint = fp, k_appointment_id = pg_uuid env 0, k_created_at = pg_now env\<rparr>"
  have d1: "appt_inv d1" using repo_Create_inv [OF assms(1), of f env t inp e os oe sc p key fp] first
    by simp
  from first have "has_key k d1 \<and> a_ID a = pg_uuid env 0"
  proof (cases rule: repo_Create_cases)
    case created
    from created(3) assms(2) show ?thesis
      by (elim repo_Create_freshD)
        (auto simp: has_key_def k_def dest!: sql_insert_keyD appendEventD)
  qed (use assms(3) in simp)
  then have hk: "has_key k d2" and id: "a_ID a = pg_uuid env 0"
    unfolding assms(6) using run_has_key [OF d1, of k xs] assms(5) by (simp_all add: k_def)
  have inv2: "appt_inv d2" unfolding assms(6) by (rule appts.invar_run [OF d1])
  with hk have k: "sql_find_key t sc p key d2 = Some k"
    by (intro sql_find_keyI) (auto simp: appt_inv_def has_key_def k_def key_pk_def)
  have "\<exists>r \<in> set (appointments d2). r_tenant_id r = t \<and> r_id r = pg_uuid env 0"
    using inv2 hk unfolding appt_inv_def keys_wf_def has_key_def
    by (metis k_def key_row.select_convs(1,6))
  then obtain r where "sql_find_appointment t (pg_uuid env 0) d2 = Some r" "r_id r = pg_uuid env 0"
    using sql_find_appointment_ex sql_find_appointmentD by (metis not_Some_eq)
  then show thesis using k id by (intro that [of k r]) (simp_all add: k_def)
qed

text \<open>
  (C3) Creation is idempotent. After a first creation under a key, and any further operations
  within the retention window of seven days, a repeated creation under the same scope, operation,
  key and fingerprint returns the appointment created first and changes nothing, whatever the
  other arguments; with another fingerprint it is refused as an idempotency conflict.
\<close>

theorem create_idempotent:
  assumes "appt_inv d" and "key \<noteq> []" and "sql_find_key t sc p key d = None"
    and first: "repo_Create f env t inp e os oe sc p key fp d = (Inr a, d1)"
    and "list_all (keeps_key (pg_now env)) xs" and "d2 = run_ops exec_appt xs d1"
  shows "(\<exists>a'. repo_Create NoFault env' t inp' e' os' oe' sc p key fp d2 = (Inr a', d2) \<and>
           a_ID a' = a_ID a) \<and>
         (fp' \<noteq> fp \<longrightarrow> repo_Create NoFault env' t inp' e' os' oe' sc p key fp' d2 =
           (Inl RepoIdempotencyConflict, d2))"
proof -
  obtain k r where "sql_find_key t sc p key d2 = Some k" "k_fingerprint k = fp"
    "sql_find_appointment t (k_appointment_id k) d2 = Some r" "r_id r = a_ID a"
    by (rule created_key_stays [OF assms])
  with assms(2) show ?thesis by (auto simp: repo_Create_def WithTenantTx_NoFault)
qed

end
