(* ===== verification/Appt_Booking.thy ===== *)
theory Appt_Booking
  imports Appt_Safety
begin

text \<open>
  The application layer of appointment-service, \<^verbatim>\<open>internal/application/application.go\<close>: the booking,
  lifecycle and query services over the repository of \<open>Appt_Store\<close>. The other services are the
  record \<open>deps\<close>, one function per method of the interface \<^verbatim>\<open>Dependencies\<close>; each answers a value or
  an error. Every repository call has its own fault argument.
\<close>

datatype appt_error =
    AErrInvalid
  | AErrInvalidIdempotencyKey
  | AErrUnauthorized
  | AErrForbidden
  | AErrNotFound
  | AErrConflict
  | AErrIdempotencyConflict
  | AErrUnavailable
  | AErrRepository repo_error

record principal =
  pr_Kind :: string
  pr_IdentityID :: uuid
  pr_CustomerID :: "uuid option"
  pr_Role :: string

record customer_snapshot =
  cs_Name :: string
  cs_Email :: string

record deps =
  d_BranchBarber :: "tenant_ctx \<Rightarrow> uuid \<Rightarrow> uuid \<Rightarrow> dep_error + unit"
  d_Barber :: "tenant_ctx \<Rightarrow> uuid \<Rightarrow> dep_error + unit"
  d_Service :: "tenant_ctx \<Rightarrow> uuid \<Rightarrow> uuid \<Rightarrow> dep_error + dep_service"
  d_Settings :: "tenant_ctx \<Rightarrow> dep_error + tenant_settings_view"
  d_Available :: "tenant_ctx \<Rightarrow> create_input \<Rightarrow> time \<Rightarrow> dep_error + unit"
  d_Customer :: "tenant_ctx \<Rightarrow> uuid \<Rightarrow> dep_error + customer_snapshot"

record create_command =
  cmd_Tenant :: tenant_ctx
  cmd_Principal :: principal
  cmd_Operation :: string
  cmd_IdempotencyKey :: string
  cmd_Input :: create_input

section \<open>Validation, scopes and fingerprints\<close>

definition keyPattern :: "string \<Rightarrow> bool" where
  "keyPattern key \<longleftrightarrow> key \<noteq> [] \<and> list_all key_char key"

definition ValidIdempotencyKey :: "string \<Rightarrow> bool" where
  "ValidIdempotencyKey key \<longleftrightarrow> 1 \<le> length key \<and> length key \<le> 128 \<and> keyPattern key"

definition canManage :: "string \<Rightarrow> bool" where
  "canManage role \<longleftrightarrow> role = ''OWNER'' \<or> role = ''MANAGER'' \<or> role = ''RECEPTIONIST''"

definition canRead :: "string \<Rightarrow> bool" where
  "canRead role \<longleftrightarrow> canManage role \<or> role = ''BARBER''"

definition principalScope :: "externals \<Rightarrow> principal \<Rightarrow> string \<Rightarrow> appt_error + string" where
  "principalScope X p email =
     (if pr_Kind p = ''customer'' then
        (case pr_CustomerID p of
           None \<Rightarrow> Inl AErrUnauthorized
         | Some c \<Rightarrow> if c = uuid_nil then Inl AErrUnauthorized
             else Inr (''customer:'' @ uuid_String X c))
      else if pr_Kind p = ''admin'' then
        (if pr_IdentityID p = uuid_nil \<or> \<not> canManage (pr_Role p) then Inl AErrForbidden
         else Inr (''admin:'' @ uuid_String X (pr_IdentityID p)))
      else if pr_Kind p = ''guest'' then Inr (''guest:'' @ sha256_hex X email)
      else Inl AErrUnauthorized)"

definition normalizeCreate :: "externals \<Rightarrow> create_input \<Rightarrow> appt_error + create_input" where
  "normalizeCreate X inp0 =
     (let inp = inp0\<lparr>i_CustomerName := TrimSpace (i_CustomerName inp0),
                     i_CustomerContact := ToLower (TrimSpace (i_CustomerContact inp0))\<rparr>
      in if mail_ParseAddress X (i_CustomerContact inp) \<noteq> Some (i_CustomerContact inp) \<or>
            320 < length (i_CustomerContact inp) \<or> i_CustomerName inp = [] \<or>
            i_BranchID inp = uuid_nil \<or> i_BarberID inp = uuid_nil \<or> i_ServiceID inp = uuid_nil \<or>
            IsZero (i_StartAt inp)
         then Inl AErrInvalid else Inr inp)"

definition fingerprint :: "externals \<Rightarrow> uuid \<Rightarrow> string \<Rightarrow> string \<Rightarrow> create_input \<Rightarrow> string" where
  "fingerprint X t scope oper inp =
     sha256_hex X (json_strings X
       [uuid_String X t, scope, oper, uuid_String X (i_BranchID inp), uuid_String X (i_BarberID inp),
        uuid_String X (i_ServiceID inp), TrimSpace (i_CustomerName inp), i_CustomerContact inp,
        rfc3339nano X (i_StartAt inp)])"

definition mapRepositoryError :: "repo_error \<Rightarrow> appt_error" where
  "mapRepositoryError e =
     (if e = RepoNotFound then AErrNotFound
      else if e = RepoIdempotencyConflict then AErrIdempotencyConflict
      else if e = RepoInvalidTransition then AErrConflict
      else if IsConflict e then AErrConflict
      else AErrRepository e)"

definition mapRepo :: "(repo_error + 'a) \<times> 'db \<Rightarrow> (appt_error + 'a) \<times> 'db" where
  "mapRepo r = (case r of (Inl e, d) \<Rightarrow> (Inl (mapRepositoryError e), d) | (Inr v, d) \<Rightarrow> (Inr v, d))"

section \<open>BookingService\<close>

text \<open>The customer's own name and address replace whatever the client sent.\<close>

definition resolve_customer ::
  "externals \<Rightarrow> deps \<Rightarrow> tenant_ctx \<Rightarrow> principal \<Rightarrow> create_input \<Rightarrow> appt_error + create_input" where
  "resolve_customer X D t p inp =
     (case pr_CustomerID p of
        None \<Rightarrow> Inr inp
      | Some c \<Rightarrow>
        (case d_Customer D t c of
           Inl _ \<Rightarrow> Inl AErrUnauthorized
         | Inr snapshot \<Rightarrow>
           (case normalizeCreate X (inp\<lparr>i_CustomerID := Some c, i_CustomerName := cs_Name snapshot,
                   i_CustomerContact := ToLower (TrimSpace (cs_Email snapshot))\<rparr>) of
              Inl _ \<Rightarrow> Inl AErrUnauthorized
            | Inr inp' \<Rightarrow> Inr inp')))"

definition booking_commit ::
  "deps \<Rightarrow> tx_fault \<Rightarrow> pg_env \<Rightarrow> create_command \<Rightarrow> create_input \<Rightarrow> string \<Rightarrow> string \<Rightarrow> appt_db \<Rightarrow>
     (appt_error + appointment) \<times> appt_db" where
  "booking_commit D f env cmd inp scope fp d =
     (let t = cmd_Tenant cmd in
      case d_BranchBarber D t (i_BranchID inp) (i_BarberID inp) of
        Inl _ \<Rightarrow> (Inl AErrConflict, d)
      | Inr _ \<Rightarrow>
      (case d_Barber D t (i_BarberID inp) of
        Inl _ \<Rightarrow> (Inl AErrConflict, d)
      | Inr _ \<Rightarrow>
      (case d_Service D t (i_BarberID inp) (i_ServiceID inp) of
        Inl _ \<Rightarrow> (Inl AErrConflict, d)
      | Inr svc \<Rightarrow>
        let end_at = i_StartAt inp + Minutes (DurationMinutes svc);
            occupiedStart = i_StartAt inp + Minutes (- BufferBeforeMinutes svc);
            occupiedEnd = end_at + Minutes (BufferAfterMinutes svc)
        in (case d_Available D t inp (i_StartAt inp) of
              Inl _ \<Rightarrow> (Inl AErrConflict, d)
            | Inr _ \<Rightarrow> mapRepo (repo_Create f env (TenantID t) inp end_at occupiedStart occupiedEnd
                scope (cmd_Operation cmd) (cmd_IdempotencyKey cmd) fp d)))))"

definition booking_Create ::
  "externals \<Rightarrow> deps \<Rightarrow> tx_fault \<Rightarrow> tx_fault \<Rightarrow> pg_env \<Rightarrow> create_command \<Rightarrow> appt_db \<Rightarrow>
     (appt_error + appointment) \<times> appt_db" where
  "booking_Create X D f1 f2 env cmd d =
     (if \<not> ValidIdempotencyKey (cmd_IdempotencyKey cmd) then (Inl AErrInvalidIdempotencyKey, d)
      else case normalizeCreate X (cmd_Input cmd) of
        Inl e \<Rightarrow> (Inl e, d)
      | Inr inp0 \<Rightarrow>
      (case resolve_customer X D (cmd_Tenant cmd) (cmd_Principal cmd) inp0 of
        Inl e \<Rightarrow> (Inl e, d)
      | Inr inp \<Rightarrow>
      (case principalScope X (cmd_Principal cmd) (i_CustomerContact inp) of
        Inl e \<Rightarrow> (Inl e, d)
      | Inr scope \<Rightarrow>
        let t = TenantID (cmd_Tenant cmd);
            fp = fingerprint X t scope (cmd_Operation cmd) inp
        in (case repo_Replay f1 t scope (cmd_Operation cmd) (cmd_IdempotencyKey cmd) fp d of
              (Inl e, d') \<Rightarrow> (Inl (mapRepositoryError e), d')
            | (Inr (Some replay), d') \<Rightarrow> (Inr replay, d')
            | (Inr None, d') \<Rightarrow> booking_commit D f2 env cmd inp scope fp d'))))"

section \<open>LifecycleService\<close>

definition lifecycle_Transition ::
  "tx_fault \<Rightarrow> pg_env \<Rightarrow> uuid \<Rightarrow> principal \<Rightarrow> uuid \<Rightarrow> string \<Rightarrow> appt_db \<Rightarrow>
     (appt_error + appointment) \<times> appt_db" where
  "lifecycle_Transition f env tenant p i to d =
     (if \<not> (pr_Kind p = ''admin'' \<and> canManage (pr_Role p) \<or>
            pr_Kind p = ''guest'' \<and> to = ''cancelled'') then (Inl AErrForbidden, d)
      else if to \<noteq> ''cancelled'' \<and> to \<noteq> ''confirmed'' \<and> to \<noteq> ''completed'' \<and> to \<noteq> ''no_show''
      then (Inl AErrInvalid, d)
      else mapRepo (repo_Transition f env tenant i to d))"

definition cancel_closed :: "tenant_settings_view \<Rightarrow> time \<Rightarrow> time \<Rightarrow> bool" where
  "cancel_closed settings startAt now \<longleftrightarrow> CancellationPolicy settings = ''no_cancellation'' \<or>
     \<not> now < startAt + Minutes (- CancellationNoticeMinutes settings)"

definition CancelCustomer ::
  "deps \<Rightarrow> tx_fault \<Rightarrow> tx_fault \<Rightarrow> pg_env \<Rightarrow> tenant_ctx \<Rightarrow> uuid \<Rightarrow> uuid \<Rightarrow> time \<Rightarrow> appt_db \<Rightarrow>
     (appt_error + appointment) \<times> appt_db" where
  "CancelCustomer D f1 f2 env tenant customerID i now d =
     (case repo_GetForCustomer f1 (TenantID tenant) customerID i d of
        (Inl e, d') \<Rightarrow> (Inl (mapRepositoryError e), d')
      | (Inr a, d') \<Rightarrow>
        (case d_Settings D tenant of
           Inl _ \<Rightarrow> (Inl AErrUnavailable, d')
         | Inr settings \<Rightarrow>
           if cancel_closed settings (a_StartAt a) now then (Inl AErrConflict, d')
           else mapRepo (repo_Transition f2 env (TenantID tenant) i ''cancelled'' d')))"

definition lifecycle_Reschedule ::
  "deps \<Rightarrow> tx_fault \<Rightarrow> tx_fault \<Rightarrow> pg_env \<Rightarrow> tenant_ctx \<Rightarrow> principal \<Rightarrow> uuid \<Rightarrow> time \<Rightarrow> appt_db \<Rightarrow>
     (appt_error + appointment) \<times> appt_db" where
  "lifecycle_Reschedule D f1 f2 env tenant p i start d =
     (if pr_Kind p \<noteq> ''admin'' \<or> \<not> canManage (pr_Role p) then (Inl AErrForbidden, d)
      else case repo_Get f1 (TenantID tenant) i d of
        (Inl e, d') \<Rightarrow> (Inl (mapRepositoryError e), d')
      | (Inr old, d') \<Rightarrow>
        let inp = \<lparr>i_BranchID = a_BranchID old, i_BarberID = a_BarberID old,
                   i_ServiceID = a_ServiceID old, i_CustomerName = a_CustomerName old,
                   i_CustomerContact = a_CustomerContact old, i_StartAt = start,
                   i_CustomerID = None\<rparr>
        in (case d_BranchBarber D tenant (i_BranchID inp) (i_BarberID inp) of
              Inl _ \<Rightarrow> (Inl AErrConflict, d')
            | Inr _ \<Rightarrow>
            (case d_Barber D tenant (i_BarberID inp) of
              Inl _ \<Rightarrow> (Inl AErrConflict, d')
            | Inr _ \<Rightarrow>
            (case d_Service D tenant (i_BarberID inp) (i_ServiceID inp) of
              Inl _ \<Rightarrow> (Inl AErrConflict, d')
            | Inr svc \<Rightarrow>
            (case d_Available D tenant inp start of
              Inl _ \<Rightarrow> (Inl AErrConflict, d')
            | Inr _ \<Rightarrow>
              let end_at = start + Minutes (DurationMinutes svc)
              in mapRepo (repo_Reschedule f2 env (TenantID tenant) i start end_at
                   (start + Minutes (- BufferBeforeMinutes svc))
                   (end_at + Minutes (BufferAfterMinutes svc)) d'))))))"

section \<open>QueryService\<close>

definition query_Get :: "tx_fault \<Rightarrow> uuid \<Rightarrow> uuid \<Rightarrow> appt_db \<Rightarrow> (appt_error + appointment) \<times> appt_db" where
  "query_Get f tenant i d = mapRepo (repo_Get f tenant i d)"

definition query_GetAdmin ::
  "tx_fault \<Rightarrow> uuid \<Rightarrow> uuid \<Rightarrow> principal \<Rightarrow> appt_db \<Rightarrow> (appt_error + appointment) \<times> appt_db" where
  "query_GetAdmin f tenant i p d =
     (if pr_Kind p \<noteq> ''admin'' \<or> \<not> canRead (pr_Role p) then (Inl AErrForbidden, d)
      else query_Get f tenant i d)"

definition NotificationRecipient ::
  "externals \<Rightarrow> tx_fault \<Rightarrow> uuid \<Rightarrow> uuid \<Rightarrow> appt_db \<Rightarrow> (appt_error + string) \<times> appt_db" where
  "NotificationRecipient X f tenant i d =
     (case query_Get f tenant i d of
        (Inl e, d') \<Rightarrow> (Inl e, d')
      | (Inr a, d') \<Rightarrow>
        let recipient = ToLower (TrimSpace (a_CustomerContact a))
        in if mail_ParseAddress X recipient \<noteq> Some recipient then (Inl AErrInvalid, d')
           else (Inr recipient, d'))"

definition query_List ::
  "tx_fault \<Rightarrow> uuid \<Rightarrow> principal \<Rightarrow> appt_db \<Rightarrow> (appt_error + appointment list) \<times> appt_db" where
  "query_List f tenant p d =
     (if pr_Kind p \<noteq> ''admin'' \<or> \<not> canRead (pr_Role p) then (Inl AErrForbidden, d)
      else mapRepo (repo_List f tenant d))"

definition CustomerGet ::
  "tx_fault \<Rightarrow> uuid \<Rightarrow> uuid \<Rightarrow> uuid \<Rightarrow> appt_db \<Rightarrow> (appt_error + appointment) \<times> appt_db" where
  "CustomerGet f tenant customer i d = mapRepo (repo_GetForCustomer f tenant customer i d)"

definition cancellationState :: "appointment \<Rightarrow> tenant_settings_view \<Rightarrow> time \<Rightarrow> appointment" where
  "cancellationState a settings now =
     (if CancellationPolicy settings = ''no_cancellation''
      then a\<lparr>a_CanCancel := False, a_CancellationDeadline := None\<rparr>
      else let deadline = a_StartAt a + Minutes (- CancellationNoticeMinutes settings)
           in a\<lparr>a_CancellationDeadline := Some deadline,
                a_CanCancel := a_Status a \<noteq> ''cancelled'' \<and> a_Status a \<noteq> ''completed'' \<and>
                  a_Status a \<noteq> ''no_show'' \<and> now < deadline\<rparr>)"

definition CustomerList ::
  "deps \<Rightarrow> tx_fault \<Rightarrow> pg_env \<Rightarrow> tenant_ctx \<Rightarrow> uuid \<Rightarrow> bool \<Rightarrow> time \<Rightarrow> appt_db \<Rightarrow>
     (appt_error + appointment list) \<times> appt_db" where
  "CustomerList D f env tenant customer upcoming now d =
     (case repo_ListForCustomer f env (TenantID tenant) customer upcoming d of
        (Inl e, d') \<Rightarrow> (Inl (mapRepositoryError e), d')
      | (Inr v, d') \<Rightarrow>
        if upcoming then
          (case d_Settings D tenant of
             Inl _ \<Rightarrow> (Inl AErrUnavailable, d')
           | Inr settings \<Rightarrow> (Inr (map (\<lambda>a. cancellationState a settings now) v), d'))
        else (Inr v, d'))"

definition query_Occupancy ::
  "tx_fault \<Rightarrow> uuid \<Rightarrow> uuid \<Rightarrow> time \<Rightarrow> time \<Rightarrow> appt_db \<Rightarrow> (appt_error + appointment list) \<times> appt_db" where
  "query_Occupancy f tenant barber from to d =
     (if \<not> from < to then (Inl AErrInvalid, d) else mapRepo (repo_Occupancy f tenant barber from to d))"

end
