(* ===== verification/Appt_Policy.thy ===== *)
theory Appt_Policy
  imports Appt_Booking
begin

text \<open>
  Correctness of the booking and lifecycle services. Every operation of the application layer is a
  run of repository operations of its own tenant, so the safety theorems of the store carry over;
  bookings take their times from the catalog and pass every check of the other services; and the
  cancellation flag shown to a customer is exactly what a cancellation then decides.
\<close>

section \<open>Application operations as runs of the store\<close>

definition tenant_run :: "uuid \<Rightarrow> appt_db \<Rightarrow> appt_db \<Rightarrow> bool" where
  "tenant_run t d d' \<longleftrightarrow>
     (\<exists>xs. list_all (\<lambda>x. appt_op_tenant x = Some t) xs \<and> d' = run_ops exec_appt xs d)"

lemma tenant_run_refl [simp]: "tenant_run t d d"
  unfolding tenant_run_def by (rule exI [of _ "[]"]) simp

lemma tenant_run_step: "appt_op_tenant x = Some t \<Longrightarrow> tenant_run t d (exec_appt x d)"
  unfolding tenant_run_def by (rule exI [of _ "[x]"]) simp

lemma tenant_run_trans: "tenant_run t d d' \<Longrightarrow> tenant_run t d' d'' \<Longrightarrow> tenant_run t d d''"
  unfolding tenant_run_def by (metis list_all_append run_ops_append)

lemma tenant_run_inv: "appt_inv d \<Longrightarrow> tenant_run t d d' \<Longrightarrow> appt_inv d'"
  by (auto simp: tenant_run_def intro: appts.invar_run)

lemma mapRepo_snd [simp]: "snd (mapRepo r) = snd r"
  by (auto simp: mapRepo_def split: prod.splits sum.splits)

lemma mapRepo_Inr: "mapRepo r = (Inr v, d) \<longleftrightarrow> r = (Inr v, d)"
  by (auto simp: mapRepo_def split: prod.splits sum.splits)

text \<open>The reading operations leave the tables alone.\<close>

lemma WithTenantTx_read:
  "(\<And>v d'. fn t d = Inr (v, d') \<Longrightarrow> d' = d) \<Longrightarrow> snd (WithTenantTx f t fn d) = d"
  by (rule WithTenantTx_inv [where P = "\<lambda>x. x = d"]) auto

lemma reads_frame [simp]:
  "snd (repo_Replay f t sc p k fp d) = d"
  "snd (repo_Get f t i d) = d"
  "snd (repo_List f t d) = d"
  "snd (repo_ListForCustomer f env t c u d) = d"
  "snd (repo_GetForCustomer f t c i d) = d"
  "snd (repo_Occupancy f t b from to d) = d"
  unfolding appt_read_defs
  by (rule WithTenantTx_read, auto split: option.splits if_splits)+

lemma reads_frameD:
  "repo_Replay f t sc p k fp d = (q1, d') \<Longrightarrow> d' = d"
  "repo_Get f t i d = (q2, d') \<Longrightarrow> d' = d"
  "repo_ListForCustomer f env t c u d = (q3, d') \<Longrightarrow> d' = d"
  "repo_GetForCustomer f t c i d = (q2, d') \<Longrightarrow> d' = d"
  using reads_frame by (metis snd_conv)+

lemma repo_tenant_run:
  "tenant_run t d (snd (repo_Create f env t inp e os oe sc p key fp d))"
  "tenant_run t d (snd (repo_Transition f env t i to d))"
  "tenant_run t d (snd (repo_Reschedule f env t i s e os oe d))"
  using tenant_run_step [of "OpCreate f env t inp e os oe sc p key fp" t d]
    tenant_run_step [of "OpTransition f env t i to" t d]
    tenant_run_step [of "OpReschedule f env t i s e os oe" t d] by simp_all

lemma booking_commit_run:
  "tenant_run (TenantID (cmd_Tenant cmd)) d (snd (booking_commit D f env cmd inp sc fp d))"
  by (auto simp: booking_commit_def Let_def repo_tenant_run split: sum.splits)

lemma booking_Create_run:
  "tenant_run (TenantID (cmd_Tenant cmd)) d (snd (booking_Create X D f1 f2 env cmd d))"
  by (auto simp: booking_Create_def Let_def booking_commit_run dest!: reads_frameD
      split: sum.splits prod.splits option.splits)

lemma lifecycle_Transition_run: "tenant_run t d (snd (lifecycle_Transition f env t p i to d))"
  by (simp add: lifecycle_Transition_def repo_tenant_run)

lemma CancelCustomer_run:
  "tenant_run (TenantID t) d (snd (CancelCustomer D f1 f2 env t c i now d))"
  by (auto simp: CancelCustomer_def repo_tenant_run dest!: reads_frameD
      split: sum.splits prod.splits)

lemma lifecycle_Reschedule_run:
  "tenant_run (TenantID t) d (snd (lifecycle_Reschedule D f1 f2 env t p i start d))"
  by (auto simp: lifecycle_Reschedule_def Let_def repo_tenant_run dest!: reads_frameD
      split: sum.splits prod.splits)

lemma queries_frame [simp]:
  "snd (query_Get f tn i d) = d"
  "snd (query_GetAdmin f tn i p d) = d"
  "snd (NotificationRecipient X f tn i d) = d"
  "snd (query_List f tn p d) = d"
  "snd (CustomerGet f tn c i d) = d"
  "snd (query_Occupancy f tn b from to d) = d"
  by (auto simp: query_Get_def query_GetAdmin_def NotificationRecipient_def query_List_def
      CustomerGet_def query_Occupancy_def Let_def dest!: reads_frameD split: sum.splits prod.splits)
    (metis mapRepo_snd reads_frame(2) snd_conv)+

lemma CustomerList_frame [simp]: "snd (CustomerList D f env t c u now d) = d"
  by (auto simp: CustomerList_def dest!: reads_frameD split: sum.splits prod.splits)

lemmas app_runs = booking_Create_run lifecycle_Transition_run CancelCustomer_run
  lifecycle_Reschedule_run

section \<open>Bookings\<close>

text \<open>What a successful booking went through; a replay stops before the dependencies.\<close>

lemma booking_Create_steps:
  assumes "booking_Create X D f1 f2 env cmd d = (Inr a, d')"
  obtains (replayed) inp0 inp sc where "normalizeCreate X (cmd_Input cmd) = Inr inp0"
    "resolve_customer X D (cmd_Tenant cmd) (cmd_Principal cmd) inp0 = Inr inp"
    "principalScope X (cmd_Principal cmd) (i_CustomerContact inp) = Inr sc"
    "ValidIdempotencyKey (cmd_IdempotencyKey cmd)"
    "repo_Replay f1 (TenantID (cmd_Tenant cmd)) sc (cmd_Operation cmd) (cmd_IdempotencyKey cmd)
       (fingerprint X (TenantID (cmd_Tenant cmd)) sc (cmd_Operation cmd) inp) d = (Inr (Some a), d')"
  | (committed) inp0 inp sc where "normalizeCreate X (cmd_Input cmd) = Inr inp0"
    "resolve_customer X D (cmd_Tenant cmd) (cmd_Principal cmd) inp0 = Inr inp"
    "principalScope X (cmd_Principal cmd) (i_CustomerContact inp) = Inr sc"
    "ValidIdempotencyKey (cmd_IdempotencyKey cmd)"
    "booking_commit D f2 env cmd inp sc
       (fingerprint X (TenantID (cmd_Tenant cmd)) sc (cmd_Operation cmd) inp) d = (Inr a, d')"
  using assms
  by (auto simp: booking_Create_def Let_def split: if_splits sum.splits prod.splits option.splits
      dest: reads_frameD(1))

lemma booking_commit_steps:
  assumes "booking_commit D f env cmd inp sc fp d = (Inr a, d')"
  obtains svc where "d_BranchBarber D (cmd_Tenant cmd) (i_BranchID inp) (i_BarberID inp) = Inr ()"
    "d_Barber D (cmd_Tenant cmd) (i_BarberID inp) = Inr ()"
    "d_Service D (cmd_Tenant cmd) (i_BarberID inp) (i_ServiceID inp) = Inr svc"
    "d_Available D (cmd_Tenant cmd) inp (i_StartAt inp) = Inr ()"
    "repo_Create f env (TenantID (cmd_Tenant cmd)) inp (i_StartAt inp + Minutes (DurationMinutes svc))
       (i_StartAt inp + Minutes (- BufferBeforeMinutes svc))
       (i_StartAt inp + Minutes (DurationMinutes svc) + Minutes (BufferAfterMinutes svc))
       sc (cmd_Operation cmd) (cmd_IdempotencyKey cmd) fp d = (Inr a, d')"
  using assms by (auto simp: booking_commit_def Let_def mapRepo_Inr split: sum.splits)

lemma resolve_customer_input:
  assumes "resolve_customer X D t p inp0 = Inr inp"
  shows "i_BranchID inp = i_BranchID inp0 \<and> i_BarberID inp = i_BarberID inp0 \<and>
    i_ServiceID inp = i_ServiceID inp0 \<and> i_StartAt inp = i_StartAt inp0 \<and>
    (pr_CustomerID p = None \<longrightarrow> inp = inp0) \<and>
    (\<forall>c. pr_CustomerID p = Some c \<longrightarrow> i_CustomerID inp = Some c \<and>
       (\<exists>snap. d_Customer D t c = Inr snap \<and> i_CustomerName inp = TrimSpace (cs_Name snap)))"
  using assms
  by (auto simp: resolve_customer_def normalizeCreate_def Let_def split: option.splits sum.splits if_splits)

lemma normalizeCreate_input:
  assumes "normalizeCreate X inp0 = Inr inp"
  shows "i_BranchID inp = i_BranchID inp0 \<and> i_BarberID inp = i_BarberID inp0 \<and>
    i_ServiceID inp = i_ServiceID inp0 \<and> i_StartAt inp = i_StartAt inp0 \<and>
    i_CustomerID inp = i_CustomerID inp0 \<and> i_CustomerName inp = TrimSpace (i_CustomerName inp0)"
  using assms by (auto simp: normalizeCreate_def Let_def split: if_splits)

text \<open>
  A booking that is not a replay passed every check and took its times from the catalog: the
  barber works at the branch and is active, the service is offered by the barber, the slot was
  available, and the new row is pending, starts when asked, lasts as long as the service, and
  occupies the buffers before and after. For a signed-in customer the row is bound to that customer
  and carries the name on record, whatever name the client sent.
\<close>

theorem booking_derives_times:
  assumes "booking_Create X D f1 f2 env cmd d = (Inr a, d')" and "d' \<noteq> d"
  shows "\<exists>svc r. appointments d' = appointments d @ [r] \<and> a = scan r \<and>
    (let t = cmd_Tenant cmd; inp = cmd_Input cmd in
     d_BranchBarber D t (i_BranchID inp) (i_BarberID inp) = Inr () \<and>
     d_Barber D t (i_BarberID inp) = Inr () \<and>
     d_Service D t (i_BarberID inp) (i_ServiceID inp) = Inr svc \<and>
     r_tenant_id r = TenantID t \<and> r_status r = ''pending'' \<and> r_start_at r = i_StartAt inp \<and>
     r_end_at r = i_StartAt inp + Minutes (DurationMinutes svc) \<and>
     r_occupied_start_at r = i_StartAt inp + Minutes (- BufferBeforeMinutes svc) \<and>
     r_occupied_end_at r = r_end_at r + Minutes (BufferAfterMinutes svc) \<and>
     (\<forall>c. pr_CustomerID (cmd_Principal cmd) = Some c \<longrightarrow> r_customer_id r = Some c \<and>
        (\<exists>snap. d_Customer D t c = Inr snap \<and> r_customer_name r = TrimSpace (cs_Name snap))))"
  using assms(1)
proof (cases rule: booking_Create_steps)
  case replayed
  with assms(2) show ?thesis by (auto dest: reads_frameD(1))
next
  case (committed inp0 inp sc)
  note inp = normalizeCreate_input [OF committed(1)] resolve_customer_input [OF committed(2)]
  from committed(5) obtain svc where
    ok: "d_BranchBarber D (cmd_Tenant cmd) (i_BranchID inp) (i_BarberID inp) = Inr ()"
      "d_Barber D (cmd_Tenant cmd) (i_BarberID inp) = Inr ()"
      "d_Service D (cmd_Tenant cmd) (i_BarberID inp) (i_ServiceID inp) = Inr svc"
    and c: "repo_Create f2 env (TenantID (cmd_Tenant cmd)) inp
       (i_StartAt inp + Minutes (DurationMinutes svc))
       (i_StartAt inp + Minutes (- BufferBeforeMinutes svc))
       (i_StartAt inp + Minutes (DurationMinutes svc) + Minutes (BufferAfterMinutes svc))
       sc (cmd_Operation cmd) (cmd_IdempotencyKey cmd)
       (fingerprint X (TenantID (cmd_Tenant cmd)) sc (cmd_Operation cmd) inp) d = (Inr a, d')"
    by (rule booking_commit_steps)
  let ?r = "new_appointment_row env (TenantID (cmd_Tenant cmd)) inp
       (i_StartAt inp + Minutes (DurationMinutes svc))
       (i_StartAt inp + Minutes (- BufferBeforeMinutes svc))
       (i_StartAt inp + Minutes (DurationMinutes svc) + Minutes (BufferAfterMinutes svc))"
  have "appointments d' = appointments d @ [?r]" using Create_rows [OF c] assms(2) by simp
  moreover have "a = scan ?r" using c assms(2)
    by (cases rule: repo_Create_cases) (auto elim!: repo_Create_freshD)
  moreover have "r_customer_id ?r = i_CustomerID inp" "r_customer_name ?r = i_CustomerName inp"
    by (simp_all add: new_appointment_row_def)
  ultimately show ?thesis using ok inp
    by (intro exI [of _ svc] exI [of _ ?r]) (simp add: Let_def)
qed

text \<open>
  A retry gets its booking. After a first booking under a key nobody used before, and any
  operations within the retention window, the same command returns the appointment booked first and
  changes nothing, even when the barber, the service or the slot has meanwhile become unavailable;
  only the customer's snapshot has to be the same.
\<close>

theorem booking_retry:
  assumes "appt_inv d" and "\<forall>k \<in> set (idempotency_keys d). k_key k \<noteq> cmd_IdempotencyKey cmd"
    and "booking_Create X D f1 f2 env cmd d = (Inr a, d1)"
    and "list_all (keeps_key (pg_now env)) xs" and "d2 = run_ops exec_appt xs d1"
    and "d_Customer D' = d_Customer D"
  shows "\<exists>a'. booking_Create X D' NoFault f3 env' cmd d2 = (Inr a', d2) \<and> a_ID a' = a_ID a"
  using assms(3)
proof (cases rule: booking_Create_steps)
  case (replayed inp0 inp sc)
  have "sql_find_key t sc p (cmd_IdempotencyKey cmd) d = None" for t sc p
    using assms(2) by (auto simp: sql_find_key_def find_None_iff)
  with replayed(5) show ?thesis by (simp add: repo_Replay_def WithTenantTx_ok)
next
  case (committed inp0 inp sc)
  let ?t = "TenantID (cmd_Tenant cmd)"
  let ?fp = "fingerprint X ?t sc (cmd_Operation cmd) inp"
  from committed(5) obtain e os oe where c: "repo_Create f2 env ?t inp e os oe
       sc (cmd_Operation cmd) (cmd_IdempotencyKey cmd) ?fp d = (Inr a, d1)"
    by (rule booking_commit_steps) blast
  have new: "sql_find_key ?t sc (cmd_Operation cmd) (cmd_IdempotencyKey cmd) d = None"
    using assms(2) by (auto simp: sql_find_key_def find_None_iff)
  have key: "cmd_IdempotencyKey cmd \<noteq> []" using committed(4) by (auto simp: ValidIdempotencyKey_def)
  obtain k r where "sql_find_key ?t sc (cmd_Operation cmd) (cmd_IdempotencyKey cmd) d2 = Some k"
    "k_fingerprint k = ?fp" "sql_find_appointment ?t (k_appointment_id k) d2 = Some r"
    "r_id r = a_ID a"
    by (rule created_key_stays [OF assms(1) key new c assms(4,5)])
  moreover have "resolve_customer X D' (cmd_Tenant cmd) (cmd_Principal cmd) inp0 = Inr inp"
    using committed(2) unfolding resolve_customer_def assms(6) .
  ultimately show ?thesis using committed(1,3,4)
    by (simp add: booking_Create_def Let_def repo_Replay_def WithTenantTx_NoFault)
qed

text \<open>
  Idempotency keys of different principals never meet. Two principals have the same scope only
  when they are of one kind and are the same customer, the same admin identity, or guests whose
  addresses have one digest.
\<close>

theorem principal_scopes_separate:
  assumes "inj (uuid_String X)" and "principalScope X p e = Inr s" and "principalScope X q e' = Inr s"
  shows "pr_Kind p = pr_Kind q \<and>
    (pr_Kind p = ''customer'' \<longrightarrow> pr_CustomerID p = pr_CustomerID q) \<and>
    (pr_Kind p = ''admin'' \<longrightarrow> pr_IdentityID p = pr_IdentityID q) \<and>
    (pr_Kind p = ''guest'' \<longrightarrow> sha256_hex X e = sha256_hex X e')"
  using assms
  by (auto simp: principalScope_def inj_def split: if_splits option.splits)

section \<open>Cancellation by the customer\<close>

lemma sql_update_inactive:
  assumes "appt_inv d" and "sql_find_appointment t i d = Some r"
    and "\<not> active_status s" and "s \<in> set statuses"
  shows "\<exists>r' d1. sql_update_appointment t i (\<lambda>x. x\<lparr>r_status := s, r_updated_at := now\<rparr>) d = Inr (r', d1) \<and>
    r_id r' = i \<and> sql_find_appointment t i d1 \<noteq> None \<and>
    appointment_events d1 = appointment_events d \<and> outbox_events d1 = outbox_events d"
proof -
  let ?g = "\<lambda>x. x\<lparr>r_status := s, r_updated_at := now\<rparr>"
  note r = sql_find_appointmentD [OF assms(2)]
  have "row_checks (?g r)" using assms(1,4) r by (auto simp: appt_inv_def appts_wf_def row_checks_def)
  moreover have "\<not> excluded_pair (?g r) x" for x using assms(3) by (simp add: excluded_pair_def)
  moreover have "sql_find_appointment t i (d\<lparr>appointments :=
      map (\<lambda>x. if r_tenant_id x = t \<and> r_id x = i then ?g x else x) (appointments d)\<rparr>) \<noteq> None"
    using assms(2) by (simp add: sql_find_appointment_def find_map_update)
  ultimately show ?thesis using assms(2) r by (simp add: sql_update_appointment_def list_ex_iff)
qed

lemma transition_inactive:
  assumes "appt_inv d" and "fresh_env env d" and "sql_find_appointment t i d = Some r"
    and "transitions (r_status r) s" and "\<not> active_status s" and "s \<in> set statuses"
  shows "\<exists>a d'. repo_Transition NoFault env t i s d = (Inr a, d')"
proof -
  obtain r' d1 where u: "sql_update_appointment t i
      (\<lambda>x. x\<lparr>r_status := s, r_updated_at := pg_now env\<rparr>) d = Inr (r', d1)" "r_id r' = i"
    "sql_find_appointment t i d1 \<noteq> None" "appointment_events d1 = appointment_events d"
    "outbox_events d1 = outbox_events d"
    using sql_update_inactive [OF assms(1,3,5,6)] by blast
  have "\<exists>d2. appendEvent env t t (scan r') (titles s) (''appointment.'' @ s) d1 = Inr d2"
    by (rule appendEvent_ok) (use u assms(2) in \<open>simp_all add: fresh_env_def\<close>)
  with u(1) assms(3,4) show ?thesis
    by (auto simp: repo_Transition_def WithTenantTx_NoFault)
qed

lemma find_for_customer:
  assumes "appts_wf d" and "r \<in> set (appointments d)" and "r_customer_id r = Some c"
  shows "find (\<lambda>x. r_tenant_id x = r_tenant_id r \<and> r_customer_id x = Some c \<and> r_id x = r_id r)
    (appointments d) = Some r"
  using assms by (intro find_unique [where key = r_id]) (auto simp: appts_wf_def)

text \<open>
  (C6) What the customer is shown is what happens. For an appointment of the customer, the flag
  CanCancel of the list is set exactly when a cancellation by that customer at that moment
  succeeds; and a cancellation that succeeds leaves the appointment cancelled.
\<close>

theorem cancel_flag_exact:
  assumes "appt_inv d" and "fresh_env env d" and "r \<in> set (appointments d)"
    and "r_tenant_id r = TenantID t" and "r_customer_id r = Some c" and "d_Settings D t = Inr settings"
  shows "a_CanCancel (cancellationState (scan r) settings now) \<longleftrightarrow>
    (\<exists>a d'. CancelCustomer D NoFault NoFault env t c (r_id r) now d = (Inr a, d') \<and>
       a_ID a = r_id r \<and> a_Status a = ''cancelled'')"
proof -
  have wf: "appts_wf d" using assms(1) by (simp add: appt_inv_def)
  then have f: "sql_find_appointment (TenantID t) (r_id r) d = Some r"
    using sql_find_appointmentI assms(3,4) by metis
  have st: "r_status r \<in> set statuses" using wf assms(3) by (auto simp: appts_wf_def row_checks_def)
  have get: "repo_GetForCustomer NoFault (TenantID t) c (r_id r) d = (Inr (scan r), d)"
    using find_for_customer [OF wf assms(3,5)] assms(4)
    by (simp add: repo_GetForCustomer_def WithTenantTx_NoFault)
  have can: "CancelCustomer D NoFault NoFault env t c (r_id r) now d =
      (if cancel_closed settings (r_start_at r) now then (Inl AErrConflict, d)
       else mapRepo (repo_Transition NoFault env (TenantID t) (r_id r) ''cancelled'' d))"
    using assms(6) by (simp add: CancelCustomer_def get scan_def)
  have ok: "(\<exists>a d'. repo_Transition NoFault env (TenantID t) (r_id r) ''cancelled'' d = (Inr a, d') \<and>
      a_ID a = r_id r \<and> a_Status a = ''cancelled'') \<longleftrightarrow> transitions (r_status r) ''cancelled''" (is "?l = ?r")
  proof
    assume ?l
    then show ?r using f by (auto elim!: Transition_rows)
  next
    assume ?r
    then obtain a d' where a: "repo_Transition NoFault env (TenantID t) (r_id r) ''cancelled'' d = (Inr a, d')"
      using transition_inactive [OF assms(1,2) f, of "''cancelled''"]
      by (auto simp: active_status_def statuses_def)
    then have "a_ID a = r_id r" "a_Status a = ''cancelled''"
      using f by (auto elim!: Transition_rows simp: scan_def)
    with a show ?l by blast
  qed
  have tr: "transitions (r_status r) ''cancelled'' \<longleftrightarrow> r_status r \<noteq> ''cancelled'' \<and>
      r_status r \<noteq> ''completed'' \<and> r_status r \<noteq> ''no_show''"
    using st by (auto simp: transitions_def statuses_def)
  have flag: "a_CanCancel (cancellationState (scan r) settings now) \<longleftrightarrow>
      \<not> cancel_closed settings (r_start_at r) now \<and> transitions (r_status r) ''cancelled''"
    unfolding tr by (auto simp: cancellationState_def cancel_closed_def scan_def Let_def)
  show ?thesis
    unfolding can flag by (auto simp: mapRepo_Inr ok [symmetric])
qed

end
