(* ===== verification/Appt_Moves.thy ===== *)
theory Appt_Moves
  imports Appt_Policy
begin

text \<open>
  Rescheduling and status changes implement the abstract calendar: rescheduling moves the entry of an
  active appointment exactly when the new range is free, a confirmation keeps it, and a
  cancellation, completion or no-show removes it.
\<close>

lemma row_update_set:
  assumes "appts_wf d" and "sql_find_appointment t i d = Some r" and "row_update t i g d d'"
  shows "set (appointments d') = insert (g r) {x \<in> set (appointments d). r_id x \<noteq> i}"
proof -
  note r = sql_find_appointmentD [OF assms(2)]
  have "x = r" if "x \<in> set (appointments d)" "r_id x = i" for x
    using that r inj_key [of r_id "appointments d" x r] assms(1) by (simp add: appts_wf_def)
  then show ?thesis using r assms(3) by (auto simp: row_update_def)
qed

lemma calendar_eqI: "(\<And>s e. x = Some (s, e) \<longleftrightarrow> y = Some (s, e)) \<Longrightarrow> x = y"
  by (metis not_Some_eq surj_pair)

lemma row_update_calendar:
  assumes "appts_wf d" and "appts_wf d'" and "sql_find_appointment t i d = Some r"
    and "row_update t i g d d'"
    and "\<And>x. r_id (g x) = r_id x \<and> r_tenant_id (g x) = r_tenant_id x \<and> r_barber_id (g x) = r_barber_id x"
  shows "calendar_of t' b' d' =
    (if t' = t \<and> b' = r_barber_id r
     then (calendar_of t' b' d)(i := if active_status (r_status (g r))
       then Some (r_occupied_start_at (g r), r_occupied_end_at (g r)) else None)
     else calendar_of t' b' d)" (is "_ = ?c")
proof -
  note r = sql_find_appointmentD [OF assms(3)]
  have uniq: "x = r" if "x \<in> set (appointments d)" "r_id x = i" for x
    using that r inj_key [of r_id "appointments d" x r] assms(1) by (simp add: appts_wf_def)
  have other: "calendar_of t' b' d' j = calendar_of t' b' d j" if "j \<noteq> i" for j
  proof (rule calendar_eqI)
    fix s e
    show "calendar_of t' b' d' j = Some (s, e) \<longleftrightarrow> calendar_of t' b' d j = Some (s, e)"
      unfolding calendar_of_Some [OF assms(1)] calendar_of_Some [OF assms(2)]
        row_update_set [OF assms(1,3,4)]
      using that r assms(5) by auto
  qed
  have own: "calendar_of t' b' d' i = (if t' = t \<and> b' = r_barber_id r \<and> active_status (r_status (g r))
      then Some (r_occupied_start_at (g r), r_occupied_end_at (g r)) else None)"
  proof (rule calendar_eqI)
    fix s e
    show "calendar_of t' b' d' i = Some (s, e) \<longleftrightarrow>
      (if t' = t \<and> b' = r_barber_id r \<and> active_status (r_status (g r))
       then Some (r_occupied_start_at (g r), r_occupied_end_at (g r)) else None) = Some (s, e)"
      unfolding calendar_of_Some [OF assms(2)] row_update_set [OF assms(1,3,4)]
      using r assms(5) by auto
  qed
  have away: "calendar_of t' b' d i = None" if "\<not> (t' = t \<and> b' = r_barber_id r)"
    using that r uniq unfolding calendar_of_None by blast
  have "calendar_of t' b' d' j = ?c j" for j
    using other [of j] own away by (cases "j = i") auto
  then show ?thesis by (rule ext)
qed

lemma appendEvent_after_update:
  assumes "fresh_env env d" and "sql_update_appointment t i g d = Inr (r', d1)"
    and "\<And>x. r_id (g x) = r_id x \<and> r_tenant_id (g x) = r_tenant_id x"
  shows "\<exists>d2. appendEvent env t t (scan r') nm ty d1 = Inr d2"
  using assms(2)
proof (rule sql_update_appointmentD)
  fix r
  assume r: "sql_find_appointment t i d = Some r" "r' = g r" and
    d1: "d1 = d\<lparr>appointments := map (\<lambda>x. if r_tenant_id x = t \<and> r_id x = i then g x else x) (appointments d)\<rparr>"
  have "sql_find_appointment t i d1 \<noteq> None"
    using r(1) assms(3) unfolding d1 by (simp add: sql_find_appointment_def find_map_update)
  then show ?thesis using r sql_find_appointmentD [OF r(1)] assms(1,3)
    by (intro appendEvent_ok) (simp_all add: fresh_env_def d1)
qed

lemma reschedule_succeeds_iff:
  assumes inv: "appt_inv d" and env: "fresh_env env d" and f: "sql_find_appointment t i d = Some r"
    and act: "active_status (r_status r)" and rng: "s < e" "os < oe"
  shows "cal_free (calendar_of t (r_barber_id r) d) i os oe \<Longrightarrow>
      \<exists>a d'. repo_Reschedule NoFault env t i s e os oe d = (Inr a, d')"
    and "\<not> cal_free (calendar_of t (r_barber_id r) d) i os oe \<Longrightarrow>
      repo_Reschedule NoFault env t i s e os oe d = (Inl (PgError ''23P01''), d)"
proof -
  let ?g = "\<lambda>x. x\<lparr>r_start_at := s, r_end_at := e, r_occupied_start_at := os,
    r_occupied_end_at := oe, r_updated_at := pg_now env\<rparr>"
  note r = sql_find_appointmentD [OF f]
  have wf: "appts_wf d" using inv by (simp add: appt_inv_def)
  have chk: "row_checks (?g r)" using wf r rng by (auto simp: appts_wf_def row_checks_def)
  have free: "cal_free (calendar_of t (r_barber_id r) d) i os oe \<longleftrightarrow>
      \<not> list_ex (\<lambda>x. r_id x \<noteq> i \<and> excluded_pair (?g r) x) (appointments d)"
    using exclusion_iff_free [OF wf, of "?g r"] act r by (auto simp: list_ex_iff)
  have body: "repo_Reschedule NoFault env t i s e os oe d =
     (case sql_update_appointment t i ?g d of
        Inl er \<Rightarrow> (Inl er, d)
      | Inr (r', d1) \<Rightarrow>
        (case appendEvent env t t (scan r') ''AppointmentRescheduled'' ''appointment.rescheduled'' d1 of
           Inl er \<Rightarrow> (Inl er, d) | Inr d2 \<Rightarrow> (Inr (scan r'), d2)))"
    using act f by (auto simp: repo_Reschedule_def WithTenantTx_NoFault active_status_def
        split: sum.splits)
  show "\<exists>a d'. repo_Reschedule NoFault env t i s e os oe d = (Inr a, d')"
    if "cal_free (calendar_of t (r_barber_id r) d) i os oe"
  proof -
    from that free have "\<not> list_ex (\<lambda>x. r_id x \<noteq> i \<and> excluded_pair (?g r) x) (appointments d)"
      by blast
    then obtain d1 where u: "sql_update_appointment t i ?g d = Inr (?g r, d1)"
      using chk f by (simp add: sql_update_appointment_def)
    from appendEvent_after_update
      [OF env u, of "''AppointmentRescheduled''" "''appointment.rescheduled''"] show ?thesis unfolding body u by auto
  qed
  show "repo_Reschedule NoFault env t i s e os oe d = (Inl (PgError ''23P01''), d)"
    if "\<not> cal_free (calendar_of t (r_barber_id r) d) i os oe"
    unfolding body using that free chk f by (simp add: sql_update_appointment_def)
qed

text \<open>
  Rescheduling decides by the calendar: the new range is accepted exactly when it overlaps no
  other entry of the barber's calendar (its own old range does not count). An accepted move replaces
  exactly the entry of the appointment; a refused one is the exclusion violation and changes nothing.
\<close>

theorem reschedule_refines_calendar:
  assumes "appt_inv d" and "fresh_env env d" and "sql_find_appointment t i d = Some r"
    and "active_status (r_status r)" and "s < e" and "os < oe"
  shows "case cal_book (calendar_of t (r_barber_id r) d) i os oe of
      Some c \<Rightarrow> (\<exists>a d'. repo_Reschedule NoFault env t i s e os oe d = (Inr a, d') \<and>
          a_ID a = i \<and> a_StartAt a = s \<and> a_EndAt a = e \<and> a_Status a = r_status r \<and>
          calendar_of t (r_barber_id r) d' = c \<and>
          (\<forall>t' b'. (t', b') \<noteq> (t, r_barber_id r) \<longrightarrow> calendar_of t' b' d' = calendar_of t' b' d))
    | None \<Rightarrow> repo_Reschedule NoFault env t i s e os oe d = (Inl (PgError ''23P01''), d)"
proof (cases "cal_free (calendar_of t (r_barber_id r) d) i os oe")
  case True
  then obtain a d' where a: "repo_Reschedule NoFault env t i s e os oe d = (Inr a, d')"
    using reschedule_succeeds_iff(1) [OF assms] by blast
  have "appt_inv d'" using repo_Reschedule_inv [OF assms(1), of NoFault env t i s e os oe] a by simp
  then have wf: "appts_wf d" "appts_wf d'" using assms(1) by (simp_all add: appt_inv_def)
  let ?g = "\<lambda>x. x\<lparr>r_start_at := s, r_end_at := e, r_occupied_start_at := os,
    r_occupied_end_at := oe, r_updated_at := pg_now env\<rparr>"
  from a have "a = scan (?g r)" and u: "row_update t i ?g d d'"
    using assms(3) by (auto elim!: Reschedule_rows)
  moreover note row_update_calendar [OF wf assms(3) u]
  ultimately show ?thesis
    using True a assms(4) sql_find_appointmentD [OF assms(3)]
    by (auto simp: cal_book_def scan_def)
next
  case False
  with reschedule_succeeds_iff(2) [OF assms] show ?thesis by (simp add: cal_book_def)
qed

text \<open>
  A status change that succeeds has the calendar effect of its target: confirming keeps every
  calendar as it is; cancelling, completing and no-show remove exactly the entry of the appointment,
  so its range is free again for the next booking.
\<close>

theorem transition_refines_calendar:
  assumes "appt_inv d" and "sql_find_appointment t i d = Some r"
    and "repo_Transition f env t i to d = (Inr a, d')"
  shows "calendar_of t' b' d' =
    (if to \<noteq> ''confirmed'' \<and> t' = t \<and> b' = r_barber_id r then (calendar_of t' b' d)(i := None)
     else calendar_of t' b' d)"
proof -
  let ?g = "\<lambda>x. x\<lparr>r_status := to, r_updated_at := pg_now env\<rparr>"
  have "appt_inv d'" using repo_Transition_inv [OF assms(1), of f env t i to] assms(3) by simp
  then have wf: "appts_wf d" "appts_wf d'" using assms(1) by (simp_all add: appt_inv_def)
  from assms(3) have tr: "transitions (r_status r) to" and u: "row_update t i ?g d d'"
    using assms(2) by (auto elim!: Transition_rows)
  note r = sql_find_appointmentD [OF assms(2)]
  have act: "active_status to \<longleftrightarrow> to = ''confirmed''" "active_status (r_status r)"
    using tr by (auto simp: transitions_def active_status_def split: if_splits)
  have "calendar_of t (r_barber_id r) d i = Some (r_occupied_start_at r, r_occupied_end_at r)"
    using calendar_of_Some [OF wf(1), of t "r_barber_id r" i] r act(2) by blast
  then show ?thesis using row_update_calendar [OF wf assms(2) u, of t' b'] act
    by (auto simp: fun_upd_idem)
qed

end
