(* ===== verification/Appt_Http.thy ===== *)
theory Appt_Http
  imports Appt_Moves
begin

text \<open>
  The edges of appointment-service: the REST client it reaches the other services through
  (\<^verbatim>\<open>internal/client/dependencies.go\<close>) and its HTTP handlers (\<^verbatim>\<open>internal/handler/http.go\<close>).

  JSON decoding, \<^verbatim>\<open>time.Parse\<close>, the time zone database and the HTTP transport are fields of the
  client and handler records. A handler returns its response and the tables after it; the faults,
  generated values and clock reading of one request are its \<open>appt_io\<close>.
\<close>

section \<open>internal/client\<close>

record appt_client =
  ac_deps :: sched_client
  ac_schedulingURL :: string
  ac_customerURL :: string
  ac_svc_token :: string
  ac_http :: "http_req \<Rightarrow> http_resp"
  ac_local_date :: "string \<Rightarrow> time \<Rightarrow> string option"
  ac_decode_slots :: "string \<Rightarrow> time list option"
  ac_decode_customer :: "string \<Rightarrow> customer_snapshot option"

definition client_New ::
  "sched_client \<Rightarrow> string \<Rightarrow> string \<Rightarrow> string \<Rightarrow> (http_req \<Rightarrow> http_resp) \<Rightarrow>
     (string \<Rightarrow> time \<Rightarrow> string option) \<Rightarrow> (string \<Rightarrow> time list option) \<Rightarrow>
     (string \<Rightarrow> customer_snapshot option) \<Rightarrow> appt_client" where
  "client_New sd schedulingURL customerURL token http dates slots customers =
     \<lparr>ac_deps = sd, ac_schedulingURL = trim_right_slash schedulingURL,
      ac_customerURL = trim_right_slash customerURL, ac_svc_token = token, ac_http = http,
      ac_local_date = dates, ac_decode_slots = slots, ac_decode_customer = customers\<rparr>"

definition client_Barber :: "externals \<Rightarrow> appt_client \<Rightarrow> tenant_ctx \<Rightarrow> uuid \<Rightarrow> dep_error + unit" where
  "client_Barber X cl t barber = (case sd_Barber X (ac_deps cl) t barber of Inl e \<Rightarrow> Inl e | Inr _ \<Rightarrow> Inr ())"

definition availability_url :: "externals \<Rightarrow> uuid \<Rightarrow> uuid \<Rightarrow> string \<Rightarrow> string" where
  "availability_url X barber service date =
     ''barber_id='' @ uuid_String X barber @ ''&date='' @ date @ ''&service_id='' @ uuid_String X service"

definition client_Available ::
  "externals \<Rightarrow> appt_client \<Rightarrow> tenant_ctx \<Rightarrow> create_input \<Rightarrow> time \<Rightarrow> dep_error + unit" where
  "client_Available X cl t inp start =
     (case sd_Settings X (ac_deps cl) t of
        Inl e \<Rightarrow> Inl e
      | Inr settings \<Rightarrow>
      (case ac_local_date cl (Timezone settings) start of
        None \<Rightarrow> Inl (DepOther ''unknown time zone'')
      | Some date \<Rightarrow>
      (case ac_http cl \<lparr>hr_method = ''GET'',
           hr_url = ac_schedulingURL cl @ ''/internal/v1/public/availability?'' @
             availability_url X (i_BarberID inp) (i_ServiceID inp) date,
           hr_headers = tenant_headers X (ac_svc_token cl) t\<rparr> of
        TransportError e \<Rightarrow> Inl (DepTransport e)
      | Response status body \<Rightarrow>
          if status < 200 \<or> status > 299 then Inl (DepOther ''scheduling rejected slot'')
          else (case ac_decode_slots cl body of
            None \<Rightarrow> Inl DepDecode
          | Some slots \<Rightarrow>
              if list_ex (\<lambda>slot. slot = start) slots then Inr ()
              else Inl (DepOther ''requested slot unavailable'')))))"

definition client_Customer ::
  "externals \<Rightarrow> appt_client \<Rightarrow> tenant_ctx \<Rightarrow> uuid \<Rightarrow> dep_error + customer_snapshot" where
  "client_Customer X cl t i =
     (case ac_http cl \<lparr>hr_method = ''GET'',
         hr_url = ac_customerURL cl @ ''/internal/v1/customer/'' @ uuid_String X i,
         hr_headers = tenant_headers X (ac_svc_token cl) t\<rparr> of
        TransportError e \<Rightarrow> Inl (DepTransport e)
      | Response status body \<Rightarrow>
          if status < 200 \<or> status \<ge> 300 then Inl (DepOther ''customer snapshot unavailable'')
          else (case ac_decode_customer cl body of None \<Rightarrow> Inl DepDecode | Some out \<Rightarrow> Inr out))"

definition client_deps :: "externals \<Rightarrow> appt_client \<Rightarrow> deps" where
  "client_deps X cl =
     \<lparr>d_BranchBarber = sd_BranchBarber X (ac_deps cl), d_Barber = client_Barber X cl,
      d_Service = sd_Service X (ac_deps cl), d_Settings = sd_Settings X (ac_deps cl),
      d_Available = client_Available X cl, d_Customer = client_Customer X cl\<rparr>"

section \<open>internal/handler\<close>

record appt_handler =
  h_X :: externals
  h_deps :: deps
  h_verify :: "string \<Rightarrow> bool"
  h_auth :: auth_client
  h_decode_create :: "string \<Rightarrow> create_input option"
  h_decode_start :: "string \<Rightarrow> time option"
  h_parse_rfc3339 :: "string \<Rightarrow> time option"

record appt_io =
  io_f1 :: tx_fault
  io_f2 :: tx_fault
  io_env :: pg_env
  io_now :: time

datatype appt_body =
    BodyAppointment appointment
  | BodyAppointments "appointment list"
  | BodyOccupied "(time \<times> time) list"
  | BodyEmail string

type_synonym appt_answer = "appt_body response \<times> appt_db"

definition trusted :: "appt_handler \<Rightarrow> fiber_ctx \<Rightarrow> string \<Rightarrow> appt_error + tenant_ctx" where
  "trusted h c appType =
     (case adminauth_Context (h_X h) (h_verify h) c of
        Inl _ \<Rightarrow> Inl AErrUnauthorized
      | Inr t \<Rightarrow> if AppType t \<noteq> appType then Inl AErrUnauthorized else Inr t)"

definition admin :: "appt_handler \<Rightarrow> fiber_ctx \<Rightarrow> appt_error + (tenant_ctx \<times> principal)" where
  "admin h c =
     (case trusted h c ''admin'' of
        Inl e \<Rightarrow> Inl e
      | Inr t \<Rightarrow>
        (case Authenticate (h_X h) (h_auth h) t (c_Get c ''Cookie'') of
           Inl _ \<Rightarrow> Inl AErrUnauthorized
         | Inr p \<Rightarrow> Inr (t, \<lparr>pr_Kind = ''admin'', pr_IdentityID = ap_IdentityID p,
             pr_CustomerID = None, pr_Role = ap_Role p\<rparr>)))"

definition customer :: "appt_handler \<Rightarrow> fiber_ctx \<Rightarrow> appt_error + (tenant_ctx \<times> uuid)" where
  "customer h c =
     (case trusted h c ''booking'' of
        Inl e \<Rightarrow> Inl e
      | Inr t \<Rightarrow>
        (case uuid_Parse (h_X h) (c_Get c ''X-Customer-ID'') of
           None \<Rightarrow> Inl AErrUnauthorized
         | Some i \<Rightarrow> if i = uuid_nil then Inl AErrUnauthorized else Inr (t, i)))"

text \<open>The field \<^verbatim>\<open>CustomerID\<close> has the tag \<^verbatim>\<open>json:"-"\<close>, so a body never sets it.\<close>

definition parseCreate :: "appt_handler \<Rightarrow> fiber_ctx \<Rightarrow> appt_error + create_input" where
  "parseCreate h c =
     (case h_decode_create h (c_Body c) of
        None \<Rightarrow> Inl AErrInvalid
      | Some inp \<Rightarrow> Inr (inp\<lparr>i_CustomerID := None\<rparr>))"

fun appointmentResult :: "int \<Rightarrow> (appt_error + appointment) \<times> appt_db \<Rightarrow> appt_answer" where
  "appointmentResult success (Inr a, d) = (JSON success (BodyAppointment a), d)"
| "appointmentResult success (Inl AErrInvalidIdempotencyKey, d) = (JSONError 400 ''invalid_idempotency_key'', d)"
| "appointmentResult success (Inl AErrInvalid, d) = (SendStatus 400, d)"
| "appointmentResult success (Inl AErrIdempotencyConflict, d) = (JSONError 409 ''idempotency_conflict'', d)"
| "appointmentResult success (Inl AErrConflict, d) = (SendStatus 409, d)"
| "appointmentResult success (Inl AErrNotFound, d) = (SendStatus 404, d)"
| "appointmentResult success (Inl AErrForbidden, d) = (SendStatus 403, d)"
| "appointmentResult success (Inl AErrUnauthorized, d) = (SendStatus 401, d)"
| "appointmentResult success (Inl AErrUnavailable, d) = (SendStatus 502, d)"
| "appointmentResult success (Inl (AErrRepository e), d) = (SendStatus 500, d)"

definition guest_principal :: principal where
  "guest_principal = \<lparr>pr_Kind = ''guest'', pr_IdentityID = uuid_nil, pr_CustomerID = None, pr_Role = []\<rparr>"

definition customer_principal :: "uuid \<Rightarrow> principal" where
  "customer_principal i = \<lparr>pr_Kind = ''customer'', pr_IdentityID = uuid_nil, pr_CustomerID = Some i, pr_Role = []\<rparr>"

definition public_principal :: "appt_handler \<Rightarrow> fiber_ctx \<Rightarrow> principal option" where
  "public_principal h c =
     (let raw = c_Get c ''X-Customer-ID'' in
      if raw \<noteq> [] then
        (case uuid_Parse (h_X h) raw of
           None \<Rightarrow> None
         | Some i \<Rightarrow> if i = uuid_nil then None else Some (customer_principal i))
      else Some guest_principal)"

definition h_create ::
  "appt_handler \<Rightarrow> appt_io \<Rightarrow> fiber_ctx \<Rightarrow> tenant_ctx \<Rightarrow> principal \<Rightarrow> string \<Rightarrow> create_input \<Rightarrow> appt_db \<Rightarrow>
     appt_answer" where
  "h_create h io c t p oper inp d =
     appointmentResult 201 (booking_Create (h_X h) (h_deps h) (io_f1 io) (io_f2 io) (io_env io)
       \<lparr>cmd_Tenant = t, cmd_Principal = p, cmd_Operation = oper,
        cmd_IdempotencyKey = c_Get c ''Idempotency-Key'', cmd_Input = inp\<rparr> d)"

definition pubCreate :: "appt_handler \<Rightarrow> appt_io \<Rightarrow> fiber_ctx \<Rightarrow> appt_db \<Rightarrow> appt_answer" where
  "pubCreate h io c d =
     (case trusted h c ''booking'' of
        Inl _ \<Rightarrow> (SendStatus 401, d)
      | Inr t \<Rightarrow>
      (case parseCreate h c of
        Inl _ \<Rightarrow> (SendStatus 400, d)
      | Inr inp \<Rightarrow>
      (case public_principal h c of
        None \<Rightarrow> (SendStatus 401, d)
      | Some p \<Rightarrow> h_create h io c t p ''public.create_appointment'' inp d)))"

definition admCreate :: "appt_handler \<Rightarrow> appt_io \<Rightarrow> fiber_ctx \<Rightarrow> appt_db \<Rightarrow> appt_answer" where
  "admCreate h io c d =
     (case admin h c of
        Inl _ \<Rightarrow> (SendStatus 403, d)
      | Inr (t, p) \<Rightarrow>
      (case parseCreate h c of
        Inl _ \<Rightarrow> (SendStatus 400, d)
      | Inr inp \<Rightarrow> h_create h io c t p ''admin.create_appointment'' inp d))"

definition customerList :: "appt_handler \<Rightarrow> bool \<Rightarrow> appt_io \<Rightarrow> fiber_ctx \<Rightarrow> appt_db \<Rightarrow> appt_answer" where
  "customerList h upcoming io c d =
     (case customer h c of
        Inl _ \<Rightarrow> (SendStatus 401, d)
      | Inr (t, i) \<Rightarrow>
      (case CustomerList (h_deps h) (io_f1 io) (io_env io) t i upcoming (io_now io) d of
        (Inl e, d') \<Rightarrow> if e = AErrUnavailable then (SendStatus 502, d') else (SendStatus 500, d')
      | (Inr v, d') \<Rightarrow> (JSON 200 (BodyAppointments v), d')))"

definition with_id :: "appt_handler \<Rightarrow> fiber_ctx \<Rightarrow> (uuid \<Rightarrow> appt_answer) \<Rightarrow> appt_db \<Rightarrow> appt_answer" where
  "with_id h c f d =
     (case uuid_Parse (h_X h) (c_Params c ''id'') of None \<Rightarrow> (SendStatus 400, d) | Some i \<Rightarrow> f i)"

definition customerGet :: "appt_handler \<Rightarrow> appt_io \<Rightarrow> fiber_ctx \<Rightarrow> appt_db \<Rightarrow> appt_answer" where
  "customerGet h io c d =
     (case customer h c of
        Inl _ \<Rightarrow> (SendStatus 401, d)
      | Inr (t, customerID) \<Rightarrow> with_id h c (\<lambda>i.
          appointmentResult 200 (CustomerGet (io_f1 io) (TenantID t) customerID i d)) d)"

definition customerCancel :: "appt_handler \<Rightarrow> appt_io \<Rightarrow> fiber_ctx \<Rightarrow> appt_db \<Rightarrow> appt_answer" where
  "customerCancel h io c d =
     (case customer h c of
        Inl _ \<Rightarrow> (SendStatus 401, d)
      | Inr (t, customerID) \<Rightarrow> with_id h c (\<lambda>i.
          appointmentResult 200 (CancelCustomer (h_deps h) (io_f1 io) (io_f2 io) (io_env io) t
            customerID i (io_now io) d)) d)"

definition pubGet :: "appt_handler \<Rightarrow> appt_io \<Rightarrow> fiber_ctx \<Rightarrow> appt_db \<Rightarrow> appt_answer" where
  "pubGet h io c d =
     (case trusted h c ''booking'' of
        Inl _ \<Rightarrow> (SendStatus 401, d)
      | Inr t \<Rightarrow> with_id h c (\<lambda>i. appointmentResult 200 (query_Get (io_f1 io) (TenantID t) i d)) d)"

definition h_get :: "appt_handler \<Rightarrow> appt_io \<Rightarrow> fiber_ctx \<Rightarrow> appt_db \<Rightarrow> appt_answer" where
  "h_get h io c d =
     (case admin h c of
        Inl _ \<Rightarrow> (SendStatus 403, d)
      | Inr (t, p) \<Rightarrow> with_id h c (\<lambda>i.
          appointmentResult 200 (query_GetAdmin (io_f1 io) (TenantID t) i p d)) d)"

definition h_list :: "appt_handler \<Rightarrow> appt_io \<Rightarrow> fiber_ctx \<Rightarrow> appt_db \<Rightarrow> appt_answer" where
  "h_list h io c d =
     (case admin h c of
        Inl _ \<Rightarrow> (SendStatus 403, d)
      | Inr (t, p) \<Rightarrow>
      (case query_List (io_f1 io) (TenantID t) p d of
        (Inl e, d') \<Rightarrow> if e = AErrForbidden then (SendStatus 403, d') else (SendStatus 500, d')
      | (Inr v, d') \<Rightarrow> (JSON 200 (BodyAppointments v), d')))"

definition h_transition :: "appt_handler \<Rightarrow> string \<Rightarrow> appt_io \<Rightarrow> fiber_ctx \<Rightarrow> appt_db \<Rightarrow> appt_answer" where
  "h_transition h status io c d =
     (case admin h c of
        Inl _ \<Rightarrow> (SendStatus 403, d)
      | Inr (t, p) \<Rightarrow> with_id h c (\<lambda>i. appointmentResult 200
          (lifecycle_Transition (io_f1 io) (io_env io) (TenantID t) p i status d)) d)"

definition pubCancel :: "appt_handler \<Rightarrow> appt_io \<Rightarrow> fiber_ctx \<Rightarrow> appt_db \<Rightarrow> appt_answer" where
  "pubCancel h io c d =
     (case customer h c of
        Inl _ \<Rightarrow> (SendStatus 401, d)
      | Inr (t, customerID) \<Rightarrow> with_id h c (\<lambda>i.
          appointmentResult 200 (CancelCustomer (h_deps h) (io_f1 io) (io_f2 io) (io_env io) t
            customerID i (io_now io) d)) d)"

definition h_reschedule :: "appt_handler \<Rightarrow> appt_io \<Rightarrow> fiber_ctx \<Rightarrow> appt_db \<Rightarrow> appt_answer" where
  "h_reschedule h io c d =
     (case admin h c of
        Inl _ \<Rightarrow> (SendStatus 403, d)
      | Inr (t, p) \<Rightarrow> with_id h c (\<lambda>i.
          case h_decode_start h (c_Body c) of
            None \<Rightarrow> (SendStatus 400, d)
          | Some start \<Rightarrow>
              if IsZero start then (SendStatus 400, d)
              else appointmentResult 200 (lifecycle_Reschedule (h_deps h) (io_f1 io) (io_f2 io)
                     (io_env io) t p i start d)) d)"

definition occ :: "appt_handler \<Rightarrow> appt_io \<Rightarrow> fiber_ctx \<Rightarrow> appt_db \<Rightarrow> appt_answer" where
  "occ h io c d =
     (case (adminauth_Context (h_X h) (h_verify h) c, uuid_Parse (h_X h) (c_Query c ''barber_id''),
            h_parse_rfc3339 h (c_Query c ''from''), h_parse_rfc3339 h (c_Query c ''to'')) of
        (Inr t, Some barber, Some from, Some to) \<Rightarrow>
          if AppType t \<noteq> ''booking'' \<and> AppType t \<noteq> ''admin'' then (SendStatus 400, d)
          else (case query_Occupancy (io_f1 io) (TenantID t) barber from to d of
                  (Inl _, d') \<Rightarrow> (SendStatus 500, d')
                | (Inr v, d') \<Rightarrow>
                    (JSON 200 (BodyOccupied (map (\<lambda>a. (a_OccupiedStartAt a, a_OccupiedEndAt a)) v)), d'))
      | _ \<Rightarrow> (SendStatus 400, d))"

definition notificationRecipient :: "appt_handler \<Rightarrow> appt_io \<Rightarrow> fiber_ctx \<Rightarrow> appt_db \<Rightarrow> appt_answer" where
  "notificationRecipient h io c d =
     (case trusted h c ''booking'' of
        Inl _ \<Rightarrow> (SendStatus 401, d)
      | Inr t \<Rightarrow> with_id h c (\<lambda>i.
          case NotificationRecipient (h_X h) (io_f1 io) (TenantID t) i d of
            (Inl e, d') \<Rightarrow> if e = AErrNotFound then (SendStatus 404, d')
               else if e = AErrInvalid then (SendStatus 422, d') else (SendStatus 500, d')
          | (Inr email, d') \<Rightarrow> (JSON 200 (BodyEmail email), d')) d)"

section \<open>Routes\<close>

datatype appt_route =
    R_occ
  | R_notificationRecipient
  | R_pubCreate
  | R_pubGet
  | R_pubCancel
  | R_customerList bool
  | R_customerGet
  | R_customerCancel
  | R_list
  | R_get
  | R_admCreate
  | R_reschedule
  | R_transition string

definition Register :: "(string \<times> string \<times> appt_route) list" where
  "Register =
     [(''GET'', ''/internal/v1/occupancy'', R_occ),
      (''GET'', ''/internal/v1/appointments/:id/notification-recipient'', R_notificationRecipient),
      (''POST'', ''/internal/v1/public/appointments'', R_pubCreate),
      (''GET'', ''/internal/v1/public/appointments/:id'', R_pubGet),
      (''POST'', ''/internal/v1/public/appointments/:id/cancel'', R_pubCancel),
      (''GET'', ''/internal/v1/customer/appointments/upcoming'', R_customerList True),
      (''GET'', ''/internal/v1/customer/appointments/history'', R_customerList False),
      (''GET'', ''/internal/v1/customer/appointments/:id'', R_customerGet),
      (''POST'', ''/internal/v1/customer/appointments/:id/cancel'', R_customerCancel),
      (''GET'', ''/internal/v1/admin/appointments'', R_list),
      (''GET'', ''/internal/v1/admin/appointments/:id'', R_get),
      (''POST'', ''/internal/v1/admin/appointments'', R_admCreate),
      (''POST'', ''/internal/v1/admin/appointments/:id/reschedule'', R_reschedule)] @
     map (\<lambda>(path, status). (''POST'', ''/internal/v1/admin/appointments/:id/'' @ path, R_transition status))
       [(''cancel'', ''cancelled''), (''confirm'', ''confirmed''), (''complete'', ''completed''),
        (''no-show'', ''no_show'')]"

fun appt_serve :: "appt_handler \<Rightarrow> appt_route \<Rightarrow> appt_io \<Rightarrow> fiber_ctx \<Rightarrow> appt_db \<Rightarrow> appt_answer" where
  "appt_serve h R_occ io c d = occ h io c d"
| "appt_serve h R_notificationRecipient io c d = notificationRecipient h io c d"
| "appt_serve h R_pubCreate io c d = pubCreate h io c d"
| "appt_serve h R_pubGet io c d = pubGet h io c d"
| "appt_serve h R_pubCancel io c d = pubCancel h io c d"
| "appt_serve h (R_customerList u) io c d = customerList h u io c d"
| "appt_serve h R_customerGet io c d = customerGet h io c d"
| "appt_serve h R_customerCancel io c d = customerCancel h io c d"
| "appt_serve h R_list io c d = h_list h io c d"
| "appt_serve h R_get io c d = h_get h io c d"
| "appt_serve h R_admCreate io c d = admCreate h io c d"
| "appt_serve h R_reschedule io c d = h_reschedule h io c d"
| "appt_serve h (R_transition s) io c d = h_transition h s io c d"

end
