(* ===== verification/Appt_Outbox.thy ===== *)
theory Appt_Outbox
  imports Appt_Safety
begin

text \<open>
  The outbox publisher, \<^verbatim>\<open>internal/outbox/publisher.go\<close>, over the outbox statements of
  \<open>Appt_Store\<close>. The broker is a parameter: \<open>pub\<close> takes a message and the broker's state to
  whether the publish call returned without error and the next state; \<open>marshal\<close> is the JSON text of
  an event's envelope. Counters are \<open>None\<close> when no registry was supplied.

  The step relation \<open>sys_step\<close> interleaves any number of publishers, requests of any tenant,
  crashes that lose claimed batches, and retention.
\<close>

section \<open>The publisher\<close>

record nats_msg =
  m_Subject :: string
  m_Data :: string
  m_MsgId :: string

record publisher =
  p_ready :: bool
  p_lastCleanup :: time
  p_publishFailures :: "nat option"
  p_publishRetries :: "nat option"
  p_terminalTotal :: "nat option"

definition incCounter :: "nat option \<Rightarrow> nat option" where
  "incCounter c = (case c of None \<Rightarrow> None | Some n \<Rightarrow> Some (n + 1))"

definition outbox_msg :: "externals \<Rightarrow> (outbox_event \<Rightarrow> string option) \<Rightarrow> outbox_event \<Rightarrow> nats_msg option" where
  "outbox_msg X marshal event =
     (case marshal event of
        None \<Rightarrow> None
      | Some envelope \<Rightarrow> Some \<lparr>m_Subject = ''appointments.v1.'' @ ob_Type event, m_Data = envelope,
          m_MsgId = uuid_String X (ob_ID event)\<rparr>)"

type_synonym 'b pub_state = "publisher \<times> 'b \<times> appt_db"

text \<open>\<open>fails\<close>: the statement that follows the publish call cannot be executed.\<close>

definition publishOne ::
  "externals \<Rightarrow> (outbox_event \<Rightarrow> string option) \<Rightarrow> (nats_msg \<Rightarrow> 'b \<Rightarrow> bool \<times> 'b) \<Rightarrow> bool \<Rightarrow> time \<Rightarrow>
     outbox_event \<Rightarrow> 'b pub_state \<Rightarrow> 'b pub_state" where
  "publishOne X marshal pub fails now event s =
     (case s of (p, b, d) \<Rightarrow>
      let (ok, b') = (case outbox_msg X marshal event of None \<Rightarrow> (False, b) | Some m \<Rightarrow> pub m b) in
      if \<not> ok then
        let p' = p\<lparr>p_ready := False, p_publishFailures := incCounter (p_publishFailures p)\<rparr> in
        (case repo_ReleaseOutbox fails now (ob_ID event) d of
           (Inl _, d') \<Rightarrow> (p', b', d')
         | (Inr (attempts, terminal), d') \<Rightarrow>
             (if terminal then p'\<lparr>p_terminalTotal := incCounter (p_terminalTotal p')\<rparr>
              else p'\<lparr>p_publishRetries := incCounter (p_publishRetries p')\<rparr>, b', d'))
      else (p, b', snd (repo_MarkOutboxPublished fails now (ob_ID event) d)))"

definition publishBatch ::
  "externals \<Rightarrow> (outbox_event \<Rightarrow> string option) \<Rightarrow> (nats_msg \<Rightarrow> 'b \<Rightarrow> bool \<times> 'b) \<Rightarrow> bool \<Rightarrow>
     (uuid \<Rightarrow> bool) \<Rightarrow> time \<Rightarrow> 'b pub_state \<Rightarrow> 'b pub_state" where
  "publishBatch X marshal pub claim_fails fails now s =
     (case s of (p, b, d) \<Rightarrow>
      (case repo_ClaimOutbox claim_fails now 50 d of
         (Inl _, d') \<Rightarrow> (p, b, d')
       | (Inr events, d') \<Rightarrow>
           fold (\<lambda>event. publishOne X marshal pub (fails (ob_ID event)) now event) events (p, b, d')))"

definition hour :: duration where
  "hour = 3600000000000"

definition cleanupRetention :: "bool \<Rightarrow> bool \<Rightarrow> time \<Rightarrow> 'b pub_state \<Rightarrow> 'b pub_state" where
  "cleanupRetention fails1 fails2 now s =
     (case s of (p, b, d) \<Rightarrow>
      if \<not> IsZero (p_lastCleanup p) \<and> now - p_lastCleanup p < hour then (p, b, d)
      else case repo_CleanupRetention fails1 fails2 now 500 d of
        (Inl _, d') \<Rightarrow> (p, b, d')
      | (Inr _, d') \<Rightarrow> (p\<lparr>p_lastCleanup := now\<rparr>, b, d'))"

text \<open>
  What \<^verbatim>\<open>ensureReady\<close> observes: the context, the connection, the stream probe, and the error of
  \<^verbatim>\<open>AddStream\<close> (\<open>None\<close> when it succeeds).
\<close>

record readiness =
  rd_ctxErr :: bool
  rd_connected :: bool
  rd_streamInfo :: bool
  rd_addStream :: "string option"

definition ensureReady :: "readiness \<Rightarrow> publisher \<Rightarrow> bool \<times> publisher" where
  "ensureReady rd p =
     (if rd_ctxErr rd \<or> \<not> rd_connected rd then (False, p\<lparr>p_ready := False\<rparr>)
      else if \<not> rd_streamInfo rd \<and>
        (case rd_addStream rd of None \<Rightarrow> False | Some err \<Rightarrow> \<not> Contains err ''stream name already in use'')
      then (False, p\<lparr>p_ready := False\<rparr>)
      else (True, p\<lparr>p_ready := True\<rparr>))"

definition publisher_Ready :: "readiness \<Rightarrow> publisher \<Rightarrow> bool" where
  "publisher_Ready rd p \<longleftrightarrow> p_ready p \<and> rd_connected rd"

text \<open>One iteration of the loop of \<^verbatim>\<open>Start\<close>.\<close>

definition publisher_tick ::
  "externals \<Rightarrow> (outbox_event \<Rightarrow> string option) \<Rightarrow> (nats_msg \<Rightarrow> 'b \<Rightarrow> bool \<times> 'b) \<Rightarrow> readiness \<Rightarrow> bool \<Rightarrow>
     (uuid \<Rightarrow> bool) \<Rightarrow> bool \<Rightarrow> bool \<Rightarrow> time \<Rightarrow> 'b pub_state \<Rightarrow> 'b pub_state" where
  "publisher_tick X marshal pub rd claim_fails fails fails1 fails2 now s =
     (case s of (p, b, d) \<Rightarrow>
      if rd_ctxErr rd then s
      else case ensureReady rd p of
        (False, p') \<Rightarrow> (p', b, d)
      | (True, p') \<Rightarrow> cleanupRetention fails1 fails2 now
          (publishBatch X marshal pub claim_fails fails now (p', b, d)))"

section \<open>Rows of the outbox under the operations\<close>

lemma to_outbox_event_simps [simp]:
  "to_outbox_event (x\<lparr>o_publishing_at := v\<rparr>) = to_outbox_event x"
  "to_outbox_event (x\<lparr>o_published_at := w, o_publishing_at := v\<rparr>) = to_outbox_event x"
  "to_outbox_event (release_row now x) = to_outbox_event x"
  "ob_ID (to_outbox_event x) = o_id x"
  "ob_Type (to_outbox_event x) = o_type x"
  by (simp_all add: to_outbox_event_def release_row_def)

text \<open>
  \<open>outbox_kept ok d d'\<close>: every row of the outbox is still there with the same event, unless it had
  been published; a row that is published now had been published before, or its event satisfies
  \<open>ok\<close>.
\<close>

definition outbox_kept :: "(outbox_event \<Rightarrow> bool) \<Rightarrow> appt_db \<Rightarrow> appt_db \<Rightarrow> bool" where
  "outbox_kept ok d d' \<longleftrightarrow>
     (\<forall>x \<in> set (outbox_events d). o_published_at x \<noteq> None \<or>
        (\<exists>x' \<in> set (outbox_events d'). to_outbox_event x' = to_outbox_event x)) \<and>
     (\<forall>x' \<in> set (outbox_events d'). o_published_at x' = None \<or> ok (to_outbox_event x') \<or>
        (\<exists>x \<in> set (outbox_events d). to_outbox_event x = to_outbox_event x' \<and> o_published_at x \<noteq> None))"

lemma outbox_kept_map:
  assumes "outbox_events d' = map g (outbox_events d)"
    and "\<And>x. x \<in> set (outbox_events d) \<Longrightarrow> to_outbox_event (g x) = to_outbox_event x \<and>
       (o_published_at (g x) = o_published_at x \<or> ok (to_outbox_event x))"
  shows "outbox_kept ok d d'"
  unfolding outbox_kept_def assms(1) set_map ball_simps bex_simps using assms(2) by metis

lemma outbox_kept_append:
  assumes "outbox_events d' = outbox_events d @ xs" and "\<forall>x \<in> set xs. o_published_at x = None"
  shows "outbox_kept ok d d'"
  using assms unfolding outbox_kept_def by auto

lemma outbox_kept_refl: "outbox_kept ok d d"
  by (rule outbox_kept_append [of _ _ "[]"]) simp_all

lemma outbox_kept_filter:
  assumes "outbox_events d' = filter P (outbox_events d)"
    and "\<And>x. x \<in> set (outbox_events d) \<Longrightarrow> \<not> P x \<Longrightarrow> o_published_at x \<noteq> None"
  shows "outbox_kept ok d d'"
  using assms unfolding outbox_kept_def by auto

definition outbox_appended :: "appt_db \<Rightarrow> appt_db \<Rightarrow> bool" where
  "outbox_appended d d' \<longleftrightarrow>
     (\<exists>ys. outbox_events d' = outbox_events d @ ys \<and> (\<forall>y \<in> set ys. o_published_at y = None))"

lemma outbox_appended_refl [simp]: "outbox_appended d d"
  by (simp add: outbox_appended_def)

lemma appendEvent_appended:
  assumes "appendEvent env ctx t a nm ty d1 = Inr d'" and "outbox_events d1 = outbox_events d"
  shows "outbox_appended d d'"
  using appendEventD [OF assms(1)] assms(2) by (simp add: outbox_appended_def)

lemma update_outbox:
  "sql_update_appointment t i g d = Inr (r', d1) \<Longrightarrow> outbox_events d1 = outbox_events d"
  by (elim sql_update_appointmentD) simp

lemma Create_appended:
  assumes "repo_Create f env t inp e os oe sc p key fp d = (Inr a, d')"
  shows "outbox_appended d d'"
  using assms
proof (cases rule: repo_Create_cases)
  case created
  from created(3) show ?thesis
    by (elim repo_Create_freshD)
      (erule appendEvent_appended, auto split: if_splits dest!: sql_insert_keyD sql_insert_appointmentD)
qed simp_all

lemma Transition_appended:
  "repo_Transition f env t i to d = (Inr a, d') \<Longrightarrow> outbox_appended d d'"
  by (elim Transition_steps) (erule appendEvent_appended, erule update_outbox)

lemma Reschedule_appended:
  "repo_Reschedule f env t i s e os oe d = (Inr a, d') \<Longrightarrow> outbox_appended d d'"
  by (elim Reschedule_steps) (erule appendEvent_appended, erule update_outbox)

lemma appended_or_failed:
  assumes "\<And>a d'. r = (Inr a, d') \<Longrightarrow> outbox_appended d d'" and "\<And>er d'. r = (Inl er, d') \<Longrightarrow> d' = d"
  shows "outbox_appended d (snd r)"
  using assms by (cases r; cases "fst r") auto

lemma tenant_op_outbox: "appt_op_tenant x \<noteq> None \<Longrightarrow> outbox_appended d (exec_appt x d)"
  by (cases x)
    (simp_all, (rule appended_or_failed,
       (erule Create_appended Transition_appended Reschedule_appended | erule failed_frame)+)+)

lemma claim_kept: "outbox_kept ok d (snd (repo_ClaimOutbox fl now l d))"
  unfolding repo_ClaimOutbox_snd
  by (rule outbox_kept_map [where g = "\<lambda>x. if \<not> fl \<and> o_id x \<in> o_id ` set
        (take (clamp_limit l 100) (sort_key o_created_at (filter (claimable now) (outbox_events d))))
        then x\<lparr>o_publishing_at := Some now\<rparr> else x"])
    (auto simp: claim_outbox_events_def Let_def intro!: map_idI [symmetric])

lemma release_kept: "outbox_kept ok d (snd (repo_ReleaseOutbox fl now i d))"
  unfolding repo_ReleaseOutbox_snd
  by (rule outbox_kept_map [where g = "\<lambda>x. if \<not> fl \<and> o_id x = i \<and> o_published_at x = None
        then release_row now x else x"])
    (auto simp: release_outbox_event_def release_row_def to_outbox_event_def intro!: map_idI [symmetric])

lemma mark_kept:
  assumes "\<And>x. x \<in> set (outbox_events d) \<Longrightarrow> o_id x = i \<Longrightarrow> ok (to_outbox_event x)"
  shows "outbox_kept ok d (snd (repo_MarkOutboxPublished fl now i d))"
  by (rule outbox_kept_map [where g = "\<lambda>x. if \<not> fl \<and> o_id x = i \<and> o_published_at x = None
        then x\<lparr>o_published_at := Some now, o_publishing_at := None\<rparr> else x"])
    (use assms in \<open>auto simp: repo_MarkOutboxPublished_def mark_outbox_event_published_def
       to_outbox_event_def intro!: map_idI [symmetric]\<close>)

lemma cleanup_deletes_published:
  assumes "outbox_wf d" and "x \<in> set (outbox_events d)"
    and "x \<notin> set (outbox_events (snd (cleanup_published_outbox_events now l d)))"
  shows "\<exists>p. o_published_at x = Some p \<and> p < now - 30 * day"
proof -
  let ?old = "\<lambda>x. case o_published_at x of None \<Rightarrow> False | Some p \<Rightarrow> p < now - 30 * day"
  from assms(2,3) obtain y where y: "y \<in> set (outbox_events d)" "?old y" "o_id x = o_id y"
    by (auto simp: cleanup_published_outbox_events_def Let_def dest!: in_set_takeD)
  then have "x = y" using inj_key [of o_id "outbox_events d" x y] assms(1,2) by (simp add: outbox_wf_def)
  with y(2) show ?thesis by (auto split: option.splits)
qed

lemma cleanup_kept:
  assumes "outbox_wf d"
  shows "outbox_kept ok d (snd (repo_CleanupRetention f1 f2 now l d))"
proof -
  let ?d1 = "snd (cleanup_expired_idempotency_keys now l d)"
  let ?d2 = "snd (cleanup_published_outbox_events now l ?d1)"
  have d1: "outbox_events ?d1 = outbox_events d"
    by (simp add: cleanup_expired_idempotency_keys_def Let_def)
  then have wf: "outbox_wf ?d1" using assms by (simp add: outbox_wf_def)
  have "set (outbox_events ?d2) \<subseteq> set (outbox_events d)"
    by (auto simp: cleanup_published_outbox_events_def Let_def d1)
  then have "outbox_kept ok d ?d2"
    using cleanup_deletes_published [OF wf, of _ now l] unfolding outbox_kept_def d1 by blast
  moreover have "outbox_kept ok d ?d1" by (rule outbox_kept_append [of _ _ "[]"]) (simp_all add: d1)
  moreover have "outbox_kept ok d d" by (rule outbox_kept_append [of _ _ "[]"]) simp_all
  ultimately show ?thesis by (auto simp: repo_CleanupRetention_def split: prod.splits)
qed

section \<open>Publishers, requests and crashes interleaved\<close>

record 'b outbox_sys =
  sy_db :: appt_db
  sy_broker :: 'b
  sy_pub :: publisher
  sy_inflight :: "outbox_event list"

text \<open>
  \<open>sy_inflight\<close> holds the events some publisher has claimed and not finished. A generated outbox
  identifier is never that of an event in flight.
\<close>

inductive sys_step ::
  "externals \<Rightarrow> (outbox_event \<Rightarrow> string option) \<Rightarrow> (nats_msg \<Rightarrow> 'b \<Rightarrow> bool \<times> 'b) \<Rightarrow>
     'b outbox_sys \<Rightarrow> 'b outbox_sys \<Rightarrow> bool"
  for X marshal pub where
  tenant_op: "\<lbrakk>appt_op_tenant x \<noteq> None; d' = exec_appt x (sy_db s);
     \<forall>y \<in> set (outbox_events d'). y \<in> set (outbox_events (sy_db s)) \<or>
       (\<forall>ev \<in> set (sy_inflight s). ob_ID ev \<noteq> o_id y)\<rbrakk> \<Longrightarrow>
     sys_step X marshal pub s (s\<lparr>sy_db := d'\<rparr>)"
| claim: "repo_ClaimOutbox fl now 50 (sy_db s) = (Inr evs, d') \<Longrightarrow>
     sys_step X marshal pub s (s\<lparr>sy_db := d', sy_inflight := sy_inflight s @ evs\<rparr>)"
| publish: "\<lbrakk>sy_inflight s = xs @ ev # ys;
     publishOne X marshal pub fl now ev (sy_pub s, sy_broker s, sy_db s) = (p', b', d')\<rbrakk> \<Longrightarrow>
     sys_step X marshal pub s (s\<lparr>sy_db := d', sy_broker := b', sy_pub := p', sy_inflight := xs @ ys\<rparr>)"
| crash: "set xs \<subseteq> set (sy_inflight s) \<Longrightarrow> sys_step X marshal pub s (s\<lparr>sy_inflight := xs\<rparr>)"
| cleanup: "cleanupRetention f1 f2 now (sy_pub s, sy_broker s, sy_db s) = (p', b', d') \<Longrightarrow>
     sys_step X marshal pub s (s\<lparr>sy_db := d', sy_broker := b', sy_pub := p'\<rparr>)"

definition held :: "externals \<Rightarrow> (outbox_event \<Rightarrow> string option) \<Rightarrow> ('b \<Rightarrow> nats_msg \<Rightarrow> bool) \<Rightarrow> 'b \<Rightarrow>
    outbox_event \<Rightarrow> bool" where
  "held X marshal holds b ev \<longleftrightarrow> (\<exists>m. outbox_msg X marshal ev = Some m \<and> holds b m)"

definition sys_inv :: "externals \<Rightarrow> (outbox_event \<Rightarrow> string option) \<Rightarrow> ('b \<Rightarrow> nats_msg \<Rightarrow> bool) \<Rightarrow>
    'b outbox_sys \<Rightarrow> bool" where
  "sys_inv X marshal holds s \<longleftrightarrow> appt_inv (sy_db s) \<and>
     (\<forall>ev \<in> set (sy_inflight s). \<forall>x \<in> set (outbox_events (sy_db s)). o_id x = ob_ID ev \<longrightarrow> to_outbox_event x = ev) \<and>
     (\<forall>x \<in> set (outbox_events (sy_db s)). o_published_at x \<noteq> None \<longrightarrow>
        held X marshal holds (sy_broker s) (to_outbox_event x))"

text \<open>What one publish call does: the broker moves by \<open>pub\<close>, and the row is marked only after an acknowledgement.\<close>

lemma publishOne_cases:
  assumes "publishOne X marshal pub fl now ev (p, b, d) = (p', b', d')"
  obtains (marked) m where "outbox_msg X marshal ev = Some m" "pub m b = (True, b')"
      "d' = snd (repo_MarkOutboxPublished fl now (ob_ID ev) d)" "p' = p"
  | (released) "b' = b \<or> (\<exists>m. pub m b = (False, b'))" "d' = snd (repo_ReleaseOutbox fl now (ob_ID ev) d)"
      "\<not> p_ready p'"
proof (cases "case outbox_msg X marshal ev of None \<Rightarrow> (False, b) | Some m \<Rightarrow> pub m b")
  case (Pair ok b1)
  show thesis
  proof (cases ok)
    case True
    with Pair obtain m where "outbox_msg X marshal ev = Some m" "pub m b = (True, b1)"
      by (auto split: option.splits)
    with True Pair assms show thesis
      by (intro marked) (auto simp: publishOne_def Let_def)
  next
    case False
    obtain q d1 where q: "repo_ReleaseOutbox fl now (ob_ID ev) d = (q, d1)" by fastforce
    from False Pair have b1: "b1 = b \<or> (\<exists>m. pub m b = (False, b1))" by (auto split: option.splits)
    from False Pair q assms have "b' = b1" "d' = d1" "\<not> p_ready p'"
      by (auto simp: publishOne_def Let_def split: sum.splits prod.splits if_splits)
    with b1 q show thesis by (intro released) auto
  qed
qed

lemma outbox_kept_held:
  assumes "sys_inv X marshal holds s" and "outbox_kept (held X marshal holds b') (sy_db s) d'"
    and "\<And>m. holds (sy_broker s) m \<Longrightarrow> holds b' m"
  shows "\<forall>x \<in> set (outbox_events d'). o_published_at x \<noteq> None \<longrightarrow> held X marshal holds b' (to_outbox_event x)"
    and "x \<in> set (outbox_events (sy_db s)) \<Longrightarrow>
      (\<exists>x' \<in> set (outbox_events d'). to_outbox_event x' = to_outbox_event x) \<or>
      held X marshal holds b' (to_outbox_event x)"
  using assms unfolding sys_inv_def outbox_kept_def held_def by metis+

lemma claimed_events:
  assumes "repo_ClaimOutbox fl now l d = (Inr evs, d')" and "ev \<in> set evs"
  shows "\<exists>x \<in> set (outbox_events d). to_outbox_event x = ev \<and> claimable now x"
  using assms by (auto simp: repo_ClaimOutbox_def claim_outbox_events_def Let_def split: if_splits
      dest!: in_set_takeD) blast

text \<open>The rows of the outbox keep identifier and event along \<open>outbox_kept\<close> and appends.\<close>

definition no_new_ids :: "appt_db \<Rightarrow> appt_db \<Rightarrow> bool" where
  "no_new_ids d d' \<longleftrightarrow> (\<forall>x' \<in> set (outbox_events d'). \<exists>x \<in> set (outbox_events d). to_outbox_event x = to_outbox_event x')"

lemma no_new_ids_refl: "no_new_ids d d"
  by (auto simp: no_new_ids_def)

lemma no_new_ids_map:
  "outbox_events d' = map g (outbox_events d) \<Longrightarrow> (\<And>x. to_outbox_event (g x) = to_outbox_event x) \<Longrightarrow>
     no_new_ids d d'"
  by (auto simp: no_new_ids_def)

lemma no_new_ids_ops:
  "no_new_ids d (snd (repo_ClaimOutbox fl now l d))"
  "no_new_ids d (snd (repo_ReleaseOutbox fl now i d))"
  "no_new_ids d (snd (repo_MarkOutboxPublished fl now i d))"
  "no_new_ids d (snd (repo_CleanupRetention f1 f2 now l d))"
  by (auto simp: repo_ClaimOutbox_snd repo_ReleaseOutbox_snd repo_MarkOutboxPublished_def
      claim_outbox_events_def release_outbox_event_def mark_outbox_event_published_def
      repo_CleanupRetention_def cleanup_expired_idempotency_keys_def
      cleanup_published_outbox_events_def no_new_ids_def to_outbox_event_def release_row_def Let_def)

lemma inflight_no_new:
  assumes "no_new_ids d d'"
    and "\<forall>ev \<in> E. \<forall>x \<in> set (outbox_events d). o_id x = ob_ID ev \<longrightarrow> to_outbox_event x = ev"
  shows "\<forall>ev \<in> E. \<forall>x \<in> set (outbox_events d'). o_id x = ob_ID ev \<longrightarrow> to_outbox_event x = ev"
  using assms unfolding no_new_ids_def by (metis to_outbox_event_simps(4))

lemma cleanupRetention_db:
  "cleanupRetention f1 f2 now (p, b, d) = (p', b', d') \<Longrightarrow>
     b' = b \<and> (d' = d \<or> d' = snd (repo_CleanupRetention f1 f2 now 500 d))"
  by (auto simp: cleanupRetention_def split: if_splits prod.splits sum.splits)

text \<open>
  The laws the publisher relies on the broker for: an acknowledged message is held, and a held
  message stays. (JetStream's acknowledgement and limits retention.)
\<close>

definition broker_keeps :: "(nats_msg \<Rightarrow> 'b \<Rightarrow> bool \<times> 'b) \<Rightarrow> ('b \<Rightarrow> nats_msg \<Rightarrow> bool) \<Rightarrow> bool" where
  "broker_keeps pub holds \<longleftrightarrow>
     (\<forall>m b. fst (pub m b) \<longrightarrow> holds (snd (pub m b)) m) \<and>
     (\<forall>m m' b. holds b m \<longrightarrow> holds (snd (pub m' b)) m)"

lemma broker_keepsD:
  assumes "broker_keeps pub holds"
  shows "pub m b = (True, b') \<Longrightarrow> holds b' m"
    and "holds b m \<Longrightarrow> pub m' b = (ok, b') \<Longrightarrow> holds b' m"
  using assms unfolding broker_keeps_def by (metis fst_conv snd_conv)+

lemma sys_invI:
  assumes "sys_inv X marshal holds s" and "appt_inv d'" and "no_new_ids (sy_db s) d'"
    and "outbox_kept (held X marshal holds b') (sy_db s) d'"
    and "\<And>m. holds (sy_broker s) m \<Longrightarrow> holds b' m" and "set xs \<subseteq> set (sy_inflight s)"
  shows "sys_inv X marshal holds (s\<lparr>sy_db := d', sy_broker := b', sy_pub := p', sy_inflight := xs\<rparr>)"
  using outbox_kept_held(1) [OF assms(1,4,5)] inflight_no_new [OF assms(3), of "set (sy_inflight s)"]
    assms(1,2,6) unfolding sys_inv_def by auto

text \<open>The publish step as a whole, for the broker and for the rows.\<close>

lemma publish_step:
  assumes "broker_keeps pub holds" and "sys_inv X marshal holds s" and "sy_inflight s = xs @ ev # ys"
    and "publishOne X marshal pub fl now ev (sy_pub s, sy_broker s, sy_db s) = (p', b', d')"
  shows "outbox_kept (held X marshal holds b') (sy_db s) d' \<and> no_new_ids (sy_db s) d' \<and> appt_inv d' \<and>
    (\<forall>m. holds (sy_broker s) m \<longrightarrow> holds b' m)"
  using assms(4)
proof (cases rule: publishOne_cases)
  case (marked m)
  have "held X marshal holds b' ev"
    using marked broker_keepsD(1) [OF assms(1)] by (auto simp: held_def)
  moreover have "to_outbox_event x = ev" if "x \<in> set (outbox_events (sy_db s))" "o_id x = ob_ID ev" for x
    using assms(2,3) that by (auto simp: sys_inv_def)
  ultimately have "outbox_kept (held X marshal holds b') (sy_db s) d'"
    unfolding marked(3) by (intro mark_kept) auto
  moreover have "appt_inv d'"
    using assms(2) exec_appt_inv [of "sy_db s" "OpMark fl now (ob_ID ev)"]
    by (simp add: marked(3) sys_inv_def)
  ultimately show ?thesis
    using marked no_new_ids_ops(3) broker_keepsD(2) [OF assms(1) _ marked(2)] by blast
next
  case released
  have "appt_inv d'"
    using assms(2) exec_appt_inv [of "sy_db s" "OpRelease fl now (ob_ID ev)"]
    by (simp add: released(2) sys_inv_def)
  moreover have "\<forall>m. holds (sy_broker s) m \<longrightarrow> holds b' m"
    using released(1) broker_keepsD(2) [OF assms(1)] by blast
  ultimately show ?thesis
    using released(2) release_kept no_new_ids_ops(2) by blast
qed

lemma outbox_appended_kept: "outbox_appended d d' \<Longrightarrow> outbox_kept ok d d'"
  unfolding outbox_appended_def by (elim exE conjE) (rule outbox_kept_append)

lemma sys_step_inv:
  assumes "sys_step X marshal pub s s'" and "broker_keeps pub holds" and "sys_inv X marshal holds s"
  shows "sys_inv X marshal holds s' \<and>
    outbox_kept (held X marshal holds (sy_broker s')) (sy_db s) (sy_db s') \<and>
    (\<forall>m. holds (sy_broker s) m \<longrightarrow> holds (sy_broker s') m)"
  using assms(1)
proof cases
  case (tenant_op x d')
  have k: "outbox_kept (held X marshal holds (sy_broker s)) (sy_db s) d'"
    using tenant_op_outbox [OF tenant_op(2)] tenant_op(3) outbox_appended_kept by blast
  moreover have "appt_inv d'" using assms(3) tenant_op(3) by (simp add: sys_inv_def exec_appt_inv)
  moreover have "\<forall>ev \<in> set (sy_inflight s). \<forall>x \<in> set (outbox_events d'). o_id x = ob_ID ev \<longrightarrow> to_outbox_event x = ev"
  proof (intro ballI impI)
    fix ev y
    assume "ev \<in> set (sy_inflight s)" "y \<in> set (outbox_events d')" "o_id y = ob_ID ev"
    moreover from this have "y \<in> set (outbox_events (sy_db s))" using tenant_op(4) by metis
    ultimately show "to_outbox_event y = ev" using assms(3) by (auto simp: sys_inv_def)
  qed
  moreover note outbox_kept_held(1) [OF assms(3) k]
  ultimately show ?thesis unfolding tenant_op(1) by (simp add: sys_inv_def)
next
  case (claim fl now evs d')
  have d': "d' = snd (repo_ClaimOutbox fl now 50 (sy_db s))" using claim(2) by simp
  have inv: "appt_inv d'"
    using assms(3) exec_appt_inv [of "sy_db s" "OpClaim fl now 50"] by (simp add: d' sys_inv_def)
  have k: "outbox_kept (held X marshal holds (sy_broker s)) (sy_db s) d'" unfolding d' by (rule claim_kept)
  have "\<forall>ev \<in> set evs. \<forall>x \<in> set (outbox_events (sy_db s)). o_id x = ob_ID ev \<longrightarrow> to_outbox_event x = ev"
  proof (intro ballI impI)
    fix ev x
    assume "ev \<in> set evs" and x: "x \<in> set (outbox_events (sy_db s))" "o_id x = ob_ID ev"
    then obtain y where y: "y \<in> set (outbox_events (sy_db s))" "to_outbox_event y = ev"
      using claimed_events [OF claim(2)] by blast
    moreover have "o_id y = o_id x" using x(2) y(2) to_outbox_event_simps(4) by metis
    moreover have "distinct (map o_id (outbox_events (sy_db s)))"
      using assms(3) unfolding sys_inv_def appt_inv_def outbox_wf_def by blast
    ultimately have "x = y" using inj_key [of o_id "outbox_events (sy_db s)" x y] x(1) by metis
    with y show "to_outbox_event x = ev" by simp
  qed
  moreover have "\<forall>ev \<in> set (sy_inflight s). \<forall>x \<in> set (outbox_events (sy_db s)).
      o_id x = ob_ID ev \<longrightarrow> to_outbox_event x = ev"
    using assms(3) unfolding sys_inv_def by blast
  ultimately have "\<forall>ev \<in> set (sy_inflight s @ evs). \<forall>x \<in> set (outbox_events (sy_db s)).
      o_id x = ob_ID ev \<longrightarrow> to_outbox_event x = ev"
    unfolding set_append by blast
  note inflight_no_new [OF no_new_ids_ops(1) [of "sy_db s" fl now 50] this, folded d']
  then show ?thesis using inv k outbox_kept_held(1) [OF assms(3) k]
    unfolding claim(1) by (simp add: sys_inv_def)
next
  case (publish xs ev ys fl now p' b' d')
  note st = publish_step [OF assms(2,3) publish(2,3)]
  then have k: "outbox_kept (held X marshal holds b') (sy_db s) d'" and n: "no_new_ids (sy_db s) d'"
    and i: "appt_inv d'" and m: "\<And>m. holds (sy_broker s) m \<Longrightarrow> holds b' m" by blast+
  have sub: "set (xs @ ys) \<subseteq> set (sy_inflight s)" using publish(2) by auto
  show ?thesis unfolding publish(1) using sys_invI [OF assms(3) i n k m sub] k m by simp
next
  case (crash xs)
  have "sys_inv X marshal holds s'" using assms(3) crash(2) unfolding crash(1) sys_inv_def
    by (simp add: subset_eq)
  then show ?thesis unfolding crash(1) by (simp add: outbox_kept_refl)
next
  case (cleanup f1 f2 now p' b' d')
  note c = cleanupRetention_db [OF cleanup(2)]
  have wf: "outbox_wf (sy_db s)" using assms(3) by (simp add: sys_inv_def appt_inv_def)
  have i0: "appt_inv (sy_db s)" using assms(3) by (simp add: sys_inv_def)
  have k: "outbox_kept (held X marshal holds (sy_broker s)) (sy_db s) d'"
    using c cleanup_kept [OF wf] outbox_kept_refl by metis
  have n: "no_new_ids (sy_db s) d'" using c no_new_ids_ops(4) no_new_ids_refl by metis
  have i: "appt_inv d'" using c repo_CleanupRetention_inv [OF i0] i0 by metis
  show ?thesis unfolding cleanup(1)
    using sys_invI [OF assms(3) i n k, of "sy_inflight s" p'] k c by simp
qed

text \<open>
  (C7) No event is lost. Over any interleaving of requests, publishers, crashes and retention, an
  event that was once in the outbox is still there, or the broker holds its message; so rows are
  deleted only after the broker took the event over.
\<close>

theorem outbox_event_never_lost:
  assumes "broker_keeps pub holds" and "sys_inv X marshal holds s"
    and "(sys_step X marshal pub)\<^sup>*\<^sup>* s s'" and "x \<in> set (outbox_events (sy_db s))"
  shows "(\<exists>x' \<in> set (outbox_events (sy_db s')). to_outbox_event x' = to_outbox_event x) \<or>
    held X marshal holds (sy_broker s') (to_outbox_event x)"
proof -
  from assms(3) have "sys_inv X marshal holds s' \<and>
    ((\<exists>x' \<in> set (outbox_events (sy_db s')). to_outbox_event x' = to_outbox_event x) \<or>
     held X marshal holds (sy_broker s') (to_outbox_event x))"
  proof (induction rule: rtranclp_induct)
    case base
    with assms(2,4) show ?case by blast
  next
    case (step s1 s2)
    from step.IH sys_step_inv [OF step.hyps(2) assms(1)]
    have inv: "sys_inv X marshal holds s2"
      and k: "outbox_kept (held X marshal holds (sy_broker s2)) (sy_db s1) (sy_db s2)"
      and mono: "\<And>m. holds (sy_broker s1) m \<Longrightarrow> holds (sy_broker s2) m" by blast+
    from step.IH show ?case
    proof (elim conjE disjE bexE)
      fix y assume y: "y \<in> set (outbox_events (sy_db s1))" "to_outbox_event y = to_outbox_event x"
        and s1: "sys_inv X marshal holds s1"
      from outbox_kept_held(2) [OF s1 k mono y(1)] y(2) inv show ?thesis by auto
    next
      assume "held X marshal holds (sy_broker s1) (to_outbox_event x)"
      with mono inv show ?thesis by (auto simp: held_def)
    qed
  qed
  then show ?thesis by simp
qed

text \<open>
  A row is marked published only after the broker acknowledged its message: in every state
  reached from one with nothing published wrongly, every published row's message is held.
\<close>

theorem published_means_acknowledged:
  assumes "broker_keeps pub holds" and "sys_inv X marshal holds s"
    and "(sys_step X marshal pub)\<^sup>*\<^sup>* s s'" and "x \<in> set (outbox_events (sy_db s'))"
    and "o_published_at x \<noteq> None"
  shows "held X marshal holds (sy_broker s') (to_outbox_event x)"
proof -
  from assms(3,2) have "sys_inv X marshal holds s'"
    by (induction rule: rtranclp_induct) (auto dest: sys_step_inv [OF _ assms(1)])
  with assms(4,5) show ?thesis by (auto simp: sys_inv_def)
qed

section \<open>Whole batches\<close>

text \<open>A publish call that is acknowledged, and one that is refused, on the rows of the outbox.\<close>

lemma publishOne_ack:
  assumes "outbox_msg X marshal ev = Some m" and "fst (pub m b)"
  shows "publishOne X marshal pub False now ev (p, b, d) =
    (p, snd (pub m b), mark_outbox_event_published now (ob_ID ev) d)"
  using assms by (cases "pub m b") (simp add: publishOne_def repo_MarkOutboxPublished_def)

lemma publishOne_refused:
  assumes "\<forall>m b. \<not> fst (pub m b)"
  shows "\<exists>p' b'. publishOne X marshal pub False now ev (p, b, d) =
    (p', b', snd (release_outbox_event now (ob_ID ev) d))"
proof -
  obtain p' b' d' where r: "publishOne X marshal pub False now ev (p, b, d) = (p', b', d')"
    by (metis prod.collapse)
  then have "d' = snd (release_outbox_event now (ob_ID ev) d)"
  proof (cases rule: publishOne_cases)
    case (marked m)
    with assms show ?thesis by (metis fst_conv)
  qed (simp add: repo_ReleaseOutbox_snd)
  with r show ?thesis by blast
qed

definition on_open :: "(outbox_row \<Rightarrow> bool) \<Rightarrow> (outbox_row \<Rightarrow> outbox_row) \<Rightarrow> appt_db \<Rightarrow> appt_db" where
  "on_open P g d = d\<lparr>outbox_events := map (\<lambda>x. if P x \<and> o_published_at x = None then g x else x) (outbox_events d)\<rparr>"

lemma on_open_comp:
  assumes "\<And>x. (if Q (if P x \<and> o_published_at x = None then g x else x) \<and>
        o_published_at (if P x \<and> o_published_at x = None then g x else x) = None
      then h (if P x \<and> o_published_at x = None then g x else x)
      else (if P x \<and> o_published_at x = None then g x else x)) =
    (if R x \<and> o_published_at x = None then k x else x)"
  shows "on_open Q h (on_open P g d) = on_open R k d"
  using assms by (simp add: on_open_def comp_def)

lemma mark_on_open:
  "mark_outbox_event_published now i d =
     on_open (\<lambda>x. o_id x = i) (\<lambda>x. x\<lparr>o_published_at := Some now, o_publishing_at := None\<rparr>) d"
  by (simp add: on_open_def mark_outbox_event_published_def)

lemma release_on_open:
  "snd (release_outbox_event now i d) = on_open (\<lambda>x. o_id x = i) (release_row now) d"
  by (simp add: on_open_def release_outbox_event_def)

lemma on_open_mem:
  "x \<in> set (outbox_events d) \<Longrightarrow> P x \<Longrightarrow> o_published_at x = None \<Longrightarrow> g x \<in> set (outbox_events (on_open P g d))"
  by (force simp: on_open_def)

lemma fold_acked:
  assumes "\<And>ev. ev \<in> set evs \<Longrightarrow> \<exists>m. outbox_msg X marshal ev = Some m" and "\<forall>m b. fst (pub m b)"
  shows "\<exists>b'. fold (\<lambda>ev. publishOne X marshal pub False now ev) evs (p, b, d) =
    (p, b', on_open (\<lambda>x. o_id x \<in> ob_ID ` set evs)
       (\<lambda>x. x\<lparr>o_published_at := Some now, o_publishing_at := None\<rparr>) d)"
  using assms(1)
proof (induction evs arbitrary: b d)
  case Nil
  then show ?case by (simp add: on_open_def)
next
  case (Cons ev evs)
  from Cons.prems [of ev] obtain m where m: "outbox_msg X marshal ev = Some m" by auto
  have ack: "publishOne X marshal pub False now ev (p, b, d) =
      (p, snd (pub m b), mark_outbox_event_published now (ob_ID ev) d)"
    using assms(2) by (intro publishOne_ack [OF m]) simp
  obtain b' where "fold (\<lambda>ev. publishOne X marshal pub False now ev) evs
      (p, snd (pub m b), mark_outbox_event_published now (ob_ID ev) d) =
      (p, b', on_open (\<lambda>x. o_id x \<in> ob_ID ` set evs)
         (\<lambda>x. x\<lparr>o_published_at := Some now, o_publishing_at := None\<rparr>)
         (mark_outbox_event_published now (ob_ID ev) d))"
    using Cons.IH Cons.prems by (meson list.set_intros(2))
  moreover have "on_open (\<lambda>x. o_id x \<in> ob_ID ` set evs)
      (\<lambda>x. x\<lparr>o_published_at := Some now, o_publishing_at := None\<rparr>)
      (mark_outbox_event_published now (ob_ID ev) d) =
    on_open (\<lambda>x. o_id x \<in> ob_ID ` set (ev # evs))
      (\<lambda>x. x\<lparr>o_published_at := Some now, o_publishing_at := None\<rparr>) d"
    unfolding mark_on_open by (rule on_open_comp) auto
  ultimately show ?case by (simp add: ack)
qed

lemma fold_refused:
  assumes "\<forall>m b. \<not> fst (pub m b)"
  shows "distinct (map ob_ID evs) \<Longrightarrow>
    \<exists>p' b'. fold (\<lambda>ev. publishOne X marshal pub False now ev) evs (p, b, d) =
      (p', b', on_open (\<lambda>x. o_id x \<in> ob_ID ` set evs) (release_row now) d)"
proof (induction evs arbitrary: p b d)
  case Nil
  then show ?case by (simp add: on_open_def)
next
  case (Cons ev evs)
  let ?d1 = "snd (release_outbox_event now (ob_ID ev) d)"
  obtain p1 b1 where one: "publishOne X marshal pub False now ev (p, b, d) = (p1, b1, ?d1)"
    using publishOne_refused [OF assms] by blast
  have "on_open (\<lambda>x. o_id x \<in> ob_ID ` set evs) (release_row now) ?d1 =
    on_open (\<lambda>x. o_id x \<in> ob_ID ` set (ev # evs)) (release_row now) d"
    unfolding release_on_open using Cons.prems
    by (intro on_open_comp) (auto simp: release_row_def)
  moreover have "distinct (map ob_ID evs)" using Cons.prems by simp
  from Cons.IH [OF this, of p1 b1 ?d1] obtain p' b' where
    "fold (\<lambda>ev. publishOne X marshal pub False now ev) evs (p1, b1, ?d1) =
      (p', b', on_open (\<lambda>x. o_id x \<in> ob_ID ` set evs) (release_row now) ?d1)" by blast
  ultimately show ?case by (simp add: one)
qed

text \<open>The batch is the oldest fifty claimable rows.\<close>

definition batch_of :: "time \<Rightarrow> appt_db \<Rightarrow> outbox_row list" where
  "batch_of now d = take 50 (sort_key o_created_at (filter (claimable now) (outbox_events d)))"

lemma claim_batch:
  "repo_ClaimOutbox False now 50 d =
     (Inr (map to_outbox_event (batch_of now d)),
      d\<lparr>outbox_events := map (\<lambda>x. if o_id x \<in> o_id ` set (batch_of now d)
         then x\<lparr>o_publishing_at := Some now\<rparr> else x) (outbox_events d)\<rparr>)"
  by (simp add: repo_ClaimOutbox_def claim_outbox_events_def batch_of_def clamp_limit_def Let_def comp_def)

lemma batch_of_mem: "x \<in> set (batch_of now d) \<Longrightarrow> x \<in> set (outbox_events d) \<and> claimable now x"
  by (auto simp: batch_of_def dest!: in_set_takeD)

lemma batch_of_distinct:
  assumes "outbox_wf d"
  shows "distinct (map o_id (batch_of now d))"
proof -
  have "distinct (map o_id (sort_key o_created_at (filter (claimable now) (outbox_events d))))"
    using assms by (auto simp: outbox_wf_def distinct_map intro: inj_on_subset)
  then show ?thesis by (simp add: batch_of_def take_map [symmetric] distinct_take)
qed

text \<open>
  (C8) Progress. When the broker acknowledges and the database answers, one batch publishes the
  oldest fifty claimable events: each of them is afterwards in the outbox, marked published now.
\<close>

theorem batch_publishes_oldest:
  assumes "\<forall>m b. fst (pub m b)" and "\<And>ev. \<exists>envelope. marshal ev = Some envelope"
    and "publishBatch X marshal pub False (\<lambda>_. False) now (p, b, d) = (p', b', d')"
    and "x \<in> set (take 50 (sort_key o_created_at (filter (claimable now) (outbox_events d))))"
  shows "\<exists>x' \<in> set (outbox_events d'). to_outbox_event x' = to_outbox_event x \<and> o_published_at x' = Some now"
proof -
  let ?d1 = "snd (repo_ClaimOutbox False now 50 d)"
  have msg: "\<exists>m. outbox_msg X marshal ev = Some m" for ev
    using assms(2) [of ev] by (auto simp: outbox_msg_def)
  obtain b1 where "fold (\<lambda>ev. publishOne X marshal pub False now ev) (map to_outbox_event (batch_of now d))
      (p, b, ?d1) = (p, b1, on_open (\<lambda>x. o_id x \<in> ob_ID ` set (map to_outbox_event (batch_of now d)))
         (\<lambda>x. x\<lparr>o_published_at := Some now, o_publishing_at := None\<rparr>) ?d1)"
    using fold_acked [OF msg assms(1)] by blast
  then have d': "d' = on_open (\<lambda>x. o_id x \<in> ob_ID ` set (map to_outbox_event (batch_of now d)))
      (\<lambda>x. x\<lparr>o_published_at := Some now, o_publishing_at := None\<rparr>) ?d1"
    using assms(3) by (simp add: publishBatch_def claim_batch)
  have x: "x \<in> set (batch_of now d)" using assms(4) by (simp add: batch_of_def)
  let ?x = "x\<lparr>o_publishing_at := Some now\<rparr>"
  have "?x \<in> set (outbox_events ?d1)" using x batch_of_mem [OF x] by (auto simp: claim_batch image_iff)
  moreover have "o_published_at ?x = None" using batch_of_mem [OF x] by (simp add: claimable_def)
  moreover have "o_id ?x \<in> ob_ID ` set (map to_outbox_event (batch_of now d))"
    using x by (force simp: image_iff)
  ultimately have "?x\<lparr>o_published_at := Some now, o_publishing_at := None\<rparr> \<in> set (outbox_events d')"
    unfolding d' by (intro on_open_mem) simp_all
  then show ?thesis by (intro bexI) (auto simp: to_outbox_event_def)
qed

section \<open>Bounded retries\<close>

definition awaiting :: "outbox_row \<Rightarrow> bool" where
  "awaiting x \<longleftrightarrow> o_published_at x = None \<and> o_failed_at x = None"

text \<open>
  The outbox is seen as its rows in the order of creation. \<open>oldest\<close> is the batch there when every
  awaiting row is claimable, and \<open>refuse\<close> what a refused batch makes of the rows.
\<close>

definition by_age :: "appt_db \<Rightarrow> outbox_row list" where
  "by_age d = sort_key o_created_at (outbox_events d)"

definition oldest :: "outbox_row list \<Rightarrow> outbox_row list" where
  "oldest xs = take 50 (filter awaiting xs)"

definition refuse :: "time \<Rightarrow> outbox_row list \<Rightarrow> outbox_row list" where
  "refuse now xs = map (\<lambda>x. if o_id x \<in> o_id ` set (oldest xs) then release_row now x else x) xs"

lemma set_by_age [simp]: "set (by_age d) = set (outbox_events d)"
  by (simp add: by_age_def)

lemma insort_key_map: "(\<And>x. f (g x) = f x) \<Longrightarrow> insort_key f (g x) (map g xs) = map g (insort_key f x xs)"
  by (induction xs) auto

lemma sort_key_map:
  assumes "\<And>x. f (g x) = f x"
  shows "sort_key f (map g xs) = map g (sort_key f xs)"
  by (induction xs) (simp_all add: insort_key_map [of f g, OF assms])

lemma batch_of_oldest:
  assumes "\<forall>x \<in> set (outbox_events d). awaiting x \<longrightarrow> claimable now x"
  shows "batch_of now d = oldest (by_age d)"
proof -
  have "filter (claimable now) (by_age d) = filter awaiting (by_age d)"
    using assms by (intro filter_cong) (auto simp: claimable_def awaiting_def)
  then show ?thesis by (simp add: batch_of_def oldest_def by_age_def filter_sort)
qed

lemma refused_batch_db:
  assumes "\<forall>m b. \<not> fst (pub m b)" and "outbox_wf d"
  shows "\<exists>p' b'. publishBatch X marshal pub False (\<lambda>_. False) now (p, b, d) =
    (p', b', on_open (\<lambda>x. o_id x \<in> o_id ` set (batch_of now d)) (release_row now)
       (snd (repo_ClaimOutbox False now 50 d)))"
proof -
  have "map ob_ID (map to_outbox_event (batch_of now d)) = map o_id (batch_of now d)" by simp
  then have "distinct (map ob_ID (map to_outbox_event (batch_of now d)))"
    using batch_of_distinct [OF assms(2), of now] by metis
  moreover have "ob_ID ` set (map to_outbox_event (batch_of now d)) = o_id ` set (batch_of now d)"
    by (auto simp: image_iff)
  ultimately show ?thesis
    using fold_refused [OF assms(1), of "map to_outbox_event (batch_of now d)" X marshal now p b
        "snd (repo_ClaimOutbox False now 50 d)"]
    by (simp add: publishBatch_def claim_batch)
qed

lemma refused_batch:
  assumes "\<forall>m b. \<not> fst (pub m b)" and "outbox_wf d"
    and "\<forall>x \<in> set (outbox_events d). awaiting x \<longrightarrow> claimable now x"
  shows "\<exists>p' b' d'. publishBatch X marshal pub False (\<lambda>_. False) now (p, b, d) = (p', b', d') \<and>
    by_age d' = refuse now (by_age d)"
proof -
  let ?ids = "o_id ` set (batch_of now d)"
  let ?g = "\<lambda>x. if o_id x \<in> ?ids then release_row now x else x"
  have open_row: "o_published_at x = None" if "x \<in> set (outbox_events d)" "o_id x \<in> ?ids" for x
  proof -
    from that(2) obtain y where y: "y \<in> set (batch_of now d)" "o_id x = o_id y" by auto
    then have "y = x" using that(1) batch_of_mem [OF y(1)] inj_key [of o_id "outbox_events d"] assms(2)
      unfolding outbox_wf_def by metis
    with batch_of_mem [OF y(1)] show ?thesis by (simp add: claimable_def)
  qed
  obtain p' b' where r: "publishBatch X marshal pub False (\<lambda>_. False) now (p, b, d) =
    (p', b', on_open (\<lambda>x. o_id x \<in> ?ids) (release_row now) (snd (repo_ClaimOutbox False now 50 d)))"
    using refused_batch_db [OF assms(1,2)] by blast
  let ?d' = "on_open (\<lambda>x. o_id x \<in> ?ids) (release_row now) (snd (repo_ClaimOutbox False now 50 d))"
  have "outbox_events ?d' = map ?g (outbox_events d)"
    by (simp add: on_open_def claim_batch) (use open_row in \<open>auto simp: release_row_def\<close>)
  then have "by_age ?d' = map ?g (by_age d)"
    unfolding by_age_def by (simp only:) (rule sort_key_map, simp add: release_row_def)
  also have "\<dots> = refuse now (by_age d)"
    unfolding refuse_def batch_of_oldest [OF assms(3)] by simp
  finally show ?thesis using r by blast
qed

text \<open>
  What a refused row keeps: it stays well formed, it is awaiting only if it was, then with one more
  attempt, and it is claimable at every instant at which it was.
\<close>

definition refused_from :: "outbox_row \<Rightarrow> outbox_row \<Rightarrow> bool" where
  "refused_from x y \<longleftrightarrow> o_id y = o_id x \<and> (outbox_row_wf x \<longrightarrow> outbox_row_wf y) \<and>
     (awaiting y \<longrightarrow> awaiting x \<and> o_publish_attempts x \<le> o_publish_attempts y) \<and>
     (\<forall>t. awaiting y \<longrightarrow> claimable t x \<longrightarrow> claimable t y)"

lemma refuse_row: "refused_from x (if Q then release_row now x else x)"
  by (auto simp: refused_from_def release_row_wf awaiting_def claimable_def)
    (auto simp: release_row_def split: if_splits)

lemma refuse_wf:
  assumes "distinct (map o_id xs)" and "\<forall>x \<in> set xs. outbox_row_wf x"
  shows "distinct (map o_id (refuse now xs)) \<and> (\<forall>x \<in> set (refuse now xs). outbox_row_wf x)"
proof -
  have "map o_id (refuse now xs) = map o_id xs"
    unfolding refuse_def map_map comp_def
    by (intro map_cong) (use refuse_row in \<open>auto simp: refused_from_def\<close>)
  moreover have "\<forall>x \<in> set (refuse now xs). outbox_row_wf x"
    unfolding refuse_def using assms(2) by (auto simp: release_row_wf)
  ultimately show ?thesis using assms(1) by simp
qed

lemma refuse_claimable:
  assumes "\<forall>x \<in> set xs. awaiting x \<longrightarrow> claimable t x"
  shows "\<forall>x \<in> set (refuse now xs). awaiting x \<longrightarrow> claimable t x"
proof
  fix y assume "y \<in> set (refuse now xs)"
  then obtain x where "x \<in> set xs" "y = (if o_id x \<in> o_id ` set (oldest xs) then release_row now x else x)"
    unfolding refuse_def by auto
  with refuse_row [of x "o_id x \<in> o_id ` set (oldest xs)" now] assms show "awaiting y \<longrightarrow> claimable t y"
    unfolding refused_from_def by blast
qed

lemma length_filter_map_le:
  assumes "\<And>x. P (g x) \<Longrightarrow> P x"
  shows "length (filter P (map g xs)) \<le> length (filter P xs)"
proof -
  have "length (filter (P \<circ> g) xs) \<le> length (filter P xs)"
    by (induction xs) (use assms in \<open>auto\<close>)
  then show ?thesis by (simp add: filter_map)
qed

text \<open>
  A prefix with at most fifty awaiting rows is refused as a whole, since those rows come first in
  the batch; the rows behind it gain no awaiting row.
\<close>

lemma refuse_prefix:
  assumes "length (filter awaiting as) \<le> 50"
    and "\<forall>x \<in> set as. awaiting x \<longrightarrow> n \<le> o_publish_attempts x"
  shows "\<exists>as' cs'. refuse now (as @ cs) = as' @ cs' \<and>
    (\<forall>x \<in> set as'. awaiting x \<longrightarrow> n + 1 \<le> o_publish_attempts x) \<and>
    length (filter awaiting as') \<le> length (filter awaiting as) \<and>
    length (filter awaiting cs') \<le> length (filter awaiting cs)"
proof -
  let ?g = "\<lambda>x. if o_id x \<in> o_id ` set (oldest (as @ cs)) then release_row now x else x"
  have was: "awaiting (?g x) \<Longrightarrow> awaiting x" for x
    using refuse_row [of x _ now] unfolding refused_from_def by metis
  have fewer: "length (filter awaiting (map ?g xs)) \<le> length (filter awaiting xs)" for xs
    using was by (rule length_filter_map_le)
  have first: "?g x = release_row now x" if "x \<in> set as" "awaiting x" for x
    using that assms(1) by (auto simp: oldest_def)
  have "n + 1 \<le> o_publish_attempts (?g x)" if "x \<in> set as" "awaiting (?g x)" for x
    using was [OF that(2)] first [OF that(1)] assms(2) that(1) by (simp add: release_row_def)
  then have "\<forall>y \<in> set (map ?g as). awaiting y \<longrightarrow> n + 1 \<le> o_publish_attempts y"
    unfolding set_map by blast
  then show ?thesis using fewer [of as] fewer [of cs] unfolding refuse_def map_append by blast
qed

lemma refuse_prefixes:
  assumes "length (filter awaiting as) \<le> 50"
    and "\<forall>x \<in> set as. awaiting x \<longrightarrow> n \<le> o_publish_attempts x"
  shows "\<exists>as' cs'. fold refuse nows (as @ cs) = as' @ cs' \<and>
    (\<forall>x \<in> set as'. awaiting x \<longrightarrow> n + int (length nows) \<le> o_publish_attempts x) \<and>
    length (filter awaiting cs') \<le> length (filter awaiting cs)"
  using assms
proof (induction nows arbitrary: as cs n)
  case Nil
  then show ?case by auto
next
  case (Cons now nows)
  obtain as1 cs1 where one: "refuse now (as @ cs) = as1 @ cs1"
    "\<forall>x \<in> set as1. awaiting x \<longrightarrow> n + 1 \<le> o_publish_attempts x"
    "length (filter awaiting as1) \<le> length (filter awaiting as)"
    "length (filter awaiting cs1) \<le> length (filter awaiting cs)"
    using refuse_prefix [OF Cons.prems] by metis
  with Cons.prems(1) have "length (filter awaiting as1) \<le> 50" by simp
  from Cons.IH [OF this one(2), of cs1] obtain as' cs' where
    "fold refuse nows (as1 @ cs1) = as' @ cs'"
    "\<forall>x \<in> set as'. awaiting x \<longrightarrow> n + 1 + int (length nows) \<le> o_publish_attempts x"
    "length (filter awaiting cs') \<le> length (filter awaiting cs1)" by blast
  with one(1,4) show ?case by (intro exI [of _ as'] exI [of _ cs']) (simp add: algebra_simps)
qed

lemma split_count:
  "\<exists>as cs. xs = as @ cs \<and> length (filter P as) \<le> n \<and> length (filter P cs) \<le> length (filter P xs) - n"
proof (induction xs arbitrary: n)
  case Nil
  then show ?case by simp
next
  case (Cons x xs)
  show ?case
  proof (cases "P x \<and> n = 0")
    case True
    then show ?thesis by (intro exI [of _ "[]"] exI [of _ "x # xs"]) simp
  next
    case False
    obtain as cs where "xs = as @ cs" "length (filter P as) \<le> (if P x then n - 1 else n)"
      "length (filter P cs) \<le> length (filter P xs) - (if P x then n - 1 else n)"
      using Cons.IH by blast
    with False show ?thesis by (intro exI [of _ "x # as"] exI [of _ cs]) (auto split: if_splits)
  qed
qed

lemma refuse_fold_wf:
  assumes "distinct (map o_id xs)" and "\<forall>x \<in> set xs. outbox_row_wf x"
  shows "distinct (map o_id (fold refuse nows xs)) \<and> (\<forall>x \<in> set (fold refuse nows xs). outbox_row_wf x)"
  using assms
proof (induction nows arbitrary: xs)
  case (Cons now nows)
  have "distinct (map o_id (refuse now xs))" "\<forall>x \<in> set (refuse now xs). outbox_row_wf x"
    using refuse_wf [OF Cons.prems] by blast+
  from Cons.IH [OF this] show ?case by simp
qed simp

text \<open>Twenty refused batches end the oldest fifty awaiting rows, so \<open>20 * k\<close> end \<open>50 * k\<close>.\<close>

lemma refuse_ends:
  assumes "distinct (map o_id xs)" and "\<forall>x \<in> set xs. outbox_row_wf x"
    and "length (filter awaiting xs) \<le> 50 * k" and "20 * k \<le> length nows"
  shows "filter awaiting (fold refuse nows xs) = []"
  using assms
proof (induction k arbitrary: xs nows)
  case 0
  then obtain as' cs' where "fold refuse nows ([] @ xs) = as' @ cs'" "filter awaiting cs' = []"
    "\<forall>x \<in> set as'. awaiting x \<longrightarrow> 20 + int (length nows) \<le> o_publish_attempts x"
    using refuse_prefixes [of "[]" 20 nows xs] by auto
  moreover from this(3) have "\<forall>x \<in> set as'. \<not> awaiting x"
    using refuse_fold_wf [OF "0.prems"(1,2), of nows] \<open>fold refuse nows ([] @ xs) = as' @ cs'\<close>
    by (auto simp: outbox_row_wf_def awaiting_def)
  ultimately show ?case by simp
next
  case (Suc k)
  let ?first = "take 20 nows"
  obtain as cs where xs: "xs = as @ cs" "length (filter awaiting as) \<le> 50"
    "length (filter awaiting cs) \<le> length (filter awaiting xs) - 50"
    using split_count by blast
  have "\<forall>x \<in> set as. awaiting x \<longrightarrow> 0 \<le> o_publish_attempts x"
    using Suc.prems(2) xs(1) by (auto simp: outbox_row_wf_def)
  from refuse_prefixes [OF xs(2) this, of ?first cs] obtain as' cs' where
    r: "fold refuse ?first xs = as' @ cs'" "length (filter awaiting cs') \<le> length (filter awaiting cs)"
    and att: "\<forall>x \<in> set as'. awaiting x \<longrightarrow> int (length ?first) \<le> o_publish_attempts x"
    unfolding xs(1) by auto
  have wf: "distinct (map o_id (as' @ cs'))" "\<forall>x \<in> set (as' @ cs'). outbox_row_wf x"
    using refuse_fold_wf [OF Suc.prems(1,2), of ?first] unfolding r(1) by auto
  have "length ?first = 20" using Suc.prems(4) by simp
  with att wf(2) have "filter awaiting as' = []"
    by (force simp: filter_empty_conv outbox_row_wf_def awaiting_def)
  with r(2) xs(3) Suc.prems(3) have "length (filter awaiting (as' @ cs')) \<le> 50 * k" by simp
  from Suc.IH [OF wf this, of "drop 20 nows"] Suc.prems(4)
  have "filter awaiting (fold refuse (drop 20 nows) (fold refuse ?first xs)) = []" by (simp add: r(1))
  moreover have "fold refuse (drop 20 nows) (fold refuse ?first xs) = fold refuse (?first @ drop 20 nows) xs"
    by (simp only: fold_append comp_apply)
  ultimately show ?case by simp
qed

lemma by_age_wf:
  "outbox_wf d \<longleftrightarrow> distinct (map o_id (by_age d)) \<and> (\<forall>x \<in> set (by_age d). outbox_row_wf x)"
  by (simp add: outbox_wf_def by_age_def distinct_map)

lemma refused_batches:
  assumes "\<forall>m b. \<not> fst (pub m b)"
  shows "outbox_wf d \<Longrightarrow> \<forall>x \<in> set (outbox_events d). \<forall>t \<in> set nows. awaiting x \<longrightarrow> claimable t x \<Longrightarrow>
    \<exists>p' b' d'. fold (\<lambda>now. publishBatch X marshal pub False (\<lambda>_. False) now) nows (p, b, d) = (p', b', d') \<and>
      by_age d' = fold refuse nows (by_age d)"
proof (induction nows arbitrary: p b d)
  case Nil
  then show ?case by simp
next
  case (Cons now nows)
  obtain p1 b1 d1 where one: "publishBatch X marshal pub False (\<lambda>_. False) now (p, b, d) = (p1, b1, d1)"
    and d1: "by_age d1 = refuse now (by_age d)"
    using refused_batch [OF assms Cons.prems(1), of now] Cons.prems(2) by force
  have "outbox_wf d1" using refuse_wf [of "by_age d" now] Cons.prems(1) unfolding by_age_wf d1 by blast
  moreover have "\<forall>x \<in> set (outbox_events d1). \<forall>t \<in> set nows. awaiting x \<longrightarrow> claimable t x"
    using refuse_claimable [of "by_age d" _ now] Cons.prems(2) unfolding set_by_age [symmetric] d1 by simp
  ultimately obtain p' b' d' where
    "fold (\<lambda>now. publishBatch X marshal pub False (\<lambda>_. False) now) nows (p1, b1, d1) = (p', b', d')"
    "by_age d' = fold refuse nows (by_age d1)"
    using Cons.IH [of d1 p1 b1] by blast
  then show ?case by (simp add: one d1)
qed

text \<open>
  (C9) Retries are bounded, for an outbox of any size. Suppose the broker refuses every message and
  the statements of the database succeed, and 50 * k bounds the number of rows that are neither
  published nor failed, none of which is under a claim still live at the instants of the batches.
  Then 20 * k batches (twenty per batch size of the backlog) make every event terminal: nothing
  is claimable any more, at any later time. Published and failed rows do not count.
\<close>

theorem retries_bounded:
  assumes "\<forall>m b. \<not> fst (pub m b)" and "appt_inv d"
    and "\<forall>x \<in> set (outbox_events d). \<forall>t \<in> set nows. awaiting x \<longrightarrow> claimable t x"
    and "length (filter awaiting (outbox_events d)) \<le> 50 * k" and "20 * k \<le> length nows"
  shows "\<exists>p' b' d'. fold (\<lambda>now. publishBatch X marshal pub False (\<lambda>_. False) now) nows (p, b, d) = (p', b', d') \<and>
    (\<forall>later. filter (claimable later) (outbox_events d') = [])"
proof -
  have wf: "outbox_wf d" using assms(2) by (simp add: appt_inv_def)
  from refused_batches [OF assms(1) wf assms(3), of X marshal p b] obtain p' b' d' where
    r: "fold (\<lambda>now. publishBatch X marshal pub False (\<lambda>_. False) now) nows (p, b, d) = (p', b', d')"
    "by_age d' = fold refuse nows (by_age d)" by blast
  have "length (filter awaiting (by_age d)) \<le> 50 * k"
    using assms(4) by (simp add: by_age_def filter_sort)
  with wf assms(5) have "filter awaiting (by_age d') = []"
    unfolding r(2) by_age_wf by (blast intro: refuse_ends)
  then have "\<not> claimable later x" if "x \<in> set (outbox_events d')" for later x
    using that unfolding filter_empty_conv set_by_age by (auto simp: claimable_def awaiting_def)
  with r(1) show ?thesis by (auto simp: filter_empty_conv)
qed

section \<open>The backlog gauges\<close>

definition outbox_backlog :: "bool \<Rightarrow> bool \<Rightarrow> time \<Rightarrow> appt_db \<Rightarrow> nat" where
  "outbox_backlog may_select fails now d =
     (case repo_OutboxBacklogStats may_select fails now d of Inl _ \<Rightarrow> 0 | Inr (count, _) \<Rightarrow> count)"

definition outbox_oldest_pending_age :: "bool \<Rightarrow> bool \<Rightarrow> time \<Rightarrow> appt_db \<Rightarrow> duration" where
  "outbox_oldest_pending_age may_select fails now d =
     (case repo_OutboxBacklogStats may_select fails now d of Inl _ \<Rightarrow> 0 | Inr (_, age) \<Rightarrow> age)"

text \<open>
  The application role may only insert into \<^verbatim>\<open>outbox_events\<close>, so its backlog query is refused and
  both gauges read zero whatever the backlog is; a role with the privilege reads the number of
  awaiting rows.
\<close>

lemma backlog_gauge_blind:
  "outbox_backlog (''SELECT'' \<in> set app_outbox_privileges) fails now d = 0 \<and>
   outbox_oldest_pending_age (''SELECT'' \<in> set app_outbox_privileges) fails now d = 0"
  by (simp add: outbox_backlog_def outbox_oldest_pending_age_def repo_OutboxBacklogStats_def
      app_outbox_privileges_def)

lemma backlog_gauge_exact:
  "outbox_backlog True False now d = length (filter awaiting (outbox_events d))"
  by (simp add: outbox_backlog_def repo_OutboxBacklogStats_def awaiting_def [abs_def] Let_def)

end
