(* ===== verification/Appt_Access.thy ===== *)
theory Appt_Access
  imports Appt_Http Appt_Outbox
begin

text \<open>
  Safety of appointment-service seen from its HTTP routes: a request touches only the tenant of its
  trusted context, changes need the right caller, and histories of requests inherit the safety of
  the store.
\<close>

section \<open>Requests as runs of the store\<close>

lemma appointmentResult_snd [simp]: "snd (appointmentResult n r) = snd r"
  by (cases "(n, r)" rule: appointmentResult.cases) auto

lemma with_id_snd:
  "(\<And>i. P (snd (f i))) \<Longrightarrow> P d \<Longrightarrow> P (snd (with_id h c f d))"
  by (simp add: with_id_def split: option.splits)

lemma trusted_Inr:
  "trusted h c app = Inr t \<longleftrightarrow> adminauth_Context (h_X h) (h_verify h) c = Inr t \<and> AppType t = app"
  by (auto simp: trusted_def split: sum.splits)

lemma admin_Inr:
  "admin h c = Inr (t, p) \<Longrightarrow>
     adminauth_Context (h_X h) (h_verify h) c = Inr t \<and> AppType t = ''admin'' \<and> pr_Kind p = ''admin'' \<and>
     (\<exists>q. Authenticate (h_X h) (h_auth h) t (c_Get c ''Cookie'') = Inr q \<and> ap_Role q = pr_Role p)"
  by (auto simp: admin_def trusted_Inr split: sum.splits)

lemma customer_Inr:
  "customer h c = Inr (t, i) \<Longrightarrow>
     adminauth_Context (h_X h) (h_verify h) c = Inr t \<and> AppType t = ''booking'' \<and>
     uuid_Parse (h_X h) (c_Get c ''X-Customer-ID'') = Some i \<and> i \<noteq> uuid_nil"
  by (auto simp: customer_def trusted_Inr split: sum.splits option.splits if_splits)

text \<open>Reading routes change nothing; the others run operations of the tenant in the context.\<close>

lemma read_routes_frame:
  "snd (occ h io c d) = d" "snd (notificationRecipient h io c d) = d" "snd (pubGet h io c d) = d"
  "snd (customerList h u io c d) = d" "snd (customerGet h io c d) = d"
  "snd (h_list h io c d) = d" "snd (h_get h io c d) = d"
proof -
  have q: "snd r = d \<Longrightarrow> r = (v, d') \<Longrightarrow> d' = d" for r :: "'x \<times> appt_db" and v d' by simp
  show "snd (occ h io c d) = d"
    by (auto simp: occ_def split: sum.splits option.splits prod.splits dest: q [OF queries_frame(6)])
  show "snd (notificationRecipient h io c d) = d"
    by (auto simp: notificationRecipient_def split: sum.splits prod.splits
        dest: q [OF queries_frame(3)] intro!: with_id_snd [where P = "\<lambda>x. x = d"])
  show "snd (pubGet h io c d) = d"
    by (auto simp: pubGet_def split: sum.splits intro!: with_id_snd [where P = "\<lambda>x. x = d"])
  show "snd (customerList h u io c d) = d"
    by (auto simp: customerList_def split: sum.splits prod.splits dest: q [OF CustomerList_frame])
  show "snd (customerGet h io c d) = d"
    by (auto simp: customerGet_def split: sum.splits prod.splits intro!: with_id_snd [where P = "\<lambda>x. x = d"])
  show "snd (h_list h io c d) = d"
    by (auto simp: h_list_def split: sum.splits prod.splits dest: q [OF queries_frame(4)])
  show "snd (h_get h io c d) = d"
    by (auto simp: h_get_def split: sum.splits prod.splits intro!: with_id_snd [where P = "\<lambda>x. x = d"])
qed

lemma h_create_run: "tenant_run (TenantID t) d (snd (h_create h io c t p oper inp d))"
  using booking_Create_run [of "\<lparr>cmd_Tenant = t, cmd_Principal = p, cmd_Operation = oper,
      cmd_IdempotencyKey = c_Get c ''Idempotency-Key'', cmd_Input = inp\<rparr>"]
  by (simp add: h_create_def)

lemma write_routes_run:
  assumes "adminauth_Context (h_X h) (h_verify h) c = Inr t"
  shows "tenant_run (TenantID t) d (snd (pubCreate h io c d))"
    and "tenant_run (TenantID t) d (snd (admCreate h io c d))"
    and "tenant_run (TenantID t) d (snd (customerCancel h io c d))"
    and "tenant_run (TenantID t) d (snd (pubCancel h io c d))"
    and "tenant_run (TenantID t) d (snd (h_transition h s io c d))"
    and "tenant_run (TenantID t) d (snd (h_reschedule h io c d))"
  using assms
  by (auto simp: pubCreate_def admCreate_def customerCancel_def pubCancel_def h_transition_def
      h_reschedule_def trusted_Inr h_create_run app_runs
      split: sum.splits prod.splits option.splits dest!: admin_Inr customer_Inr
      intro!: with_id_snd [where P = "tenant_run (TenantID t) d"])

lemma appt_serve_run:
  assumes "adminauth_Context (h_X h) (h_verify h) c = Inr t"
  shows "tenant_run (TenantID t) d (snd (appt_serve h r io c d))"
  using write_routes_run [OF assms] by (cases r) (simp_all add: read_routes_frame)

lemma appt_serve_untrusted:
  assumes "adminauth_Context (h_X h) (h_verify h) c = Inl e"
  shows "appt_serve h r io c d = (SendStatus 400, d) \<or> appt_serve h r io c d = (SendStatus 401, d) \<or>
    appt_serve h r io c d = (SendStatus 403, d)"
proof -
  have "trusted h c app = Inl AErrUnauthorized" for app using assms by (simp add: trusted_def)
  then show ?thesis using assms
    by (cases r)
      (simp_all add: occ_def notificationRecipient_def pubCreate_def pubGet_def pubCancel_def
        customerList_def customerGet_def customerCancel_def h_list_def h_get_def admCreate_def
        h_reschedule_def h_transition_def customer_def admin_def)
qed

section \<open>Histories of requests\<close>

text \<open>A step of a history: a request at some route, or one of the background operations.\<close>

datatype svc_step = Request appt_handler appt_route appt_io fiber_ctx | Background appt_op

fun exec_svc :: "svc_step \<Rightarrow> appt_db \<Rightarrow> appt_db" where
  "exec_svc (Request h r io c) d = snd (appt_serve h r io c d)"
| "exec_svc (Background x) d = (if appt_op_tenant x = None then exec_appt x d else d)"

fun svc_tenant :: "svc_step \<Rightarrow> uuid option" where
  "svc_tenant (Request h r io c) =
     (case adminauth_Context (h_X h) (h_verify h) c of Inl _ \<Rightarrow> None | Inr t \<Rightarrow> Some (TenantID t))"
| "svc_tenant (Background x) = None"

lemma tenant_run_view:
  assumes "tenant_run t d d'" and "t' \<noteq> t"
  shows "tenant_view t' d' = tenant_view t' d"
proof -
  from assms(1) obtain xs where "list_all (\<lambda>x. appt_op_tenant x = Some t) xs" "d' = run_ops exec_appt xs d"
    by (auto simp: tenant_run_def)
  moreover have "list_all (\<lambda>x. appt_op_tenant x = Some t) xs \<Longrightarrow>
      tenant_view t' (run_ops exec_appt xs d) = tenant_view t' d" for d
    using assms(2) by (induction xs arbitrary: d) (auto simp: exec_appt_view)
  ultimately show ?thesis by simp
qed

lemma exec_svc_request:
  obtains "exec_svc (Request h r io c) d = d" "svc_tenant (Request h r io c) = None"
  | t where "svc_tenant (Request h r io c) = Some t" "tenant_run t d (exec_svc (Request h r io c) d)"
proof (cases "adminauth_Context (h_X h) (h_verify h) c")
  case (Inl e)
  with appt_serve_untrusted [OF this, of r io d] show thesis by (intro that(1)) auto
next
  case (Inr t)
  with appt_serve_run [OF this] show thesis by (intro that(2)) auto
qed

lemma exec_svc_inv: "appt_inv d \<Longrightarrow> appt_inv (exec_svc x d)"
proof (cases x)
  case (Request h r io c)
  assume "appt_inv d"
  then show ?thesis unfolding Request
    by (cases rule: exec_svc_request [of h r io c d]) (auto simp del: exec_svc.simps intro: tenant_run_inv)
qed (simp add: exec_appt_inv)

lemma exec_svc_view: "svc_tenant x \<noteq> Some t' \<Longrightarrow> tenant_view t' (exec_svc x d) = tenant_view t' d"
proof (cases x)
  case (Request h r io c)
  assume "svc_tenant x \<noteq> Some t'"
  then show ?thesis unfolding Request
    by (cases rule: exec_svc_request [of h r io c d])
      (auto simp del: exec_svc.simps svc_tenant.simps intro: tenant_run_view)
next
  case (Background op)
  then show ?thesis by (simp add: exec_appt_view)
qed

interpretation svc: tenant_store exec_svc appt_inv empty_appt_db svc_tenant tenant_view
  by unfold_locales (simp_all add: appt_inv_empty exec_svc_inv exec_svc_view)

text \<open>
  End to end: after any history of HTTP requests (any routes, callers, handlers, faults and
  clocks) and background work, two different pending or confirmed appointments of one barber
  occupy disjoint ranges.
\<close>

theorem http_no_double_booking:
  assumes "d = run_ops exec_svc xs empty_appt_db"
    and "r \<in> set (appointments d)" and "r' \<in> set (appointments d)" and "r_id r \<noteq> r_id r'"
    and "r_tenant_id r = r_tenant_id r'" and "r_barber_id r = r_barber_id r'"
    and "active_status (r_status r)" and "active_status (r_status r')"
  shows "r_occupied_end_at r \<le> r_occupied_start_at r' \<or> r_occupied_end_at r' \<le> r_occupied_start_at r"
proof -
  have "appts_wf d" using svc.invar_reachable [of xs] assms(1) by (simp add: appt_inv_def)
  then have "\<not> excluded_pair r r'" using assms(2-4) by (simp add: appts_wf_def)
  with assms(5-8) show ?thesis by (auto simp: excluded_pair_def overlaps_def)
qed

text \<open>
  Tenant isolation over HTTP: requests whose trusted context names other tenants, requests
  without a trusted context, and background work leave the appointments and events of a tenant
  unchanged, in any number and order.
\<close>

theorem http_tenant_isolated:
  assumes "d = run_ops exec_svc xs empty_appt_db" and "list_all (\<lambda>x. svc_tenant x \<noteq> Some t) ys"
  shows "tenant_view t (run_ops exec_svc ys d) = tenant_view t d"
  using assms svc.invar_reachable [of xs] by (simp add: svc.view_run)

section \<open>Who may change what\<close>

lemma booking_Create_admin:
  assumes "snd (booking_Create X D f1 f2 env cmd d) \<noteq> d" and "pr_Kind (cmd_Principal cmd) = ''admin''"
  shows "canManage (pr_Role (cmd_Principal cmd))"
proof (rule ccontr)
  assume "\<not> canManage (pr_Role (cmd_Principal cmd))"
  then have "principalScope X (cmd_Principal cmd) e = Inl AErrForbidden" for e
    using assms(2) by (simp add: principalScope_def)
  with assms(1) show False by (auto simp: booking_Create_def split: sum.splits if_splits)
qed

lemma lifecycle_admin:
  "snd (lifecycle_Transition f env t p i to d) \<noteq> d \<Longrightarrow> pr_Kind p = ''admin'' \<Longrightarrow> canManage (pr_Role p)"
  "snd (lifecycle_Reschedule D f1 f2 env tc p i start d) \<noteq> d \<Longrightarrow> canManage (pr_Role p)"
  by (auto simp: lifecycle_Transition_def lifecycle_Reschedule_def split: if_splits)

lemma CancelCustomer_owner:
  assumes "appt_inv d" and "snd (CancelCustomer D f1 f2 env t cid i now d) \<noteq> d"
  shows "\<exists>row. sql_find_appointment (TenantID t) i d = Some row \<and> r_customer_id row = Some cid"
proof (cases "repo_GetForCustomer f1 (TenantID t) cid i d")
  case (Pair q d')
  have d': "d' = d" using reads_frameD(4) [OF Pair] .
  show ?thesis
  proof (cases q)
    case (Inl e)
    with Pair d' assms(2) show ?thesis by (simp add: CancelCustomer_def)
  next
    case (Inr a)
    with Pair obtain row where row: "row \<in> set (appointments d)" "r_tenant_id row = TenantID t"
      "r_customer_id row = Some cid" "r_id row = i"
      by (auto simp: repo_GetForCustomer_def WithTenantTx_ok split: option.splits dest!: find_SomeD)
    then have "sql_find_appointment (TenantID t) i d = Some row"
      using sql_find_appointmentI [of d row] assms(1) by (simp add: appt_inv_def)
    with row show ?thesis by blast
  qed
qed

lemma with_id_changed:
  assumes "snd (with_id h c f d) \<noteq> d"
  obtains i where "uuid_Parse (h_X h) (c_Params c ''id'') = Some i" "snd (f i) \<noteq> d"
  using assms by (auto simp: with_id_def split: option.splits)

definition manager_call :: "appt_handler \<Rightarrow> fiber_ctx \<Rightarrow> tenant_ctx \<Rightarrow> bool" where
  "manager_call h c t \<longleftrightarrow> AppType t = ''admin'' \<and>
     (\<exists>q. Authenticate (h_X h) (h_auth h) t (c_Get c ''Cookie'') = Inr q \<and> canManage (ap_Role q))"

definition owner_call :: "appt_handler \<Rightarrow> fiber_ctx \<Rightarrow> tenant_ctx \<Rightarrow> appt_db \<Rightarrow> bool" where
  "owner_call h c t d \<longleftrightarrow> AppType t = ''booking'' \<and>
     (\<exists>cid i row. uuid_Parse (h_X h) (c_Get c ''X-Customer-ID'') = Some cid \<and>
        uuid_Parse (h_X h) (c_Params c ''id'') = Some i \<and>
        sql_find_appointment (TenantID t) i d = Some row \<and> r_customer_id row = Some cid)"

lemma admin_manager:
  "admin h c = Inr (t, p) \<Longrightarrow> canManage (pr_Role p) \<Longrightarrow>
     adminauth_Context (h_X h) (h_verify h) c = Inr t \<and> manager_call h c t"
  by (frule admin_Inr) (auto simp: manager_call_def)

lemma admin_routes_changed:
  assumes "snd (admCreate h io c d) \<noteq> d \<or> snd (h_reschedule h io c d) \<noteq> d \<or>
    snd (h_transition h s io c d) \<noteq> d"
  shows "\<exists>t. adminauth_Context (h_X h) (h_verify h) c = Inr t \<and> manager_call h c t"
proof (cases "admin h c")
  case (Inl e)
  with assms show ?thesis by (simp add: admCreate_def h_reschedule_def h_transition_def)
next
  case (Inr tp)
  then obtain t p where tp: "admin h c = Inr (t, p)" by (metis surj_pair)
  have kind: "pr_Kind p = ''admin''" using admin_Inr [OF tp] by simp
  have "canManage (pr_Role p)"
    using assms
  proof (elim disjE)
    assume "snd (admCreate h io c d) \<noteq> d"
    with tp kind show ?thesis
      using booking_Create_admin [of "h_X h" "h_deps h" "io_f1 io" "io_f2 io" "io_env io"
          "\<lparr>cmd_Tenant = t, cmd_Principal = p, cmd_Operation = ''admin.create_appointment'',
            cmd_IdempotencyKey = c_Get c ''Idempotency-Key'', cmd_Input = inp\<rparr>" d for inp]
      by (auto simp: admCreate_def h_create_def split: sum.splits)
  next
    assume "snd (h_reschedule h io c d) \<noteq> d"
    with tp show ?thesis
      by (auto simp: h_reschedule_def elim!: with_id_changed split: option.splits if_splits
          dest: lifecycle_admin(2))
  next
    assume "snd (h_transition h s io c d) \<noteq> d"
    with tp kind show ?thesis
      by (auto simp: h_transition_def elim!: with_id_changed dest: lifecycle_admin(1))
  qed
  with admin_manager [OF tp] show ?thesis by blast
qed

lemma cancel_routes_changed:
  assumes "appt_inv d" and "snd (pubCancel h io c d) \<noteq> d \<or> snd (customerCancel h io c d) \<noteq> d"
  shows "\<exists>t. adminauth_Context (h_X h) (h_verify h) c = Inr t \<and> owner_call h c t d"
proof (cases "customer h c")
  case (Inl e)
  with assms show ?thesis by (simp add: pubCancel_def customerCancel_def)
next
  case (Inr ti)
  then obtain t cid where ti: "customer h c = Inr (t, cid)" by (metis surj_pair)
  with assms(2) have "snd (with_id h c (\<lambda>i. appointmentResult 200 (CancelCustomer (h_deps h) (io_f1 io)
      (io_f2 io) (io_env io) t cid i (io_now io) d)) d) \<noteq> d"
    by (auto simp: pubCancel_def customerCancel_def)
  then obtain i where "uuid_Parse (h_X h) (c_Params c ''id'') = Some i"
    "snd (CancelCustomer (h_deps h) (io_f1 io) (io_f2 io) (io_env io) t cid i (io_now io) d) \<noteq> d"
    by (auto elim!: with_id_changed)
  with CancelCustomer_owner [OF assms(1)] customer_Inr [OF ti] show ?thesis
    unfolding owner_call_def by blast
qed

text \<open>
  (C10) Changes need the right caller. When a request changes the tables, it carried a trusted
  context, and it is either a public booking, or a cancellation by the very customer the addressed
  appointment belongs to, or an admin route called with a valid admin session whose role may manage
  appointments.
\<close>

theorem http_changes_authorized:
  assumes "appt_inv d" and "snd (appt_serve h r io c d) \<noteq> d"
  shows "\<exists>t. adminauth_Context (h_X h) (h_verify h) c = Inr t \<and>
    (r = R_pubCreate \<and> AppType t = ''booking'' \<or>
     r \<in> {R_pubCancel, R_customerCancel} \<and> owner_call h c t d \<or>
     r \<in> {R_admCreate, R_reschedule} \<union> range R_transition \<and> manager_call h c t)"
proof (cases r)
  case R_pubCreate
  with assms(2) show ?thesis by (auto simp: pubCreate_def trusted_Inr split: sum.splits)
next
  case R_pubCancel
  with assms cancel_routes_changed [of d h io c] show ?thesis by auto
next
  case R_customerCancel
  with assms cancel_routes_changed [of d h io c] show ?thesis by auto
next
  case R_admCreate
  with assms admin_routes_changed [of h io c d] show ?thesis by auto
next
  case R_reschedule
  with assms admin_routes_changed [of h io c d] show ?thesis by auto
next
  case (R_transition s)
  with assms admin_routes_changed [of h io c d s] show ?thesis by auto
qed (use assms(2) in \<open>simp_all add: read_routes_frame\<close>)

text \<open>
  Losing the race is a conflict, not an error. When everything else accepts a booking but the
  occupied range is taken by then, the service answers ErrConflict, which the handler turns into
  status 409, and nothing changes.
\<close>

theorem lost_race_conflict:
  assumes "appt_inv d" and "fresh_env env d"
    and "normalizeCreate X (cmd_Input cmd) = Inr inp0"
    and "resolve_customer X D (cmd_Tenant cmd) (cmd_Principal cmd) inp0 = Inr inp"
    and "principalScope X (cmd_Principal cmd) (i_CustomerContact inp) = Inr sc"
    and "valid_key (cmd_IdempotencyKey cmd) (fingerprint X (TenantID (cmd_Tenant cmd)) sc (cmd_Operation cmd) inp)"
    and "sql_find_key (TenantID (cmd_Tenant cmd)) sc (cmd_Operation cmd) (cmd_IdempotencyKey cmd) d = None"
    and "d_Service D (cmd_Tenant cmd) (i_BarberID inp) (i_ServiceID inp) = Inr svc"
    and "0 < DurationMinutes svc" and "DurationMinutes svc \<le> 1440"
    and "0 \<le> BufferBeforeMinutes svc" and "BufferBeforeMinutes svc \<le> 1440"
    and "0 \<le> BufferAfterMinutes svc" and "BufferAfterMinutes svc \<le> 1440"
    and "\<not> cal_free (calendar_of (TenantID (cmd_Tenant cmd)) (i_BarberID inp) d) (pg_uuid env 0)
      (i_StartAt inp + Minutes (- BufferBeforeMinutes svc))
      (i_StartAt inp + Minutes (DurationMinutes svc) + Minutes (BufferAfterMinutes svc))"
  shows "appointmentResult 201 (booking_Create X D NoFault NoFault env cmd d) = (SendStatus 409, d)"
proof -
  let ?t = "TenantID (cmd_Tenant cmd)"
  let ?fp = "fingerprint X ?t sc (cmd_Operation cmd) inp"
  have key: "ValidIdempotencyKey (cmd_IdempotencyKey cmd)"
    using assms(6) by (auto simp: ValidIdempotencyKey_def valid_key_def keyPattern_def)
  have replay: "repo_Replay NoFault ?t sc (cmd_Operation cmd) (cmd_IdempotencyKey cmd) ?fp d = (Inr None, d)"
    using assms(7) by (simp add: repo_Replay_def WithTenantTx_NoFault)
  have "Minutes (- BufferBeforeMinutes svc) \<le> 0" "0 < Minutes (DurationMinutes svc)"
      "0 \<le> Minutes (BufferAfterMinutes svc)"
    using assms(9-14) by (simp_all add: Minutes_exact nanosecond_per_minute_def)
  then have "repo_Create_fresh env ?t inp (i_StartAt inp + Minutes (DurationMinutes svc))
      (i_StartAt inp + Minutes (- BufferBeforeMinutes svc))
      (i_StartAt inp + Minutes (DurationMinutes svc) + Minutes (BufferAfterMinutes svc))
      sc (cmd_Operation cmd) (cmd_IdempotencyKey cmd) ?fp ?t d = Inl (PgError ''23P01'')"
    using assms(15) by (intro Create_fresh_decides(2) [OF assms(1,2,6,7)]) auto
  then have create: "repo_Create NoFault env ?t inp (i_StartAt inp + Minutes (DurationMinutes svc))
      (i_StartAt inp + Minutes (- BufferBeforeMinutes svc))
      (i_StartAt inp + Minutes (DurationMinutes svc) + Minutes (BufferAfterMinutes svc))
      sc (cmd_Operation cmd) (cmd_IdempotencyKey cmd) ?fp d = (Inl (PgError ''23P01''), d)"
    using assms(7) by (auto simp: repo_Create_def WithTenantTx_NoFault)
  have "booking_commit D NoFault env cmd inp sc ?fp d = (Inl AErrConflict, d)"
    using assms(8) create
    by (auto simp: booking_commit_def Let_def mapRepo_def mapRepositoryError_def IsConflict_def split: sum.splits)
  with key replay assms(3-5) show ?thesis by (simp add: booking_Create_def Let_def)
qed

end
