(* ===== verification/Sched_Avail.thy ===== *)
theory Sched_Avail
  imports Platform
begin

text \<open>
  The availability rules of scheduling-service: \<^verbatim>\<open>internal/domain/domain.go\<close> and
  \<^verbatim>\<open>internal/service/availability.go\<close>.

  \<^verbatim>\<open>time.Parse\<close> is modelled for the two layouts the service uses. A civil date is its year, month
  and day; a \<^verbatim>\<open>time.Location\<close> is the record \<open>zone\<close>: the instant of local midnight, the civil date of
  an instant, and the instant one civil day later. The loop of \<^verbatim>\<open>Available\<close> does not end when its step
  is not positive, so it is a partial function.
\<close>

section \<open>internal/domain\<close>

record interval =
  iv_Start :: string
  iv_End :: string

record day_hours =
  dh_Weekday :: int
  dh_Intervals :: "interval list"

type_synonym working_hours = "day_hours list"

record override_input =
  oi_Date :: string
  oi_Kind :: string
  oi_Intervals :: "interval list"

record override =
  ov_ID :: uuid
  ov_Date :: string
  ov_Kind :: string
  ov_Intervals :: "interval list"

record blocked_input =
  bi_StartAt :: time
  bi_EndAt :: time

record blocked_period =
  bp_ID :: uuid
  bp_StartAt :: time
  bp_EndAt :: time

record schedule =
  sc_WorkingHours :: working_hours
  sc_Overrides :: "override list"
  sc_BlockedPeriods :: "blocked_period list"

record slot =
  sl_StartAt :: time
  sl_EndAt :: time

section \<open>Parsing\<close>

text \<open>\<^verbatim>\<open>getnum\<close> of the package time: one or two digits, exactly two when \<open>fixed\<close>.\<close>

fun getnum :: "bool \<Rightarrow> string \<Rightarrow> (int \<times> string) option" where
  "getnum fixed (c1 # c2 # rest) =
     (if \<not> is_digit c1 then None
      else if is_digit c2 then Some (10 * digit_val c1 + digit_val c2, rest)
      else if fixed then None else Some (digit_val c1, c2 # rest))"
| "getnum fixed [c1] = (if is_digit c1 \<and> \<not> fixed then Some (digit_val c1, []) else None)"
| "getnum fixed [] = None"

text \<open>\<^verbatim>\<open>time.Parse("15:04", v)\<close>: the hour and the minute.\<close>

definition parse_clock :: "string \<Rightarrow> (int \<times> int) option" where
  "parse_clock v =
     (case getnum False v of
        Some (h, c # rest) \<Rightarrow>
          if h \<ge> 24 \<or> c \<noteq> CHR '':'' then None
          else (case getnum True rest of
                  Some (m, []) \<Rightarrow> if m \<ge> 60 then None else Some (h, m)
                | _ \<Rightarrow> None)
      | _ \<Rightarrow> None)"

definition hour_ns :: duration where
  "hour_ns = 3600000000000"

definition minute_ns :: duration where
  "minute_ns = 60000000000"

definition parseWall :: "string \<Rightarrow> duration" where
  "parseWall v = (case parse_clock v of None \<Rightarrow> - 1 | Some (h, m) \<Rightarrow> h * hour_ns + m * minute_ns)"

definition wall :: "interval \<Rightarrow> duration \<times> duration \<times> bool" where
  "wall v = (let s = parseWall (iv_Start v); e = parseWall (iv_End v) in (s, e, s \<ge> 0 \<and> e \<ge> 0))"

fun valid_from :: "duration \<Rightarrow> interval list \<Rightarrow> bool" where
  "valid_from prev [] = True"
| "valid_from prev (v # rest) =
     (case wall v of (s, e, ok) \<Rightarrow>
        if \<not> ok \<or> s \<ge> e \<or> s < prev then False else valid_from e rest)"

definition ValidIntervals :: "interval list \<Rightarrow> bool" where
  "ValidIntervals ivs = valid_from (- 1) ivs"

text \<open>\<^verbatim>\<open>time.Parse("2006-01-02", v)\<close> for four-digit years.\<close>

type_synonym civil = "int \<times> int \<times> int"

definition leap :: "int \<Rightarrow> bool" where
  "leap y \<longleftrightarrow> y mod 4 = 0 \<and> (y mod 100 \<noteq> 0 \<or> y mod 400 = 0)"

definition days_in :: "int \<Rightarrow> int \<Rightarrow> int" where
  "days_in y m = (if m = 2 then if leap y then 29 else 28
     else if m = 4 \<or> m = 6 \<or> m = 9 \<or> m = 11 then 30 else 31)"

fun parse_date :: "string \<Rightarrow> civil option" where
  "parse_date [y1, y2, y3, y4, s1, m1, m2, s2, d1, d2] =
     (let y = 1000 * digit_val y1 + 100 * digit_val y2 + 10 * digit_val y3 + digit_val y4;
          m = 10 * digit_val m1 + digit_val m2; d = 10 * digit_val d1 + digit_val d2
      in if list_all is_digit [y1, y2, y3, y4, m1, m2, d1, d2] \<and> s1 = CHR ''-'' \<and> s2 = CHR ''-'' \<and>
            1 \<le> m \<and> m \<le> 12 \<and> 1 \<le> d \<and> d \<le> days_in y m
         then Some (y, m, d) else None)"
| "parse_date _ = None"

text \<open>Days since 1 January 1970, a Thursday.\<close>

definition days_from_civil :: "civil \<Rightarrow> int" where
  "days_from_civil c =
     (case c of (y, m, d) \<Rightarrow>
      let y' = (if m \<le> 2 then y - 1 else y); era = y' div 400; yoe = y' - era * 400;
          doy = (153 * (if m > 2 then m - 3 else m + 9) + 2) div 5 + d - 1;
          doe = yoe * 365 + yoe div 4 - yoe div 100 + doy
      in era * 146097 + doe - 719468)"

definition weekday :: "civil \<Rightarrow> int" where
  "weekday c = (days_from_civil c + 4) mod 7"

section \<open>Windows of a day\<close>

record zone =
  zn_midnight :: "civil \<Rightarrow> time"
  zn_civil :: "time \<Rightarrow> civil"
  zn_AddDay :: "time \<Rightarrow> time"

fun intervals_of_weekday :: "int \<Rightarrow> working_hours \<Rightarrow> interval list" where
  "intervals_of_weekday wd [] = []"
| "intervals_of_weekday wd (d # ds) =
     (if dh_Weekday d = wd then dh_Intervals d else intervals_of_weekday wd ds)"

definition window_of :: "time \<Rightarrow> interval \<Rightarrow> slot list" where
  "window_of base v =
     (case wall v of (s, e, ok) \<Rightarrow> if \<not> ok then [] else [\<lparr>sl_StartAt = base + s, sl_EndAt = base + e\<rparr>])"

definition IntervalsForDate :: "working_hours \<Rightarrow> override \<Rightarrow> time \<Rightarrow> zone \<Rightarrow> slot list" where
  "IntervalsForDate hours over date z =
     (if ov_ID over \<noteq> uuid_nil \<and> ov_Kind over \<noteq> ''custom_hours'' then []
      else let ivs = (if ov_ID over \<noteq> uuid_nil then ov_Intervals over
                      else intervals_of_weekday (weekday (zn_civil z date)) hours)
           in concat (map (window_of (zn_midnight z (zn_civil z date))) ivs))"

section \<open>Slots\<close>

text \<open>The body of the inner loop: is the start offered?\<close>

definition offers ::
  "slot \<Rightarrow> blocked_period list \<Rightarrow> int \<Rightarrow> int \<Rightarrow> int \<Rightarrow> time \<Rightarrow> time \<Rightarrow> bool" where
  "offers i busy duration before after now start =
     (let occStart = start + Minutes (- before); occEnd = start + Minutes (duration + after) in
      \<not> (occStart < sl_StartAt i \<or> \<not> start > now) \<and>
      \<not> list_ex (\<lambda>x. occStart < bp_EndAt x \<and> occEnd > bp_StartAt x) busy)"

partial_function (option) window_slots ::
  "slot \<Rightarrow> blocked_period list \<Rightarrow> int \<Rightarrow> int \<Rightarrow> int \<Rightarrow> int \<Rightarrow> time \<Rightarrow> time \<Rightarrow> slot list \<Rightarrow>
     slot list option" where
  "window_slots i busy duration before after step now start out =
     (if start + Minutes (duration + after) > sl_EndAt i then Some out
      else window_slots i busy duration before after step now (start + Minutes step)
        (if offers i busy duration before after now start
         then out @ [\<lparr>sl_StartAt = start, sl_EndAt = start + Minutes duration\<rparr>] else out))"

declare window_slots.simps [code]

fun windows_loop ::
  "blocked_period list \<Rightarrow> int \<Rightarrow> int \<Rightarrow> int \<Rightarrow> int \<Rightarrow> time \<Rightarrow> slot list \<Rightarrow> slot list \<Rightarrow> slot list option" where
  "windows_loop busy duration before after step now [] out = Some out"
| "windows_loop busy duration before after step now (i # rest) out =
     (case window_slots i busy duration before after step now (sl_StartAt i) out of
        None \<Rightarrow> None
      | Some out' \<Rightarrow> windows_loop busy duration before after step now rest out')"

definition Available ::
  "slot list \<Rightarrow> blocked_period list \<Rightarrow> blocked_period list \<Rightarrow> int \<Rightarrow> int \<Rightarrow> int \<Rightarrow> int \<Rightarrow> time \<Rightarrow>
     slot list option" where
  "Available intervals blocked occupied duration before after step now =
     windows_loop (blocked @ occupied) duration before after step now intervals []"

definition EmptyOccupancy_Occupied :: "tenant_ctx \<Rightarrow> uuid \<Rightarrow> time \<Rightarrow> time \<Rightarrow> blocked_period list" where
  "EmptyOccupancy_Occupied tenant barber start end_at = []"

section \<open>Correctness of the intervals\<close>

lemma digit_range: "is_digit c \<Longrightarrow> 0 \<le> digit_val c \<and> digit_val c \<le> 9"
  by (simp add: is_digit_def digit_val_def)

lemma getnum_range: "getnum fixed s = Some (n, r) \<Longrightarrow> 0 \<le> n \<and> n \<le> 99"
  by (induction fixed s rule: getnum.induct) (auto split: if_splits dest!: digit_range)

lemma parse_clock_range: "parse_clock v = Some (h, m) \<Longrightarrow> 0 \<le> h \<and> h < 24 \<and> 0 \<le> m \<and> m < 60"
  by (auto simp: parse_clock_def split: option.splits list.splits if_splits dest!: getnum_range)

lemma parseWall_range: "parseWall v = - 1 \<or> 0 \<le> parseWall v \<and> parseWall v < 24 * hour_ns"
  by (cases "parse_clock v")
    (auto simp: parseWall_def hour_ns_def minute_ns_def dest: parse_clock_range)

lemma parseWall_ok: "0 \<le> parseWall v \<longleftrightarrow> parse_clock v \<noteq> None"
  by (cases "parse_clock v") (auto simp: parseWall_def hour_ns_def minute_ns_def dest: parse_clock_range)

text \<open>Start and end of an interval, and what the loop over a list of intervals accepts.\<close>

definition iv_s :: "interval \<Rightarrow> duration" where
  "iv_s v = parseWall (iv_Start v)"

definition iv_e :: "interval \<Rightarrow> duration" where
  "iv_e v = parseWall (iv_End v)"

lemma wall_eq: "wall v = (iv_s v, iv_e v, 0 \<le> iv_s v \<and> 0 \<le> iv_e v)"
  by (simp add: wall_def iv_s_def iv_e_def Let_def)

lemma valid_from_iff:
  "valid_from prev ivs \<longleftrightarrow>
     (\<forall>v \<in> set ivs. 0 \<le> iv_s v \<and> iv_s v < iv_e v \<and> prev \<le> iv_s v) \<and>
     sorted_wrt (\<lambda>v w. iv_e v \<le> iv_s w) ivs"
proof (induction ivs arbitrary: prev)
  case (Cons v ivs)
  show ?case
  proof (cases "0 \<le> iv_s v \<and> iv_s v < iv_e v \<and> prev \<le> iv_s v")
    case True
    then have "valid_from prev (v # ivs) = valid_from (iv_e v) ivs" by (simp add: wall_eq)
    with True show ?thesis unfolding Cons.IH by (auto 0 3)
  next
    case False
    then have "\<not> valid_from prev (v # ivs)" by (auto simp: wall_eq)
    with False show ?thesis by auto
  qed
qed simp

text \<open>
  The validator accepts exactly the lists of well-formed, non-empty intervals that follow each
  other without overlap: every bound parses as a time of day, each start is before its end, and each
  interval ends no later than every later one starts.
\<close>

theorem ValidIntervals_iff:
  "ValidIntervals ivs \<longleftrightarrow>
     (\<forall>v \<in> set ivs. parse_clock (iv_Start v) \<noteq> None \<and> parse_clock (iv_End v) \<noteq> None \<and>
        parseWall (iv_Start v) < parseWall (iv_End v)) \<and>
     sorted_wrt (\<lambda>v w. parseWall (iv_End v) \<le> parseWall (iv_Start w)) ivs"
proof -
  have "0 \<le> iv_s v \<and> iv_s v < iv_e v \<and> - 1 \<le> iv_s v \<longleftrightarrow>
      parse_clock (iv_Start v) \<noteq> None \<and> parse_clock (iv_End v) \<noteq> None \<and> iv_s v < iv_e v" for v
    using parseWall_ok [of "iv_Start v"] parseWall_ok [of "iv_End v"] by (auto simp: iv_s_def iv_e_def)
  then show ?thesis unfolding ValidIntervals_def valid_from_iff by (simp add: iv_s_def iv_e_def)
qed

section \<open>Correctness of the slots\<close>

text \<open>The grid points of a window for a positive step \<open>m\<close>: those the loop visits.\<close>

definition grid_size :: "int \<Rightarrow> time \<Rightarrow> time \<Rightarrow> nat" where
  "grid_size m start final = (if start > final then 0 else Suc (nat ((final - start) div m)))"

lemma grid_size_step: "0 < m \<Longrightarrow> start \<le> final \<Longrightarrow> grid_size m start final = Suc (grid_size m (start + m) final)"
proof (cases "start + m \<le> final")
  case True
  assume "0 < m"
  have "(final - start) div m = (final - (start + m) + 1 * m) div m" by simp
  also have "\<dots> = 1 + (final - (start + m)) div m"
    using \<open>0 < m\<close> by (subst div_mult_self1) auto
  finally show ?thesis using True \<open>0 < m\<close>
    by (simp add: grid_size_def nat_add_distrib pos_imp_zdiv_nonneg_iff)
next
  case False
  assume "0 < m" "start \<le> final"
  with False show ?thesis by (simp add: grid_size_def div_pos_pos_trivial)
qed

definition slots_at :: "slot \<Rightarrow> blocked_period list \<Rightarrow> int \<Rightarrow> int \<Rightarrow> int \<Rightarrow> time \<Rightarrow> time list \<Rightarrow> slot list" where
  "slots_at i busy duration before after now starts =
     map (\<lambda>s. \<lparr>sl_StartAt = s, sl_EndAt = s + Minutes duration\<rparr>)
       (filter (offers i busy duration before after now) starts)"

lemma window_slots_total:
  assumes "0 < Minutes step"
  shows "window_slots i busy duration before after step now start out =
    Some (out @ slots_at i busy duration before after now
      (map (\<lambda>k. start + int k * Minutes step)
         [0..<grid_size (Minutes step) start (sl_EndAt i - Minutes (duration + after))]))"
proof (induction "grid_size (Minutes step) start (sl_EndAt i - Minutes (duration + after))"
    arbitrary: start out)
  case 0
  then have "start > sl_EndAt i - Minutes (duration + after)"
    by (simp add: grid_size_def split: if_splits)
  then show ?case by (simp add: window_slots.simps [of i busy] grid_size_def slots_at_def)
next
  case (Suc n)
  let ?final = "sl_EndAt i - Minutes (duration + after)" and ?m = "Minutes step"
  have le: "start \<le> ?final" using Suc.hyps(2) by (simp add: grid_size_def split: if_splits)
  have sz: "grid_size ?m start ?final = Suc (grid_size ?m (start + ?m) ?final)"
    using grid_size_step [OF assms le] .
  then have n: "n = grid_size ?m (start + ?m) ?final" using Suc.hyps(2) by simp
  have "map (\<lambda>k. start + int k * ?m) [0..<grid_size ?m start ?final] =
      start # map (\<lambda>k. start + ?m + int k * ?m) [0..<grid_size ?m (start + ?m) ?final]"
    unfolding sz by (simp add: map_upt_Suc algebra_simps del: upt_Suc)
  moreover have "window_slots i busy duration before after step now start out =
      window_slots i busy duration before after step now (start + ?m)
        (if offers i busy duration before after now start
         then out @ [\<lparr>sl_StartAt = start, sl_EndAt = start + Minutes duration\<rparr>] else out)"
    using le by (simp add: window_slots.simps [of i busy duration before after step now start])
  ultimately show ?case using Suc.hyps(1) [OF n] by (simp add: slots_at_def)
qed

lemma windows_loop_total:
  assumes "0 < Minutes step"
  shows "windows_loop busy duration before after step now ws out =
    Some (out @ concat (map (\<lambda>i. slots_at i busy duration before after now
      (map (\<lambda>k. sl_StartAt i + int k * Minutes step)
         [0..<grid_size (Minutes step) (sl_StartAt i) (sl_EndAt i - Minutes (duration + after))])) ws))"
  by (induction ws arbitrary: out) (simp_all add: window_slots_total [OF assms])

lemma slots_at_mem:
  "s \<in> set (slots_at w busy duration before after now (map f [0..<n])) \<longleftrightarrow>
     (\<exists>k. k < n \<and> s = \<lparr>sl_StartAt = f k, sl_EndAt = f k + Minutes duration\<rparr> \<and>
        offers w busy duration before after now (f k))"
  by (fastforce simp: slots_at_def image_iff)

lemma le_div_iff_int: "0 < (m :: int) \<Longrightarrow> k \<le> a div m \<longleftrightarrow> k * m \<le> a"
proof
  assume "0 < m" "k \<le> a div m"
  then have "k * m \<le> a div m * m" by (simp add: mult_right_mono)
  also have "\<dots> \<le> a" using \<open>0 < m\<close> by (simp add: minus_mod_eq_div_mult [symmetric])
  finally show "k * m \<le> a" .
next
  assume "0 < m" "k * m \<le> a"
  then have "k * m div m \<le> a div m" by (intro zdiv_mono1) auto
  with \<open>0 < m\<close> show "k \<le> a div m" by simp
qed

lemma grid_size_iff: "0 < m \<Longrightarrow> k < grid_size m start final \<longleftrightarrow> start + int k * m \<le> final"
proof (cases "start \<le> final")
  case True
  assume m: "0 < m"
  have "0 \<le> (final - start) div m" using True m by (simp add: pos_imp_zdiv_nonneg_iff)
  then have "k < grid_size m start final \<longleftrightarrow> int k \<le> (final - start) div m"
    using True by (simp add: grid_size_def less_Suc_eq_le le_nat_iff)
  then show ?thesis using le_div_iff_int [OF m] by (simp add: algebra_simps)
next
  case False
  assume "0 < m"
  then have "0 \<le> int k * m" by simp
  with False show ?thesis by (simp add: grid_size_def)
qed

text \<open>
  (C11) Availability is exact. For a positive step the computation ends, and a slot is offered exactly
  when it starts at a grid point of some working window, ends after the service duration, fits in the
  window with its buffers, starts in the future, and its occupied range overlaps no blocked or
  occupied period.
\<close>

theorem available_exact:
  assumes "0 < step" and "step \<le> 150000000"
  shows "\<exists>out. Available ws blocked occupied duration before after step now = Some out \<and>
    (\<forall>s. s \<in> set out \<longleftrightarrow> (\<exists>w \<in> set ws. \<exists>k.
       s = \<lparr>sl_StartAt = sl_StartAt w + int k * Minutes step,
            sl_EndAt = sl_StartAt w + int k * Minutes step + Minutes duration\<rparr> \<and>
       sl_StartAt w \<le> sl_StartAt s + Minutes (- before) \<and>
       sl_StartAt s + Minutes (duration + after) \<le> sl_EndAt w \<and> now < sl_StartAt s \<and>
       (\<forall>x \<in> set blocked \<union> set occupied. sl_StartAt s + Minutes (duration + after) \<le> bp_StartAt x \<or>
          bp_EndAt x \<le> sl_StartAt s + Minutes (- before))))"
proof -
  let ?m = "Minutes step" and ?grid = "\<lambda>w. map (\<lambda>k. sl_StartAt w + int k * Minutes step)
    [0..<grid_size (Minutes step) (sl_StartAt w) (sl_EndAt w - Minutes (duration + after))]"
  have m: "0 < ?m" using assms by (rule Minutes_pos)
  define out where "out = concat (map (\<lambda>w. slots_at w (blocked @ occupied) duration before after now (?grid w)) ws)"
  have "Available ws blocked occupied duration before after step now = Some out"
    by (simp add: Available_def windows_loop_total [OF m] out_def)
  moreover have "s \<in> set out \<longleftrightarrow> (\<exists>w \<in> set ws. \<exists>k.
      k < grid_size ?m (sl_StartAt w) (sl_EndAt w - Minutes (duration + after)) \<and>
      s = \<lparr>sl_StartAt = sl_StartAt w + int k * ?m, sl_EndAt = sl_StartAt w + int k * ?m + Minutes duration\<rparr> \<and>
      offers w (blocked @ occupied) duration before after now (sl_StartAt w + int k * ?m))" for s
    by (simp add: out_def slots_at_mem)
  moreover have "offers w (blocked @ occupied) duration before after now t \<longleftrightarrow>
      sl_StartAt w \<le> t + Minutes (- before) \<and> now < t \<and>
      (\<forall>x \<in> set blocked \<union> set occupied. t + Minutes (duration + after) \<le> bp_StartAt x \<or>
          bp_EndAt x \<le> t + Minutes (- before))" for w t
    by (auto simp: offers_def Let_def list_ex_iff not_less)
  ultimately show ?thesis
    unfolding grid_size_iff [OF m] le_diff_eq by (intro exI [of _ out] conjI) (assumption, fastforce)
qed

end
