(* ===== verification/Sched_Store.thy ===== *)
theory Sched_Store
  imports Sched_Avail Store_Spec
begin

text \<open>
  The store of scheduling-service: the four tables of its migrations with their constraints, and the
  operations of \<^verbatim>\<open>internal/repository/repository.go\<close>.

  A column of type \<^verbatim>\<open>time\<close> is its count of microseconds since midnight. The casts \<open>::time\<close> and
  \<open>::date\<close> of the statements are modelled on the texts the application lets through, those
  \<^verbatim>\<open>time.Parse\<close> accepts; \<^verbatim>\<open>date\<close> has no year zero. Generated identifiers come from the supply of
  \<open>sched_env\<close>, one per inserted row.
\<close>

section \<open>Tables\<close>

record hours_row =
  hr_id :: uuid
  hr_tenant :: uuid
  hr_barber :: uuid
  hr_weekday :: int
  hr_start :: int
  hr_end :: int

record override_row =
  vr_id :: uuid
  vr_tenant :: uuid
  vr_barber :: uuid
  vr_date :: civil
  vr_kind :: string

record oint_row =
  ir_id :: uuid
  ir_tenant :: uuid
  ir_override :: uuid
  ir_barber :: uuid
  ir_date :: civil
  ir_start :: int
  ir_end :: int

record block_row =
  br_id :: uuid
  br_tenant :: uuid
  br_barber :: uuid
  br_start :: time
  br_end :: time

record sched_db =
  sd_hours :: "hours_row list"
  sd_overrides :: "override_row list"
  sd_intervals :: "oint_row list"
  sd_blocks :: "block_row list"

type_synonym id_supply = "nat \<Rightarrow> uuid"

definition empty_sched_db :: sched_db where
  "empty_sched_db = \<lparr>sd_hours = [], sd_overrides = [], sd_intervals = [], sd_blocks = []\<rparr>"

section \<open>Casts and texts\<close>

definition cast_time :: "string \<Rightarrow> repo_error + int" where
  "cast_time v = (if parseWall v < 0 then Inl (PgError ''22007'') else Inr (parseWall v div 1000))"

definition cast_date :: "string \<Rightarrow> repo_error + civil" where
  "cast_date v =
     (case parse_date v of
        None \<Rightarrow> Inl (PgError ''22007'')
      | Some (y, m, d) \<Rightarrow> if y = 0 then Inl (PgError ''22008'') else Inr (y, m, d))"

definition digit :: "int \<Rightarrow> char" where
  "digit n = char_of (nat (48 + n mod 10))"

text \<open>\<^verbatim>\<open>%02d\<close> of a number below one hundred.\<close>

definition pad2 :: "int \<Rightarrow> string" where
  "pad2 n = [digit (n div 10), digit n]"

definition timeText :: "int \<Rightarrow> string" where
  "timeText us = (let minutes = us div 60000000 in pad2 (minutes div 60) @ '':'' @ pad2 (minutes mod 60))"

text \<open>\<^verbatim>\<open>override_date::text\<close>\<close>

definition date_text :: "civil \<Rightarrow> string" where
  "date_text c = (case c of (y, m, d) \<Rightarrow>
     [digit (y div 1000), digit (y div 100), digit (y div 10), digit y] @ ''-'' @ pad2 m @ ''-'' @ pad2 d)"

section \<open>Statements\<close>

definition time_overlap :: "int \<Rightarrow> int \<Rightarrow> int \<Rightarrow> int \<Rightarrow> bool" where
  "time_overlap s e s' e' \<longleftrightarrow> s < e' \<and> s' < e"

definition hours_clash :: "hours_row \<Rightarrow> hours_row \<Rightarrow> bool" where
  "hours_clash r r' \<longleftrightarrow> hr_tenant r = hr_tenant r' \<and> hr_barber r = hr_barber r' \<and>
     hr_weekday r = hr_weekday r' \<and> time_overlap (hr_start r) (hr_end r) (hr_start r') (hr_end r')"

definition sql_delete_hours :: "uuid \<Rightarrow> uuid \<Rightarrow> sched_db \<Rightarrow> sched_db" where
  "sql_delete_hours t b d =
     d\<lparr>sd_hours := filter (\<lambda>r. \<not> (hr_tenant r = t \<and> hr_barber r = b)) (sd_hours d)\<rparr>"

definition sql_insert_hours :: "uuid \<Rightarrow> hours_row \<Rightarrow> sched_db \<Rightarrow> repo_error + sched_db" where
  "sql_insert_hours ctx r d =
     (if hr_tenant r \<noteq> ctx then Inl (PgError ''42501'')
      else if \<not> (0 \<le> hr_weekday r \<and> hr_weekday r \<le> 6) \<or> \<not> hr_start r < hr_end r then Inl (PgError ''23514'')
      else if hr_id r \<in> hr_id ` set (sd_hours d) then Inl (PgError ''23505'')
      else if list_ex (hours_clash r) (sd_hours d) then Inl (PgError ''23P01'')
      else Inr (d\<lparr>sd_hours := sd_hours d @ [r]\<rparr>))"

definition override_kind :: "string \<Rightarrow> bool" where
  "override_kind k \<longleftrightarrow> k = ''unavailable'' \<or> k = ''vacation'' \<or> k = ''custom_hours''"

definition same_day :: "override_row \<Rightarrow> override_row \<Rightarrow> bool" where
  "same_day r r' \<longleftrightarrow> vr_tenant r = vr_tenant r' \<and> vr_barber r = vr_barber r' \<and> vr_date r = vr_date r'"

definition sql_insert_override :: "uuid \<Rightarrow> override_row \<Rightarrow> sched_db \<Rightarrow> repo_error + sched_db" where
  "sql_insert_override ctx r d =
     (if vr_tenant r \<noteq> ctx then Inl (PgError ''42501'')
      else if \<not> override_kind (vr_kind r) then Inl (PgError ''23514'')
      else if vr_id r \<in> vr_id ` set (sd_overrides d) \<or> list_ex (same_day r) (sd_overrides d)
      then Inl (PgError ''23505'')
      else Inr (d\<lparr>sd_overrides := sd_overrides d @ [r]\<rparr>))"

text \<open>
  The referential action of the intervals' foreign key on update is the default, \<^verbatim>\<open>NO ACTION\<close>: the
  statement fails when it changes the key of a row that intervals still refer to.
\<close>

definition refers :: "override_row \<Rightarrow> oint_row \<Rightarrow> bool" where
  "refers r x \<longleftrightarrow> ir_tenant x = vr_tenant r \<and> ir_override x = vr_id r \<and> ir_barber x = vr_barber r \<and>
     ir_date x = vr_date r"

definition sql_update_override ::
  "uuid \<Rightarrow> uuid \<Rightarrow> uuid \<Rightarrow> civil \<Rightarrow> string \<Rightarrow> sched_db \<Rightarrow> repo_error + (override_row \<times> sched_db)" where
  "sql_update_override ctx b i date kind d =
     (case find (\<lambda>r. vr_tenant r = ctx \<and> vr_barber r = b \<and> vr_id r = i) (sd_overrides d) of
        None \<Rightarrow> Inl ErrNoRows
      | Some r \<Rightarrow>
          let r' = r\<lparr>vr_date := date, vr_kind := kind\<rparr> in
          if \<not> override_kind kind then Inl (PgError ''23514'')
          else if list_ex (\<lambda>x. vr_id x \<noteq> i \<and> same_day r' x) (sd_overrides d) then Inl (PgError ''23505'')
          else if date \<noteq> vr_date r \<and> list_ex (refers r) (sd_intervals d) then Inl (PgError ''23503'')
          else Inr (r', d\<lparr>sd_overrides :=
            map (\<lambda>x. if vr_id x = i then r' else x) (sd_overrides d)\<rparr>))"

definition oint_clash :: "oint_row \<Rightarrow> oint_row \<Rightarrow> bool" where
  "oint_clash r r' \<longleftrightarrow> ir_tenant r = ir_tenant r' \<and> ir_barber r = ir_barber r' \<and> ir_date r = ir_date r' \<and>
     time_overlap (ir_start r) (ir_end r) (ir_start r') (ir_end r')"

definition sql_delete_intervals :: "uuid \<Rightarrow> uuid \<Rightarrow> sched_db \<Rightarrow> sched_db" where
  "sql_delete_intervals t o_id d =
     d\<lparr>sd_intervals := filter (\<lambda>x. \<not> (ir_tenant x = t \<and> ir_override x = o_id)) (sd_intervals d)\<rparr>"

definition sql_insert_interval :: "uuid \<Rightarrow> oint_row \<Rightarrow> sched_db \<Rightarrow> repo_error + sched_db" where
  "sql_insert_interval ctx x d =
     (if ir_tenant x \<noteq> ctx then Inl (PgError ''42501'')
      else if \<not> ir_start x < ir_end x then Inl (PgError ''23514'')
      else if ir_id x \<in> ir_id ` set (sd_intervals d) then Inl (PgError ''23505'')
      else if list_ex (oint_clash x) (sd_intervals d) then Inl (PgError ''23P01'')
      else if \<not> list_ex (\<lambda>r. refers r x) (sd_overrides d) then Inl (PgError ''23503'')
      else Inr (d\<lparr>sd_intervals := sd_intervals d @ [x]\<rparr>))"

definition sql_insert_block :: "uuid \<Rightarrow> block_row \<Rightarrow> sched_db \<Rightarrow> repo_error + sched_db" where
  "sql_insert_block ctx x d =
     (if br_tenant x \<noteq> ctx then Inl (PgError ''42501'')
      else if \<not> br_start x < br_end x then Inl (PgError ''23514'')
      else if br_id x \<in> br_id ` set (sd_blocks d) then Inl (PgError ''23505'')
      else Inr (d\<lparr>sd_blocks := sd_blocks d @ [x]\<rparr>))"

section \<open>Repository operations\<close>

text \<open>The two nested loops of \<^verbatim>\<open>ReplaceHours\<close> over weekdays and intervals, flattened.\<close>

definition hours_items :: "working_hours \<Rightarrow> (int \<times> interval) list" where
  "hours_items inp = concat (map (\<lambda>d. map (\<lambda>v. (dh_Weekday d, v)) (dh_Intervals d)) inp)"

fun insert_hours ::
  "id_supply \<Rightarrow> nat \<Rightarrow> uuid \<Rightarrow> uuid \<Rightarrow> uuid \<Rightarrow> (int \<times> interval) list \<Rightarrow> sched_db \<Rightarrow> repo_error + sched_db" where
  "insert_hours ids n ctx t b [] d = Inr d"
| "insert_hours ids n ctx t b ((wd, v) # rest) d =
     (case cast_time (iv_Start v) of
        Inl e \<Rightarrow> Inl e
      | Inr s \<Rightarrow>
      (case cast_time (iv_End v) of
        Inl e \<Rightarrow> Inl e
      | Inr en \<Rightarrow>
      (case sql_insert_hours ctx \<lparr>hr_id = ids n, hr_tenant = t, hr_barber = b, hr_weekday = wd,
              hr_start = s, hr_end = en\<rparr> d of
        Inl e \<Rightarrow> Inl e
      | Inr d' \<Rightarrow> insert_hours ids (n + 1) ctx t b rest d')))"

definition repo_ReplaceHours ::
  "tx_fault \<Rightarrow> id_supply \<Rightarrow> uuid \<Rightarrow> uuid \<Rightarrow> working_hours \<Rightarrow> sched_db \<Rightarrow> (repo_error + unit) \<times> sched_db" where
  "repo_ReplaceHours f ids t b inp = WithTenantTx f t (\<lambda>ctx d.
     case insert_hours ids 0 ctx t b (hours_items inp) (sql_delete_hours t b d) of
       Inl e \<Rightarrow> Inl e
     | Inr d' \<Rightarrow> Inr ((), d'))"

fun add_hours :: "int \<Rightarrow> interval \<Rightarrow> working_hours \<Rightarrow> working_hours" where
  "add_hours wd v [] = [\<lparr>dh_Weekday = wd, dh_Intervals = [v]\<rparr>]"
| "add_hours wd v (x # xs) =
     (if dh_Weekday x = wd then x\<lparr>dh_Intervals := dh_Intervals x @ [v]\<rparr> # xs else x # add_hours wd v xs)"

definition list_working_hours :: "uuid \<Rightarrow> uuid \<Rightarrow> sched_db \<Rightarrow> hours_row list" where
  "list_working_hours t b d =
     sort_key hr_weekday (sort_key hr_start (filter (\<lambda>r. hr_tenant r = t \<and> hr_barber r = b) (sd_hours d)))"

definition hours_interval :: "hours_row \<Rightarrow> interval" where
  "hours_interval r = \<lparr>iv_Start = timeText (hr_start r), iv_End = timeText (hr_end r)\<rparr>"

definition repo_Hours :: "tx_fault \<Rightarrow> uuid \<Rightarrow> uuid \<Rightarrow> sched_db \<Rightarrow> (repo_error + working_hours) \<times> sched_db" where
  "repo_Hours f t b = WithTenantTx f t (\<lambda>ctx d.
     Inr (fold (\<lambda>r out. add_hours (hr_weekday r) (hours_interval r) out) (list_working_hours t b d) [], d))"

definition override_intervals :: "uuid \<Rightarrow> uuid \<Rightarrow> sched_db \<Rightarrow> interval list" where
  "override_intervals t o_id d =
     map (\<lambda>x. \<lparr>iv_Start = timeText (ir_start x), iv_End = timeText (ir_end x)\<rparr>)
       (sort_key ir_start (filter (\<lambda>x. ir_tenant x = t \<and> ir_override x = o_id) (sd_intervals d)))"

definition to_override :: "uuid \<Rightarrow> sched_db \<Rightarrow> override_row \<Rightarrow> override" where
  "to_override t d r = \<lparr>ov_ID = vr_id r, ov_Date = date_text (vr_date r), ov_Kind = vr_kind r,
     ov_Intervals = override_intervals t (vr_id r) d\<rparr>"

definition repo_Overrides :: "tx_fault \<Rightarrow> uuid \<Rightarrow> uuid \<Rightarrow> sched_db \<Rightarrow> (repo_error + override list) \<times> sched_db" where
  "repo_Overrides f t b = WithTenantTx f t (\<lambda>ctx d.
     Inr (map (to_override t d) (sort_key (\<lambda>r. days_from_civil (vr_date r))
            (filter (\<lambda>r. vr_tenant r = t \<and> vr_barber r = b) (sd_overrides d))), d))"

fun insert_intervals ::
  "id_supply \<Rightarrow> nat \<Rightarrow> uuid \<Rightarrow> uuid \<Rightarrow> uuid \<Rightarrow> uuid \<Rightarrow> civil \<Rightarrow> interval list \<Rightarrow> sched_db \<Rightarrow>
     repo_error + sched_db" where
  "insert_intervals ids n ctx t o_id b date [] d = Inr d"
| "insert_intervals ids n ctx t o_id b date (v # rest) d =
     (case cast_time (iv_Start v) of
        Inl e \<Rightarrow> Inl e
      | Inr s \<Rightarrow>
      (case cast_time (iv_End v) of
        Inl e \<Rightarrow> Inl e
      | Inr en \<Rightarrow>
      (case sql_insert_interval ctx \<lparr>ir_id = ids n, ir_tenant = t, ir_override = o_id, ir_barber = b,
              ir_date = date, ir_start = s, ir_end = en\<rparr> d of
        Inl e \<Rightarrow> Inl e
      | Inr d' \<Rightarrow> insert_intervals ids (n + 1) ctx t o_id b date rest d')))"

definition upsert_override ::
  "uuid \<Rightarrow> uuid \<Rightarrow> uuid \<Rightarrow> uuid \<Rightarrow> uuid \<Rightarrow> civil \<Rightarrow> string \<Rightarrow> sched_db \<Rightarrow>
     repo_error + (override_row \<times> sched_db)" where
  "upsert_override new_id ctx t b i date kind d =
     (if i \<noteq> uuid_nil then sql_update_override ctx b i date kind d
      else let r = \<lparr>vr_id = new_id, vr_tenant = t, vr_barber = b, vr_date = date, vr_kind = kind\<rparr>
           in case sql_insert_override ctx r d of Inl e \<Rightarrow> Inl e | Inr d' \<Rightarrow> Inr (r, d'))"

definition repo_SaveOverride ::
  "tx_fault \<Rightarrow> id_supply \<Rightarrow> uuid \<Rightarrow> uuid \<Rightarrow> uuid \<Rightarrow> override_input \<Rightarrow> sched_db \<Rightarrow>
     (repo_error + override) \<times> sched_db" where
  "repo_SaveOverride f ids t b i inp = WithTenantTx f t (\<lambda>ctx d.
     case cast_date (oi_Date inp) of
       Inl e \<Rightarrow> Inl e
     | Inr date \<Rightarrow>
     (case upsert_override (ids 0) ctx t b i date (oi_Kind inp) d of
        Inl e \<Rightarrow> if e = ErrNoRows then Inl RepoNotFound else Inl e
      | Inr (r, d1) \<Rightarrow>
        (case insert_intervals ids 1 ctx t (vr_id r) b date (oi_Intervals inp)
                (sql_delete_intervals t (vr_id r) d1) of
           Inl e \<Rightarrow> Inl e
         | Inr d2 \<Rightarrow> Inr (\<lparr>ov_ID = vr_id r, ov_Date = date_text (vr_date r), ov_Kind = vr_kind r,
                       ov_Intervals = oi_Intervals inp\<rparr>, d2))))"

text \<open>Deleting an override deletes its intervals, \<^verbatim>\<open>ON DELETE CASCADE\<close>.\<close>

definition override_gone :: "uuid \<Rightarrow> uuid \<Rightarrow> uuid \<Rightarrow> override_row \<Rightarrow> bool" where
  "override_gone t b i r \<longleftrightarrow> vr_tenant r = t \<and> vr_barber r = b \<and> vr_id r = i"

definition sql_delete_override :: "uuid \<Rightarrow> uuid \<Rightarrow> uuid \<Rightarrow> sched_db \<Rightarrow> sched_db" where
  "sql_delete_override t b i d =
     d\<lparr>sd_overrides := filter (\<lambda>r. \<not> override_gone t b i r) (sd_overrides d),
       sd_intervals := filter (\<lambda>x. \<not> list_ex (\<lambda>r. override_gone t b i r \<and> refers r x) (sd_overrides d))
         (sd_intervals d)\<rparr>"

definition repo_DeleteOverride ::
  "tx_fault \<Rightarrow> uuid \<Rightarrow> uuid \<Rightarrow> uuid \<Rightarrow> sched_db \<Rightarrow> (repo_error + unit) \<times> sched_db" where
  "repo_DeleteOverride f t b i = WithTenantTx f t (\<lambda>ctx d.
     if \<not> list_ex (override_gone t b i) (sd_overrides d) then Inl RepoNotFound
     else Inr ((), sql_delete_override t b i d))"

definition to_blocked :: "block_row \<Rightarrow> blocked_period" where
  "to_blocked x = \<lparr>bp_ID = br_id x, bp_StartAt = br_start x, bp_EndAt = br_end x\<rparr>"

definition repo_Blocks :: "tx_fault \<Rightarrow> uuid \<Rightarrow> uuid \<Rightarrow> sched_db \<Rightarrow> (repo_error + blocked_period list) \<times> sched_db" where
  "repo_Blocks f t b = WithTenantTx f t (\<lambda>ctx d.
     Inr (map to_blocked (sort_key br_start
            (filter (\<lambda>x. br_tenant x = t \<and> br_barber x = b) (sd_blocks d))), d))"

definition repo_SaveBlock ::
  "tx_fault \<Rightarrow> id_supply \<Rightarrow> uuid \<Rightarrow> uuid \<Rightarrow> blocked_input \<Rightarrow> sched_db \<Rightarrow>
     (repo_error + blocked_period) \<times> sched_db" where
  "repo_SaveBlock f ids t b inp = WithTenantTx f t (\<lambda>ctx d.
     let x = \<lparr>br_id = ids 0, br_tenant = t, br_barber = b, br_start = bi_StartAt inp, br_end = bi_EndAt inp\<rparr>
     in case sql_insert_block ctx x d of Inl e \<Rightarrow> Inl e | Inr d' \<Rightarrow> Inr (to_blocked x, d'))"

definition repo_DeleteBlock ::
  "tx_fault \<Rightarrow> uuid \<Rightarrow> uuid \<Rightarrow> uuid \<Rightarrow> sched_db \<Rightarrow> (repo_error + unit) \<times> sched_db" where
  "repo_DeleteBlock f t b i = WithTenantTx f t (\<lambda>ctx d.
     let gone = (\<lambda>x. br_tenant x = t \<and> br_barber x = b \<and> br_id x = i) in
     if \<not> list_ex gone (sd_blocks d) then Inl RepoNotFound
     else Inr ((), d\<lparr>sd_blocks := filter (\<lambda>x. \<not> gone x) (sd_blocks d)\<rparr>))"

definition no_override :: override where
  "no_override = \<lparr>ov_ID = uuid_nil, ov_Date = [], ov_Kind = [], ov_Intervals = []\<rparr>"

definition repo_Day ::
  "tx_fault \<Rightarrow> zone \<Rightarrow> uuid \<Rightarrow> uuid \<Rightarrow> time \<Rightarrow> sched_db \<Rightarrow>
     (repo_error + (override \<times> blocked_period list)) \<times> sched_db" where
  "repo_Day f z t b date = WithTenantTx f t (\<lambda>ctx d.
     let ov = (case find (\<lambda>r. vr_tenant r = t \<and> vr_barber r = b \<and> vr_date r = zn_civil z date) (sd_overrides d) of
                 None \<Rightarrow> no_override
               | Some r \<Rightarrow> to_override t d r);
         blocks = map to_blocked (filter (\<lambda>x. br_tenant x = t \<and> br_barber x = b \<and>
           br_start x < zn_AddDay z date \<and> date < br_end x) (sd_blocks d))
     in Inr ((ov, blocks), d))"

end
