(* ===== verification/Sched_Inv.thy ===== *)
theory Sched_Inv
  imports Sched_Store
begin

text \<open>
  The invariant of the scheduling tables, its preservation by every operation, the store as an
  instance of \<open>tenant_store\<close>, and the round trip of working hours through the database.
\<close>

section \<open>The invariant\<close>

definition hours_wf :: "sched_db \<Rightarrow> bool" where
  "hours_wf d \<longleftrightarrow> distinct (map hr_id (sd_hours d)) \<and>
     (\<forall>r \<in> set (sd_hours d). 0 \<le> hr_weekday r \<and> hr_weekday r \<le> 6 \<and> hr_start r < hr_end r) \<and>
     (\<forall>r \<in> set (sd_hours d). \<forall>r' \<in> set (sd_hours d). hr_id r \<noteq> hr_id r' \<longrightarrow> \<not> hours_clash r r')"

definition overrides_wf :: "sched_db \<Rightarrow> bool" where
  "overrides_wf d \<longleftrightarrow> distinct (map vr_id (sd_overrides d)) \<and>
     (\<forall>r \<in> set (sd_overrides d). override_kind (vr_kind r)) \<and>
     (\<forall>r \<in> set (sd_overrides d). \<forall>r' \<in> set (sd_overrides d). vr_id r \<noteq> vr_id r' \<longrightarrow> \<not> same_day r r')"

definition intervals_wf :: "sched_db \<Rightarrow> bool" where
  "intervals_wf d \<longleftrightarrow> distinct (map ir_id (sd_intervals d)) \<and>
     (\<forall>x \<in> set (sd_intervals d). ir_start x < ir_end x \<and> (\<exists>r \<in> set (sd_overrides d). refers r x)) \<and>
     (\<forall>x \<in> set (sd_intervals d). \<forall>x' \<in> set (sd_intervals d). ir_id x \<noteq> ir_id x' \<longrightarrow> \<not> oint_clash x x')"

definition blocks_wf :: "sched_db \<Rightarrow> bool" where
  "blocks_wf d \<longleftrightarrow> distinct (map br_id (sd_blocks d)) \<and> (\<forall>x \<in> set (sd_blocks d). br_start x < br_end x)"

definition sched_inv :: "sched_db \<Rightarrow> bool" where
  "sched_inv d \<longleftrightarrow> hours_wf d \<and> overrides_wf d \<and> intervals_wf d \<and> blocks_wf d"

lemma sched_inv_empty: "sched_inv empty_sched_db"
  by (simp add: sched_inv_def hours_wf_def overrides_wf_def intervals_wf_def blocks_wf_def empty_sched_db_def)

lemma clash_sym: "hours_clash r r' = hours_clash r' r" "oint_clash x x' = oint_clash x' x"
  "same_day v v' = same_day v' v"
  by (auto simp: hours_clash_def oint_clash_def time_overlap_def same_day_def)

lemma filter_distinct: "distinct (map f xs) \<Longrightarrow> distinct (map f (filter P xs))"
  by (induction xs) auto

section \<open>Statements keep the invariant\<close>

lemma sql_delete_hours_inv: "sched_inv d \<Longrightarrow> sched_inv (sql_delete_hours t b d)"
  by (auto simp: sched_inv_def hours_wf_def overrides_wf_def intervals_wf_def blocks_wf_def
      sql_delete_hours_def filter_distinct)

lemma sql_insert_hoursD:
  assumes "sql_insert_hours ctx r d = Inr d'"
  shows "d' = d\<lparr>sd_hours := sd_hours d @ [r]\<rparr> \<and> hr_tenant r = ctx \<and> hr_id r \<notin> hr_id ` set (sd_hours d) \<and>
    0 \<le> hr_weekday r \<and> hr_weekday r \<le> 6 \<and> hr_start r < hr_end r \<and>
    (\<forall>r' \<in> set (sd_hours d). \<not> hours_clash r r')"
  using assms by (auto simp: sql_insert_hours_def list_ex_iff split: if_splits)

lemma sql_insert_hours_inv: "sched_inv d \<Longrightarrow> sql_insert_hours ctx r d = Inr d' \<Longrightarrow> sched_inv d'"
  using clash_sym(1)
  by (auto simp: sched_inv_def hours_wf_def overrides_wf_def intervals_wf_def blocks_wf_def
      dest!: sql_insert_hoursD)

lemma insert_hours_ConsD:
  "insert_hours ids n ctx t b ((wd, v) # rest) d = Inr d' \<Longrightarrow>
     \<exists>s e d1. cast_time (iv_Start v) = Inr s \<and> cast_time (iv_End v) = Inr e \<and>
       sql_insert_hours ctx \<lparr>hr_id = ids n, hr_tenant = t, hr_barber = b, hr_weekday = wd,
         hr_start = s, hr_end = e\<rparr> d = Inr d1 \<and> insert_hours ids (n + 1) ctx t b rest d1 = Inr d'"
  by (auto split: sum.splits)

lemma insert_hours_inv: "sched_inv d \<Longrightarrow> insert_hours ids n ctx t b xs d = Inr d' \<Longrightarrow> sched_inv d'"
proof (induction xs arbitrary: n d)
  case (Cons x xs)
  obtain wd v where "x = (wd, v)" by fastforce
  with Cons.prems(2) obtain r d1 where "sql_insert_hours ctx r d = Inr d1"
    "insert_hours ids (n + 1) ctx t b xs d1 = Inr d'"
    using insert_hours_ConsD by blast
  with Cons.IH Cons.prems(1) show ?case by (blast intro: sql_insert_hours_inv)
qed simp

lemma repo_ReplaceHours_inv [inv_intros]: "sched_inv d \<Longrightarrow> sched_inv (snd (repo_ReplaceHours f ids t b inp d))"
  unfolding repo_ReplaceHours_def
  by (rule WithTenantTx_inv) (auto split: sum.splits intro: insert_hours_inv sql_delete_hours_inv)

lemma sql_insert_override_inv: "sched_inv d \<Longrightarrow> sql_insert_override ctx r d = Inr d' \<Longrightarrow> sched_inv d'"
  using clash_sym(3)
  by (auto simp: sched_inv_def hours_wf_def overrides_wf_def intervals_wf_def blocks_wf_def
      sql_insert_override_def list_ex_iff split: if_splits)

lemma sql_update_overrideD:
  assumes "sql_update_override ctx b i date kind d = Inr (r', d')"
  obtains r where "r \<in> set (sd_overrides d)" "vr_tenant r = ctx" "vr_barber r = b" "vr_id r = i"
    "r' = r\<lparr>vr_date := date, vr_kind := kind\<rparr>" "override_kind kind"
    "\<forall>x \<in> set (sd_overrides d). vr_id x \<noteq> i \<longrightarrow> \<not> same_day r' x"
    "date = vr_date r \<or> (\<forall>x \<in> set (sd_intervals d). \<not> refers r x)"
    "d' = d\<lparr>sd_overrides := map (\<lambda>x. if vr_id x = i then r' else x) (sd_overrides d)\<rparr>"
  using assms
  by (auto simp: sql_update_override_def Let_def list_ex_iff split: option.splits if_splits dest!: find_SomeD)

lemma sql_update_override_inv:
  assumes inv: "sched_inv d" and upd: "sql_update_override ctx b i date kind d = Inr (r', d')"
  shows "sched_inv d'"
  using upd
proof (rule sql_update_overrideD)
  fix r
  assume r: "r \<in> set (sd_overrides d)" "vr_tenant r = ctx" "vr_barber r = b" "vr_id r = i"
    "r' = r\<lparr>vr_date := date, vr_kind := kind\<rparr>" "override_kind kind"
    and excl: "\<forall>x \<in> set (sd_overrides d). vr_id x \<noteq> i \<longrightarrow> \<not> same_day r' x"
    and fk: "date = vr_date r \<or> (\<forall>x \<in> set (sd_intervals d). \<not> refers r x)"
    and d': "d' = d\<lparr>sd_overrides := map (\<lambda>x. if vr_id x = i then r' else x) (sd_overrides d)\<rparr>"
  have rid: "vr_id r' = i" using r by simp
  have uniq: "x = r" if "x \<in> set (sd_overrides d)" "vr_id x = i" for x
    using that r inj_key [of vr_id "sd_overrides d" x r] inv by (simp add: sched_inv_def overrides_wf_def)
  have "map vr_id (sd_overrides d') = map vr_id (sd_overrides d)" using rid by (simp add: d')
  moreover have mem: "y \<in> set (sd_overrides d') \<longleftrightarrow> y = r' \<or> (y \<in> set (sd_overrides d) \<and> vr_id y \<noteq> i)" for y
    using r(1,4) by (auto simp: d')
  ultimately have "overrides_wf d'"
    using inv excl r clash_sym(3) rid unfolding sched_inv_def overrides_wf_def
    by (auto simp del: set_map)
  moreover have "intervals_wf d'"
  proof -
    have "\<exists>y \<in> set (sd_overrides d'). refers y x" if x: "x \<in> set (sd_intervals d)" for x
    proof -
      from inv x obtain y where y: "y \<in> set (sd_overrides d)" "refers y x"
        by (auto simp: sched_inv_def intervals_wf_def)
      show ?thesis
      proof (cases "vr_id y = i")
        case True
        then have "refers r' x" using uniq [OF y(1)] y(2) fk x r(5) by (auto simp: refers_def)
        then show ?thesis using mem by blast
      next
        case False
        then show ?thesis using y mem by blast
      qed
    qed
    then show ?thesis using inv by (auto simp: sched_inv_def intervals_wf_def d')
  qed
  ultimately show ?thesis using inv by (simp add: sched_inv_def hours_wf_def blocks_wf_def d')
qed

lemma sql_delete_intervals_inv: "sched_inv d \<Longrightarrow> sched_inv (sql_delete_intervals t i d)"
  by (auto simp: sched_inv_def hours_wf_def overrides_wf_def intervals_wf_def blocks_wf_def
      sql_delete_intervals_def filter_distinct)

lemma sql_insert_interval_inv: "sched_inv d \<Longrightarrow> sql_insert_interval ctx x d = Inr d' \<Longrightarrow> sched_inv d'"
  using clash_sym(2)
  by (auto simp: sched_inv_def hours_wf_def overrides_wf_def intervals_wf_def blocks_wf_def
      sql_insert_interval_def list_ex_iff split: if_splits)

lemma insert_intervals_ConsD:
  "insert_intervals ids n ctx t o_id b date (v # rest) d = Inr d' \<Longrightarrow>
     \<exists>s e d1. cast_time (iv_Start v) = Inr s \<and> cast_time (iv_End v) = Inr e \<and>
       sql_insert_interval ctx \<lparr>ir_id = ids n, ir_tenant = t, ir_override = o_id, ir_barber = b,
         ir_date = date, ir_start = s, ir_end = e\<rparr> d = Inr d1 \<and>
       insert_intervals ids (n + 1) ctx t o_id b date rest d1 = Inr d'"
  by (auto split: sum.splits)

lemma insert_intervals_inv:
  "sched_inv d \<Longrightarrow> insert_intervals ids n ctx t o_id b date xs d = Inr d' \<Longrightarrow> sched_inv d'"
proof (induction xs arbitrary: n d)
  case (Cons v xs)
  from Cons.prems(2) obtain x d1 where "sql_insert_interval ctx x d = Inr d1"
    "insert_intervals ids (n + 1) ctx t o_id b date xs d1 = Inr d'"
    using insert_intervals_ConsD by blast
  with Cons.IH Cons.prems(1) show ?case by (blast intro: sql_insert_interval_inv)
qed simp

lemma upsert_override_inv:
  "sched_inv d \<Longrightarrow> upsert_override new_id ctx t b i date kind d = Inr (r, d') \<Longrightarrow> sched_inv d'"
  by (auto simp: upsert_override_def Let_def split: if_splits sum.splits
      intro: sql_insert_override_inv sql_update_override_inv)

lemma SaveOverride_body:
  assumes "(case cast_date (oi_Date inp) of
       Inl e \<Rightarrow> Inl e
     | Inr date \<Rightarrow>
     (case upsert_override (ids 0) ctx t b i date (oi_Kind inp) d of
        Inl e \<Rightarrow> if e = ErrNoRows then Inl RepoNotFound else Inl e
      | Inr (r, d1) \<Rightarrow>
        (case insert_intervals ids 1 ctx t (vr_id r) b date (oi_Intervals inp)
                (sql_delete_intervals t (vr_id r) d1) of
           Inl e \<Rightarrow> Inl e
         | Inr d2 \<Rightarrow> Inr (\<lparr>ov_ID = vr_id r, ov_Date = date_text (vr_date r), ov_Kind = vr_kind r,
                       ov_Intervals = oi_Intervals inp\<rparr>, d2)))) = Inr (v, d')"
  obtains date r d1 where "cast_date (oi_Date inp) = Inr date"
    "upsert_override (ids 0) ctx t b i date (oi_Kind inp) d = Inr (r, d1)"
    "insert_intervals ids 1 ctx t (vr_id r) b date (oi_Intervals inp)
       (sql_delete_intervals t (vr_id r) d1) = Inr d'"
    "v = \<lparr>ov_ID = vr_id r, ov_Date = date_text (vr_date r), ov_Kind = vr_kind r, ov_Intervals = oi_Intervals inp\<rparr>"
  using assms by (auto split: sum.splits if_splits)

lemma repo_SaveOverride_inv [inv_intros]: "sched_inv d \<Longrightarrow> sched_inv (snd (repo_SaveOverride f ids t b i inp d))"
  unfolding repo_SaveOverride_def
proof (rule WithTenantTx_inv, erule SaveOverride_body)
  fix date r d1 d'
  assume "sched_inv d" and "upsert_override (ids 0) t t b i date (oi_Kind inp) d = Inr (r, d1)"
    and ins: "insert_intervals ids 1 t t (vr_id r) b date (oi_Intervals inp)
       (sql_delete_intervals t (vr_id r) d1) = Inr d'"
  then have "sched_inv (sql_delete_intervals t (vr_id r) d1)"
    by (blast intro: upsert_override_inv sql_delete_intervals_inv)
  then show "sched_inv d'" using ins by (rule insert_intervals_inv)
qed

lemma sql_delete_override_inv:
  assumes "sched_inv d"
  shows "sched_inv (sql_delete_override t b i d)"
proof -
  have "\<exists>r \<in> set (filter (\<lambda>r. \<not> override_gone t b i r) (sd_overrides d)). refers r x"
    if x: "x \<in> set (sd_intervals d)" "\<not> list_ex (\<lambda>r. override_gone t b i r \<and> refers r x) (sd_overrides d)" for x
  proof -
    obtain r where "r \<in> set (sd_overrides d)" "refers r x"
      using assms x(1) by (auto simp: sched_inv_def intervals_wf_def)
    with x(2) show ?thesis by (auto simp: list_ex_iff)
  qed
  with assms show ?thesis
    unfolding sched_inv_def hours_wf_def overrides_wf_def intervals_wf_def blocks_wf_def sql_delete_override_def
    by (simp add: filter_distinct)
qed

lemma repo_DeleteOverride_inv [inv_intros]: "sched_inv d \<Longrightarrow> sched_inv (snd (repo_DeleteOverride f t b i d))"
  unfolding repo_DeleteOverride_def
  by (rule WithTenantTx_inv) (auto split: if_splits intro: sql_delete_override_inv)

lemma repo_SaveBlock_inv [inv_intros]: "sched_inv d \<Longrightarrow> sched_inv (snd (repo_SaveBlock f ids t b inp d))"
  unfolding repo_SaveBlock_def
  by (rule WithTenantTx_inv)
    (auto simp: Let_def sched_inv_def hours_wf_def overrides_wf_def intervals_wf_def blocks_wf_def
      sql_insert_block_def split: sum.splits if_splits)

lemma repo_DeleteBlock_inv [inv_intros]: "sched_inv d \<Longrightarrow> sched_inv (snd (repo_DeleteBlock f t b i d))"
  unfolding repo_DeleteBlock_def
  by (rule WithTenantTx_inv)
    (auto simp: Let_def sched_inv_def hours_wf_def overrides_wf_def intervals_wf_def blocks_wf_def
      filter_distinct split: if_splits)

section \<open>The store as a tenant store\<close>

datatype sched_op =
    SopReplaceHours tx_fault id_supply uuid uuid working_hours
  | SopSaveOverride tx_fault id_supply uuid uuid uuid override_input
  | SopDeleteOverride tx_fault uuid uuid uuid
  | SopSaveBlock tx_fault id_supply uuid uuid blocked_input
  | SopDeleteBlock tx_fault uuid uuid uuid

fun exec_sched :: "sched_op \<Rightarrow> sched_db \<Rightarrow> sched_db" where
  "exec_sched (SopReplaceHours f ids t b inp) d = snd (repo_ReplaceHours f ids t b inp d)"
| "exec_sched (SopSaveOverride f ids t b i inp) d = snd (repo_SaveOverride f ids t b i inp d)"
| "exec_sched (SopDeleteOverride f t b i) d = snd (repo_DeleteOverride f t b i d)"
| "exec_sched (SopSaveBlock f ids t b inp) d = snd (repo_SaveBlock f ids t b inp d)"
| "exec_sched (SopDeleteBlock f t b i) d = snd (repo_DeleteBlock f t b i d)"

fun sched_op_tenant :: "sched_op \<Rightarrow> uuid option" where
  "sched_op_tenant (SopReplaceHours f ids t b inp) = Some t"
| "sched_op_tenant (SopSaveOverride f ids t b i inp) = Some t"
| "sched_op_tenant (SopDeleteOverride f t b i) = Some t"
| "sched_op_tenant (SopSaveBlock f ids t b inp) = Some t"
| "sched_op_tenant (SopDeleteBlock f t b i) = Some t"

definition sched_view ::
  "uuid \<Rightarrow> sched_db \<Rightarrow> hours_row list \<times> override_row list \<times> oint_row list \<times> block_row list" where
  "sched_view t d = (filter (\<lambda>r. hr_tenant r = t) (sd_hours d), filter (\<lambda>r. vr_tenant r = t) (sd_overrides d),
     filter (\<lambda>x. ir_tenant x = t) (sd_intervals d), filter (\<lambda>x. br_tenant x = t) (sd_blocks d))"

lemma exec_sched_inv: "sched_inv d \<Longrightarrow> sched_inv (exec_sched x d)"
  by (cases x) (simp_all add: inv_intros)

lemma insert_hours_view:
  "insert_hours ids n ctx t b xs d = Inr d' \<Longrightarrow> t' \<noteq> t \<Longrightarrow> sched_view t' d' = sched_view t' d"
proof (induction xs arbitrary: n d)
  case (Cons x xs)
  obtain wd v where "x = (wd, v)" by fastforce
  with Cons.prems(1) obtain s e d1 where ins: "sql_insert_hours ctx \<lparr>hr_id = ids n, hr_tenant = t,
      hr_barber = b, hr_weekday = wd, hr_start = s, hr_end = e\<rparr> d = Inr d1"
    "insert_hours ids (n + 1) ctx t b xs d1 = Inr d'"
    using insert_hours_ConsD by blast
  then have "sched_view t' d' = sched_view t' d1" using Cons by blast
  also have "\<dots> = sched_view t' d" using sql_insert_hoursD [OF ins(1)] Cons.prems(2) by (simp add: sched_view_def)
  finally show ?case .
qed simp

lemma insert_intervals_view:
  "insert_intervals ids n ctx t o_id b date xs d = Inr d' \<Longrightarrow> t' \<noteq> t \<Longrightarrow> sched_view t' d' = sched_view t' d"
proof (induction xs arbitrary: n d)
  case (Cons v xs)
  from Cons.prems(1) obtain s e d1 where ins: "sql_insert_interval ctx \<lparr>ir_id = ids n, ir_tenant = t,
      ir_override = o_id, ir_barber = b, ir_date = date, ir_start = s, ir_end = e\<rparr> d = Inr d1"
    "insert_intervals ids (n + 1) ctx t o_id b date xs d1 = Inr d'"
    using insert_intervals_ConsD by blast
  then have "sched_view t' d' = sched_view t' d1" using Cons by blast
  also have "\<dots> = sched_view t' d" using ins(1) Cons.prems(2)
    by (auto simp: sched_view_def sql_insert_interval_def split: if_splits)
  finally show ?case .
qed simp

lemma filter_keep: "(\<And>x. x \<in> set xs \<Longrightarrow> P x \<Longrightarrow> Q x) \<Longrightarrow> filter (\<lambda>x. Q x \<and> P x) xs = filter P xs"
  by (rule filter_cong) auto

lemma deletes_view:
  "t' \<noteq> t \<Longrightarrow> sched_view t' (sql_delete_hours t b d) = sched_view t' d"
  "t' \<noteq> t \<Longrightarrow> sched_view t' (sql_delete_intervals t i d) = sched_view t' d"
  "t' \<noteq> t \<Longrightarrow> sched_view t' (sql_delete_override t b i d) = sched_view t' d"
  unfolding sched_view_def sql_delete_hours_def sql_delete_intervals_def sql_delete_override_def
  by (auto simp: list_ex_iff refers_def override_gone_def intro!: filter_cong [OF refl])

lemma upsert_override_view:
  assumes "sched_inv d" and "upsert_override new_id t t b i date kind d = Inr (r, d')" and "t' \<noteq> t"
  shows "sched_view t' d' = sched_view t' d"
proof (cases "i = uuid_nil")
  case True
  with assms show ?thesis
    by (auto simp: upsert_override_def Let_def sql_insert_override_def sched_view_def split: sum.splits if_splits)
next
  case False
  with assms(2) have "sql_update_override t b i date kind d = Inr (r, d')" by (simp add: upsert_override_def)
  then show ?thesis
  proof (rule sql_update_overrideD)
    fix x
    assume x: "x \<in> set (sd_overrides d)" "vr_tenant x = t" "vr_id x = i"
      and r: "r = x\<lparr>vr_date := date, vr_kind := kind\<rparr>"
      and d': "d' = d\<lparr>sd_overrides := map (\<lambda>x. if vr_id x = i then r else x) (sd_overrides d)\<rparr>"
    have "y = x" if "y \<in> set (sd_overrides d)" "vr_id y = i" for y
      using that x inj_key [of vr_id "sd_overrides d" y x] assms(1) by (simp add: sched_inv_def overrides_wf_def)
    then have own: "vr_tenant y \<noteq> t'" if "y \<in> set (sd_overrides d)" "vr_id y = i" for y
      using that x(2) assms(3) by blast
    have new: "vr_tenant r \<noteq> t'" using x(2) assms(3) by (simp add: r)
    have "filter (\<lambda>r. vr_tenant r = t') (map (\<lambda>x. if vr_id x = i then r else x) ys) =
        filter (\<lambda>r. vr_tenant r = t') ys" if "set ys \<subseteq> set (sd_overrides d)" for ys
      using that by (induction ys) (auto simp: new own)
    then show ?thesis by (simp add: sched_view_def d')
  qed
qed

lemma exec_sched_view:
  assumes "sched_inv d" and "sched_op_tenant x \<noteq> Some t'"
  shows "sched_view t' (exec_sched x d) = sched_view t' d"
proof (cases x)
  case (SopReplaceHours f ids t b inp)
  with assms(2) show ?thesis unfolding SopReplaceHours exec_sched.simps repo_ReplaceHours_def
    by (intro WithTenantTx_inv [where P = "\<lambda>d'. sched_view t' d' = sched_view t' d"])
      (auto split: sum.splits dest!: insert_hours_view simp: deletes_view)
next
  case (SopSaveOverride f ids t b i inp)
  with assms(2) have t: "t' \<noteq> t" by auto
  show ?thesis unfolding SopSaveOverride exec_sched.simps repo_SaveOverride_def
  proof (rule WithTenantTx_inv [where P = "\<lambda>d'. sched_view t' d' = sched_view t' d"], erule SaveOverride_body)
    fix date r d1 d'
    assume "upsert_override (ids 0) t t b i date (oi_Kind inp) d = Inr (r, d1)"
      and ins: "insert_intervals ids 1 t t (vr_id r) b date (oi_Intervals inp)
       (sql_delete_intervals t (vr_id r) d1) = Inr d'"
    then have "sched_view t' d1 = sched_view t' d" using upsert_override_view [OF assms(1)] t by blast
    with insert_intervals_view [OF ins t] deletes_view(2) [OF t] show "sched_view t' d' = sched_view t' d" by simp
  qed simp
next
  case (SopDeleteOverride f t b i)
  with assms(2) show ?thesis unfolding SopDeleteOverride exec_sched.simps repo_DeleteOverride_def
    by (intro WithTenantTx_inv [where P = "\<lambda>d'. sched_view t' d' = sched_view t' d"])
      (auto simp: deletes_view split: if_splits)
next
  case (SopSaveBlock f ids t b inp)
  with assms(2) show ?thesis unfolding SopSaveBlock exec_sched.simps repo_SaveBlock_def
    by (intro WithTenantTx_inv [where P = "\<lambda>d'. sched_view t' d' = sched_view t' d"])
      (auto simp: Let_def sched_view_def sql_insert_block_def split: if_splits sum.splits)
next
  case (SopDeleteBlock f t b i)
  with assms(2) show ?thesis unfolding SopDeleteBlock exec_sched.simps repo_DeleteBlock_def
    by (intro WithTenantTx_inv [where P = "\<lambda>d'. sched_view t' d' = sched_view t' d"])
      (auto simp: Let_def sched_view_def split: if_splits intro!: filter_keep)
qed

interpretation sched: tenant_store exec_sched sched_inv empty_sched_db sched_op_tenant sched_view
  by unfold_locales (simp_all add: sched_inv_empty exec_sched_inv exec_sched_view)

end
