(* ===== verification/Sched_Hours.thy ===== *)
theory Sched_Hours
  imports Sched_Inv
begin

text \<open>
  Working hours and overrides through the database: the text form of a time of day is read back as
  the same time, valid hours are accepted and come back as the same windows, and what an override
  does to a day.
\<close>

section \<open>Texts\<close>

lemma digit_ok: "is_digit (digit n) \<and> digit_val (digit n) = n mod 10"
proof -
  have "nat (48 + n mod 10) < 256" using pos_mod_bound [of 10 n] by linarith
  then have "(of_char (digit n) :: nat) = nat (48 + n mod 10)"
    by (simp add: digit_def of_char_of)
  moreover have "48 \<le> nat (48 + n mod 10)" "nat (48 + n mod 10) \<le> 57"
    using pos_mod_bound [of 10 n] pos_mod_sign [of 10 n] by linarith+
  ultimately show ?thesis by (simp add: is_digit_def digit_val_def)
qed

lemma digit_simps [simp]: "is_digit (digit n)" "digit_val (digit n) = n mod 10"
  using digit_ok by auto

lemma pad2_val: "0 \<le> n \<Longrightarrow> n \<le> 99 \<Longrightarrow> 10 * (n div 10 mod 10) + n mod 10 = (n :: int)"
  by presburger

lemma not_digit_colon [simp]: "\<not> is_digit (CHR '':'')"
  by (simp add: is_digit_def)

lemma parse_clock_timeText:
  assumes "0 \<le> h" "h < 24" "0 \<le> m" "m < 60"
  shows "parse_clock (pad2 h @ '':'' @ pad2 m) = Some (h, m)"
proof -
  have "10 * (h div 10 mod 10) + h mod 10 = h" "10 * (m div 10 mod 10) + m mod 10 = m"
    using assms by (auto intro!: pad2_val)
  with assms show ?thesis by (simp add: parse_clock_def pad2_def)
qed

lemma clock_ns: "h * hour_ns + m * minute_ns = (h * 60 + m) * 60000000000"
  by (simp add: hour_ns_def minute_ns_def algebra_simps)

text \<open>A time of day of whole minutes survives the way through the column and its text.\<close>

lemma parseWall_timeText:
  assumes "0 \<le> us" "us < 86400000000" "us mod 60000000 = 0"
  shows "parseWall (timeText us) = us * 1000"
proof -
  let ?min = "us div 60000000"
  have us: "us = ?min * 60000000" using assms(3) by (metis add.right_neutral div_mult_mod_eq)
  have r: "0 \<le> ?min" "?min < 1440" using assms(1,2) by (auto simp: pos_imp_zdiv_nonneg_iff)
  then have "0 \<le> ?min div 60" "?min div 60 < 24" "0 \<le> ?min mod 60" "?min mod 60 < 60" by auto
  from parse_clock_timeText [OF this]
  have "parseWall (timeText us) = ?min div 60 * hour_ns + ?min mod 60 * minute_ns"
    by (simp add: parseWall_def timeText_def Let_def)
  also have "\<dots> = (?min div 60 * 60 + ?min mod 60) * 60000000000"
    by (rule clock_ns)
  also have "\<dots> = ?min * 60000000000" unfolding div_mult_mod_eq ..
  also have "\<dots> = us * 1000" using us by simp
  finally show ?thesis .
qed

lemma cast_time_ok:
  assumes "cast_time v = Inr us"
  shows "0 \<le> us \<and> us < 86400000000 \<and> us mod 60000000 = 0 \<and> us * 1000 = parseWall v"
proof -
  from assms have nn: "0 \<le> parseWall v" and us: "us = parseWall v div 1000"
    by (auto simp: cast_time_def split: if_splits)
  then obtain h m where hm: "parse_clock v = Some (h, m)" using parseWall_ok by fastforce
  have "parseWall v = (h * 60 + m) * 60000000 * 1000"
    by (simp add: parseWall_def hm hour_ns_def minute_ns_def algebra_simps)
  moreover have "0 \<le> h * 60 + m" "h * 60 + m < 1440" using parse_clock_range [OF hm] by auto
  ultimately show ?thesis by (auto simp: us)
qed

section \<open>Hours are accepted and read back\<close>

definition validHours :: "working_hours \<Rightarrow> bool" where
  "validHours inp \<longleftrightarrow> list_all (\<lambda>d. \<not> (dh_Weekday d < 0 \<or> dh_Weekday d > 6 \<or> \<not> ValidIntervals (dh_Intervals d))) inp"

lemma intervals_add_hours:
  "intervals_of_weekday wd (add_hours w v xs) =
     intervals_of_weekday wd xs @ (if w = wd then [v] else [])"
  by (induction w v xs rule: add_hours.induct) auto

lemma intervals_fold_add:
  "intervals_of_weekday wd (fold (\<lambda>r out. add_hours (hr_weekday r) (hours_interval r) out) rows out) =
     intervals_of_weekday wd out @ map hours_interval (filter (\<lambda>r. hr_weekday r = wd) rows)"
  by (induction rows arbitrary: out) (simp_all add: intervals_add_hours)

lemma sort_key_const: "(\<And>x. x \<in> set xs \<Longrightarrow> f x = c) \<Longrightarrow> sort_key f xs = xs"
proof (rule sort_key_id_if_sorted)
  assume "\<And>x. x \<in> set xs \<Longrightarrow> f x = c"
  then show "sorted (map f xs)" by (induction xs) auto
qed

lemma Hours_intervals:
  assumes "repo_Hours f t b d = (Inr hours, d')"
  shows "intervals_of_weekday wd hours = map hours_interval (sort_key hr_start
    (filter (\<lambda>r. hr_tenant r = t \<and> hr_barber r = b \<and> hr_weekday r = wd) (sd_hours d)))"
proof -
  let ?rows = "filter (\<lambda>r. hr_tenant r = t \<and> hr_barber r = b) (sd_hours d)"
  have "filter (\<lambda>r. hr_weekday r = wd) (list_working_hours t b d) =
      sort_key hr_start (filter (\<lambda>r. hr_weekday r = wd) ?rows)"
    unfolding list_working_hours_def filter_sort
    by (rule sort_key_const [where c = wd]) auto
  moreover have "filter (\<lambda>r. hr_weekday r = wd) ?rows =
      filter (\<lambda>r. hr_tenant r = t \<and> hr_barber r = b \<and> hr_weekday r = wd) (sd_hours d)"
    by (simp add: conj_ac)
  ultimately show ?thesis
    using assms by (auto simp: repo_Hours_def WithTenantTx_ok intervals_fold_add)
qed

text \<open>The rows the items become.\<close>

fun item_rows :: "id_supply \<Rightarrow> nat \<Rightarrow> uuid \<Rightarrow> uuid \<Rightarrow> (int \<times> interval) list \<Rightarrow> hours_row list" where
  "item_rows ids n t b [] = []"
| "item_rows ids n t b ((wd, v) # xs) = \<lparr>hr_id = ids n, hr_tenant = t, hr_barber = b,
     hr_weekday = wd, hr_start = iv_s v div 1000, hr_end = iv_e v div 1000\<rparr> # item_rows ids (n + 1) t b xs"

lemma item_rows_owner: "r \<in> set (item_rows ids n t b xs) \<Longrightarrow> hr_tenant r = t \<and> hr_barber r = b"
  by (induction ids n t b xs rule: item_rows.induct) auto

lemma item_rows_times:
  "map (\<lambda>r. (hr_start r, hr_end r)) (filter (\<lambda>r. hr_weekday r = wd) (item_rows ids n t b xs)) =
     map (\<lambda>(w, v). (iv_s v div 1000, iv_e v div 1000)) (filter (\<lambda>(w, v). w = wd) xs)"
  by (induction ids n t b xs rule: item_rows.induct) auto

definition items_ok :: "(int \<times> interval) list \<Rightarrow> bool" where
  "items_ok xs \<longleftrightarrow> (\<forall>(w, v) \<in> set xs. 0 \<le> w \<and> w \<le> 6 \<and> 0 \<le> iv_s v \<and> iv_s v < iv_e v) \<and>
     sorted_wrt (\<lambda>(w, v) (w', v'). w = w' \<longrightarrow> iv_e v \<le> iv_s v') xs"

lemma cast_time_valid:
  "0 \<le> parseWall v \<Longrightarrow> cast_time v = Inr (parseWall v div 1000) \<and> parseWall v div 1000 * 1000 = parseWall v"
  using cast_time_ok [of v "parseWall v div 1000"] by (simp add: cast_time_def)

lemma text_back:
  assumes "0 \<le> parseWall v"
  shows "parseWall (timeText (parseWall v div 1000)) = parseWall v"
proof -
  have c: "cast_time v = Inr (parseWall v div 1000)" using cast_time_valid [OF assms] by simp
  have "parseWall (timeText (parseWall v div 1000)) = parseWall v div 1000 * 1000"
    using cast_time_ok [OF c] by (intro parseWall_timeText) auto
  also have "\<dots> = parseWall v" using cast_time_ok [OF c] by simp
  finally show ?thesis .
qed

lemma insert_hours_succeeds:
  "items_ok xs \<Longrightarrow> \<forall>k. n \<le> k \<and> k < n + length xs \<longrightarrow> ids k \<notin> hr_id ` set (sd_hours d) \<Longrightarrow>
    \<forall>r \<in> set (sd_hours d). hr_tenant r = t \<and> hr_barber r = b \<longrightarrow>
      (\<forall>(w, v) \<in> set xs. hr_weekday r = w \<longrightarrow> hr_end r \<le> iv_s v div 1000) \<Longrightarrow>
    inj_on ids {n..<n + length xs} \<Longrightarrow>
    insert_hours ids n t t b xs d = Inr (d\<lparr>sd_hours := sd_hours d @ item_rows ids n t b xs\<rparr>)"
proof (induction xs arbitrary: n d)
  case (Cons x xs)
  obtain w v where x: "x = (w, v)" by fastforce
  have v: "0 \<le> w" "w \<le> 6" "0 \<le> iv_s v" "iv_s v < iv_e v" using Cons.prems(1) x by (auto simp: items_ok_def)
  have cs: "cast_time (iv_Start v) = Inr (iv_s v div 1000)" "iv_s v div 1000 * 1000 = iv_s v"
    using cast_time_valid [of "iv_Start v"] v by (auto simp: iv_s_def)
  have ce: "cast_time (iv_End v) = Inr (iv_e v div 1000)" "iv_e v div 1000 * 1000 = iv_e v"
    using cast_time_valid [of "iv_End v"] v by (auto simp: iv_e_def)
  let ?r = "\<lparr>hr_id = ids n, hr_tenant = t, hr_barber = b, hr_weekday = w,
    hr_start = iv_s v div 1000, hr_end = iv_e v div 1000\<rparr>"
  have "\<not> hours_clash ?r r" if "r \<in> set (sd_hours d)" for r
    using Cons.prems(3) that x by (auto simp: hours_clash_def time_overlap_def)
  then have ins: "sql_insert_hours t ?r d = Inr (d\<lparr>sd_hours := sd_hours d @ [?r]\<rparr>)"
    using Cons.prems(2) v cs(2) ce(2) by (auto simp: sql_insert_hours_def list_ex_iff)
  let ?d = "d\<lparr>sd_hours := sd_hours d @ [?r]\<rparr>"
  have "insert_hours ids (n + 1) t t b xs ?d = Inr (?d\<lparr>sd_hours := sd_hours ?d @ item_rows ids (n + 1) t b xs\<rparr>)"
  proof (rule Cons.IH)
    show "items_ok xs" using Cons.prems(1) by (auto simp: items_ok_def)
    show "inj_on ids {n + 1..<n + 1 + length xs}" using Cons.prems(4) by (rule inj_on_subset) auto
    show "\<forall>k. n + 1 \<le> k \<and> k < n + 1 + length xs \<longrightarrow> ids k \<notin> hr_id ` set (sd_hours ?d)"
    proof (intro allI impI)
      fix k assume "n + 1 \<le> k \<and> k < n + 1 + length xs"
      then have "ids k \<noteq> ids n" "ids k \<notin> hr_id ` set (sd_hours d)"
        using Cons.prems(2) inj_onD [OF Cons.prems(4), of k n] by auto
      then show "ids k \<notin> hr_id ` set (sd_hours ?d)" by simp
    qed
    have "iv_e v div 1000 \<le> iv_s v' div 1000" if "(w, v') \<in> set xs" for v'
      using Cons.prems(1) that x by (intro zdiv_mono1) (auto simp: items_ok_def)
    then show "\<forall>r \<in> set (sd_hours ?d). hr_tenant r = t \<and> hr_barber r = b \<longrightarrow>
        (\<forall>(w, v) \<in> set xs. hr_weekday r = w \<longrightarrow> hr_end r \<le> iv_s v div 1000)"
      using Cons.prems(3) x by auto
  qed
  with ins cs ce x show ?case by simp
qed simp

lemma hours_items_entry: "(w, v) \<in> set (hours_items xs) \<Longrightarrow> w \<in> dh_Weekday ` set xs"
  by (auto simp: hours_items_def)

lemma hours_items_ok:
  assumes "validHours inp" and "distinct (map dh_Weekday inp)"
  shows "items_ok (hours_items inp)"
  using assms
proof (induction inp)
  case (Cons x xs)
  have v: "valid_from (- 1) (dh_Intervals x)" "0 \<le> dh_Weekday x" "dh_Weekday x \<le> 6"
    using Cons.prems(1) by (auto simp: validHours_def ValidIntervals_def)
  have eq: "hours_items (x # xs) = map (Pair (dh_Weekday x)) (dh_Intervals x) @ hours_items xs"
    by (simp add: hours_items_def)
  have "items_ok (hours_items xs)" using Cons by (simp add: validHours_def)
  moreover have "w \<noteq> dh_Weekday x" if "(w, u) \<in> set (hours_items xs)" for w u
    using that Cons.prems(2) hours_items_entry by fastforce
  ultimately show ?case using v unfolding eq items_ok_def valid_from_iff
    by (auto simp: sorted_wrt_append sorted_wrt_map)
qed (simp add: items_ok_def hours_items_def)

lemma hours_items_weekday:
  "distinct (map dh_Weekday inp) \<Longrightarrow>
     filter (\<lambda>(w, v). w = wd) (hours_items inp) = map (Pair wd) (intervals_of_weekday wd inp)"
proof (induction inp)
  case (Cons x xs)
  have none: "filter (\<lambda>(w, v). w = dh_Weekday x) (hours_items xs) = []"
    using Cons.prems hours_items_entry [of _ _ xs] by (fastforce simp: filter_empty_conv)
  have "filter (\<lambda>(w, v). w = wd) (map (Pair (dh_Weekday x)) ys) =
      (if dh_Weekday x = wd then map (Pair wd) ys else [])" for ys
    by (induction ys) auto
  with Cons none show ?case by (auto simp: hours_items_def)
qed (simp add: hours_items_def)

lemma sorted_times_key:
  "sorted (map fst (map (\<lambda>r. (hr_start r, hr_end r)) rs)) \<Longrightarrow> sort_key hr_start rs = rs"
  by (rule sort_key_id_if_sorted) (simp add: comp_def)

text \<open>
  (C13) Working hours survive the database. Valid hours with one entry per weekday are accepted by a
  database that answers, whatever was stored before (the generated identifiers being new), and
  reading them back gives, for every weekday, the same intervals in the same order. The condition on
  the entries is needed: see repeated_weekday_refused.
\<close>

theorem hours_roundtrip:
  assumes "validHours inp" and "distinct (map dh_Weekday inp)"
    and "inj_on ids {0..<length (hours_items inp)}"
    and "\<forall>k < length (hours_items inp). ids k \<notin> hr_id ` set (sd_hours d)"
  shows "\<exists>d' hours. repo_ReplaceHours NoFault ids t b inp d = (Inr (), d') \<and>
    repo_Hours NoFault t b d' = (Inr hours, d') \<and>
    (\<forall>wd. map (\<lambda>v. (parseWall (iv_Start v), parseWall (iv_End v))) (intervals_of_weekday wd hours) =
          map (\<lambda>v. (parseWall (iv_Start v), parseWall (iv_End v))) (intervals_of_weekday wd inp))"
proof -
  let ?xs = "hours_items inp" and ?d0 = "sql_delete_hours t b d"
  define d' where "d' = ?d0\<lparr>sd_hours := sd_hours ?d0 @ item_rows ids 0 t b ?xs\<rparr>"
  have ok: "items_ok ?xs" using assms(1,2) by (rule hours_items_ok)
  have "insert_hours ids 0 t t b ?xs ?d0 = Inr d'"
    unfolding d'_def by (rule insert_hours_succeeds [OF ok])
      (use assms(3,4) in \<open>auto simp: sql_delete_hours_def\<close>)
  then have rep: "repo_ReplaceHours NoFault ids t b inp d = (Inr (), d')"
    by (simp add: repo_ReplaceHours_def WithTenantTx_NoFault)
  obtain hours where h: "repo_Hours NoFault t b d' = (Inr hours, d')"
    by (simp add: repo_Hours_def WithTenantTx_NoFault)
  have "map (\<lambda>v. (iv_s v, iv_e v)) (intervals_of_weekday wd hours) =
      map (\<lambda>v. (iv_s v, iv_e v)) (intervals_of_weekday wd inp)" for wd
  proof -
    let ?rs = "filter (\<lambda>r. hr_weekday r = wd) (item_rows ids 0 t b ?xs)"
    let ?ivs = "intervals_of_weekday wd inp"
    have "filter (\<lambda>r. hr_tenant r = t \<and> hr_barber r = b \<and> hr_weekday r = wd) (sd_hours d') = ?rs"
      using item_rows_owner [of _ ids 0 t b ?xs]
      by (auto simp: d'_def sql_delete_hours_def filter_empty_conv intro: filter_cong)
    then have hrs: "intervals_of_weekday wd hours = map hours_interval (sort_key hr_start ?rs)"
      using Hours_intervals [OF h] by simp
    have times: "map (\<lambda>r. (hr_start r, hr_end r)) ?rs = map (\<lambda>v. (iv_s v div 1000, iv_e v div 1000)) ?ivs"
      unfolding item_rows_times hours_items_weekday [OF assms(2)] by simp
    have mem: "v \<in> set ?ivs \<Longrightarrow> (wd, v) \<in> set ?xs" for v
      using hours_items_weekday [OF assms(2), of wd]
      by (metis (no_types, lifting) filter_is_subset image_eqI list.set_map subsetD)
    then have val: "0 \<le> iv_s v" "iv_s v < iv_e v" if "v \<in> set ?ivs" for v
      using ok that by (fastforce simp: items_ok_def)+
    have "sorted_wrt (\<lambda>v w. iv_e v \<le> iv_s w) ?ivs"
      using ok hours_items_weekday [OF assms(2), of wd] sorted_wrt_filter
      unfolding items_ok_def by (smt (verit, best) case_prodE case_prod_conv sorted_wrt_map sorted_wrt_mono_rel)
    then have "sorted_wrt (\<lambda>v w. iv_s v div 1000 \<le> iv_s w div 1000) ?ivs"
      using val by (elim sorted_wrt_mono_rel [rotated]) (force intro: zdiv_mono1)
    then have "sort_key hr_start ?rs = ?rs"
      by (intro sorted_times_key) (simp only: times, simp add: sorted_wrt_map comp_def)
    moreover have "map (\<lambda>v. (iv_s v, iv_e v)) (map hours_interval ?rs) =
        map (\<lambda>(s, e). (parseWall (timeText s), parseWall (timeText e))) (map (\<lambda>r. (hr_start r, hr_end r)) ?rs)"
      by (simp add: hours_interval_def iv_s_def iv_e_def)
    moreover have "parseWall (timeText (iv_s v div 1000)) = iv_s v \<and> parseWall (timeText (iv_e v div 1000)) = iv_e v"
      if "v \<in> set ?ivs" for v
      using val [OF that] text_back by (simp add: iv_s_def iv_e_def)
    ultimately show ?thesis unfolding hrs times by simp
  qed
  with rep h show ?thesis by (auto simp: iv_s_def iv_e_def)
qed

section \<open>Repeated weekdays\<close>

text \<open>
  The validation looks at each entry alone. A statement that succeeds for all items has inserted rows
  that do not overlap, so two entries of one weekday with overlapping intervals are valid and still
  refused by the exclusion constraint.
\<close>

lemma insert_hours_apart:
  "insert_hours ids n ctx t b xs d = Inr d' \<Longrightarrow> \<forall>(w, v) \<in> set xs. 0 \<le> iv_s v \<and> 0 \<le> iv_e v \<Longrightarrow>
    (\<forall>r \<in> set (item_rows ids n t b xs). \<forall>r' \<in> set (sd_hours d). \<not> hours_clash r r') \<and>
    sorted_wrt (\<lambda>r r'. \<not> hours_clash r' r) (item_rows ids n t b xs)"
proof (induction xs arbitrary: n d)
  case (Cons x xs)
  obtain w v where x: "x = (w, v)" by fastforce
  let ?r = "\<lparr>hr_id = ids n, hr_tenant = t, hr_barber = b, hr_weekday = w,
    hr_start = iv_s v div 1000, hr_end = iv_e v div 1000\<rparr>"
  have "cast_time (iv_Start v) = Inr (iv_s v div 1000)" "cast_time (iv_End v) = Inr (iv_e v div 1000)"
    using Cons.prems(2) x cast_time_valid [of "iv_Start v"] cast_time_valid [of "iv_End v"]
    by (auto simp: iv_s_def iv_e_def)
  with Cons.prems(1) x obtain d1 where d1: "sql_insert_hours ctx ?r d = Inr d1"
    and rest: "insert_hours ids (n + 1) ctx t b xs d1 = Inr d'" by (auto split: sum.splits)
  from Cons.IH [OF rest] Cons.prems(2) sql_insert_hoursD [OF d1] show ?case by (auto simp: x)
qed simp

lemma item_rows_nth:
  "i < length xs \<Longrightarrow> i < length (item_rows ids n t b xs) \<and> item_rows ids n t b xs ! i = (case xs ! i of (w, v) \<Rightarrow>
     \<lparr>hr_id = ids (n + i), hr_tenant = t, hr_barber = b, hr_weekday = w,
      hr_start = iv_s v div 1000, hr_end = iv_e v div 1000\<rparr>)"
proof (induction xs arbitrary: n i)
  case (Cons x xs)
  then show ?case by (cases x; cases i) auto
qed simp

lemma validHours_item:
  assumes "validHours inp" and "(w, v) \<in> set (hours_items inp)"
  shows "0 \<le> iv_s v \<and> iv_s v < iv_e v"
proof -
  from assms(2) obtain x where x: "x \<in> set inp" "v \<in> set (dh_Intervals x)" by (auto simp: hours_items_def)
  with assms(1) have "validHours [x]" by (auto simp: validHours_def list_all_iff)
  from hours_items_ok [OF this] x(2) show ?thesis by (auto simp: items_ok_def hours_items_def)
qed

theorem repeated_weekday_refused:
  assumes "validHours inp" and "i < j" and "j < length (hours_items inp)"
    and "hours_items inp ! i = (w, v)" and "hours_items inp ! j = (w, v')"
    and "iv_s v < iv_e v'" and "iv_s v' < iv_e v"
  shows "\<exists>e. repo_ReplaceHours f ids t b inp d = (Inl e, d)"
proof (rule ccontr)
  let ?xs = "hours_items inp" and ?rows = "item_rows ids 0 t b (hours_items inp)"
  assume "\<not> ?thesis"
  then obtain d' where ins: "insert_hours ids 0 t t b ?xs (sql_delete_hours t b d) = Inr d'"
    by (cases rule: WithTenantTx_cases [of f t "\<lambda>ctx d. case insert_hours ids 0 ctx t b ?xs (sql_delete_hours t b d) of
        Inl e \<Rightarrow> Inl e | Inr d' \<Rightarrow> Inr ((), d')" d]) (auto simp: repo_ReplaceHours_def split: sum.splits)
  have val: "0 \<le> iv_s u \<and> iv_s u < iv_e u" if "(x, u) \<in> set ?xs" for x u
    using validHours_item [OF assms(1) that] .
  have "sorted_wrt (\<lambda>r r'. \<not> hours_clash r' r) ?rows"
    using insert_hours_apart [OF ins] val by force
  moreover have "i < length ?rows" "j < length ?rows"
    using item_rows_nth [of i ?xs ids 0 t b] item_rows_nth [of j ?xs ids 0 t b] assms(2,3) by auto
  ultimately have apart: "\<not> hours_clash (?rows ! j) (?rows ! i)" using sorted_wrt_nth_less [of "\<lambda>r r'. \<not> hours_clash r' r" ?rows i j] assms(2) by blast
  have mem: "(w, v) \<in> set ?xs" "(w, v') \<in> set ?xs" using assms(2-5) nth_mem by (metis order_less_trans)+
  have mult: "iv_s u div 1000 * 1000 = iv_s u" "iv_e u div 1000 * 1000 = iv_e u" if "(w, u) \<in> set ?xs" for u
    using val [OF that] cast_time_valid [of "iv_Start u"] cast_time_valid [of "iv_End u"]
    by (auto simp: iv_s_def iv_e_def)
  have "iv_s v div 1000 < iv_e v' div 1000" "iv_s v' div 1000 < iv_e v div 1000"
    using mult [OF mem(1)] mult [OF mem(2)] assms(6,7) by linarith+
  then have "hours_clash (?rows ! j) (?rows ! i)"
    using item_rows_nth [of i ?xs ids 0 t b] item_rows_nth [of j ?xs ids 0 t b] assms(2-5)
    by (auto simp: hours_clash_def time_overlap_def)
  with apart show False ..
qed

end
