(* ===== verification/Sched_App.thy ===== *)
theory Sched_App
  imports Sched_Hours
begin

text \<open>
  The application layer of scheduling-service (\<^verbatim>\<open>internal/application/application.go\<close>), the occupancy
  client (\<^verbatim>\<open>internal/service/occupancy_http.go\<close>) and the HTTP handlers (\<^verbatim>\<open>internal/handler/http.go\<close>).

  The time zone database, \<^verbatim>\<open>time.LoadLocation\<close>, is the field \<open>sa_zone\<close>. An availability query that
  never returns is the value \<open>None\<close>.
\<close>

section \<open>The occupancy client\<close>

datatype occ_error = ErrOccupancyUnavailable string | OccOther string

record occupancy_client =
  oc_baseURL :: string
  oc_token :: string
  oc_Do :: "http_req \<Rightarrow> http_resp"
  oc_rfc3339 :: "time \<Rightarrow> string"
  oc_decode :: "string \<Rightarrow> (time \<times> time) list option"

definition NewHTTPOccupancy ::
  "string \<Rightarrow> string \<Rightarrow> (http_req \<Rightarrow> http_resp) \<Rightarrow> (time \<Rightarrow> string) \<Rightarrow> (string \<Rightarrow> (time \<times> time) list option) \<Rightarrow>
     occupancy_client" where
  "NewHTTPOccupancy baseURL token http fmt dec =
     \<lparr>oc_baseURL = rev (dropWhile (\<lambda>c. c = CHR ''/'') (rev baseURL)), oc_token = token, oc_Do = http,
      oc_rfc3339 = fmt, oc_decode = dec\<rparr>"

definition occupied_periods :: "(time \<times> time) list \<Rightarrow> blocked_period list" where
  "occupied_periods rows = map (\<lambda>(s, e). \<lparr>bp_ID = uuid_nil, bp_StartAt = s, bp_EndAt = e\<rparr>)
     (filter (\<lambda>(s, e). s < e) rows)"

definition HTTPOccupancy_Occupied ::
  "externals \<Rightarrow> occupancy_client \<Rightarrow> tenant_ctx \<Rightarrow> uuid \<Rightarrow> time \<Rightarrow> time \<Rightarrow> occ_error + blocked_period list" where
  "HTTPOccupancy_Occupied X p tenant barberID from to =
     (case oc_Do p \<lparr>hr_method = ''GET'',
         hr_url = oc_baseURL p @ ''/internal/v1/occupancy?barber_id='' @ QueryEscape (uuid_String X barberID) @
           ''&from='' @ QueryEscape (oc_rfc3339 p from) @ ''&to='' @ QueryEscape (oc_rfc3339 p to),
         hr_headers = tenant_headers X (oc_token p) tenant\<rparr> of
        TransportError e \<Rightarrow> Inl (ErrOccupancyUnavailable e)
      | Response status body \<Rightarrow>
          if status < 200 \<or> status > 299 then Inl (ErrOccupancyUnavailable ''status'')
          else (case oc_decode p body of
            None \<Rightarrow> Inl (ErrOccupancyUnavailable ''invalid response'')
          | Some rows \<Rightarrow> Inr (occupied_periods rows)))"

section \<open>internal/application\<close>

datatype sched_error =
    SErrInvalid
  | SErrForbidden
  | SErrNotFound
  | SErrConflict
  | SErrUnavailable
  | SErrOccupancyUnavailable
  | SErrRepo repo_error
  | SErrZone

record sched_principal =
  sp_IdentityID :: uuid
  sp_Role :: string

record sched_app =
  sa_Barber :: "tenant_ctx \<Rightarrow> uuid \<Rightarrow> dep_error + dep_barber"
  sa_Service :: "tenant_ctx \<Rightarrow> uuid \<Rightarrow> uuid \<Rightarrow> dep_error + dep_service"
  sa_Settings :: "tenant_ctx \<Rightarrow> dep_error + tenant_settings_view"
  sa_Occupied :: "tenant_ctx \<Rightarrow> uuid \<Rightarrow> time \<Rightarrow> time \<Rightarrow> occ_error + blocked_period list"
  sa_fallbackInterval :: int
  sa_zone :: "string \<Rightarrow> zone option"

definition authorize :: "sched_app \<Rightarrow> tenant_ctx \<Rightarrow> sched_principal \<Rightarrow> uuid \<Rightarrow> bool \<Rightarrow> bool" where
  "authorize s t p barber write =
     (if sp_Role p = ''OWNER'' \<or> sp_Role p = ''MANAGER'' then True
      else if sp_Role p = ''RECEPTIONIST'' then \<not> write
      else if sp_Role p = ''BARBER'' then
        (case sa_Barber s t barber of
           Inl _ \<Rightarrow> False
         | Inr b \<Rightarrow> db_IdentityID b = Some (sp_IdentityID p))
      else False)"

definition validOverride :: "override_input \<Rightarrow> bool" where
  "validOverride inp =
     (if parse_date (oi_Date inp) = None then False
      else if oi_Kind inp = ''custom_hours'' then length (oi_Intervals inp) > 0 \<and> ValidIntervals (oi_Intervals inp)
      else (oi_Kind inp = ''unavailable'' \<or> oi_Kind inp = ''vacation'') \<and> length (oi_Intervals inp) = 0)"

definition sched_mapRepo :: "(repo_error + 'a) \<times> sched_db \<Rightarrow> (sched_error + 'a) \<times> sched_db" where
  "sched_mapRepo r = (case r of
     (Inl e, d) \<Rightarrow> (Inl (if e = RepoNotFound then SErrNotFound else SErrRepo e), d)
   | (Inr v, d) \<Rightarrow> (Inr v, d))"

text \<open>\<open>plainRepo\<close> passes an error of the repository on as it is.\<close>

definition plainRepo :: "(repo_error + 'a) \<times> sched_db \<Rightarrow> (sched_error + 'a) \<times> sched_db" where
  "plainRepo r = (case r of (Inl e, d) \<Rightarrow> (Inl (SErrRepo e), d) | (Inr v, d) \<Rightarrow> (Inr v, d))"

definition app_Schedule ::
  "sched_app \<Rightarrow> (nat \<Rightarrow> tx_fault) \<Rightarrow> tenant_ctx \<Rightarrow> sched_principal \<Rightarrow> uuid \<Rightarrow> sched_db \<Rightarrow>
     (sched_error + schedule) \<times> sched_db" where
  "app_Schedule s f t p barber d =
     (if \<not> authorize s t p barber False then (Inl SErrForbidden, d)
      else case repo_Hours (f 0) (TenantID t) barber d of
        (Inl e, d1) \<Rightarrow> (Inl (SErrRepo e), d1)
      | (Inr hours, d1) \<Rightarrow>
      (case repo_Overrides (f 1) (TenantID t) barber d1 of
        (Inl e, d2) \<Rightarrow> (Inl (SErrRepo e), d2)
      | (Inr ovs, d2) \<Rightarrow>
      (case repo_Blocks (f 2) (TenantID t) barber d2 of
        (Inl e, d3) \<Rightarrow> (Inl (SErrRepo e), d3)
      | (Inr blocks, d3) \<Rightarrow>
          (Inr \<lparr>sc_WorkingHours = hours, sc_Overrides = ovs, sc_BlockedPeriods = blocks\<rparr>, d3))))"

definition app_ReplaceHours ::
  "sched_app \<Rightarrow> tx_fault \<Rightarrow> id_supply \<Rightarrow> tenant_ctx \<Rightarrow> sched_principal \<Rightarrow> uuid \<Rightarrow> working_hours \<Rightarrow> sched_db \<Rightarrow>
     (sched_error + unit) \<times> sched_db" where
  "app_ReplaceHours s f ids t p barber inp d =
     (if \<not> authorize s t p barber True then (Inl SErrForbidden, d)
      else if \<not> validHours inp then (Inl SErrInvalid, d)
      else case repo_ReplaceHours f ids (TenantID t) barber inp d of
        (Inl _, d') \<Rightarrow> (Inl SErrConflict, d')
      | (Inr _, d') \<Rightarrow> (Inr (), d'))"

definition app_Overrides ::
  "sched_app \<Rightarrow> tx_fault \<Rightarrow> tenant_ctx \<Rightarrow> sched_principal \<Rightarrow> uuid \<Rightarrow> sched_db \<Rightarrow>
     (sched_error + override list) \<times> sched_db" where
  "app_Overrides s f t p barber d =
     (if \<not> authorize s t p barber False then (Inl SErrForbidden, d)
      else plainRepo (repo_Overrides f (TenantID t) barber d))"

definition app_SaveOverride ::
  "sched_app \<Rightarrow> tx_fault \<Rightarrow> id_supply \<Rightarrow> tenant_ctx \<Rightarrow> sched_principal \<Rightarrow> uuid \<Rightarrow> uuid \<Rightarrow> override_input \<Rightarrow>
     sched_db \<Rightarrow> (sched_error + override) \<times> sched_db" where
  "app_SaveOverride s f ids t p barber i inp d =
     (if \<not> authorize s t p barber True then (Inl SErrForbidden, d)
      else if \<not> validOverride inp then (Inl SErrInvalid, d)
      else case repo_SaveOverride f ids (TenantID t) barber i inp d of
        (Inl e, d') \<Rightarrow> (Inl (if e = RepoNotFound then SErrNotFound else SErrConflict), d')
      | (Inr v, d') \<Rightarrow> (Inr v, d'))"

definition app_DeleteOverride ::
  "sched_app \<Rightarrow> tx_fault \<Rightarrow> tenant_ctx \<Rightarrow> sched_principal \<Rightarrow> uuid \<Rightarrow> uuid \<Rightarrow> sched_db \<Rightarrow>
     (sched_error + unit) \<times> sched_db" where
  "app_DeleteOverride s f t p barber i d =
     (if \<not> authorize s t p barber True then (Inl SErrForbidden, d)
      else sched_mapRepo (repo_DeleteOverride f (TenantID t) barber i d))"

definition app_Blocks ::
  "sched_app \<Rightarrow> tx_fault \<Rightarrow> tenant_ctx \<Rightarrow> sched_principal \<Rightarrow> uuid \<Rightarrow> sched_db \<Rightarrow>
     (sched_error + blocked_period list) \<times> sched_db" where
  "app_Blocks s f t p barber d =
     (if \<not> authorize s t p barber False then (Inl SErrForbidden, d)
      else plainRepo (repo_Blocks f (TenantID t) barber d))"

definition app_SaveBlock ::
  "sched_app \<Rightarrow> tx_fault \<Rightarrow> id_supply \<Rightarrow> tenant_ctx \<Rightarrow> sched_principal \<Rightarrow> uuid \<Rightarrow> blocked_input \<Rightarrow> sched_db \<Rightarrow>
     (sched_error + blocked_period) \<times> sched_db" where
  "app_SaveBlock s f ids t p barber inp d =
     (if \<not> authorize s t p barber True then (Inl SErrForbidden, d)
      else if \<not> bi_StartAt inp < bi_EndAt inp then (Inl SErrInvalid, d)
      else case repo_SaveBlock f ids (TenantID t) barber inp d of
        (Inl _, d') \<Rightarrow> (Inl SErrConflict, d')
      | (Inr v, d') \<Rightarrow> (Inr v, d'))"

definition app_DeleteBlock ::
  "sched_app \<Rightarrow> tx_fault \<Rightarrow> tenant_ctx \<Rightarrow> sched_principal \<Rightarrow> uuid \<Rightarrow> uuid \<Rightarrow> sched_db \<Rightarrow>
     (sched_error + unit) \<times> sched_db" where
  "app_DeleteBlock s f t p barber i d =
     (if \<not> authorize s t p barber True then (Inl SErrForbidden, d)
      else sched_mapRepo (repo_DeleteBlock f (TenantID t) barber i d))"

record availability_query =
  aq_Tenant :: tenant_ctx
  aq_Principal :: "sched_principal option"
  aq_BarberID :: uuid
  aq_ServiceID :: uuid
  aq_Date :: civil

definition day_ns :: duration where
  "day_ns = 86400000000000"

text \<open>The last lines of \<^verbatim>\<open>Availability\<close>: the windows, the occupancy and the slots.\<close>

definition availability_slots ::
  "sched_app \<Rightarrow> availability_query \<Rightarrow> dep_service \<Rightarrow> tenant_settings_view \<Rightarrow> zone \<Rightarrow> working_hours \<Rightarrow>
     override \<Rightarrow> blocked_period list \<Rightarrow> time \<Rightarrow> (sched_error + slot list) option" where
  "availability_slots s q svc settings z hours ov blocked now =
     (let localDate = zn_midnight z (aq_Date q);
          windows = IntervalsForDate hours ov localDate z;
          step = (if BookingIntervalMinutes settings < 1 then sa_fallbackInterval s
                  else BookingIntervalMinutes settings)
      in case sa_Occupied s (aq_Tenant q) (aq_BarberID q) (localDate - day_ns) (zn_AddDay z localDate + day_ns) of
           Inl (ErrOccupancyUnavailable _) \<Rightarrow> Some (Inl SErrOccupancyUnavailable)
         | Inl (OccOther _) \<Rightarrow> Some (Inl SErrUnavailable)
         | Inr occupied \<Rightarrow>
             map_option Inr (Available windows blocked occupied (DurationMinutes svc)
               (BufferBeforeMinutes svc) (BufferAfterMinutes svc) step now))"

definition app_Availability ::
  "sched_app \<Rightarrow> tx_fault \<Rightarrow> tx_fault \<Rightarrow> availability_query \<Rightarrow> time \<Rightarrow> sched_db \<Rightarrow>
     (sched_error + slot list) option \<times> sched_db" where
  "app_Availability s f1 f2 q now d =
     (if (case aq_Principal q of None \<Rightarrow> False | Some p \<Rightarrow> sp_Role p \<noteq> ''OWNER'' \<and> sp_Role p \<noteq> ''MANAGER'' \<and>
            sp_Role p \<noteq> ''BARBER'' \<and> sp_Role p \<noteq> ''RECEPTIONIST'')
      then (Some (Inl SErrForbidden), d)
      else if aq_BarberID q = uuid_nil \<or> aq_ServiceID q = uuid_nil \<or> aq_Date q = (1, 1, 1)
      then (Some (Inl SErrInvalid), d)
      else case sa_Barber s (aq_Tenant q) (aq_BarberID q) of
        Inl _ \<Rightarrow> (Some (Inl SErrNotFound), d)
      | Inr _ \<Rightarrow>
      (case sa_Service s (aq_Tenant q) (aq_BarberID q) (aq_ServiceID q) of
        Inl _ \<Rightarrow> (Some (Inl SErrNotFound), d)
      | Inr svc \<Rightarrow>
      (case sa_Settings s (aq_Tenant q) of
        Inl _ \<Rightarrow> (Some (Inl SErrUnavailable), d)
      | Inr settings \<Rightarrow>
      (case sa_zone s (Timezone settings) of
        None \<Rightarrow> (Some (Inl SErrZone), d)
      | Some z \<Rightarrow>
      (case repo_Hours f1 (TenantID (aq_Tenant q)) (aq_BarberID q) d of
        (Inl e, d1) \<Rightarrow> (Some (Inl (SErrRepo e)), d1)
      | (Inr hours, d1) \<Rightarrow>
      (case repo_Day f2 z (TenantID (aq_Tenant q)) (aq_BarberID q) (zn_midnight z (aq_Date q)) d1 of
        (Inl e, d2) \<Rightarrow> (Some (Inl (SErrRepo e)), d2)
      | (Inr (ov, blocked), d2) \<Rightarrow>
          (availability_slots s q svc settings z hours ov blocked now, d2)))))))"

section \<open>internal/handler\<close>

record sched_handler =
  sh_X :: externals
  sh_app :: sched_app
  sh_verify :: "string \<Rightarrow> bool"
  sh_auth :: auth_client
  sh_decode_hours :: "string \<Rightarrow> working_hours option"
  sh_decode_override :: "string \<Rightarrow> override_input option"
  sh_decode_block :: "string \<Rightarrow> blocked_input option"

record sched_io =
  si_f :: "nat \<Rightarrow> tx_fault"
  si_ids :: id_supply
  si_now :: time

datatype sched_body =
    SBodySchedule schedule
  | SBodyOverrides "override list"
  | SBodyOverride override
  | SBodyBlocks "blocked_period list"
  | SBodyBlock blocked_period
  | SBodySlots "slot list"

type_synonym sched_answer = "sched_body response \<times> sched_db"

definition sched_admin ::
  "sched_handler \<Rightarrow> fiber_ctx \<Rightarrow> sched_error + (tenant_ctx \<times> sched_principal \<times> uuid)" where
  "sched_admin h c =
     (case adminauth_Context (sh_X h) (sh_verify h) c of
        Inl _ \<Rightarrow> Inl SErrForbidden
      | Inr t \<Rightarrow>
        if AppType t \<noteq> ''admin'' then Inl SErrForbidden
        else (case uuid_Parse (sh_X h) (c_Params c ''barber_id'') of
           None \<Rightarrow> Inl SErrInvalid
         | Some b \<Rightarrow>
           (case Authenticate (sh_X h) (sh_auth h) t (c_Get c ''Cookie'') of
              Inl _ \<Rightarrow> Inl SErrForbidden
            | Inr p \<Rightarrow> Inr (t, \<lparr>sp_IdentityID = ap_IdentityID p, sp_Role = ap_Role p\<rparr>, b))))"

fun sendError :: "sched_error \<Rightarrow> int \<Rightarrow> sched_body response" where
  "sendError SErrInvalid conflict = SendStatus 400"
| "sendError SErrForbidden conflict = SendStatus 403"
| "sendError SErrNotFound conflict = SendStatus 404"
| "sendError SErrConflict conflict = SendStatus conflict"
| "sendError SErrOccupancyUnavailable conflict = JSONError 503 ''occupancy_unavailable''"
| "sendError SErrUnavailable conflict = SendStatus 502"
| "sendError (SErrRepo e) conflict = SendStatus 500"
| "sendError SErrZone conflict = SendStatus 500"

definition answer :: "int \<Rightarrow> ('a \<Rightarrow> sched_body response) \<Rightarrow> (sched_error + 'a) \<times> sched_db \<Rightarrow> sched_answer" where
  "answer conflict ok r = (case r of (Inl e, d) \<Rightarrow> (sendError e conflict, d) | (Inr v, d) \<Rightarrow> (ok v, d))"

definition h_schedule :: "sched_handler \<Rightarrow> sched_io \<Rightarrow> fiber_ctx \<Rightarrow> sched_db \<Rightarrow> sched_answer" where
  "h_schedule h io c d =
     (case sched_admin h c of
        Inl e \<Rightarrow> (sendError e 409, d)
      | Inr (t, p, b) \<Rightarrow>
          answer 409 (\<lambda>v. JSON 200 (SBodySchedule v)) (app_Schedule (sh_app h) (si_f io) t p b d))"

definition h_hours :: "sched_handler \<Rightarrow> sched_io \<Rightarrow> fiber_ctx \<Rightarrow> sched_db \<Rightarrow> sched_answer" where
  "h_hours h io c d =
     (case sched_admin h c of
        Inl e \<Rightarrow> (sendError e 409, d)
      | Inr (t, p, b) \<Rightarrow>
        (case sh_decode_hours h (c_Body c) of
           None \<Rightarrow> (SendStatus 400, d)
         | Some inp \<Rightarrow> answer 409 (\<lambda>_. SendStatus 204)
             (app_ReplaceHours (sh_app h) (si_f io 0) (si_ids io) t p b inp d)))"

definition h_overrides :: "sched_handler \<Rightarrow> sched_io \<Rightarrow> fiber_ctx \<Rightarrow> sched_db \<Rightarrow> sched_answer" where
  "h_overrides h io c d =
     (case sched_admin h c of
        Inl e \<Rightarrow> (sendError e 409, d)
      | Inr (t, p, b) \<Rightarrow>
          answer 409 (\<lambda>v. JSON 200 (SBodyOverrides v)) (app_Overrides (sh_app h) (si_f io 0) t p b d))"

definition h_saveOverride :: "sched_handler \<Rightarrow> string \<Rightarrow> sched_io \<Rightarrow> fiber_ctx \<Rightarrow> sched_db \<Rightarrow> sched_answer" where
  "h_saveOverride h method io c d =
     (case sched_admin h c of
        Inl e \<Rightarrow> (sendError e 409, d)
      | Inr (t, p, b) \<Rightarrow>
        (case sh_decode_override h (c_Body c) of
           None \<Rightarrow> (SendStatus 400, d)
         | Some inp \<Rightarrow>
           (case (if method = ''PATCH'' then uuid_Parse (sh_X h) (c_Params c ''id'') else Some uuid_nil) of
              None \<Rightarrow> (SendStatus 400, d)
            | Some oid \<Rightarrow>
                answer 409 (\<lambda>v. if oid = uuid_nil then JSON 201 (SBodyOverride v) else JSON 200 (SBodyOverride v))
                  (app_SaveOverride (sh_app h) (si_f io 0) (si_ids io) t p b oid inp d))))"

definition h_deleteOverride :: "sched_handler \<Rightarrow> sched_io \<Rightarrow> fiber_ctx \<Rightarrow> sched_db \<Rightarrow> sched_answer" where
  "h_deleteOverride h io c d =
     (case sched_admin h c of
        Inl e \<Rightarrow> (sendError e 500, d)
      | Inr (t, p, b) \<Rightarrow>
        (case uuid_Parse (sh_X h) (c_Params c ''id'') of
           None \<Rightarrow> (SendStatus 400, d)
         | Some oid \<Rightarrow> answer 500 (\<lambda>_. SendStatus 204) (app_DeleteOverride (sh_app h) (si_f io 0) t p b oid d)))"

definition h_blocks :: "sched_handler \<Rightarrow> sched_io \<Rightarrow> fiber_ctx \<Rightarrow> sched_db \<Rightarrow> sched_answer" where
  "h_blocks h io c d =
     (case sched_admin h c of
        Inl e \<Rightarrow> (sendError e 409, d)
      | Inr (t, p, b) \<Rightarrow>
          answer 409 (\<lambda>v. JSON 200 (SBodyBlocks v)) (app_Blocks (sh_app h) (si_f io 0) t p b d))"

definition h_saveBlock :: "sched_handler \<Rightarrow> sched_io \<Rightarrow> fiber_ctx \<Rightarrow> sched_db \<Rightarrow> sched_answer" where
  "h_saveBlock h io c d =
     (case sched_admin h c of
        Inl e \<Rightarrow> (sendError e 409, d)
      | Inr (t, p, b) \<Rightarrow>
        (case sh_decode_block h (c_Body c) of
           None \<Rightarrow> (SendStatus 400, d)
         | Some inp \<Rightarrow> answer 409 (\<lambda>v. JSON 201 (SBodyBlock v))
             (app_SaveBlock (sh_app h) (si_f io 0) (si_ids io) t p b inp d)))"

definition h_deleteBlock :: "sched_handler \<Rightarrow> sched_io \<Rightarrow> fiber_ctx \<Rightarrow> sched_db \<Rightarrow> sched_answer" where
  "h_deleteBlock h io c d =
     (case sched_admin h c of
        Inl e \<Rightarrow> (sendError e 500, d)
      | Inr (t, p, b) \<Rightarrow>
        (case uuid_Parse (sh_X h) (c_Params c ''id'') of
           None \<Rightarrow> (SendStatus 400, d)
         | Some bid \<Rightarrow> answer 500 (\<lambda>_. SendStatus 204) (app_DeleteBlock (sh_app h) (si_f io 0) t p b bid d)))"

definition availabilityInput ::
  "externals \<Rightarrow> fiber_ctx \<Rightarrow> tenant_ctx \<Rightarrow> sched_principal option \<Rightarrow> availability_query option" where
  "availabilityInput X c t p =
     (case (uuid_Parse X (c_Query c ''barber_id''), uuid_Parse X (c_Query c ''service_id''),
            parse_date (c_Query c ''date'')) of
        (Some b, Some s, Some date) \<Rightarrow>
          Some \<lparr>aq_Tenant = t, aq_Principal = p, aq_BarberID = b, aq_ServiceID = s, aq_Date = date\<rparr>
      | _ \<Rightarrow> None)"

text \<open>\<open>None\<close>: the handler does not return.\<close>

definition answer_slots :: "(sched_error + slot list) option \<times> sched_db \<Rightarrow> sched_answer option" where
  "answer_slots r = (case r of
     (None, d) \<Rightarrow> None
   | (Some (Inl e), d) \<Rightarrow> Some (sendError e 500, d)
   | (Some (Inr v), d) \<Rightarrow> Some (JSON 200 (SBodySlots v), d))"

definition h_availability :: "sched_handler \<Rightarrow> sched_io \<Rightarrow> fiber_ctx \<Rightarrow> sched_db \<Rightarrow> sched_answer option" where
  "h_availability h io c d =
     (case adminauth_Context (sh_X h) (sh_verify h) c of
        Inl _ \<Rightarrow> Some (SendStatus 401, d)
      | Inr t \<Rightarrow>
        if AppType t \<noteq> ''booking'' then Some (SendStatus 401, d)
        else (case availabilityInput (sh_X h) c t None of
           None \<Rightarrow> Some (SendStatus 400, d)
         | Some q \<Rightarrow> answer_slots (app_Availability (sh_app h) (si_f io 0) (si_f io 1) q (si_now io) d)))"

definition h_adminAvailability :: "sched_handler \<Rightarrow> sched_io \<Rightarrow> fiber_ctx \<Rightarrow> sched_db \<Rightarrow> sched_answer option" where
  "h_adminAvailability h io c d =
     (case adminauth_Context (sh_X h) (sh_verify h) c of
        Inl _ \<Rightarrow> Some (SendStatus 401, d)
      | Inr t \<Rightarrow>
        if AppType t \<noteq> ''admin'' then Some (SendStatus 401, d)
        else (case Authenticate (sh_X h) (sh_auth h) t (c_Get c ''Cookie'') of
           Inl _ \<Rightarrow> Some (SendStatus 403, d)
         | Inr p \<Rightarrow>
           (case availabilityInput (sh_X h) c t (Some \<lparr>sp_IdentityID = ap_IdentityID p, sp_Role = ap_Role p\<rparr>) of
              None \<Rightarrow> Some (SendStatus 400, d)
            | Some q \<Rightarrow> answer_slots (app_Availability (sh_app h) (si_f io 0) (si_f io 1) q (si_now io) d))))"

definition Interval :: "string \<Rightarrow> int" where
  "Interval v = (case Atoi v of None \<Rightarrow> 15 | Some n \<Rightarrow> if n < 1 then 15 else n)"

section \<open>Routes\<close>

datatype sched_route =
    SR_availability
  | SR_adminAvailability
  | SR_schedule
  | SR_hours
  | SR_overrides
  | SR_saveOverride string
  | SR_deleteOverride
  | SR_blocks
  | SR_saveBlock
  | SR_deleteBlock

definition Sched_Register :: "(string \<times> string \<times> sched_route) list" where
  "Sched_Register =
     [(''GET'', ''/internal/v1/public/availability'', SR_availability),
      (''GET'', ''/internal/v1/admin/availability'', SR_adminAvailability),
      (''GET'', ''/internal/v1/admin/barbers/:barber_id/schedule'', SR_schedule),
      (''PUT'', ''/internal/v1/admin/barbers/:barber_id/working-hours'', SR_hours),
      (''GET'', ''/internal/v1/admin/barbers/:barber_id/overrides'', SR_overrides),
      (''POST'', ''/internal/v1/admin/barbers/:barber_id/overrides'', SR_saveOverride ''POST''),
      (''PATCH'', ''/internal/v1/admin/barbers/:barber_id/overrides/:id'', SR_saveOverride ''PATCH''),
      (''DELETE'', ''/internal/v1/admin/barbers/:barber_id/overrides/:id'', SR_deleteOverride),
      (''GET'', ''/internal/v1/admin/barbers/:barber_id/blocked-periods'', SR_blocks),
      (''POST'', ''/internal/v1/admin/barbers/:barber_id/blocked-periods'', SR_saveBlock),
      (''DELETE'', ''/internal/v1/admin/barbers/:barber_id/blocked-periods/:id'', SR_deleteBlock)]"

fun sched_serve :: "sched_handler \<Rightarrow> sched_route \<Rightarrow> sched_io \<Rightarrow> fiber_ctx \<Rightarrow> sched_db \<Rightarrow> sched_answer option" where
  "sched_serve h SR_availability io c d = h_availability h io c d"
| "sched_serve h SR_adminAvailability io c d = h_adminAvailability h io c d"
| "sched_serve h SR_schedule io c d = Some (h_schedule h io c d)"
| "sched_serve h SR_hours io c d = Some (h_hours h io c d)"
| "sched_serve h SR_overrides io c d = Some (h_overrides h io c d)"
| "sched_serve h (SR_saveOverride m) io c d = Some (h_saveOverride h m io c d)"
| "sched_serve h SR_deleteOverride io c d = Some (h_deleteOverride h io c d)"
| "sched_serve h SR_blocks io c d = Some (h_blocks h io c d)"
| "sched_serve h SR_saveBlock io c d = Some (h_saveBlock h io c d)"
| "sched_serve h SR_deleteBlock io c d = Some (h_deleteBlock h io c d)"

end
