(* ===== verification/Sched_Policy.thy ===== *)
theory Sched_Policy
  imports Sched_App
begin

text \<open>
  Correctness of the scheduling services: availability always returns, closed days offer nothing,
  who may change a schedule, and the effect of moving an override with hours to another day.
\<close>

section \<open>Availability returns\<close>

lemma Interval_pos: "1 \<le> Interval v"
  by (simp add: Interval_def split: option.splits)

lemma windows_total: "0 < step \<Longrightarrow> step \<le> 150000000 \<Longrightarrow>
    \<exists>out. Available ws blocked occupied duration before after step now = Some out"
  by (simp add: Available_def windows_loop_total Minutes_pos)

lemma availability_slots_total:
  assumes "1 \<le> sa_fallbackInterval s" "sa_fallbackInterval s \<le> 150000000"
    and "BookingIntervalMinutes settings \<le> 150000000"
  shows "availability_slots s q svc settings z hours ov blocked now \<noteq> None"
proof -
  let ?step = "if BookingIntervalMinutes settings < 1 then sa_fallbackInterval s else BookingIntervalMinutes settings"
  have "0 < ?step" "?step \<le> 150000000" using assms by auto
  from windows_total [OF this] show ?thesis
    by (auto simp: availability_slots_def Let_def split: sum.splits occ_error.splits)
qed

text \<open>
  Every availability query returns, whatever the tenant configured as booking interval below
  the bound: an interval below one falls back to the service's own, which the configuration reader
  makes positive.
\<close>

theorem availability_returns:
  assumes "sa_fallbackInterval s = Interval v" and "Interval v \<le> 150000000"
    and "\<And>t settings. sa_Settings s t = Inr settings \<Longrightarrow> BookingIntervalMinutes settings \<le> 150000000"
  shows "\<exists>r. app_Availability s f1 f2 q now d = (Some r, snd (app_Availability s f1 f2 q now d))"
proof -
  have "availability_slots s q svc settings z hours ov blocked now \<noteq> None"
    if "sa_Settings s (aq_Tenant q) = Inr settings" for svc settings z hours ov blocked
    using that assms Interval_pos [of v] by (intro availability_slots_total) auto
  then have "fst (app_Availability s f1 f2 q now d) \<noteq> None"
    by (auto simp: app_Availability_def split: sum.splits option.splits prod.splits)
  then show ?thesis by (metis not_None_eq prod.collapse)
qed

section \<open>Overrides\<close>

lemma insert_intervals_overrides:
  "insert_intervals ids n ctx t o_id b date xs d = Inr d' \<Longrightarrow> sd_overrides d' = sd_overrides d"
proof (induction xs arbitrary: n d)
  case (Cons v xs)
  from Cons.prems obtain x d1 where "sql_insert_interval ctx x d = Inr d1"
    "insert_intervals ids (n + 1) ctx t o_id b date xs d1 = Inr d'"
    using insert_intervals_ConsD by blast
  with Cons.IH show ?case by (auto simp: sql_insert_interval_def split: if_splits)
qed simp

text \<open>A saved override is the only row of its barber and day.\<close>

lemma saved_override_row:
  assumes "sched_inv d" and "repo_SaveOverride f ids t b i inp d = (Inr v, d')" and "ids 0 \<noteq> uuid_nil"
  obtains r date where "cast_date (oi_Date inp) = Inr date" "vr_id r \<noteq> uuid_nil" "vr_kind r = oi_Kind inp"
    "find (\<lambda>r. vr_tenant r = t \<and> vr_barber r = b \<and> vr_date r = date) (sd_overrides d') = Some r"
proof -
  from assms(2) have "sched_inv d'" using repo_SaveOverride_inv [OF assms(1), of f ids t b i inp] by simp
  then have inv: "overrides_wf d'" by (simp add: sched_inv_def)
  from assms(2) obtain date r d1 where date: "cast_date (oi_Date inp) = Inr date"
    and up: "upsert_override (ids 0) t t b i date (oi_Kind inp) d = Inr (r, d1)"
    and ins: "insert_intervals ids 1 t t (vr_id r) b date (oi_Intervals inp) (sql_delete_intervals t (vr_id r) d1) = Inr d'"
    unfolding repo_SaveOverride_def WithTenantTx_ok by (elim conjE SaveOverride_body) blast
  have mem: "r \<in> set (sd_overrides d1) \<and> vr_tenant r = t \<and> vr_barber r = b \<and> vr_date r = date \<and>
      vr_kind r = oi_Kind inp \<and> vr_id r \<noteq> uuid_nil"
  proof (cases "i = uuid_nil")
    case True
    with up assms(3) show ?thesis
      by (auto simp: upsert_override_def Let_def sql_insert_override_def split: sum.splits if_splits)
  next
    case False
    with up have "sql_update_override t b i date (oi_Kind inp) d = Inr (r, d1)" by (simp add: upsert_override_def)
    then show ?thesis using False by (elim sql_update_overrideD) (auto simp: image_iff)
  qed
  have "sd_overrides d' = sd_overrides d1"
    using insert_intervals_overrides [OF ins] by (simp add: sql_delete_intervals_def)
  with mem have r: "r \<in> set (sd_overrides d')" by simp
  have "find (\<lambda>r. vr_tenant r = t \<and> vr_barber r = b \<and> vr_date r = date) (sd_overrides d') = Some r"
  proof (rule find_unique [where key = vr_id])
    show "vr_id y = vr_id r" if "y \<in> set (sd_overrides d')" "vr_tenant y = t \<and> vr_barber y = b \<and> vr_date y = date" for y
      using inv that r mem unfolding overrides_wf_def same_day_def by metis
  qed (use inv r mem in \<open>auto simp: overrides_wf_def\<close>)
  with date mem show thesis by (intro that) auto
qed

text \<open>
  A day off is a day off. Once an override of kind unavailable or vacation was saved for a day,
  availability for that day offers no slot, whatever the weekly hours say.
\<close>

theorem day_off_offers_nothing:
  assumes "sched_inv d" and "repo_SaveOverride f ids (TenantID t) b i inp d = (Inr v, d')"
    and "ids 0 \<noteq> uuid_nil" and "oi_Kind inp \<noteq> ''custom_hours''"
    and "cast_date (oi_Date inp) = Inr (aq_Date q)" and "aq_Tenant q = t" and "aq_BarberID q = b"
    and "\<And>tz z. sa_zone s tz = Some z \<Longrightarrow> zn_civil z (zn_midnight z (aq_Date q)) = aq_Date q"
    and "app_Availability s f1 f2 q now d' = (Some (Inr slots), d'')"
  shows "slots = []"
proof -
  obtain r date where date: "cast_date (oi_Date inp) = Inr date"
    and r: "vr_id r \<noteq> uuid_nil" "vr_kind r = oi_Kind inp"
    and found: "find (\<lambda>r. vr_tenant r = TenantID t \<and> vr_barber r = b \<and> vr_date r = date) (sd_overrides d') = Some r"
    by (rule saved_override_row [OF assms(1,2,3)])
  have eq: "date = aq_Date q" using date assms(5) by simp
  have closed: "IntervalsForDate hours (to_override tt dd r) date z = []" for hours tt dd date z
    using r(1,2) assms(4) by (simp add: IntervalsForDate_def to_override_def)
  from assms(9) obtain svc settings z hours ov blocked where
    z: "sa_zone s (Timezone settings) = Some z"
    and day: "repo_Day f2 z (TenantID t) b (zn_midnight z (aq_Date q)) d' = (Inr (ov, blocked), d'')"
    and slots: "availability_slots s q svc settings z hours ov blocked now = Some (Inr slots)"
    using assms(6,7)
    by (auto simp: app_Availability_def repo_Hours_def WithTenantTx_ok
        split: if_splits sum.splits option.splits prod.splits)
  from day have "ov = to_override (TenantID t) d' r"
    using assms(8) [OF z] found eq by (auto simp: repo_Day_def WithTenantTx_ok Let_def)
  with slots closed show ?thesis
    by (auto simp: availability_slots_def Let_def Available_def split: sum.splits occ_error.splits)
qed

text \<open>
  (C14) Moving an override with hours to another day always fails. The update changes the key its
  intervals still refer to, before the statement that would delete them; the foreign key refuses it,
  the transaction is rolled back, and the application reports a conflict although the day is free.
\<close>

theorem override_move_conflicts:
  assumes "r \<in> set (sd_overrides d)" and "sched_inv d" and "x \<in> set (sd_intervals d)" and "refers r x"
    and "vr_id r \<noteq> uuid_nil" and "cast_date (oi_Date inp) = Inr date" and "date \<noteq> vr_date r"
    and "\<forall>r' \<in> set (sd_overrides d). \<not> (vr_tenant r' = vr_tenant r \<and> vr_barber r' = vr_barber r \<and> vr_date r' = date)"
    and "authorize s t p (vr_barber r) True" and "validOverride inp" and "TenantID t = vr_tenant r"
  shows "app_SaveOverride s NoFault ids t p (vr_barber r) (vr_id r) inp d = (Inl SErrConflict, d)"
proof -
  have find: "find (\<lambda>y. vr_tenant y = vr_tenant r \<and> vr_barber y = vr_barber r \<and> vr_id y = vr_id r) (sd_overrides d) = Some r"
    using assms(1,2) by (intro find_unique [where key = vr_id]) (auto simp: sched_inv_def overrides_wf_def)
  have kind: "override_kind (oi_Kind inp)"
    using assms(10) by (auto simp: validOverride_def override_kind_def split: if_splits)
  have "sql_update_override (vr_tenant r) (vr_barber r) (vr_id r) date (oi_Kind inp) d = Inl (PgError ''23503'')"
    using find kind assms(3,4,7,8)
    by (auto simp: sql_update_override_def Let_def list_ex_iff same_day_def)
  then have "repo_SaveOverride NoFault ids (vr_tenant r) (vr_barber r) (vr_id r) inp d = (Inl (PgError ''23503''), d)"
    using assms(5,6) by (simp add: repo_SaveOverride_def WithTenantTx_NoFault upsert_override_def)
  with assms(9-11) show ?thesis by (simp add: app_SaveOverride_def)
qed

section \<open>Who may change a schedule\<close>

lemma sched_reads_frame:
  "snd (repo_Hours f t b d) = d" "snd (repo_Overrides f t b d) = d" "snd (repo_Blocks f t b d) = d"
  "snd (repo_Day f z t b date d) = d"
  unfolding repo_Hours_def repo_Overrides_def repo_Blocks_def repo_Day_def Let_def
  by (rule WithTenantTx_inv [where P = "\<lambda>x. x = d"], auto)+

lemma sched_reads_frameD:
  "repo_Hours f t b d = (q1, d') \<Longrightarrow> d' = d" "repo_Overrides f t b d = (q2, d') \<Longrightarrow> d' = d"
  "repo_Blocks f t b d = (q3, d') \<Longrightarrow> d' = d" "repo_Day f z t b date d = (q4, d') \<Longrightarrow> d' = d"
  using sched_reads_frame by (metis snd_conv)+

lemma app_reads_frame:
  "snd (app_Schedule s ff t p b d) = d" "snd (app_Overrides s f t p b d) = d" "snd (app_Blocks s f t p b d) = d"
  "snd (app_Availability s f1 f2 q now d) = d"
  by (auto simp: app_Schedule_def app_Overrides_def app_Blocks_def app_Availability_def plainRepo_def
      split: sum.splits prod.splits option.splits dest!: sched_reads_frameD)

lemma app_writes_authorized:
  "snd (app_ReplaceHours s f ids t p b inp d) \<noteq> d \<Longrightarrow> authorize s t p b True"
  "snd (app_SaveOverride s f ids t p b i oin d) \<noteq> d \<Longrightarrow> authorize s t p b True"
  "snd (app_DeleteOverride s f t p b i d) \<noteq> d \<Longrightarrow> authorize s t p b True"
  "snd (app_SaveBlock s f ids t p b bin d) \<noteq> d \<Longrightarrow> authorize s t p b True"
  "snd (app_DeleteBlock s f t p b i d) \<noteq> d \<Longrightarrow> authorize s t p b True"
  by (auto simp: app_ReplaceHours_def app_SaveOverride_def app_DeleteOverride_def app_SaveBlock_def
      app_DeleteBlock_def split: if_splits)

lemma answer_snd [simp]: "snd (answer n ok r) = snd r"
  by (auto simp: answer_def split: prod.splits sum.splits)

lemma answer_slots_snd: "answer_slots r = Some a \<Longrightarrow> snd a = snd r"
  by (auto simp: answer_slots_def split: prod.splits sum.splits option.splits)

lemma sched_read_routes:
  "snd (h_schedule h io c d) = d" "snd (h_overrides h io c d) = d" "snd (h_blocks h io c d) = d"
  "h_availability h io c d = Some a \<Longrightarrow> snd a = d" "h_adminAvailability h io c d = Some a \<Longrightarrow> snd a = d"
  by (auto simp: h_schedule_def h_overrides_def h_blocks_def h_availability_def h_adminAvailability_def
      app_reads_frame split: sum.splits prod.splits option.splits if_splits dest!: answer_slots_snd)

lemma sched_admin_Inr:
  "sched_admin h c = Inr (t, p, b) \<Longrightarrow>
     adminauth_Context (sh_X h) (sh_verify h) c = Inr t \<and> AppType t = ''admin'' \<and>
     uuid_Parse (sh_X h) (c_Params c ''barber_id'') = Some b \<and>
     (\<exists>q. Authenticate (sh_X h) (sh_auth h) t (c_Get c ''Cookie'') = Inr q \<and>
        sp_Role p = ap_Role q \<and> sp_IdentityID p = ap_IdentityID q)"
  by (auto simp: sched_admin_def split: sum.splits option.splits if_splits)

lemma authorize_write:
  "authorize s t p b True \<Longrightarrow> sp_Role p = ''OWNER'' \<or> sp_Role p = ''MANAGER'' \<or>
     sp_Role p = ''BARBER'' \<and> (\<exists>rec. sa_Barber s t b = Inr rec \<and> db_IdentityID rec = Some (sp_IdentityID p))"
  by (cases "sa_Barber s t b") (auto simp: authorize_def split: if_splits)

definition sched_writer :: "sched_handler \<Rightarrow> fiber_ctx \<Rightarrow> bool" where
  "sched_writer h c \<longleftrightarrow> (\<exists>t p b. sched_admin h c = Inr (t, p, b) \<and> authorize (sh_app h) t p b True)"

lemma sched_write_routes:
  "snd (h_hours h io c d) \<noteq> d \<Longrightarrow> sched_writer h c"
  "snd (h_saveOverride h m io c d) \<noteq> d \<Longrightarrow> sched_writer h c"
  "snd (h_deleteOverride h io c d) \<noteq> d \<Longrightarrow> sched_writer h c"
  "snd (h_saveBlock h io c d) \<noteq> d \<Longrightarrow> sched_writer h c"
  "snd (h_deleteBlock h io c d) \<noteq> d \<Longrightarrow> sched_writer h c"
  by (auto simp: h_hours_def h_saveOverride_def h_deleteOverride_def h_saveBlock_def h_deleteBlock_def
      sched_writer_def split: sum.splits prod.splits option.splits dest!: app_writes_authorized)

text \<open>
  Schedules are changed by their owners only. When a request changes the tables, it carried a
  trusted admin context and a valid session of an owner, a manager, or of the very barber the
  schedule belongs to.
\<close>

theorem schedule_changes_authorized:
  assumes "sched_serve h route io c d = Some (resp, d')" and "d' \<noteq> d"
  shows "\<exists>t b p. adminauth_Context (sh_X h) (sh_verify h) c = Inr t \<and> AppType t = ''admin'' \<and>
    uuid_Parse (sh_X h) (c_Params c ''barber_id'') = Some b \<and>
    Authenticate (sh_X h) (sh_auth h) t (c_Get c ''Cookie'') = Inr p \<and>
    (ap_Role p = ''OWNER'' \<or> ap_Role p = ''MANAGER'' \<or>
     ap_Role p = ''BARBER'' \<and> (\<exists>rec. sa_Barber (sh_app h) t b = Inr rec \<and> db_IdentityID rec = Some (ap_IdentityID p)))"
proof -
  have "sched_writer h c"
  proof (cases route)
    case SR_availability
    with assms sched_read_routes(4) show ?thesis by fastforce
  next
    case SR_adminAvailability
    with assms sched_read_routes(5) show ?thesis by fastforce
  qed (use assms sched_read_routes(1-3) sched_write_routes in \<open>(metis sched_serve.simps option.inject snd_conv)+\<close>)
  then show ?thesis unfolding sched_writer_def
    by (elim exE conjE) (frule sched_admin_Inr, drule authorize_write, fastforce)
qed

section \<open>The store over time\<close>

text \<open>
  In every state the operations can produce, two different working-hour rows of one barber and
  weekday do not overlap.
\<close>

theorem weekly_hours_disjoint:
  assumes "d = run_ops exec_sched ops empty_sched_db" and "r \<in> set (sd_hours d)" and "r' \<in> set (sd_hours d)"
    and "hr_id r \<noteq> hr_id r'" and "hr_tenant r = hr_tenant r'" and "hr_barber r = hr_barber r'"
    and "hr_weekday r = hr_weekday r'"
  shows "hr_end r \<le> hr_start r' \<or> hr_end r' \<le> hr_start r"
proof -
  have "hours_wf d" using sched.invar_reachable [of ops] assms(1) by (simp add: sched_inv_def)
  with assms(2-4) have "\<not> hours_clash r r'" by (simp add: hours_wf_def)
  with assms(5-7) show ?thesis by (auto simp: hours_clash_def time_overlap_def)
qed

text \<open>
  Tenants do not see each other's writes. Whatever other tenants do after any history, the
  hours, overrides, intervals and blocked periods of a tenant stay as they were.
\<close>

lemma schedules_tenant_isolated:
  assumes "list_all (\<lambda>x. sched_op_tenant x \<noteq> Some t) ops"
  shows "sched_view t (run_ops exec_sched (history @ ops) empty_sched_db) =
    sched_view t (run_ops exec_sched history empty_sched_db)"
  unfolding run_ops_append using sched.view_run [OF sched.invar_reachable assms] .

end
