(* ===== verification/Booking_Flow.thy ===== *)
theory Booking_Flow
  imports Appt_Access Sched_Policy
begin

text \<open>
  scheduling-service and appointment-service together: the slots the one offers, with the occupancy
  the other reports, are slots the other accepts.
\<close>

text \<open>
  What the occupancy endpoint of appointment-service answers over its tables, as the occupancy client
  of scheduling-service receives it.
\<close>

definition store_occupancy ::
  "appt_db \<Rightarrow> tenant_ctx \<Rightarrow> uuid \<Rightarrow> time \<Rightarrow> time \<Rightarrow> occ_error + blocked_period list" where
  "store_occupancy d t barber from to =
     (case query_Occupancy NoFault (TenantID t) barber from to d of
        (Inl _, _) \<Rightarrow> Inl (ErrOccupancyUnavailable ''status'')
      | (Inr v, _) \<Rightarrow> Inr (occupied_periods (map (\<lambda>a. (a_OccupiedStartAt a, a_OccupiedEndAt a)) v)))"

lemma store_occupancy_Inr:
  assumes "appts_wf d" and "store_occupancy d t barber from to = Inr ps"
    and "r \<in> set (appointments d)" and "occupancy_row (TenantID t) barber from to r"
  shows "\<exists>x \<in> set ps. bp_StartAt x = r_occupied_start_at r \<and> bp_EndAt x = r_occupied_end_at r"
proof -
  have "r_occupied_start_at r < r_occupied_end_at r" using assms(1,3) by (auto simp: appts_wf_def row_checks_def)
  moreover have "ps = occupied_periods (map (\<lambda>r. (r_occupied_start_at r, r_occupied_end_at r))
      (filter (occupancy_row (TenantID t) barber from to) (appointments d)))"
    using assms(2)
    by (auto simp: store_occupancy_def query_Occupancy_def repo_Occupancy_def WithTenantTx_NoFault mapRepo_def
        scan_def comp_def split: if_splits)
  ultimately show ?thesis using assms(3,4) by (force simp: occupied_periods_def)
qed

text \<open>Windows of a day lie within the twenty-four hours after its midnight.\<close>

lemma windows_in_day:
  assumes "w \<in> set (IntervalsForDate hours ov date z)" and "zn_midnight z (zn_civil z date) = date"
  shows "date \<le> sl_StartAt w \<and> sl_EndAt w < date + day_ns"
proof -
  from assms obtain v where "0 \<le> iv_s v" "0 \<le> iv_e v"
    "w = \<lparr>sl_StartAt = date + iv_s v, sl_EndAt = date + iv_e v\<rparr>"
    by (auto simp: IntervalsForDate_def window_of_def wall_eq split: if_splits)
  moreover have "iv_e v < day_ns" if "0 \<le> iv_e v" for v
    using parseWall_range [of "iv_End v"] that by (auto simp: iv_e_def day_ns_def hour_ns_def)
  ultimately show ?thesis by auto
qed

lemma Minutes_add:
  "\<bar>m\<bar> \<le> 1440 \<Longrightarrow> \<bar>n\<bar> \<le> 1440 \<Longrightarrow> Minutes (m + n) = Minutes m + Minutes n"
  by (simp add: Minutes_exact algebra_simps)

definition service_ok :: "dep_service \<Rightarrow> bool" where
  "service_ok svc \<longleftrightarrow> 0 < DurationMinutes svc \<and> DurationMinutes svc \<le> 1440 \<and> 0 \<le> BufferBeforeMinutes svc \<and>
     BufferBeforeMinutes svc \<le> 1440 \<and> 0 \<le> BufferAfterMinutes svc \<and> BufferAfterMinutes svc \<le> 1440"

lemma service_minutes:
  assumes "service_ok svc"
  shows "0 < Minutes (DurationMinutes svc)" "0 \<le> Minutes (BufferAfterMinutes svc)"
    "Minutes (- BufferBeforeMinutes svc) \<le> 0"
    "Minutes (DurationMinutes svc + BufferAfterMinutes svc) = Minutes (DurationMinutes svc) + Minutes (BufferAfterMinutes svc)"
  using assms by (auto simp: service_ok_def Minutes_exact nanosecond_per_minute_def algebra_simps)

text \<open>Every active appointment that would overlap an offered slot was in the occupancy answer.\<close>

lemma offered_slot_free:
  assumes "appt_inv d" and "sa_Occupied s = store_occupancy d" and "service_ok svc"
    and "zn_civil z (zn_midnight z (aq_Date q)) = aq_Date q"
    and "zn_midnight z (aq_Date q) \<le> zn_AddDay z (zn_midnight z (aq_Date q))"
    and "1 \<le> sa_fallbackInterval s" and "sa_fallbackInterval s \<le> 150000000"
    and "BookingIntervalMinutes settings \<le> 150000000"
    and "availability_slots s q svc settings z hours ov blocked now = Some (Inr slots)" and "slot \<in> set slots"
  shows "cal_free (calendar_of (TenantID (aq_Tenant q)) (aq_BarberID q) d) i
    (sl_StartAt slot + Minutes (- BufferBeforeMinutes svc))
    (sl_StartAt slot + Minutes (DurationMinutes svc) + Minutes (BufferAfterMinutes svc))"
proof -
  let ?mid = "zn_midnight z (aq_Date q)" and ?t = "aq_Tenant q" and ?b = "aq_BarberID q"
  let ?step = "if BookingIntervalMinutes settings < 1 then sa_fallbackInterval s else BookingIntervalMinutes settings"
  have wf: "appts_wf d" using assms(1) by (simp add: appt_inv_def)
  have step: "0 < Minutes ?step" using assms(6-8) by (intro Minutes_pos) auto
  from assms(9) obtain occupied where
    occ: "store_occupancy d ?t ?b (?mid - day_ns) (zn_AddDay z ?mid + day_ns) = Inr occupied"
    and av: "Available (IntervalsForDate hours ov ?mid z) blocked occupied (DurationMinutes svc)
      (BufferBeforeMinutes svc) (BufferAfterMinutes svc) ?step now = Some slots"
    unfolding availability_slots_def Let_def assms(2) by (auto split: sum.splits occ_error.splits)
  from av assms(10) obtain w where w: "w \<in> set (IntervalsForDate hours ov ?mid z)"
    and off: "offers w (blocked @ occupied) (DurationMinutes svc) (BufferBeforeMinutes svc)
      (BufferAfterMinutes svc) now (sl_StartAt slot)"
    and fit: "sl_StartAt slot + Minutes (DurationMinutes svc + BufferAfterMinutes svc) \<le> sl_EndAt w"
    unfolding Available_def windows_loop_total [OF step]
    by (auto simp: slots_at_mem grid_size_iff [OF step])
  note day = windows_in_day [OF w assms(4) [THEN arg_cong]]
  have lo: "?mid \<le> sl_StartAt slot + Minutes (- BufferBeforeMinutes svc)"
    using off day by (auto simp: offers_def Let_def)
  have hi: "sl_StartAt slot + Minutes (DurationMinutes svc) + Minutes (BufferAfterMinutes svc) < ?mid + day_ns"
    using fit day service_minutes(4) [OF assms(3)] by simp
  show ?thesis unfolding cal_free_def calendar_of_Some [OF wf]
  proof (intro allI impI notI, elim bexE conjE)
    fix j s' e' r
    assume r: "r \<in> set (appointments d)" "r_tenant_id r = TenantID ?t" "r_barber_id r = ?b"
      "active_status (r_status r)" "r_occupied_start_at r = s'" "r_occupied_end_at r = e'"
      and ov: "overlaps (sl_StartAt slot + Minutes (- BufferBeforeMinutes svc))
        (sl_StartAt slot + Minutes (DurationMinutes svc) + Minutes (BufferAfterMinutes svc)) s' e'"
    have "occupancy_row (TenantID ?t) ?b (?mid - day_ns) (zn_AddDay z ?mid + day_ns) r"
      using r ov lo hi assms(5) by (auto simp: occupancy_row_def overlaps_def day_ns_def)
    then obtain x where "x \<in> set occupied" "bp_StartAt x = s'" "bp_EndAt x = e'"
      using store_occupancy_Inr [OF wf occ r(1)] r(5,6) by blast
    with off ov service_minutes(4) [OF assms(3)] show False
      by (auto simp: offers_def Let_def overlaps_def list_ex_iff)
  qed
qed

text \<open>Once every check of the booking has passed, the tables accept the offered slot.\<close>

lemma offered_slot_commits:
  assumes "appt_inv d" and "sa_Occupied s = store_occupancy d" and "service_ok svc"
    and "zn_civil z (zn_midnight z (aq_Date q)) = aq_Date q"
    and "zn_midnight z (aq_Date q) \<le> zn_AddDay z (zn_midnight z (aq_Date q))"
    and "1 \<le> sa_fallbackInterval s" and "sa_fallbackInterval s \<le> 150000000"
    and "BookingIntervalMinutes settings \<le> 150000000"
    and "availability_slots s q svc settings z hours ov blocked now = Some (Inr slots)" and "slot \<in> set slots"
    and "cmd_Tenant cmd = aq_Tenant q" and "i_BarberID inp = aq_BarberID q" and "i_StartAt inp = sl_StartAt slot"
    and "d_BranchBarber D (cmd_Tenant cmd) (i_BranchID inp) (i_BarberID inp) = Inr ()"
    and "d_Barber D (cmd_Tenant cmd) (i_BarberID inp) = Inr ()"
    and "d_Service D (cmd_Tenant cmd) (i_BarberID inp) (i_ServiceID inp) = Inr svc"
    and "d_Available D (cmd_Tenant cmd) inp (i_StartAt inp) = Inr ()"
    and "fresh_env env d" and "valid_key (cmd_IdempotencyKey cmd) fp"
    and "sql_find_key (TenantID (cmd_Tenant cmd)) sc (cmd_Operation cmd) (cmd_IdempotencyKey cmd) d = None"
  shows "\<exists>a d'. booking_commit D NoFault env cmd inp sc fp d = (Inr a, d') \<and> a_Status a = ''pending'' \<and>
    a_StartAt a = sl_StartAt slot \<and> a_EndAt a = sl_EndAt slot \<and>
    calendar_of (TenantID (cmd_Tenant cmd)) (i_BarberID inp) d' (a_ID a) = Some (a_OccupiedStartAt a, a_OccupiedEndAt a)"
proof -
  let ?t = "TenantID (cmd_Tenant cmd)" and ?e = "i_StartAt inp + Minutes (DurationMinutes svc)"
  let ?os = "i_StartAt inp + Minutes (- BufferBeforeMinutes svc)"
  let ?oe = "i_StartAt inp + Minutes (DurationMinutes svc) + Minutes (BufferAfterMinutes svc)"
  note m = service_minutes [OF assms(3)]
  have free: "cal_free (calendar_of ?t (i_BarberID inp) d) (pg_uuid env 0) ?os ?oe"
    using offered_slot_free [OF assms(1-10)] assms(11-13) by simp
  have "i_StartAt inp < ?e" "?os < ?oe" using m by auto
  from Create_fresh_decides(1) [OF assms(1,18,19,20) this free] obtain d' where
    fr: "repo_Create_fresh env ?t inp ?e ?os ?oe sc (cmd_Operation cmd) (cmd_IdempotencyKey cmd) fp ?t d =
      Inr (scan (new_appointment_row env ?t inp ?e ?os ?oe), d')" by blast
  then have "repo_Create NoFault env ?t inp ?e ?os ?oe sc (cmd_Operation cmd) (cmd_IdempotencyKey cmd) fp d =
      (Inr (scan (new_appointment_row env ?t inp ?e ?os ?oe)), d')"
    using assms(20) by (cases "cmd_IdempotencyKey cmd = []") (simp_all add: repo_Create_def WithTenantTx_NoFault)
  then have "booking_commit D NoFault env cmd inp sc fp d = (Inr (scan (new_appointment_row env ?t inp ?e ?os ?oe)), d')"
    using assms(14-17) by (simp add: booking_commit_def Let_def mapRepo_def)
  moreover have "sl_EndAt slot = sl_StartAt slot + Minutes (DurationMinutes svc)"
  proof -
    have step: "0 < Minutes (if BookingIntervalMinutes settings < 1 then sa_fallbackInterval s
        else BookingIntervalMinutes settings)" using assms(6-8) by (intro Minutes_pos) auto
    from assms(9,10) show ?thesis
      by (auto simp: availability_slots_def Let_def Available_def windows_loop_total [OF step] slots_at_mem
          split: sum.splits occ_error.splits)
  qed
  moreover have "calendar_of ?t (i_BarberID inp) d' (pg_uuid env 0) = Some (?os, ?oe)"
    using Create_fresh_calendar [OF assms(1) fr] by simp
  ultimately show ?thesis using assms(13) by (auto simp: scan_def)
qed

section \<open>The availability check over HTTP\<close>

text \<open>
  The request of appointment-service's client, the context scheduling-service's handler sees for it,
  and its answer as the client receives it; \<open>enc\<close> is the JSON text of a list of slots.
\<close>

definition availability_request ::
  "externals \<Rightarrow> appt_client \<Rightarrow> tenant_ctx \<Rightarrow> uuid \<Rightarrow> uuid \<Rightarrow> string \<Rightarrow> http_req" where
  "availability_request X cl t b sv date =
     \<lparr>hr_method = ''GET'', hr_url = ac_schedulingURL cl @ ''/internal/v1/public/availability?'' @
        availability_url X b sv date, hr_headers = tenant_headers X (ac_svc_token cl) t\<rparr>"

definition availability_ctx :: "externals \<Rightarrow> string \<Rightarrow> tenant_ctx \<Rightarrow> uuid \<Rightarrow> uuid \<Rightarrow> string \<Rightarrow> fiber_ctx" where
  "availability_ctx X token t b sv date =
     \<lparr>c_Get = (\<lambda>n. case map_of (tenant_headers X token t) n of None \<Rightarrow> [] | Some v \<Rightarrow> v), c_Params = (\<lambda>_. []),
      c_Query = (\<lambda>n. if n = ''barber_id'' then uuid_String X b else if n = ''service_id'' then uuid_String X sv
        else if n = ''date'' then date else []), c_Body = []\<rparr>"

definition slots_response :: "(slot list \<Rightarrow> string) \<Rightarrow> sched_answer option \<Rightarrow> http_resp" where
  "slots_response enc r = (case r of
     None \<Rightarrow> TransportError ''timeout''
   | Some (SendStatus status, _) \<Rightarrow> Response status []
   | Some (JSONError status e, _) \<Rightarrow> Response status e
   | Some (JSON status (SBodySlots v), _) \<Rightarrow> Response status (enc v)
   | Some (JSON status _, _) \<Rightarrow> Response status [])"

text \<open>
  \<open>scheduling_served\<close>: the check of a tenant's booking of this barber, service and date reaches the
  handler \<open>h\<close> of scheduling-service over its tables \<open>ds\<close> and gets its answer; both services hold the
  same internal token and ask the same barber, catalog and tenant services; identifiers survive
  printing and parsing, and the start times of slots survive JSON.
\<close>

definition scheduling_served ::
  "externals \<Rightarrow> appt_client \<Rightarrow> (slot list \<Rightarrow> string) \<Rightarrow> sched_handler \<Rightarrow> sched_io \<Rightarrow> sched_db \<Rightarrow>
     tenant_ctx \<Rightarrow> uuid \<Rightarrow> uuid \<Rightarrow> string \<Rightarrow> bool" where
  "scheduling_served X cl enc h io ds t b sv date \<longleftrightarrow>
     ac_http cl (availability_request X cl t b sv date) =
       slots_response enc (h_availability h io (availability_ctx X (ac_svc_token cl) t b sv date) ds) \<and>
     (\<forall>v. ac_decode_slots cl (enc v) = Some (map sl_StartAt v)) \<and>
     sh_X h = X \<and> (\<forall>i. uuid_Parse X (uuid_String X i) = Some i) \<and> sh_verify h (ac_svc_token cl) \<and>
     sa_Barber (sh_app h) = sd_Barber X (ac_deps cl) \<and> sa_Service (sh_app h) = sd_Service X (ac_deps cl) \<and>
     sa_Settings (sh_app h) = sd_Settings X (ac_deps cl)"

lemma availability_ctx_headers [simp]:
  "c_Get (availability_ctx X token t b sv date) InternalHeaderName = token"
  "c_Get (availability_ctx X token t b sv date) TenantIDHeader = uuid_String X (TenantID t)"
  "c_Get (availability_ctx X token t b sv date) AppTypeHeader = AppType t"
  "c_Get (availability_ctx X token t b sv date) RequestIDHeader = RequestID t"
  by (simp_all add: availability_ctx_def tenant_headers_def InternalHeaderName_def TenantIDHeader_def
      AppTypeHeader_def RequestIDHeader_def)

lemma availability_ctx_context:
  assumes "\<forall>i. uuid_Parse X (uuid_String X i) = Some i" and "verify token"
    and "AppType t = ''booking'' \<or> AppType t = ''admin''"
  shows "adminauth_Context X verify (availability_ctx X token t b sv date) = Inr t"
  using assms by (auto simp: adminauth_Context_def tenantctx_New_def)

lemma availability_ctx_input:
  assumes "\<forall>i. uuid_Parse X (uuid_String X i) = Some i" and "parse_date date = Some c"
  shows "availabilityInput X (availability_ctx X token t b sv date) t None =
    Some \<lparr>aq_Tenant = t, aq_Principal = None, aq_BarberID = b, aq_ServiceID = sv, aq_Date = c\<rparr>"
  using assms by (simp add: availabilityInput_def availability_ctx_def)

text \<open>The client's check, once scheduling-service answers it.\<close>

lemma client_Available_served:
  assumes "scheduling_served X cl enc h io ds t (i_BarberID inp) (i_ServiceID inp) date"
    and "sd_Settings X (ac_deps cl) t = Inr settings"
    and "ac_local_date cl (Timezone settings) start = Some date"
  shows "client_Available X cl t inp start =
    (case slots_response enc (h_availability h io
        (availability_ctx X (ac_svc_token cl) t (i_BarberID inp) (i_ServiceID inp) date) ds) of
       TransportError e \<Rightarrow> Inl (DepTransport e)
     | Response status body \<Rightarrow>
         if status < 200 \<or> status > 299 then Inl (DepOther ''scheduling rejected slot'')
         else (case ac_decode_slots cl body of
           None \<Rightarrow> Inl DepDecode
         | Some slots \<Rightarrow>
             if list_ex (\<lambda>slot. slot = start) slots then Inr ()
             else Inl (DepOther ''requested slot unavailable'')))"
  using assms unfolding client_Available_def scheduling_served_def availability_request_def by simp

text \<open>
  The check passes for a booking context when availability offers a slot at that instant. A change of
  the clock alone does not withdraw a slot before its start.
\<close>

lemma client_Available_offered:
  assumes "scheduling_served X cl enc h io ds t (i_BarberID inp) (i_ServiceID inp) date"
    and "sd_Settings X (ac_deps cl) t = Inr settings"
    and "ac_local_date cl (Timezone settings) start = Some date" and "parse_date date = Some c"
    and "AppType t = ''booking''"
    and "app_Availability (sh_app h) (si_f io 0) (si_f io 1)
      \<lparr>aq_Tenant = t, aq_Principal = None, aq_BarberID = i_BarberID inp, aq_ServiceID = i_ServiceID inp, aq_Date = c\<rparr>
      (si_now io) ds = (Some (Inr slots), ds')"
    and "slot \<in> set slots" and "sl_StartAt slot = start"
  shows "client_Available X cl t inp start = Inr ()"
proof -
  have X: "sh_X h = X" "\<forall>i. uuid_Parse X (uuid_String X i) = Some i" "sh_verify h (ac_svc_token cl)"
    "ac_decode_slots cl (enc slots) = Some (map sl_StartAt slots)"
    using assms(1) by (auto simp: scheduling_served_def)
  have "h_availability h io (availability_ctx X (ac_svc_token cl) t (i_BarberID inp) (i_ServiceID inp) date) ds =
      Some (JSON 200 (SBodySlots slots), ds')"
    unfolding h_availability_def X(1) using assms(5,6)
    by (simp add: availability_ctx_context [OF X(2), where verify = "sh_verify h", OF X(3)]
        availability_ctx_input [OF X(2) assms(4)] answer_slots_def)
  then show ?thesis
    using assms(7,8) X(4) unfolding client_Available_served [OF assms(1-3)]
    by (auto simp: slots_response_def list_ex_iff)
qed

lemma slots_later:
  assumes "1 \<le> sa_fallbackInterval s" and "sa_fallbackInterval s \<le> 150000000"
    and "BookingIntervalMinutes settings \<le> 150000000"
    and "availability_slots s q svc settings z hours ov blocked now = Some (Inr slots)" and "slot \<in> set slots"
    and "now' < sl_StartAt slot"
  shows "\<exists>slots'. availability_slots s q svc settings z hours ov blocked now' = Some (Inr slots') \<and> slot \<in> set slots'"
proof -
  let ?step = "if BookingIntervalMinutes settings < 1 then sa_fallbackInterval s else BookingIntervalMinutes settings"
  have step: "0 < Minutes ?step" using assms(1-3) by (intro Minutes_pos) auto
  have later: "offers w busy du be af now x \<Longrightarrow> now' < x \<Longrightarrow> offers w busy du be af now' x" for w busy du be af x
    by (simp add: offers_def Let_def)
  let ?ws = "IntervalsForDate hours ov (zn_midnight z (aq_Date q)) z"
  from assms(4) obtain occ where
    occ: "sa_Occupied s (aq_Tenant q) (aq_BarberID q) (zn_midnight z (aq_Date q) - day_ns)
      (zn_AddDay z (zn_midnight z (aq_Date q)) + day_ns) = Inr occ"
    by (auto simp: availability_slots_def Let_def split: sum.splits occ_error.splits)
  from assms(4,5) occ obtain w k where wk: "w \<in> set ?ws"
    "k < grid_size (Minutes ?step) (sl_StartAt w) (sl_EndAt w - Minutes (DurationMinutes svc + BufferAfterMinutes svc))"
    "slot = \<lparr>sl_StartAt = sl_StartAt w + int k * Minutes ?step,
       sl_EndAt = sl_StartAt w + int k * Minutes ?step + Minutes (DurationMinutes svc)\<rparr>"
    "offers w (blocked @ occ) (DurationMinutes svc) (BufferBeforeMinutes svc) (BufferAfterMinutes svc) now
       (sl_StartAt w + int k * Minutes ?step)"
    unfolding availability_slots_def Let_def Available_def windows_loop_total [OF step]
    by (auto simp: slots_at_mem)
  have "offers w (blocked @ occ) (DurationMinutes svc) (BufferBeforeMinutes svc) (BufferAfterMinutes svc) now'
      (sl_StartAt w + int k * Minutes ?step)"
    using later [OF wk(4)] assms(6) unfolding wk(3) by simp
  then have new: "slot \<in> set (slots_at w (blocked @ occ) (DurationMinutes svc) (BufferBeforeMinutes svc)
      (BufferAfterMinutes svc) now' (map (\<lambda>k. sl_StartAt w + int k * Minutes ?step) [0..<grid_size (Minutes ?step)
        (sl_StartAt w) (sl_EndAt w - Minutes (DurationMinutes svc + BufferAfterMinutes svc))]))"
    using wk(2,3) unfolding slots_at_mem by blast
  show ?thesis
    unfolding availability_slots_def Let_def Available_def windows_loop_total [OF step] occ
    using wk(1) new by auto
qed

lemma app_Availability_parts:
  assumes "app_Availability s f1 f2 q now ds = (Some (Inr slots), ds')"
    and "sa_Settings s (aq_Tenant q) = Inr settings" and "sa_zone s (Timezone settings) = Some z"
    and "sa_Service s (aq_Tenant q) (aq_BarberID q) (aq_ServiceID q) = Inr svc"
  obtains b hours ov blocked where "sa_Barber s (aq_Tenant q) (aq_BarberID q) = Inr b"
    "availability_slots s q svc settings z hours ov blocked now = Some (Inr slots)"
    "\<And>now'. app_Availability s NoFault NoFault q now' ds =
       (availability_slots s q svc settings z hours ov blocked now', ds)"
proof -
  obtain b where b: "sa_Barber s (aq_Tenant q) (aq_BarberID q) = Inr b"
    using assms(1) by (auto simp: app_Availability_def split: if_splits sum.splits)
  obtain hours where hours: "repo_Hours NoFault (TenantID (aq_Tenant q)) (aq_BarberID q) ds = (Inr hours, ds)"
    by (simp add: repo_Hours_def WithTenantTx_NoFault)
  obtain ov blocked where day: "repo_Day NoFault z (TenantID (aq_Tenant q)) (aq_BarberID q)
      (zn_midnight z (aq_Date q)) ds = (Inr (ov, blocked), ds)"
    by (simp add: repo_Day_def WithTenantTx_NoFault Let_def)
  have f: "f1 = NoFault" "f2 = NoFault"
    using assms b
    by (auto simp: app_Availability_def repo_Hours_def repo_Day_def Let_def WithTenantTx_ok
        split: if_splits sum.splits prod.splits option.splits)
  have ok: "app_Availability s NoFault NoFault q now' ds =
      (availability_slots s q svc settings z hours ov blocked now', ds)" for now'
    using assms b hours day f by (auto simp: app_Availability_def split: if_splits)
  with assms(1) f have "availability_slots s q svc settings z hours ov blocked now = Some (Inr slots)" by simp
  with b ok show thesis using that by blast
qed

text \<open>
  (C12) What is offered can be booked. Suppose the public availability of scheduling-service,
  computed with the occupancy of the appointment tables, offered a slot to a tenant's booking site,
  and neither the appointment tables nor the schedule tables have changed since. Then a booking of
  that slot by the same tenant, with an unused key, passes every check that asks about the barber,
  the service and the slot, and is accepted by the tables: it creates the pending appointment with
  the offered times and enters it in the barber's calendar. The availability check is the one of
  appointment-service's client, asked again of scheduling-service before the slot's start. What is
  assumed of the rest: the services answer (scheduling_served), barber-service accepts the pair of
  branch and barber, the service's minutes are in range, the date the client asks for in the tenant's
  zone is the date of the offer, and midnight of that date is regular in the zone.
\<close>

theorem offered_slot_bookable:
  assumes "appt_inv d" and "sa_Occupied (sh_app h) = store_occupancy d"
    and "app_Availability (sh_app h) f1 f2 q now ds = (Some (Inr slots), ds')" and "slot \<in> set slots"
    and "aq_Principal q = None" and "AppType (aq_Tenant q) = ''booking''"
    and "scheduling_served X cl enc h io ds (aq_Tenant q) (aq_BarberID q) (aq_ServiceID q) date"
    and "si_f io 0 = NoFault" and "si_f io 1 = NoFault" and "si_now io < sl_StartAt slot"
    and "sd_Settings X (ac_deps cl) (aq_Tenant q) = Inr settings"
    and "ac_local_date cl (Timezone settings) (sl_StartAt slot) = Some date" and "parse_date date = Some (aq_Date q)"
    and "sa_zone (sh_app h) (Timezone settings) = Some z"
    and "zn_civil z (zn_midnight z (aq_Date q)) = aq_Date q"
    and "zn_midnight z (aq_Date q) \<le> zn_AddDay z (zn_midnight z (aq_Date q))"
    and "1 \<le> sa_fallbackInterval (sh_app h)" and "sa_fallbackInterval (sh_app h) \<le> 150000000"
    and "BookingIntervalMinutes settings \<le> 150000000"
    and "sd_Service X (ac_deps cl) (aq_Tenant q) (aq_BarberID q) (aq_ServiceID q) = Inr svc" and "service_ok svc"
    and "cmd_Tenant cmd = aq_Tenant q" and "i_BarberID inp = aq_BarberID q" and "i_ServiceID inp = aq_ServiceID q"
    and "i_StartAt inp = sl_StartAt slot"
    and "sd_BranchBarber X (ac_deps cl) (cmd_Tenant cmd) (i_BranchID inp) (i_BarberID inp) = Inr ()"
    and "fresh_env env d" and "valid_key (cmd_IdempotencyKey cmd) fp"
    and "sql_find_key (TenantID (cmd_Tenant cmd)) sc (cmd_Operation cmd) (cmd_IdempotencyKey cmd) d = None"
  shows "\<exists>a d'. booking_commit (client_deps X cl) NoFault env cmd inp sc fp d = (Inr a, d') \<and>
    a_Status a = ''pending'' \<and> a_StartAt a = sl_StartAt slot \<and> a_EndAt a = sl_EndAt slot \<and>
    calendar_of (TenantID (cmd_Tenant cmd)) (i_BarberID inp) d' (a_ID a) = Some (a_OccupiedStartAt a, a_OccupiedEndAt a)"
proof -
  let ?s = "sh_app h" and ?D = "client_deps X cl"
  have same: "sa_Barber ?s = sd_Barber X (ac_deps cl)" "sa_Service ?s = sd_Service X (ac_deps cl)"
    "sa_Settings ?s = sd_Settings X (ac_deps cl)"
    using assms(7) by (simp_all add: scheduling_served_def)
  from app_Availability_parts [OF assms(3), of settings z svc] same assms(11,14,20) obtain b hours ov blocked where
    b: "sa_Barber ?s (aq_Tenant q) (aq_BarberID q) = Inr b"
    and offer: "availability_slots ?s q svc settings z hours ov blocked now = Some (Inr slots)"
    and again: "\<And>now'. app_Availability ?s NoFault NoFault q now' ds =
      (availability_slots ?s q svc settings z hours ov blocked now', ds)"
    by metis
  from slots_later [OF assms(17-19) offer assms(4,10)] obtain slots' where
    "app_Availability ?s (si_f io 0) (si_f io 1) q (si_now io) ds = (Some (Inr slots'), ds)" "slot \<in> set slots'"
    using again [of "si_now io"] assms(8,9) by auto
  moreover have "q = \<lparr>aq_Tenant = cmd_Tenant cmd, aq_Principal = None, aq_BarberID = i_BarberID inp,
      aq_ServiceID = i_ServiceID inp, aq_Date = aq_Date q\<rparr>"
    using assms(5,22-24) by simp
  ultimately have avail: "client_Available X cl (cmd_Tenant cmd) inp (i_StartAt inp) = Inr ()"
    using client_Available_offered [of X cl enc h io ds "cmd_Tenant cmd" inp date settings "i_StartAt inp" "aq_Date q"]
      assms(6,7,11-13,22-25) by metis
  have pass: "d_BranchBarber ?D (cmd_Tenant cmd) (i_BranchID inp) (i_BarberID inp) = Inr ()"
    "d_Barber ?D (cmd_Tenant cmd) (i_BarberID inp) = Inr ()"
    "d_Service ?D (cmd_Tenant cmd) (i_BarberID inp) (i_ServiceID inp) = Inr svc"
    "d_Available ?D (cmd_Tenant cmd) inp (i_StartAt inp) = Inr ()"
    using assms(20,22-26) avail b same by (simp_all add: client_deps_def client_Barber_def)
  show ?thesis
    using offered_slot_commits [OF assms(1,2,21,15,16,17,18,19) offer assms(4,22,23,25) pass assms(27-29)] .
qed

text \<open>
  An administrator's context never passes the availability check: the client forwards the application
  type of its caller to the public route, which answers 401 to every type but booking. So no staff
  member can create an appointment, and none can move one, whatever the slot.
\<close>

lemma admin_check_refused:
  assumes "scheduling_served X cl enc h io ds t (i_BarberID inp) (i_ServiceID inp) date"
    and "AppType t = ''admin''" and "sd_Settings X (ac_deps cl) t = Inr settings"
    and "ac_local_date cl (Timezone settings) start = Some date"
  shows "client_Available X cl t inp start = Inl (DepOther ''scheduling rejected slot'')"
proof -
  have X: "sh_X h = X" "\<forall>i. uuid_Parse X (uuid_String X i) = Some i" "sh_verify h (ac_svc_token cl)"
    using assms(1) by (auto simp: scheduling_served_def)
  show ?thesis
    unfolding client_Available_served [OF assms(1,3,4)] h_availability_def X(1) slots_response_def
    using assms(2) by (simp add: availability_ctx_context [OF X(2), where verify = "sh_verify h", OF X(3)])
qed

lemma admin_booking_refused:
  assumes "scheduling_served X cl enc h io ds (cmd_Tenant cmd) (i_BarberID inp) (i_ServiceID inp) date"
    and "AppType (cmd_Tenant cmd) = ''admin''" and "sd_Settings X (ac_deps cl) (cmd_Tenant cmd) = Inr settings"
    and "ac_local_date cl (Timezone settings) (i_StartAt inp) = Some date"
  shows "booking_commit (client_deps X cl) f env cmd inp sc fp d = (Inl AErrConflict, d)"
  using admin_check_refused [OF assms]
  by (auto simp: booking_commit_def client_deps_def Let_def split: sum.splits)

end
