(* ===== verification/Appt_Examples.thy ===== *)
theory Appt_Examples
  imports Appt_Safety
begin

text \<open>
  Concrete runs of the appointment store: two bookings of one barber, a confirmation, and a booking
  under an idempotency key. They show that the hypotheses of the theorems hold together.
\<close>

definition ex_env :: "nat \<Rightarrow> pg_env" where
  "ex_env n = \<lparr>pg_now = 5, pg_uuid = (\<lambda>k. word_of_nat (10 * n + k))\<rparr>"

definition ex_input :: "time \<Rightarrow> create_input" where
  "ex_input s = \<lparr>i_BranchID = 1, i_BarberID = 2, i_ServiceID = 3, i_CustomerName = ''Ada'',
     i_CustomerContact = ''ada@example.com'', i_StartAt = s, i_CustomerID = None\<rparr>"

definition ex_fp :: string where
  "ex_fp = replicate 64 (CHR ''a'')"

definition ex_book :: "nat \<Rightarrow> time \<Rightarrow> appt_op" where
  "ex_book n s = OpCreate NoFault (ex_env n) 7 (ex_input s) (s + 30) (s - 5) (s + 35) [] [] [] []"

definition ex_row :: "nat \<Rightarrow> time \<Rightarrow> appointment_row" where
  "ex_row n s = new_appointment_row (ex_env n) 7 (ex_input s) (s + 30) (s - 5) (s + 35)"

lemmas ex_defs = ex_env_def ex_input_def ex_book_def ex_row_def new_appointment_row_def

lemma ex_one: "appointments (run_ops exec_appt [ex_book 2 100] empty_appt_db) = [ex_row 2 100]"
  by code_simp

lemma ex_two:
  "appointments (run_ops exec_appt [ex_book 2 100, ex_book 3 200] empty_appt_db) =
     [ex_row 2 100, ex_row 3 200]"
  by code_simp

lemma ex_row_simps:
  "r_id (ex_row n s) = word_of_nat (10 * n)" "r_tenant_id (ex_row n s) = 7"
  "r_barber_id (ex_row n s) = 2" "r_status (ex_row n s) = ''pending''"
  "r_occupied_start_at (ex_row n s) = s - 5" "r_occupied_end_at (ex_row n s) = s + 35"
  by (simp_all add: ex_defs)

theorem no_double_booking_witness:
  "appointments (run_ops exec_appt [ex_book 2 100, ex_book 3 200] empty_appt_db) =
     [ex_row 2 100, ex_row 3 200] \<and>
   (r_occupied_end_at (ex_row 2 100) \<le> r_occupied_start_at (ex_row 3 200) \<or>
    r_occupied_end_at (ex_row 3 200) \<le> r_occupied_start_at (ex_row 2 100))"
  using ex_two
    no_double_booking [OF refl, of "ex_row 2 100" "[ex_book 2 100, ex_book 3 200]" "ex_row 3 200"]
  by (simp add: ex_two ex_row_simps del: run_ops_simps)

theorem event_log_current_witness:
  "newest_payload 20 (appointment_events (run_ops exec_appt [ex_book 2 100] empty_appt_db)) =
     Some (eventPayload (scan (ex_row 2 100)))"
  using event_log_current [OF refl, of "ex_row 2 100" "[ex_book 2 100]"]
  by (simp add: ex_one ex_row_simps del: run_ops_simps)

theorem appointments_tenant_isolated_witness:
  "tenant_view 8 (run_ops exec_appt [ex_book 3 200] (run_ops exec_appt [ex_book 2 100] empty_appt_db)) =
   tenant_view 8 (run_ops exec_appt [ex_book 2 100] empty_appt_db)"
  by (rule appointments_tenant_isolated [OF refl]) (simp add: ex_book_def)

theorem appointment_lifecycle_witness:
  "\<exists>r' \<in> set (appointments (run_ops exec_appt [OpTransition NoFault (ex_env 4) 7 20 ''confirmed'']
      (run_ops exec_appt [ex_book 2 100] empty_appt_db))). evolves (ex_row 2 100) r'"
proof -
  have "ex_row 2 100 \<in> set (appointments (run_ops exec_appt [ex_book 2 100] empty_appt_db))"
    by (simp add: ex_one del: run_ops_simps)
  from appointment_lifecycle [OF refl this] show ?thesis by blast
qed

lemma ex_fp_hex: "list_all hex_char ex_fp"
  by (simp add: ex_fp_def list_all_iff hex_char_def)

lemma ex_key: "valid_key ''retry-1'' ex_fp"
  using ex_fp_hex by (simp add: valid_key_def ex_fp_def key_char_def)

lemma ex_free: "cal_book (calendar_of 7 2 empty_appt_db) 20 95 135 = Some [20 \<mapsto> (95, 135)]"
  by (simp add: cal_book_def cal_free_def calendar_of_def empty_appt_db_def fun_eq_iff)

theorem create_refines_calendar_witness:
  "\<exists>d'. repo_Create NoFault (ex_env 2) 7 (ex_input 100) 130 95 135 ''guest:x'' ''op'' ''retry-1'' ex_fp
      empty_appt_db = (Inr (scan (new_appointment_row (ex_env 2) 7 (ex_input 100) 130 95 135)), d') \<and>
    calendar_of 7 2 d' = [20 \<mapsto> (95, 135)]"
proof -
  have "sql_find_key 7 ''guest:x'' ''op'' ''retry-1'' empty_appt_db = None" "fresh_env (ex_env 2) empty_appt_db"
    by (simp_all add: sql_find_key_def fresh_env_def empty_appt_db_def)
  from create_refines_calendar [OF appt_inv_empty this(2) ex_key this(1), of "ex_input 100" 130 95 135]
  show ?thesis by (auto simp: ex_free ex_input_def ex_env_def)
qed

lemma ex_first_create:
  "\<exists>a d1. repo_Create NoFault (ex_env 2) 7 (ex_input 100) 130 95 135 ''guest:x'' ''op'' ''retry-1'' ex_fp
     empty_appt_db = (Inr a, d1)"
proof -
  have "\<not> isl (fst (repo_Create NoFault (ex_env 2) 7 (ex_input 100) 130 95 135 ''guest:x'' ''op''
      ''retry-1'' ex_fp empty_appt_db))"
    by code_simp
  then show ?thesis by (metis isl_def prod.collapse sum.collapse(2) )
qed

theorem create_idempotent_witness:
  "\<exists>a d1 a'. repo_Create NoFault (ex_env 2) 7 (ex_input 100) 130 95 135 ''guest:x'' ''op'' ''retry-1''
       ex_fp empty_appt_db = (Inr a, d1) \<and>
     repo_Create NoFault (ex_env 3) 7 (ex_input 500) 530 495 535 ''guest:x'' ''op'' ''retry-1'' ex_fp d1 =
       (Inr a', d1) \<and> a_ID a' = a_ID a"
proof -
  obtain a d1 where c: "repo_Create NoFault (ex_env 2) 7 (ex_input 100) 130 95 135 ''guest:x'' ''op''
      ''retry-1'' ex_fp empty_appt_db = (Inr a, d1)"
    using ex_first_create by blast
  have "sql_find_key 7 ''guest:x'' ''op'' ''retry-1'' empty_appt_db = None"
    by (simp add: sql_find_key_def empty_appt_db_def)
  from create_idempotent [OF appt_inv_empty _ this c, of "[]" d1] c show ?thesis by auto
qed

end
