(* ===== verification/Appt_Runs.thy ===== *)
theory Appt_Runs
  imports Appt_Access Appt_Examples
begin

text \<open>
  Concrete runs of the services of appointment-service: a booking by a signed-in customer, its
  retry, a cancellation, a move, a published batch and a refused one, and HTTP requests against a
  handler whose collaborators are written out.
\<close>

section \<open>Collaborators\<close>

definition ex_X :: externals where
  "ex_X = \<lparr>uuid_String = (\<lambda>u. replicate (unat u) (CHR ''1'')),
     uuid_Parse = (\<lambda>s. if s = [] then None else Some (word_of_nat (length s))),
     mail_ParseAddress = (\<lambda>s. Some s), sha256_hex = (\<lambda>_. ex_fp), json_strings = concat,
     rfc3339nano = (\<lambda>_. [])\<rparr>"

definition ex_svc :: dep_service where
  "ex_svc = \<lparr>DurationMinutes = 30, BufferBeforeMinutes = 5, BufferAfterMinutes = 5\<rparr>"

definition ex_settings :: tenant_settings_view where
  "ex_settings = \<lparr>Timezone = ''UTC'', BookingIntervalMinutes = 15, CancellationPolicy = ''flexible'',
     CancellationNoticeMinutes = 0\<rparr>"

definition ex_D :: deps where
  "ex_D = \<lparr>d_BranchBarber = (\<lambda>_ _ _. Inr ()), d_Barber = (\<lambda>_ _. Inr ()),
     d_Service = (\<lambda>_ _ _. Inr ex_svc), d_Settings = (\<lambda>_. Inr ex_settings),
     d_Available = (\<lambda>_ _ _. Inr ()),
     d_Customer = (\<lambda>_ _. Inr \<lparr>cs_Name = ''Ada'', cs_Email = ''ada@example.com''\<rparr>)\<rparr>"

definition ex_tenant :: tenant_ctx where
  "ex_tenant = \<lparr>TenantID = 7, AppType = ''booking'', RequestID = []\<rparr>"

definition ex_cmd :: "string \<Rightarrow> time \<Rightarrow> create_command" where
  "ex_cmd key s = \<lparr>cmd_Tenant = ex_tenant, cmd_Principal = customer_principal 9, cmd_Operation = ''op'',
     cmd_IdempotencyKey = key, cmd_Input = ex_input s\<rparr>"

definition ex_booked :: "(appt_error + appointment) \<times> appt_db" where
  "ex_booked = booking_Create ex_X ex_D NoFault NoFault (ex_env 2) (ex_cmd ''retry-1'' 100) empty_appt_db"

definition ex_db :: appt_db where
  "ex_db = snd ex_booked"

lemma ex_booked_ok: "\<exists>a. ex_booked = (Inr a, ex_db)"
proof -
  have "\<not> isl (fst ex_booked)" by code_simp
  then show ?thesis unfolding ex_db_def by (metis isl_def prod.collapse sum.collapse(2))
qed

lemma ex_db_appointments: "map r_id (appointments ex_db) = [20]"
  by code_simp

lemma ex_db_inv: "appt_inv ex_db"
  using tenant_run_inv [OF appt_inv_empty booking_Create_run] unfolding ex_db_def ex_booked_def .

definition ex_row2 :: appointment_row where
  "ex_row2 = hd (appointments ex_db)"

lemma ex_db_rows: "appointments ex_db = [ex_row2]"
  unfolding ex_row2_def using ex_db_appointments by (cases "appointments ex_db") auto

lemma ex_row2_fields:
  "r_id ex_row2 = 20 \<and> r_tenant_id ex_row2 = 7 \<and> r_barber_id ex_row2 = 2 \<and> r_status ex_row2 = ''pending'' \<and>
   r_customer_id ex_row2 = Some 9"
  by code_simp

lemma ex_db_fresh: "fresh_env (ex_env 4) ex_db"
  by code_simp

lemma ex_find: "sql_find_appointment 7 20 ex_db = Some ex_row2"
  using ex_db_rows ex_row2_fields by (simp add: sql_find_appointment_def)

section \<open>Services\<close>

theorem booking_derives_times_witness:
  "\<exists>a r. ex_booked = (Inr a, ex_db) \<and> appointments ex_db = [r] \<and> a = scan r \<and>
     r_end_at r = 100 + Minutes 30 \<and> r_customer_id r = Some 9"
proof -
  obtain a where a: "ex_booked = (Inr a, ex_db)" using ex_booked_ok by blast
  have "appointments ex_db \<noteq> appointments empty_appt_db"
    unfolding ex_db_rows by (simp add: empty_appt_db_def)
  then have "ex_db \<noteq> empty_appt_db" by metis
  from booking_derives_times [OF a [unfolded ex_booked_def] this] a show ?thesis
    by (auto simp: ex_cmd_def ex_tenant_def customer_principal_def ex_input_def empty_appt_db_def
        ex_D_def ex_svc_def Let_def)
qed

theorem booking_retry_witness:
  "\<exists>a a'. ex_booked = (Inr a, ex_db) \<and>
     booking_Create ex_X (ex_D\<lparr>d_Available := (\<lambda>_ _ _. Inl DepErrNotFound)\<rparr>) NoFault NoFault (ex_env 3)
       (ex_cmd ''retry-1'' 100) ex_db = (Inr a', ex_db) \<and> a_ID a' = a_ID a"
proof -
  obtain a where a: "ex_booked = (Inr a, ex_db)" using ex_booked_ok by blast
  from booking_retry [OF appt_inv_empty _ a [unfolded ex_booked_def], of "[]" ex_db
      "ex_D\<lparr>d_Available := (\<lambda>_ _ _. Inl DepErrNotFound)\<rparr>" NoFault "ex_env 3"] a
  show ?thesis by (auto simp: empty_appt_db_def)
qed

lemma ex_X_inj: "inj (uuid_String ex_X)"
proof (rule injI)
  fix x y :: uuid
  assume "uuid_String ex_X x = uuid_String ex_X y"
  then have "length (replicate (unat x) (CHR ''1'')) = length (replicate (unat y) (CHR ''1''))"
    unfolding ex_X_def externals.select_convs by (rule arg_cong)
  then have "unat x = unat y" by simp
  then show "x = y" by (rule unsigned_word_eqI)
qed

theorem principal_scopes_separate_witness:
  "principalScope ex_X (customer_principal 9) [] = Inr (''customer:'' @ replicate 9 (CHR ''1'')) \<and>
   pr_CustomerID (customer_principal 9) = pr_CustomerID (customer_principal 9)"
proof -
  have "principalScope ex_X (customer_principal 9) [] = Inr (''customer:'' @ replicate 9 (CHR ''1''))"
    by code_simp
  from principal_scopes_separate [OF ex_X_inj this this] this show ?thesis by simp
qed

theorem cancel_flag_exact_witness:
  "a_CanCancel (cancellationState (scan ex_row2) ex_settings 50) \<and>
   (\<exists>a d'. CancelCustomer ex_D NoFault NoFault (ex_env 4) ex_tenant 9 20 50 ex_db = (Inr a, d') \<and>
      a_Status a = ''cancelled'')"
proof -
  have "a_CanCancel (cancellationState (scan ex_row2) ex_settings 50)" by code_simp
  moreover have "ex_row2 \<in> set (appointments ex_db)" "r_tenant_id ex_row2 = TenantID ex_tenant"
    "r_customer_id ex_row2 = Some 9" "d_Settings ex_D ex_tenant = Inr ex_settings"
    using ex_db_rows ex_row2_fields by (simp_all add: ex_tenant_def ex_D_def)
  ultimately show ?thesis
    using cancel_flag_exact [OF ex_db_inv ex_db_fresh, of ex_row2 ex_tenant 9 ex_D ex_settings 50]
      ex_row2_fields by auto
qed

theorem reschedule_refines_calendar_witness:
  "\<exists>a d'. repo_Reschedule NoFault (ex_env 4) 7 20 500 530 495 535 ex_db = (Inr a, d') \<and>
     calendar_of 7 2 d' 20 = Some (495, 535)"
proof -
  have "cal_book (calendar_of 7 2 ex_db) 20 495 535 = Some ((calendar_of 7 2 ex_db)(20 \<mapsto> (495, 535)))"
    using ex_db_rows ex_row2_fields by (auto simp: cal_book_def cal_free_def calendar_of_def)
  moreover have "active_status (r_status ex_row2)" using ex_row2_fields by simp
  ultimately show ?thesis
    using reschedule_refines_calendar [OF ex_db_inv ex_db_fresh ex_find, of 500 530 495 535] ex_row2_fields
    by auto
qed

theorem transition_refines_calendar_witness:
  "\<exists>a d'. repo_Transition NoFault (ex_env 4) 7 20 ''cancelled'' ex_db = (Inr a, d') \<and>
     calendar_of 7 2 d' 20 = None"
proof -
  have "transitions (r_status ex_row2) ''cancelled''" using ex_row2_fields by (simp add: transitions_def)
  then obtain a d' where a: "repo_Transition NoFault (ex_env 4) 7 20 ''cancelled'' ex_db = (Inr a, d')"
    using transition_inactive [OF ex_db_inv ex_db_fresh ex_find, of "''cancelled''"]
    by (auto simp: active_status_def statuses_def)
  from transition_refines_calendar [OF ex_db_inv ex_find a, of 7 2] a ex_row2_fields show ?thesis by auto
qed

section \<open>The outbox\<close>

definition ex_marshal :: "outbox_event \<Rightarrow> string option" where
  "ex_marshal ev = Some (ob_Type ev)"

definition ex_pub :: "nats_msg \<Rightarrow> nats_msg list \<Rightarrow> bool \<times> nats_msg list" where
  "ex_pub m b = (True, m # b)"

definition ex_holds :: "nats_msg list \<Rightarrow> nats_msg \<Rightarrow> bool" where
  "ex_holds b m \<longleftrightarrow> m \<in> set b"

definition ex_p :: publisher where
  "ex_p = \<lparr>p_ready = True, p_lastCleanup = time_zero, p_publishFailures = None, p_publishRetries = None,
     p_terminalTotal = None\<rparr>"

definition ex_sys :: "nats_msg list outbox_sys" where
  "ex_sys = \<lparr>sy_db = ex_db, sy_broker = [], sy_pub = ex_p, sy_inflight = []\<rparr>"

definition ex_evs :: "outbox_event list" where
  "ex_evs = projr (fst (repo_ClaimOutbox False 10 50 ex_db))"

definition ex_after :: "nats_msg list pub_state" where
  "ex_after = publishOne ex_X ex_marshal ex_pub False 10 (hd ex_evs)
     (ex_p, [], snd (repo_ClaimOutbox False 10 50 ex_db))"

lemma ex_broker: "broker_keeps ex_pub ex_holds"
  by (simp add: broker_keeps_def ex_pub_def ex_holds_def)

lemma ex_outbox: "map o_published_at (outbox_events ex_db) = [None]"
  by code_simp

definition ex_out :: outbox_row where
  "ex_out = hd (outbox_events ex_db)"

lemma ex_outbox_row: "outbox_events ex_db = [ex_out] \<and> o_published_at ex_out = None"
  using ex_outbox by (cases "outbox_events ex_db") (auto simp: ex_out_def)

lemma ex_sys_inv: "sys_inv ex_X ex_marshal ex_holds ex_sys"
  using ex_db_inv ex_outbox_row by (simp add: sys_inv_def ex_sys_def)

lemma ex_evs_one: "length ex_evs = 1"
  by code_simp

lemma ex_after_published: "map o_published_at (outbox_events (snd (snd ex_after))) = [Some 10]"
  by code_simp

definition ex_sys' :: "nats_msg list outbox_sys" where
  "ex_sys' = \<lparr>sy_db = snd (snd ex_after), sy_broker = fst (snd ex_after), sy_pub = fst ex_after,
     sy_inflight = []\<rparr>"

lemma ex_steps: "(sys_step ex_X ex_marshal ex_pub)\<^sup>*\<^sup>* ex_sys ex_sys'"
proof -
  let ?d1 = "snd (repo_ClaimOutbox False 10 50 ex_db)"
  have ok: "\<not> isl (fst (repo_ClaimOutbox False 10 50 ex_db))" by code_simp
  have evs: "ex_evs = [hd ex_evs]" using ex_evs_one
    by (metis One_nat_def length_0_conv length_Suc_conv list.sel(1))
  have c: "repo_ClaimOutbox False 10 50 (sy_db ex_sys) = (Inr [hd ex_evs], ?d1)"
  proof -
    have "fst (repo_ClaimOutbox False 10 50 ex_db) = Inr ex_evs" using ok by (simp add: ex_evs_def)
    then have "fst (repo_ClaimOutbox False 10 50 ex_db) = Inr [hd ex_evs]" using evs by simp
    then show ?thesis by (simp add: ex_sys_def prod_eq_iff)
  qed
  from sys_step.claim [OF c, of ex_X ex_marshal ex_pub]
  have "sys_step ex_X ex_marshal ex_pub ex_sys (ex_sys\<lparr>sy_db := ?d1, sy_inflight := [hd ex_evs]\<rparr>)"
    by (simp add: ex_sys_def)
  moreover have "sys_step ex_X ex_marshal ex_pub (ex_sys\<lparr>sy_db := ?d1, sy_inflight := [hd ex_evs]\<rparr>) ex_sys'"
    using sys_step.publish [of "ex_sys\<lparr>sy_db := ?d1, sy_inflight := [hd ex_evs]\<rparr>" "[]" "hd ex_evs" "[]"
        ex_X ex_marshal ex_pub False 10 "fst ex_after" "fst (snd ex_after)" "snd (snd ex_after)"]
    by (simp add: ex_sys_def ex_sys'_def ex_after_def)
  ultimately show ?thesis by (meson converse_rtranclp_into_rtranclp rtranclp.rtrancl_refl)
qed

theorem outbox_event_never_lost_witness:
  "(\<exists>x' \<in> set (outbox_events (sy_db ex_sys')). to_outbox_event x' = to_outbox_event ex_out) \<or>
   held ex_X ex_marshal ex_holds (sy_broker ex_sys') (to_outbox_event ex_out)"
proof -
  have "ex_out \<in> set (outbox_events (sy_db ex_sys))" using ex_outbox_row by (simp add: ex_sys_def)
  from outbox_event_never_lost [OF ex_broker ex_sys_inv ex_steps this] show ?thesis .
qed

theorem published_means_acknowledged_witness:
  "o_published_at (hd (outbox_events (sy_db ex_sys'))) = Some 10 \<and>
   held ex_X ex_marshal ex_holds (sy_broker ex_sys') (to_outbox_event (hd (outbox_events (sy_db ex_sys'))))"
proof -
  let ?x = "hd (outbox_events (sy_db ex_sys'))"
  have "?x \<in> set (outbox_events (sy_db ex_sys'))" "o_published_at ?x = Some 10"
    using ex_after_published unfolding ex_sys'_def by (cases "outbox_events (snd (snd ex_after))"; simp)+
  with published_means_acknowledged [OF ex_broker ex_sys_inv ex_steps this(1)] show ?thesis by simp
qed

theorem batch_publishes_oldest_witness:
  "\<exists>p' b' d'. publishBatch ex_X ex_marshal ex_pub False (\<lambda>_. False) 10 (ex_p, [], ex_db) = (p', b', d') \<and>
     (\<exists>x' \<in> set (outbox_events d'). to_outbox_event x' = to_outbox_event ex_out \<and> o_published_at x' = Some 10)"
proof -
  obtain p' b' d' where r: "publishBatch ex_X ex_marshal ex_pub False (\<lambda>_. False) 10 (ex_p, [], ex_db) = (p', b', d')"
    by (metis prod.collapse)
  have "claimable 10 ex_out" by code_simp
  then have "ex_out \<in> set (take 50 (sort_key o_created_at (filter (claimable 10) (outbox_events ex_db))))"
    using ex_outbox_row by simp
  from batch_publishes_oldest [OF _ _ r this] r show ?thesis by (simp add: ex_pub_def ex_marshal_def)
qed

theorem retries_bounded_witness:
  "\<exists>p' b' d'. fold (\<lambda>now. publishBatch ex_X ex_marshal (\<lambda>m b. (False, b)) False (\<lambda>_. False) now)
       (replicate 20 10) (ex_p, (), ex_db) = (p', b', d') \<and>
     (\<forall>later. filter (claimable later) (outbox_events d') = [])"
proof (rule retries_bounded [where k = 1])
  have "claimable 10 ex_out" by code_simp
  then show "\<forall>x \<in> set (outbox_events ex_db). \<forall>t \<in> set (replicate 20 10). awaiting x \<longrightarrow> claimable t x"
    using ex_outbox_row by simp
  show "length (filter awaiting (outbox_events ex_db)) \<le> 50 * 1" using ex_outbox_row by simp
qed (use ex_db_inv in simp_all)

section \<open>Requests\<close>

definition ex_auth :: auth_client where
  "ex_auth = \<lparr>ac_baseURL = [], ac_token = [], ac_Do = (\<lambda>_. TransportError []), ac_decode = (\<lambda>_. None)\<rparr>"

definition ex_h :: "time \<Rightarrow> appt_handler" where
  "ex_h s = \<lparr>h_X = ex_X, h_deps = ex_D, h_verify = TokenVerifier_Verify ''t'', h_auth = ex_auth,
     h_decode_create = (\<lambda>_. Some (ex_input s)), h_decode_start = (\<lambda>_. None), h_parse_rfc3339 = (\<lambda>_. None)\<rparr>"

definition ex_io :: "nat \<Rightarrow> appt_io" where
  "ex_io n = \<lparr>io_f1 = NoFault, io_f2 = NoFault, io_env = ex_env n, io_now = 50\<rparr>"

definition ex_c :: "string \<Rightarrow> fiber_ctx" where
  "ex_c key = \<lparr>c_Get = (\<lambda>n. if n = InternalHeaderName then ''t'' else if n = TenantIDHeader then replicate 7 (CHR ''1'')
       else if n = AppTypeHeader then ''booking'' else if n = ''X-Customer-ID'' then replicate 9 (CHR ''1'')
       else if n = ''Idempotency-Key'' then key else []),
     c_Params = (\<lambda>_. replicate 20 (CHR ''1'')), c_Query = (\<lambda>_. []), c_Body = []\<rparr>"

definition ex_requests :: "svc_step list" where
  "ex_requests = [Request (ex_h 100) R_pubCreate (ex_io 2) (ex_c ''k1''),
     Request (ex_h 3000000000000) R_pubCreate (ex_io 3) (ex_c ''k2'')]"

definition ex_history :: "appointment_row list" where
  "ex_history = appointments (run_ops exec_svc ex_requests empty_appt_db)"

lemma ex_history_rows:
  "map (\<lambda>r. (r_id r, r_tenant_id r, r_barber_id r, r_status r)) ex_history =
     [(20, 7, 2, ''pending''), (30, 7, 2, ''pending'')]"
  by code_simp

theorem http_no_double_booking_witness:
  "\<exists>r r'. ex_history = [r, r'] \<and>
     (r_occupied_end_at r \<le> r_occupied_start_at r' \<or> r_occupied_end_at r' \<le> r_occupied_start_at r)"
proof -
  obtain r r' where h: "ex_history = [r, r']" and f: "r_id r = 20" "r_id r' = 30" "r_tenant_id r = 7"
    "r_tenant_id r' = 7" "r_barber_id r = 2" "r_barber_id r' = 2" "r_status r = ''pending''" "r_status r' = ''pending''"
    using ex_history_rows by (auto simp: map_eq_Cons_conv)
  from http_no_double_booking [OF refl, of r ex_requests r'] f h show ?thesis
    unfolding ex_history_def by simp
qed

theorem http_tenant_isolated_witness:
  "tenant_view 8 (run_ops exec_svc ex_requests (run_ops exec_svc [] empty_appt_db)) =
   tenant_view 8 (run_ops exec_svc [] empty_appt_db)"
proof (rule http_tenant_isolated [OF refl])
  show "list_all (\<lambda>x. svc_tenant x \<noteq> Some 8) ex_requests" by code_simp
qed

theorem http_changes_authorized_witness:
  "snd (appt_serve (ex_h 100) R_pubCancel (ex_io 4) (ex_c []) ex_db) \<noteq> ex_db \<and>
   (\<exists>t. owner_call (ex_h 100) (ex_c []) t ex_db)"
proof -
  let ?d = "snd (appt_serve (ex_h 100) R_pubCancel (ex_io 4) (ex_c []) ex_db)"
  have "map r_status (appointments ?d) = [''cancelled'']" by code_simp
  moreover have "map r_status (appointments ex_db) = [''pending'']" by code_simp
  moreover have "[''cancelled''] \<noteq> [''pending'']" by simp
  ultimately have "?d \<noteq> ex_db" by metis
  with http_changes_authorized [OF ex_db_inv this] show ?thesis by auto
qed

theorem lost_race_conflict_witness:
  "appointmentResult 201 (booking_Create ex_X ex_D NoFault NoFault (ex_env 4) (ex_cmd ''retry-2'' 200) ex_db) =
     (SendStatus 409, ex_db)"
proof (rule lost_race_conflict [OF ex_db_inv ex_db_fresh])
  let ?inp = "ex_input 200" and ?inp' = "(ex_input 200)\<lparr>i_CustomerID := Some 9\<rparr>"
  let ?sc = "''customer:'' @ replicate 9 (CHR ''1'')"
  show "normalizeCreate ex_X (cmd_Input (ex_cmd ''retry-2'' 200)) = Inr ?inp" by code_simp
  show "resolve_customer ex_X ex_D (cmd_Tenant (ex_cmd ''retry-2'' 200))
      (cmd_Principal (ex_cmd ''retry-2'' 200)) ?inp = Inr ?inp'" by code_simp
  show "principalScope ex_X (cmd_Principal (ex_cmd ''retry-2'' 200)) (i_CustomerContact ?inp') = Inr ?sc"
    by code_simp
  show "valid_key (cmd_IdempotencyKey (ex_cmd ''retry-2'' 200))
      (fingerprint ex_X (TenantID (cmd_Tenant (ex_cmd ''retry-2'' 200))) ?sc
        (cmd_Operation (ex_cmd ''retry-2'' 200)) ?inp')" by code_simp
  show "sql_find_key (TenantID (cmd_Tenant (ex_cmd ''retry-2'' 200))) ?sc
      (cmd_Operation (ex_cmd ''retry-2'' 200)) (cmd_IdempotencyKey (ex_cmd ''retry-2'' 200)) ex_db = None"
    by code_simp
  show "d_Service ex_D (cmd_Tenant (ex_cmd ''retry-2'' 200)) (i_BarberID ?inp') (i_ServiceID ?inp') = Inr ex_svc"
    by (simp add: ex_D_def)
  have excl: "overlaps (200 + Minutes (- 5)) (200 + Minutes 30 + Minutes 5)
      (r_occupied_start_at ex_row2) (r_occupied_end_at ex_row2)" by code_simp
  have "calendar_of 7 2 ex_db 20 = Some (r_occupied_start_at ex_row2, r_occupied_end_at ex_row2)"
    using ex_db_rows ex_row2_fields by (simp add: calendar_of_def)
  moreover have "(20 :: uuid) \<noteq> pg_uuid (ex_env 4) 0" by code_simp
  ultimately have "\<not> cal_free (calendar_of 7 2 ex_db) (pg_uuid (ex_env 4) 0) (200 + Minutes (- 5))
      (200 + Minutes 30 + Minutes 5)"
    using excl unfolding cal_free_def by blast
  then show "\<not> cal_free (calendar_of (TenantID (cmd_Tenant (ex_cmd ''retry-2'' 200))) (i_BarberID ?inp') ex_db)
     (pg_uuid (ex_env 4) 0) (i_StartAt ?inp' + Minutes (- BufferBeforeMinutes ex_svc))
     (i_StartAt ?inp' + Minutes (DurationMinutes ex_svc) + Minutes (BufferAfterMinutes ex_svc))"
    by (simp add: ex_cmd_def ex_tenant_def ex_input_def ex_svc_def)
qed (simp_all add: ex_svc_def)

end
