(* ===== verification/Sched_Examples.thy ===== *)
theory Sched_Examples
  imports Booking_Flow Appt_Runs "HOL-Library.Countable"
begin

text \<open>
  Concrete runs of scheduling-service: stored hours, a vacation, a refused move of an override, an
  authorised change over HTTP, and a slot that is offered and then booked.
\<close>

section \<open>A shop\<close>

text \<open>Coordinated universal time in January 2024.\<close>

definition ex_zone :: zone where
  "ex_zone = \<lparr>zn_midnight = (\<lambda>c. days_from_civil c * 86400000000000),
     zn_civil = (\<lambda>t. (2024, 1, 1 + (t div 86400000000000 - 19723))),
     zn_AddDay = (\<lambda>t. t + 86400000000000)\<rparr>"

definition ex_week :: working_hours where
  "ex_week = [\<lparr>dh_Weekday = 1, dh_Intervals = [\<lparr>iv_Start = ''09:00'', iv_End = ''12:00''\<rparr>,
     \<lparr>iv_Start = ''13:00'', iv_End = ''17:30''\<rparr>]\<rparr>]"

definition ex_ids :: id_supply where
  "ex_ids n = word_of_nat (10 + n)"

definition ex_barber :: dep_barber where
  "ex_barber = \<lparr>db_IdentityID = Some 5\<rparr>"

definition ex_app :: sched_app where
  "ex_app = \<lparr>sa_Barber = (\<lambda>_ _. Inr ex_barber), sa_Service = (\<lambda>_ _ _. Inr ex_svc),
     sa_Settings = (\<lambda>_. Inr ex_settings), sa_Occupied = (\<lambda>_ _ _ _. Inr []),
     sa_fallbackInterval = Interval [], sa_zone = (\<lambda>_. Some ex_zone)\<rparr>"

definition ex_query :: availability_query where
  "ex_query = \<lparr>aq_Tenant = ex_tenant, aq_Principal = None, aq_BarberID = 2, aq_ServiceID = 3,
     aq_Date = (2024, 1, 8)\<rparr>"

definition ex_hours_db :: sched_db where
  "ex_hours_db = snd (repo_ReplaceHours NoFault ex_ids 7 2 ex_week empty_sched_db)"

lemma ex_hours_inv: "sched_inv ex_hours_db"
  unfolding ex_hours_db_def by (rule repo_ReplaceHours_inv) (rule sched_inv_empty)

theorem available_exact_witness:
  "\<exists>out. Available [\<lparr>sl_StartAt = 0, sl_EndAt = Minutes 60\<rparr>]
       [\<lparr>bp_ID = 1, bp_StartAt = 0, bp_EndAt = Minutes 10\<rparr>] [] 30 0 0 15 (- 1) = Some out \<and>
     \<lparr>sl_StartAt = Minutes 30, sl_EndAt = Minutes 60\<rparr> \<in> set out \<and>
     \<lparr>sl_StartAt = 0, sl_EndAt = Minutes 30\<rparr> \<notin> set out"
proof -
  let ?w = "\<lparr>sl_StartAt = 0, sl_EndAt = Minutes 60\<rparr>" and ?b = "\<lparr>bp_ID = 1, bp_StartAt = 0, bp_EndAt = Minutes 10\<rparr>"
  have m: "Minutes 10 = 600000000000" "Minutes 15 = 900000000000" "Minutes 30 = 1800000000000"
    "Minutes 60 = 3600000000000" "Minutes (- 0) = 0" "Minutes 0 = 0"
    by (simp_all add: Minutes_exact nanosecond_per_minute_def)
  from available_exact [of 15 "[?w]" "[?b]" "[]" 30 0 0 "- 1"] obtain out where
    out: "Available [?w] [?b] [] 30 0 0 15 (- 1) = Some out"
    and mem: "\<forall>s. s \<in> set out \<longleftrightarrow> (\<exists>k.
       s = \<lparr>sl_StartAt = int k * Minutes 15, sl_EndAt = int k * Minutes 15 + Minutes 30\<rparr> \<and>
       0 \<le> sl_StartAt s \<and> sl_StartAt s + Minutes 30 \<le> Minutes 60 \<and> - 1 < sl_StartAt s \<and>
       (sl_StartAt s + Minutes 30 \<le> 0 \<or> Minutes 10 \<le> sl_StartAt s))" by (auto simp: m)
  have "\<lparr>sl_StartAt = Minutes 30, sl_EndAt = Minutes 60\<rparr> \<in> set out"
    unfolding mem [rule_format] by (rule exI [of _ 2]) (simp add: m)
  moreover have "\<lparr>sl_StartAt = 0, sl_EndAt = Minutes 30\<rparr> \<notin> set out"
    unfolding mem [rule_format] by (simp add: m)
  ultimately show ?thesis using out by blast
qed

theorem hours_roundtrip_witness:
  "\<exists>d' hours. repo_ReplaceHours NoFault ex_ids 7 2 ex_week empty_sched_db = (Inr (), d') \<and>
     repo_Hours NoFault 7 2 d' = (Inr hours, d') \<and>
     map (\<lambda>v. (parseWall (iv_Start v), parseWall (iv_End v))) (intervals_of_weekday 1 hours) =
       [(32400000000000, 43200000000000), (46800000000000, 63000000000000)]"
proof -
  have n: "length (hours_items ex_week) = 2" by code_simp
  have inj: "inj_on ex_ids {0..<length (hours_items ex_week)}"
    unfolding n by (auto simp: inj_on_def ex_ids_def less_Suc_eq numeral_2_eq_2)
  have new: "\<forall>k < length (hours_items ex_week). ex_ids k \<notin> hr_id ` set (sd_hours empty_sched_db)"
    by (simp add: empty_sched_db_def)
  have valid: "validHours ex_week" "distinct (map dh_Weekday ex_week)" by code_simp+
  have monday: "map (\<lambda>v. (parseWall (iv_Start v), parseWall (iv_End v))) (intervals_of_weekday 1 ex_week) =
      [(32400000000000, 43200000000000), (46800000000000, 63000000000000)]" by code_simp
  show ?thesis unfolding monday [symmetric]
    using hours_roundtrip [OF valid inj new, of 7 2] by blast
qed

theorem availability_returns_witness:
  "\<exists>r. app_Availability ex_app NoFault NoFault ex_query 0 ex_hours_db =
     (Some r, snd (app_Availability ex_app NoFault NoFault ex_query 0 ex_hours_db))"
  by (rule availability_returns [where v = "[]"])
    (auto simp: ex_app_def Interval_def Atoi_def ex_settings_def)

definition ex_vacation :: override_input where
  "ex_vacation = \<lparr>oi_Date = ''2024-01-08'', oi_Kind = ''vacation'', oi_Intervals = []\<rparr>"

definition ex_vacation_db :: sched_db where
  "ex_vacation_db = snd (repo_SaveOverride NoFault ex_ids 7 2 uuid_nil ex_vacation ex_hours_db)"

lemma fst_Inr: "\<not> isl (fst r) \<Longrightarrow> \<exists>v. r = (Inr v, snd r)"
  by (cases r; cases "fst r") auto

lemma fst_Some_Inr: "(case fst r of Some x \<Rightarrow> \<not> isl x | None \<Rightarrow> False) \<Longrightarrow> \<exists>v. r = (Some (Inr v), snd r)"
  by (cases r) (auto simp: isl_def split: option.splits sum.splits, metis sum.exhaust)

theorem day_off_offers_nothing_witness:
  "app_Availability ex_app NoFault NoFault ex_query 0 ex_vacation_db = (Some (Inr []), ex_vacation_db)"
proof -
  have "\<not> isl (fst (repo_SaveOverride NoFault ex_ids 7 2 uuid_nil ex_vacation ex_hours_db))" by code_simp
  then obtain v where v: "repo_SaveOverride NoFault ex_ids (TenantID ex_tenant) 2 uuid_nil ex_vacation ex_hours_db =
      (Inr v, ex_vacation_db)" unfolding ex_vacation_db_def by (auto simp: ex_tenant_def dest!: fst_Inr)
  let ?r = "app_Availability ex_app NoFault NoFault ex_query 0 ex_vacation_db"
  have "(case fst ?r of Some x \<Rightarrow> \<not> isl x | None \<Rightarrow> False)" by code_simp
  then obtain slots where r: "?r = (Some (Inr slots), snd ?r)"
    using fst_Some_Inr by blast
  have "cast_date (oi_Date ex_vacation) = Inr (aq_Date ex_query)" by code_simp
  moreover have "zn_civil ex_zone (zn_midnight ex_zone (aq_Date ex_query)) = aq_Date ex_query" by code_simp
  then have "zn_civil z (zn_midnight z (aq_Date ex_query)) = aq_Date ex_query" if "sa_zone ex_app tz = Some z" for tz z
    using that by (simp add: ex_app_def)
  moreover have "ex_ids 0 \<noteq> uuid_nil" by code_simp
  ultimately have "slots = []"
    using day_off_offers_nothing [OF ex_hours_inv v _ _ _ _ _ _ r]
    by (simp add: ex_vacation_def ex_query_def)
  moreover have "snd ?r = ex_vacation_db" by (rule app_reads_frame)
  ultimately show ?thesis using r by simp
qed

definition ex_half_day :: override_input where
  "ex_half_day = \<lparr>oi_Date = ''2024-01-08'', oi_Kind = ''custom_hours'',
     oi_Intervals = [\<lparr>iv_Start = ''09:00'', iv_End = ''12:00''\<rparr>]\<rparr>"

definition ex_half_db :: sched_db where
  "ex_half_db = snd (repo_SaveOverride NoFault ex_ids 7 2 uuid_nil ex_half_day ex_hours_db)"

lemma ex_half_inv: "sched_inv ex_half_db"
  unfolding ex_half_db_def by (rule repo_SaveOverride_inv) (rule ex_hours_inv)

definition ex_admin :: sched_principal where
  "ex_admin = \<lparr>sp_IdentityID = 5, sp_Role = ''MANAGER''\<rparr>"

theorem override_move_conflicts_witness:
  "app_SaveOverride ex_app NoFault ex_ids (ex_tenant\<lparr>AppType := ''admin''\<rparr>) ex_admin 2 10
     (ex_half_day\<lparr>oi_Date := ''2024-01-09''\<rparr>) ex_half_db = (Inl SErrConflict, ex_half_db)"
proof -
  let ?r = "hd (sd_overrides ex_half_db)" and ?x = "hd (sd_intervals ex_half_db)"
    and ?t = "ex_tenant\<lparr>AppType := ''admin''\<rparr>" and ?inp = "ex_half_day\<lparr>oi_Date := ''2024-01-09''\<rparr>"
  have r: "?r \<in> set (sd_overrides ex_half_db)" "?x \<in> set (sd_intervals ex_half_db)" "refers ?r ?x"
    "vr_barber ?r = 2" "vr_id ?r = 10" "vr_tenant ?r = 7" "vr_date ?r = (2024, 1, 8)"
    by code_simp+
  have free: "\<forall>r' \<in> set (sd_overrides ex_half_db).
      \<not> (vr_tenant r' = vr_tenant ?r \<and> vr_barber r' = vr_barber ?r \<and> vr_date r' = (2024, 1, 9))" by code_simp
  have inp: "cast_date (oi_Date ?inp) = Inr (2024, 1, 9)" "validOverride ?inp"
    "authorize ex_app ?t ex_admin (vr_barber ?r) True" by code_simp+
  have "TenantID ?t = vr_tenant ?r" unfolding r by (simp add: ex_tenant_def)
  from override_move_conflicts [OF r(1) ex_half_inv r(2,3) _ inp(1) _ free inp(3,2) this, of ex_ids]
  show ?thesis unfolding r by (simp add: uuid_nil_def)
qed

section \<open>A change over HTTP\<close>

definition ex_session :: auth_client where
  "ex_session = \<lparr>ac_baseURL = [], ac_token = [], ac_Do = (\<lambda>_. Response 200 []),
     ac_decode = (\<lambda>_. Some \<lparr>ap_Role = ''BARBER'', ap_TenantID = replicate 7 (CHR ''1''),
        ap_IdentityID = 5, ap_MustChangePassword = False\<rparr>)\<rparr>"

definition ex_sh :: sched_handler where
  "ex_sh = \<lparr>sh_X = ex_X, sh_app = ex_app, sh_verify = TokenVerifier_Verify ''t'', sh_auth = ex_session,
     sh_decode_hours = (\<lambda>_. Some ex_week), sh_decode_override = (\<lambda>_. None), sh_decode_block = (\<lambda>_. None)\<rparr>"

definition ex_si :: sched_io where
  "ex_si = \<lparr>si_f = (\<lambda>_. NoFault), si_ids = ex_ids, si_now = 0\<rparr>"

definition ex_sc :: fiber_ctx where
  "ex_sc = \<lparr>c_Get = (\<lambda>n. if n = InternalHeaderName then ''t'' else if n = TenantIDHeader then replicate 7 (CHR ''1'')
       else if n = AppTypeHeader then ''admin'' else if n = ''Cookie'' then ''session'' else []),
     c_Params = (\<lambda>_. replicate 2 (CHR ''1'')), c_Query = (\<lambda>_. []), c_Body = []\<rparr>"

theorem schedule_changes_authorized_witness:
  "\<exists>t p. adminauth_Context ex_X (TokenVerifier_Verify ''t'') ex_sc = Inr t \<and>
     Authenticate ex_X ex_session t (c_Get ex_sc ''Cookie'') = Inr p \<and> ap_Role p \<noteq> ''RECEPTIONIST''"
proof -
  let ?a = "sched_serve ex_sh SR_hours ex_si ex_sc empty_sched_db"
  have "map_option (\<lambda>a. map hr_id (sd_hours (snd a))) ?a = Some [10, 11]" by code_simp
  then obtain resp d' where a: "?a = Some (resp, d')" and "map hr_id (sd_hours d') = [10, 11]" by fastforce
  then have "d' \<noteq> empty_sched_db" by (auto simp: empty_sched_db_def)
  from schedule_changes_authorized [OF a this] show ?thesis
    by (auto simp: ex_sh_def)
qed

section \<open>A slot is offered and booked\<close>

text \<open>
  Both services with their wiring written out: the other services answer 200, identifiers are printed
  in unary, and a list of start times is encoded by its number.
\<close>

definition wx_X :: externals where
  "wx_X = ex_X\<lparr>uuid_String := (\<lambda>u. replicate (Suc (unat u)) (CHR ''1'')),
     uuid_Parse := (\<lambda>s. if s = [] then None else Some (word_of_nat (length s - 1)))\<rparr>"

definition wx_sc :: sched_client where
  "wx_sc = \<lparr>sc_barberURL = [], sc_catalogURL = [], sc_tenantURL = [], sc_token = ''t'', sc_Do = (\<lambda>_. Response 200 []),
     sc_decode_barber = (\<lambda>_. Some ex_barber), sc_decode_service = (\<lambda>_. Some ex_svc),
     sc_decode_settings = (\<lambda>_. Some ex_settings)\<rparr>"

definition wx_h :: sched_handler where
  "wx_h = ex_sh\<lparr>sh_X := wx_X, sh_app := ex_app\<lparr>sa_Barber := sd_Barber wx_X wx_sc, sa_Service := sd_Service wx_X wx_sc,
     sa_Settings := sd_Settings wx_X wx_sc, sa_Occupied := store_occupancy empty_appt_db\<rparr>\<rparr>"

definition wx_enc :: "slot list \<Rightarrow> string" where
  "wx_enc v = replicate (to_nat (map sl_StartAt v)) (CHR ''1'')"

definition wx_cl :: appt_client where
  "wx_cl = \<lparr>ac_deps = wx_sc, ac_schedulingURL = [], ac_customerURL = [], ac_svc_token = ''t'',
     ac_http = (\<lambda>_. slots_response wx_enc (h_availability wx_h ex_si
       (availability_ctx wx_X ''t'' ex_tenant 2 3 ''2024-01-08'') ex_hours_db)),
     ac_local_date = (\<lambda>_ _. Some ''2024-01-08''), ac_decode_slots = (\<lambda>s. Some (from_nat (length s))),
     ac_decode_customer = (\<lambda>_. None)\<rparr>"

definition ex_offer :: slot where
  "ex_offer = \<lparr>sl_StartAt = 1704705300000000000, sl_EndAt = 1704707100000000000\<rparr>"

lemma wx_deps:
  "sd_Barber wx_X wx_sc t b = Inr ex_barber" "sd_Service wx_X wx_sc t b sv = Inr ex_svc"
  "sd_Settings wx_X wx_sc t = Inr ex_settings" "sd_BranchBarber wx_X wx_sc t br b = Inr ()"
  by (simp_all add: sd_Barber_def sd_Service_def sd_Settings_def sd_BranchBarber_def sched_request_def
      require_value_def wx_sc_def)

lemma wx_served: "scheduling_served wx_X wx_cl wx_enc wx_h ex_si ex_hours_db ex_tenant 2 3 ''2024-01-08''"
  by (auto simp: scheduling_served_def wx_cl_def wx_enc_def wx_h_def wx_X_def ex_sh_def TokenVerifier_Verify_def)

theorem offered_slot_bookable_witness:
  "\<exists>a d'. booking_commit (client_deps wx_X wx_cl) NoFault (ex_env 2) (ex_cmd ''k'' 1704705300000000000)
      (ex_input 1704705300000000000) ''scope'' ex_fp empty_appt_db = (Inr a, d') \<and>
     a_Status a = ''pending'' \<and> a_EndAt a = 1704707100000000000"
proof -
  let ?r = "app_Availability (sh_app wx_h) NoFault NoFault ex_query 0 ex_hours_db"
  have "(case fst ?r of Some x \<Rightarrow> \<not> isl x \<and> ex_offer \<in> set (projr x) | None \<Rightarrow> False)" by code_simp
  then obtain slots where slots: "?r = (Some (Inr slots), snd ?r)" "ex_offer \<in> set slots"
    by (cases ?r; cases "fst ?r"; cases "the (fst ?r)") auto
  let ?c = "ex_cmd ''k'' 1704705300000000000" and ?i = "ex_input 1704705300000000000"
  have q: "aq_Tenant ex_query = ex_tenant" "aq_BarberID ex_query = 2" "aq_ServiceID ex_query = 3"
    "aq_Date ex_query = (2024, 1, 8)" "aq_Principal ex_query = None" "AppType ex_tenant = ''booking''"
    by (simp_all add: ex_query_def ex_tenant_def)
  have facts: "service_ok ex_svc" "zn_civil ex_zone (zn_midnight ex_zone (2024, 1, 8)) = (2024, 1, 8)"
    "parse_date ''2024-01-08'' = Some (2024, 1, 8)" "fresh_env (ex_env 2) empty_appt_db"
    "valid_key (cmd_IdempotencyKey ?c) ex_fp" by code_simp+
  show ?thesis
    using offered_slot_bookable [OF appt_inv_empty _ slots, where X = wx_X and cl = wx_cl and enc = wx_enc and
        io = ex_si and date = "''2024-01-08''" and settings = ex_settings and z = ex_zone and svc = ex_svc and cmd = ?c and
        inp = ?i and env = "ex_env 2" and fp = ex_fp and sc = "''scope''"]
      wx_served facts
    by (auto simp: q wx_deps ex_si_def wx_h_def wx_cl_def ex_app_def ex_sh_def ex_cmd_def ex_input_def ex_offer_def
        ex_zone_def ex_settings_def Interval_def Atoi_def sql_find_key_def empty_appt_db_def)
qed

end
