(* ===== verification/Notif_Store.thy ===== *)
theory Notif_Store
  imports Platform Store_Spec
begin

text \<open>
  The store of notification-service: the table \<^verbatim>\<open>email_notifications\<close> as the migrations leave it, its
  statements, and the operations of \<^verbatim>\<open>internal/repository/repository.go\<close>, with the queue functions
  \<^verbatim>\<open>claim_email_notifications\<close> and \<^verbatim>\<open>finish_email_notification\<close>.

  A worker holds a notification through a claim token that the claim writes into the row.
  Completion must present that token, so the store is a \<open>claim_store\<close>.
\<close>

section \<open>Envelopes and rows\<close>

record envelope =
  en_EventID :: uuid
  en_EventType :: string
  en_EventVersion :: int
  en_TenantID :: uuid
  en_AggregateID :: uuid
  en_OccurredAt :: time
  en_Payload :: string

record notification =
  nt_ID :: uuid
  nt_ClaimToken :: uuid
  nt_TenantID :: uuid
  nt_AppointmentID :: "uuid option"
  nt_Type :: string
  nt_Email :: string
  nt_Template :: string
  nt_Language :: string
  nt_Attempts :: int
  nt_Recovered :: bool

record notif_row =
  n_id :: uuid
  n_tenant :: uuid
  n_event :: uuid
  n_appointment :: uuid
  n_type :: string
  n_email :: string
  n_template :: string
  n_language :: string
  n_status :: string
  n_attempts :: int
  n_message_id :: "string option"
  n_scheduled :: time
  n_next_attempt :: time
  n_sent_at :: "time option"
  n_last_error :: "string option"
  n_claimed_at :: "time option"
  n_lease_until :: "time option"
  n_claim_token :: "uuid option"

record notif_db =
  notifications :: "notif_row list"

definition empty_notif_db :: notif_db where
  "empty_notif_db = \<lparr>notifications = []\<rparr>"

definition notification_type :: "string \<Rightarrow> bool" where
  "notification_type k \<longleftrightarrow> k = ''appointment_created'' \<or> k = ''appointment_rescheduled'' \<or>
     k = ''appointment_cancelled'' \<or> k = ''appointment_confirmed'' \<or> k = ''appointment_reminder''"

definition notification_status :: "string \<Rightarrow> bool" where
  "notification_status s \<longleftrightarrow> s = ''pending'' \<or> s = ''processing'' \<or> s = ''sent'' \<or> s = ''failed'' \<or>
     s = ''cancelled''"

text \<open>The key of the unique constraint: tenant, event and type.\<close>

definition n_key :: "notif_row \<Rightarrow> uuid \<times> uuid \<times> string" where
  "n_key r = (n_tenant r, n_event r, n_type r)"

definition row_valid :: "notif_row \<Rightarrow> bool" where
  "row_valid r \<longleftrightarrow> notification_type (n_type r) \<and> notification_status (n_status r) \<and> 0 \<le> n_attempts r"

section \<open>Statements\<close>

text \<open>
  \<^verbatim>\<open>INSERT ... ON CONFLICT(tenant_id,event_id,notification_type)\<close>: the row policy and the checks come
  first, then the conflict, resolved by \<open>conflict\<close>, then the primary key. The result counts the
  affected rows.
\<close>

definition sql_insert_notification ::
  "uuid \<Rightarrow> notif_row \<Rightarrow> (notif_row \<Rightarrow> notif_row option) \<Rightarrow> notif_db \<Rightarrow> repo_error + (nat \<times> notif_db)" where
  "sql_insert_notification ctx r conflict d =
     (if n_tenant r \<noteq> ctx then Inl (PgError ''42501'')
      else if \<not> row_valid r then Inl (PgError ''23514'')
      else case find (\<lambda>x. n_key x = n_key r) (notifications d) of
        Some x \<Rightarrow> (case conflict x of
            None \<Rightarrow> Inr (0, d)
          | Some y \<Rightarrow> Inr (1, d\<lparr>notifications := map (\<lambda>z. if n_id z = n_id x then y else z) (notifications d)\<rparr>))
      | None \<Rightarrow>
          if n_id r \<in> n_id ` set (notifications d) then Inl (PgError ''23505'')
          else Inr (1, d\<lparr>notifications := notifications d @ [r]\<rparr>))"

definition due :: "time \<Rightarrow> notif_row \<Rightarrow> bool" where
  "due now r \<longleftrightarrow> n_status r = ''pending'' \<and> n_scheduled r \<le> now \<and> n_next_attempt r \<le> now \<or>
     n_status r = ''processing'' \<and> (case n_lease_until r of None \<Rightarrow> False | Some l \<Rightarrow> l < now)"

definition lease_ns :: duration where
  "lease_ns = 120000000000"

definition claim_row :: "time \<Rightarrow> uuid \<Rightarrow> notif_row \<Rightarrow> notif_row" where
  "claim_row now token r = r\<lparr>n_status := ''processing'', n_attempts := n_attempts r + 1,
     n_claimed_at := Some now, n_lease_until := Some (now + lease_ns), n_claim_token := Some token\<rparr>"

definition to_notification :: "bool \<Rightarrow> uuid \<Rightarrow> notif_row \<Rightarrow> notification" where
  "to_notification recovered token r =
     \<lparr>nt_ID = n_id r, nt_ClaimToken = token, nt_TenantID = n_tenant r, nt_AppointmentID = Some (n_appointment r),
      nt_Type = n_type r, nt_Email = n_email r, nt_Template = n_template r, nt_Language = n_language r,
      nt_Attempts = n_attempts r, nt_Recovered = recovered\<rparr>"

text \<open>
  \<open>token i\<close> is the value of \<^verbatim>\<open>gen_random_uuid()\<close> for the row \<open>i\<close>. \<open>p_tenant = None\<close> is the scan over
  all tenants.
\<close>

definition claim_candidates :: "time \<Rightarrow> int \<Rightarrow> uuid option \<Rightarrow> notif_db \<Rightarrow> notif_row list" where
  "claim_candidates now p_limit p_tenant d =
     take (clamp_limit p_limit 100) (sort_key n_scheduled
       (filter (\<lambda>r. (case p_tenant of None \<Rightarrow> True | Some t \<Rightarrow> n_tenant r = t) \<and> due now r) (notifications d)))"

definition claim_email_notifications ::
  "time \<Rightarrow> (uuid \<Rightarrow> uuid) \<Rightarrow> int \<Rightarrow> uuid option \<Rightarrow> notif_db \<Rightarrow> notification list \<times> notif_db" where
  "claim_email_notifications now token p_limit p_tenant d =
     (let c = claim_candidates now p_limit p_tenant d
      in (map (\<lambda>r. to_notification (n_status r = ''processing'') (token (n_id r)) (claim_row now (token (n_id r)) r)) c,
          d\<lparr>notifications := map (\<lambda>r. if n_id r \<in> n_id ` set c then claim_row now (token (n_id r)) r else r)
             (notifications d)\<rparr>))"

definition finish_row :: "time \<Rightarrow> string \<Rightarrow> string \<Rightarrow> time option \<Rightarrow> notif_row \<Rightarrow> notif_row" where
  "finish_row now message_id problem retry_at r =
     r\<lparr>n_status := (if message_id \<noteq> [] then ''sent'' else if retry_at \<noteq> None then ''pending'' else ''failed''),
       n_message_id := (if message_id \<noteq> [] then Some message_id else n_message_id r),
       n_sent_at := (if message_id \<noteq> [] then Some now else n_sent_at r),
       n_last_error := Some problem,
       n_next_attempt := (case retry_at of None \<Rightarrow> n_next_attempt r | Some t \<Rightarrow> t),
       n_claimed_at := None, n_lease_until := None, n_claim_token := None\<rparr>"

definition holds_claim :: "uuid \<Rightarrow> uuid \<Rightarrow> notif_row \<Rightarrow> bool" where
  "holds_claim i claim r \<longleftrightarrow> n_id r = i \<and> n_status r = ''processing'' \<and> n_claim_token r = Some claim"

definition finish_email_notification ::
  "time \<Rightarrow> uuid \<Rightarrow> uuid \<Rightarrow> string \<Rightarrow> string \<Rightarrow> time option \<Rightarrow> notif_db \<Rightarrow> notif_db" where
  "finish_email_notification now i claim message_id problem retry_at d =
     d\<lparr>notifications := map (\<lambda>r. if holds_claim i claim r then finish_row now message_id problem retry_at r else r)
        (notifications d)\<rparr>"

section \<open>Repository operations\<close>

definition planned_row ::
  "uuid \<Rightarrow> uuid \<Rightarrow> envelope \<Rightarrow> string \<Rightarrow> string \<Rightarrow> string \<Rightarrow> string \<Rightarrow> time \<Rightarrow> notif_row" where
  "planned_row i tenant event kind recipient tmpl language scheduled =
     \<lparr>n_id = i, n_tenant = tenant, n_event = en_EventID event, n_appointment = en_AggregateID event, n_type = kind,
      n_email = recipient, n_template = tmpl, n_language = language, n_status = ''pending'', n_attempts = 0,
      n_message_id = None, n_scheduled = scheduled, n_next_attempt = scheduled, n_sent_at = None,
      n_last_error = None, n_claimed_at = None, n_lease_until = None, n_claim_token = None\<rparr>"

definition repo_Plan ::
  "tx_fault \<Rightarrow> uuid \<Rightarrow> uuid \<Rightarrow> envelope \<Rightarrow> string \<Rightarrow> string \<Rightarrow> string \<Rightarrow> string \<Rightarrow> time \<Rightarrow> notif_db \<Rightarrow>
     (repo_error + bool) \<times> notif_db" where
  "repo_Plan f i tenant event kind recipient tmpl language scheduled d =
     (if recipient = [] then (Inl RepoInvalidRecipient, d)
      else WithTenantTx f tenant (\<lambda>ctx d.
        case sql_insert_notification ctx (planned_row i tenant event kind recipient tmpl language scheduled)
               (\<lambda>_. None) d of
          Inl e \<Rightarrow> Inl e
        | Inr (n, d') \<Rightarrow> Inr (n = 1, d')) d)"

definition terminalRecipientPlaceholder :: string where
  "terminalRecipientPlaceholder = ''undeliverable@notification-service.invalid''"

definition failed_row :: "time \<Rightarrow> uuid \<Rightarrow> uuid \<Rightarrow> envelope \<Rightarrow> string \<Rightarrow> string \<Rightarrow> string \<Rightarrow> string \<Rightarrow> notif_row" where
  "failed_row now i tenant event kind tmpl language reason =
     (planned_row i tenant event kind terminalRecipientPlaceholder tmpl language now)
       \<lparr>n_status := ''failed'', n_last_error := Some reason\<rparr>"

definition repo_Fail ::
  "tx_fault \<Rightarrow> time \<Rightarrow> uuid \<Rightarrow> uuid \<Rightarrow> envelope \<Rightarrow> string \<Rightarrow> string \<Rightarrow> string \<Rightarrow> string \<Rightarrow> notif_db \<Rightarrow>
     (repo_error + unit) \<times> notif_db" where
  "repo_Fail f now i tenant event kind tmpl language reason = WithTenantTx f tenant (\<lambda>ctx d.
     case sql_insert_notification ctx (failed_row now i tenant event kind tmpl language reason)
            (\<lambda>x. if n_status x = ''sent'' \<or> n_status x = ''cancelled'' then None
                  else Some (x\<lparr>n_status := ''failed'', n_last_error := Some reason\<rparr>)) d of
       Inl e \<Rightarrow> Inl e
     | Inr (n, d') \<Rightarrow> Inr ((), d'))"

definition reminder_pending :: "uuid \<Rightarrow> uuid \<Rightarrow> notif_row \<Rightarrow> bool" where
  "reminder_pending tenant appointment r \<longleftrightarrow> n_tenant r = tenant \<and> n_appointment r = appointment \<and>
     n_type r = ''appointment_reminder'' \<and> n_status r = ''pending''"

definition repo_CancelReminders ::
  "tx_fault \<Rightarrow> uuid \<Rightarrow> uuid \<Rightarrow> notif_db \<Rightarrow> (repo_error + unit) \<times> notif_db" where
  "repo_CancelReminders f tenant appointment = WithTenantTx f tenant (\<lambda>ctx d.
     Inr ((), d\<lparr>notifications := map (\<lambda>r. if n_tenant r = ctx \<and> reminder_pending tenant appointment r
        then r\<lparr>n_status := ''cancelled''\<rparr> else r) (notifications d)\<rparr>))"

text \<open>\<open>fails\<close>: the statement could not be executed.\<close>

definition notif_Claim ::
  "bool \<Rightarrow> time \<Rightarrow> (uuid \<Rightarrow> uuid) \<Rightarrow> int \<Rightarrow> notif_db \<Rightarrow> (unit + notification list) \<times> notif_db" where
  "notif_Claim fails now token limit d =
     (if fails then (Inl (), d)
      else case claim_email_notifications now token limit None d of (items, d') \<Rightarrow> (Inr items, d'))"

definition notif_ClaimForTenant ::
  "bool \<Rightarrow> time \<Rightarrow> (uuid \<Rightarrow> uuid) \<Rightarrow> uuid \<Rightarrow> int \<Rightarrow> notif_db \<Rightarrow> (unit + notification list) \<times> notif_db" where
  "notif_ClaimForTenant fails now token tenant limit d =
     (if fails then (Inl (), d)
      else case claim_email_notifications now token limit (Some tenant) d of (items, d') \<Rightarrow> (Inr items, d'))"

definition notif_Finish ::
  "bool \<Rightarrow> time \<Rightarrow> uuid \<Rightarrow> uuid \<Rightarrow> string \<Rightarrow> string \<Rightarrow> time option \<Rightarrow> notif_db \<Rightarrow> (unit + unit) \<times> notif_db" where
  "notif_Finish fails now i claim messageID problem retryAt d =
     (if fails then (Inl (), d)
      else (Inr (), finish_email_notification now i claim messageID problem retryAt d))"

section \<open>The invariant\<close>

definition lifecycle_ok :: "notif_row \<Rightarrow> bool" where
  "lifecycle_ok r \<longleftrightarrow> row_valid r \<and>
     (n_status r = ''processing'' \<longrightarrow> n_claim_token r \<noteq> None \<and> n_lease_until r \<noteq> None) \<and>
     (n_status r = ''sent'' \<longrightarrow> n_sent_at r \<noteq> None \<and> (\<exists>m. n_message_id r = Some m \<and> m \<noteq> []))"

definition notif_inv :: "notif_db \<Rightarrow> bool" where
  "notif_inv d \<longleftrightarrow> distinct (map n_id (notifications d)) \<and> distinct (map n_key (notifications d)) \<and>
     (\<forall>r \<in> set (notifications d). lifecycle_ok r)"

text \<open>Statements that change rows in place keep identities and keys.\<close>

definition rowwise :: "(notif_row \<Rightarrow> notif_row) \<Rightarrow> bool" where
  "rowwise g \<longleftrightarrow> (\<forall>r. n_id (g r) = n_id r \<and> n_key (g r) = n_key r \<and> (lifecycle_ok r \<longrightarrow> lifecycle_ok (g r)))"

lemma notif_inv_map:
  assumes "rowwise g" and "notif_inv d"
  shows "notif_inv (d\<lparr>notifications := map g (notifications d)\<rparr>)"
proof -
  have "map n_id (map g xs) = map n_id xs" "map n_key (map g xs) = map n_key xs" for xs
    using assms(1) by (simp_all add: rowwise_def)
  then show ?thesis using assms by (auto simp: notif_inv_def rowwise_def simp del: map_map)
qed

lemma rowwise_if:
  "(\<And>r. P r \<Longrightarrow> n_id (g r) = n_id r) \<Longrightarrow> (\<And>r. P r \<Longrightarrow> n_key (g r) = n_key r) \<Longrightarrow>
   (\<And>r. P r \<Longrightarrow> lifecycle_ok r \<Longrightarrow> lifecycle_ok (g r)) \<Longrightarrow> rowwise (\<lambda>r. if P r then g r else r)"
  by (simp add: rowwise_def)

lemma rowwise_claim: "rowwise (\<lambda>r. if P r then claim_row now (token (n_id r)) r else r)"
  by (rule rowwise_if)
    (auto simp: claim_row_def n_key_def lifecycle_ok_def row_valid_def notification_status_def)

lemma rowwise_finish: "rowwise (\<lambda>r. if P r then finish_row now m p t r else r)"
  by (rule rowwise_if)
    (auto simp: finish_row_def n_key_def lifecycle_ok_def row_valid_def notification_status_def)

lemma rowwise_cancel: "rowwise (\<lambda>r. if P r then r\<lparr>n_status := ''cancelled''\<rparr> else r)"
  by (rule rowwise_if)
    (auto simp: n_key_def lifecycle_ok_def row_valid_def notification_status_def)

lemma insert_notification_inv:
  assumes "notif_inv d" and "sql_insert_notification ctx r conflict d = Inr (n, d')"
    and "lifecycle_ok r" and "\<And>x y. conflict x = Some y \<Longrightarrow> n_id y = n_id x \<and> n_key y = n_key x \<and> (lifecycle_ok x \<longrightarrow> lifecycle_ok y)"
  shows "notif_inv d'"
proof (cases "find (\<lambda>x. n_key x = n_key r) (notifications d)")
  case None
  then have "n_key r \<notin> n_key ` set (notifications d)" using find_NoneD by fastforce
  with assms None show ?thesis
    by (auto simp: sql_insert_notification_def notif_inv_def split: if_splits)
next
  case (Some x)
  show ?thesis
  proof (cases "conflict x")
    case None
    with Some assms(1,2) show ?thesis by (auto simp: sql_insert_notification_def split: if_splits)
  next
    case (Some y)
    note x = find_SomeD [OF \<open>find _ _ = Some x\<close>]
    let ?g = "\<lambda>z. if n_id z = n_id x then y else z"
    have eq: "z = x" if "z \<in> set (notifications d)" "n_id z = n_id x" for z
      using assms(1) x that inj_key [of n_id "notifications d" z x] by (simp add: notif_inv_def)
    have "map n_id (map ?g (notifications d)) = map n_id (notifications d)"
      "map n_key (map ?g (notifications d)) = map n_key (notifications d)"
      using assms(4) [OF Some] eq by auto
    moreover have "d' = d\<lparr>notifications := map ?g (notifications d)\<rparr>"
      using assms(2) Some \<open>find _ _ = Some x\<close> by (auto simp: sql_insert_notification_def split: if_splits)
    ultimately show ?thesis using assms(1) assms(4) [OF Some] x
      by (auto simp: notif_inv_def simp del: map_map)
  qed
qed

lemma planned_row_ok: "row_valid (planned_row i t e k rc tm l s) \<Longrightarrow> lifecycle_ok (planned_row i t e k rc tm l s)"
  by (simp add: lifecycle_ok_def planned_row_def)

lemma failed_row_ok: "row_valid (failed_row now i t e k tm l why) \<Longrightarrow> lifecycle_ok (failed_row now i t e k tm l why)"
  by (simp add: lifecycle_ok_def failed_row_def planned_row_def)

lemma insert_valid: "sql_insert_notification ctx r conflict d = Inr x \<Longrightarrow> row_valid r"
  by (auto simp: sql_insert_notification_def split: if_splits)

lemma repo_Plan_inv [inv_intros]: "notif_inv d \<Longrightarrow> notif_inv (snd (repo_Plan f i t e k rc tm l s d))"
  unfolding repo_Plan_def
proof (cases "rc = []", simp, simp, rule WithTenantTx_inv, goal_cases)
  case (1 v d')
  then obtain n where ins: "sql_insert_notification t (planned_row i t e k rc tm l s) (\<lambda>_. None) d = Inr (n, d')"
    by (auto split: sum.splits)
  show ?case
    by (rule insert_notification_inv [OF 1(1) ins planned_row_ok [OF insert_valid [OF ins]]]) simp
qed

lemma repo_Fail_inv [inv_intros]: "notif_inv d \<Longrightarrow> notif_inv (snd (repo_Fail f now i t e k tm l why d))"
  unfolding repo_Fail_def
proof (rule WithTenantTx_inv, goal_cases)
  case (1 v d')
  then obtain n where ins: "sql_insert_notification t (failed_row now i t e k tm l why)
      (\<lambda>x. if n_status x = ''sent'' \<or> n_status x = ''cancelled'' then None
            else Some (x\<lparr>n_status := ''failed'', n_last_error := Some why\<rparr>)) d = Inr (n, d')"
    by (auto split: sum.splits)
  show ?case
    by (rule insert_notification_inv [OF 1(1) ins failed_row_ok [OF insert_valid [OF ins]]])
      (auto simp: n_key_def lifecycle_ok_def row_valid_def notification_status_def split: if_splits)
qed

lemma repo_CancelReminders_inv [inv_intros]: "notif_inv d \<Longrightarrow> notif_inv (snd (repo_CancelReminders f t a d))"
  unfolding repo_CancelReminders_def
  by (rule WithTenantTx_inv) (auto intro: notif_inv_map rowwise_cancel)

lemma claim_inv [inv_intros]: "notif_inv d \<Longrightarrow> notif_inv (snd (claim_email_notifications now token n t d))"
  unfolding claim_email_notifications_def Let_def snd_conv by (rule notif_inv_map [OF rowwise_claim])

lemma finish_inv [inv_intros]: "notif_inv d \<Longrightarrow> notif_inv (finish_email_notification now i c m p t d)"
  unfolding finish_email_notification_def by (rule notif_inv_map [OF rowwise_finish])

section \<open>The store as a queue with fenced claims\<close>

datatype notif_op =
    NPlan tx_fault uuid uuid envelope string string string string time
  | NFail tx_fault time uuid uuid envelope string string string string
  | NCancel tx_fault uuid uuid
  | NClaim time "uuid \<Rightarrow> uuid" int "uuid option"
  | NFinish time uuid uuid string string "time option"

fun exec_notif :: "notif_op \<Rightarrow> notif_db \<Rightarrow> notif_db" where
  "exec_notif (NPlan f i t e k rc tm l s) d = snd (repo_Plan f i t e k rc tm l s d)"
| "exec_notif (NFail f now i t e k tm l why) d = snd (repo_Fail f now i t e k tm l why d)"
| "exec_notif (NCancel f t a) d = snd (repo_CancelReminders f t a d)"
| "exec_notif (NClaim now token n t) d = snd (claim_email_notifications now token n t d)"
| "exec_notif (NFinish now i c m p t) d = finish_email_notification now i c m p t d"

lemma notif_inv_empty: "notif_inv empty_notif_db"
  by (simp add: notif_inv_def empty_notif_db_def)

lemma exec_notif_inv: "notif_inv d \<Longrightarrow> notif_inv (exec_notif x d)"
  by (cases x) (simp_all add: inv_intros)

text \<open>Who holds a notification: the token of its row while it is being processed.\<close>

definition claim_holder :: "notif_db \<Rightarrow> uuid \<Rightarrow> uuid option" where
  "claim_holder d i =
     (case find (\<lambda>r. n_id r = i \<and> n_status r = ''processing'') (notifications d) of
        None \<Rightarrow> None | Some r \<Rightarrow> n_claim_token r)"

definition finish_with :: "uuid \<Rightarrow> uuid \<Rightarrow> time \<times> string \<times> string \<times> time option \<Rightarrow> notif_db \<Rightarrow> notif_db" where
  "finish_with i c r d = (case r of (now, m, p, t) \<Rightarrow> finish_email_notification now i c m p t d)"

lemma claim_holder_Some:
  assumes "notif_inv d"
  shows "claim_holder d i = Some c \<longleftrightarrow> (\<exists>r \<in> set (notifications d). holds_claim i c r)"
proof
  assume "claim_holder d i = Some c"
  then show "\<exists>r \<in> set (notifications d). holds_claim i c r"
    by (auto simp: claim_holder_def holds_claim_def split: option.splits dest!: find_SomeD)
next
  assume "\<exists>r \<in> set (notifications d). holds_claim i c r"
  then obtain r where r: "r \<in> set (notifications d)" "holds_claim i c r" by blast
  have "find (\<lambda>r. n_id r = i \<and> n_status r = ''processing'') (notifications d) = Some r"
    using assms r by (intro find_unique [where key = n_id]) (auto simp: notif_inv_def holds_claim_def)
  with r show "claim_holder d i = Some c" by (simp add: claim_holder_def holds_claim_def)
qed

lemma finish_stale:
  assumes "notif_inv d" and "claim_holder d i \<noteq> Some c"
  shows "finish_with i c r d = d"
proof -
  have "\<not> holds_claim i c r" if "r \<in> set (notifications d)" for r
    using assms that claim_holder_Some by blast
  then have "map (\<lambda>r. if holds_claim i c r then g r else r) (notifications d) = notifications d" for g
    by (intro map_idI) auto
  then show ?thesis by (cases r) (simp add: finish_with_def finish_email_notification_def)
qed

lemma find_map_keep:
  "(\<And>r. r \<in> set xs \<Longrightarrow> P (g r) = P r) \<Longrightarrow> (\<And>r. r \<in> set xs \<Longrightarrow> P r \<Longrightarrow> g r = r) \<Longrightarrow> find P (map g xs) = find P xs"
  by (induction xs) auto

lemma finish_other:
  assumes "notif_inv d" and "i \<noteq> j"
  shows "claim_holder (finish_with i c r d) j = claim_holder d j"
proof (cases r)
  case (fields now m p t)
  let ?g = "\<lambda>r. if holds_claim i c r then finish_row now m p t r else r"
  have "find (\<lambda>r. n_id r = j \<and> n_status r = ''processing'') (map ?g (notifications d)) =
      find (\<lambda>r. n_id r = j \<and> n_status r = ''processing'') (notifications d)"
    using assms(2) by (intro find_map_keep) (auto simp: holds_claim_def finish_row_def)
  then show ?thesis by (simp add: fields finish_with_def finish_email_notification_def claim_holder_def)
qed

lemma finish_releases:
  assumes "notif_inv d" and "claim_holder d i = Some c"
  shows "claim_holder (finish_with i c r d) i = None"
proof (cases r)
  case (fields now m p t)
  define g where "g = (\<lambda>r. if holds_claim i c r then finish_row now m p t r else r)"
  from assms obtain x where x: "x \<in> set (notifications d)" "holds_claim i c x" using claim_holder_Some by blast
  have "z = x" if "z \<in> set (notifications d)" "n_id z = i" for z
    using assms(1) x that inj_key [of n_id "notifications d" z x] by (simp add: notif_inv_def holds_claim_def)
  then have fin: "n_status (g z) \<noteq> ''processing''" if "z \<in> set (notifications d)" "n_id z = i" for z
    using that x by (auto simp: g_def finish_row_def)
  have id: "n_id (g z) = n_id z" for z by (simp add: g_def finish_row_def)
  have "find (\<lambda>r. n_id r = i \<and> n_status r = ''processing'') (map g (notifications d)) = None"
    unfolding find_None_iff set_map using fin by (auto simp: id)
  then show ?thesis by (simp add: fields finish_with_def finish_email_notification_def claim_holder_def g_def)
qed

lemma finish_with_inv: "notif_inv d \<Longrightarrow> notif_inv (finish_with i c r d)"
  by (auto simp: finish_with_def intro: finish_inv split: prod.splits)

interpretation nq: claim_store exec_notif notif_inv empty_notif_db claim_holder finish_with
  by unfold_locales
    (simp_all add: notif_inv_empty exec_notif_inv finish_stale finish_releases finish_other finish_with_inv)

end
