(* ===== verification/Notif_Consumer.thy ===== *)
theory Notif_Consumer
  imports Notif_Store
begin

text \<open>
  The event consumer of notification-service (\<^verbatim>\<open>internal/consumer/consumer.go\<close>), the recipient client
  (\<^verbatim>\<open>internal/consumer/recipient.go\<close>) and the settings client it takes reminder offsets from
  (\<^verbatim>\<open>platform/tenantsettings/client.go\<close>).

  Parameters: JSON decoding, the HTTP transport, the environment, \<^verbatim>\<open>time.ParseDuration\<close>, the text of a
  duration and of an error, and \<^verbatim>\<open>uuid.NewSHA1\<close>. JetStream is the number of the delivery it reports and
  the acknowledgement it is given. Tracing and counters are not modelled.
\<close>

section \<open>platform/tenantsettings\<close>

record reminder_settings =
  rs_Timezone :: string
  rs_BookingIntervalMinutes :: int
  rs_ReminderOffsetsMinutes :: "int list"

record settings_client =
  tc_baseURL :: string
  tc_token :: string
  tc_Do :: "http_req \<Rightarrow> http_resp"
  tc_decode :: "string \<Rightarrow> reminder_settings option"

definition settings_New ::
  "string \<Rightarrow> string \<Rightarrow> (http_req \<Rightarrow> http_resp) \<Rightarrow> (string \<Rightarrow> reminder_settings option) \<Rightarrow> settings_client" where
  "settings_New baseURL token http dec =
     \<lparr>tc_baseURL = rev (dropWhile (\<lambda>c. c = CHR ''/'') (rev baseURL)), tc_token = token, tc_Do = http, tc_decode = dec\<rparr>"

definition client_Settings :: "externals \<Rightarrow> settings_client \<Rightarrow> tenant_ctx \<Rightarrow> string + reminder_settings" where
  "client_Settings X c tenant =
     (if tc_baseURL c = [] \<or> tc_token c = [] \<or> TenantID tenant = uuid_nil
      then Inl ''tenant settings client is not configured''
      else case tc_Do c \<lparr>hr_method = ''GET'', hr_url = tc_baseURL c @ ''/internal/v1/settings'',
          hr_headers = tenant_headers X (tc_token c) tenant\<rparr> of
        TransportError e \<Rightarrow> Inl e
      | Response status body \<Rightarrow>
          if status < 200 \<or> status \<ge> 300 then Inl ''tenant settings request failed''
          else (case tc_decode c body of None \<Rightarrow> Inl ''invalid response'' | Some s \<Rightarrow> Inr s))"

fun offsets_of_minutes :: "int list \<Rightarrow> string + duration list" where
  "offsets_of_minutes [] = Inr []"
| "offsets_of_minutes (m # ms) =
     (if m \<le> 0 then Inl ''tenant reminder offset is invalid''
      else case offsets_of_minutes ms of Inl e \<Rightarrow> Inl e | Inr os \<Rightarrow> Inr (Minutes m # os))"

definition client_ReminderOffsets :: "externals \<Rightarrow> settings_client \<Rightarrow> uuid \<Rightarrow> string + duration list" where
  "client_ReminderOffsets X c tenantID =
     (case client_Settings X c \<lparr>TenantID = tenantID, AppType = ''booking'', RequestID = []\<rparr> of
        Inl e \<Rightarrow> Inl e
      | Inr s \<Rightarrow>
          if rs_ReminderOffsetsMinutes s = [] then Inl ''tenant reminder offsets are empty''
          else offsets_of_minutes (rs_ReminderOffsetsMinutes s))"

section \<open>internal/consumer/recipient.go\<close>

record recipient_client =
  rc_baseURL :: string
  rc_token :: string
  rc_Do :: "http_req \<Rightarrow> http_resp"
  rc_decode :: "string \<Rightarrow> string option"

definition NewAppointmentRecipientClient ::
  "string \<Rightarrow> string \<Rightarrow> (http_req \<Rightarrow> http_resp) \<Rightarrow> (string \<Rightarrow> string option) \<Rightarrow> recipient_client" where
  "NewAppointmentRecipientClient baseURL token http dec =
     \<lparr>rc_baseURL = rev (dropWhile (\<lambda>c. c = CHR ''/'') (rev baseURL)), rc_token = token, rc_Do = http, rc_decode = dec\<rparr>"

definition recipient_Email :: "externals \<Rightarrow> recipient_client \<Rightarrow> uuid \<Rightarrow> uuid \<Rightarrow> string + string" where
  "recipient_Email X c tenant appointment =
     (case rc_Do c \<lparr>hr_method = ''GET'',
         hr_url = rc_baseURL c @ ''/internal/v1/appointments/'' @ uuid_String X appointment @ ''/notification-recipient'',
         hr_headers = [(InternalHeaderName, rc_token c), (TenantIDHeader, uuid_String X tenant), (AppTypeHeader, ''booking'')]\<rparr> of
        TransportError e \<Rightarrow> Inl e
      | Response status body \<Rightarrow>
          if status \<noteq> 200 then Inl ''appointment recipient unavailable''
          else (case rc_decode c body of
             None \<Rightarrow> Inl ''invalid response''
           | Some email \<Rightarrow>
               let e = ToLower (TrimSpace email)
               in if \<not> Contains e ''@'' then Inl ''invalid appointment recipient'' else Inr e))"

lemma recipient_Email_nonempty: "recipient_Email X c t a = Inr e \<Longrightarrow> e \<noteq> []"
  by (auto simp: recipient_Email_def Let_def split: http_resp.splits if_splits option.splits)

section \<open>Configuration\<close>

definition env :: "(string \<Rightarrow> string) \<Rightarrow> string \<Rightarrow> string \<Rightarrow> string" where
  "env getenv k d = (if getenv k \<noteq> [] then getenv k else d)"

definition defaultMaxDeliver :: int where
  "defaultMaxDeliver = 20"

definition maxDeliverFromEnv :: "(string \<Rightarrow> string) \<Rightarrow> int" where
  "maxDeliverFromEnv getenv =
     (let v = getenv ''NOTIFICATION_CONSUMER_MAX_DELIVER''
      in if v \<noteq> [] then (case Atoi v of Some n \<Rightarrow> if n > 0 then n else defaultMaxDeliver | None \<Rightarrow> defaultMaxDeliver)
         else defaultMaxDeliver)"

text \<open>\<^verbatim>\<open>strings.Split\<close> at a separator of one byte.\<close>

fun split_at_char :: "char \<Rightarrow> string \<Rightarrow> string list" where
  "split_at_char sep [] = [[]]"
| "split_at_char sep (c # cs) =
     (if c = sep then [] # split_at_char sep cs
      else case split_at_char sep cs of [] \<Rightarrow> [[c]] | w # ws \<Rightarrow> (c # w) # ws)"

definition offsets :: "(string \<Rightarrow> string) \<Rightarrow> (string \<Rightarrow> duration option) \<Rightarrow> duration list" where
  "offsets getenv ParseDuration = concat (map (\<lambda>x.
     case ParseDuration (TrimSpace x) of Some d \<Rightarrow> if d > 0 then [d] else [] | None \<Rightarrow> [])
       (split_at_char (CHR '','') (env getenv ''REMINDER_OFFSETS'' ''24h,2h'')))"

definition staticOffsets :: "duration list \<Rightarrow> uuid \<Rightarrow> string + duration list" where
  "staticOffsets os tenant = Inr os"

record consumer =
  co_templates :: "string \<rightharpoonup> string"
  co_language :: string
  co_offsets :: "uuid \<Rightarrow> string + duration list"
  co_recipients :: "(uuid \<Rightarrow> uuid \<Rightarrow> string + string) option"
  co_maxDeliver :: int
  co_decode :: "string \<Rightarrow> envelope option"
  co_start_at :: "string \<Rightarrow> time"
  co_NewSHA1 :: "uuid \<Rightarrow> string \<Rightarrow> uuid"
  co_duration_String :: "duration \<Rightarrow> string"

definition consumer_templates :: "(string \<Rightarrow> string) \<Rightarrow> string \<rightharpoonup> string" where
  "consumer_templates getenv = Map.empty
     (''appointment.created'' \<mapsto> env getenv ''EMAIL_TEMPLATE_APPOINTMENT_CREATED'' ''appointment_created'',
      ''appointment.rescheduled'' \<mapsto> env getenv ''EMAIL_TEMPLATE_APPOINTMENT_RESCHEDULED'' ''appointment_rescheduled'',
      ''appointment.cancelled'' \<mapsto> env getenv ''EMAIL_TEMPLATE_APPOINTMENT_CANCELLED'' ''appointment_cancelled'',
      ''appointment.confirmed'' \<mapsto> env getenv ''EMAIL_TEMPLATE_APPOINTMENT_CONFIRMED'' ''appointment_confirmed'',
      ''appointment.reminder_due'' \<mapsto> env getenv ''EMAIL_TEMPLATE_APPOINTMENT_REMINDER'' ''appointment_reminder'')"

text \<open>\<open>provider = None\<close> is the nil interface, \<open>decoders\<close> the JSON and identifier functions.\<close>

definition NewWithConfigAndReminderOffsets ::
  "(string \<Rightarrow> string) \<Rightarrow> (string \<Rightarrow> duration option) \<Rightarrow> (uuid \<Rightarrow> string + duration list) option \<Rightarrow>
     (uuid \<Rightarrow> uuid \<Rightarrow> string + string) list \<Rightarrow> (string \<Rightarrow> envelope option) \<Rightarrow> (string \<Rightarrow> time) \<Rightarrow>
     (uuid \<Rightarrow> string \<Rightarrow> uuid) \<Rightarrow> (duration \<Rightarrow> string) \<Rightarrow> consumer" where
  "NewWithConfigAndReminderOffsets getenv ParseDuration provider resolvers dec start sha1 durString =
     \<lparr>co_templates = consumer_templates getenv, co_language = env getenv ''EMAIL_TEMPLATE_LANGUAGE'' ''en'',
      co_offsets = (case provider of None \<Rightarrow> staticOffsets (offsets getenv ParseDuration) | Some p \<Rightarrow> p),
      co_recipients = (case resolvers of [] \<Rightarrow> None | r # _ \<Rightarrow> Some r),
      co_maxDeliver = maxDeliverFromEnv getenv, co_decode = dec, co_start_at = start, co_NewSHA1 = sha1,
      co_duration_String = durString\<rparr>"

section \<open>Handling an event\<close>

datatype notif_error =
    MalformedEnvelope
  | NoResolver
  | RecipientError string
  | OffsetsError string
  | PlanError repo_error

definition mapType :: "string \<Rightarrow> string" where
  "mapType t = map (\<lambda>c. if c = CHR ''.'' then CHR ''_'' else c) t"

text \<open>What one handling draws from its surroundings: transaction faults, row identifiers and the clock.\<close>

record consumer_io =
  ci_f :: "nat \<Rightarrow> tx_fault"
  ci_ids :: "nat \<Rightarrow> uuid"
  ci_now :: "nat \<Rightarrow> time"
  ci_term_f :: tx_fault
  ci_term_id :: uuid

fun plan_reminders ::
  "consumer \<Rightarrow> consumer_io \<Rightarrow> nat \<Rightarrow> time \<Rightarrow> time \<Rightarrow> envelope \<Rightarrow> string \<Rightarrow> duration list \<Rightarrow> notif_db \<Rightarrow>
     (notif_error + unit) \<times> notif_db" where
  "plan_reminders c io n now start e recipient [] d = (Inr (), d)"
| "plan_reminders c io n now start e recipient (off # os) d =
     (if \<not> now < start - off then plan_reminders c io n now start e recipient os d
      else case repo_Plan (ci_f io n) (ci_ids io n) (en_TenantID e)
          (e\<lparr>en_EventID := co_NewSHA1 c (en_EventID e) (co_duration_String c off)\<rparr>) ''appointment_reminder'' recipient
          (case co_templates c ''appointment.reminder_due'' of None \<Rightarrow> [] | Some t \<Rightarrow> t) (co_language c) (start - off) d of
        (Inl err, d') \<Rightarrow> (Inl (PlanError err), d')
      | (Inr _, d') \<Rightarrow> plan_reminders c io (Suc n) now start e recipient os d')"

definition attributable :: "envelope \<Rightarrow> bool" where
  "attributable e \<longleftrightarrow> en_EventID e \<noteq> uuid_nil \<and> en_TenantID e \<noteq> uuid_nil \<and> en_AggregateID e \<noteq> uuid_nil"

definition payload_start :: "consumer \<Rightarrow> envelope \<Rightarrow> time" where
  "payload_start c e = (if en_Payload e \<noteq> [] then co_start_at c (en_Payload e) else time_zero)"

text \<open>The steps after planning the event's own notification: cancelling and planning reminders.\<close>

definition handle_reminders ::
  "consumer \<Rightarrow> consumer_io \<Rightarrow> envelope \<Rightarrow> string \<Rightarrow> notif_db \<Rightarrow> (notif_error + unit) \<times> notif_db" where
  "handle_reminders c io e recipient d =
     (case (if en_EventType e = ''appointment.rescheduled'' \<or> en_EventType e = ''appointment.cancelled''
            then repo_CancelReminders (ci_f io 1) (en_TenantID e) (en_AggregateID e) d else (Inr (), d)) of
        (Inl err, d') \<Rightarrow> (Inl (PlanError err), d')
      | (Inr _, d') \<Rightarrow>
          if (en_EventType e = ''appointment.created'' \<or> en_EventType e = ''appointment.rescheduled'') \<and>
             \<not> IsZero (payload_start c e)
          then (case co_offsets c (en_TenantID e) of
                  Inl err \<Rightarrow> (Inl (OffsetsError err), d')
                | Inr os \<Rightarrow> plan_reminders c io 2 (ci_now io 1) (payload_start c e) e recipient os d')
          else (Inr (), d'))"

definition handle :: "consumer \<Rightarrow> consumer_io \<Rightarrow> string \<Rightarrow> notif_db \<Rightarrow> (notif_error + unit) \<times> notif_db" where
  "handle c io data d =
     (case co_decode c data of
        None \<Rightarrow> (Inl MalformedEnvelope, d)
      | Some e \<Rightarrow>
          if \<not> attributable e \<or> en_EventVersion e \<noteq> 1 then (Inl MalformedEnvelope, d)
          else case co_templates c (en_EventType e) of
            None \<Rightarrow> (Inr (), d)
          | Some tmpl \<Rightarrow>
            (case co_recipients c of
               None \<Rightarrow> (Inl NoResolver, d)
             | Some resolve \<Rightarrow>
               (case resolve (en_TenantID e) (en_AggregateID e) of
                  Inl err \<Rightarrow> (Inl (RecipientError err), d)
                | Inr recipient \<Rightarrow>
                  (case repo_Plan (ci_f io 0) (ci_ids io 0) (en_TenantID e) e (mapType (en_EventType e)) recipient tmpl
                      (co_language c) (ci_now io 0) d of
                     (Inl err, d') \<Rightarrow> (Inl (PlanError err), d')
                   | (Inr _, d') \<Rightarrow> handle_reminders c io e recipient d'))))"

section \<open>Terminal messages and acknowledgements\<close>

definition markTerminal ::
  "consumer \<Rightarrow> (notif_error \<Rightarrow> string) \<Rightarrow> tx_fault \<Rightarrow> time \<Rightarrow> uuid \<Rightarrow> string \<Rightarrow> notif_error \<Rightarrow> notif_db \<Rightarrow> notif_db" where
  "markTerminal c errText f now i data cause d =
     (case co_decode c data of
        None \<Rightarrow> d
      | Some e \<Rightarrow>
          if \<not> attributable e then d
          else case co_templates c (en_EventType e) of
            None \<Rightarrow> d
          | Some tmpl \<Rightarrow> snd (repo_Fail f now i (en_TenantID e) e (mapType (en_EventType e)) tmpl (co_language c)
              (errText cause) d))"

datatype ack = Ack | Term | NakWithDelay

text \<open>
  The body of the loop over fetched messages. \<open>numDelivered = None\<close>: the message carries no readable
  metadata.
\<close>

definition consume ::
  "consumer \<Rightarrow> (notif_error \<Rightarrow> string) \<Rightarrow> consumer_io \<Rightarrow> int option \<Rightarrow> string \<Rightarrow> notif_db \<Rightarrow> ack \<times> notif_db" where
  "consume c errText io numDelivered data d =
     (case handle c io data d of
        (Inr _, d') \<Rightarrow> (Ack, d')
      | (Inl err, d') \<Rightarrow>
          if co_maxDeliver c > 0 \<and> (case numDelivered of None \<Rightarrow> False | Some n \<Rightarrow> n \<ge> co_maxDeliver c)
          then (Term, markTerminal c errText (ci_term_f io) (ci_now io 2) (ci_term_id io) data err d')
          else (NakWithDelay, d'))"

end
