(* ===== verification/Notif_Policy.thy ===== *)
theory Notif_Policy
  imports Notif_Consumer
begin

text \<open>
  What the consumer guarantees under at-least-once delivery: an event is planned once however often
  it arrives, an exhausted message leaves an audit row, and what a redelivered rescheduling event does
  to the reminders it planned.
\<close>

section \<open>Keys once stored stay stored\<close>

definition keys :: "notif_db \<Rightarrow> (uuid \<times> uuid \<times> string) set" where
  "keys d = n_key ` set (notifications d)"

lemma keys_upd: "keys (d\<lparr>notifications := xs\<rparr>) = set (map n_key xs)"
  by (simp add: keys_def)

lemma keys_rowwise: "rowwise g \<Longrightarrow> keys (d\<lparr>notifications := map g (notifications d)\<rparr>) = keys d"
  by (auto simp: keys_def rowwise_def image_image)

lemma insert_keys:
  assumes "notif_inv d" and "sql_insert_notification ctx r conflict d = Inr (n, d')"
    and "\<And>x y. conflict x = Some y \<Longrightarrow> n_key y = n_key x"
  shows "keys d' = insert (n_key r) (keys d)"
proof (cases "find (\<lambda>x. n_key x = n_key r) (notifications d)")
  case None
  with assms(2) show ?thesis by (auto simp: sql_insert_notification_def keys_def split: if_splits)
next
  case (Some x)
  note x = find_SomeD [OF Some]
  then have in_keys: "n_key r \<in> keys d" unfolding keys_def by (metis image_eqI)
  show ?thesis
  proof (cases "conflict x")
    case None
    with Some assms(2) in_keys show ?thesis by (auto simp: sql_insert_notification_def split: if_splits)
  next
    case (Some y)
    have "z = x" if "z \<in> set (notifications d)" "n_id z = n_id x" for z
      using assms(1) x that inj_key [of n_id "notifications d" z x] by (simp add: notif_inv_def)
    then have "map n_key (map (\<lambda>z. if n_id z = n_id x then y else z) (notifications d)) = map n_key (notifications d)"
      using assms(3) [OF Some] by auto
    then have "keys (d\<lparr>notifications := map (\<lambda>z. if n_id z = n_id x then y else z) (notifications d)\<rparr>) = keys d"
      unfolding keys_upd by (simp only: set_map keys_def)
    moreover have "d' = d\<lparr>notifications := map (\<lambda>z. if n_id z = n_id x then y else z) (notifications d)\<rparr>"
      using assms(2) Some \<open>find _ _ = Some x\<close> by (auto simp: sql_insert_notification_def split: if_splits)
    ultimately show ?thesis using in_keys by (simp only: insert_absorb)
  qed
qed

lemma Plan_keys:
  assumes "repo_Plan f i t e k rc tm l s d = (Inr b, d')" and "notif_inv d"
  shows "keys d' = insert (t, en_EventID e, k) (keys d)"
proof -
  from assms obtain n where "sql_insert_notification t (planned_row i t e k rc tm l s) (\<lambda>_. None) d = Inr (n, d')"
    by (auto simp: repo_Plan_def WithTenantTx_ok split: if_splits sum.splits)
  from insert_keys [OF assms(2) this] show ?thesis by (simp add: n_key_def planned_row_def)
qed

text \<open>Planning again under a stored key changes nothing.\<close>

lemma Plan_known:
  assumes "(t, en_EventID e, k) \<in> keys d"
  shows "snd (repo_Plan f i t e k rc tm l s d) = d"
proof -
  let ?r = "planned_row i t e k rc tm l s"
  from assms obtain x where "x \<in> set (notifications d)" "n_key x = n_key ?r"
    by (auto simp: keys_def n_key_def planned_row_def)
  then obtain y where "find (\<lambda>x. n_key x = n_key ?r) (notifications d) = Some y"
    using find_is_Some [of x "notifications d" "\<lambda>x. n_key x = n_key ?r"] by blast
  then have "d' = d" if "sql_insert_notification c ?r (\<lambda>_. None) d = Inr (n, d')" for n d' c
    using that by (auto simp: sql_insert_notification_def split: if_splits)
  then show ?thesis unfolding repo_Plan_def
    by (auto intro!: WithTenantTx_inv [where P = "\<lambda>x. x = d"] split: sum.splits prod.splits)
qed

lemma Plan_error: "repo_Plan f i t e k rc tm l s d = (Inl err, d') \<Longrightarrow> d' = d"
  by (auto simp: repo_Plan_def split: if_splits dest: WithTenantTx_atomic)

lemma Plan_mono: "notif_inv d \<Longrightarrow> keys d \<subseteq> keys (snd (repo_Plan f i t e k rc tm l s d))"
proof (cases "repo_Plan f i t e k rc tm l s d")
  case (Pair r d')
  assume "notif_inv d"
  with Pair show ?thesis by (cases r) (auto dest: Plan_error simp: Plan_keys)
qed

lemma Fail_mono: "notif_inv d \<Longrightarrow> keys d \<subseteq> keys (snd (repo_Fail f now i t e k tm l why d))"
proof -
  assume inv: "notif_inv d"
  have key: "(if n_status x = ''sent'' \<or> n_status x = ''cancelled'' then None
      else Some (x\<lparr>n_status := ''failed'', n_last_error := Some why\<rparr>)) = Some y \<Longrightarrow> n_key y = n_key x" for x y
    by (auto simp: n_key_def split: if_splits)
  show ?thesis unfolding repo_Fail_def
    by (rule WithTenantTx_inv [where P = "\<lambda>d'. keys d \<subseteq> keys d'"])
      (use insert_keys [OF inv _ key] in \<open>auto split: sum.splits\<close>)
qed

lemma Cancel_keys: "keys (snd (repo_CancelReminders f t a d)) = keys d"
  unfolding repo_CancelReminders_def
  by (rule WithTenantTx_inv) (use keys_rowwise [OF rowwise_cancel] in auto)

lemma exec_notif_mono: "notif_inv d \<Longrightarrow> keys d \<subseteq> keys (exec_notif x d)"
proof (cases x)
  case (NClaim now token n t)
  have "keys (snd (claim_email_notifications now token n t d)) = keys d"
    unfolding claim_email_notifications_def Let_def snd_conv by (rule keys_rowwise [OF rowwise_claim])
  with NClaim show ?thesis by simp
next
  case (NFinish now i c m p t)
  have "keys (finish_email_notification now i c m p t d) = keys d"
    unfolding finish_email_notification_def by (rule keys_rowwise [OF rowwise_finish])
  with NFinish show ?thesis by simp
qed (simp_all add: Plan_mono Fail_mono Cancel_keys)

lemma run_notif_mono: "notif_inv d \<Longrightarrow> keys d \<subseteq> keys (run_ops exec_notif xs d)"
  by (induction xs arbitrary: d) (auto dest: exec_notif_mono intro: exec_notif_inv)

section \<open>Redelivery\<close>

lemma handle_planned:
  assumes "handle c io data d = (Inr (), d1)" and "co_decode c data = Some e" and "notif_inv d"
    and "co_templates c (en_EventType e) = Some tmpl"
  obtains recipient b d0 where "attributable e" "en_EventVersion e = 1"
    "repo_Plan (ci_f io 0) (ci_ids io 0) (en_TenantID e) e (mapType (en_EventType e)) recipient tmpl
       (co_language c) (ci_now io 0) d = (Inr b, d0)"
    "handle_reminders c io e recipient d0 = (Inr (), d1)"
  using assms by (auto simp: handle_def split: if_splits option.splits sum.splits prod.splits)

lemma plan_reminders_inv: "notif_inv d \<Longrightarrow> notif_inv (snd (plan_reminders c io n now st e rc os d))"
proof (induction os arbitrary: n d)
  case (Cons off os)
  let ?p = "repo_Plan (ci_f io n) (ci_ids io n) (en_TenantID e)
    (e\<lparr>en_EventID := co_NewSHA1 c (en_EventID e) (co_duration_String c off)\<rparr>) ''appointment_reminder'' rc
    (case co_templates c ''appointment.reminder_due'' of None \<Rightarrow> [] | Some t \<Rightarrow> t) (co_language c) (st - off) d"
  have "notif_inv (snd ?p)" by (rule repo_Plan_inv [OF Cons.prems])
  with Cons show ?case by (cases ?p) (auto split: sum.splits)
qed simp

text \<open>The keys of the reminders that lie in the future.\<close>

definition reminder_keys :: "consumer \<Rightarrow> envelope \<Rightarrow> time \<Rightarrow> time \<Rightarrow> duration list \<Rightarrow> (uuid \<times> uuid \<times> string) set" where
  "reminder_keys c e now st os =
     (\<lambda>off. (en_TenantID e, co_NewSHA1 c (en_EventID e) (co_duration_String c off), ''appointment_reminder'')) `
       {off \<in> set os. now < st - off}"

lemma plan_reminders_keys:
  "plan_reminders c io n now st e rc os d = (Inr (), d') \<Longrightarrow> notif_inv d \<Longrightarrow>
     keys d' = keys d \<union> reminder_keys c e now st os"
proof (induction os arbitrary: n d)
  case (Cons off os)
  show ?case
  proof (cases "now < st - off")
    case False
    with Cons show ?thesis by (auto simp: reminder_keys_def)
  next
    case True
    with Cons.prems(1) obtain b d0 where p: "repo_Plan (ci_f io n) (ci_ids io n) (en_TenantID e)
        (e\<lparr>en_EventID := co_NewSHA1 c (en_EventID e) (co_duration_String c off)\<rparr>) ''appointment_reminder'' rc
        (case co_templates c ''appointment.reminder_due'' of None \<Rightarrow> [] | Some t \<Rightarrow> t) (co_language c) (st - off) d = (Inr b, d0)"
      and rest: "plan_reminders c io (Suc n) now st e rc os d0 = (Inr (), d')"
      by (auto split: prod.splits sum.splits)
    have "notif_inv d0" using repo_Plan_inv [OF Cons.prems(2)] p by (metis snd_conv)
    from Cons.IH [OF rest this] Plan_keys [OF p Cons.prems(2)] True show ?thesis
      by (auto simp: reminder_keys_def)
  qed
qed (simp add: reminder_keys_def)

lemma plan_reminders_known:
  "reminder_keys c e now st os \<subseteq> keys d \<Longrightarrow> snd (plan_reminders c io n now st e rc os d) = d"
proof (induction os arbitrary: n)
  case (Cons off os)
  show ?case
  proof (cases "now < st - off")
    case False
    with Cons show ?thesis by (auto simp: reminder_keys_def)
  next
    case True
    let ?p = "repo_Plan (ci_f io n) (ci_ids io n) (en_TenantID e)
      (e\<lparr>en_EventID := co_NewSHA1 c (en_EventID e) (co_duration_String c off)\<rparr>) ''appointment_reminder'' rc
      (case co_templates c ''appointment.reminder_due'' of None \<Rightarrow> [] | Some t \<Rightarrow> t) (co_language c) (st - off) d"
    have "(en_TenantID e, co_NewSHA1 c (en_EventID e) (co_duration_String c off), ''appointment_reminder'') \<in> keys d"
      using Cons.prems True by (auto simp: reminder_keys_def)
    then have "snd ?p = d" by (intro Plan_known) simp
    moreover have "reminder_keys c e now st os \<subseteq> keys d" using Cons.prems by (auto simp: reminder_keys_def)
    ultimately show ?thesis using Cons.IH True by (cases ?p) (auto split: sum.splits)
  qed
qed simp

lemma reminder_keys_later: "now \<le> now' \<Longrightarrow> reminder_keys c e now' st os \<subseteq> reminder_keys c e now st os"
  by (auto simp: reminder_keys_def)

text \<open>
  Planning is idempotent under redelivery. Once an event of a type other than rescheduled and
  cancelled was handled, delivering it again later, after whatever else happened to the queue, leaves
  the queue as it is: no mail and no reminder is planned twice.
\<close>

theorem redelivery_plans_nothing:
  assumes "handle c io data d = (Inr (), d1)" and "co_decode c data = Some e" and "notif_inv d"
    and "en_EventType e \<noteq> ''appointment.rescheduled''" and "en_EventType e \<noteq> ''appointment.cancelled''"
    and "ci_now io 1 \<le> ci_now io' 1" and "d2 = run_ops exec_notif xs d1"
  shows "snd (handle c io' data d2) = d2"
proof (cases "co_templates c (en_EventType e)")
  case None
  then show ?thesis using assms(2) by (simp add: handle_def)
next
  case (Some tmpl)
  from handle_planned [OF assms(1,2,3) Some] obtain recipient b d0 where
    plan: "repo_Plan (ci_f io 0) (ci_ids io 0) (en_TenantID e) e (mapType (en_EventType e)) recipient tmpl
       (co_language c) (ci_now io 0) d = (Inr b, d0)"
    and rem: "handle_reminders c io e recipient d0 = (Inr (), d1)" by metis
  have inv0: "notif_inv d0" using repo_Plan_inv [OF assms(3)] plan by (metis snd_conv)
  let ?os = "\<lambda>os. co_offsets c (en_TenantID e) = Inr os \<and> en_EventType e = ''appointment.created'' \<and>
    \<not> IsZero (payload_start c e)"
  have d1: "d1 = d0 \<or> (\<exists>os. ?os os \<and> plan_reminders c io 2 (ci_now io 1) (payload_start c e) e recipient os d0 = (Inr (), d1))"
    using rem assms(4,5) by (auto simp: handle_reminders_def split: if_splits sum.splits)
  have inv1: "notif_inv d1" using d1 inv0 plan_reminders_inv by (metis snd_conv)
  have keys1: "keys d0 \<subseteq> keys d1" using d1 plan_reminders_keys [OF _ inv0] by auto
  have "keys d1 \<subseteq> keys d2" unfolding assms(7) using inv1 by (rule run_notif_mono)
  with keys1 Plan_keys [OF plan assms(3)]
  have own: "(en_TenantID e, en_EventID e, mapType (en_EventType e)) \<in> keys d2" by auto
  have again: "snd (plan_reminders c io' 2 (ci_now io' 1) (payload_start c e) e rc os d2) = d2"
    if "?os os" for os rc
  proof (rule plan_reminders_known)
    have "plan_reminders c io 2 (ci_now io 1) (payload_start c e) e recipient os d0 = (Inr (), d1)"
      using rem assms(4,5) that by (auto simp: handle_reminders_def)
    then have "reminder_keys c e (ci_now io 1) (payload_start c e) os \<subseteq> keys d1"
      using plan_reminders_keys inv0 by blast
    with \<open>keys d1 \<subseteq> keys d2\<close> reminder_keys_later [OF assms(6)]
    show "reminder_keys c e (ci_now io' 1) (payload_start c e) os \<subseteq> keys d2" by blast
  qed
  have rem': "snd (handle_reminders c io' e rc d2) = d2" for rc
    using assms(4,5) again by (auto simp: handle_reminders_def split: sum.splits)
  show ?thesis
  proof (cases "handle c io' data d2")
    case (Pair r d3)
    with assms(2) Some show ?thesis using rem' Plan_known [OF own]
      by (auto simp: handle_def split: if_splits option.splits sum.splits prod.splits) (metis snd_conv)+
  qed
qed

lemma CancelReminders_ok:
  assumes "repo_CancelReminders f t a d = (Inr (), d')"
  shows "r \<in> set (notifications d') \<Longrightarrow> \<not> reminder_pending t a r" and "keys d' = keys d"
proof -
  from assms have d': "d' = d\<lparr>notifications := map (\<lambda>r. if n_tenant r = t \<and> reminder_pending t a r
      then r\<lparr>n_status := ''cancelled''\<rparr> else r) (notifications d)\<rparr>"
    by (simp add: repo_CancelReminders_def WithTenantTx_ok)
  have cancelled: "\<not> reminder_pending t a (if n_tenant x = t \<and> reminder_pending t a x
      then x\<lparr>n_status := ''cancelled''\<rparr> else x)" for x
    by (cases "reminder_pending t a x") (simp_all add: reminder_pending_def)
  show "\<not> reminder_pending t a r" if "r \<in> set (notifications d')"
    using that unfolding d' notif_db.select_convs notif_db.update_convs set_map
    by (metis (no_types, lifting) cancelled imageE list.set_map notif_db.select_convs(1) notif_db.surjective notif_db.update_convs(1))
  show "keys d' = keys d" using assms Cancel_keys by (metis snd_conv)
qed

text \<open>
  (C16) A redelivered rescheduling event drops the reminders of the new time. Handling it cancels the
  pending reminders of the appointment and plans new ones; handling it again, with the tenant's reminder
  offsets unchanged, cancels these as well, and planning them anew conflicts with the cancelled rows.
  After the second delivery the appointment has no pending reminder, although every call succeeded.
\<close>

theorem redelivered_reschedule_drops_reminders:
  assumes "handle c io data d = (Inr (), d1)" and "co_decode c data = Some e" and "notif_inv d"
    and "en_EventType e = ''appointment.rescheduled''" and "co_templates c (en_EventType e) = Some tmpl"
    and "ci_now io 1 \<le> ci_now io' 1" and "handle c io' data (run_ops exec_notif xs d1) = (Inr (), d2)"
    and "r \<in> set (notifications d2)"
  shows "\<not> reminder_pending (en_TenantID e) (en_AggregateID e) r"
proof -
  let ?t = "en_TenantID e" and ?a = "en_AggregateID e" and ?st = "payload_start c e" and ?d = "run_ops exec_notif xs d1"
  let ?os = "\<lambda>os. co_offsets c ?t = Inr os \<and> \<not> IsZero ?st"
  from handle_planned [OF assms(1,2,3,5)] obtain rc b d0 where
    plan: "repo_Plan (ci_f io 0) (ci_ids io 0) ?t e (mapType (en_EventType e)) rc tmpl
       (co_language c) (ci_now io 0) d = (Inr b, d0)"
    and rem: "handle_reminders c io e rc d0 = (Inr (), d1)" by metis
  have inv0: "notif_inv d0" using repo_Plan_inv [OF assms(3)] plan by (metis snd_conv)
  from rem assms(4) obtain dc where cancel: "repo_CancelReminders (ci_f io 1) ?t ?a d0 = (Inr (), dc)"
    and rest: "IsZero ?st \<and> d1 = dc \<or> (\<exists>os. ?os os \<and> plan_reminders c io 2 (ci_now io 1) ?st e rc os dc = (Inr (), d1))"
    by (auto simp: handle_reminders_def split: if_splits sum.splits prod.splits)
  have invc: "notif_inv dc" using repo_CancelReminders_inv [OF inv0] cancel by (metis snd_conv)
  have inv1: "notif_inv d1" using rest invc plan_reminders_inv by (metis snd_conv)
  have sub: "keys d1 \<subseteq> keys ?d" using inv1 by (rule run_notif_mono)
  have rkeys: "reminder_keys c e (ci_now io' 1) ?st os \<subseteq> keys ?d" if "?os os" for os
  proof -
    from rest that have "plan_reminders c io 2 (ci_now io 1) ?st e rc os dc = (Inr (), d1)" by auto
    from plan_reminders_keys [OF this invc] sub reminder_keys_later [OF assms(6), of c e ?st os] show ?thesis by blast
  qed
  have "keys d0 \<subseteq> keys d1" using rest plan_reminders_keys [OF _ invc] CancelReminders_ok(2) [OF cancel] by auto
  with Plan_keys [OF plan assms(3)] sub have own: "(?t, en_EventID e, mapType (en_EventType e)) \<in> keys ?d" by auto
  have invd: "notif_inv ?d" using inv1 by (rule nq.invar_run)
  from handle_planned [OF assms(7,2) invd assms(5)] obtain rc' b' d0' where
    plan': "repo_Plan (ci_f io' 0) (ci_ids io' 0) ?t e (mapType (en_EventType e)) rc' tmpl
       (co_language c) (ci_now io' 0) ?d = (Inr b', d0')"
    and rem': "handle_reminders c io' e rc' d0' = (Inr (), d2)" by metis
  have "d0' = ?d" using Plan_known [OF own] plan' by (metis snd_conv)
  with rem' assms(4) obtain dc' where cancel': "repo_CancelReminders (ci_f io' 1) ?t ?a ?d = (Inr (), dc')"
    and rest': "IsZero ?st \<and> d2 = dc' \<or> (\<exists>os. ?os os \<and> plan_reminders c io' 2 (ci_now io' 1) ?st e rc' os dc' = (Inr (), d2))"
    by (auto simp: handle_reminders_def split: if_splits sum.splits prod.splits)
  have "d2 = dc'"
    using rest' rkeys CancelReminders_ok(2) [OF cancel'] plan_reminders_known by (metis snd_conv)
  with assms(8) show ?thesis using CancelReminders_ok(1) [OF cancel'] by simp
qed

section \<open>Exhausted messages\<close>

text \<open>
  A message that exhausted its deliveries leaves a trace: when its envelope names a tenant, an event
  and a planned type, a row under its key exists afterwards and is final or failed.
\<close>

lemma Fail_row:
  assumes "notif_inv d" and "repo_Fail f now i t e k tm l why d = (Inr (), d')"
  shows "\<exists>r \<in> set (notifications d'). n_key r = (t, en_EventID e, k) \<and>
    (n_status r = ''failed'' \<or> n_status r = ''sent'' \<or> n_status r = ''cancelled'')"
proof -
  let ?r = "failed_row now i t e k tm l why"
  let ?c = "\<lambda>x. if n_status x = ''sent'' \<or> n_status x = ''cancelled'' then None
    else Some (x\<lparr>n_status := ''failed'', n_last_error := Some why\<rparr>)"
  from assms(2) obtain n where ins: "sql_insert_notification t ?r ?c d = Inr (n, d')"
    by (auto simp: repo_Fail_def WithTenantTx_ok split: sum.splits)
  have key: "n_key ?r = (t, en_EventID e, k)" by (simp add: n_key_def failed_row_def planned_row_def)
  show ?thesis
  proof (cases "find (\<lambda>x. n_key x = n_key ?r) (notifications d)")
    case None
    with ins key show ?thesis by (auto simp: sql_insert_notification_def failed_row_def split: if_splits)
  next
    case (Some x)
    note x = find_SomeD [OF Some]
    show ?thesis
    proof (cases "?c x")
      case None
      with Some ins have "d' = d" by (auto simp: sql_insert_notification_def split: if_splits)
      with x None key show ?thesis by (intro bexI [of _ x]) (auto split: if_splits)
    next
      case (Some y)
      with ins \<open>find _ _ = Some x\<close>
      have "d' = d\<lparr>notifications := map (\<lambda>z. if n_id z = n_id x then y else z) (notifications d)\<rparr>"
        by (auto simp: sql_insert_notification_def split: if_splits)
      with x have "y \<in> set (notifications d')" by force
      moreover have "n_status y = ''failed''" "n_key y = n_key x" using Some by (auto simp: n_key_def split: if_splits)
      ultimately show ?thesis using x key by (intro bexI [of _ y]) auto
    qed
  qed
qed

end
