(* ===== verification/Email.thy ===== *)
theory Email
  imports Platform
begin

text \<open>
  The package \<^verbatim>\<open>platform/email\<close>: messages, temporary errors, the retry loop with its back-off, the
  logging sender, the SMTP sender and the selection of a sender from the environment.

  The network is a parameter: what the SMTP session answers at each of its stages is the record
  \<open>smtp_session\<close>, and a sender in general is a function of a world it may change.
\<close>

section \<open>Messages and errors\<close>

record email_message =
  em_To :: string
  em_Subject :: string
  em_Text :: string
  em_Template :: string
  em_IdempotencyKey :: string

datatype send_error = TemporaryError send_error | DeadlineExceeded | Canceled | SendError string

fun IsTemporary :: "send_error \<Rightarrow> bool" where
  "IsTemporary (TemporaryError e) = True"
| "IsTemporary _ = False"

text \<open>\<^verbatim>\<open>errors.Is(err, context.DeadlineExceeded)\<close>, through \<^verbatim>\<open>Unwrap\<close>.\<close>

fun is_deadline :: "send_error \<Rightarrow> bool" where
  "is_deadline DeadlineExceeded = True"
| "is_deadline (TemporaryError e) = is_deadline e"
| "is_deadline _ = False"

section \<open>Retry with back-off\<close>

definition retryBaseDelay :: duration where
  "retryBaseDelay = 200000000"

definition retryMaxDelay :: duration where
  "retryMaxDelay = 2000000000"

text \<open>The delay of the attempt: the shift wraps at 64 bits, and what left the range is capped.\<close>

definition backoff_delay :: "nat \<Rightarrow> duration" where
  "backoff_delay attempt =
     (let delay = int64 (retryBaseDelay * 2 ^ attempt)
      in if delay > retryMaxDelay \<or> delay \<le> 0 then retryMaxDelay else delay)"

text \<open>\<open>int63n n\<close> is \<^verbatim>\<open>rand.Int63n\<close>; \<open>wait\<close> sleeps, and answers the error of the context if that ends first.\<close>

definition sleepBackoff ::
  "(int \<Rightarrow> 'w \<Rightarrow> int) \<Rightarrow> (duration \<Rightarrow> 'w \<Rightarrow> send_error option \<times> 'w) \<Rightarrow> nat \<Rightarrow> 'w \<Rightarrow> send_error option \<times> 'w" where
  "sleepBackoff int63n wait attempt w =
     (let jittered = int63n (backoff_delay attempt + 1) w
      in if jittered \<le> 0 then (None, w) else wait jittered w)"

fun retry_loop ::
  "('w \<Rightarrow> email_message \<Rightarrow> (send_error + string) \<times> 'w) \<Rightarrow> ('w \<Rightarrow> send_error option) \<Rightarrow>
     (nat \<Rightarrow> 'w \<Rightarrow> send_error option \<times> 'w) \<Rightarrow> email_message \<Rightarrow> nat \<Rightarrow> nat \<Rightarrow> 'w \<Rightarrow> (send_error + string) \<times> 'w" where
  "retry_loop send ctx_err sleep m attempt 0 w = (Inr [], w)"
| "retry_loop send ctx_err sleep m attempt (Suc left) w =
     (case send w m of
        (Inr v, w1) \<Rightarrow> (Inr v, w1)
      | (Inl e, w1) \<Rightarrow>
          if \<not> IsTemporary e then (Inl e, w1)
          else case ctx_err w1 of
            Some c \<Rightarrow> (Inl c, w1)
          | None \<Rightarrow>
              if left = 0 then (Inl e, w1)
              else case sleep attempt w1 of
                (Some c, w2) \<Rightarrow> (Inl c, w2)
              | (None, w2) \<Rightarrow> retry_loop send ctx_err sleep m (Suc attempt) left w2)"

definition SendWithRetry ::
  "('w \<Rightarrow> email_message \<Rightarrow> (send_error + string) \<times> 'w) \<Rightarrow> ('w \<Rightarrow> send_error option) \<Rightarrow>
     (nat \<Rightarrow> 'w \<Rightarrow> send_error option \<times> 'w) \<Rightarrow> email_message \<Rightarrow> int \<Rightarrow> 'w \<Rightarrow> (send_error + string) \<times> 'w" where
  "SendWithRetry send ctx_err sleep m attempts w =
     retry_loop send ctx_err sleep m 0 (nat (if attempts < 1 then 1 else attempts)) w"

section \<open>Senders\<close>

definition LoggingSender_Send :: "email_message \<Rightarrow> send_error + string" where
  "LoggingSender_Send m =
     (if TrimSpace (em_To m) = [] \<or> TrimSpace (em_Template m) = [] then Inl (SendError ''invalid email message'')
      else Inr (''dev-'' @ em_IdempotencyKey m))"

definition sanitizeHeader :: "string \<Rightarrow> string" where
  "sanitizeHeader v = filter (\<lambda>c. c \<noteq> CHR 0x0D \<and> c \<noteq> CHR 0x0A) v"

record smtp_config =
  sm_Address :: string
  sm_Username :: string
  sm_Password :: string
  sm_From :: string
  sm_ImplicitTLS :: bool
  sm_Timeout :: duration

text \<open>
  A stage that fails answers its error. \<open>ss_host\<close> is \<^verbatim>\<open>net.SplitHostPort\<close> and \<open>ss_StartTLS_offered\<close> the
  extension the server announces.
\<close>

record smtp_session =
  ss_ctx :: "send_error option"
  ss_host :: "string \<Rightarrow> string option"
  ss_dial :: "duration \<Rightarrow> string \<Rightarrow> send_error option"
  ss_client :: "bool \<Rightarrow> string \<Rightarrow> send_error option"
  ss_StartTLS_offered :: bool
  ss_StartTLS :: "string \<Rightarrow> send_error option"
  ss_Auth :: "string \<Rightarrow> string \<Rightarrow> string \<Rightarrow> send_error option"
  ss_Mail :: "string \<Rightarrow> send_error option"
  ss_Rcpt :: "string \<Rightarrow> send_error option"
  ss_Data :: "send_error option"
  ss_Write :: "string \<Rightarrow> send_error option"
  ss_Close :: "send_error option"

definition crlf :: string where
  "crlf = [CHR 0x0D, CHR 0x0A]"

definition smtp_body :: "smtp_config \<Rightarrow> email_message \<Rightarrow> string" where
  "smtp_body cfg m = ''From: '' @ sm_From cfg @ crlf @ ''To: '' @ em_To m @ crlf @ ''Subject: '' @
     sanitizeHeader (em_Subject m) @ crlf @ ''MIME-Version: 1.0'' @ crlf @
     ''Content-Type: text/plain; charset=UTF-8'' @ crlf @ crlf @ em_Text m"

text \<open>The first error of the given stages.\<close>

fun first_error :: "send_error option list \<Rightarrow> send_error option" where
  "first_error [] = None"
| "first_error (None # es) = first_error es"
| "first_error (Some e # es) = Some e"

definition SMTPSender_Send :: "smtp_config \<Rightarrow> smtp_session \<Rightarrow> email_message \<Rightarrow> send_error + string" where
  "SMTPSender_Send cfg s m =
     (case ss_ctx s of Some e \<Rightarrow> Inl e | None \<Rightarrow>
      (case ss_host s (sm_Address cfg) of None \<Rightarrow> Inl (SendError ''invalid SMTP configuration'') | Some host \<Rightarrow>
      if host = [] \<or> sm_From cfg = [] then Inl (SendError ''invalid SMTP configuration'')
      else
        let timeout = (if sm_Timeout cfg \<le> 0 then 10000000000 else sm_Timeout cfg) in
        case first_error [ss_dial s timeout (sm_Address cfg), ss_client s (sm_ImplicitTLS cfg) host,
          if \<not> sm_ImplicitTLS cfg \<and> ss_StartTLS_offered s then ss_StartTLS s host else None] of
          Some e \<Rightarrow> Inl (TemporaryError e)
        | None \<Rightarrow>
          (case (if sm_Username cfg \<noteq> [] then ss_Auth s (sm_Username cfg) (sm_Password cfg) host else None) of
             Some e \<Rightarrow> Inl e
           | None \<Rightarrow>
             (case first_error [ss_Mail s (sm_From cfg), ss_Rcpt s (em_To m), ss_Data s,
                 ss_Write s (smtp_body cfg m), ss_Close s] of
                Some e \<Rightarrow> Inl (TemporaryError e)
              | None \<Rightarrow> Inr (''smtp-'' @ em_IdempotencyKey m)))))"

section \<open>Selection of a sender\<close>

datatype sender = LoggingSender | SMTPSender smtp_config

text \<open>\<^verbatim>\<open>strings.EqualFold\<close> on ASCII text.\<close>

definition EqualFold :: "string \<Rightarrow> string \<Rightarrow> bool" where
  "EqualFold s t \<longleftrightarrow> ToLower s = ToLower t"

definition FromEnvironment ::
  "(string \<Rightarrow> string) \<Rightarrow> (string \<Rightarrow> duration option) \<Rightarrow> string + sender" where
  "FromEnvironment getenv ParseDuration =
     (let mode0 = ToLower (TrimSpace (getenv ''EMAIL_PROVIDER''));
          mode = (if mode0 = [] then ''log'' else mode0)
      in if mode = ''log'' \<or> mode = ''mock'' then
           (if EqualFold (getenv ''APP_ENV'') ''production''
            then Inl ''logging email provider is forbidden in production''
            else Inr LoggingSender)
         else if mode \<noteq> ''smtp'' then Inl ''unsupported EMAIL_PROVIDER''
         else case (if getenv ''SMTP_TIMEOUT'' = [] then Some 10000000000
                    else case ParseDuration (getenv ''SMTP_TIMEOUT'') of
                      None \<Rightarrow> None | Some p \<Rightarrow> if p \<le> 0 then None else Some p) of
           None \<Rightarrow> Inl ''SMTP_TIMEOUT must be a positive duration''
         | Some timeout \<Rightarrow>
             if getenv ''SMTP_ADDRESS'' = [] \<or> getenv ''EMAIL_FROM'' = []
             then Inl ''SMTP_ADDRESS and EMAIL_FROM are required''
             else if getenv ''SMTP_USERNAME'' \<noteq> [] \<and> getenv ''SMTP_PASSWORD'' = []
             then Inl ''SMTP_PASSWORD is required when SMTP_USERNAME is configured''
             else Inr (SMTPSender \<lparr>sm_Address = getenv ''SMTP_ADDRESS'', sm_Username = getenv ''SMTP_USERNAME'',
               sm_Password = getenv ''SMTP_PASSWORD'', sm_From = getenv ''EMAIL_FROM'',
               sm_ImplicitTLS = EqualFold (getenv ''SMTP_IMPLICIT_TLS'') ''true'', sm_Timeout = timeout\<rparr>))"

definition sender_Send :: "sender \<Rightarrow> smtp_session \<Rightarrow> email_message \<Rightarrow> send_error + string" where
  "sender_Send s ss m =
     (case s of LoggingSender \<Rightarrow> LoggingSender_Send m | SMTPSender cfg \<Rightarrow> SMTPSender_Send cfg ss m)"

section \<open>Correctness\<close>

text \<open>
  Acceptance always carries a message identifier, so a delivered mail is never recorded as one that
  failed.
\<close>

lemma sender_message_id: "sender_Send s ss m = Inr mid \<Longrightarrow> mid \<noteq> []"
  by (auto simp: sender_Send_def LoggingSender_Send_def SMTPSender_Send_def Let_def
      split: sender.splits option.splits if_splits)

lemma backoff_delay_bounds: "0 < backoff_delay n \<and> backoff_delay n \<le> retryMaxDelay"
  by (auto simp: backoff_delay_def Let_def retryMaxDelay_def)

lemma sleepBackoff_bounds:
  assumes "\<forall>n w. 0 < n \<longrightarrow> 0 \<le> int63n n w \<and> int63n n w < n"
  shows "sleepBackoff int63n wait attempt w = (None, w) \<or>
    (\<exists>j. 0 < j \<and> j \<le> retryMaxDelay \<and> sleepBackoff int63n wait attempt w = wait j w)"
proof -
  have "int63n (backoff_delay attempt + 1) w \<le> backoff_delay attempt"
    using assms backoff_delay_bounds [of attempt] by (metis add.commute less_add_one order_less_trans zle_add1_eq_le)
  then have "0 < int63n (backoff_delay attempt + 1) w \<Longrightarrow> int63n (backoff_delay attempt + 1) w \<le> retryMaxDelay"
    using backoff_delay_bounds [of attempt] by simp
  then show ?thesis unfolding sleepBackoff_def Let_def
    by (cases "int63n (backoff_delay attempt + 1) w \<le> 0") (simp, smt (verit, best))
qed

text \<open>
  The number of calls of the sender in a run of the retry loop, counted by a sender that keeps a log
  of its calls.
\<close>

definition logged ::
  "('w \<Rightarrow> email_message \<Rightarrow> (send_error + string) \<times> 'w) \<Rightarrow> nat \<times> 'w \<Rightarrow> email_message \<Rightarrow> (send_error + string) \<times> (nat \<times> 'w)" where
  "logged send s m = (case s of (n, w) \<Rightarrow> (case send w m of (r, w') \<Rightarrow> (r, (Suc n, w'))))"

lemma retry_loop_calls:
  assumes "\<forall>k n w. fst (snd (sleep k (n, w))) = n"
  shows "n \<le> fst (snd (retry_loop (logged send) ctx_err sleep m attempt left (n, w))) \<and>
    fst (snd (retry_loop (logged send) ctx_err sleep m attempt left (n, w))) \<le> n + left"
proof (induction left arbitrary: attempt n w)
  case (Suc left)
  obtain r w1 where r: "send w m = (r, w1)" by fastforce
  obtain c n2 w2 where s: "sleep attempt (Suc n, w1) = (c, n2, w2)" using prod_cases3 by blast
  then have "n2 = Suc n" using assms by (metis fst_conv snd_conv)
  with r s Suc.IH [of n2 "Suc attempt" w2] show ?case
    by (auto simp: logged_def split: sum.splits option.splits)
qed simp

end
