(* ===== verification/Notif_Worker.thy ===== *)
theory Notif_Worker
  imports Notif_Policy Email
begin

text \<open>
  The delivery worker (\<^verbatim>\<open>internal/worker/worker.go\<close>) and the queue with any number of workers.

  A worker claims a batch, and delivers its items one after the other; meanwhile other workers,
  the consumer and crashes interleave. \<open>nsys_step\<close> is one such step, over the table, the items that
  workers hold, and the log of the messages the mail provider accepted.
\<close>

section \<open>internal/worker\<close>

text \<open>The back-off of the attempt, \<^verbatim>\<open>time.Duration(1<<min(item.Attempts, 5)) * time.Minute\<close>.\<close>

definition retry_delay :: "int \<Rightarrow> duration" where
  "retry_delay attempts = Minutes (2 ^ nat (min attempts 5))"

definition worker_message :: "externals \<Rightarrow> notification \<Rightarrow> email_message" where
  "worker_message X item =
     \<lparr>em_To = nt_Email item, em_Subject = ''Appointment update: '' @ nt_Type item,
      em_Text = ''There is an update to your appointment: '' @ nt_Type item @ ''.'', em_Template = nt_Template item,
      em_IdempotencyKey = uuid_String X (nt_ID item)\<rparr>"

text \<open>What follows the answer of the sender: completion, a retry, or the final failure.\<close>

definition finish_item ::
  "bool \<Rightarrow> time \<Rightarrow> notification \<Rightarrow> send_error + string \<Rightarrow> notif_db \<Rightarrow> notif_db" where
  "finish_item fails now item result d =
     (case result of
        Inr mid \<Rightarrow> snd (notif_Finish fails now (nt_ID item) (nt_ClaimToken item) mid [] None d)
      | Inl e \<Rightarrow>
          let temporary = IsTemporary e \<or> is_deadline e;
              problem = (if temporary then ''email delivery temporarily unavailable'' else ''email delivery failed'')
          in if temporary \<and> nt_Attempts item < 5
             then snd (notif_Finish fails now (nt_ID item) (nt_ClaimToken item) [] problem
                    (Some (now + retry_delay (nt_Attempts item))) d)
             else snd (notif_Finish fails now (nt_ID item) (nt_ClaimToken item) [] problem None d))"

text \<open>
  \<open>stopped k\<close>: the context had ended before item \<open>k\<close>; \<open>fails k\<close>: its completion could not be written;
  \<open>now k\<close>: the clock then.
\<close>

fun deliver_items ::
  "externals \<Rightarrow> ('w \<Rightarrow> email_message \<Rightarrow> (send_error + string) \<times> 'w) \<Rightarrow> (nat \<Rightarrow> bool) \<Rightarrow> (nat \<Rightarrow> bool) \<Rightarrow> (nat \<Rightarrow> time) \<Rightarrow>
     nat \<Rightarrow> notification list \<Rightarrow> 'w \<times> notif_db \<Rightarrow> 'w \<times> notif_db" where
  "deliver_items X send stopped fails now k [] s = s"
| "deliver_items X send stopped fails now k (item # items) s =
     (if stopped k then s
      else case s of (w, d) \<Rightarrow>
        (case send w (worker_message X item) of
           (result, w') \<Rightarrow> deliver_items X send stopped fails now (Suc k) items
             (w', finish_item (fails k) (now k) item result d)))"

definition Once ::
  "externals \<Rightarrow> ('w \<Rightarrow> email_message \<Rightarrow> (send_error + string) \<times> 'w) \<Rightarrow> bool \<Rightarrow> (uuid \<Rightarrow> uuid) \<Rightarrow> time \<Rightarrow>
     (nat \<Rightarrow> bool) \<Rightarrow> (nat \<Rightarrow> bool) \<Rightarrow> (nat \<Rightarrow> time) \<Rightarrow> 'w \<times> notif_db \<Rightarrow> 'w \<times> notif_db" where
  "Once X send claimFails token claimNow stopped fails now s =
     (case s of (w, d) \<Rightarrow>
        (case notif_Claim claimFails claimNow token 50 d of
           (Inl _, d') \<Rightarrow> (w, d')
         | (Inr items, d') \<Rightarrow> deliver_items X send stopped fails now 0 items (w, d')))"

text \<open>The back-off is between one and thirty-two minutes.\<close>

lemma retry_delay_bounds: "Minutes 1 \<le> retry_delay n \<and> retry_delay n \<le> Minutes 32"
proof -
  have "(2 :: int) ^ nat (min n 5) \<le> 2 ^ 5" by (rule power_increasing) simp_all
  moreover have "1 \<le> (2 :: int) ^ nat (min n 5)" by simp
  ultimately show ?thesis by (simp add: retry_delay_def Minutes_exact nanosecond_per_minute_def)
qed

section \<open>The system\<close>

record nsys =
  ns_db :: notif_db
  ns_held :: "notification list"
  ns_accepted :: "uuid list"

text \<open>
  The consumer's operations on the table, a claim by some worker, the delivery of a held item with any
  answer of the provider, and a worker that dies with an item in hand. \<^verbatim>\<open>gen_random_uuid\<close> gives no
  token that a worker still holds.
\<close>

fun consumer_op :: "notif_op \<Rightarrow> bool" where
  "consumer_op (NPlan f i t e k rc tm l s) = True"
| "consumer_op (NFail f now i t e k tm l why) = True"
| "consumer_op (NCancel f t a) = True"
| "consumer_op _ = False"

inductive nsys_step :: "nsys \<Rightarrow> nsys \<Rightarrow> bool" where
  consumer: "consumer_op x \<Longrightarrow> nsys_step s (s\<lparr>ns_db := exec_notif x (ns_db s)\<rparr>)"
| claim: "notif_Claim fails now token limit (ns_db s) = (Inr items, d') \<Longrightarrow>
    \<forall>h \<in> set (ns_held s). \<forall>i. token i \<noteq> nt_ClaimToken h \<Longrightarrow>
    nsys_step s (s\<lparr>ns_db := d', ns_held := ns_held s @ items\<rparr>)"
| deliver: "item \<in> set (ns_held s) \<Longrightarrow> (\<And>mid. result = Inr mid \<Longrightarrow> mid \<noteq> []) \<Longrightarrow>
    nsys_step s \<lparr>ns_db = finish_item fails now item result (ns_db s), ns_held = remove1 item (ns_held s),
      ns_accepted = (if isl result then ns_accepted s else nt_ID item # ns_accepted s)\<rparr>"
| crash: "nsys_step s (s\<lparr>ns_held := remove1 item (ns_held s)\<rparr>)"

definition nsys_init :: nsys where
  "nsys_init = \<lparr>ns_db = empty_notif_db, ns_held = [], ns_accepted = []\<rparr>"

text \<open>
  The invariant: what a worker holds under a current token agrees with the row, pending rows were
  claimed at most four times, and every sent row was accepted by the provider.
\<close>

definition held_current :: "notification list \<Rightarrow> notif_row \<Rightarrow> bool" where
  "held_current held r \<longleftrightarrow> (\<forall>h \<in> set held. holds_claim (nt_ID h) (nt_ClaimToken h) r \<longrightarrow> n_attempts r = nt_Attempts h)"

definition nsys_inv :: "nsys \<Rightarrow> bool" where
  "nsys_inv s \<longleftrightarrow> notif_inv (ns_db s) \<and>
     (\<forall>r \<in> set (notifications (ns_db s)). held_current (ns_held s) r \<and>
        (n_status r = ''pending'' \<longrightarrow> n_attempts r \<le> 4) \<and>
        (n_status r = ''sent'' \<longrightarrow> n_id r \<in> set (ns_accepted s)))"

lemma finish_item_eq:
  "finish_item fails now item result d = d \<or>
   (\<exists>m p t. finish_item fails now item result d =
        finish_email_notification now (nt_ID item) (nt_ClaimToken item) m p t d \<and>
      (m \<noteq> [] \<longrightarrow> \<not> isl result) \<and> (t \<noteq> None \<longrightarrow> nt_Attempts item < 5))"
proof (cases fails)
  case True
  then have "finish_item fails now item result d = d"
    by (cases result) (simp_all add: finish_item_def notif_Finish_def Let_def)
  then show ?thesis ..
next
  case False
  then show ?thesis
  proof (cases result)
    case (Inl e)
    with False show ?thesis
      by (cases "(IsTemporary e \<or> is_deadline e) \<and> nt_Attempts item < 5")
        (simp_all add: finish_item_def notif_Finish_def Let_def, blast+)
  next
    case (Inr mid)
    with False have "finish_item fails now item result d =
        finish_email_notification now (nt_ID item) (nt_ClaimToken item) mid [] None d"
      by (simp add: finish_item_def notif_Finish_def)
    with Inr show ?thesis by auto
  qed
qed

lemma claim_set:
  assumes "notif_Claim fails now token limit d = (Inr items, d')" and "notif_inv d"
  shows "notif_inv d'"
    and "r \<in> set (notifications d') \<Longrightarrow> r \<in> set (notifications d) \<or>
      (\<exists>x \<in> set (notifications d). r = claim_row now (token (n_id x)) x)"
    and "h \<in> set items \<Longrightarrow> \<exists>y \<in> set (notifications d'). nt_ID h = n_id y \<and> nt_Attempts h = n_attempts y"
proof -
  let ?c = "claim_candidates now limit None d"
  have c: "set ?c \<subseteq> set (notifications d)" by (auto simp: claim_candidates_def dest: in_set_takeD)
  from assms(1) have d': "d' = snd (claim_email_notifications now token limit None d)"
    and items: "items = fst (claim_email_notifications now token limit None d)"
    by (auto simp: notif_Claim_def split: if_splits prod.splits)
  show "notif_inv d'" unfolding d' by (rule claim_inv [OF assms(2)])
  show "r \<in> set (notifications d') \<Longrightarrow> r \<in> set (notifications d) \<or>
      (\<exists>x \<in> set (notifications d). r = claim_row now (token (n_id x)) x)"
    by (auto simp: d' claim_email_notifications_def Let_def split: if_splits)
  show "\<exists>y \<in> set (notifications d'). nt_ID h = n_id y \<and> nt_Attempts h = n_attempts y" if "h \<in> set items"
  proof -
    from that obtain x where x: "x \<in> set ?c" and h: "nt_ID h = n_id x" "nt_Attempts h = n_attempts x + 1"
      by (auto simp: items claim_email_notifications_def Let_def to_notification_def claim_row_def)
    from x c have "claim_row now (token (n_id x)) x \<in> set (notifications d')"
      by (auto simp: d' claim_email_notifications_def Let_def image_iff intro!: bexI [of _ x])
    with h show ?thesis by (intro bexI) (auto simp: claim_row_def)
  qed
qed

text \<open>The rows an operation of the consumer leaves: old ones, fresh pending ones, failed or cancelled ones.\<close>

definition settled :: "notif_row \<Rightarrow> bool" where
  "settled r \<longleftrightarrow> n_status r = ''pending'' \<and> n_attempts r = 0 \<or> n_status r = ''failed'' \<or> n_status r = ''cancelled''"

lemma insert_rows:
  assumes "sql_insert_notification ctx x conflict d = Inr (n, d')" and "settled x"
    and "\<And>y z. conflict y = Some z \<Longrightarrow> settled z" and "r \<in> set (notifications d')"
  shows "r \<in> set (notifications d) \<or> settled r"
  using assms by (auto simp: sql_insert_notification_def split: if_splits option.splits)

lemma consumer_rows:
  assumes "consumer_op x" and "r \<in> set (notifications (exec_notif x d))"
  shows "r \<in> set (notifications d) \<or> settled r"
proof (cases x)
  case (NPlan f i t e k rc tm l s)
  have "settled (planned_row i t e k rc tm l s)" by (simp add: settled_def planned_row_def)
  then have "\<forall>r \<in> set (notifications (exec_notif x d)). r \<in> set (notifications d) \<or> settled r"
    unfolding NPlan exec_notif.simps repo_Plan_def
    by (cases "rc = []", simp, simp only: if_False,
        intro WithTenantTx_inv [where P = "\<lambda>d'. \<forall>r \<in> set (notifications d'). r \<in> set (notifications d) \<or> settled r"])
      (auto dest!: insert_rows split: sum.splits)
  with assms(2) show ?thesis by blast
next
  case (NFail f now i t e k tm l why)
  have "settled (failed_row now i t e k tm l why)" by (simp add: settled_def failed_row_def)
  then have "\<forall>r \<in> set (notifications (exec_notif x d)). r \<in> set (notifications d) \<or> settled r"
    unfolding NFail exec_notif.simps repo_Fail_def
    by (intro WithTenantTx_inv [where P = "\<lambda>d'. \<forall>r \<in> set (notifications d'). r \<in> set (notifications d) \<or> settled r"])
      (auto split: sum.splits if_splits dest!: insert_rows simp: settled_def)
  with assms(2) show ?thesis by blast
next
  case (NCancel f t a)
  have "\<forall>r \<in> set (notifications (exec_notif x d)). r \<in> set (notifications d) \<or> settled r"
    unfolding NCancel exec_notif.simps repo_CancelReminders_def
    by (intro WithTenantTx_inv [where P = "\<lambda>d'. \<forall>r \<in> set (notifications d'). r \<in> set (notifications d) \<or> settled r"])
      (auto simp: settled_def split: if_splits)
  with assms(2) show ?thesis by blast
qed (use assms(1) in auto)

lemma held_current_append: "held_current (xs @ ys) r \<longleftrightarrow> held_current xs r \<and> held_current ys r"
  by (auto simp: held_current_def)

lemma nsys_consumer:
  assumes "nsys_inv s" and "consumer_op x"
  shows "nsys_inv (s\<lparr>ns_db := exec_notif x (ns_db s)\<rparr>)"
proof -
  have "held_current (ns_held s) r \<and> (n_status r = ''pending'' \<longrightarrow> n_attempts r \<le> 4) \<and>
      (n_status r = ''sent'' \<longrightarrow> n_id r \<in> set (ns_accepted s))"
    if "r \<in> set (notifications (exec_notif x (ns_db s)))" for r
    using consumer_rows [OF assms(2) that]
  proof
    assume "r \<in> set (notifications (ns_db s))"
    with assms(1) show ?thesis unfolding nsys_inv_def by blast
  next
    assume "settled r"
    then show ?thesis by (auto simp: settled_def held_current_def holds_claim_def)
  qed
  moreover have "notif_inv (exec_notif x (ns_db s))" using assms(1) by (simp add: nsys_inv_def exec_notif_inv)
  ultimately show ?thesis by (simp add: nsys_inv_def)
qed

lemma nsys_claim:
  assumes "nsys_inv s" and "notif_Claim fails now token limit (ns_db s) = (Inr items, d')"
    and "\<forall>h \<in> set (ns_held s). \<forall>i. token i \<noteq> nt_ClaimToken h"
  shows "nsys_inv (s\<lparr>ns_db := d', ns_held := ns_held s @ items\<rparr>)"
proof -
  have inv: "notif_inv (ns_db s)" using assms(1) by (simp add: nsys_inv_def)
  note c = claim_set [OF assms(2) inv]
  have new: "n_attempts r = nt_Attempts h"
    if h: "h \<in> set items" and r: "r \<in> set (notifications d')" and i: "n_id r = nt_ID h" for r h
  proof -
    obtain y where y: "y \<in> set (notifications d')" "nt_ID h = n_id y" "nt_Attempts h = n_attempts y"
      using c(3) [OF h] by blast
    have "distinct (map n_id (notifications d'))" using c(1) by (simp add: notif_inv_def)
    from inj_key [OF this r y(1)] i y(2) have "r = y" by simp
    with y(3) show ?thesis by simp
  qed
  have fresh_ok: "held_current items r" if "r \<in> set (notifications d')" for r
    using new [OF _ that] by (auto simp: held_current_def holds_claim_def)
  have "held_current (ns_held s @ items) r \<and> (n_status r = ''pending'' \<longrightarrow> n_attempts r \<le> 4) \<and>
      (n_status r = ''sent'' \<longrightarrow> n_id r \<in> set (ns_accepted s))"
    if r: "r \<in> set (notifications d')" for r
    using c(2) [OF r]
  proof
    assume "r \<in> set (notifications (ns_db s))"
    with assms(1) have "held_current (ns_held s) r \<and> (n_status r = ''pending'' \<longrightarrow> n_attempts r \<le> 4) \<and>
      (n_status r = ''sent'' \<longrightarrow> n_id r \<in> set (ns_accepted s))" unfolding nsys_inv_def by blast
    with fresh_ok [OF r] show ?thesis by (simp add: held_current_append)
  next
    assume "\<exists>x \<in> set (notifications (ns_db s)). r = claim_row now (token (n_id x)) x"
    then obtain x where "r = claim_row now (token (n_id x)) x" by blast
    then have "n_status r = ''processing''" "n_claim_token r = Some (token (n_id x))" by (simp_all add: claim_row_def)
    with assms(3) fresh_ok [OF r] show ?thesis
      by (simp add: held_current_append) (auto simp: held_current_def holds_claim_def)
  qed
  with c(1) show ?thesis by (simp add: nsys_inv_def)
qed

lemma held_current_mono: "held_current held r \<Longrightarrow> set held' \<subseteq> set held \<Longrightarrow> held_current held' r"
  by (auto simp: held_current_def)

lemma nsys_deliver:
  assumes "nsys_inv s" and "item \<in> set (ns_held s)"
  shows "nsys_inv \<lparr>ns_db = finish_item fails now item result (ns_db s), ns_held = remove1 item (ns_held s),
      ns_accepted = (if isl result then ns_accepted s else nt_ID item # ns_accepted s)\<rparr>"
  using finish_item_eq [of fails now item result "ns_db s"]
proof
  assume "finish_item fails now item result (ns_db s) = ns_db s"
  with assms(1) show ?thesis
    using held_current_mono [OF _ set_remove1_subset] by (auto simp: nsys_inv_def)
next
  assume "\<exists>m p t. finish_item fails now item result (ns_db s) =
        finish_email_notification now (nt_ID item) (nt_ClaimToken item) m p t (ns_db s) \<and>
      (m \<noteq> [] \<longrightarrow> \<not> isl result) \<and> (t \<noteq> None \<longrightarrow> nt_Attempts item < 5)"
  then obtain m p t where fin: "finish_item fails now item result (ns_db s) =
        finish_email_notification now (nt_ID item) (nt_ClaimToken item) m p t (ns_db s)"
    and m: "m \<noteq> [] \<longrightarrow> \<not> isl result" and t: "t \<noteq> None \<longrightarrow> nt_Attempts item < 5" by blast
  let ?acc = "if isl result then ns_accepted s else nt_ID item # ns_accepted s"
  have "held_current (remove1 item (ns_held s)) r \<and> (n_status r = ''pending'' \<longrightarrow> n_attempts r \<le> 4) \<and>
      (n_status r = ''sent'' \<longrightarrow> n_id r \<in> set ?acc)"
    if "r \<in> set (notifications (finish_email_notification now (nt_ID item) (nt_ClaimToken item) m p t (ns_db s)))" for r
  proof -
    from that obtain x where x: "x \<in> set (notifications (ns_db s))"
      and r: "r = (if holds_claim (nt_ID item) (nt_ClaimToken item) x then finish_row now m p t x else x)"
      by (auto simp: finish_email_notification_def)
    have old: "held_current (ns_held s) x" "n_status x = ''pending'' \<Longrightarrow> n_attempts x \<le> 4"
      "n_status x = ''sent'' \<Longrightarrow> n_id x \<in> set (ns_accepted s)"
      using assms(1) x unfolding nsys_inv_def by blast+
    show ?thesis
    proof (cases "holds_claim (nt_ID item) (nt_ClaimToken item) x")
      case False
      with r old held_current_mono [OF old(1) set_remove1_subset] show ?thesis by simp
    next
      case True
      then have "n_attempts x = nt_Attempts item" "n_id x = nt_ID item"
        using old(1) assms(2) by (auto simp: held_current_def holds_claim_def)
      with True r m t show ?thesis by (auto simp: finish_row_def held_current_def holds_claim_def)
    qed
  qed
  moreover have "notif_inv (finish_email_notification now (nt_ID item) (nt_ClaimToken item) m p t (ns_db s))"
    using assms(1) by (simp add: nsys_inv_def finish_inv)
  ultimately show ?thesis unfolding fin by (simp add: nsys_inv_def)
qed

lemma nsys_step_inv: "nsys_step s s' \<Longrightarrow> nsys_inv s \<Longrightarrow> nsys_inv s'"
proof (induction rule: nsys_step.induct)
  case (crash s item)
  then show ?case using held_current_mono [OF _ set_remove1_subset] by (auto simp: nsys_inv_def)
qed (simp_all add: nsys_consumer nsys_claim nsys_deliver)

lemma nsys_inv_init: "nsys_inv nsys_init"
  by (simp add: nsys_inv_def nsys_init_def empty_notif_db_def notif_inv_def)

lemma nsys_reachable_inv: "nsys_step\<^sup>*\<^sup>* nsys_init s \<Longrightarrow> nsys_inv s"
  by (induction rule: rtranclp_induct) (blast intro: nsys_inv_init nsys_step_inv)+

section \<open>What the queue guarantees\<close>

text \<open>
  (C15) Sent means accepted. In every state the workers, the consumer and crashes can reach, a
  notification is marked sent only if the mail provider accepted its message.
\<close>

theorem sent_means_accepted:
  assumes "nsys_step\<^sup>*\<^sup>* nsys_init s" and "r \<in> set (notifications (ns_db s))" and "n_status r = ''sent''"
  shows "n_id r \<in> set (ns_accepted s)"
  using nsys_reachable_inv [OF assms(1)] assms(2,3) unfolding nsys_inv_def by blast

text \<open>
  Attempts are bounded. A notification that waits for delivery was claimed at most four times, so
  it is claimed at most five times before it is sent, failed or cancelled, unless a worker died with
  it in hand.
\<close>

theorem attempts_bounded:
  assumes "nsys_step\<^sup>*\<^sup>* nsys_init s" and "r \<in> set (notifications (ns_db s))" and "n_status r = ''pending''"
  shows "0 \<le> n_attempts r \<and> n_attempts r \<le> 4"
proof -
  note inv = nsys_reachable_inv [OF assms(1)]
  then have "lifecycle_ok r" using assms(2) unfolding nsys_inv_def notif_inv_def by blast
  then have "0 \<le> n_attempts r" by (simp add: lifecycle_ok_def row_valid_def)
  with inv assms(2,3) show ?thesis unfolding nsys_inv_def by blast
qed

section \<open>Final rows\<close>

definition final :: "notif_row \<Rightarrow> bool" where
  "final r \<longleftrightarrow> n_status r = ''sent'' \<or> n_status r = ''cancelled''"

lemma final_map: "r \<in> set xs \<Longrightarrow> \<not> P r \<Longrightarrow> r \<in> set (map (\<lambda>x. if P x then g x else x) xs)"
  by force

lemma final_insert:
  assumes "sql_insert_notification ctx x conflict d = Inr (n, d')" and "notif_inv d"
    and "r \<in> set (notifications d)" and "conflict r = None"
  shows "r \<in> set (notifications d')"
proof (cases "find (\<lambda>y. n_key y = n_key x) (notifications d)")
  case None
  with assms show ?thesis by (auto simp: sql_insert_notification_def split: if_splits)
next
  case (Some y)
  note y = find_SomeD [OF Some]
  show ?thesis
  proof (cases "conflict y")
    case None
    with Some assms show ?thesis by (auto simp: sql_insert_notification_def split: if_splits)
  next
    case (Some z)
    then have "y \<noteq> r" using assms(4) by auto
    then have "n_id r \<noteq> n_id y"
      using assms(2,3) y inj_key [of n_id "notifications d" r y] by (auto simp: notif_inv_def)
    with assms(1,3) Some \<open>find _ _ = Some y\<close> show ?thesis
      by (auto simp: sql_insert_notification_def split: if_splits)
  qed
qed

lemma exec_notif_final:
  assumes "notif_inv d" and "r \<in> set (notifications d)" and "final r"
  shows "r \<in> set (notifications (exec_notif x d))"
proof (cases x)
  case (NPlan f i t e k rc tm l s)
  with assms show ?thesis
    by (cases "rc = []", simp add: repo_Plan_def, simp add: repo_Plan_def,
        intro WithTenantTx_inv [where P = "\<lambda>d'. r \<in> set (notifications d')"])
      (auto split: sum.splits dest: final_insert)
next
  case (NFail f now i t e k tm l why)
  show ?thesis unfolding NFail exec_notif.simps repo_Fail_def
    by (rule WithTenantTx_inv [where P = "\<lambda>d'. r \<in> set (notifications d')"])
      (use assms in \<open>auto split: sum.splits simp: final_def dest!: final_insert\<close>)
next
  case (NCancel f t a)
  show ?thesis unfolding NCancel exec_notif.simps repo_CancelReminders_def
    by (rule WithTenantTx_inv [where P = "\<lambda>d'. r \<in> set (notifications d')"])
      (use assms in \<open>auto simp: final_def reminder_pending_def intro!: final_map\<close>)
next
  case (NClaim now token n t)
  have "n_id r \<notin> n_id ` set (claim_candidates now n t d)"
  proof
    assume "n_id r \<in> n_id ` set (claim_candidates now n t d)"
    then obtain y where y: "y \<in> set (claim_candidates now n t d)" "n_id y = n_id r" by auto
    then have "y \<in> set (notifications d)" "due now y" by (auto simp: claim_candidates_def dest!: in_set_takeD)
    with assms y have "y = r" using inj_key [of n_id "notifications d" y r] by (simp add: notif_inv_def)
    with \<open>due now y\<close> assms(3) show False by (auto simp: due_def final_def)
  qed
  with assms(2) show ?thesis unfolding NClaim exec_notif.simps claim_email_notifications_def Let_def
    by (simp only: snd_conv notif_db.select_convs notif_db.update_convs) (auto intro!: final_map)
next
  case (NFinish now i c m p t)
  have "\<not> holds_claim i c r" using assms(3) by (auto simp: holds_claim_def final_def)
  with assms(2) show ?thesis by (auto simp: NFinish finish_email_notification_def intro!: final_map)
qed

text \<open>
  Sent and cancelled are final. Whatever claims, completions with any token, plans, failures and
  cancellations follow in whatever order, such a row stays exactly as it is: a late worker cannot send
  it again nor overwrite its message identifier.
\<close>

theorem final_rows_stay:
  assumes "d = run_ops exec_notif history empty_notif_db" and "r \<in> set (notifications d)"
    and "n_status r = ''sent'' \<or> n_status r = ''cancelled''"
  shows "r \<in> set (notifications (run_ops exec_notif xs d))"
proof (rule nq.stable_run [where Q = "\<lambda>_. True"])
  show "notif_inv d" unfolding assms(1) by (rule nq.invar_reachable)
qed (use assms(2,3) exec_notif_final in \<open>auto simp: final_def list_all_iff\<close>)

end
