(* ===== verification/Notif_Examples.thy ===== *)
theory Notif_Examples
  imports Notif_Worker
begin

text \<open>
  Concrete runs of notification-service: an appointment is created and its event arrives twice, it is
  rescheduled and that event arrives twice, a mail is sent, and one is retried.
\<close>

section \<open>A consumer\<close>

definition ex_envelope :: "string \<Rightarrow> uuid \<Rightarrow> envelope" where
  "ex_envelope ty i = \<lparr>en_EventID = i, en_EventType = ty, en_EventVersion = 1, en_TenantID = 7, en_AggregateID = 20,
     en_OccurredAt = 0, en_Payload = ''p''\<rparr>"

definition ex_consumer :: "string \<Rightarrow> uuid \<Rightarrow> consumer" where
  "ex_consumer ty i = \<lparr>co_templates = consumer_templates (\<lambda>_. []), co_language = ''en'',
     co_offsets = (\<lambda>_. Inr [7200000000000]), co_recipients = Some (\<lambda>_ _. Inr ''ada@example.com''),
     co_maxDeliver = 20, co_decode = (\<lambda>_. Some (ex_envelope ty i)), co_start_at = (\<lambda>_. 100000000000000),
     co_NewSHA1 = (\<lambda>i s. i + 500), co_duration_String = (\<lambda>_. ''2h0m0s'')\<rparr>"

definition ex_ci :: "nat \<Rightarrow> consumer_io" where
  "ex_ci n = \<lparr>ci_f = (\<lambda>_. NoFault), ci_ids = (\<lambda>k. word_of_nat (10 * n + k)), ci_now = (\<lambda>_. 1000 * int n),
     ci_term_f = NoFault, ci_term_id = 1\<rparr>"

definition ex_created :: notif_db where
  "ex_created = snd (handle (ex_consumer ''appointment.created'' 100) (ex_ci 1) [] empty_notif_db)"

lemma unit_Inr: "\<not> isl (fst r) \<Longrightarrow> r = (Inr (), snd r)"
  by (cases r; cases "fst r") auto

lemma ex_created_ok:
  "handle (ex_consumer ''appointment.created'' 100) (ex_ci 1) [] empty_notif_db = (Inr (), ex_created)"
  unfolding ex_created_def by (rule unit_Inr) code_simp

lemma ex_created_inv: "notif_inv ex_created"
proof -
  have "distinct (map n_id (notifications ex_created))" "distinct (map n_key (notifications ex_created))"
    "list_all (\<lambda>r. row_valid r \<and> n_status r = ''pending'') (notifications ex_created)" by code_simp+
  then show ?thesis by (auto simp: notif_inv_def lifecycle_ok_def list_all_iff)
qed

theorem redelivery_plans_nothing_witness:
  "snd (handle (ex_consumer ''appointment.created'' 100) (ex_ci 2) []
      (run_ops exec_notif [NClaim 5000 (\<lambda>i. i) 50 None] ex_created)) =
    run_ops exec_notif [NClaim 5000 (\<lambda>i. i) 50 None] ex_created"
  by (rule redelivery_plans_nothing [OF ex_created_ok _ notif_inv_empty _ _ _ refl, where e = "ex_envelope ''appointment.created'' 100"])
    (simp_all add: ex_consumer_def ex_envelope_def ex_ci_def)

definition ex_moved :: notif_db where
  "ex_moved = snd (handle (ex_consumer ''appointment.rescheduled'' 200) (ex_ci 3) [] ex_created)"

definition ex_moved_twice :: notif_db where
  "ex_moved_twice = snd (handle (ex_consumer ''appointment.rescheduled'' 200) (ex_ci 4) [] ex_moved)"

text \<open>The reminder of the new time is pending after the first delivery, and lost after the second.\<close>

theorem redelivered_reschedule_drops_reminders_witness:
  "map n_status (filter (\<lambda>r. n_type r = ''appointment_reminder'') (notifications ex_moved)) = [''cancelled'', ''pending''] \<and>
   list_all (\<lambda>r. \<not> reminder_pending 7 20 r) (notifications ex_moved_twice)"
proof -
  let ?c = "ex_consumer ''appointment.rescheduled'' 200" and ?e = "ex_envelope ''appointment.rescheduled'' 200"
  have first: "handle ?c (ex_ci 3) [] ex_created = (Inr (), ex_moved)"
    unfolding ex_moved_def by (rule unit_Inr) code_simp
  have second: "handle ?c (ex_ci 4) [] (run_ops exec_notif [] ex_moved) = (Inr (), ex_moved_twice)"
    unfolding ex_moved_twice_def run_ops_simps by (rule unit_Inr) code_simp
  obtain tmpl where t: "co_templates ?c (en_EventType ?e) = Some tmpl"
    by (simp add: ex_consumer_def ex_envelope_def consumer_templates_def)
  have "co_decode ?c [] = Some ?e" "en_EventType ?e = ''appointment.rescheduled''" "ci_now (ex_ci 3) 1 \<le> ci_now (ex_ci 4) 1"
    "en_TenantID ?e = 7" "en_AggregateID ?e = 20"
    by (simp_all add: ex_consumer_def ex_envelope_def ex_ci_def)
  then have "\<not> reminder_pending 7 20 r" if "r \<in> set (notifications ex_moved_twice)" for r
    using redelivered_reschedule_drops_reminders [OF first _ ex_created_inv _ t _ second that] by simp
  moreover have "map n_status (filter (\<lambda>r. n_type r = ''appointment_reminder'') (notifications ex_moved)) =
      [''cancelled'', ''pending'']" by code_simp
  ultimately show ?thesis by (simp add: list_all_iff)
qed

section \<open>Delivery\<close>

definition ex_plan :: notif_op where
  "ex_plan = NPlan NoFault 10 7 (ex_envelope ''appointment.created'' 100) ''appointment_created'' ''ada@example.com''
     ''appointment_created'' ''en'' 1000"

definition ex_n1 :: nsys where
  "ex_n1 = nsys_init\<lparr>ns_db := exec_notif ex_plan (ns_db nsys_init)\<rparr>"

definition ex_n2 :: nsys where
  "ex_n2 = (let c = notif_Claim False 5000 (\<lambda>i. i + 1000) 50 (ns_db ex_n1)
     in ex_n1\<lparr>ns_db := snd c, ns_held := ns_held ex_n1 @ projr (fst c)\<rparr>)"

definition ex_deliver :: "send_error + string \<Rightarrow> nsys" where
  "ex_deliver r = (let item = hd (ns_held ex_n2) in
     \<lparr>ns_db = finish_item False 6000 item r (ns_db ex_n2), ns_held = remove1 item (ns_held ex_n2),
      ns_accepted = (if isl r then ns_accepted ex_n2 else nt_ID item # ns_accepted ex_n2)\<rparr>)"

lemma ex_n2_reach: "nsys_step\<^sup>*\<^sup>* nsys_init ex_n2"
proof -
  let ?c = "notif_Claim False 5000 (\<lambda>i. i + 1000) 50 (ns_db ex_n1)"
  have "nsys_step nsys_init ex_n1" unfolding ex_n1_def by (rule nsys_step.consumer) (simp add: ex_plan_def)
  moreover have "?c = (Inr (projr (fst ?c)), snd ?c)" by (simp add: notif_Claim_def split: prod.splits)
  then have "nsys_step ex_n1 ex_n2" unfolding ex_n2_def Let_def
    by (rule nsys_step.claim) (simp add: ex_n1_def nsys_init_def)
  ultimately show ?thesis by (meson converse_rtranclp_into_rtranclp rtranclp.rtrancl_refl)
qed

lemma ex_deliver_reach: "(\<And>m. r = Inr m \<Longrightarrow> m \<noteq> []) \<Longrightarrow> nsys_step\<^sup>*\<^sup>* nsys_init (ex_deliver r)"
proof -
  assume "\<And>m. r = Inr m \<Longrightarrow> m \<noteq> []"
  moreover have "ns_held ex_n2 \<noteq> []" by code_simp
  ultimately have "nsys_step ex_n2 (ex_deliver r)" unfolding ex_deliver_def Let_def by (intro nsys_step.deliver) auto
  with ex_n2_reach show ?thesis by (rule rtranclp.rtrancl_into_rtrancl)
qed

theorem sent_means_accepted_witness:
  "\<exists>r \<in> set (notifications (ns_db (ex_deliver (Inr ''smtp-1'')))). n_status r = ''sent'' \<and>
     n_id r \<in> set (ns_accepted (ex_deliver (Inr ''smtp-1'')))"
proof -
  let ?s = "ex_deliver (Inr ''smtp-1'')"
  have "hd (notifications (ns_db ?s)) \<in> set (notifications (ns_db ?s))" "n_status (hd (notifications (ns_db ?s))) = ''sent''"
    by code_simp+
  with sent_means_accepted [OF ex_deliver_reach, of "Inr ''smtp-1''"] show ?thesis by blast
qed

theorem attempts_bounded_witness:
  "\<exists>r \<in> set (notifications (ns_db (ex_deliver (Inl (TemporaryError Canceled))))). n_status r = ''pending'' \<and>
     0 \<le> n_attempts r \<and> n_attempts r \<le> 4"
proof -
  let ?s = "ex_deliver (Inl (TemporaryError Canceled))"
  have "hd (notifications (ns_db ?s)) \<in> set (notifications (ns_db ?s))" "n_status (hd (notifications (ns_db ?s))) = ''pending''"
    by code_simp+
  with attempts_bounded [OF ex_deliver_reach, of "Inl (TemporaryError Canceled)"] show ?thesis by blast
qed

definition ex_sent_ops :: "notif_op list" where
  "ex_sent_ops = [ex_plan, NClaim 5000 (\<lambda>i. i + 1000) 50 None, NFinish 6000 10 1010 ''smtp-1'' [] None]"

theorem final_rows_stay_witness:
  "\<exists>r \<in> set (notifications (run_ops exec_notif [NClaim 9000000000000 (\<lambda>i. i) 50 None, NFinish 9000000000001 10 10 ''x'' [] None]
      (run_ops exec_notif ex_sent_ops empty_notif_db))). n_status r = ''sent'' \<and> n_message_id r = Some ''smtp-1''"
proof -
  let ?d = "run_ops exec_notif ex_sent_ops empty_notif_db"
  have "hd (notifications ?d) \<in> set (notifications ?d)" "n_status (hd (notifications ?d)) = ''sent''"
    "n_message_id (hd (notifications ?d)) = Some ''smtp-1''" by code_simp+
  with final_rows_stay [OF refl, of "hd (notifications ?d)" ex_sent_ops] show ?thesis by blast
qed

end
