(* ===== verification/Gateway.thy ===== *)
theory Gateway
  imports Platform Complex_Main
begin

text \<open>
  gateway-service: the resolver client (\<^verbatim>\<open>internal/service/resolver.go\<close>), the handlers
  (\<^verbatim>\<open>internal/handler/http.go\<close>) and the route table (\<^verbatim>\<open>routes.go\<close>), with \<^verbatim>\<open>platform/platformauth\<close> and the request
  identifier of \<^verbatim>\<open>platform/httpx\<close>.

  The gateway is the only public service. A handler answers the browser and sends requests to the
  private services; its result lists those requests, since what they carry is what the private services
  trust. The route a request matches, with its parameters, is chosen by the router (fiber), and is an
  argument. \<open>http.NewRequest\<close> refuses malformed methods and URLs; \<open>g_valid\<close> says which it accepts.
\<close>

section \<open>platform/platformauth and platform/httpx\<close>

definition PlatformHeaderName :: string where
  "PlatformHeaderName = ''X-Platform-Admin-Token''"

definition platformauth_Verify :: "string \<Rightarrow> string \<Rightarrow> bool" where
  "platformauth_Verify expected presented \<longleftrightarrow> \<not> (expected = [] \<or> presented = [] \<or> expected \<noteq> presented)"

definition maxRequestIDLen :: nat where
  "maxRequestIDLen = 128"

definition token_char :: "char \<Rightarrow> bool" where
  "token_char c \<longleftrightarrow> (let n = (of_char c :: nat) in 97 \<le> n \<and> n \<le> 122 \<or> 65 \<le> n \<and> n \<le> 90 \<or> 48 \<le> n \<and> n \<le> 57 \<or>
     c = CHR ''-'' \<or> c = CHR ''_'' \<or> c = CHR ''.'' \<or> c = CHR '':'')"

definition isBoundedToken :: "string \<Rightarrow> bool" where
  "isBoundedToken s \<longleftrightarrow> list_all token_char s"

text \<open>The identifier the middleware stores and returns; \<open>fresh\<close> is \<^verbatim>\<open>uuid.NewString()\<close>.\<close>

definition httpx_RequestID :: "string \<Rightarrow> string \<Rightarrow> string" where
  "httpx_RequestID fresh presented =
     (if presented = [] \<or> length presented > maxRequestIDLen \<or> \<not> isBoundedToken presented then fresh else presented)"

section \<open>Requests\<close>

text \<open>\<open>gc_Locals\<close> is the identifier the middleware stored, if it is installed; \<open>gc_RawQuery\<close> the query string.\<close>

record gw_ctx =
  gc_Method :: string
  gc_Path :: string
  gc_OriginalURL :: string
  gc_Hostname :: string
  gc_Get :: "string \<Rightarrow> string"
  gc_Params :: "string \<Rightarrow> string"
  gc_RawQuery :: string
  gc_Cookies :: "string \<Rightarrow> string"
  gc_Body :: string
  gc_Locals :: "string option"

record out_req =
  oq_Method :: string
  oq_URL :: string
  oq_Header :: "(string \<times> string) list"
  oq_Body :: string
  oq_Host :: string

text \<open>The result of \<^verbatim>\<open>client.Do\<close>; a body of \<open>None\<close> is one that cannot be read to its end.\<close>

datatype up_result =
    UpTimeout
  | UpFailure
  | UpResponse int "(string \<times> string) list" "string option"

datatype gw_reply =
    GwSendStatus int
  | GwJSONError int string
  | GwSend int string "(string \<times> string) list"
  | GwHealth "(string \<times> bool \<times> (string \<times> real) list option) list"
  | GwPanic

section \<open>internal/service/resolver.go\<close>

record resolution =
  rn_TenantID :: string
  rn_AppType :: string

record resolver =
  rs_baseURL :: string
  rs_token :: string
  rs_valid :: "string \<Rightarrow> bool"
  rs_Do :: "http_req \<Rightarrow> http_resp"
  rs_decode :: "string \<Rightarrow> resolution option"

definition NewResolver ::
  "(string \<Rightarrow> bool) \<Rightarrow> (http_req \<Rightarrow> http_resp) \<Rightarrow> (string \<Rightarrow> resolution option) \<Rightarrow> string \<Rightarrow> string \<Rightarrow> resolver" where
  "NewResolver valid Do decode baseURL token =
     \<lparr>rs_baseURL = trim_right_slash baseURL, rs_token = token, rs_valid = valid, rs_Do = Do, rs_decode = decode\<rparr>"

datatype resolve_error = ResNotFound | ResOther

definition resolve_url :: "resolver \<Rightarrow> string \<Rightarrow> string" where
  "resolve_url r hostname = rs_baseURL r @ ''/internal/v1/domains/resolve?hostname='' @ QueryEscape hostname"

definition Resolver_Resolve :: "resolver \<Rightarrow> string \<Rightarrow> resolve_error + resolution" where
  "Resolver_Resolve r hostname =
     (if \<not> rs_valid r (resolve_url r hostname) then Inl ResOther
      else case rs_Do r \<lparr>hr_method = ''GET'', hr_url = resolve_url r hostname, hr_headers = [(InternalHeaderName, rs_token r)]\<rparr> of
        TransportError _ \<Rightarrow> Inl ResOther
      | Response status body \<Rightarrow>
          if status = 404 then Inl ResNotFound
          else if status \<noteq> 200 then Inl ResOther
          else case rs_decode r body of None \<Rightarrow> Inl ResOther | Some v \<Rightarrow> Inr v)"

definition Resolver_Ready :: "resolver \<Rightarrow> bool" where
  "Resolver_Ready r = (case Resolver_Resolve r ''readiness-probe.invalid'' of Inl ResNotFound \<Rightarrow> True | Inl ResOther \<Rightarrow> False | Inr _ \<Rightarrow> True)"

section \<open>The handler\<close>

type_synonym service_url = string
type_synonym shared_token = string

record gateway =
  g_resolver :: resolver
  g_tenantURL :: service_url
  g_authURL :: service_url
  g_barberURL :: service_url
  g_catalogURL :: service_url
  g_schedulingURL :: service_url
  g_appointmentURL :: service_url
  g_notificationURL :: service_url
  g_customerURL :: service_url
  g_token :: shared_token
  g_adminWebURL :: service_url
  g_bookingWebURL :: service_url
  g_platformToken :: shared_token
  g_Do :: "out_req \<Rightarrow> up_result"
  g_valid :: "string \<Rightarrow> string \<Rightarrow> bool"
  g_customer_id :: "string \<Rightarrow> string option"
  g_ParseFloat :: "string \<Rightarrow> real option"

text \<open>\<^verbatim>\<open>New\<close>; the HTTP client, the checks of \<^verbatim>\<open>net/http\<close> and the decoders are arguments.\<close>

definition gw_New ::
  "(out_req \<Rightarrow> up_result) \<Rightarrow> (string \<Rightarrow> string \<Rightarrow> bool) \<Rightarrow> (string \<Rightarrow> string option) \<Rightarrow> (string \<Rightarrow> real option) \<Rightarrow> resolver \<Rightarrow>
     service_url \<Rightarrow> service_url \<Rightarrow> service_url \<Rightarrow> service_url \<Rightarrow> service_url \<Rightarrow> service_url \<Rightarrow> service_url \<Rightarrow> service_url \<Rightarrow> shared_token \<Rightarrow> shared_token \<Rightarrow> service_url list \<Rightarrow> gateway" where
  "gw_New Do valid customer_id parse resolver tenantURL authURL barberURL catalogURL schedulingURL appointmentURL notificationURL
     customerURL token platformAdminToken frontendURLs =
     \<lparr>g_resolver = resolver, g_tenantURL = trim_right_slash tenantURL, g_authURL = trim_right_slash authURL,
      g_barberURL = trim_right_slash barberURL, g_catalogURL = trim_right_slash catalogURL,
      g_schedulingURL = trim_right_slash schedulingURL, g_appointmentURL = trim_right_slash appointmentURL,
      g_notificationURL = trim_right_slash notificationURL, g_customerURL = trim_right_slash customerURL, g_token = token,
      g_adminWebURL = trim_right_slash (if length frontendURLs > 0 \<and> frontendURLs ! 0 \<noteq> [] then frontendURLs ! 0
        else ''http://admin-web:3000''),
      g_bookingWebURL = trim_right_slash (if length frontendURLs > 1 \<and> frontendURLs ! 1 \<noteq> [] then frontendURLs ! 1
        else ''http://booking-web:3000''),
      g_platformToken = platformAdminToken, g_Do = Do, g_valid = valid, g_customer_id = customer_id, g_ParseFloat = parse\<rparr>"

definition requestID :: "gw_ctx \<Rightarrow> string" where
  "requestID c = (case gc_Locals c of
     Some i \<Rightarrow> if i \<noteq> [] then i else gc_Get c RequestIDHeader
   | None \<Rightarrow> gc_Get c RequestIDHeader)"

text \<open>\<^verbatim>\<open>upstreamError\<close>\<close>

definition upstreamError :: "bool \<Rightarrow> gw_reply" where
  "upstreamError timeout = (if timeout then GwJSONError 504 ''gateway_timeout'' else GwJSONError 502 ''gateway_unavailable'')"

text \<open>\<^verbatim>\<open>strings.ReplaceAll\<close> for a pattern that is not empty; \<open>skip\<close> bytes of a match are still to be dropped.\<close>

fun replace_from :: "string \<Rightarrow> string \<Rightarrow> nat \<Rightarrow> string \<Rightarrow> string" where
  "replace_from old new skip [] = []"
| "replace_from old new (Suc skip) (c # cs) = replace_from old new skip cs"
| "replace_from old new 0 (c # cs) =
     (if is_prefix old (c # cs) then new @ replace_from old new (length old - 1) cs else c # replace_from old new 0 cs)"

definition ReplaceAll :: "string \<Rightarrow> string \<Rightarrow> string \<Rightarrow> string" where
  "ReplaceAll s old new = replace_from old new 0 s"

definition hostname :: "gw_ctx \<Rightarrow> string" where
  "hostname c =
     (let host = ToLower (TrimSpace (gc_Hostname c)) in if host \<noteq> [] \<and> last host = CHR ''.'' then butlast host else host)"

text \<open>\<^verbatim>\<open>response.Header.Values("Set-Cookie")\<close>, copied to the answer.\<close>

definition set_cookies :: "(string \<times> string) list \<Rightarrow> (string \<times> string) list" where
  "set_cookies hs = filter (\<lambda>(k, v). k = ''Set-Cookie'') hs"

definition optional_header :: "string \<Rightarrow> string \<Rightarrow> (string \<times> string) list" where
  "optional_header k v = (if v \<noteq> [] then [(k, v)] else [])"

text \<open>Sending a request and passing the answer on; \<open>copied\<close> are the headers kept of it.\<close>

definition forward :: "gateway \<Rightarrow> ((string \<times> string) list \<Rightarrow> (string \<times> string) list) \<Rightarrow> out_req \<Rightarrow> gw_reply" where
  "forward h copied req =
     (case g_Do h req of
        UpTimeout \<Rightarrow> upstreamError True
      | UpFailure \<Rightarrow> upstreamError False
      | UpResponse status headers (Some body) \<Rightarrow> GwSend status body (copied headers)
      | UpResponse status headers None \<Rightarrow> GwSendStatus 502)"

definition platformProxy :: "gateway \<Rightarrow> string \<Rightarrow> gw_ctx \<Rightarrow> gw_reply \<times> out_req list" where
  "platformProxy h path c =
     (if \<not> platformauth_Verify (g_platformToken h) (gc_Get c PlatformHeaderName) then (GwSendStatus 401, [])
      else let target = ReplaceAll (ReplaceAll path '':id'' (gc_Params c ''id'')) '':domain_id'' (gc_Params c ''domain_id'');
               req = \<lparr>oq_Method = gc_Method c,
                      oq_URL = g_tenantURL h @ target @ (if gc_RawQuery c \<noteq> [] then ''?'' @ gc_RawQuery c else []),
                      oq_Header = [(InternalHeaderName, g_token h), (RequestIDHeader, requestID c),
                        (''Content-Type'', gc_Get c ''Content-Type''), (''X-Platform-Actor'', gc_Get c ''X-Platform-Actor'')],
                      oq_Body = gc_Body c, oq_Host = []\<rparr>
           in if \<not> g_valid h (gc_Method c) (g_tenantURL h @ target) then (GwSendStatus 502, [])
              else (forward h (\<lambda>_. []) req, [req]))"

text \<open>
  The error of \<^verbatim>\<open>http.NewRequest\<close> is ignored here, and of reading the body; a request that could not be
  built is a nil pointer.
\<close>

definition platformServiceProxy :: "gateway \<Rightarrow> string \<Rightarrow> string \<Rightarrow> gw_ctx \<Rightarrow> gw_reply \<times> out_req list" where
  "platformServiceProxy h base path c =
     (if \<not> platformauth_Verify (g_platformToken h) (gc_Get c PlatformHeaderName) then (GwSendStatus 401, [])
      else let target = ReplaceAll path '':id'' (gc_Params c ''id'');
               req = \<lparr>oq_Method = gc_Method c, oq_URL = base @ target,
                      oq_Header = [(InternalHeaderName, g_token h), (RequestIDHeader, requestID c)],
                      oq_Body = [], oq_Host = []\<rparr>
           in if \<not> g_valid h (gc_Method c) (base @ target) then (GwPanic, [])
              else (case g_Do h req of
                      UpTimeout \<Rightarrow> upstreamError True
                    | UpFailure \<Rightarrow> upstreamError False
                    | UpResponse status headers body \<Rightarrow> GwSend status (case body of None \<Rightarrow> [] | Some b \<Rightarrow> b) [], [req]))"

subsection \<open>Health\<close>

fun split_char :: "char \<Rightarrow> string \<Rightarrow> string list" where
  "split_char sep [] = [[]]"
| "split_char sep (c # cs) =
     (if c = sep then [] # split_char sep cs
      else case split_char sep cs of [] \<Rightarrow> [[c]] | w # ws \<Rightarrow> (c # w) # ws)"

text \<open>\<^verbatim>\<open>strings.Fields\<close>, with the field that is being read.\<close>

function fields_from :: "string \<Rightarrow> string \<Rightarrow> string list" where
  "fields_from w s =
     (case strip_first space_seqs s of
        Some s' \<Rightarrow> (if w = [] then [] else [w]) @ fields_from [] s'
      | None \<Rightarrow> (case s of [] \<Rightarrow> if w = [] then [] else [w] | c # cs \<Rightarrow> fields_from (w @ [c]) cs))"
  by pat_completeness auto
termination
  by (relation "measure (\<lambda>(w, s). length s)") (auto dest: strip_first_shorter)

definition Fields :: "string \<Rightarrow> string list" where
  "Fields s = fields_from [] s"

definition metric_line :: "(string \<Rightarrow> real option) \<Rightarrow> string list \<Rightarrow> string \<Rightarrow> (string \<times> real) option" where
  "metric_line parse names line =
     (if line = [] \<or> hd line = CHR ''#'' then None
      else case Fields line of
        [m, v] \<Rightarrow>
          (let metric = takeWhile (\<lambda>c. c \<noteq> CHR ''{'') m
           in if metric \<in> set names then map_option (\<lambda>x. (metric, x)) (parse v) else None)
      | _ \<Rightarrow> None)"

fun add_total :: "string \<Rightarrow> real \<Rightarrow> (string \<times> real) list \<Rightarrow> (string \<times> real) list" where
  "add_total k x [] = [(k, x)]"
| "add_total k x ((k', y) # rest) = (if k = k' then (k, y + x) # rest else (k', y) # add_total k x rest)"

definition metricTotals :: "(string \<Rightarrow> real option) \<Rightarrow> string \<Rightarrow> string list \<Rightarrow> (string \<times> real) list" where
  "metricTotals parse raw names =
     fold (\<lambda>line result. case metric_line parse names line of None \<Rightarrow> result | Some (k, x) \<Rightarrow> add_total k x result)
       (split_char (CHR 0x0A) raw) []"

definition health_services :: "gateway \<Rightarrow> (string \<times> string) list" where
  "health_services h = [(''tenant'', g_tenantURL h), (''auth'', g_authURL h), (''barber'', g_barberURL h), (''catalog'', g_catalogURL h),
     (''scheduling'', g_schedulingURL h), (''appointment'', g_appointmentURL h), (''notification'', g_notificationURL h),
     (''customer'', g_customerURL h)]"

definition get_request :: "string \<Rightarrow> out_req" where
  "get_request url = \<lparr>oq_Method = ''GET'', oq_URL = url, oq_Header = [], oq_Body = [], oq_Host = []\<rparr>"

definition health_metrics :: "string list" where
  "health_metrics = [''outbox_backlog'', ''outbox_terminal_total'', ''outbox_publish_failures_total'', ''notification_failed_total'']"

definition health_entry :: "gateway \<Rightarrow> string \<times> string \<Rightarrow> (string \<times> bool \<times> (string \<times> real) list option) \<times> out_req list" where
  "health_entry h e = (case e of (name, base) \<Rightarrow>
     let req = get_request (base @ ''/ready'');
         ready = (case g_Do h req of UpResponse status _ _ \<Rightarrow> status = 200 | _ \<Rightarrow> False);
         metrics = get_request (base @ ''/metrics'')
     in if name = ''appointment'' \<or> name = ''notification''
        then ((name, ready, (case g_Do h metrics of
                UpResponse status _ body \<Rightarrow>
                  Some (metricTotals (g_ParseFloat h) (case body of None \<Rightarrow> [] | Some b \<Rightarrow> b) health_metrics)
              | _ \<Rightarrow> None)), [req, metrics])
        else ((name, ready, None), [req]))"

text \<open>The configured base URLs are valid, so these requests can always be built. The map has no order.\<close>

definition platformHealth :: "gateway \<Rightarrow> gw_ctx \<Rightarrow> gw_reply \<times> out_req list" where
  "platformHealth h c =
     (if \<not> platformauth_Verify (g_platformToken h) (gc_Get c PlatformHeaderName) then (GwSendStatus 401, [])
      else let es = map (health_entry h) (health_services h) in (GwHealth (map fst es), concat (map snd es)))"

subsection \<open>Tenant routes\<close>

text \<open>The headers that carry the trusted context to a private service.\<close>

definition context_headers :: "gateway \<Rightarrow> resolution \<Rightarrow> gw_ctx \<Rightarrow> (string \<times> string) list" where
  "context_headers h r c = [(InternalHeaderName, g_token h), (TenantIDHeader, rn_TenantID r), (AppTypeHeader, rn_AppType r),
     (RequestIDHeader, requestID c)]"

definition gw_config :: "gateway \<Rightarrow> gw_ctx \<Rightarrow> gw_reply \<times> out_req list" where
  "gw_config h c =
     (case Resolver_Resolve (g_resolver h) (hostname c) of
        Inl ResNotFound \<Rightarrow> (GwSendStatus 404, [])
      | Inl ResOther \<Rightarrow> (GwSendStatus 502, [])
      | Inr r \<Rightarrow>
          let req = \<lparr>oq_Method = ''GET'', oq_URL = g_tenantURL h @ ''/internal/v1/public/config'',
                     oq_Header = context_headers h r c, oq_Body = [], oq_Host = []\<rparr>
          in if \<not> g_valid h ''GET'' (oq_URL req) then (GwSendStatus 502, []) else (forward h (\<lambda>_. []) req, [req]))"

text \<open>
  The handler \<^verbatim>\<open>auth(path)\<close> is a closure over the variable \<^verbatim>\<open>path\<close>, and assigns it: \<open>cell\<close> is its value before the
  request, and the result holds its value after it.
\<close>

definition gw_auth :: "gateway \<Rightarrow> string \<Rightarrow> gw_ctx \<Rightarrow> (gw_reply \<times> out_req list) \<times> string" where
  "gw_auth h cell c =
     (case Resolver_Resolve (g_resolver h) (hostname c) of
        Inl ResNotFound \<Rightarrow> ((GwSendStatus 404, []), cell)
      | Inl ResOther \<Rightarrow> ((GwSendStatus 502, []), cell)
      | Inr r \<Rightarrow>
          if rn_AppType r \<noteq> ''admin'' then ((GwSendStatus 403, []), cell)
          else let cell' = ReplaceAll cell '':id'' (gc_Params c ''id'');
                   req = \<lparr>oq_Method = gc_Method c, oq_URL = g_authURL h @ ''/internal/v1/auth'' @ cell',
                          oq_Header = context_headers h r c @ [(''Content-Type'', gc_Get c ''Content-Type'')] @
                            optional_header ''Cookie'' (gc_Get c ''Cookie''),
                          oq_Body = gc_Body c, oq_Host = []\<rparr>
               in if \<not> g_valid h (gc_Method c) (oq_URL req) then ((GwSendStatus 502, []), cell')
                  else ((forward h set_cookies req, [req]), cell'))"

text \<open>The optional customer session, checked for the public appointment routes.\<close>

definition session_cookie :: "gw_ctx \<Rightarrow> string" where
  "session_cookie c = (if gc_Cookies c ''__Host-barber_customer_session'' \<noteq> [] then gc_Cookies c ''__Host-barber_customer_session''
     else gc_Cookies c ''barber_customer_session'')"

definition session_check :: "gateway \<Rightarrow> resolution \<Rightarrow> gw_ctx \<Rightarrow> (string \<times> string) list \<times> out_req list" where
  "session_check h r c =
     (let url = g_customerURL h @ ''/internal/v1/internal/customer/session'';
          check = \<lparr>oq_Method = ''GET'', oq_URL = url,
                   oq_Header = [(InternalHeaderName, g_token h), (TenantIDHeader, rn_TenantID r), (AppTypeHeader, rn_AppType r),
                     (''X-Customer-Session'', session_cookie c)], oq_Body = [], oq_Host = []\<rparr>
      in if session_cookie c = [] \<or> \<not> g_valid h ''GET'' url then ([], [])
         else ((case g_Do h check of
                  UpResponse status _ (Some body) \<Rightarrow>
                    (if 200 \<le> status \<and> status < 300
                     then case g_customer_id h body of
                            Some i \<Rightarrow> optional_header ''X-Customer-ID'' i
                          | None \<Rightarrow> []
                     else [])
                | _ \<Rightarrow> []), [check]))"

definition gw_proxy :: "gateway \<Rightarrow> string \<Rightarrow> string \<Rightarrow> string \<Rightarrow> gw_ctx \<Rightarrow> gw_reply \<times> out_req list" where
  "gw_proxy h base path appType c =
     (case Resolver_Resolve (g_resolver h) (hostname c) of
        Inl ResNotFound \<Rightarrow> (GwSendStatus 404, [])
      | Inl ResOther \<Rightarrow> (GwSendStatus 502, [])
      | Inr r \<Rightarrow>
          if rn_AppType r \<noteq> appType then (GwSendStatus 403, [])
          else let target0 = ReplaceAll (ReplaceAll (ReplaceAll path '':id'' (gc_Params c ''id''))
                     '':barber_id'' (gc_Params c ''barber_id'')) '':service_id'' (gc_Params c ''service_id'');
                   target = target0 @ (if gc_RawQuery c \<noteq> [] then ''?'' @ gc_RawQuery c else []);
                   (customer, checks) =
                     (if base = g_appointmentURL h \<and> is_prefix ''/internal/v1/public/appointments'' path
                      then session_check h r c else ([], []));
                   req = \<lparr>oq_Method = gc_Method c, oq_URL = base @ target,
                          oq_Header = context_headers h r c @ [(''Content-Type'', gc_Get c ''Content-Type'')] @
                            optional_header ''Idempotency-Key'' (gc_Get c ''Idempotency-Key'') @
                            optional_header ''Cookie'' (gc_Get c ''Cookie'') @ customer,
                          oq_Body = gc_Body c, oq_Host = []\<rparr>
               in if \<not> g_valid h (gc_Method c) (base @ target) then (GwSendStatus 502, [])
                  else (forward h set_cookies req, checks @ [req]))"

definition frontend_headers :: "string list" where
  "frontend_headers = [''Accept'', ''Accept-Language'', ''Cookie'', ''Next-Router-Prefetch'', ''Next-Router-State-Tree'', ''Next-Url'', ''Rsc'']"

definition frontend_copied :: "(string \<times> string) list \<Rightarrow> (string \<times> string) list" where
  "frontend_copied hs = concat (map (\<lambda>k. case map_of hs k of None \<Rightarrow> [] | Some v \<Rightarrow> optional_header k v)
     [''Content-Type'', ''Cache-Control'', ''Location'', ''Vary'']) @ set_cookies hs"

definition gw_frontend :: "gateway \<Rightarrow> gw_ctx \<Rightarrow> gw_reply \<times> out_req list" where
  "gw_frontend h c =
     (if gc_Method c \<noteq> ''GET'' \<and> gc_Method c \<noteq> ''HEAD'' then (GwSendStatus 404, [])
      else if is_prefix ''/api/'' (gc_Path c) \<or> is_prefix ''/webhooks/'' (gc_Path c) then (GwSendStatus 404, [])
      else case Resolver_Resolve (g_resolver h) (hostname c) of
        Inl ResNotFound \<Rightarrow> (GwSendStatus 404, [])
      | Inl ResOther \<Rightarrow> (GwSendStatus 502, [])
      | Inr r \<Rightarrow>
          if rn_AppType r \<noteq> ''admin'' \<and> rn_AppType r \<noteq> ''booking'' then (GwSendStatus 404, [])
          else let base = (if rn_AppType r = ''admin'' then g_adminWebURL h else g_bookingWebURL h);
                   req = \<lparr>oq_Method = gc_Method c, oq_URL = base @ gc_OriginalURL c,
                          oq_Header = concat (map (\<lambda>k. optional_header k (gc_Get c k)) frontend_headers),
                          oq_Body = [], oq_Host = gc_Get c ''Host''\<rparr>
               in if \<not> g_valid h (gc_Method c) (oq_URL req) then (GwSendStatus 502, [])
                  else (case g_Do h req of
                          UpTimeout \<Rightarrow> upstreamError True
                        | UpFailure \<Rightarrow> upstreamError False
                        | UpResponse status headers (Some body) \<Rightarrow> GwSend status body (frontend_copied headers)
                        | UpResponse status headers None \<Rightarrow> GwSend 502 ''Bad Gateway'' (frontend_copied headers), [req]))"

section \<open>The route table\<close>

datatype gw_route =
    RPlatform string
  | RPlatformService "gateway \<Rightarrow> string" string
  | RHealth
  | RConfig
  | RAuth string
  | RProxy "gateway \<Rightarrow> string" string string
  | RFrontend

definition registerCustomerRoutes :: "(string \<times> string \<times> gw_route) list" where
  "registerCustomerRoutes =
     [(''POST'', ''/api/v1/public/customer/auth/register'', RProxy g_customerURL ''/internal/v1/public/customer/auth/register'' ''booking''),
      (''POST'', ''/api/v1/public/customer/auth/login'', RProxy g_customerURL ''/internal/v1/public/customer/auth/login'' ''booking''),
      (''POST'', ''/api/v1/public/customer/auth/logout'', RProxy g_customerURL ''/internal/v1/public/customer/auth/logout'' ''booking''),
      (''GET'', ''/api/v1/public/customer/auth/me'', RProxy g_customerURL ''/internal/v1/public/customer/auth/me'' ''booking''),
      (''POST'', ''/api/v1/public/customer/auth/change-password'', RProxy g_customerURL ''/internal/v1/public/customer/auth/change-password'' ''booking''),
      (''POST'', ''/api/v1/public/customer/auth/forgot-password'', RProxy g_customerURL ''/internal/v1/public/customer/auth/forgot-password'' ''booking''),
      (''GET'', ''/api/v1/public/customer/profile'', RProxy g_customerURL ''/internal/v1/public/customer/profile'' ''booking''),
      (''PATCH'', ''/api/v1/public/customer/profile'', RProxy g_customerURL ''/internal/v1/public/customer/profile'' ''booking''),
      (''GET'', ''/api/v1/public/customer/appointments/upcoming'', RProxy g_customerURL ''/internal/v1/public/customer/appointments/upcoming'' ''booking''),
      (''GET'', ''/api/v1/public/customer/appointments/history'', RProxy g_customerURL ''/internal/v1/public/customer/appointments/history'' ''booking''),
      (''GET'', ''/api/v1/public/customer/appointments/:id'', RProxy g_customerURL ''/internal/v1/public/customer/appointments/:id'' ''booking''),
      (''POST'', ''/api/v1/public/customer/appointments/:id/cancel'', RProxy g_customerURL ''/internal/v1/public/customer/appointments/:id/cancel'' ''booking'')]"

definition registerAuthRoutes :: "(string \<times> string \<times> gw_route) list" where
  "registerAuthRoutes =
     [(''POST'', ''/api/v1/admin/auth/login'', RAuth ''/login''),
      (''POST'', ''/api/v1/admin/auth/logout'', RAuth ''/logout''),
      (''GET'', ''/api/v1/admin/auth/me'', RAuth ''/me''),
      (''POST'', ''/api/v1/admin/auth/register'', RAuth ''/register''),
      (''GET'', ''/api/v1/admin/members'', RAuth ''/members''),
      (''GET'', ''/api/v1/admin/members/:id'', RAuth ''/members/:id''),
      (''POST'', ''/api/v1/admin/members'', RAuth ''/members''),
      (''PATCH'', ''/api/v1/admin/members/:id/role'', RAuth ''/members/:id/role''),
      (''POST'', ''/api/v1/admin/members/:id/activate'', RAuth ''/members/:id/activate''),
      (''POST'', ''/api/v1/admin/members/:id/deactivate'', RAuth ''/members/:id/deactivate''),
      (''POST'', ''/api/v1/admin/auth/change-password'', RAuth ''/change-password''),
      (''POST'', ''/api/v1/admin/auth/forgot-password'', RAuth ''/forgot-password'')]"

definition registerTenantRoutes :: "(string \<times> string \<times> gw_route) list" where
  "registerTenantRoutes =
     [(''GET'', ''/api/v1/admin/settings'', RProxy g_tenantURL ''/internal/v1/admin/settings'' ''admin''),
      (''PATCH'', ''/api/v1/admin/settings'', RProxy g_tenantURL ''/internal/v1/admin/settings'' ''admin''),
      (''GET'', ''/api/v1/public/branches'', RProxy g_barberURL ''/internal/v1/public/branches'' ''booking''),
      (''GET'', ''/api/v1/public/barbers'', RProxy g_barberURL ''/internal/v1/public/barbers'' ''booking''),
      (''GET'', ''/api/v1/public/services'', RProxy g_catalogURL ''/internal/v1/public/services'' ''booking''),
      (''GET'', ''/api/v1/public/barber-services'', RProxy g_catalogURL ''/internal/v1/public/barber-services'' ''booking''),
      (''GET'', ''/api/v1/public/availability'', RProxy g_schedulingURL ''/internal/v1/public/availability'' ''booking''),
      (''GET'', ''/api/v1/admin/availability'', RProxy g_schedulingURL ''/internal/v1/admin/availability'' ''admin'')]"

definition registerAppointmentRoutes :: "(string \<times> string \<times> gw_route) list" where
  "registerAppointmentRoutes =
     [(''POST'', ''/api/v1/public/appointments'', RProxy g_appointmentURL ''/internal/v1/public/appointments'' ''booking''),
      (''GET'', ''/api/v1/public/appointments/:id'', RProxy g_appointmentURL ''/internal/v1/public/appointments/:id'' ''booking''),
      (''POST'', ''/api/v1/public/appointments/:id/cancel'', RProxy g_appointmentURL ''/internal/v1/public/appointments/:id/cancel'' ''booking''),
      (''GET'', ''/api/v1/admin/appointments'', RProxy g_appointmentURL ''/internal/v1/admin/appointments'' ''admin''),
      (''GET'', ''/api/v1/admin/appointments/:id'', RProxy g_appointmentURL ''/internal/v1/admin/appointments/:id'' ''admin''),
      (''POST'', ''/api/v1/admin/appointments'', RProxy g_appointmentURL ''/internal/v1/admin/appointments'' ''admin'')] @
     map (\<lambda>operation. (''POST'', ''/api/v1/admin/appointments/:id/'' @ operation,
            RProxy g_appointmentURL (''/internal/v1/admin/appointments/:id/'' @ operation) ''admin''))
       [''cancel'', ''confirm'', ''complete'', ''no-show'', ''reschedule'']"

definition registerBarberRoutes :: "(string \<times> string \<times> gw_route) list" where
  "registerBarberRoutes =
     [(''POST'', ''/api/v1/admin/branches'', RProxy g_barberURL ''/internal/v1/admin/branches'' ''admin''),
      (''GET'', ''/api/v1/admin/branches'', RProxy g_barberURL ''/internal/v1/admin/branches'' ''admin''),
      (''GET'', ''/api/v1/admin/branches/:id'', RProxy g_barberURL ''/internal/v1/admin/branches/:id'' ''admin''),
      (''PATCH'', ''/api/v1/admin/branches/:id'', RProxy g_barberURL ''/internal/v1/admin/branches/:id'' ''admin''),
      (''POST'', ''/api/v1/admin/barbers'', RProxy g_barberURL ''/internal/v1/admin/barbers'' ''admin''),
      (''GET'', ''/api/v1/admin/barbers'', RProxy g_barberURL ''/internal/v1/admin/barbers'' ''admin''),
      (''GET'', ''/api/v1/admin/barbers/:id'', RProxy g_barberURL ''/internal/v1/admin/barbers/:id'' ''admin''),
      (''PATCH'', ''/api/v1/admin/barbers/:id'', RProxy g_barberURL ''/internal/v1/admin/barbers/:id'' ''admin''),
      (''POST'', ''/api/v1/admin/barbers/:barber_id/link-identity'', RProxy g_barberURL ''/internal/v1/admin/barbers/:barber_id/link-identity'' ''admin''),
      (''DELETE'', ''/api/v1/admin/barbers/:barber_id/link-identity'', RProxy g_barberURL ''/internal/v1/admin/barbers/:barber_id/link-identity'' ''admin'')]"

definition registerCatalogRoutes :: "(string \<times> string \<times> gw_route) list" where
  "registerCatalogRoutes =
     [(''POST'', ''/api/v1/admin/services'', RProxy g_catalogURL ''/internal/v1/admin/services'' ''admin''),
      (''GET'', ''/api/v1/admin/services'', RProxy g_catalogURL ''/internal/v1/admin/services'' ''admin''),
      (''GET'', ''/api/v1/admin/services/:id'', RProxy g_catalogURL ''/internal/v1/admin/services/:id'' ''admin''),
      (''PATCH'', ''/api/v1/admin/services/:id'', RProxy g_catalogURL ''/internal/v1/admin/services/:id'' ''admin''),
      (''POST'', ''/api/v1/admin/barbers/:barber_id/services'', RProxy g_catalogURL ''/internal/v1/admin/barbers/:barber_id/services'' ''admin''),
      (''GET'', ''/api/v1/admin/barbers/:barber_id/services'', RProxy g_catalogURL ''/internal/v1/admin/barbers/:barber_id/services'' ''admin''),
      (''DELETE'', ''/api/v1/admin/barbers/:barber_id/services/:service_id'', RProxy g_catalogURL ''/internal/v1/admin/barbers/:barber_id/services/:service_id'' ''admin'')]"

definition registerSchedulingRoutes :: "(string \<times> string \<times> gw_route) list" where
  "registerSchedulingRoutes =
     [(''GET'', ''/api/v1/admin/barbers/:barber_id/schedule'', RProxy g_schedulingURL ''/internal/v1/admin/barbers/:barber_id/schedule'' ''admin''),
      (''PUT'', ''/api/v1/admin/barbers/:barber_id/working-hours'', RProxy g_schedulingURL ''/internal/v1/admin/barbers/:barber_id/working-hours'' ''admin''),
      (''GET'', ''/api/v1/admin/barbers/:barber_id/overrides'', RProxy g_schedulingURL ''/internal/v1/admin/barbers/:barber_id/overrides'' ''admin''),
      (''POST'', ''/api/v1/admin/barbers/:barber_id/overrides'', RProxy g_schedulingURL ''/internal/v1/admin/barbers/:barber_id/overrides'' ''admin''),
      (''PATCH'', ''/api/v1/admin/barbers/:barber_id/overrides/:id'', RProxy g_schedulingURL ''/internal/v1/admin/barbers/:barber_id/overrides/:id'' ''admin''),
      (''DELETE'', ''/api/v1/admin/barbers/:barber_id/overrides/:id'', RProxy g_schedulingURL ''/internal/v1/admin/barbers/:barber_id/overrides/:id'' ''admin''),
      (''GET'', ''/api/v1/admin/barbers/:barber_id/blocked-periods'', RProxy g_schedulingURL ''/internal/v1/admin/barbers/:barber_id/blocked-periods'' ''admin''),
      (''POST'', ''/api/v1/admin/barbers/:barber_id/blocked-periods'', RProxy g_schedulingURL ''/internal/v1/admin/barbers/:barber_id/blocked-periods'' ''admin''),
      (''DELETE'', ''/api/v1/admin/barbers/:barber_id/blocked-periods/:id'', RProxy g_schedulingURL ''/internal/v1/admin/barbers/:barber_id/blocked-periods/:id'' ''admin'')]"

definition gw_Register :: "(string \<times> string \<times> gw_route) list" where
  "gw_Register =
     [(''POST'', ''/api/v1/platform/tenants'', RPlatform ''/internal/v1/platform/tenants''),
      (''GET'', ''/api/v1/platform/tenants'', RPlatform ''/internal/v1/platform/tenants''),
      (''GET'', ''/api/v1/platform/tenants/:id'', RPlatform ''/internal/v1/platform/tenants/:id''),
      (''POST'', ''/api/v1/platform/tenants/:id/activate'', RPlatform ''/internal/v1/platform/tenants/:id/activate''),
      (''POST'', ''/api/v1/platform/tenants/:id/suspend'', RPlatform ''/internal/v1/platform/tenants/:id/suspend''),
      (''GET'', ''/api/v1/platform/audit'', RPlatform ''/internal/v1/platform/audit''),
      (''GET'', ''/api/v1/platform/tenants/:id/owners'', RPlatformService g_authURL ''/internal/v1/platform/tenants/:id/owners''),
      (''GET'', ''/api/v1/platform/health'', RHealth),
      (''POST'', ''/api/v1/platform/tenants/:id/domains'', RPlatform ''/internal/v1/platform/tenants/:id/domains''),
      (''GET'', ''/api/v1/platform/tenants/:id/domains'', RPlatform ''/internal/v1/platform/tenants/:id/domains''),
      (''POST'', ''/api/v1/platform/tenants/:id/domains/:domain_id/verify'', RPlatform ''/internal/v1/platform/tenants/:id/domains/:domain_id/verify''),
      (''POST'', ''/api/v1/platform/tenants/:id/domains/:domain_id/activate'', RPlatform ''/internal/v1/platform/tenants/:id/domains/:domain_id/activate''),
      (''POST'', ''/api/v1/platform/tenants/:id/domains/:domain_id/deactivate'', RPlatform ''/internal/v1/platform/tenants/:id/domains/:domain_id/deactivate''),
      (''GET'', ''/api/v1/public/config'', RConfig)] @
     registerCustomerRoutes @ registerAuthRoutes @ registerTenantRoutes @ registerAppointmentRoutes @
     registerBarberRoutes @ registerCatalogRoutes @ registerSchedulingRoutes @ [(''USE'', ''/'', RFrontend)]"

text \<open>
  Every registration of \<^verbatim>\<open>auth\<close> has its own variable; \<open>cells\<close> holds their values by the position of the route.
\<close>

type_synonym cells = "nat \<Rightarrow> string"

definition route_path :: "gw_route \<Rightarrow> string" where
  "route_path r = (case r of RAuth path \<Rightarrow> path | _ \<Rightarrow> [])"

definition gw_route_at :: "nat \<Rightarrow> gw_route" where
  "gw_route_at n = (if n < length gw_Register then snd (snd (gw_Register ! n)) else RFrontend)"

definition gw_start :: cells where
  "gw_start n = route_path (gw_route_at n)"

definition gw_serve :: "gateway \<Rightarrow> nat \<Rightarrow> gw_ctx \<Rightarrow> cells \<Rightarrow> (gw_reply \<times> out_req list) \<times> cells" where
  "gw_serve h n c st =
     (case gw_route_at n of
        RPlatform path \<Rightarrow> (platformProxy h path c, st)
      | RPlatformService base path \<Rightarrow> (platformServiceProxy h (base h) path c, st)
      | RHealth \<Rightarrow> (platformHealth h c, st)
      | RConfig \<Rightarrow> (gw_config h c, st)
      | RAuth _ \<Rightarrow> (case gw_auth h (st n) c of (out, cell) \<Rightarrow> (out, st(n := cell)))
      | RProxy base path appType \<Rightarrow> (gw_proxy h (base h) path appType c, st)
      | RFrontend \<Rightarrow> (gw_frontend h c, st))"

section \<open>The context headers of a client are ignored\<close>

definition context_header_names :: "string list" where
  "context_header_names = [InternalHeaderName, TenantIDHeader, AppTypeHeader, ''X-Customer-ID'', ''X-Customer-Session'']"

definition headers_used :: "string list" where
  "headers_used = [PlatformHeaderName, RequestIDHeader, ''Content-Type'', ''Cookie'', ''X-Platform-Actor'', ''Idempotency-Key'', ''Host''] @
     frontend_headers"

lemma headers_used_apart: "list_all (\<lambda>k. k \<notin> set context_header_names) headers_used"
  by code_simp

lemma headers_read:
  assumes "\<forall>k. k \<notin> set context_header_names \<longrightarrow> get k = gc_Get c k"
  shows "get PlatformHeaderName = gc_Get c PlatformHeaderName" "get RequestIDHeader = gc_Get c RequestIDHeader"
    "get ''Content-Type'' = gc_Get c ''Content-Type''" "get ''Cookie'' = gc_Get c ''Cookie''"
    "get ''X-Platform-Actor'' = gc_Get c ''X-Platform-Actor''" "get ''Idempotency-Key'' = gc_Get c ''Idempotency-Key''"
    "get ''Host'' = gc_Get c ''Host''" "k \<in> set frontend_headers \<Longrightarrow> get k = gc_Get c k"
proof -
  have used: "get k = gc_Get c k" if "k \<in> set headers_used" for k
    using assms headers_used_apart that unfolding list_all_iff by blast
  show "get PlatformHeaderName = gc_Get c PlatformHeaderName" "get RequestIDHeader = gc_Get c RequestIDHeader"
    "get ''Content-Type'' = gc_Get c ''Content-Type''" "get ''Cookie'' = gc_Get c ''Cookie''"
    "get ''X-Platform-Actor'' = gc_Get c ''X-Platform-Actor''" "get ''Idempotency-Key'' = gc_Get c ''Idempotency-Key''"
    "get ''Host'' = gc_Get c ''Host''"
    by (rule used, simp only: headers_used_def append.simps list.set insert_iff simp_thms)+
  show "k \<in> set frontend_headers \<Longrightarrow> get k = gc_Get c k" by (rule used) (simp add: headers_used_def)
qed

text \<open>
  (C23) The context headers of a client are ignored. Whatever a browser puts into the headers that carry the
  trusted context inside the platform (the internal token, tenant, application type, customer and
  customer session), every route answers the same, sends the same requests to the private services,
  and changes the gateway in the same way.
\<close>

theorem client_context_ignored:
  assumes "\<forall>k. k \<notin> set context_header_names \<longrightarrow> get k = gc_Get c k"
  shows "gw_serve h n (c\<lparr>gc_Get := get\<rparr>) st = gw_serve h n c st"
proof -
  let ?c = "c\<lparr>gc_Get := get\<rparr>"
  note same = headers_read [OF assms]
  have basic: "requestID ?c = requestID c" "hostname ?c = hostname c" "session_cookie ?c = session_cookie c"
    by (simp_all add: requestID_def hostname_def session_cookie_def same split: option.splits)
  have ctx: "context_headers h r ?c = context_headers h r c" "session_check h r ?c = session_check h r c" for r
    by (simp_all add: context_headers_def session_check_def basic)
  have front: "map (\<lambda>k. optional_header k (get k)) frontend_headers = map (\<lambda>k. optional_header k (gc_Get c k)) frontend_headers"
    by (simp add: same)
  have "platformProxy h path ?c = platformProxy h path c" "platformServiceProxy h base path ?c = platformServiceProxy h base path c"
    "platformHealth h ?c = platformHealth h c" "gw_config h ?c = gw_config h c" "gw_auth h cell ?c = gw_auth h cell c"
    "gw_proxy h base path appType ?c = gw_proxy h base path appType c" "gw_frontend h ?c = gw_frontend h c"
    for path base cell appType
    by (simp_all add: platformProxy_def platformServiceProxy_def platformHealth_def gw_config_def gw_auth_def gw_proxy_def
        gw_frontend_def basic ctx same front cong: sum.case_cong if_cong)
  then show ?thesis by (simp add: gw_serve_def split: gw_route.splits)
qed

section \<open>The path of an auth route\<close>

lemma replace_absent: "CHR '':'' \<notin> set s \<Longrightarrow> replace_from '':id'' new 0 s = s"
  by (induction s) auto

lemma replace_prefix: "CHR '':'' \<notin> set pre \<Longrightarrow> replace_from '':id'' new 0 (pre @ s) = pre @ replace_from '':id'' new 0 s"
  by (induction pre) auto

lemma ReplaceAll_once:
  assumes "CHR '':'' \<notin> set pre" and "CHR '':'' \<notin> set post"
  shows "ReplaceAll (pre @ '':id'' @ post) '':id'' i = pre @ i @ post"
proof -
  have "replace_from '':id'' i 2 (''id'' @ post) = post"
    using assms(2) by (simp add: numeral_2_eq_2 replace_absent)
  with assms(1) show ?thesis by (simp add: ReplaceAll_def replace_prefix numeral_2_eq_2)
qed

lemma ReplaceAll_done: "CHR '':'' \<notin> set s \<Longrightarrow> ReplaceAll s '':id'' i = s"
  by (simp add: ReplaceAll_def replace_absent)

lemma auth_cell_fixed: "CHR '':'' \<notin> set cell \<Longrightarrow> snd (gw_auth h cell c) = cell"
  by (auto simp: gw_auth_def ReplaceAll_done Let_def split: sum.splits resolve_error.splits)

lemma serve_keeps_cell:
  assumes "CHR '':'' \<notin> set (st n)"
  shows "snd (gw_serve h m c st) n = st n"
  using auth_cell_fixed [OF assms, of h c]
  by (auto simp: gw_serve_def split: gw_route.splits prod.splits)

definition gw_run :: "gateway \<Rightarrow> (nat \<times> gw_ctx) list \<Rightarrow> cells \<Rightarrow> cells" where
  "gw_run h rs st = fold (\<lambda>(n, c) st. snd (gw_serve h n c st)) rs st"

lemma run_keeps_cell: "CHR '':'' \<notin> set (st n) \<Longrightarrow> gw_run h rs st n = st n"
proof (induction rs arbitrary: st)
  case (Cons x rs)
  then have "snd (gw_serve h (fst x) (snd x) st) n = st n" using serve_keeps_cell by blast
  with Cons show ?case by (simp add: gw_run_def split_beta)
qed (simp add: gw_run_def)

text \<open>
  (C24) The first member of an auth route stays. Once a request to an auth route with a member identifier
  has been resolved for an admin host, every later request to that route, whatever member it names and
  whatever requests came in between, is sent to the member of the first request.
\<close>

theorem auth_path_sticks:
  assumes "gw_route_at n = RAuth (pre @ '':id'' @ post)" and "CHR '':'' \<notin> set pre" and "CHR '':'' \<notin> set post"
    and "Resolver_Resolve (g_resolver h) (hostname c1) = Inr r" and "rn_AppType r = ''admin''"
    and "gc_Params c1 ''id'' = i" and "CHR '':'' \<notin> set i"
    and "st = gw_run h rs (snd (gw_serve h n c1 gw_start))"
    and "req \<in> set (snd (fst (gw_serve h n c2 st)))"
  shows "oq_URL req = g_authURL h @ ''/internal/v1/auth'' @ pre @ i @ post"
proof -
  have start: "gw_start n = pre @ '':id'' @ post" using assms(1) by (simp add: gw_start_def route_path_def)
  have once: "ReplaceAll (pre @ '':id'' @ post) '':id'' i = pre @ i @ post" by (rule ReplaceAll_once [OF assms(2,3)])
  have "snd (gw_auth h (pre @ '':id'' @ post) c1) = pre @ i @ post"
    unfolding gw_auth_def assms(4,6) once by (simp add: assms(5) Let_def)
  then have first: "snd (gw_serve h n c1 gw_start) n = pre @ i @ post"
    unfolding gw_serve_def assms(1) start by (simp add: split_beta)
  have none: "CHR '':'' \<notin> set (pre @ i @ post)" using assms(2,3,7) by simp
  then have "st n = pre @ i @ post" using run_keeps_cell first by (simp add: assms(8))
  then have "req \<in> set (snd (fst (gw_auth h (pre @ i @ post) c2)))"
    using assms(9) unfolding gw_serve_def assms(1) by (simp add: split_beta)
  moreover have "oq_URL q = g_authURL h @ ''/internal/v1/auth'' @ pre @ i @ post"
    if "q \<in> set (snd (fst (gw_auth h (pre @ i @ post) c2)))" for q
    using that unfolding gw_auth_def ReplaceAll_done [OF none]
    by (auto simp: Let_def split: sum.splits resolve_error.splits if_splits)
  ultimately show ?thesis by blast
qed

end
