(* ===== verification/Tenant_Settings.thy ===== *)
theory Tenant_Settings
  imports Platform
begin

text \<open>
  The pure part of tenant-service: the types of \<^verbatim>\<open>internal/domain/domain.go\<close>, and of
  \<^verbatim>\<open>internal/service/service.go\<close> the defaults, the merge and the validation of settings, the normal
  form of hostnames and the verification values of domains.

  Parameters are the fields of \<open>tenant_ext\<close>: the time zone database, \<^verbatim>\<open>net.ParseIP\<close>, \<^verbatim>\<open>strings.ToLower\<close>
  on text outside ASCII, SHA-256, and the switch for local names.
\<close>

section \<open>internal/domain\<close>

record domain_resolution =
  dr_TenantID :: uuid
  dr_AppType :: string

text \<open>A nil slice of offsets is \<open>None\<close>.\<close>

record settings =
  st_TenantID :: uuid
  st_BusinessTimezone :: string
  st_BookingIntervalMinutes :: int
  st_ReminderOffsetsMinutes :: "int list option"
  st_CancellationPolicy :: string
  st_CancellationNoticeMinutes :: int
  st_BookingHorizonDays :: int
  st_MinimumBookingNoticeMinutes :: int

record update_settings_input =
  us_Timezone :: "string option"
  us_BookingIntervalMinutes :: "int option"
  us_ReminderOffsetsMinutes :: "int list option"
  us_CancellationPolicy :: "string option"
  us_BookingHorizonDays :: "int option"
  us_MinimumBookingNoticeMinutes :: "int option"

record tenant =
  tn_ID :: uuid
  tn_Name :: string
  tn_Status :: string
  tn_CreatedAt :: time
  tn_Settings :: settings

record create_tenant_input =
  ct_Name :: string
  ct_Settings :: settings

record create_domain_input =
  cd_Hostname :: string
  cd_DomainType :: string

record tenant_domain =
  td_ID :: uuid
  td_TenantID :: uuid
  td_Hostname :: string
  td_DomainType :: string
  td_Verified :: bool
  td_Active :: bool
  td_VerificationState :: string
  td_VerificationRecord :: string
  td_VerificationToken :: string
  td_VerificationValue :: string
  td_RequestedAt :: "time option"
  td_LastAttemptAt :: "time option"
  td_VerifiedAt :: "time option"
  td_ActivatedAt :: "time option"
  td_DeactivatedAt :: "time option"
  td_CreatedAt :: time

record platform_audit =
  pa_ID :: uuid
  pa_Actor :: string
  pa_Action :: string
  pa_TenantID :: "uuid option"
  pa_RequestID :: string
  pa_Metadata :: "(string \<times> string) list"
  pa_CreatedAt :: time

section \<open>Parameters\<close>

record tenant_ext =
  te_LoadLocation :: "string \<Rightarrow> bool"
  te_ParseIP :: "string \<Rightarrow> bool"
  te_ToLower :: "string \<Rightarrow> string"
  te_sha256 :: "string \<Rightarrow> string"
  te_allowLocalhost :: bool

datatype tenant_error =
    TErrInvalidInput
  | TErrForbidden
  | TErrVerificationFailed
  | TErrVerificationRequired
  | TErrVerificationUnavailable
  | TErrNotFound
  | TErrConflict
  | TErrTenantInactive
  | TErrToken
  | TErrParse
  | TErrUntrusted
  | TErrRepo repo_error

section \<open>Settings\<close>

definition DefaultSettings :: settings where
  "DefaultSettings = \<lparr>st_TenantID = uuid_nil, st_BusinessTimezone = ''Europe/Istanbul'', st_BookingIntervalMinutes = 15,
     st_ReminderOffsetsMinutes = Some [1440, 120], st_CancellationPolicy = ''allow_until_notice'',
     st_CancellationNoticeMinutes = 120, st_BookingHorizonDays = 60, st_MinimumBookingNoticeMinutes = 60\<rparr>"

text \<open>The loop over the offsets, with the set of those already seen.\<close>

fun valid_offsets :: "int list \<Rightarrow> int list \<Rightarrow> bool" where
  "valid_offsets seen [] = True"
| "valid_offsets seen (off # os) =
     (if off < 1 \<or> off > 10080 then False
      else if off \<in> set seen then False
      else valid_offsets (off # seen) os)"

definition offsets_of :: "settings \<Rightarrow> int list" where
  "offsets_of s = (case st_ReminderOffsetsMinutes s of None \<Rightarrow> [] | Some os \<Rightarrow> os)"

definition validateSettings :: "tenant_ext \<Rightarrow> settings \<Rightarrow> tenant_error + settings" where
  "validateSettings E s0 =
     (let s = s0\<lparr>st_BusinessTimezone := TrimSpace (st_BusinessTimezone s0)\<rparr>
      in if st_BusinessTimezone s = [] \<or> st_BusinessTimezone s = ''Local'' then Inl TErrInvalidInput
         else if \<not> te_LoadLocation E (st_BusinessTimezone s) then Inl TErrInvalidInput
         else if st_BookingIntervalMinutes s < 1 \<or> st_BookingIntervalMinutes s > 120 then Inl TErrInvalidInput
         else if offsets_of s = [] then Inl TErrInvalidInput
         else if \<not> valid_offsets [] (offsets_of s) then Inl TErrInvalidInput
         else if st_CancellationPolicy s \<noteq> ''allow_until_notice'' \<and> st_CancellationPolicy s \<noteq> ''no_cancellation''
         then Inl TErrInvalidInput
         else if st_CancellationNoticeMinutes s < 0 \<or> st_CancellationNoticeMinutes s > 10080 then Inl TErrInvalidInput
         else if st_BookingHorizonDays s < 1 \<or> st_BookingHorizonDays s > 365 then Inl TErrInvalidInput
         else if st_MinimumBookingNoticeMinutes s < 0 \<or> st_MinimumBookingNoticeMinutes s > 10080 then Inl TErrInvalidInput
         else Inr s)"

definition normalizeSettings :: "tenant_ext \<Rightarrow> settings \<Rightarrow> tenant_error + settings" where
  "normalizeSettings E inp =
     (let d = DefaultSettings in validateSettings E
       (inp\<lparr>st_BusinessTimezone := (if st_BusinessTimezone inp = [] then st_BusinessTimezone d else st_BusinessTimezone inp),
            st_BookingIntervalMinutes := (if st_BookingIntervalMinutes inp = 0 then st_BookingIntervalMinutes d
              else st_BookingIntervalMinutes inp),
            st_ReminderOffsetsMinutes := (if st_ReminderOffsetsMinutes inp = None then st_ReminderOffsetsMinutes d
              else st_ReminderOffsetsMinutes inp),
            st_CancellationPolicy := (if st_CancellationPolicy inp = [] then st_CancellationPolicy d
              else st_CancellationPolicy inp),
            st_CancellationNoticeMinutes := (if st_CancellationNoticeMinutes inp = 0 then st_CancellationNoticeMinutes d
              else st_CancellationNoticeMinutes inp),
            st_BookingHorizonDays := (if st_BookingHorizonDays inp = 0 then st_BookingHorizonDays d
              else st_BookingHorizonDays inp),
            st_MinimumBookingNoticeMinutes := (if st_MinimumBookingNoticeMinutes inp = 0
              then st_MinimumBookingNoticeMinutes d else st_MinimumBookingNoticeMinutes inp)\<rparr>))"

definition patched :: "'a \<Rightarrow> 'a option \<Rightarrow> 'a" where
  "patched old new = (case new of None \<Rightarrow> old | Some v \<Rightarrow> v)"

definition mergeSettings :: "tenant_ext \<Rightarrow> settings \<Rightarrow> update_settings_input \<Rightarrow> tenant_error + settings" where
  "mergeSettings E current inp =
     (if us_Timezone inp = None \<and> us_BookingIntervalMinutes inp = None \<and> us_ReminderOffsetsMinutes inp = None \<and>
         us_CancellationPolicy inp = None \<and> us_BookingHorizonDays inp = None \<and> us_MinimumBookingNoticeMinutes inp = None
      then Inl TErrInvalidInput
      else validateSettings E
        (current\<lparr>st_BusinessTimezone := patched (st_BusinessTimezone current) (map_option TrimSpace (us_Timezone inp)),
           st_BookingIntervalMinutes := patched (st_BookingIntervalMinutes current) (us_BookingIntervalMinutes inp),
           st_ReminderOffsetsMinutes := (case us_ReminderOffsetsMinutes inp of
              None \<Rightarrow> st_ReminderOffsetsMinutes current | Some os \<Rightarrow> if os = [] then None else Some os),
           st_CancellationPolicy := patched (st_CancellationPolicy current) (map_option TrimSpace (us_CancellationPolicy inp)),
           st_BookingHorizonDays := patched (st_BookingHorizonDays current) (us_BookingHorizonDays inp),
           st_MinimumBookingNoticeMinutes := patched (st_MinimumBookingNoticeMinutes current)
             (us_MinimumBookingNoticeMinutes inp)\<rparr>))"

text \<open>What validation guarantees of settings: exactly the conditions of \<^verbatim>\<open>validateSettings\<close>.\<close>

definition settings_ok :: "tenant_ext \<Rightarrow> settings \<Rightarrow> bool" where
  "settings_ok E s \<longleftrightarrow> st_BusinessTimezone s \<noteq> [] \<and> st_BusinessTimezone s \<noteq> ''Local'' \<and>
     te_LoadLocation E (st_BusinessTimezone s) \<and>
     1 \<le> st_BookingIntervalMinutes s \<and> st_BookingIntervalMinutes s \<le> 120 \<and>
     offsets_of s \<noteq> [] \<and> distinct (offsets_of s) \<and> (\<forall>off \<in> set (offsets_of s). 1 \<le> off \<and> off \<le> 10080) \<and>
     (st_CancellationPolicy s = ''allow_until_notice'' \<or> st_CancellationPolicy s = ''no_cancellation'') \<and>
     0 \<le> st_CancellationNoticeMinutes s \<and> st_CancellationNoticeMinutes s \<le> 10080 \<and>
     1 \<le> st_BookingHorizonDays s \<and> st_BookingHorizonDays s \<le> 365 \<and>
     0 \<le> st_MinimumBookingNoticeMinutes s \<and> st_MinimumBookingNoticeMinutes s \<le> 10080"

lemma valid_offsets_iff:
  "valid_offsets seen os \<longleftrightarrow> distinct os \<and> set os \<inter> set seen = {} \<and> (\<forall>off \<in> set os. 1 \<le> off \<and> off \<le> 10080)"
  by (induction os arbitrary: seen) auto

lemma validateSettings_ok: "validateSettings E s = Inr s' \<Longrightarrow> settings_ok E s'"
  by (auto simp: validateSettings_def settings_ok_def Let_def valid_offsets_iff split: if_splits)

lemma validateSettings_keeps:
  "validateSettings E s = Inr s' \<Longrightarrow> s' = s\<lparr>st_BusinessTimezone := TrimSpace (st_BusinessTimezone s)\<rparr>"
  by (auto simp: validateSettings_def Let_def split: if_splits)

lemma validateSettings_complete:
  assumes "settings_ok E (s\<lparr>st_BusinessTimezone := TrimSpace (st_BusinessTimezone s)\<rparr>)"
  shows "validateSettings E s = Inr (s\<lparr>st_BusinessTimezone := TrimSpace (st_BusinessTimezone s)\<rparr>)"
  using assms unfolding validateSettings_def Let_def settings_ok_def offsets_of_def
  by (simp add: not_less valid_offsets_iff)

section \<open>Hostnames\<close>

text \<open>\<^verbatim>\<open>strings.TrimSuffix(hostname, ".")\<close>\<close>

definition trim_dot :: "string \<Rightarrow> string" where
  "trim_dot s = (if s \<noteq> [] \<and> last s = CHR ''.'' then butlast s else s)"

fun split_dots :: "string \<Rightarrow> string list" where
  "split_dots [] = [[]]"
| "split_dots (c # cs) =
     (if c = CHR ''.'' then [] # split_dots cs
      else case split_dots cs of [] \<Rightarrow> [[c]] | w # ws \<Rightarrow> (c # w) # ws)"

definition forbidden_char :: "char \<Rightarrow> bool" where
  "forbidden_char c \<longleftrightarrow> c \<in> set [CHR '':'', CHR ''/'', CHR ''?'', CHR ''#'', CHR ''@'', CHR ''*'', CHR 0x5C]"

definition label_char :: "char \<Rightarrow> bool" where
  "label_char c \<longleftrightarrow> (let n = (of_char c :: nat) in 97 \<le> n \<and> n \<le> 122 \<or> 48 \<le> n \<and> n \<le> 57 \<or> c = CHR ''-'')"

definition label_ok :: "string \<Rightarrow> bool" where
  "label_ok l \<longleftrightarrow> \<not> (l = [] \<or> length l > 63 \<or> hd l = CHR ''-'' \<or> last l = CHR ''-'') \<and> list_all label_char l"

text \<open>\<^verbatim>\<open>strings.HasSuffix(hostname, ".localhost")\<close>\<close>

definition local_name :: "string \<Rightarrow> bool" where
  "local_name h \<longleftrightarrow> h = ''localhost'' \<or> is_prefix (rev ''.localhost'') (rev h)"

text \<open>\<^verbatim>\<open>strings.ToLower\<close>: on ASCII text every capital is shifted; other text goes through the Unicode tables.\<close>

definition host_ToLower :: "tenant_ext \<Rightarrow> string \<Rightarrow> string" where
  "host_ToLower E s = (if list_all (\<lambda>c. (of_char c :: nat) < 128) s then ToLower s else te_ToLower E s)"

definition NormalizeHostname :: "tenant_ext \<Rightarrow> string \<Rightarrow> tenant_error + string" where
  "NormalizeHostname E inp =
     (let h = trim_dot (host_ToLower E (TrimSpace inp))
      in if h = [] \<or> length h > 253 \<or> list_ex forbidden_char h \<or> te_ParseIP E h then Inl TErrInvalidInput
         else if \<not> te_allowLocalhost E \<and> local_name h then Inl TErrInvalidInput
         else if length (split_dots h) < 2 \<and> h \<noteq> ''localhost'' then Inl TErrInvalidInput
         else if \<not> list_all label_ok (split_dots h) then Inl TErrInvalidInput
         else Inr h)"

section \<open>Verification values\<close>

definition verificationValue :: "string \<Rightarrow> string" where
  "verificationValue token = ''barber-verify='' @ token"

definition validDomainType :: "string \<Rightarrow> bool" where
  "validDomainType v \<longleftrightarrow> v = ''admin'' \<or> v = ''booking''"

definition parseIDs :: "externals \<Rightarrow> string \<Rightarrow> string \<Rightarrow> (uuid \<times> uuid) option" where
  "parseIDs X tenantID domainID =
     (case uuid_Parse X tenantID of None \<Rightarrow> None
      | Some t \<Rightarrow> (case uuid_Parse X domainID of None \<Rightarrow> None | Some d \<Rightarrow> Some (t, d)))"

section \<open>The normal form is stable\<close>

definition host_char :: "char \<Rightarrow> bool" where
  "host_char c \<longleftrightarrow> label_char c \<or> c = CHR ''.''"

lemma split_dots_nonempty: "split_dots h \<noteq> []"
  by (induction h) (auto split: list.splits)

lemma split_dots_chars: "c \<in> set h \<Longrightarrow> c = CHR ''.'' \<or> (\<exists>l \<in> set (split_dots h). c \<in> set l)"
  using split_dots_nonempty by (induction h) (auto split: list.splits)

lemma split_dots_append: "split_dots (h @ ''.'') = split_dots h @ [[]]"
  by (induction h) (auto simp: split_dots_nonempty split: list.splits)

lemma split_dots_last: "h \<noteq> [] \<Longrightarrow> last h = CHR ''.'' \<Longrightarrow> [] \<in> set (split_dots h)"
  using split_dots_append [of "butlast h"] append_butlast_last_id [of h] by simp

lemma host_char_code:
  "host_char c \<Longrightarrow> (of_char c :: nat) < 128 \<and> \<not> (65 \<le> (of_char c :: nat) \<and> (of_char c :: nat) \<le> 90)"
  by (auto simp: host_char_def label_char_def Let_def)

lemma host_ToLower_host: "list_all host_char s \<Longrightarrow> host_ToLower E s = s"
  using host_char_code by (auto simp: host_ToLower_def ToLower_def list_all_iff lower_char_def Let_def intro!: map_idI)

lemma labels_chars: "list_all label_ok (split_dots h) \<Longrightarrow> list_all host_char h"
  using split_dots_chars by (fastforce simp: list_all_iff host_char_def label_ok_def)

lemma strip_first_None: "(\<And>p. p \<in> set ps \<Longrightarrow> p \<noteq> [] \<and> (s = [] \<or> hd p \<noteq> hd s)) \<Longrightarrow> strip_first ps s = None"
proof (induction ps)
  case (Cons p ps)
  have "\<not> is_prefix p s" using Cons.prems [of p] by (cases p; cases s) auto
  with Cons show ?case by simp
qed simp

lemma space_heads: "list_all (\<lambda>p. p \<noteq> [] \<and> \<not> host_char (hd p)) space_seqs"
  "list_all (\<lambda>p. p \<noteq> [] \<and> \<not> host_char (hd p)) (map rev space_seqs)"
  by code_simp+

lemma TrimSpace_host:
  assumes "list_all host_char h"
  shows "TrimSpace h = h"
proof -
  have none: "strip_first ps s = None"
    if "list_all (\<lambda>p. p \<noteq> [] \<and> \<not> host_char (hd p)) ps" "list_all host_char s" for ps s
    using that by (intro strip_first_None) (cases s, auto simp: list_all_iff)
  have "trim_left space_seqs h = h" using none [OF space_heads(1) assms] by (rule trim_left_fix)
  moreover have "trim_left (map rev space_seqs) (rev h) = rev h"
    using none [OF space_heads(2), of "rev h"] assms by (intro trim_left_fix) (simp add: list_all_rev)
  ultimately show ?thesis by (simp add: TrimSpace_def)
qed

lemma NormalizeHostname_idem:
  assumes "NormalizeHostname E inp = Inr h"
  shows "NormalizeHostname E h = Inr h"
proof -
  from assms have h: "h = trim_dot (host_ToLower E (TrimSpace inp))" "list_all label_ok (split_dots h)" "h \<noteq> []"
    by (auto simp: NormalizeHostname_def Let_def split: if_splits)
  have chars: "list_all host_char h" by (rule labels_chars [OF h(2)])
  have "last h \<noteq> CHR ''.''"
    using split_dots_last [OF h(3)] h(2) by (auto simp: list_all_iff label_ok_def)
  then have "trim_dot (host_ToLower E (TrimSpace h)) = h"
    using host_ToLower_host [OF chars] TrimSpace_host [OF chars] by (simp add: trim_dot_def)
  with assms h(1) show ?thesis by (simp add: NormalizeHostname_def Let_def)
qed

lemma NormalizeHostname_chars: "NormalizeHostname E inp = Inr h \<Longrightarrow> list_all host_char h"
  by (auto simp: NormalizeHostname_def Let_def labels_chars split: if_splits)

lemma NormalizeHostname_lower: "NormalizeHostname E inp = Inr h \<Longrightarrow> ToLower h = h"
  using host_ToLower_host [OF NormalizeHostname_chars, of E inp h E] host_char_code NormalizeHostname_chars [of E inp h]
  by (auto simp: host_ToLower_def list_all_iff split: if_splits)

end
