(* ===== verification/Tenant_Store.thy ===== *)
theory Tenant_Store
  imports Tenant_Settings Store_Spec
begin

text \<open>
  The store of tenant-service: the tables of its migrations, the statements of
  \<^verbatim>\<open>generated/queries.sql.go\<close>, the Redis cache, and the operations of \<^verbatim>\<open>internal/repository/repository.go\<close>.

  The cache is not an authority: any of its calls may fail, and it may be absent (\<open>None\<close>). An operation
  that reads, and later writes the cache, is composed of its two halves (\<open>resolve_query\<close> and
  \<open>resolve_store\<close>, \<open>settings_query\<close> and \<open>cacheSettings\<close>), between which other requests may run.
\<close>

section \<open>Tables\<close>

record tenant_row =
  t_id :: uuid
  t_name :: string
  t_status :: string
  t_created :: time

record settings_row =
  s_tenant :: uuid
  s_timezone :: string
  s_interval :: int
  s_offsets :: "int list"
  s_policy :: string
  s_notice :: int
  s_horizon :: int
  s_minimum :: int

record domain_row =
  d_id :: uuid
  d_tenant :: uuid
  d_hostname :: string
  d_type :: string
  d_verified :: bool
  d_active :: bool
  d_state :: string
  d_token_hash :: "string option"
  d_requested :: "time option"
  d_attempted :: "time option"
  d_verified_at :: "time option"
  d_activated :: "time option"
  d_deactivated :: "time option"
  d_created :: time

record tenant_db =
  tenants :: "tenant_row list"
  tenant_settings :: "settings_row list"
  tenant_domains :: "domain_row list"
  platform_audit_log :: "platform_audit list"

definition empty_tenant_db :: tenant_db where
  "empty_tenant_db = \<lparr>tenants = [], tenant_settings = [], tenant_domains = [], platform_audit_log = []\<rparr>"

definition tenant_active :: "tenant_db \<Rightarrow> uuid \<Rightarrow> bool" where
  "tenant_active d t \<longleftrightarrow> list_ex (\<lambda>r. t_id r = t \<and> t_status r = ''active'') (tenants d)"

text \<open>The checks of \<^verbatim>\<open>tenant_settings\<close> (migrations 3, 4 and 6).\<close>

definition settings_checks :: "settings_row \<Rightarrow> bool" where
  "settings_checks r \<longleftrightarrow> 1 \<le> s_interval r \<and> s_interval r \<le> 120 \<and>
     (s_policy r = ''allow_until_notice'' \<or> s_policy r = ''no_cancellation'') \<and>
     0 \<le> s_notice r \<and> s_notice r \<le> 10080 \<and> 1 \<le> s_horizon r \<and> s_horizon r \<le> 365 \<and>
     0 \<le> s_minimum r \<and> s_minimum r \<le> 10080 \<and>
     s_offsets r \<noteq> [] \<and> list_all (\<lambda>off. 0 < off \<and> off \<le> 10080) (s_offsets r) \<and> distinct (s_offsets r)"

section \<open>Conversions\<close>

definition int32 :: "int \<Rightarrow> int" where
  "int32 x = (x + 2 ^ 31) mod 2 ^ 32 - 2 ^ 31"

lemma int32_id: "- (2 ^ 31) \<le> x \<Longrightarrow> x < 2 ^ 31 \<Longrightarrow> int32 x = x"
  by (simp add: int32_def)

definition intsToInt32 :: "int list option \<Rightarrow> int list" where
  "intsToInt32 values = (case values of None \<Rightarrow> [] | Some vs \<Rightarrow> map int32 vs)"

definition settings_params :: "uuid \<Rightarrow> settings \<Rightarrow> settings_row" where
  "settings_params t s =
     \<lparr>s_tenant = t, s_timezone = st_BusinessTimezone s, s_interval = int32 (st_BookingIntervalMinutes s),
      s_offsets = intsToInt32 (st_ReminderOffsetsMinutes s), s_policy = st_CancellationPolicy s,
      s_notice = int32 (st_CancellationNoticeMinutes s), s_horizon = int32 (st_BookingHorizonDays s),
      s_minimum = int32 (st_MinimumBookingNoticeMinutes s)\<rparr>"

definition settingsFrom :: "settings_row \<Rightarrow> settings" where
  "settingsFrom r =
     \<lparr>st_TenantID = s_tenant r, st_BusinessTimezone = s_timezone r, st_BookingIntervalMinutes = s_interval r,
      st_ReminderOffsetsMinutes = Some (s_offsets r), st_CancellationPolicy = s_policy r,
      st_CancellationNoticeMinutes = s_notice r, st_BookingHorizonDays = s_horizon r,
      st_MinimumBookingNoticeMinutes = s_minimum r\<rparr>"

definition newDomain :: "domain_row \<Rightarrow> tenant_domain" where
  "newDomain r =
     \<lparr>td_ID = d_id r, td_TenantID = d_tenant r, td_Hostname = d_hostname r, td_DomainType = d_type r,
      td_Verified = d_verified r, td_Active = d_active r, td_VerificationState = d_state r,
      td_VerificationRecord = ''_barber-verify.'' @ d_hostname r, td_VerificationToken = [], td_VerificationValue = [],
      td_RequestedAt = d_requested r, td_LastAttemptAt = d_attempted r, td_VerifiedAt = d_verified_at r,
      td_ActivatedAt = d_activated r, td_DeactivatedAt = d_deactivated r, td_CreatedAt = d_created r\<rparr>"

definition translate :: "repo_error \<Rightarrow> tenant_error" where
  "translate e =
     (if e = ErrNoRows then TErrNotFound
      else if e = PgError ''23505'' then TErrConflict
      else TErrRepo e)"

section \<open>Statements\<close>

definition sql_GetTenant :: "uuid \<Rightarrow> tenant_db \<Rightarrow> repo_error + tenant_row" where
  "sql_GetTenant t d = (case find (\<lambda>r. t_id r = t) (tenants d) of None \<Rightarrow> Inl ErrNoRows | Some r \<Rightarrow> Inr r)"

definition sql_CreateTenant :: "uuid \<Rightarrow> time \<Rightarrow> string \<Rightarrow> tenant_db \<Rightarrow> repo_error + (tenant_row \<times> tenant_db)" where
  "sql_CreateTenant i now name d =
     (let r = \<lparr>t_id = i, t_name = name, t_status = ''active'', t_created = now\<rparr>
      in if i \<in> t_id ` set (tenants d) then Inl (PgError ''23505'')
         else Inr (r, d\<lparr>tenants := tenants d @ [r]\<rparr>))"

text \<open>\<open>ctx\<close> is the tenant of \<^verbatim>\<open>app.tenant_id\<close>, which the row policies compare.\<close>

definition sql_GetTenantSettings :: "uuid \<Rightarrow> uuid \<Rightarrow> tenant_db \<Rightarrow> repo_error + settings_row" where
  "sql_GetTenantSettings ctx t d =
     (case find (\<lambda>r. s_tenant r = ctx \<and> s_tenant r = t) (tenant_settings d) of None \<Rightarrow> Inl ErrNoRows | Some r \<Rightarrow> Inr r)"

definition sql_InitializeTenantSettings :: "uuid \<Rightarrow> settings_row \<Rightarrow> tenant_db \<Rightarrow> repo_error + (settings_row \<times> tenant_db)" where
  "sql_InitializeTenantSettings ctx r d =
     (if s_tenant r \<noteq> ctx then Inl (PgError ''42501'')
      else if \<not> settings_checks r then Inl (PgError ''23514'')
      else if s_tenant r \<in> s_tenant ` set (tenant_settings d) then Inl (PgError ''23505'')
      else if s_tenant r \<notin> t_id ` set (tenants d) then Inl (PgError ''23503'')
      else Inr (r, d\<lparr>tenant_settings := tenant_settings d @ [r]\<rparr>))"

definition sql_UpdateTenantSettings :: "uuid \<Rightarrow> settings_row \<Rightarrow> tenant_db \<Rightarrow> repo_error + (settings_row \<times> tenant_db)" where
  "sql_UpdateTenantSettings ctx r d =
     (case find (\<lambda>x. s_tenant x = ctx \<and> s_tenant x = s_tenant r) (tenant_settings d) of
        None \<Rightarrow> Inl ErrNoRows
      | Some x \<Rightarrow>
          if \<not> settings_checks r then Inl (PgError ''23514'')
          else Inr (r, d\<lparr>tenant_settings := map (\<lambda>x. if s_tenant x = s_tenant r then r else x) (tenant_settings d)\<rparr>))"

definition sql_CreateTenantDomain ::
  "uuid \<Rightarrow> uuid \<Rightarrow> time \<Rightarrow> uuid \<Rightarrow> string \<Rightarrow> string \<Rightarrow> string \<Rightarrow> tenant_db \<Rightarrow> repo_error + (domain_row \<times> tenant_db)" where
  "sql_CreateTenantDomain ctx i now t hostname domainType tokenHash d =
     (let r = \<lparr>d_id = i, d_tenant = t, d_hostname = hostname, d_type = domainType, d_verified = False,
               d_active = False, d_state = ''pending'', d_token_hash = Some tokenHash, d_requested = Some now,
               d_attempted = None, d_verified_at = None, d_activated = None, d_deactivated = None, d_created = now\<rparr>
      in if \<not> tenant_active d t then Inl ErrNoRows
         else if t \<noteq> ctx then Inl (PgError ''42501'')
         else if domainType \<noteq> ''booking'' \<and> domainType \<noteq> ''admin'' then Inl (PgError ''23514'')
         else if i \<in> d_id ` set (tenant_domains d) \<or> hostname \<in> d_hostname ` set (tenant_domains d)
         then Inl (PgError ''23505'')
         else Inr (r, d\<lparr>tenant_domains := tenant_domains d @ [r]\<rparr>))"

definition sql_GetTenantDomain :: "uuid \<Rightarrow> uuid \<Rightarrow> uuid \<Rightarrow> tenant_db \<Rightarrow> repo_error + domain_row" where
  "sql_GetTenantDomain ctx t i d =
     (case find (\<lambda>r. d_tenant r = ctx \<and> d_tenant r = t \<and> d_id r = i) (tenant_domains d) of
        None \<Rightarrow> Inl ErrNoRows | Some r \<Rightarrow> Inr r)"

definition sql_ListTenantDomains :: "uuid \<Rightarrow> uuid \<Rightarrow> tenant_db \<Rightarrow> domain_row list" where
  "sql_ListTenantDomains ctx t d = sort_key d_created (sort_key d_id
     (filter (\<lambda>r. d_tenant r = ctx \<and> d_tenant r = t) (tenant_domains d)))"

text \<open>\<^verbatim>\<open>UPDATE ... WHERE tenant_id = $1 AND id = $2 AND <cond> RETURNING ...\<close>\<close>

definition sql_update_domain ::
  "uuid \<Rightarrow> uuid \<Rightarrow> uuid \<Rightarrow> (domain_row \<Rightarrow> bool) \<Rightarrow> (domain_row \<Rightarrow> domain_row) \<Rightarrow> tenant_db \<Rightarrow>
     repo_error + (domain_row \<times> tenant_db)" where
  "sql_update_domain ctx t i cond g d =
     (case find (\<lambda>r. d_tenant r = ctx \<and> d_tenant r = t \<and> d_id r = i \<and> cond r) (tenant_domains d) of
        None \<Rightarrow> Inl ErrNoRows
      | Some r \<Rightarrow> Inr (g r, d\<lparr>tenant_domains := map (\<lambda>x. if d_id x = d_id r then g x else x) (tenant_domains d)\<rparr>))"

definition coalesce :: "'a option \<Rightarrow> 'a \<Rightarrow> 'a option" where
  "coalesce a b = (case a of None \<Rightarrow> Some b | Some v \<Rightarrow> Some v)"

definition sql_MarkDomainVerificationSucceeded ::
  "time \<Rightarrow> uuid \<Rightarrow> uuid \<Rightarrow> uuid \<Rightarrow> tenant_db \<Rightarrow> repo_error + (domain_row \<times> tenant_db)" where
  "sql_MarkDomainVerificationSucceeded now ctx t i = sql_update_domain ctx t i (\<lambda>_. True)
     (\<lambda>r. r\<lparr>d_verified := True, d_state := ''verified'', d_token_hash := None,
            d_verified_at := coalesce (d_verified_at r) now, d_attempted := Some now\<rparr>)"

definition sql_MarkDomainVerificationFailed ::
  "time \<Rightarrow> uuid \<Rightarrow> uuid \<Rightarrow> uuid \<Rightarrow> tenant_db \<Rightarrow> repo_error + (domain_row \<times> tenant_db)" where
  "sql_MarkDomainVerificationFailed now ctx t i = sql_update_domain ctx t i (\<lambda>r. \<not> d_verified r)
     (\<lambda>r. r\<lparr>d_state := ''failed'', d_attempted := Some now\<rparr>)"

definition sql_ActivateTenantDomain ::
  "time \<Rightarrow> uuid \<Rightarrow> uuid \<Rightarrow> uuid \<Rightarrow> tenant_db \<Rightarrow> repo_error + (domain_row \<times> tenant_db)" where
  "sql_ActivateTenantDomain now ctx t i d =
     sql_update_domain ctx t i (\<lambda>r. tenant_active d (d_tenant r) \<and> d_verified r)
       (\<lambda>r. r\<lparr>d_active := True, d_activated := coalesce (d_activated r) now, d_deactivated := None\<rparr>) d"

definition sql_DeactivateTenantDomain ::
  "time \<Rightarrow> uuid \<Rightarrow> uuid \<Rightarrow> uuid \<Rightarrow> tenant_db \<Rightarrow> repo_error + (domain_row \<times> tenant_db)" where
  "sql_DeactivateTenantDomain now ctx t i = sql_update_domain ctx t i (\<lambda>_. True)
     (\<lambda>r. r\<lparr>d_active := False, d_deactivated := Some now\<rparr>)"

text \<open>
  The function \<^verbatim>\<open>resolve_verified_domain\<close>, which runs as the owner of the tables. \<^verbatim>\<open>lower\<close> is that of
  ASCII names, the only ones the service passes.
\<close>

definition resolve_verified_domain :: "string \<Rightarrow> tenant_db \<Rightarrow> domain_resolution option" where
  "resolve_verified_domain h d =
     map_option (\<lambda>r. \<lparr>dr_TenantID = d_tenant r, dr_AppType = d_type r\<rparr>)
       (find (\<lambda>r. d_hostname r = ToLower h \<and> d_verified r \<and> d_active r \<and> tenant_active d (d_tenant r)) (tenant_domains d))"

section \<open>The cache\<close>

text \<open>
  Values are JSON texts; both kinds carry a \<^verbatim>\<open>tenant_id\<close>, and decoding one as the other leaves the fields
  that are missing at their zero values.
\<close>

datatype cache_value = CachedResolution domain_resolution | CachedSettings settings

definition zero_settings :: settings where
  "zero_settings = \<lparr>st_TenantID = uuid_nil, st_BusinessTimezone = [], st_BookingIntervalMinutes = 0,
     st_ReminderOffsetsMinutes = None, st_CancellationPolicy = [], st_CancellationNoticeMinutes = 0,
     st_BookingHorizonDays = 0, st_MinimumBookingNoticeMinutes = 0\<rparr>"

fun decode_resolution :: "cache_value \<Rightarrow> domain_resolution" where
  "decode_resolution (CachedResolution r) = r"
| "decode_resolution (CachedSettings s) = \<lparr>dr_TenantID = st_TenantID s, dr_AppType = []\<rparr>"

fun decode_settings :: "cache_value \<Rightarrow> settings" where
  "decode_settings (CachedSettings s) = s"
| "decode_settings (CachedResolution r) = zero_settings\<lparr>st_TenantID := dr_TenantID r\<rparr>"

text \<open>An entry holds a value and the time it expires.\<close>

type_synonym tcache = "string \<Rightarrow> (cache_value \<times> time) option"

record tenant_sys =
  ty_db :: tenant_db
  ty_cache :: "tcache option"

text \<open>
  What the environment decides for one call: the clock, which Redis calls take effect, whether a query
  on the pool succeeds, where a transaction fails, the identifiers the database draws, the random
  token and the answers of the DNS.
\<close>

record tenant_io =
  io_now :: time
  io_get_ok :: bool
  io_set_ok :: bool
  io_del_ok :: "string \<Rightarrow> bool"
  io_pool_ok :: bool
  io_tx :: tx_fault
  io_id :: uuid
  io_audit_id :: uuid
  io_token :: "string option"
  io_LookupTXT :: "string \<Rightarrow> string list option"

definition cache_ttl :: duration where
  "cache_ttl = Minutes 5"

definition cache_get :: "tenant_io \<Rightarrow> string \<Rightarrow> tenant_sys \<Rightarrow> cache_value option" where
  "cache_get io k s =
     (case ty_cache s of None \<Rightarrow> None
      | Some m \<Rightarrow> if \<not> io_get_ok io then None
          else case m k of None \<Rightarrow> None | Some (v, expires) \<Rightarrow> if io_now io < expires then Some v else None)"

definition cache_set :: "tenant_io \<Rightarrow> string \<Rightarrow> cache_value \<Rightarrow> tenant_sys \<Rightarrow> tenant_sys" where
  "cache_set io k v s =
     (case ty_cache s of None \<Rightarrow> s
      | Some m \<Rightarrow> if io_set_ok io then s\<lparr>ty_cache := Some (m(k \<mapsto> (v, io_now io + cache_ttl)))\<rparr> else s)"

definition cache_del :: "tenant_io \<Rightarrow> string \<Rightarrow> tenant_sys \<Rightarrow> tenant_sys" where
  "cache_del io k s =
     (case ty_cache s of None \<Rightarrow> s
      | Some m \<Rightarrow> if io_del_ok io k then s\<lparr>ty_cache := Some (m(k := None))\<rparr> else s)"

definition domainCacheKey :: "string \<Rightarrow> string" where
  "domainCacheKey hostname = ''tenant-domain:'' @ hostname"

definition settingsCacheKey :: "externals \<Rightarrow> uuid \<Rightarrow> string" where
  "settingsCacheKey X t = ''tenant-settings:'' @ uuid_String X t"

definition invalidateDomain :: "tenant_io \<Rightarrow> string \<Rightarrow> tenant_sys \<Rightarrow> tenant_sys" where
  "invalidateDomain io hostname = cache_del io (domainCacheKey hostname)"

definition cacheSettings :: "externals \<Rightarrow> tenant_io \<Rightarrow> settings \<Rightarrow> tenant_sys \<Rightarrow> tenant_sys" where
  "cacheSettings X io st s =
     (if st_TenantID st = uuid_nil then s
      else cache_set io (settingsCacheKey X (st_TenantID st)) (CachedSettings st) s)"

section \<open>Repository operations\<close>

text \<open>A query on the pool, and a tenant transaction over the database of the system.\<close>

definition pool_query :: "tenant_io \<Rightarrow> repo_error + 'a \<Rightarrow> tenant_error + 'a" where
  "pool_query io q =
     (if \<not> io_pool_ok io then Inl (TErrRepo (TxFault StatementFails))
      else case q of Inl e \<Rightarrow> Inl (translate e) | Inr v \<Rightarrow> Inr v)"

definition tenant_tx ::
  "tenant_io \<Rightarrow> uuid \<Rightarrow> (uuid \<Rightarrow> tenant_db \<Rightarrow> repo_error + ('a \<times> tenant_db)) \<Rightarrow> tenant_sys \<Rightarrow> (tenant_error + 'a) \<times> tenant_sys" where
  "tenant_tx io t fn s =
     (case WithTenantTx (io_tx io) t fn (ty_db s) of
        (Inl e, d) \<Rightarrow> (Inl (translate e), s\<lparr>ty_db := d\<rparr>)
      | (Inr v, d) \<Rightarrow> (Inr v, s\<lparr>ty_db := d\<rparr>))"

definition resolve_query :: "tenant_io \<Rightarrow> string \<Rightarrow> tenant_sys \<Rightarrow> tenant_error + domain_resolution" where
  "resolve_query io hostname s =
     pool_query io (case resolve_verified_domain hostname (ty_db s) of None \<Rightarrow> Inl ErrNoRows | Some r \<Rightarrow> Inr r)"

definition resolve_store :: "tenant_io \<Rightarrow> string \<Rightarrow> domain_resolution \<Rightarrow> tenant_sys \<Rightarrow> tenant_sys" where
  "resolve_store io hostname r = cache_set io (domainCacheKey hostname) (CachedResolution r)"

definition ResolveDomain :: "tenant_io \<Rightarrow> string \<Rightarrow> tenant_sys \<Rightarrow> (tenant_error + domain_resolution) \<times> tenant_sys" where
  "ResolveDomain io hostname s =
     (case cache_get io (domainCacheKey hostname) s of
        Some v \<Rightarrow> (Inr (decode_resolution v), s)
      | None \<Rightarrow> (case resolve_query io hostname s of
          Inl e \<Rightarrow> (Inl e, s)
        | Inr r \<Rightarrow> (Inr r, resolve_store io hostname r s)))"

definition settings_query :: "tenant_io \<Rightarrow> uuid \<Rightarrow> tenant_sys \<Rightarrow> tenant_error + settings" where
  "settings_query io t s = fst (tenant_tx io t (\<lambda>ctx d. case sql_GetTenantSettings ctx t d of
       Inl e \<Rightarrow> Inl e | Inr r \<Rightarrow> Inr (settingsFrom r, d)) s)"

definition settings_cached :: "externals \<Rightarrow> tenant_io \<Rightarrow> uuid \<Rightarrow> tenant_sys \<Rightarrow> settings option" where
  "settings_cached X io t s =
     (case cache_get io (settingsCacheKey X t) s of None \<Rightarrow> None
      | Some v \<Rightarrow> if st_TenantID (decode_settings v) = t then Some (decode_settings v) else None)"

definition repo_Settings :: "externals \<Rightarrow> tenant_io \<Rightarrow> uuid \<Rightarrow> tenant_sys \<Rightarrow> (tenant_error + settings) \<times> tenant_sys" where
  "repo_Settings X io t s =
     (case settings_cached X io t s of
        Some st \<Rightarrow> (Inr st, s)
      | None \<Rightarrow> (case settings_query io t s of
          Inl e \<Rightarrow> (Inl e, s)
        | Inr st \<Rightarrow> (Inr st, cacheSettings X io st s)))"

definition repo_UpdateSettings ::
  "externals \<Rightarrow> tenant_io \<Rightarrow> uuid \<Rightarrow> settings \<Rightarrow> tenant_sys \<Rightarrow> (tenant_error + settings) \<times> tenant_sys" where
  "repo_UpdateSettings X io t st s =
     (case tenant_tx io t (\<lambda>ctx d. case sql_UpdateTenantSettings ctx (settings_params t st) d of
         Inl e \<Rightarrow> Inl e | Inr (r, d') \<Rightarrow> Inr (settingsFrom r, d')) s of
        (Inl e, s') \<Rightarrow> (Inl e, s')
      | (Inr result, s') \<Rightarrow> (Inr result, cacheSettings X io result s'))"

text \<open>
  \<open>CreateTenant\<close> opens its own transaction, and binds it to the new tenant once the row exists.
\<close>

definition repo_CreateTenant ::
  "externals \<Rightarrow> tenant_io \<Rightarrow> string \<Rightarrow> settings \<Rightarrow> tenant_sys \<Rightarrow> (tenant_error + tenant) \<times> tenant_sys" where
  "repo_CreateTenant X io name st s =
     (if io_tx io \<noteq> NoFault \<and> io_tx io \<noteq> CommitFails then (Inl (TErrRepo (TxFault (io_tx io))), s)
      else case sql_CreateTenant (io_id io) (io_now io) name (ty_db s) of
        Inl e \<Rightarrow> (Inl (translate e), s)
      | Inr (created, d1) \<Rightarrow>
          (case sql_InitializeTenantSettings (t_id created) (settings_params (t_id created) st) d1 of
             Inl e \<Rightarrow> (Inl (translate e), s)
           | Inr (row, d2) \<Rightarrow>
               if io_tx io = CommitFails then (Inl (TErrRepo (TxFault CommitFails)), s)
               else (Inr \<lparr>tn_ID = t_id created, tn_Name = t_name created, tn_Status = t_status created,
                          tn_CreatedAt = t_created created, tn_Settings = settingsFrom row\<rparr>,
                     cacheSettings X io (settingsFrom row) (s\<lparr>ty_db := d2\<rparr>))))"

definition tenant_of :: "tenant_row \<Rightarrow> settings \<Rightarrow> tenant" where
  "tenant_of r st = \<lparr>tn_ID = t_id r, tn_Name = t_name r, tn_Status = t_status r, tn_CreatedAt = t_created r, tn_Settings = st\<rparr>"

definition repo_Tenant :: "externals \<Rightarrow> tenant_io \<Rightarrow> uuid \<Rightarrow> tenant_sys \<Rightarrow> (tenant_error + tenant) \<times> tenant_sys" where
  "repo_Tenant X io t s =
     (case pool_query io (sql_GetTenant t (ty_db s)) of
        Inl e \<Rightarrow> (Inl e, s)
      | Inr r \<Rightarrow> (case repo_Settings X io t s of
          (Inl e, s') \<Rightarrow> (Inl e, s')
        | (Inr st, s') \<Rightarrow> (Inr (tenant_of r st), s')))"

definition repo_Tenants :: "tenant_io \<Rightarrow> tenant_sys \<Rightarrow> tenant_error + tenant list" where
  "repo_Tenants io s = pool_query io (Inr (map (\<lambda>r. tenant_of r zero_settings)
     (sort_key (\<lambda>r. - t_created r) (sort_key t_id (tenants (ty_db s))))))"

definition status_audit :: "tenant_io \<Rightarrow> uuid \<Rightarrow> string \<Rightarrow> string \<Rightarrow> string \<Rightarrow> platform_audit" where
  "status_audit io t status actor requestID =
     \<lparr>pa_ID = io_audit_id io, pa_Actor = actor, pa_Action = ''tenant.'' @ status, pa_TenantID = Some t,
      pa_RequestID = requestID, pa_Metadata = [(''status'', status)], pa_CreatedAt = io_now io\<rparr>"

text \<open>The transaction of \<open>SetTenantStatus\<close>: the update, the hostnames, the audit record.\<close>

definition set_status_tx ::
  "tenant_io \<Rightarrow> uuid \<Rightarrow> string \<Rightarrow> string \<Rightarrow> string \<Rightarrow> tenant_db \<Rightarrow> repo_error + ((tenant_row \<times> string list) \<times> tenant_db)" where
  "set_status_tx io t status actor requestID d =
     (case find (\<lambda>r. t_id r = t) (tenants d) of
        None \<Rightarrow> Inl ErrNoRows
      | Some r \<Rightarrow>
          if status \<noteq> ''active'' \<and> status \<noteq> ''suspended'' then Inl (PgError ''23514'')
          else if io_audit_id io \<in> pa_ID ` set (platform_audit_log d) then Inl (PgError ''23505'')
          else Inr ((r\<lparr>t_status := status\<rparr>, map d_hostname (filter (\<lambda>x. d_tenant x = t) (tenant_domains d))),
                    d\<lparr>tenants := map (\<lambda>x. if t_id x = t then x\<lparr>t_status := status\<rparr> else x) (tenants d),
                      platform_audit_log := platform_audit_log d @ [status_audit io t status actor requestID]\<rparr>))"

definition repo_SetTenantStatus ::
  "tenant_io \<Rightarrow> uuid \<Rightarrow> string \<Rightarrow> string \<Rightarrow> string \<Rightarrow> tenant_sys \<Rightarrow> (tenant_error + tenant) \<times> tenant_sys" where
  "repo_SetTenantStatus io t status actor requestID s =
     (case WithTenantTx (io_tx io) t (\<lambda>_. set_status_tx io t status actor requestID) (ty_db s) of
        (Inl ErrNoRows, d) \<Rightarrow> (Inl TErrNotFound, s)
      | (Inl e, d) \<Rightarrow> (Inl (TErrRepo e), s)
      | (Inr (r, hostnames), d) \<Rightarrow>
          (Inr (tenant_of r zero_settings), fold (invalidateDomain io) hostnames (s\<lparr>ty_db := d\<rparr>)))"

definition repo_PlatformAudit :: "tenant_io \<Rightarrow> uuid option \<Rightarrow> tenant_sys \<Rightarrow> tenant_error + platform_audit list" where
  "repo_PlatformAudit io t s = pool_query io (Inr (take 200 (sort_key (\<lambda>a. - pa_CreatedAt a)
     (filter (\<lambda>a. case t of None \<Rightarrow> True | Some i \<Rightarrow> pa_TenantID a = Some i) (platform_audit_log (ty_db s))))))"

definition activeTenant :: "tenant_io \<Rightarrow> uuid \<Rightarrow> tenant_sys \<Rightarrow> tenant_error + tenant_row" where
  "activeTenant io t s =
     (case pool_query io (sql_GetTenant t (ty_db s)) of
        Inl e \<Rightarrow> Inl e
      | Inr r \<Rightarrow> if t_status r \<noteq> ''active'' then Inl TErrTenantInactive else Inr r)"

definition repo_CreateDomain ::
  "tenant_io \<Rightarrow> uuid \<Rightarrow> string \<Rightarrow> string \<Rightarrow> string \<Rightarrow> tenant_sys \<Rightarrow> (tenant_error + tenant_domain) \<times> tenant_sys" where
  "repo_CreateDomain io t hostname domainType tokenHash s =
     (case activeTenant io t s of
        Inl e \<Rightarrow> (Inl e, s)
      | Inr _ \<Rightarrow> tenant_tx io t (\<lambda>ctx d.
          case sql_CreateTenantDomain ctx (io_id io) (io_now io) t hostname domainType tokenHash d of
            Inl e \<Rightarrow> Inl e | Inr (r, d') \<Rightarrow> Inr (newDomain r, d')) s)"

definition repo_Domains :: "tenant_io \<Rightarrow> uuid \<Rightarrow> tenant_sys \<Rightarrow> tenant_error + tenant_domain list" where
  "repo_Domains io t s =
     (case pool_query io (sql_GetTenant t (ty_db s)) of
        Inl e \<Rightarrow> Inl e
      | Inr _ \<Rightarrow> fst (tenant_tx io t (\<lambda>ctx d. Inr (map newDomain (sql_ListTenantDomains ctx t d), d)) s))"

definition repo_Domain :: "tenant_io \<Rightarrow> uuid \<Rightarrow> uuid \<Rightarrow> tenant_sys \<Rightarrow> tenant_error + tenant_domain" where
  "repo_Domain io t i s = fst (tenant_tx io t (\<lambda>ctx d. case sql_GetTenantDomain ctx t i d of
       Inl e \<Rightarrow> Inl e | Inr r \<Rightarrow> Inr (newDomain r, d)) s)"

record verification_domain =
  vd_Domain :: tenant_domain
  vd_TokenHash :: string

definition DomainForVerification ::
  "tenant_io \<Rightarrow> uuid \<Rightarrow> uuid \<Rightarrow> tenant_sys \<Rightarrow> tenant_error + verification_domain" where
  "DomainForVerification io t i s = fst (tenant_tx io t (\<lambda>ctx d. case sql_GetTenantDomain ctx t i d of
       Inl e \<Rightarrow> Inl e
     | Inr r \<Rightarrow> Inr (\<lparr>vd_Domain = newDomain r, vd_TokenHash = (case d_token_hash r of None \<Rightarrow> [] | Some h \<Rightarrow> h)\<rparr>, d)) s)"

text \<open>The four updates of a domain: the transaction, then the invalidation of its hostname.\<close>

definition domain_update ::
  "tenant_io \<Rightarrow> uuid \<Rightarrow> (uuid \<Rightarrow> tenant_db \<Rightarrow> repo_error + (domain_row \<times> tenant_db)) \<Rightarrow> tenant_sys \<Rightarrow>
     (tenant_error + tenant_domain) \<times> tenant_sys" where
  "domain_update io t stmt s =
     (case tenant_tx io t stmt s of
        (Inl e, s') \<Rightarrow> (Inl e, s')
      | (Inr r, s') \<Rightarrow> (Inr (newDomain r), invalidateDomain io (td_Hostname (newDomain r)) s'))"

definition MarkVerificationSucceeded ::
  "tenant_io \<Rightarrow> uuid \<Rightarrow> uuid \<Rightarrow> tenant_sys \<Rightarrow> (tenant_error + tenant_domain) \<times> tenant_sys" where
  "MarkVerificationSucceeded io t i = domain_update io t (\<lambda>ctx. sql_MarkDomainVerificationSucceeded (io_now io) ctx t i)"

definition MarkVerificationFailed ::
  "tenant_io \<Rightarrow> uuid \<Rightarrow> uuid \<Rightarrow> tenant_sys \<Rightarrow> (tenant_error + tenant_domain) \<times> tenant_sys" where
  "MarkVerificationFailed io t i = domain_update io t (\<lambda>ctx. sql_MarkDomainVerificationFailed (io_now io) ctx t i)"

definition repo_ActivateDomain ::
  "tenant_io \<Rightarrow> uuid \<Rightarrow> uuid \<Rightarrow> tenant_sys \<Rightarrow> (tenant_error + tenant_domain) \<times> tenant_sys" where
  "repo_ActivateDomain io t i = domain_update io t (\<lambda>ctx. sql_ActivateTenantDomain (io_now io) ctx t i)"

definition repo_DeactivateDomain ::
  "tenant_io \<Rightarrow> uuid \<Rightarrow> uuid \<Rightarrow> tenant_sys \<Rightarrow> (tenant_error + tenant_domain) \<times> tenant_sys" where
  "repo_DeactivateDomain io t i = domain_update io t (\<lambda>ctx. sql_DeactivateTenantDomain (io_now io) ctx t i)"

end
