(* ===== verification/Tenant_Service.thy ===== *)
theory Tenant_Service
  imports Tenant_Store
begin

text \<open>
  tenant-service above its store: the operations of \<^verbatim>\<open>internal/service/service.go\<close> and the routes of
  \<^verbatim>\<open>internal/handler/http.go\<close>.

  Operations that read and then write (\<open>VerifyDomain\<close>, \<open>UpdateSettings\<close>) are composed of the part before
  and the part after the point where other requests may run; \<open>E\<close> holds the pure parameters, \<open>X\<close> the text form
  of identifiers.
\<close>

section \<open>internal/service\<close>

definition svc_Resolve ::
  "tenant_ext \<Rightarrow> tenant_io \<Rightarrow> string \<Rightarrow> tenant_sys \<Rightarrow> (tenant_error + domain_resolution) \<times> tenant_sys" where
  "svc_Resolve E io hostname s =
     (case NormalizeHostname E hostname of
        Inl _ \<Rightarrow> (Inl TErrInvalidInput, s)
      | Inr h \<Rightarrow> ResolveDomain io h s)"

definition TLSAuthorized ::
  "tenant_ext \<Rightarrow> tenant_io \<Rightarrow> string \<Rightarrow> tenant_sys \<Rightarrow> (tenant_error + bool) \<times> tenant_sys" where
  "TLSAuthorized E io hostname s =
     (case NormalizeHostname E hostname of
        Inl _ \<Rightarrow> (Inr False, s)
      | Inr h \<Rightarrow> (case ResolveDomain io h s of
          (Inl e, s') \<Rightarrow> if e = TErrNotFound then (Inr False, s') else (Inl e, s')
        | (Inr _, s') \<Rightarrow> (Inr True, s')))"

definition svc_Settings ::
  "externals \<Rightarrow> tenant_io \<Rightarrow> string \<Rightarrow> tenant_sys \<Rightarrow> (tenant_error + settings) \<times> tenant_sys" where
  "svc_Settings X io tenantID s =
     (case uuid_Parse X tenantID of
        None \<Rightarrow> (Inl TErrParse, s)
      | Some t \<Rightarrow> repo_Settings X io t s)"

definition svc_UpdateSettings ::
  "tenant_ext \<Rightarrow> externals \<Rightarrow> tenant_io \<Rightarrow> tenant_io \<Rightarrow> string \<Rightarrow> update_settings_input \<Rightarrow> tenant_sys \<Rightarrow>
     (tenant_error + settings) \<times> tenant_sys" where
  "svc_UpdateSettings E X io1 io2 tenantID inp s =
     (case uuid_Parse X tenantID of
        None \<Rightarrow> (Inl TErrInvalidInput, s)
      | Some t \<Rightarrow> (case repo_Settings X io1 t s of
          (Inl e, s') \<Rightarrow> (Inl e, s')
        | (Inr current, s') \<Rightarrow> (case mergeSettings E current inp of
            Inl e \<Rightarrow> (Inl e, s')
          | Inr updated \<Rightarrow> repo_UpdateSettings X io2 t updated s')))"

definition svc_CreateTenant ::
  "tenant_ext \<Rightarrow> externals \<Rightarrow> tenant_io \<Rightarrow> create_tenant_input \<Rightarrow> tenant_sys \<Rightarrow> (tenant_error + tenant) \<times> tenant_sys" where
  "svc_CreateTenant E X io inp s =
     (let name = TrimSpace (ct_Name inp)
      in if name = [] \<or> RuneCountInString name > 160 then (Inl TErrInvalidInput, s)
         else case normalizeSettings E (ct_Settings inp) of
           Inl e \<Rightarrow> (Inl e, s)
         | Inr st \<Rightarrow> repo_CreateTenant X io name st s)"

definition svc_Tenant ::
  "externals \<Rightarrow> tenant_io \<Rightarrow> string \<Rightarrow> tenant_sys \<Rightarrow> (tenant_error + tenant) \<times> tenant_sys" where
  "svc_Tenant X io tenantID s =
     (case uuid_Parse X tenantID of
        None \<Rightarrow> (Inl TErrInvalidInput, s)
      | Some t \<Rightarrow> repo_Tenant X io t s)"

definition svc_SetTenantStatus ::
  "externals \<Rightarrow> tenant_io \<Rightarrow> string \<Rightarrow> string \<Rightarrow> string \<Rightarrow> string \<Rightarrow> tenant_sys \<Rightarrow> (tenant_error + tenant) \<times> tenant_sys" where
  "svc_SetTenantStatus X io tenantID status actor requestID s =
     (case uuid_Parse X tenantID of
        None \<Rightarrow> (Inl TErrInvalidInput, s)
      | Some t \<Rightarrow>
          if status \<noteq> ''active'' \<and> status \<noteq> ''suspended'' \<or> TrimSpace actor = [] \<or> TrimSpace requestID = []
          then (Inl TErrInvalidInput, s)
          else repo_SetTenantStatus io t status (TrimSpace actor) (TrimSpace requestID) s)"

definition svc_PlatformAudit ::
  "externals \<Rightarrow> tenant_io \<Rightarrow> string \<Rightarrow> tenant_sys \<Rightarrow> tenant_error + platform_audit list" where
  "svc_PlatformAudit X io tenantID s =
     (if tenantID = [] then repo_PlatformAudit io None s
      else case uuid_Parse X tenantID of
        None \<Rightarrow> Inl TErrInvalidInput
      | Some t \<Rightarrow> repo_PlatformAudit io (Some t) s)"

text \<open>
  The domain operations return a domain beside the error, which some responses carry.
\<close>

type_synonym domain_result = "(tenant_error \<times> tenant_domain) + tenant_domain"

definition zero_domain :: tenant_domain where
  "zero_domain = \<lparr>td_ID = uuid_nil, td_TenantID = uuid_nil, td_Hostname = [], td_DomainType = [], td_Verified = False,
     td_Active = False, td_VerificationState = [], td_VerificationRecord = [], td_VerificationToken = [],
     td_VerificationValue = [], td_RequestedAt = None, td_LastAttemptAt = None, td_VerifiedAt = None,
     td_ActivatedAt = None, td_DeactivatedAt = None, td_CreatedAt = time_zero\<rparr>"

fun with_zero :: "(tenant_error + tenant_domain) \<times> tenant_sys \<Rightarrow> domain_result \<times> tenant_sys" where
  "with_zero (Inl e, s) = (Inl (e, zero_domain), s)"
| "with_zero (Inr v, s) = (Inr v, s)"

definition svc_CreateDomain ::
  "tenant_ext \<Rightarrow> externals \<Rightarrow> tenant_io \<Rightarrow> string \<Rightarrow> create_domain_input \<Rightarrow> tenant_sys \<Rightarrow> domain_result \<times> tenant_sys" where
  "svc_CreateDomain E X io tenantID inp s =
     (case uuid_Parse X tenantID of
        None \<Rightarrow> (Inl (TErrInvalidInput, zero_domain), s)
      | Some t \<Rightarrow> (case NormalizeHostname E (cd_Hostname inp) of
          Inl _ \<Rightarrow> (Inl (TErrInvalidInput, zero_domain), s)
        | Inr h \<Rightarrow>
            if \<not> validDomainType (cd_DomainType inp) then (Inl (TErrInvalidInput, zero_domain), s)
            else case io_token io of
              None \<Rightarrow> (Inl (TErrToken, zero_domain), s)
            | Some token \<Rightarrow>
                (case repo_CreateDomain io t h (cd_DomainType inp) (te_sha256 E (verificationValue token)) s of
                   (Inl e, s') \<Rightarrow> (Inl (e, zero_domain), s')
                 | (Inr created, s') \<Rightarrow>
                     (Inr (created\<lparr>td_VerificationToken := token, td_VerificationValue := verificationValue token\<rparr>), s'))))"

definition svc_Domains :: "externals \<Rightarrow> tenant_io \<Rightarrow> string \<Rightarrow> tenant_sys \<Rightarrow> tenant_error + tenant_domain list" where
  "svc_Domains X io tenantID s =
     (case uuid_Parse X tenantID of
        None \<Rightarrow> Inl TErrInvalidInput
      | Some t \<Rightarrow> repo_Domains io t s)"

text \<open>\<open>VerifyDomain\<close> once the candidate is loaded, unverified and has a token.\<close>

definition verify_complete ::
  "tenant_ext \<Rightarrow> tenant_io \<Rightarrow> uuid \<Rightarrow> uuid \<Rightarrow> verification_domain \<Rightarrow> tenant_sys \<Rightarrow> domain_result \<times> tenant_sys" where
  "verify_complete E io t i candidate s =
     (let answers = (case io_LookupTXT io (td_VerificationRecord (vd_Domain candidate)) of None \<Rightarrow> [] | Some as \<Rightarrow> as)
      in if list_ex (\<lambda>answer. te_sha256 E answer = vd_TokenHash candidate) answers
         then with_zero (MarkVerificationSucceeded io t i s)
         else case MarkVerificationFailed io t i s of
           (Inr failed, s') \<Rightarrow> (Inl (TErrVerificationFailed, failed), s')
         | (Inl e, s') \<Rightarrow>
             if e = TErrNotFound
             then (case repo_Domain io t i s' of
                     Inr current \<Rightarrow> if td_Verified current then (Inr current, s') else (Inl (e, zero_domain), s')
                   | Inl _ \<Rightarrow> (Inl (e, zero_domain), s'))
             else (Inl (e, zero_domain), s'))"

definition VerifyDomain ::
  "tenant_ext \<Rightarrow> externals \<Rightarrow> tenant_io \<Rightarrow> tenant_io \<Rightarrow> string \<Rightarrow> string \<Rightarrow> tenant_sys \<Rightarrow> domain_result \<times> tenant_sys" where
  "VerifyDomain E X io1 io2 tenantID domainID s =
     (case parseIDs X tenantID domainID of
        None \<Rightarrow> (Inl (TErrInvalidInput, zero_domain), s)
      | Some (t, i) \<Rightarrow> (case DomainForVerification io1 t i s of
          Inl e \<Rightarrow> (Inl (e, zero_domain), s)
        | Inr candidate \<Rightarrow>
            if td_Verified (vd_Domain candidate) then (Inr (vd_Domain candidate), s)
            else if vd_TokenHash candidate = [] then (Inl (TErrVerificationUnavailable, vd_Domain candidate), s)
            else verify_complete E io2 t i candidate s))"

definition svc_ActivateDomain ::
  "externals \<Rightarrow> tenant_io \<Rightarrow> tenant_io \<Rightarrow> string \<Rightarrow> string \<Rightarrow> tenant_sys \<Rightarrow> domain_result \<times> tenant_sys" where
  "svc_ActivateDomain X io1 io2 tenantID domainID s =
     (case parseIDs X tenantID domainID of
        None \<Rightarrow> (Inl (TErrInvalidInput, zero_domain), s)
      | Some (t, i) \<Rightarrow> (case repo_Domain io1 t i s of
          Inl e \<Rightarrow> (Inl (e, zero_domain), s)
        | Inr current \<Rightarrow>
            if \<not> td_Verified current then (Inl (TErrVerificationRequired, current), s)
            else with_zero (repo_ActivateDomain io2 t i s)))"

definition svc_DeactivateDomain ::
  "externals \<Rightarrow> tenant_io \<Rightarrow> string \<Rightarrow> string \<Rightarrow> tenant_sys \<Rightarrow> domain_result \<times> tenant_sys" where
  "svc_DeactivateDomain X io tenantID domainID s =
     (case parseIDs X tenantID domainID of
        None \<Rightarrow> (Inl (TErrInvalidInput, zero_domain), s)
      | Some (t, i) \<Rightarrow> with_zero (repo_DeactivateDomain io t i s))"

section \<open>internal/handler\<close>

record tenant_handler =
  th_E :: tenant_ext
  th_X :: externals
  th_verify :: "string \<Rightarrow> bool"
  th_admin :: auth_client
  th_decode_update :: "string \<Rightarrow> update_settings_input option"
  th_decode_tenant :: "string \<Rightarrow> create_tenant_input option"
  th_decode_domain :: "string \<Rightarrow> create_domain_input option"

definition th_internal :: "tenant_handler \<Rightarrow> fiber_ctx \<Rightarrow> bool" where
  "th_internal h c = th_verify h (c_Get c InternalHeaderName)"

text \<open>The response of an error, by the list of the errors a route tells apart; any other is a 500.\<close>

fun error_status :: "(tenant_error \<times> 'a response) list \<Rightarrow> tenant_error \<Rightarrow> 'a response" where
  "error_status [] e = SendStatus 500"
| "error_status ((x, r) # rest) e = (if e = x then r else error_status rest e)"

fun respond :: "int \<Rightarrow> (tenant_error \<times> 'a response) list \<Rightarrow> tenant_error + 'a \<Rightarrow> 'a response" where
  "respond code table (Inl e) = error_status table e"
| "respond code table (Inr v) = JSON code v"

definition h_tenants :: "tenant_handler \<Rightarrow> tenant_io \<Rightarrow> fiber_ctx \<Rightarrow> tenant_sys \<Rightarrow> tenant list response" where
  "h_tenants h io c s = (if \<not> th_internal h c then SendStatus 401 else respond 200 [] (repo_Tenants io s))"

definition PlatformActorHeader :: string where
  "PlatformActorHeader = ''X-Platform-Actor''"

definition h_setTenantStatus ::
  "tenant_handler \<Rightarrow> string \<Rightarrow> tenant_io \<Rightarrow> fiber_ctx \<Rightarrow> tenant_sys \<Rightarrow> tenant response \<times> tenant_sys" where
  "h_setTenantStatus h status io c s =
     (if \<not> th_internal h c then (SendStatus 401, s)
      else case svc_SetTenantStatus (th_X h) io (c_Params c ''id'') status (c_Get c PlatformActorHeader)
                  (c_Get c RequestIDHeader) s of
        (r, s') \<Rightarrow> (respond 200 [(TErrInvalidInput, SendStatus 400), (TErrNotFound, SendStatus 404)] r, s'))"

definition h_platformAudit ::
  "tenant_handler \<Rightarrow> tenant_io \<Rightarrow> fiber_ctx \<Rightarrow> tenant_sys \<Rightarrow> platform_audit list response" where
  "h_platformAudit h io c s =
     (if \<not> th_internal h c then SendStatus 401
      else respond 200 [(TErrInvalidInput, SendStatus 400)] (svc_PlatformAudit (th_X h) io (c_Query c ''tenant_id'') s))"

definition h_internalSettings ::
  "tenant_handler \<Rightarrow> tenant_io \<Rightarrow> fiber_ctx \<Rightarrow> tenant_sys \<Rightarrow> settings response \<times> tenant_sys" where
  "h_internalSettings h io c s =
     (if \<not> th_internal h c then (SendStatus 401, s)
      else case tenantctx_New (th_X h) (c_Get c TenantIDHeader) (c_Get c AppTypeHeader) (c_Get c RequestIDHeader) of
        Inl _ \<Rightarrow> (SendStatus 400, s)
      | Inr ctx \<Rightarrow> (case svc_Settings (th_X h) io (uuid_String (th_X h) (TenantID ctx)) s of
          (r, s') \<Rightarrow> (respond 200 [(TErrNotFound, SendStatus 404)] r, s')))"

definition th_adminContext :: "tenant_handler \<Rightarrow> fiber_ctx \<Rightarrow> bool \<Rightarrow> tenant_error + tenant_ctx" where
  "th_adminContext h c write =
     (case adminauth_Context (th_X h) (th_verify h) c of
        Inl _ \<Rightarrow> Inl TErrUntrusted
      | Inr ctx \<Rightarrow>
          if AppType ctx \<noteq> ''admin'' then Inl TErrUntrusted
          else case Authenticate (th_X h) (th_admin h) ctx (c_Get c ''Cookie'') of
            Inl _ \<Rightarrow> Inl TErrUntrusted
          | Inr p \<Rightarrow>
              if ap_TenantID p \<noteq> uuid_String (th_X h) (TenantID ctx) \<or> \<not> CanRead (ap_Role p)
              then Inl TErrUntrusted
              else if write \<and> \<not> CanManageTenantSettings (ap_Role p) then Inl TErrForbidden
              else Inr ctx)"

definition h_adminSettings ::
  "tenant_handler \<Rightarrow> tenant_io \<Rightarrow> fiber_ctx \<Rightarrow> tenant_sys \<Rightarrow> settings response \<times> tenant_sys" where
  "h_adminSettings h io c s =
     (case th_adminContext h c False of
        Inl _ \<Rightarrow> (SendStatus 401, s)
      | Inr ctx \<Rightarrow> (case svc_Settings (th_X h) io (uuid_String (th_X h) (TenantID ctx)) s of
          (r, s') \<Rightarrow> (respond 200 [(TErrNotFound, SendStatus 404)] r, s')))"

definition h_updateAdminSettings ::
  "tenant_handler \<Rightarrow> tenant_io \<Rightarrow> tenant_io \<Rightarrow> fiber_ctx \<Rightarrow> tenant_sys \<Rightarrow> settings response \<times> tenant_sys" where
  "h_updateAdminSettings h io1 io2 c s =
     (case th_adminContext h c True of
        Inl e \<Rightarrow> (SendStatus (if e = TErrForbidden then 403 else 401), s)
      | Inr ctx \<Rightarrow> (case th_decode_update h (c_Body c) of
          None \<Rightarrow> (JSONError 400 ''invalid settings payload'', s)
        | Some inp \<Rightarrow>
            (case svc_UpdateSettings (th_E h) (th_X h) io1 io2 (uuid_String (th_X h) (TenantID ctx)) inp s of
               (r, s') \<Rightarrow> (respond 200 [(TErrInvalidInput, JSONError 400 ''invalid settings''),
                                        (TErrNotFound, SendStatus 404)] r, s'))))"

definition h_tlsAuthorize ::
  "tenant_handler \<Rightarrow> tenant_io \<Rightarrow> fiber_ctx \<Rightarrow> tenant_sys \<Rightarrow> bool response \<times> tenant_sys" where
  "h_tlsAuthorize h io c s =
     (if \<not> th_internal h c then (SendStatus 401, s)
      else let caddyDomain = c_Query c ''domain'';
               hostname = (if c_Query c ''hostname'' = [] then caddyDomain else c_Query c ''hostname'')
           in if hostname = [] \<or> caddyDomain \<noteq> [] \<and> c_Query c ''hostname'' \<noteq> [] \<and> caddyDomain \<noteq> c_Query c ''hostname''
              then (JSON 403 False, s)
              else case TLSAuthorized (th_E h) io hostname s of
                (Inl _, s') \<Rightarrow> (SendStatus 503, s')
              | (Inr eligible, s') \<Rightarrow> (JSON (if eligible then 200 else 403) eligible, s'))"

definition h_resolve ::
  "tenant_handler \<Rightarrow> tenant_io \<Rightarrow> fiber_ctx \<Rightarrow> tenant_sys \<Rightarrow> domain_resolution response \<times> tenant_sys" where
  "h_resolve h io c s =
     (if \<not> th_internal h c then (SendStatus 401, s)
      else case svc_Resolve (th_E h) io (c_Query c ''hostname'') s of
        (r, s') \<Rightarrow> (respond 200 [(TErrNotFound, SendStatus 404), (TErrInvalidInput, JSONError 400 ''invalid hostname'')] r, s'))"

record public_config =
  pc_TenantID :: uuid
  pc_AppType :: string
  pc_BusinessName :: string
  pc_BusinessTimezone :: string
  pc_BookingIntervalMinutes :: int
  pc_Settings :: settings

definition h_publicConfig ::
  "tenant_handler \<Rightarrow> tenant_io \<Rightarrow> tenant_io \<Rightarrow> fiber_ctx \<Rightarrow> tenant_sys \<Rightarrow> public_config response \<times> tenant_sys" where
  "h_publicConfig h io1 io2 c s =
     (if \<not> th_internal h c then (SendStatus 401, s)
      else case tenantctx_New (th_X h) (c_Get c TenantIDHeader) (c_Get c AppTypeHeader) (c_Get c RequestIDHeader) of
        Inl _ \<Rightarrow> (SendStatus 400, s)
      | Inr ctx \<Rightarrow> (case svc_Settings (th_X h) io1 (uuid_String (th_X h) (TenantID ctx)) s of
          (Inl e, s1) \<Rightarrow> (error_status [(TErrNotFound, SendStatus 404)] e, s1)
        | (Inr st, s1) \<Rightarrow> (case svc_Tenant (th_X h) io2 (uuid_String (th_X h) (TenantID ctx)) s1 of
            (Inl e, s2) \<Rightarrow> (error_status [(TErrNotFound, SendStatus 404)] e, s2)
          | (Inr tn, s2) \<Rightarrow>
              (JSON 200 \<lparr>pc_TenantID = TenantID ctx, pc_AppType = AppType ctx, pc_BusinessName = tn_Name tn,
                 pc_BusinessTimezone = st_BusinessTimezone st,
                 pc_BookingIntervalMinutes = st_BookingIntervalMinutes st, pc_Settings = st\<rparr>, s2))))"

definition h_createTenant ::
  "tenant_handler \<Rightarrow> tenant_io \<Rightarrow> fiber_ctx \<Rightarrow> tenant_sys \<Rightarrow> tenant response \<times> tenant_sys" where
  "h_createTenant h io c s =
     (if \<not> th_internal h c then (SendStatus 401, s)
      else case th_decode_tenant h (c_Body c) of
        None \<Rightarrow> (SendStatus 400, s)
      | Some inp \<Rightarrow> (case svc_CreateTenant (th_E h) (th_X h) io inp s of
          (r, s') \<Rightarrow> (respond 201 [(TErrInvalidInput, SendStatus 400)] r, s')))"

definition h_tenant ::
  "tenant_handler \<Rightarrow> tenant_io \<Rightarrow> fiber_ctx \<Rightarrow> tenant_sys \<Rightarrow> tenant response \<times> tenant_sys" where
  "h_tenant h io c s =
     (if \<not> th_internal h c then (SendStatus 401, s)
      else case svc_Tenant (th_X h) io (c_Params c ''id'') s of
        (r, s') \<Rightarrow> (respond 200 [(TErrInvalidInput, SendStatus 400), (TErrNotFound, SendStatus 404)] r, s'))"

fun domainResponse :: "int \<Rightarrow> domain_result \<Rightarrow> tenant_domain response" where
  "domainResponse success (Inr v) = JSON success v"
| "domainResponse success (Inl (e, v)) =
     error_status [(TErrInvalidInput, SendStatus 400), (TErrNotFound, SendStatus 404), (TErrConflict, SendStatus 409),
       (TErrTenantInactive, JSON 409 v), (TErrVerificationRequired, JSON 409 v), (TErrVerificationUnavailable, JSON 409 v),
       (TErrVerificationFailed, JSON 422 v)] e"

definition h_createDomain ::
  "tenant_handler \<Rightarrow> tenant_io \<Rightarrow> fiber_ctx \<Rightarrow> tenant_sys \<Rightarrow> tenant_domain response \<times> tenant_sys" where
  "h_createDomain h io c s =
     (if \<not> th_internal h c then (SendStatus 401, s)
      else case th_decode_domain h (c_Body c) of
        None \<Rightarrow> (SendStatus 400, s)
      | Some inp \<Rightarrow> (case svc_CreateDomain (th_E h) (th_X h) io (c_Params c ''id'') inp s of
          (r, s') \<Rightarrow> (domainResponse 201 r, s')))"

definition h_domains ::
  "tenant_handler \<Rightarrow> tenant_io \<Rightarrow> fiber_ctx \<Rightarrow> tenant_sys \<Rightarrow> tenant_domain list response" where
  "h_domains h io c s =
     (if \<not> th_internal h c then SendStatus 401
      else respond 200 [(TErrInvalidInput, SendStatus 400), (TErrNotFound, SendStatus 404)]
             (svc_Domains (th_X h) io (c_Params c ''id'') s))"

definition h_verifyDomain ::
  "tenant_handler \<Rightarrow> tenant_io \<Rightarrow> tenant_io \<Rightarrow> fiber_ctx \<Rightarrow> tenant_sys \<Rightarrow> tenant_domain response \<times> tenant_sys" where
  "h_verifyDomain h io1 io2 c s =
     (if \<not> th_internal h c then (SendStatus 401, s)
      else case VerifyDomain (th_E h) (th_X h) io1 io2 (c_Params c ''id'') (c_Params c ''domain_id'') s of
        (r, s') \<Rightarrow> (domainResponse 200 r, s'))"

definition h_activateDomain ::
  "tenant_handler \<Rightarrow> tenant_io \<Rightarrow> tenant_io \<Rightarrow> fiber_ctx \<Rightarrow> tenant_sys \<Rightarrow> tenant_domain response \<times> tenant_sys" where
  "h_activateDomain h io1 io2 c s =
     (if \<not> th_internal h c then (SendStatus 401, s)
      else case svc_ActivateDomain (th_X h) io1 io2 (c_Params c ''id'') (c_Params c ''domain_id'') s of
        (r, s') \<Rightarrow> (domainResponse 200 r, s'))"

definition h_deactivateDomain ::
  "tenant_handler \<Rightarrow> tenant_io \<Rightarrow> fiber_ctx \<Rightarrow> tenant_sys \<Rightarrow> tenant_domain response \<times> tenant_sys" where
  "h_deactivateDomain h io c s =
     (if \<not> th_internal h c then (SendStatus 401, s)
      else case svc_DeactivateDomain (th_X h) io (c_Params c ''id'') (c_Params c ''domain_id'') s of
        (r, s') \<Rightarrow> (domainResponse 200 r, s'))"

end
