(* ===== verification/Tenant_Inv.thy ===== *)
theory Tenant_Inv
  imports Tenant_Service
begin

text \<open>
  The invariant of tenant-service's tables and cache, and that every operation keeps it. The requests
  interleave: \<open>tenant_event\<close> is a request served at once, or the first or the second half of a request
  that reads, then waits (for the DNS, or for its next round trip), and then writes.
\<close>

section \<open>The invariant\<close>

definition host_normal :: "tenant_ext \<Rightarrow> string \<Rightarrow> bool" where
  "host_normal E h \<longleftrightarrow> NormalizeHostname E h = Inr h"

definition domain_ok :: "tenant_ext \<Rightarrow> domain_row \<Rightarrow> bool" where
  "domain_ok E r \<longleftrightarrow> validDomainType (d_type r) \<and> host_normal E (d_hostname r) \<and>
     (d_verified r \<longleftrightarrow> d_state r = ''verified'') \<and> (d_verified r \<longleftrightarrow> d_token_hash r = None) \<and>
     (d_active r \<longrightarrow> d_verified r)"

definition tdb_inv :: "tenant_ext \<Rightarrow> tenant_db \<Rightarrow> bool" where
  "tdb_inv E d \<longleftrightarrow> distinct (map t_id (tenants d)) \<and> distinct (map s_tenant (tenant_settings d)) \<and>
     distinct (map d_id (tenant_domains d)) \<and> distinct (map d_hostname (tenant_domains d)) \<and>
     (\<forall>r \<in> set (tenant_settings d). s_tenant r \<in> t_id ` set (tenants d) \<and> settings_ok E (settingsFrom r)) \<and>
     (\<forall>r \<in> set (tenant_domains d). d_tenant r \<in> t_id ` set (tenants d) \<and> domain_ok E r)"

definition entry_ok :: "tenant_ext \<Rightarrow> externals \<Rightarrow> string \<Rightarrow> cache_value \<Rightarrow> bool" where
  "entry_ok E X k v \<longleftrightarrow> (case v of
     CachedResolution r \<Rightarrow> (\<exists>h. k = domainCacheKey h \<and> host_normal E h)
   | CachedSettings st \<Rightarrow> k = settingsCacheKey X (st_TenantID st) \<and> settings_ok E st)"

definition cache_at :: "tenant_sys \<Rightarrow> string \<Rightarrow> (cache_value \<times> time) option" where
  "cache_at s k = (case ty_cache s of None \<Rightarrow> None | Some m \<Rightarrow> m k)"

definition cache_ok :: "tenant_ext \<Rightarrow> externals \<Rightarrow> tenant_sys \<Rightarrow> bool" where
  "cache_ok E X s \<longleftrightarrow> (\<forall>k v e. cache_at s k = Some (v, e) \<longrightarrow> entry_ok E X k v)"

definition tenant_inv :: "tenant_ext \<Rightarrow> externals \<Rightarrow> tenant_sys \<Rightarrow> bool" where
  "tenant_inv E X s \<longleftrightarrow> tdb_inv E (ty_db s) \<and> cache_ok E X s"

section \<open>The cache\<close>

named_theorems cache_simps

lemma cache_db [cache_simps, simp]:
  "ty_db (cache_set io k v s) = ty_db s" "ty_db (cache_del io k s) = ty_db s"
  "ty_db (resolve_store io h r s) = ty_db s" "ty_db (cacheSettings X io st s) = ty_db s"
  "ty_db (invalidateDomain io h s) = ty_db s"
  by (auto simp: cache_set_def cache_del_def resolve_store_def cacheSettings_def invalidateDomain_def split: option.splits)

lemma cache_at_set:
  "cache_at (cache_set io k v s) k' =
     (if k' = k \<and> ty_cache s \<noteq> None \<and> io_set_ok io then Some (v, io_now io + cache_ttl) else cache_at s k')"
  by (auto simp: cache_set_def cache_at_def split: option.splits)

lemma cache_at_del:
  "cache_at (cache_del io k s) k' = (if k' = k \<and> io_del_ok io k then None else cache_at s k')"
  by (auto simp: cache_del_def cache_at_def split: option.splits)

lemma cache_at_db [simp]: "cache_at (s\<lparr>ty_db := d\<rparr>) k = cache_at s k"
  by (simp add: cache_at_def)

lemma cache_get_at: "cache_get io k s = Some v \<Longrightarrow> \<exists>e. cache_at s k = Some (v, e)"
  by (auto simp: cache_get_def cache_at_def split: option.splits if_splits prod.splits)

lemma keys_apart [simp]:
  "domainCacheKey h \<noteq> settingsCacheKey X t" "settingsCacheKey X t \<noteq> domainCacheKey h"
  "domainCacheKey h = domainCacheKey h' \<longleftrightarrow> h = h'"
  by (simp_all add: domainCacheKey_def settingsCacheKey_def)

lemma cache_ok_set: "cache_ok E X s \<Longrightarrow> entry_ok E X k v \<Longrightarrow> cache_ok E X (cache_set io k v s)"
  by (auto simp: cache_ok_def cache_at_set)

lemma cache_ok_del: "cache_ok E X s \<Longrightarrow> cache_ok E X (cache_del io k s)"
  by (auto simp: cache_ok_def cache_at_del split: if_splits)

lemma cache_ok_db [simp]: "cache_ok E X (s\<lparr>ty_db := d\<rparr>) = cache_ok E X s"
  by (simp add: cache_ok_def)

lemma cacheSettings_inv: "tenant_inv E X s \<Longrightarrow> settings_ok E st \<Longrightarrow> tenant_inv E X (cacheSettings X io st s)"
  by (simp add: tenant_inv_def cacheSettings_def cache_ok_set entry_ok_def)

lemma resolve_store_inv: "tenant_inv E X s \<Longrightarrow> host_normal E h \<Longrightarrow> tenant_inv E X (resolve_store io h r s)"
  by (auto simp: tenant_inv_def resolve_store_def entry_ok_def cache_simps intro: cache_ok_set)

lemma invalidateDomain_inv: "tenant_inv E X s \<Longrightarrow> tenant_inv E X (invalidateDomain io h s)"
  by (simp add: tenant_inv_def invalidateDomain_def cache_ok_del)

lemma invalidate_all_inv: "tenant_inv E X s \<Longrightarrow> tenant_inv E X (fold (invalidateDomain io) hs s)"
  by (induction hs arbitrary: s) (auto intro: invalidateDomain_inv)

lemma cached_settings_ok:
  assumes "tenant_inv E X s" and "settings_cached X io t s = Some st"
  shows "settings_ok E st \<and> st_TenantID st = t"
proof -
  from assms(2) obtain v where v: "cache_get io (settingsCacheKey X t) s = Some v" "st = decode_settings v" "st_TenantID st = t"
    by (auto simp: settings_cached_def split: option.splits if_splits)
  from cache_get_at [OF v(1)] assms(1) have "entry_ok E X (settingsCacheKey X t) v"
    by (auto simp: tenant_inv_def cache_ok_def)
  with v show ?thesis by (cases v) (auto simp: entry_ok_def)
qed

section \<open>Transactions\<close>

lemma tenant_tx_Inr:
  "tenant_tx io t fn s = (Inr v, s') \<longleftrightarrow> (\<exists>d. io_tx io = NoFault \<and> fn t (ty_db s) = Inr (v, d) \<and> s' = s\<lparr>ty_db := d\<rparr>)"
proof -
  have "tenant_tx io t fn s = (Inr v, s') \<longleftrightarrow> (\<exists>d. WithTenantTx (io_tx io) t fn (ty_db s) = (Inr v, d) \<and> s' = s\<lparr>ty_db := d\<rparr>)"
    by (auto simp: tenant_tx_def split: prod.splits sum.splits)
  then show ?thesis by (simp add: WithTenantTx_ok)
qed

lemma tenant_tx_Inl: "tenant_tx io t fn s = (Inl e, s') \<Longrightarrow> s' = s"
  by (auto simp: tenant_tx_def dest: WithTenantTx_atomic split: prod.splits sum.splits)

lemma tenant_tx_cases:
  obtains e where "tenant_tx io t fn s = (Inl e, s)"
  | v d where "io_tx io = NoFault" "fn t (ty_db s) = Inr (v, d)" "tenant_tx io t fn s = (Inr v, s\<lparr>ty_db := d\<rparr>)"
proof (cases "tenant_tx io t fn s")
  case (Pair r s')
  show thesis
  proof (cases r)
    case (Inl e)
    with Pair tenant_tx_Inl [of io t fn s e s'] that(1) show thesis by blast
  next
    case (Inr v)
    with Pair tenant_tx_Inr [of io t fn s v s'] that(2) show thesis by blast
  qed
qed

lemma settings_query_row:
  assumes "settings_query io t s = Inr st"
  obtains r where "r \<in> set (tenant_settings (ty_db s))" "s_tenant r = t" "st = settingsFrom r"
  using assms by (cases rule: tenant_tx_cases [of io t "\<lambda>ctx d. case sql_GetTenantSettings ctx t d of
       Inl e \<Rightarrow> Inl e | Inr r \<Rightarrow> Inr (settingsFrom r, d)" s])
    (auto simp: settings_query_def sql_GetTenantSettings_def split: option.splits dest!: find_SomeD)

lemma settings_query_ok:
  assumes "tenant_inv E X s" and "settings_query io t s = Inr st"
  shows "settings_ok E st \<and> st_TenantID st = t"
  using assms(2)
proof (rule settings_query_row)
  fix r assume "r \<in> set (tenant_settings (ty_db s))" "s_tenant r = t" "st = settingsFrom r"
  with assms(1) show ?thesis by (auto simp: tenant_inv_def tdb_inv_def settingsFrom_def)
qed

text \<open>What \<open>Settings\<close> answers is well-formed and belongs to the tenant asked for, from the cache or the table.\<close>

lemma repo_Settings_cases:
  obtains (cached) st where "settings_cached X io t s = Some st" "repo_Settings X io t s = (Inr st, s)"
  | (absent) e where "repo_Settings X io t s = (Inl e, s)"
  | (read) st where "settings_query io t s = Inr st" "repo_Settings X io t s = (Inr st, cacheSettings X io st s)"
  by (cases "settings_cached X io t s"; cases "settings_query io t s") (auto simp: repo_Settings_def)

lemma repo_Settings_ok:
  assumes "tenant_inv E X s" and "repo_Settings X io t s = (Inr st, s')"
  shows "settings_ok E st \<and> st_TenantID st = t"
  using cached_settings_ok [OF assms(1)] settings_query_ok [OF assms(1)] assms(2)
  by (cases rule: repo_Settings_cases [of X io t s]) auto

lemma repo_Settings_inv: "tenant_inv E X s \<Longrightarrow> tenant_inv E X (snd (repo_Settings X io t s))"
  using settings_query_ok [of E X s io t]
  by (cases rule: repo_Settings_cases [of X io t s]) (auto intro: cacheSettings_inv)

lemma repo_Settings_db: "ty_db (snd (repo_Settings X io t s)) = ty_db s"
  by (cases rule: repo_Settings_cases [of X io t s]) auto

section \<open>The tables\<close>

lemma settings_params_ok:
  assumes "settings_ok E st"
  shows "settings_ok E (settingsFrom (settings_params t st))"
proof -
  have "map int32 (offsets_of st) = offsets_of st"
    using assms by (intro map_idI int32_id) (auto simp: settings_ok_def)
  moreover have "intsToInt32 (st_ReminderOffsetsMinutes st) = map int32 (offsets_of st)"
    by (simp add: intsToInt32_def offsets_of_def split: option.splits)
  ultimately show ?thesis using assms
    by (simp add: settings_ok_def settingsFrom_def settings_params_def offsets_of_def int32_id)
qed

lemma settingsFrom_id [simp]: "st_TenantID (settingsFrom r) = s_tenant r"
  by (simp add: settingsFrom_def)

lemma settings_params_tenant [simp]: "s_tenant (settings_params t st) = t"
  by (simp add: settings_params_def)

lemma create_tenant_inv:
  assumes "tdb_inv E d" and "sql_CreateTenant i now name d = Inr (r, d1)"
    and "sql_InitializeTenantSettings (t_id r) (settings_params (t_id r) st) d1 = Inr (row, d2)" and "settings_ok E st"
  shows "tdb_inv E d2" "row = settings_params i st"
    "d2 = d\<lparr>tenants := tenants d @ [r], tenant_settings := tenant_settings d @ [row]\<rparr>"
    "t_id r = i" "i \<notin> t_id ` set (tenants d)"
proof -
  from assms(2) have r: "t_id r = i" "d1 = d\<lparr>tenants := tenants d @ [r]\<rparr>" "i \<notin> t_id ` set (tenants d)"
    by (auto simp: sql_CreateTenant_def Let_def split: if_splits)
  with assms(3) show row: "row = settings_params i st"
    and d2: "d2 = d\<lparr>tenants := tenants d @ [r], tenant_settings := tenant_settings d @ [row]\<rparr>"
    by (auto simp: sql_InitializeTenantSettings_def split: if_splits)
  show "t_id r = i" "i \<notin> t_id ` set (tenants d)" by (fact r)+
  have "i \<notin> s_tenant ` set (tenant_settings d)"
    using assms(1) r(3) by (auto simp: tdb_inv_def)
  with assms(1,4) r row d2 show "tdb_inv E d2"
    by (auto simp: tdb_inv_def settings_params_ok)
qed

lemma update_settings_inv:
  assumes "tdb_inv E d" and "sql_UpdateTenantSettings ctx (settings_params t st) d = Inr (row, d')" and "settings_ok E st"
  shows "tdb_inv E d'" "row = settings_params t st" "tenants d' = tenants d" "tenant_domains d' = tenant_domains d"
proof -
  let ?r = "settings_params t st" and ?g = "\<lambda>x. if s_tenant x = t then settings_params t st else x"
  from assms(2) have d': "row = ?r" "d' = d\<lparr>tenant_settings := map ?g (tenant_settings d)\<rparr>"
    by (auto simp: sql_UpdateTenantSettings_def split: option.splits if_splits)
  have "map s_tenant (map ?g (tenant_settings d)) = map s_tenant (tenant_settings d)" by simp
  with assms(1) d' settings_params_ok [OF assms(3)] show "tdb_inv E d'"
    by (auto simp: tdb_inv_def simp del: map_map)
  show "row = settings_params t st" "tenants d' = tenants d" "tenant_domains d' = tenant_domains d"
    using d' by simp_all
qed

lemma create_domain_inv:
  assumes "tdb_inv E d" and "sql_CreateTenantDomain ctx i now t h ty tok d = Inr (r, d')" and "host_normal E h"
  shows "tdb_inv E d'" "d' = d\<lparr>tenant_domains := tenant_domains d @ [r]\<rparr>" "\<not> d_verified r"
    "d_id r \<notin> d_id ` set (tenant_domains d)"
proof -
  from assms(2) show d': "d' = d\<lparr>tenant_domains := tenant_domains d @ [r]\<rparr>" and nv: "\<not> d_verified r"
    and fresh: "d_id r \<notin> d_id ` set (tenant_domains d)"
    by (auto simp: sql_CreateTenantDomain_def Let_def split: if_splits)
  from assms(2,3) have "domain_ok E r" "d_tenant r \<in> t_id ` set (tenants d)" "d_hostname r \<notin> d_hostname ` set (tenant_domains d)"
    by (auto simp: sql_CreateTenantDomain_def Let_def domain_ok_def validDomainType_def tenant_active_def list_ex_iff
        split: if_splits)
  with assms(1) d' fresh show "tdb_inv E d'" by (auto simp: tdb_inv_def)
qed

text \<open>An update of one domain in place.\<close>

definition domain_map :: "uuid \<Rightarrow> (domain_row \<Rightarrow> domain_row) \<Rightarrow> tenant_db \<Rightarrow> tenant_db" where
  "domain_map i g d = d\<lparr>tenant_domains := map (\<lambda>x. if d_id x = i then g x else x) (tenant_domains d)\<rparr>"

definition keeps_row :: "tenant_ext \<Rightarrow> (domain_row \<Rightarrow> domain_row) \<Rightarrow> domain_row \<Rightarrow> bool" where
  "keeps_row E g r \<longleftrightarrow> d_id (g r) = d_id r \<and> d_tenant (g r) = d_tenant r \<and> d_hostname (g r) = d_hostname r \<and>
     (domain_ok E r \<longrightarrow> domain_ok E (g r)) \<and> (d_verified r \<longrightarrow> d_verified (g r)) \<and>
     (d_verified (g r) \<or> d_token_hash (g r) = d_token_hash r)"

lemma domain_map_inv:
  assumes "tdb_inv E d" and "\<And>r. r \<in> set (tenant_domains d) \<Longrightarrow> d_id r = i \<Longrightarrow> keeps_row E g r"
  shows "tdb_inv E (domain_map i g d)"
proof -
  let ?g = "\<lambda>x. if d_id x = i then g x else x"
  have "map d_id (map ?g (tenant_domains d)) = map d_id (tenant_domains d)"
    "map d_hostname (map ?g (tenant_domains d)) = map d_hostname (tenant_domains d)"
    using assms(2) by (auto simp: keeps_row_def)
  with assms show ?thesis
    by (auto simp: tdb_inv_def domain_map_def keeps_row_def simp del: map_map)
qed

lemma sql_update_domain_Inr:
  assumes "sql_update_domain ctx t i cond g d = Inr (r', d')"
  obtains r where "r \<in> set (tenant_domains d)" "d_tenant r = t" "d_id r = i" "cond r" "r' = g r" "d' = domain_map i g d"
  using assms by (auto simp: sql_update_domain_def domain_map_def split: option.splits dest!: find_SomeD)

text \<open>The four updates keep a row well-formed.\<close>

lemma keeps_row_updates:
  "keeps_row E (\<lambda>r. r\<lparr>d_verified := True, d_state := ''verified'', d_token_hash := None,
            d_verified_at := coalesce (d_verified_at r) now, d_attempted := Some now\<rparr>) r"
  "keeps_row E (\<lambda>r. r\<lparr>d_active := False, d_deactivated := Some now\<rparr>) r"
  "\<not> d_verified r \<Longrightarrow> keeps_row E (\<lambda>r. r\<lparr>d_state := ''failed'', d_attempted := Some now\<rparr>) r"
  "d_verified r \<Longrightarrow> keeps_row E (\<lambda>r. r\<lparr>d_active := True, d_activated := coalesce (d_activated r) now, d_deactivated := None\<rparr>) r"
  by (auto simp: keeps_row_def domain_ok_def)

definition stmt_keeps :: "tenant_ext \<Rightarrow> (uuid \<Rightarrow> tenant_db \<Rightarrow> repo_error + (domain_row \<times> tenant_db)) \<Rightarrow> uuid \<Rightarrow> uuid \<Rightarrow> bool" where
  "stmt_keeps E stmt t i \<longleftrightarrow> (\<forall>d r' d'. tdb_inv E d \<longrightarrow> stmt t d = Inr (r', d') \<longrightarrow>
     tdb_inv E d' \<and> (\<exists>g r. d' = domain_map i g d \<and> r \<in> set (tenant_domains d) \<and> d_id r = i \<and> d_tenant r = t \<and> r' = g r \<and>
       keeps_row E g r))"

lemma update_stmt_keeps:
  assumes "\<And>d. stmt t d = sql_update_domain t t i (cond d) g d"
    and "\<And>d r. cond d r \<Longrightarrow> keeps_row E g r"
  shows "stmt_keeps E stmt t i"
  unfolding stmt_keeps_def
proof (intro allI impI)
  fix d r' d' assume inv: "tdb_inv E d" and "stmt t d = Inr (r', d')"
  then have "sql_update_domain t t i (cond d) g d = Inr (r', d')" by (simp add: assms(1))
  then obtain r where r: "r \<in> set (tenant_domains d)" "d_tenant r = t" "d_id r = i" "cond d r" "r' = g r"
    and d': "d' = domain_map i g d"
    by (rule sql_update_domain_Inr)
  have keeps: "keeps_row E g r" by (rule assms(2) [OF r(4)])
  have "x = r" if "x \<in> set (tenant_domains d)" "d_id x = i" for x
    using inv r(1,3) that inj_key [of d_id "tenant_domains d" x r] by (simp add: tdb_inv_def)
  with keeps have "tdb_inv E d'" unfolding d' by (intro domain_map_inv inv) blast
  with r(1-3,5) d' keeps show "tdb_inv E d' \<and> (\<exists>g r. d' = domain_map i g d \<and> r \<in> set (tenant_domains d) \<and> d_id r = i \<and>
      d_tenant r = t \<and> r' = g r \<and> keeps_row E g r)" by blast
qed

lemma mark_succeeded_keeps: "stmt_keeps E (\<lambda>ctx. sql_MarkDomainVerificationSucceeded now ctx t i) t i"
  by (rule update_stmt_keeps [where cond = "\<lambda>_ _. True"], unfold sql_MarkDomainVerificationSucceeded_def, rule refl)
    (rule keeps_row_updates)

lemma mark_failed_keeps: "stmt_keeps E (\<lambda>ctx. sql_MarkDomainVerificationFailed now ctx t i) t i"
  by (rule update_stmt_keeps [where cond = "\<lambda>_ r. \<not> d_verified r"], unfold sql_MarkDomainVerificationFailed_def, rule refl)
    (rule keeps_row_updates)

lemma activate_keeps: "stmt_keeps E (\<lambda>ctx. sql_ActivateTenantDomain now ctx t i) t i"
  by (rule update_stmt_keeps [where cond = "\<lambda>d r. tenant_active d (d_tenant r) \<and> d_verified r"],
      unfold sql_ActivateTenantDomain_def, rule refl) (rule keeps_row_updates, simp)

lemma deactivate_keeps: "stmt_keeps E (\<lambda>ctx. sql_DeactivateTenantDomain now ctx t i) t i"
  by (rule update_stmt_keeps [where cond = "\<lambda>_ _. True"], unfold sql_DeactivateTenantDomain_def, rule refl)
    (rule keeps_row_updates)

lemmas update_stmts = mark_succeeded_keeps mark_failed_keeps activate_keeps deactivate_keeps

end
