(* ===== verification/Tenant_Runs.thy ===== *)
theory Tenant_Runs
  imports Tenant_Inv
begin

text \<open>
  Runs of tenant-service. \<open>exec_tenant\<close> serves one request at once; \<open>exec_event\<close> interleaves requests at the
  points where they wait. Every event keeps the invariant, never takes a verification back, and
  only the completion of a verification makes a domain verified (\<open>progress\<close>).
\<close>

section \<open>Requests and events\<close>

datatype tenant_op =
    OpResolve tenant_io string
  | OpTLS tenant_io string
  | OpSettings tenant_io string
  | OpUpdate tenant_io tenant_io string update_settings_input
  | OpCreateTenant tenant_io create_tenant_input
  | OpTenant tenant_io string
  | OpStatus tenant_io string string string string
  | OpCreateDomain tenant_io string create_domain_input
  | OpVerify tenant_io tenant_io string string
  | OpActivate tenant_io tenant_io string string
  | OpDeactivate tenant_io string string

fun exec_tenant :: "tenant_ext \<Rightarrow> externals \<Rightarrow> tenant_op \<Rightarrow> tenant_sys \<Rightarrow> tenant_sys" where
  "exec_tenant E X (OpResolve io h) s = snd (svc_Resolve E io h s)"
| "exec_tenant E X (OpTLS io h) s = snd (TLSAuthorized E io h s)"
| "exec_tenant E X (OpSettings io t) s = snd (svc_Settings X io t s)"
| "exec_tenant E X (OpUpdate io1 io2 t inp) s = snd (svc_UpdateSettings E X io1 io2 t inp s)"
| "exec_tenant E X (OpCreateTenant io inp) s = snd (svc_CreateTenant E X io inp s)"
| "exec_tenant E X (OpTenant io t) s = snd (svc_Tenant X io t s)"
| "exec_tenant E X (OpStatus io t status actor req) s = snd (svc_SetTenantStatus X io t status actor req s)"
| "exec_tenant E X (OpCreateDomain io t inp) s = snd (svc_CreateDomain E X io t inp s)"
| "exec_tenant E X (OpVerify io1 io2 t i) s = snd (VerifyDomain E X io1 io2 t i s)"
| "exec_tenant E X (OpActivate io1 io2 t i) s = snd (svc_ActivateDomain X io1 io2 t i s)"
| "exec_tenant E X (OpDeactivate io t i) s = snd (svc_DeactivateDomain X io t i s)"

datatype request =
    RqVerify uuid uuid
  | RqResolve string
  | RqSettings uuid
  | RqUpdate uuid update_settings_input

datatype flight =
    FlVerify uuid uuid verification_domain
  | FlResolve string domain_resolution
  | FlSettings settings
  | FlUpdate uuid settings

text \<open>The part of a request before it waits: what it carries over, if it goes on.\<close>

fun begin_request :: "tenant_ext \<Rightarrow> externals \<Rightarrow> tenant_io \<Rightarrow> request \<Rightarrow> tenant_sys \<Rightarrow> flight option \<times> tenant_sys" where
  "begin_request E X io (RqVerify t i) s =
     (case DomainForVerification io t i s of
        Inl _ \<Rightarrow> (None, s)
      | Inr c \<Rightarrow> (if td_Verified (vd_Domain c) \<or> vd_TokenHash c = [] then None else Some (FlVerify t i c), s))"
| "begin_request E X io (RqResolve host) s =
     (case NormalizeHostname E host of
        Inl _ \<Rightarrow> (None, s)
      | Inr h \<Rightarrow> if cache_get io (domainCacheKey h) s \<noteq> None then (None, s)
          else case resolve_query io h s of Inl _ \<Rightarrow> (None, s) | Inr r \<Rightarrow> (Some (FlResolve h r), s))"
| "begin_request E X io (RqSettings t) s =
     (if settings_cached X io t s \<noteq> None then (None, s)
      else case settings_query io t s of Inl _ \<Rightarrow> (None, s) | Inr st \<Rightarrow> (Some (FlSettings st), s))"
| "begin_request E X io (RqUpdate t inp) s =
     (case repo_Settings X io t s of
        (Inl _, s') \<Rightarrow> (None, s')
      | (Inr current, s') \<Rightarrow> (case mergeSettings E current inp of
          Inl _ \<Rightarrow> (None, s')
        | Inr updated \<Rightarrow> (Some (FlUpdate t updated), s')))"

fun finish_request :: "tenant_ext \<Rightarrow> externals \<Rightarrow> tenant_io \<Rightarrow> flight \<Rightarrow> tenant_sys \<Rightarrow> tenant_sys" where
  "finish_request E X io (FlVerify t i c) s = snd (verify_complete E io t i c s)"
| "finish_request E X io (FlResolve h r) s = resolve_store io h r s"
| "finish_request E X io (FlSettings st) s = cacheSettings X io st s"
| "finish_request E X io (FlUpdate t st) s = snd (repo_UpdateSettings X io t st s)"

record tsvc_run =
  tr_sys :: tenant_sys
  tr_flights :: "flight list"

datatype tenant_event =
    Call tenant_op
  | Begin tenant_io request
  | Finish tenant_io flight
  | Lost flight

fun exec_event :: "tenant_ext \<Rightarrow> externals \<Rightarrow> tenant_event \<Rightarrow> tsvc_run \<Rightarrow> tsvc_run" where
  "exec_event E X (Call op) c = c\<lparr>tr_sys := exec_tenant E X op (tr_sys c)\<rparr>"
| "exec_event E X (Begin io rq) c =
     (case begin_request E X io rq (tr_sys c) of
        (None, s) \<Rightarrow> c\<lparr>tr_sys := s\<rparr>
      | (Some fl, s) \<Rightarrow> c\<lparr>tr_sys := s, tr_flights := fl # tr_flights c\<rparr>)"
| "exec_event E X (Finish io fl) c =
     (if fl \<in> set (tr_flights c)
      then \<lparr>tr_sys = finish_request E X io fl (tr_sys c), tr_flights = remove1 fl (tr_flights c)\<rparr> else c)"
| "exec_event E X (Lost fl) c = c\<lparr>tr_flights := remove1 fl (tr_flights c)\<rparr>"

definition tenant_start :: "bool \<Rightarrow> tsvc_run" where
  "tenant_start cached =
     \<lparr>tr_sys = \<lparr>ty_db = empty_tenant_db, ty_cache = (if cached then Some (\<lambda>_. None) else None)\<rparr>, tr_flights = []\<rparr>"

text \<open>The DNS as the completing part of an event sees it.\<close>

fun event_dns :: "tenant_event \<Rightarrow> string \<Rightarrow> string list option" where
  "event_dns (Call (OpVerify io1 io2 t i)) = io_LookupTXT io2"
| "event_dns (Finish io fl) = io_LookupTXT io"
| "event_dns ev = (\<lambda>_. None)"

section \<open>Progress\<close>

definition rows_evolve :: "tenant_db \<Rightarrow> tenant_db \<Rightarrow> bool" where
  "rows_evolve d d' \<longleftrightarrow> (\<forall>r \<in> set (tenant_domains d). \<exists>r' \<in> set (tenant_domains d').
     d_id r' = d_id r \<and> d_tenant r' = d_tenant r \<and> d_hostname r' = d_hostname r \<and>
     (d_verified r \<longrightarrow> d_verified r') \<and> (d_verified r' \<or> d_token_hash r' = d_token_hash r))"

definition verified_ids :: "tenant_db \<Rightarrow> uuid set" where
  "verified_ids d = d_id ` {r \<in> set (tenant_domains d). d_verified r}"

definition progress :: "tenant_ext \<Rightarrow> externals \<Rightarrow> uuid set \<Rightarrow> tenant_sys \<Rightarrow> tenant_sys \<Rightarrow> bool" where
  "progress E X V s s' \<longleftrightarrow> tenant_inv E X s' \<and> rows_evolve (ty_db s) (ty_db s') \<and>
     verified_ids (ty_db s') \<subseteq> verified_ids (ty_db s) \<union> V"

lemma rows_evolve_refl: "rows_evolve d d"
  by (auto simp: rows_evolve_def)

lemma rows_evolve_trans:
  assumes "rows_evolve a b" and "rows_evolve b c"
  shows "rows_evolve a c"
  unfolding rows_evolve_def
proof
  fix r assume "r \<in> set (tenant_domains a)"
  with assms(1) obtain r1 where r1: "r1 \<in> set (tenant_domains b)" "d_id r1 = d_id r" "d_tenant r1 = d_tenant r"
    "d_hostname r1 = d_hostname r" "d_verified r \<longrightarrow> d_verified r1" "d_verified r1 \<or> d_token_hash r1 = d_token_hash r"
    unfolding rows_evolve_def by blast
  with assms(2) obtain r2 where "r2 \<in> set (tenant_domains c)" "d_id r2 = d_id r1" "d_tenant r2 = d_tenant r1"
    "d_hostname r2 = d_hostname r1" "d_verified r1 \<longrightarrow> d_verified r2" "d_verified r2 \<or> d_token_hash r2 = d_token_hash r1"
    unfolding rows_evolve_def by blast
  with r1 show "\<exists>r' \<in> set (tenant_domains c). d_id r' = d_id r \<and> d_tenant r' = d_tenant r \<and> d_hostname r' = d_hostname r \<and>
     (d_verified r \<longrightarrow> d_verified r') \<and> (d_verified r' \<or> d_token_hash r' = d_token_hash r)"
    by (intro bexI [of _ r2]) auto
qed

lemma progress_trans: "progress E X V a b \<Longrightarrow> progress E X V b c \<Longrightarrow> progress E X V a c"
  unfolding progress_def using rows_evolve_trans by blast

lemma progress_mono: "progress E X V a b \<Longrightarrow> V \<subseteq> W \<Longrightarrow> progress E X W a b"
  unfolding progress_def by blast

text \<open>Operations that leave the domains alone.\<close>

lemma progress_same: "tenant_inv E X s' \<Longrightarrow> tenant_domains (ty_db s') = tenant_domains (ty_db s) \<Longrightarrow> progress E X V s s'"
  by (auto simp: progress_def rows_evolve_def verified_ids_def)

lemma progress_refl [inv_intros]: "tenant_inv E X s \<Longrightarrow> progress E X V s s"
  by (simp add: progress_same)

lemma progress_cache:
  "tenant_inv E X s \<Longrightarrow> settings_ok E st \<Longrightarrow> progress E X V s (cacheSettings X io st s)"
  "tenant_inv E X s \<Longrightarrow> host_normal E h \<Longrightarrow> progress E X V s (resolve_store io h r s)"
  "tenant_inv E X s \<Longrightarrow> progress E X V s (invalidateDomain io h s)"
  "tenant_inv E X s \<Longrightarrow> progress E X V s (fold (invalidateDomain io) hs s)"
proof -
  have "ty_db (fold (invalidateDomain io) hs s) = ty_db s" by (induction hs arbitrary: s) auto
  then show "tenant_inv E X s \<Longrightarrow> progress E X V s (fold (invalidateDomain io) hs s)"
    by (simp add: progress_same invalidate_all_inv)
qed (simp_all add: progress_same cacheSettings_inv resolve_store_inv invalidateDomain_inv)

lemma progress_settings [inv_intros]: "tenant_inv E X s \<Longrightarrow> progress E X V s (snd (repo_Settings X io t s))"
  by (simp add: progress_same repo_Settings_inv repo_Settings_db)

lemma tenant_inv_db: "tenant_inv E X s \<Longrightarrow> tdb_inv E d \<Longrightarrow> tenant_inv E X (s\<lparr>ty_db := d\<rparr>)"
  by (simp add: tenant_inv_def)

lemma tenant_inv_tables: "tenant_inv E X s \<Longrightarrow> tdb_inv E (ty_db s)"
  by (simp add: tenant_inv_def)

section \<open>The operations\<close>

lemma resolve_progress:
  assumes "tenant_inv E X s" and "NormalizeHostname E h0 = Inr h"
  shows "progress E X V s (snd (ResolveDomain io h s))"
proof -
  have "host_normal E h" unfolding host_normal_def by (rule NormalizeHostname_idem [OF assms(2)])
  with assms(1) show ?thesis
    by (auto simp: ResolveDomain_def progress_refl progress_cache split: option.splits sum.splits)
qed

lemma update_settings_progress:
  assumes "tenant_inv E X s" and "settings_ok E st"
  shows "progress E X V s (snd (repo_UpdateSettings X io t st s))"
proof (cases rule: tenant_tx_cases [of io t "\<lambda>ctx d. case sql_UpdateTenantSettings ctx (settings_params t st) d of
         Inl e \<Rightarrow> Inl e | Inr (r, d') \<Rightarrow> Inr (settingsFrom r, d')" s])
  case (1 e)
  with assms(1) show ?thesis by (simp add: repo_UpdateSettings_def progress_refl)
next
  case (2 v d)
  then obtain r where r: "sql_UpdateTenantSettings t (settings_params t st) (ty_db s) = Inr (r, d)" "v = settingsFrom r"
    by (auto split: sum.splits)
  note u = update_settings_inv [OF tenant_inv_tables [OF assms(1)] r(1) assms(2)]
  have inv: "tenant_inv E X (s\<lparr>ty_db := d\<rparr>)" by (rule tenant_inv_db [OF assms(1) u(1)])
  have "settings_ok E v" using r(2) u(2) settings_params_ok [OF assms(2)] by simp
  then have "progress E X V (s\<lparr>ty_db := d\<rparr>) (cacheSettings X io v (s\<lparr>ty_db := d\<rparr>))" by (rule progress_cache(1) [OF inv])
  moreover have "progress E X V s (s\<lparr>ty_db := d\<rparr>)" using inv u(4) by (simp add: progress_same)
  ultimately show ?thesis using 2(3) by (simp add: repo_UpdateSettings_def progress_trans)
qed

lemma mergeSettings_ok: "mergeSettings E current inp = Inr st \<Longrightarrow> settings_ok E st"
  by (auto simp: mergeSettings_def intro: validateSettings_ok split: if_splits)

lemma normalizeSettings_ok: "normalizeSettings E inp = Inr st \<Longrightarrow> settings_ok E st"
  by (auto simp: normalizeSettings_def Let_def intro: validateSettings_ok)

lemma svc_UpdateSettings_progress [inv_intros]:
  assumes "tenant_inv E X s"
  shows "progress E X V s (snd (svc_UpdateSettings E X io1 io2 t inp s))"
proof (cases "uuid_Parse X t")
  case None
  with assms show ?thesis by (simp add: svc_UpdateSettings_def progress_refl)
next
  case (Some i)
  obtain res s1 where s1: "repo_Settings X io1 i s = (res, s1)" by fastforce
  have p1: "progress E X V s s1" and inv: "tenant_inv E X s1"
    using progress_settings [OF assms, of V io1 i] repo_Settings_inv [OF assms, of io1 i] s1 by simp_all
  show ?thesis
  proof (cases "\<exists>current st. res = Inr current \<and> mergeSettings E current inp = Inr st")
    case True
    then obtain current st where st: "res = Inr current" "mergeSettings E current inp = Inr st" by blast
    have "progress E X V s1 (snd (repo_UpdateSettings X io2 i st s1))"
      by (rule update_settings_progress [OF inv mergeSettings_ok [OF st(2)]])
    with p1 st Some s1 show ?thesis by (simp add: svc_UpdateSettings_def progress_trans)
  next
    case False
    with p1 Some s1 show ?thesis by (auto simp: svc_UpdateSettings_def split: sum.splits)
  qed
qed

lemma repo_CreateTenant_cases:
  assumes "tdb_inv E (ty_db s)" and "settings_ok E st"
  obtains (fail) e where "repo_CreateTenant X io name st s = (Inl e, s)"
  | (ok) v r row where
      "repo_CreateTenant X io name st s = (Inr v, cacheSettings X io (settingsFrom row) (s\<lparr>ty_db := (ty_db s)
         \<lparr>tenants := tenants (ty_db s) @ [r], tenant_settings := tenant_settings (ty_db s) @ [row]\<rparr>\<rparr>))"
      "tdb_inv E ((ty_db s)\<lparr>tenants := tenants (ty_db s) @ [r], tenant_settings := tenant_settings (ty_db s) @ [row]\<rparr>)"
      "settings_ok E (settingsFrom row)" "t_id r \<notin> t_id ` set (tenants (ty_db s))"
proof (cases "\<exists>e. repo_CreateTenant X io name st s = (Inl e, s)")
  case True
  with fail show thesis by blast
next
  case False
  then obtain r d1 row d2 where c: "sql_CreateTenant (io_id io) (io_now io) name (ty_db s) = Inr (r, d1)"
    "sql_InitializeTenantSettings (t_id r) (settings_params (t_id r) st) d1 = Inr (row, d2)" "io_tx io = NoFault"
    by (auto simp: repo_CreateTenant_def split: if_splits sum.splits)
  note k = create_tenant_inv [OF assms(1) c(1,2) assms(2)]
  show thesis
    by (rule ok [OF _ k(1) [unfolded k(3)]])
      (use c k settings_params_ok [OF assms(2)] in \<open>simp_all add: repo_CreateTenant_def\<close>)
qed

lemma svc_CreateTenant_progress [inv_intros]:
  assumes "tenant_inv E X s"
  shows "progress E X V s (snd (svc_CreateTenant E X io inp s))"
proof (cases "\<exists>st. normalizeSettings E (ct_Settings inp) = Inr st")
  case False
  with assms show ?thesis
    by (auto simp: svc_CreateTenant_def Let_def progress_refl split: sum.splits)
next
  case True
  then obtain st where st: "normalizeSettings E (ct_Settings inp) = Inr st" ..
  note ok = normalizeSettings_ok [OF st]
  have "progress E X V s (snd (repo_CreateTenant X io name st s))" for name
  proof (cases rule: repo_CreateTenant_cases [OF tenant_inv_tables [OF assms] ok, of X io name])
    case (1 e)
    with assms show ?thesis by (simp add: progress_refl)
  next
    case (2 v r row)
    let ?s = "s\<lparr>ty_db := (ty_db s)\<lparr>tenants := tenants (ty_db s) @ [r],
      tenant_settings := tenant_settings (ty_db s) @ [row]\<rparr>\<rparr>"
    have inv: "tenant_inv E X ?s" by (rule tenant_inv_db [OF assms 2(2)])
    have "progress E X V s ?s" using inv by (simp add: progress_same)
    with progress_cache(1) [OF inv 2(3)] 2(1) show ?thesis by (simp add: progress_trans)
  qed
  with st assms show ?thesis by (simp add: svc_CreateTenant_def Let_def progress_refl)
qed

lemma set_status_inv:
  assumes "tdb_inv E d" and "set_status_tx io t status actor req d = Inr ((r, hs), d')"
  shows "tdb_inv E d'" "tenant_domains d' = tenant_domains d"
    "tenants d' = map (\<lambda>x. if t_id x = t then x\<lparr>t_status := status\<rparr> else x) (tenants d)"
    "hs = map d_hostname (filter (\<lambda>x. d_tenant x = t) (tenant_domains d))"
proof -
  let ?g = "\<lambda>x. if t_id x = t then x\<lparr>t_status := status\<rparr> else x"
  from assms(2) have d': "d' = d\<lparr>tenants := map ?g (tenants d),
      platform_audit_log := platform_audit_log d @ [status_audit io t status actor req]\<rparr>"
    and "hs = map d_hostname (filter (\<lambda>x. d_tenant x = t) (tenant_domains d))"
    by (auto simp: set_status_tx_def split: option.splits if_splits)
  then show "tenant_domains d' = tenant_domains d" "tenants d' = map ?g (tenants d)"
    "hs = map d_hostname (filter (\<lambda>x. d_tenant x = t) (tenant_domains d))" by simp_all
  have ids: "map t_id (map ?g (tenants d)) = map t_id (tenants d)" by simp
  from arg_cong [OF ids, of set] have "t_id ` set (map ?g (tenants d)) = t_id ` set (tenants d)" by (simp only: set_map)
  note ids this
  with assms(1) d' show "tdb_inv E d'" by (simp add: tdb_inv_def del: map_map set_map list.set_map)
qed

lemma repo_SetTenantStatus_cases:
  obtains e where "repo_SetTenantStatus io t status actor req s = (Inl e, s)"
  | r hs d where "set_status_tx io t status actor req (ty_db s) = Inr ((r, hs), d)"
      "repo_SetTenantStatus io t status actor req s = (Inr (tenant_of r zero_settings), fold (invalidateDomain io) hs (s\<lparr>ty_db := d\<rparr>))"
proof (cases rule: WithTenantTx_cases [of "io_tx io" t "\<lambda>_. set_status_tx io t status actor req" "ty_db s"])
  case (1 e)
  with that(1) show thesis by (cases e) (auto simp: repo_SetTenantStatus_def)
next
  case (2 v d)
  with that(2) show thesis by (cases v) (auto simp: repo_SetTenantStatus_def)
qed

lemma set_status_progress [inv_intros]:
  assumes "tenant_inv E X s"
  shows "progress E X V s (snd (repo_SetTenantStatus io t status actor req s))"
proof (cases rule: repo_SetTenantStatus_cases [of io t status actor req s])
  case (1 e)
  with assms show ?thesis by (simp add: progress_refl)
next
  case (2 r hs d)
  note k = set_status_inv [OF tenant_inv_tables [OF assms] 2(1)]
  have inv: "tenant_inv E X (s\<lparr>ty_db := d\<rparr>)" by (rule tenant_inv_db [OF assms k(1)])
  have "progress E X V s (s\<lparr>ty_db := d\<rparr>)" using inv k(2) by (simp add: progress_same)
  with progress_cache(4) [OF inv] 2(2) show ?thesis by (simp add: progress_trans)
qed

lemma repo_CreateDomain_cases:
  assumes "tdb_inv E (ty_db s)" and "host_normal E h"
  obtains e where "repo_CreateDomain io t h ty tok s = (Inl e, s)"
  | v r where "repo_CreateDomain io t h ty tok s =
        (Inr v, s\<lparr>ty_db := (ty_db s)\<lparr>tenant_domains := tenant_domains (ty_db s) @ [r]\<rparr>\<rparr>)"
      "tdb_inv E ((ty_db s)\<lparr>tenant_domains := tenant_domains (ty_db s) @ [r]\<rparr>)" "\<not> d_verified r"
      "d_id r \<notin> d_id ` set (tenant_domains (ty_db s))"
proof (cases "activeTenant io t s")
  case (Inl e)
  with that(1) show thesis by (simp add: repo_CreateDomain_def)
next
  case (Inr a)
  let ?fn = "\<lambda>ctx d. case sql_CreateTenantDomain ctx (io_id io) (io_now io) t h ty tok d of
            Inl e \<Rightarrow> Inl e | Inr (r, d') \<Rightarrow> Inr (newDomain r, d')"
  show thesis
  proof (cases rule: tenant_tx_cases [of io t ?fn s])
    case (1 e)
    with Inr that(1) show thesis by (simp add: repo_CreateDomain_def)
  next
    case (2 v d)
    then obtain r where r: "sql_CreateTenantDomain t (io_id io) (io_now io) t h ty tok (ty_db s) = Inr (r, d)"
      by (auto split: sum.splits)
    note k = create_domain_inv [OF assms(1) r assms(2)]
    show thesis by (rule that(2) [OF _ k(1) [unfolded k(2)] k(3,4)]) (use Inr 2(3) k(2) in \<open>simp add: repo_CreateDomain_def\<close>)
  qed
qed

lemma create_domain_progress:
  assumes "tenant_inv E X s" and "host_normal E h"
  shows "progress E X V s (snd (repo_CreateDomain io t h ty tok s))"
proof (cases rule: repo_CreateDomain_cases [OF tenant_inv_tables [OF assms(1)] assms(2), of io t ty tok])
  case (1 e)
  with assms show ?thesis by (simp add: progress_refl)
next
  case (2 v r)
  let ?s = "s\<lparr>ty_db := (ty_db s)\<lparr>tenant_domains := tenant_domains (ty_db s) @ [r]\<rparr>\<rparr>"
  have "tenant_inv E X ?s" by (rule tenant_inv_db [OF assms(1) 2(2)])
  with 2(3) have "progress E X V s ?s" by (auto simp: progress_def rows_evolve_def verified_ids_def)
  with 2(1) show ?thesis by simp
qed

lemma svc_CreateDomain_progress [inv_intros]:
  assumes "tenant_inv E X s"
  shows "progress E X V s (snd (svc_CreateDomain E X io t inp s))"
proof (cases "\<exists>i h. uuid_Parse X t = Some i \<and> NormalizeHostname E (cd_Hostname inp) = Inr h")
  case True
  then obtain i h where h: "uuid_Parse X t = Some i" "NormalizeHostname E (cd_Hostname inp) = Inr h" by blast
  have hn: "host_normal E h" unfolding host_normal_def by (rule NormalizeHostname_idem [OF h(2)])
  have "progress E X V s (snd (repo_CreateDomain io i h (cd_DomainType inp) tok s))" for tok
    by (rule create_domain_progress [OF assms hn])
  then have "progress E X V s s'" if "repo_CreateDomain io i h (cd_DomainType inp) tok s = (v, s')" for tok v s'
    using that by (metis snd_conv)
  with h assms show ?thesis
    by (auto simp: svc_CreateDomain_def progress_refl split: option.splits sum.splits prod.splits)
qed (use assms in \<open>auto simp: svc_CreateDomain_def progress_refl split: option.splits sum.splits\<close>)

section \<open>Updates of a domain\<close>

lemma domain_update_cases:
  assumes "tdb_inv E (ty_db s)" and "stmt_keeps E stmt t i"
  obtains e where "domain_update io t stmt s = (Inl e, s)"
  | g r where "domain_update io t stmt s =
        (Inr (newDomain (g r)), invalidateDomain io (d_hostname r) (s\<lparr>ty_db := domain_map i g (ty_db s)\<rparr>))"
      "stmt t (ty_db s) = Inr (g r, domain_map i g (ty_db s))"
      "tdb_inv E (domain_map i g (ty_db s))" "r \<in> set (tenant_domains (ty_db s))" "d_id r = i" "d_tenant r = t" "keeps_row E g r"
proof (cases rule: tenant_tx_cases [of io t stmt s])
  case (1 e)
  with that(1) show thesis by (simp add: domain_update_def)
next
  case (2 r' d')
  with assms obtain g r where k: "d' = domain_map i g (ty_db s)" "r \<in> set (tenant_domains (ty_db s))" "d_id r = i" "d_tenant r = t"
    "r' = g r" "keeps_row E g r" "tdb_inv E d'"
    unfolding stmt_keeps_def by blast
  then have "d_hostname r' = d_hostname r" by (simp add: keeps_row_def)
  then have "domain_update io t stmt s =
      (Inr (newDomain (g r)), invalidateDomain io (d_hostname r) (s\<lparr>ty_db := domain_map i g (ty_db s)\<rparr>))"
    using 2(3) k(1,5) by (simp add: domain_update_def newDomain_def)
  with that(2) 2(2) k show thesis by blast
qed

lemma row_of_id:
  "tdb_inv E d \<Longrightarrow> r \<in> set (tenant_domains d) \<Longrightarrow> r' \<in> set (tenant_domains d) \<Longrightarrow> d_id r = d_id r' \<Longrightarrow> r = r'"
  using inj_key [of d_id "tenant_domains d" r r'] by (simp add: tdb_inv_def)

lemma domain_map_evolves:
  assumes "tdb_inv E d" and "r \<in> set (tenant_domains d)" and "d_id r = i" and "keeps_row E g r"
  shows "rows_evolve d (domain_map i g d)"
  unfolding rows_evolve_def
proof
  fix x assume x: "x \<in> set (tenant_domains d)"
  let ?x = "if d_id x = i then g x else x"
  have "x = r" if "d_id x = i" using row_of_id [OF assms(1) x assms(2)] that assms(3) by simp
  with assms(4) have "d_id ?x = d_id x \<and> d_tenant ?x = d_tenant x \<and> d_hostname ?x = d_hostname x \<and>
     (d_verified x \<longrightarrow> d_verified ?x) \<and> (d_verified ?x \<or> d_token_hash ?x = d_token_hash x)"
    by (auto simp: keeps_row_def)
  moreover have "?x \<in> set (tenant_domains (domain_map i g d))" using x by (simp add: domain_map_def)
  ultimately show "\<exists>r' \<in> set (tenant_domains (domain_map i g d)). d_id r' = d_id x \<and> d_tenant r' = d_tenant x \<and>
      d_hostname r' = d_hostname x \<and> (d_verified x \<longrightarrow> d_verified r') \<and> (d_verified r' \<or> d_token_hash r' = d_token_hash x)"
    by blast
qed

lemma domain_map_verified:
  assumes "tdb_inv E d" and "r \<in> set (tenant_domains d)" and "d_id r = i" and "keeps_row E g r"
  shows "verified_ids (domain_map i g d) \<subseteq> verified_ids d \<union> {i}"
proof
  fix k assume "k \<in> verified_ids (domain_map i g d)"
  then obtain y where y: "y \<in> set (tenant_domains d)" "k = d_id (if d_id y = i then g y else y)"
    "d_verified (if d_id y = i then g y else y)"
    unfolding verified_ids_def domain_map_def by auto
  show "k \<in> verified_ids d \<union> {i}"
  proof (cases "d_id y = i")
    case True
    then have "y = r" using row_of_id [OF assms(1) y(1) assms(2)] assms(3) by simp
    with True y(2) assms(4) show ?thesis by (simp add: keeps_row_def)
  next
    case False
    with y show ?thesis by (simp add: verified_ids_def)
  qed
qed

lemma domain_update_progress:
  assumes "tenant_inv E X s" and "stmt_keeps E stmt t i"
  shows "progress E X {i} s (snd (domain_update io t stmt s))"
proof (cases rule: domain_update_cases [OF tenant_inv_tables [OF assms(1)] assms(2), of io])
  case (1 e)
  with assms(1) show ?thesis by (simp add: progress_refl)
next
  case (2 g r)
  let ?s = "s\<lparr>ty_db := domain_map i g (ty_db s)\<rparr>"
  note inv = tenant_inv_db [OF assms(1) 2(3)]
  have "progress E X {i} s ?s"
    using inv domain_map_evolves [OF tenant_inv_tables [OF assms(1)] 2(4,5,7)]
      domain_map_verified [OF tenant_inv_tables [OF assms(1)] 2(4,5,7)] by (simp add: progress_def)
  with progress_cache(3) [OF inv] 2(1) show ?thesis by (simp add: progress_trans)
qed

text \<open>The updates that are not a verification verify nothing.\<close>

definition stmt_quiet :: "(uuid \<Rightarrow> tenant_db \<Rightarrow> repo_error + (domain_row \<times> tenant_db)) \<Rightarrow> uuid \<Rightarrow> bool" where
  "stmt_quiet stmt t \<longleftrightarrow> (\<forall>d r' d'. stmt t d = Inr (r', d') \<longrightarrow> verified_ids d' \<subseteq> verified_ids d)"

lemma domain_update_quiet:
  assumes "tenant_inv E X s" and "stmt_keeps E stmt t i" and "stmt_quiet stmt t"
  shows "progress E X {} s (snd (domain_update io t stmt s))"
proof (cases rule: domain_update_cases [OF tenant_inv_tables [OF assms(1)] assms(2), of io])
  case (1 e)
  with assms(1) show ?thesis by (simp add: progress_refl)
next
  case (2 g r)
  have "verified_ids (domain_map i g (ty_db s)) \<subseteq> verified_ids (ty_db s)"
    using assms(3) 2(2) unfolding stmt_quiet_def by blast
  moreover have "ty_db (snd (domain_update io t stmt s)) = domain_map i g (ty_db s)" using 2(1) by simp
  ultimately show ?thesis using domain_update_progress [OF assms(1,2), of io] by (simp add: progress_def)
qed

lemma update_quiet:
  assumes "\<And>d. stmt t d = sql_update_domain t t i (cond d) g d" and "\<And>r. d_verified (g r) = d_verified r"
    and "\<And>r. d_id (g r) = d_id r"
  shows "stmt_quiet stmt t"
  unfolding stmt_quiet_def
proof (intro allI impI)
  fix d r' d' assume "stmt t d = Inr (r', d')"
  then have "sql_update_domain t t i (cond d) g d = Inr (r', d')" by (simp add: assms(1))
  then have "d' = domain_map i g d" by (rule sql_update_domain_Inr)
  then show "verified_ids d' \<subseteq> verified_ids d"
    using assms(2,3) by (force simp: verified_ids_def domain_map_def)
qed

lemma quiet_stmts:
  "stmt_quiet (\<lambda>ctx. sql_MarkDomainVerificationFailed now ctx t i) t"
  "stmt_quiet (\<lambda>ctx. sql_ActivateTenantDomain now ctx t i) t"
  "stmt_quiet (\<lambda>ctx. sql_DeactivateTenantDomain now ctx t i) t"
proof -
  show "stmt_quiet (\<lambda>ctx. sql_MarkDomainVerificationFailed now ctx t i) t"
    unfolding sql_MarkDomainVerificationFailed_def by (rule update_quiet, rule refl) simp_all
  show "stmt_quiet (\<lambda>ctx. sql_ActivateTenantDomain now ctx t i) t"
    unfolding sql_ActivateTenantDomain_def by (rule update_quiet, rule refl) simp_all
  show "stmt_quiet (\<lambda>ctx. sql_DeactivateTenantDomain now ctx t i) t"
    unfolding sql_DeactivateTenantDomain_def by (rule update_quiet, rule refl) simp_all
qed

section \<open>Verification\<close>

text \<open>The domains for which the DNS holds a value that hashes to the stored token.\<close>

definition confirmed :: "tenant_ext \<Rightarrow> (string \<Rightarrow> string list option) \<Rightarrow> tenant_db \<Rightarrow> uuid set" where
  "confirmed E dns d = d_id ` {r \<in> set (tenant_domains d). \<exists>answers answer. dns (''_barber-verify.'' @ d_hostname r) = Some answers \<and>
     answer \<in> set answers \<and> d_token_hash r = Some (te_sha256 E answer)}"

fun flight_ok :: "tenant_ext \<Rightarrow> tenant_db \<Rightarrow> flight \<Rightarrow> bool" where
  "flight_ok E d (FlVerify t i c) \<longleftrightarrow> (\<exists>r \<in> set (tenant_domains d). d_id r = i \<and> d_tenant r = t \<and>
     td_VerificationRecord (vd_Domain c) = ''_barber-verify.'' @ d_hostname r \<and>
     (d_verified r \<or> d_token_hash r = Some (vd_TokenHash c)))"
| "flight_ok E d (FlResolve h r) \<longleftrightarrow> host_normal E h"
| "flight_ok E d (FlSettings st) \<longleftrightarrow> settings_ok E st"
| "flight_ok E d (FlUpdate t st) \<longleftrightarrow> settings_ok E st"

lemma flight_ok_evolve:
  assumes "rows_evolve d d'" and "flight_ok E d fl"
  shows "flight_ok E d' fl"
proof (cases fl)
  case (FlVerify t i c)
  with assms(2) obtain r where r: "r \<in> set (tenant_domains d)" "d_id r = i" "d_tenant r = t"
    "td_VerificationRecord (vd_Domain c) = ''_barber-verify.'' @ d_hostname r" "d_verified r \<or> d_token_hash r = Some (vd_TokenHash c)"
    by auto
  with assms(1) obtain r' where "r' \<in> set (tenant_domains d')" "d_id r' = d_id r" "d_tenant r' = d_tenant r" "d_hostname r' = d_hostname r"
    "d_verified r \<longrightarrow> d_verified r'" "d_verified r' \<or> d_token_hash r' = d_token_hash r"
    unfolding rows_evolve_def by blast
  with r FlVerify show ?thesis by (auto intro!: bexI [of _ r'])
qed (use assms in auto)

lemma newDomain_fields [simp]:
  "td_Verified (newDomain r) = d_verified r" "td_VerificationRecord (newDomain r) = ''_barber-verify.'' @ d_hostname r"
  by (simp_all add: newDomain_def)

lemma candidate_row:
  assumes "tdb_inv E (ty_db s)" and "DomainForVerification io t i s = Inr c" and "\<not> td_Verified (vd_Domain c)"
  shows "flight_ok E (ty_db s) (FlVerify t i c)"
proof -
  let ?fn = "\<lambda>ctx d. case sql_GetTenantDomain ctx t i d of Inl e \<Rightarrow> Inl e
     | Inr r \<Rightarrow> Inr (\<lparr>vd_Domain = newDomain r, vd_TokenHash = (case d_token_hash r of None \<Rightarrow> [] | Some h \<Rightarrow> h)\<rparr>, d)"
  from assms(2) obtain r where r: "r \<in> set (tenant_domains (ty_db s))" "d_tenant r = t" "d_id r = i"
    "c = \<lparr>vd_Domain = newDomain r, vd_TokenHash = (case d_token_hash r of None \<Rightarrow> [] | Some h \<Rightarrow> h)\<rparr>"
    by (cases rule: tenant_tx_cases [of io t ?fn s])
      (auto simp: DomainForVerification_def sql_GetTenantDomain_def split: option.splits dest!: find_SomeD)
  with assms(1,3) have "d_token_hash r = Some (vd_TokenHash c)"
    by (auto simp: tdb_inv_def domain_ok_def split: option.splits)
  moreover have "td_VerificationRecord (vd_Domain c) = ''_barber-verify.'' @ d_hostname r" by (simp add: r(4))
  ultimately show ?thesis using r(1-3) by (auto intro!: bexI [of _ r])
qed

lemma snd_with_zero [simp]: "snd (with_zero x) = snd x"
  by (cases x rule: with_zero.cases) simp_all

lemma verify_complete_state:
  "snd (verify_complete E io t i c s) =
     (if \<exists>answers answer. io_LookupTXT io (td_VerificationRecord (vd_Domain c)) = Some answers \<and> answer \<in> set answers \<and>
           te_sha256 E answer = vd_TokenHash c
      then snd (MarkVerificationSucceeded io t i s) else snd (MarkVerificationFailed io t i s))"
proof -
  have "list_ex (\<lambda>answer. te_sha256 E answer = vd_TokenHash c)
      (case io_LookupTXT io (td_VerificationRecord (vd_Domain c)) of None \<Rightarrow> [] | Some as \<Rightarrow> as) \<longleftrightarrow>
    (\<exists>answers answer. io_LookupTXT io (td_VerificationRecord (vd_Domain c)) = Some answers \<and> answer \<in> set answers \<and>
           te_sha256 E answer = vd_TokenHash c)"
    by (cases "io_LookupTXT io (td_VerificationRecord (vd_Domain c))") (auto simp: list_ex_iff)
  moreover have "snd (case MarkVerificationFailed io t i s of
           (Inr failed, s') \<Rightarrow> (Inl (TErrVerificationFailed, failed), s')
         | (Inl e, s') \<Rightarrow>
             if e = TErrNotFound
             then (case repo_Domain io t i s' of
                     Inr current \<Rightarrow> if td_Verified current then (Inr current, s') else (Inl (e, zero_domain), s')
                   | Inl _ \<Rightarrow> (Inl (e, zero_domain), s'))
             else (Inl (e, zero_domain), s')) = snd (MarkVerificationFailed io t i s)"
    by (auto split: prod.splits sum.splits)
  ultimately show ?thesis by (auto simp: verify_complete_def Let_def)
qed

lemma verify_complete_progress:
  assumes "tenant_inv E X s" and "flight_ok E (ty_db s) (FlVerify t i c)"
  shows "progress E X (confirmed E (io_LookupTXT io) (ty_db s)) s (snd (verify_complete E io t i c s))"
proof (cases "\<exists>answers answer. io_LookupTXT io (td_VerificationRecord (vd_Domain c)) = Some answers \<and> answer \<in> set answers \<and>
           te_sha256 E answer = vd_TokenHash c")
  case True
  from assms(2) obtain r where r: "r \<in> set (tenant_domains (ty_db s))" "d_id r = i"
    "td_VerificationRecord (vd_Domain c) = ''_barber-verify.'' @ d_hostname r"
    "d_verified r \<or> d_token_hash r = Some (vd_TokenHash c)" by auto
  with True have "i \<in> confirmed E (io_LookupTXT io) (ty_db s) \<union> verified_ids (ty_db s)"
    unfolding confirmed_def verified_ids_def by (cases "d_verified r") (force simp del: append.simps)+
  moreover have "progress E X {i} s (snd (MarkVerificationSucceeded io t i s))"
    unfolding MarkVerificationSucceeded_def by (rule domain_update_progress [OF assms(1) mark_succeeded_keeps])
  ultimately show ?thesis using True by (auto simp: verify_complete_state progress_def)
next
  case False
  have "progress E X {} s (snd (MarkVerificationFailed io t i s))"
    unfolding MarkVerificationFailed_def by (rule domain_update_quiet [OF assms(1) mark_failed_keeps quiet_stmts(1)])
  with False show ?thesis by (auto simp: verify_complete_state intro: progress_mono)
qed

lemma VerifyDomain_progress:
  assumes "tenant_inv E X s"
  shows "progress E X (confirmed E (io_LookupTXT io2) (ty_db s)) s (snd (VerifyDomain E X io1 io2 t i s))"
proof -
  have "progress E X (confirmed E (io_LookupTXT io2) (ty_db s)) s (snd (verify_complete E io2 t' i' c s))"
    if "DomainForVerification io1 t' i' s = Inr c" "\<not> td_Verified (vd_Domain c)" for t' i' c
    by (rule verify_complete_progress [OF assms candidate_row [OF tenant_inv_tables [OF assms] that]])
  then show ?thesis
    by (auto simp: VerifyDomain_def progress_refl [OF assms] split: option.splits sum.splits)
qed

section \<open>Every event progresses\<close>

lemma resolving_progress [inv_intros]:
  assumes "tenant_inv E X s"
  shows "progress E X V s (snd (svc_Resolve E io h s))" "progress E X V s (snd (TLSAuthorized E io h s))"
proof -
  have r: "progress E X V s (snd (ResolveDomain io h' s))" if "NormalizeHostname E h = Inr h'" for h'
    by (rule resolve_progress [OF assms that])
  then have "progress E X V s s'" if "NormalizeHostname E h = Inr h'" "ResolveDomain io h' s = (v, s')" for h' v s'
    using that by (metis snd_conv)
  with r progress_refl [OF assms] show "progress E X V s (snd (svc_Resolve E io h s))"
    "progress E X V s (snd (TLSAuthorized E io h s))"
    by (auto simp: svc_Resolve_def TLSAuthorized_def split: sum.splits prod.splits)
qed

lemma svc_Tenant_progress [inv_intros]:
  assumes "tenant_inv E X s"
  shows "progress E X V s (snd (svc_Tenant X io t s))"
proof -
  have "progress E X V s s'" if "repo_Settings X io i s = (v, s')" for i v s'
    using progress_settings [OF assms, of V io i] that by simp
  with progress_refl [OF assms] show ?thesis
    by (auto simp: svc_Tenant_def repo_Tenant_def split: option.splits sum.splits prod.splits)
qed

lemma exec_tenant_progress:
  assumes "tenant_inv E X s"
  shows "progress E X (confirmed E (event_dns (Call op)) (ty_db s)) s (exec_tenant E X op s)"
proof -
  have "progress E X {} s (snd (repo_ActivateDomain io t i s))" "progress E X {} s (snd (repo_DeactivateDomain io t i s))" for io t i
    unfolding repo_ActivateDomain_def repo_DeactivateDomain_def
    by (rule domain_update_quiet [OF assms activate_keeps quiet_stmts(2)],
        rule domain_update_quiet [OF assms deactivate_keeps quiet_stmts(3)])
  then have "progress E X V s (snd (repo_ActivateDomain io t i s))" "progress E X V s (snd (repo_DeactivateDomain io t i s))" for V io t i
    by (blast intro: progress_mono)+
  then show ?thesis using assms VerifyDomain_progress [OF assms]
    by (cases op) (auto simp: inv_intros svc_Settings_def svc_SetTenantStatus_def svc_ActivateDomain_def svc_DeactivateDomain_def
        split: option.splits sum.splits)
qed

definition run_inv :: "tenant_ext \<Rightarrow> externals \<Rightarrow> tsvc_run \<Rightarrow> bool" where
  "run_inv E X c \<longleftrightarrow> tenant_inv E X (tr_sys c) \<and> (\<forall>fl \<in> set (tr_flights c). flight_ok E (ty_db (tr_sys c)) fl)"

lemma begin_request_db: "ty_db (snd (begin_request E X io rq s)) = ty_db s"
proof (cases rq)
  case (RqUpdate t inp)
  then show ?thesis using repo_Settings_db [of X io t s] by (auto split: prod.splits sum.splits)
qed (auto split: sum.splits)

lemma begin_request_ok:
  assumes "tenant_inv E X s" and "begin_request E X io rq s = (fl, s')"
  shows "tenant_inv E X s' \<and> (\<forall>x. fl = Some x \<longrightarrow> flight_ok E (ty_db s') x)"
proof (cases rq)
  case (RqVerify t i)
  with assms candidate_row [OF tenant_inv_tables [OF assms(1)], of io t i] show ?thesis
    by (auto split: sum.splits if_splits)
next
  case (RqResolve host)
  with assms show ?thesis
    by (auto simp: host_normal_def intro: NormalizeHostname_idem split: sum.splits if_splits)
next
  case (RqSettings t)
  with assms settings_query_ok [OF assms(1)] show ?thesis by (auto split: sum.splits if_splits)
next
  case (RqUpdate t inp)
  with assms repo_Settings_inv [OF assms(1), of io t] show ?thesis
    by (auto intro: mergeSettings_ok split: prod.splits sum.splits)
qed

lemma finish_request_progress:
  assumes "tenant_inv E X s" and "flight_ok E (ty_db s) fl"
  shows "progress E X (confirmed E (io_LookupTXT io) (ty_db s)) s (finish_request E X io fl s)"
  using assms verify_complete_progress [OF assms(1)]
  by (cases fl) (auto intro: progress_cache update_settings_progress)

lemma exec_event_progress:
  assumes "run_inv E X c"
  shows "progress E X (confirmed E (event_dns ev) (ty_db (tr_sys c))) (tr_sys c) (tr_sys (exec_event E X ev c))"
proof (cases ev)
  case (Begin io rq)
  obtain fl s' where fl: "begin_request E X io rq (tr_sys c) = (fl, s')" by fastforce
  have "tenant_inv E X s'" "ty_db s' = ty_db (tr_sys c)"
    using assms begin_request_ok [OF _ fl] begin_request_db [of E X io rq "tr_sys c"] fl by (auto simp: run_inv_def)
  then have "progress E X V (tr_sys c) s'" for V by (simp add: progress_same)
  with Begin fl show ?thesis by (auto split: option.splits)
next
  case (Finish io fl)
  with assms finish_request_progress [of E X "tr_sys c" fl io] show ?thesis by (auto simp: run_inv_def progress_refl)
qed (use assms exec_tenant_progress in \<open>auto simp: run_inv_def progress_refl\<close>)

lemma exec_event_inv:
  assumes "run_inv E X c"
  shows "run_inv E X (exec_event E X ev c)"
proof -
  note p = exec_event_progress [OF assms, of ev, unfolded progress_def]
  have kept: "flight_ok E (ty_db (tr_sys (exec_event E X ev c))) fl" if "fl \<in> set (tr_flights c)" for fl
    using flight_ok_evolve p assms that by (auto simp: run_inv_def)
  have "flight_ok E (ty_db (tr_sys (exec_event E X ev c))) fl"
    if "fl \<in> set (tr_flights (exec_event E X ev c))" "fl \<notin> set (tr_flights c)" for fl
  proof (cases ev)
    case (Begin io rq)
    obtain r s' where r: "begin_request E X io rq (tr_sys c) = (r, s')" by fastforce
    with that Begin have "r = Some fl" by (auto split: option.splits)
    with begin_request_ok [OF _ r] assms Begin r show ?thesis by (auto simp: run_inv_def)
  qed (use that in \<open>auto split: if_splits dest: notin_set_remove1 in_set_remove1 set_remove1_subset [THEN subsetD]\<close>)
  with kept p show ?thesis unfolding run_inv_def by blast
qed

lemma tenant_start_inv: "run_inv E X (tenant_start cached)"
  by (auto simp: run_inv_def tenant_start_def tenant_inv_def tdb_inv_def cache_ok_def cache_at_def empty_tenant_db_def)

interpretation tenant_events: invariant_store "exec_event E X" "run_inv E X" "tenant_start cached" for E X cached
  by unfold_locales (auto intro: tenant_start_inv exec_event_inv)

end
