(* ===== verification/Tenant_Policy.thy ===== *)
theory Tenant_Policy
  imports Tenant_Runs
begin

text \<open>
  The properties of tenant-service: settings are always well-formed, a domain becomes verified only by
  the DNS, the cache of resolutions is exact as long as its deletions take effect and requests do not
  overlap, and then a suspension is effective at once. That the overlap matters is \<open>stale_resolution\<close>.
\<close>

section \<open>Settings and verification\<close>

text \<open>
  (C21) Settings are well-formed. Whatever requests ran, completely or interleaved at the points where
  they wait, every row of the settings table satisfies the conditions of validateSettings, and an
  answer of Settings, from the cache or from the table, satisfies them and belongs to the tenant that
  was asked for.
\<close>

theorem settings_well_formed:
  assumes "s = tr_sys (run_ops (exec_event E X) evs (tenant_start cached))"
  shows "(\<forall>r \<in> set (tenant_settings (ty_db s)). settings_ok E (settingsFrom r)) \<and>
    (\<forall>io t st s'. repo_Settings X io t s = (Inr st, s') \<longrightarrow> settings_ok E st \<and> st_TenantID st = t)"
proof -
  have "tenant_inv E X s"
    using tenant_events.invar_reachable [of E X evs cached] assms by (simp add: run_inv_def)
  then show ?thesis using repo_Settings_ok by (auto simp: tenant_inv_def tdb_inv_def)
qed

text \<open>
  (C17) Only the DNS verifies a domain. If an event, in any interleaved run, makes an unverified domain
  verified, then the event completed a verification, and the TXT record of the domain as that
  completion saw it held a value whose SHA-256 hash is the token hash stored for the domain.
\<close>

theorem verified_by_dns:
  assumes "c = run_ops (exec_event E X) evs (tenant_start cached)"
    and "r \<in> set (tenant_domains (ty_db (tr_sys c)))" and "\<not> d_verified r"
    and "r' \<in> set (tenant_domains (ty_db (tr_sys (exec_event E X ev c))))" and "d_id r' = d_id r" and "d_verified r'"
  shows "\<exists>answers answer. event_dns ev (''_barber-verify.'' @ d_hostname r) = Some answers \<and>
    answer \<in> set answers \<and> d_token_hash r = Some (te_sha256 E answer)"
proof -
  have inv: "run_inv E X c" unfolding assms(1) by (rule tenant_events.invar_reachable)
  then have same: "x = r" if "x \<in> set (tenant_domains (ty_db (tr_sys c)))" "d_id x = d_id r" for x
    using row_of_id that assms(2) by (metis run_inv_def tenant_inv_tables)
  from assms(4,6) have "d_id r' \<in> verified_ids (ty_db (tr_sys (exec_event E X ev c)))"
    unfolding verified_ids_def by blast
  then have "d_id r \<in> verified_ids (ty_db (tr_sys (exec_event E X ev c)))" using assms(5) by simp
  then have "d_id r \<in> verified_ids (ty_db (tr_sys c)) \<union> confirmed E (event_dns ev) (ty_db (tr_sys c))"
    using exec_event_progress [OF inv, of ev] unfolding progress_def by blast
  moreover have "d_id r \<notin> verified_ids (ty_db (tr_sys c))"
    using same assms(3) unfolding verified_ids_def by force
  ultimately obtain x where "x \<in> set (tenant_domains (ty_db (tr_sys c)))" "d_id x = d_id r"
    "\<exists>answers answer. event_dns ev (''_barber-verify.'' @ d_hostname x) = Some answers \<and> answer \<in> set answers \<and>
       d_token_hash x = Some (te_sha256 E answer)"
    unfolding confirmed_def by force
  with same show ?thesis by blast
qed

section \<open>The cache of resolutions\<close>

definition coherent :: "tenant_sys \<Rightarrow> bool" where
  "coherent s \<longleftrightarrow> (\<forall>h r e. cache_at s (domainCacheKey h) = Some (CachedResolution r, e) \<longrightarrow>
     resolve_verified_domain h (ty_db s) = Some r)"

text \<open>The deletions of a request take effect.\<close>

fun dels_work :: "tenant_op \<Rightarrow> bool" where
  "dels_work (OpStatus io t status actor req) \<longleftrightarrow> (\<forall>k. io_del_ok io k)"
| "dels_work (OpVerify io1 io2 t i) \<longleftrightarrow> (\<forall>k. io_del_ok io2 k)"
| "dels_work (OpActivate io1 io2 t i) \<longleftrightarrow> (\<forall>k. io_del_ok io2 k)"
| "dels_work (OpDeactivate io t i) \<longleftrightarrow> (\<forall>k. io_del_ok io k)"
| "dels_work op \<longleftrightarrow> True"

definition same_answers :: "tenant_sys \<Rightarrow> tenant_sys \<Rightarrow> bool" where
  "same_answers s s' \<longleftrightarrow> (\<forall>h. cache_at s' (domainCacheKey h) = cache_at s (domainCacheKey h) \<and>
     resolve_verified_domain h (ty_db s') = resolve_verified_domain h (ty_db s))"

lemma coherent_same: "coherent s \<Longrightarrow> same_answers s s' \<Longrightarrow> coherent s'"
  by (simp add: coherent_def same_answers_def)

lemma same_refl: "same_answers s s"
  by (simp add: same_answers_def)

lemma same_trans: "same_answers a b \<Longrightarrow> same_answers b c \<Longrightarrow> same_answers a c"
  by (simp add: same_answers_def)

lemma same_cacheSettings: "same_answers s (cacheSettings X io st s)"
  by (simp add: same_answers_def cacheSettings_def cache_at_set)

lemma same_settings: "same_answers s (snd (repo_Settings X io t s))"
  by (cases rule: repo_Settings_cases [of X io t s]) (auto intro: same_refl same_cacheSettings)

lemma resolve_same_tables:
  "tenants d' = tenants d \<Longrightarrow> tenant_domains d' = tenant_domains d \<Longrightarrow>
   resolve_verified_domain h d' = resolve_verified_domain h d"
  by (simp add: resolve_verified_domain_def tenant_active_def)

lemma same_update:
  assumes "tenant_inv E X s" and "settings_ok E st"
  shows "same_answers s (snd (repo_UpdateSettings X io t st s))"
proof (cases rule: tenant_tx_cases [of io t "\<lambda>ctx d. case sql_UpdateTenantSettings ctx (settings_params t st) d of
         Inl e \<Rightarrow> Inl e | Inr (r, d') \<Rightarrow> Inr (settingsFrom r, d')" s])
  case (1 e)
  then show ?thesis by (simp add: repo_UpdateSettings_def same_refl)
next
  case (2 v d)
  then obtain r where r: "sql_UpdateTenantSettings t (settings_params t st) (ty_db s) = Inr (r, d)"
    by (auto split: sum.splits)
  note u = update_settings_inv [OF tenant_inv_tables [OF assms(1)] r assms(2)]
  have "same_answers s (s\<lparr>ty_db := d\<rparr>)" using resolve_same_tables [OF u(3,4)] by (simp add: same_answers_def)
  from same_trans [OF this same_cacheSettings] 2(3) show ?thesis by (simp add: repo_UpdateSettings_def)
qed

lemma same_svc_update:
  assumes "tenant_inv E X s"
  shows "same_answers s (snd (svc_UpdateSettings E X io1 io2 t inp s))"
proof (cases "uuid_Parse X t")
  case (Some i)
  obtain res s1 where s1: "repo_Settings X io1 i s = (res, s1)" by fastforce
  have p1: "same_answers s s1" and inv: "tenant_inv E X s1"
    using same_settings [of s X io1 i] repo_Settings_inv [OF assms, of io1 i] s1 by simp_all
  have "same_answers s1 (snd (repo_UpdateSettings X io2 i st s1))" if "mergeSettings E current inp = Inr st" for current st
    by (rule same_update [OF inv mergeSettings_ok [OF that]])
  with p1 Some s1 show ?thesis by (auto simp: svc_UpdateSettings_def intro: same_trans split: sum.splits)
qed (simp add: svc_UpdateSettings_def same_refl)

lemma find_cong_set: "(\<And>x. x \<in> set xs \<Longrightarrow> P x = Q x) \<Longrightarrow> find P xs = find Q xs"
  by (induction xs) auto

lemma same_create_tenant:
  assumes "tenant_inv E X s"
  shows "same_answers s (snd (svc_CreateTenant E X io inp s))"
proof -
  have "same_answers s (snd (repo_CreateTenant X io name st s))" if "settings_ok E st" for name st
  proof (cases rule: repo_CreateTenant_cases [OF tenant_inv_tables [OF assms] that, of X io name])
    case (1 e)
    then show ?thesis by (simp add: same_refl)
  next
    case (2 v r row)
    let ?d = "(ty_db s)\<lparr>tenants := tenants (ty_db s) @ [r], tenant_settings := tenant_settings (ty_db s) @ [row]\<rparr>"
    have active: "tenant_active ?d (d_tenant x) = tenant_active (ty_db s) (d_tenant x)"
      if "x \<in> set (tenant_domains (ty_db s))" for x
    proof -
      have "d_tenant x \<in> t_id ` set (tenants (ty_db s))" using assms that by (simp add: tenant_inv_def tdb_inv_def)
      then have "t_id r \<noteq> d_tenant x" using 2(4) by metis
      then show ?thesis by (simp add: tenant_active_def)
    qed
    have domains: "tenant_domains ?d = tenant_domains (ty_db s)" by simp
    have "resolve_verified_domain h ?d = resolve_verified_domain h (ty_db s)" for h
      unfolding resolve_verified_domain_def domains
      by (intro arg_cong [where f = "map_option _"] find_cong_set conj_cong refl active)
    then have "same_answers s (s\<lparr>ty_db := ?d\<rparr>)" by (simp add: same_answers_def)
    from same_trans [OF this same_cacheSettings] 2(1) show ?thesis by simp
  qed
  then show ?thesis
    by (auto simp: svc_CreateTenant_def Let_def same_refl intro: normalizeSettings_ok split: sum.splits)
qed

lemma same_create_domain:
  assumes "tenant_inv E X s"
  shows "same_answers s (snd (svc_CreateDomain E X io t inp s))"
proof -
  have "same_answers s s'" if "NormalizeHostname E h0 = Inr h" "repo_CreateDomain io i h ty tok s = (v, s')" for h0 h i ty tok v s'
  proof -
    have "host_normal E h" unfolding host_normal_def by (rule NormalizeHostname_idem [OF that(1)])
    from repo_CreateDomain_cases [OF tenant_inv_tables [OF assms] this, of io i ty tok] show ?thesis
    proof cases
      case (2 w r)
      then show ?thesis using that(2)
        by (auto simp: same_answers_def resolve_verified_domain_def tenant_active_def find_append split: option.splits)
    qed (use that(2) in \<open>auto simp: same_refl\<close>)
  qed
  then show ?thesis
    by (auto simp: svc_CreateDomain_def same_refl split: option.splits sum.splits prod.splits)
qed

section \<open>Resolution, updates and suspension\<close>

lemma coherent_resolve:
  assumes "coherent s"
  shows "coherent (snd (ResolveDomain io h s))"
proof (cases "\<exists>r. resolve_query io h s = Inr r \<and> cache_get io (domainCacheKey h) s = None")
  case True
  then obtain r where r: "resolve_query io h s = Inr r" "cache_get io (domainCacheKey h) s = None" by blast
  then have "resolve_verified_domain h (ty_db s) = Some r"
    by (auto simp: resolve_query_def pool_query_def split: if_splits option.splits)
  with assms r show ?thesis
    by (auto simp: ResolveDomain_def coherent_def resolve_store_def cache_at_set)
next
  case False
  with assms show ?thesis by (auto simp: ResolveDomain_def split: option.splits sum.splits)
qed

lemma find_map_untouched:
  "(\<And>x. x \<in> set xs \<Longrightarrow> f x \<noteq> x \<Longrightarrow> \<not> P x \<and> \<not> P (f x)) \<Longrightarrow> find P (map f xs) = find P xs"
proof (induction xs)
  case (Cons x xs)
  then show ?case by (cases "f x = x") auto
qed simp

lemma coherent_domain_update:
  assumes "tenant_inv E X s" and "coherent s" and "stmt_keeps E stmt t i" and "\<forall>k. io_del_ok io k"
  shows "coherent (snd (domain_update io t stmt s))"
proof (cases rule: domain_update_cases [OF tenant_inv_tables [OF assms(1)] assms(3), of io])
  case (1 e)
  with assms(2) show ?thesis by simp
next
  case (2 g r)
  have rows: "x = r" if "x \<in> set (tenant_domains (ty_db s))" "d_id x = i" for x
    using row_of_id [OF tenant_inv_tables [OF assms(1)] that(1) 2(4)] that(2) 2(5) by simp
  have active: "tenant_active (domain_map i g (ty_db s)) = tenant_active (ty_db s)"
    by (rule ext) (simp add: tenant_active_def domain_map_def)
  have same: "resolve_verified_domain h (domain_map i g (ty_db s)) = resolve_verified_domain h (ty_db s)"
    if "ToLower h \<noteq> d_hostname r" for h
  proof -
    let ?P = "\<lambda>x. d_hostname x = ToLower h \<and> d_verified x \<and> d_active x \<and> tenant_active (ty_db s) (d_tenant x)"
    have "find ?P (map (\<lambda>x. if d_id x = i then g x else x) (tenant_domains (ty_db s))) = find ?P (tenant_domains (ty_db s))"
    proof (rule find_map_untouched)
      fix x assume "x \<in> set (tenant_domains (ty_db s))" "(if d_id x = i then g x else x) \<noteq> x"
      then have "d_id x = i" "x = r" using rows by (auto split: if_splits)
      then show "\<not> ?P x \<and> \<not> ?P (if d_id x = i then g x else x)" using that 2(7) by (simp add: keeps_row_def)
    qed
    then show ?thesis unfolding resolve_verified_domain_def active by (simp add: domain_map_def)
  qed
  have "resolve_verified_domain h (domain_map i g (ty_db s)) = Some v"
    if e: "cache_at s (domainCacheKey h) = Some (CachedResolution v, e)" and h: "h \<noteq> d_hostname r" for h v e
  proof -
    have "entry_ok E X (domainCacheKey h) (CachedResolution v)" using assms(1) e by (auto simp: tenant_inv_def cache_ok_def)
    then have "ToLower h = h" by (auto simp: entry_ok_def host_normal_def dest: NormalizeHostname_lower)
    with same [of h] h assms(2) e show ?thesis by (simp add: coherent_def)
  qed
  with 2(1) assms(4) show ?thesis
    by (auto simp: coherent_def invalidateDomain_def cache_at_del split: if_splits)
qed

lemma cache_at_invalidate_all:
  "\<forall>k. io_del_ok io k \<Longrightarrow> cache_at (fold (invalidateDomain io) hs s) (domainCacheKey h) =
     (if h \<in> set hs then None else cache_at s (domainCacheKey h))"
  by (induction hs arbitrary: s) (auto simp: invalidateDomain_def cache_at_del)

lemma invalidate_all_db: "ty_db (fold (invalidateDomain io) hs s) = ty_db s"
  by (induction hs arbitrary: s) auto

lemma coherent_status:
  assumes "tenant_inv E X s" and "coherent s" and "\<forall>k. io_del_ok io k"
  shows "coherent (snd (repo_SetTenantStatus io t status actor req s))"
proof (cases rule: repo_SetTenantStatus_cases [of io t status actor req s])
  case (1 e)
  with assms(2) show ?thesis by simp
next
  case (2 r hs d)
  note k = set_status_inv [OF tenant_inv_tables [OF assms(1)] 2(1)]
  have active: "tenant_active d t' = tenant_active (ty_db s) t'" if "t' \<noteq> t" for t'
    using that by (auto simp: tenant_active_def k(3) list_ex_iff)
  have "resolve_verified_domain h d = Some v"
    if e: "cache_at s (domainCacheKey h) = Some (CachedResolution v, e)" and h: "h \<notin> set hs" for h v e
  proof -
    have "entry_ok E X (domainCacheKey h) (CachedResolution v)" using assms(1) e by (auto simp: tenant_inv_def cache_ok_def)
    then have low: "ToLower h = h" by (auto simp: entry_ok_def host_normal_def dest: NormalizeHostname_lower)
    have "d_tenant x \<noteq> t" if "x \<in> set (tenant_domains (ty_db s))" "d_hostname x = h" for x
      using h that by (auto simp: k(4))
    then have "resolve_verified_domain h d = resolve_verified_domain h (ty_db s)"
      unfolding resolve_verified_domain_def k(2) low
      by (intro arg_cong [where f = "map_option _"] find_cong_set) (auto simp: active)
    with assms(2) e show ?thesis by (simp add: coherent_def)
  qed
  with 2(2) show ?thesis
    by (auto simp: coherent_def cache_at_invalidate_all [OF assms(3)] invalidate_all_db split: if_splits)
qed

lemma coherent_verify:
  assumes "tenant_inv E X s" and "coherent s" and "\<forall>k. io_del_ok io2 k"
  shows "coherent (snd (VerifyDomain E X io1 io2 t i s))"
proof -
  have "coherent (snd (MarkVerificationSucceeded io2 t' i' s))" "coherent (snd (MarkVerificationFailed io2 t' i' s))" for t' i'
    unfolding MarkVerificationSucceeded_def MarkVerificationFailed_def
    by (rule coherent_domain_update [OF assms(1,2) mark_succeeded_keeps assms(3)],
        rule coherent_domain_update [OF assms(1,2) mark_failed_keeps assms(3)])
  then have "coherent (snd (verify_complete E io2 t' i' c s))" for t' i' c by (simp add: verify_complete_state)
  with assms(2) show ?thesis by (auto simp: VerifyDomain_def split: option.splits sum.splits)
qed

lemma coherent_resolving:
  assumes "coherent s"
  shows "coherent (snd (svc_Resolve E io h s))" "coherent (snd (TLSAuthorized E io h s))"
proof -
  have "coherent s'" if "ResolveDomain io h' s = (v, s')" for h' v s'
    using coherent_resolve [OF assms, of io h'] that by simp
  with assms coherent_resolve [OF assms] show "coherent (snd (svc_Resolve E io h s))" "coherent (snd (TLSAuthorized E io h s))"
    by (auto simp: svc_Resolve_def TLSAuthorized_def split: sum.splits prod.splits)
qed

lemma coherent_exec:
  assumes "tenant_inv E X s" and "coherent s" and "dels_work op"
  shows "coherent (exec_tenant E X op s)"
proof -
  note same = coherent_same [OF assms(2)]
  have settings: "coherent s'" if "repo_Settings X io i s = (v, s')" for io i v s'
    using same [OF same_settings, of X io i] that by simp
  have activation: "coherent (snd (repo_ActivateDomain io t i s))" "coherent (snd (repo_DeactivateDomain io t i s))"
    if "\<forall>k. io_del_ok io k" for io t i
    unfolding repo_ActivateDomain_def repo_DeactivateDomain_def
    by (rule coherent_domain_update [OF assms(1,2) activate_keeps that],
        rule coherent_domain_update [OF assms(1,2) deactivate_keeps that])
  show ?thesis
  proof (cases op)
    case (OpSettings io t)
    with assms(2) same [OF same_settings] show ?thesis by (auto simp: svc_Settings_def split: option.splits)
  next
    case (OpTenant io t)
    with assms(2) settings show ?thesis
      by (auto simp: svc_Tenant_def repo_Tenant_def split: option.splits sum.splits prod.splits)
  next
    case (OpStatus io t status actor req)
    with assms coherent_status [OF assms(1,2), of io] show ?thesis by (auto simp: svc_SetTenantStatus_def split: option.splits)
  next
    case (OpActivate io1 io2 t i)
    with assms activation show ?thesis by (auto simp: svc_ActivateDomain_def split: option.splits sum.splits)
  next
    case (OpDeactivate io t i)
    with assms activation show ?thesis by (auto simp: svc_DeactivateDomain_def split: option.splits)
  qed (use assms coherent_resolving coherent_verify same same_svc_update same_create_tenant same_create_domain in auto)
qed

section \<open>Sequential runs\<close>

definition tenant_sys_start :: "bool \<Rightarrow> tenant_sys" where
  "tenant_sys_start cached = tr_sys (tenant_start cached)"

lemma tenant_sys_start_inv: "tenant_inv E X (tenant_sys_start cached) \<and> coherent (tenant_sys_start cached)"
  using tenant_start_inv [of E X cached]
  by (auto simp: tenant_sys_start_def run_inv_def coherent_def tenant_start_def cache_at_def)

interpretation tenant_ops: invariant_store "exec_tenant E X" "tenant_inv E X" "tenant_sys_start cached" for E X cached
  using exec_tenant_progress tenant_sys_start_inv by unfold_locales (auto simp: progress_def)

lemma run_coherent:
  "list_all dels_work ops \<Longrightarrow> coherent (run_ops (exec_tenant E X) ops (tenant_sys_start cached))"
  using tenant_ops.stable_run [where P = coherent and Q = dels_work, OF coherent_exec] tenant_sys_start_inv by blast

lemma coherent_answer:
  assumes "tenant_inv E X s" and "coherent s" and "ResolveDomain io h s = (Inr r, s')"
  shows "resolve_verified_domain h (ty_db s) = Some r"
proof (cases "cache_get io (domainCacheKey h) s")
  case None
  with assms(3) show ?thesis
    by (auto simp: ResolveDomain_def resolve_query_def pool_query_def split: sum.splits if_splits option.splits)
next
  case (Some v)
  then obtain e where e: "cache_at s (domainCacheKey h) = Some (v, e)" using cache_get_at by blast
  with assms(1) have "entry_ok E X (domainCacheKey h) v" by (auto simp: tenant_inv_def cache_ok_def)
  then obtain r' where "v = CachedResolution r'" by (cases v) (auto simp: entry_ok_def)
  with e Some assms(2,3) show ?thesis by (auto simp: ResolveDomain_def coherent_def)
qed

lemma resolve_uncached:
  assumes "tenant_inv E X s" and "coherent s" and "io_pool_ok io"
  shows "fst (ResolveDomain io h s) = fst (ResolveDomain io h (s\<lparr>ty_cache := None\<rparr>))"
proof (cases "resolve_verified_domain h (ty_db s)")
  case None
  have "\<nexists>r. fst (ResolveDomain io h s) = Inr r"
    using coherent_answer [OF assms(1,2)] None by (metis option.distinct(1) prod.collapse)
  then have "cache_get io (domainCacheKey h) s = None" by (auto simp: ResolveDomain_def split: option.splits)
  then show ?thesis by (simp add: ResolveDomain_def resolve_query_def cache_get_def split: sum.splits)
next
  case (Some r)
  have "\<exists>r'. fst (ResolveDomain io h s) = Inr r'"
    using Some assms(3) by (auto simp: ResolveDomain_def resolve_query_def pool_query_def split: option.splits)
  then have "fst (ResolveDomain io h s) = Inr r"
    using coherent_answer [OF assms(1,2)] Some by (metis option.inject prod.collapse)
  with Some assms(3) show ?thesis by (simp add: ResolveDomain_def resolve_query_def pool_query_def cache_get_def)
qed

text \<open>
  (C18) The cache is transparent. After any sequence of requests whose invalidations reached Redis, while
  reads and writes of the cache may have failed at will and entries may have expired or not, a
  resolution and a TLS authorization answer as they would without a cache.
\<close>

theorem resolution_exact:
  assumes "s = run_ops (exec_tenant E X) ops (tenant_sys_start cached)" and "list_all dels_work ops" and "io_pool_ok io"
  shows "fst (svc_Resolve E io h s) = fst (svc_Resolve E io h (s\<lparr>ty_cache := None\<rparr>)) \<and>
    fst (TLSAuthorized E io h s) = fst (TLSAuthorized E io h (s\<lparr>ty_cache := None\<rparr>))"
proof -
  have "tenant_inv E X s" "coherent s"
    unfolding assms(1) by (rule tenant_ops.invar_reachable, rule run_coherent [OF assms(2)])
  note eq = resolve_uncached [OF this assms(3)]
  have tls: "fst (case p of (Inl e, s') \<Rightarrow> if e = TErrNotFound then (Inr False, s') else (Inl e, s') | (Inr _, s') \<Rightarrow> (Inr True, s')) =
      (case fst p of Inl e \<Rightarrow> if e = TErrNotFound then Inr False else Inl e | Inr (_ :: domain_resolution) \<Rightarrow> Inr True)"
    for p :: "(tenant_error + domain_resolution) \<times> tenant_sys"
    by (auto split: prod.splits sum.splits)
  show ?thesis using eq by (auto simp: svc_Resolve_def TLSAuthorized_def tls split: sum.splits)
qed

text \<open>The requests that activate a tenant, and a tenant that exists and is not active.\<close>

fun activates :: "externals \<Rightarrow> uuid \<Rightarrow> tenant_op \<Rightarrow> bool" where
  "activates X i (OpStatus io t status actor req) \<longleftrightarrow> status = ''active'' \<and> uuid_Parse X t = Some i"
| "activates X i op \<longleftrightarrow> False"

definition closed_tenant :: "uuid \<Rightarrow> tenant_db \<Rightarrow> bool" where
  "closed_tenant i d \<longleftrightarrow> i \<in> t_id ` set (tenants d) \<and> \<not> tenant_active d i"

lemma closed_same: "tenants d' = tenants d \<Longrightarrow> closed_tenant i d \<Longrightarrow> closed_tenant i d'"
  by (simp add: closed_tenant_def tenant_active_def)

lemma closed_domain_update:
  assumes "tenant_inv E X s" and "stmt_keeps E stmt t j" and "closed_tenant i (ty_db s)"
  shows "closed_tenant i (ty_db (snd (domain_update io t stmt s)))"
  using domain_update_cases [OF tenant_inv_tables [OF assms(1)] assms(2), of io] assms(3)
  by cases (auto simp: domain_map_def intro: closed_same)

lemma closed_status:
  assumes "tenant_inv E X s" and "closed_tenant i (ty_db s)" and "t = i \<Longrightarrow> status \<noteq> ''active''"
  shows "closed_tenant i (ty_db (snd (repo_SetTenantStatus io t status actor req s)))"
proof (cases rule: repo_SetTenantStatus_cases [of io t status actor req s])
  case (2 r hs d)
  have "tenants d = map (\<lambda>x. if t_id x = t then x\<lparr>t_status := status\<rparr> else x) (tenants (ty_db s))"
    by (rule set_status_inv(3) [OF tenant_inv_tables [OF assms(1)] 2(1)])
  moreover from this have "map t_id (tenants d) = map t_id (tenants (ty_db s))" by simp
  then have "t_id ` set (tenants d) = t_id ` set (tenants (ty_db s))" by (metis list.set_map)
  ultimately have "closed_tenant i d"
    using assms(2,3) by (auto simp: closed_tenant_def tenant_active_def list_ex_iff)
  then show ?thesis using 2(2) by (simp add: invalidate_all_db)
qed (use assms(2) in simp)

lemma closed_create:
  assumes "tenant_inv E X s" and "closed_tenant i (ty_db s)" and "settings_ok E st"
  shows "closed_tenant i (ty_db (snd (repo_CreateTenant X io name st s)))"
proof (cases rule: repo_CreateTenant_cases [OF tenant_inv_tables [OF assms(1)] assms(3), of X io name])
  case (2 v r row)
  then have "t_id r \<noteq> i" using assms(2) by (auto simp: closed_tenant_def)
  with 2(1) assms(2) show ?thesis by (auto simp: closed_tenant_def tenant_active_def)
qed (use assms(2) in simp)

lemma closed_svc_create:
  assumes "tenant_inv E X s" and "closed_tenant i (ty_db s)"
  shows "closed_tenant i (ty_db (snd (svc_CreateTenant E X io inp s)))"
  using assms(2) closed_create [OF assms normalizeSettings_ok]
  by (auto simp: svc_CreateTenant_def Let_def split: sum.splits)

lemma closed_svc_create_domain:
  assumes "tenant_inv E X s" and "closed_tenant i (ty_db s)"
  shows "closed_tenant i (ty_db (snd (svc_CreateDomain E X io t inp s)))"
proof -
  have "closed_tenant i (ty_db s')" if "NormalizeHostname E h0 = Inr h" "repo_CreateDomain io j h ty tok s = (v, s')"
    for h0 h j ty tok v s'
  proof -
    have "host_normal E h" unfolding host_normal_def by (rule NormalizeHostname_idem [OF that(1)])
    from repo_CreateDomain_cases [OF tenant_inv_tables [OF assms(1)] this, of io j ty tok] that(2) assms(2)
    show ?thesis by cases (auto intro: closed_same)
  qed
  with assms(2) show ?thesis by (auto simp: svc_CreateDomain_def split: option.splits sum.splits prod.splits)
qed

lemma closed_svc_update:
  assumes "tenant_inv E X s" and "closed_tenant i (ty_db s)"
  shows "closed_tenant i (ty_db (snd (svc_UpdateSettings E X io1 io2 t inp s)))"
proof (cases "uuid_Parse X t")
  case (Some j)
  obtain res s1 where s1: "repo_Settings X io1 j s = (res, s1)" by fastforce
  have db: "ty_db s1 = ty_db s" and inv: "tenant_inv E X s1"
    using repo_Settings_db [of X io1 j s] repo_Settings_inv [OF assms(1), of io1 j] s1 by simp_all
  have "closed_tenant i (ty_db (snd (repo_UpdateSettings X io2 j st s1)))" if "mergeSettings E current inp = Inr st" for current st
    using tenant_tx_cases [of io2 j "\<lambda>ctx d. case sql_UpdateTenantSettings ctx (settings_params j st) d of
         Inl e \<Rightarrow> Inl e | Inr (r, d') \<Rightarrow> Inr (settingsFrom r, d')" s1]
  proof cases
    case (2 v d)
    then obtain r where "sql_UpdateTenantSettings j (settings_params j st) (ty_db s1) = Inr (r, d)" by (auto split: sum.splits)
    from update_settings_inv(3) [OF tenant_inv_tables [OF inv] this mergeSettings_ok [OF that]] 2(3) assms(2) db
    show ?thesis by (auto simp: repo_UpdateSettings_def intro: closed_same)
  qed (use assms(2) db in \<open>simp add: repo_UpdateSettings_def\<close>)
  with Some s1 assms(2) db show ?thesis by (auto simp: svc_UpdateSettings_def split: sum.splits)
qed (use assms(2) in \<open>simp add: svc_UpdateSettings_def\<close>)

lemma closed_exec:
  assumes "tenant_inv E X s" and "closed_tenant i (ty_db s)" and "\<not> activates X i op"
  shows "closed_tenant i (ty_db (exec_tenant E X op s))"
proof -
  note kept = assms(2) closed_domain_update [OF assms(1) _ assms(2)]
  have resolve: "ty_db (snd (ResolveDomain io h s)) = ty_db s" for io h
    by (auto simp: ResolveDomain_def split: option.splits sum.splits)
  have settings: "ty_db s' = ty_db s" if "repo_Settings X io j s = (v, s')" for io j v s'
    using repo_Settings_db [of X io j s] that by simp
  have verify: "closed_tenant i (ty_db (snd (verify_complete E io t j c s)))" for io t j c
    using kept(2) [OF mark_succeeded_keeps] kept(2) [OF mark_failed_keeps]
    by (simp add: verify_complete_state MarkVerificationSucceeded_def MarkVerificationFailed_def)
  show ?thesis
  proof (cases op)
    case (OpResolve io h)
    with assms(2) resolve show ?thesis by (auto simp: svc_Resolve_def split: sum.splits)
  next
    case (OpTLS io h)
    have "closed_tenant i (ty_db s')" if "ResolveDomain io h' s = (v, s')" for h' v s'
      using resolve [of io h'] that assms(2) by simp
    with OpTLS assms(2) show ?thesis by (auto simp: TLSAuthorized_def split: sum.splits prod.splits)
  next
    case (OpSettings io t)
    with assms(2) show ?thesis by (auto simp: svc_Settings_def repo_Settings_db split: option.splits)
  next
    case (OpTenant io t)
    with assms(2) settings show ?thesis
      by (auto simp: svc_Tenant_def repo_Tenant_def split: option.splits sum.splits prod.splits)
  next
    case (OpStatus io t status actor req)
    with assms closed_status [OF assms(1,2), of _ status io] show ?thesis
      by (auto simp: svc_SetTenantStatus_def split: option.splits)
  next
    case (OpVerify io1 io2 t j)
    with assms(2) verify show ?thesis by (auto simp: VerifyDomain_def split: option.splits sum.splits)
  next
    case (OpActivate io1 io2 t j)
    with kept(1) kept(2) [OF activate_keeps] show ?thesis
      by (auto simp: svc_ActivateDomain_def repo_ActivateDomain_def split: option.splits sum.splits)
  next
    case (OpDeactivate io t j)
    with kept(1) kept(2) [OF deactivate_keeps] show ?thesis
      by (auto simp: svc_DeactivateDomain_def repo_DeactivateDomain_def split: option.splits)
  qed (use assms(1,2) closed_svc_update closed_svc_create closed_svc_create_domain in auto)
qed

lemma suspended_closed:
  assumes "tenant_inv E X s" and "svc_SetTenantStatus X io t ''suspended'' actor req s = (Inr v, s')"
  shows "closed_tenant (tn_ID v) (ty_db s')"
proof -
  from assms(2) obtain i where i: "repo_SetTenantStatus io i ''suspended'' (TrimSpace actor) (TrimSpace req) s = (Inr v, s')"
    by (auto simp: svc_SetTenantStatus_def split: option.splits if_splits)
  from repo_SetTenantStatus_cases [of io i "''suspended''" "TrimSpace actor" "TrimSpace req" s] show ?thesis
  proof cases
    case (2 x hs d)
    then have x: "t_id x = i" "x \<in> set (tenants d)"
      by (auto simp: set_status_tx_def split: option.splits if_splits dest!: find_SomeD)
    have v: "v = tenant_of x zero_settings" "ty_db s' = d" using 2(2) i by (auto simp: invalidate_all_db)
    have "\<not> tenant_active d i"
      unfolding tenant_active_def set_status_inv(3) [OF tenant_inv_tables [OF assms(1)] 2(1)]
        list_ex_iff set_map bex_simps by (intro ballI) simp
    moreover have "tn_ID v = i" using x(1) by (simp add: v tenant_of_def)
    moreover have "i \<in> t_id ` set (tenants d)" using x by blast
    ultimately show ?thesis by (simp add: v(2) closed_tenant_def)
  qed (use i in simp)
qed

text \<open>
  (C19) A suspension takes effect at once and lasts. Consider a run in which requests are served one after
  another and every invalidation reaches Redis (reads and writes of the cache may fail at will). When
  the suspension of a tenant has been answered, and after any further requests none of which activates
  the tenant again, no hostname resolves to the tenant, whether the answer comes from the cache or from
  the database. For requests that overlap this fails, see stale_resolution.
\<close>

theorem suspension_effective:
  assumes "s = run_ops (exec_tenant E X) ops (tenant_sys_start cached)" and "list_all dels_work ops"
    and "svc_SetTenantStatus X io t ''suspended'' actor req s = (Inr v, s')" and "\<forall>k. io_del_ok io k"
    and "list_all dels_work later" and "list_all (\<lambda>op. \<not> activates X (tn_ID v) op) later"
    and "svc_Resolve E io' host (run_ops (exec_tenant E X) later s') = (Inr r, s'')"
  shows "dr_TenantID r \<noteq> tn_ID v"
proof
  assume same: "dr_TenantID r = tn_ID v"
  let ?s = "run_ops (exec_tenant E X) later s'"
  have inv: "tenant_inv E X s" unfolding assms(1) by (rule tenant_ops.invar_reachable)
  have s': "s' = exec_tenant E X (OpStatus io t ''suspended'' actor req) s" using assms(3) by simp
  then have all: "?s = run_ops (exec_tenant E X) (ops @ OpStatus io t ''suspended'' actor req # later) (tenant_sys_start cached)"
    by (simp add: assms(1) run_ops_append)
  have inv': "tenant_inv E X ?s" "coherent ?s"
    unfolding all by (rule tenant_ops.invar_reachable, rule run_coherent) (use assms(2,4,5) in simp)
  have "tenant_inv E X s'" unfolding s' by (rule tenant_ops.invar_exec [OF inv])
  from tenant_ops.stable_run [where P = "\<lambda>s. closed_tenant (tn_ID v) (ty_db s)" and Q = "\<lambda>op. \<not> activates X (tn_ID v) op",
      OF closed_exec this suspended_closed [OF inv assms(3)] assms(6)]
  have "\<not> tenant_active (ty_db ?s) (tn_ID v)" by (simp add: closed_tenant_def)
  moreover from assms(7) obtain h where "ResolveDomain io' h ?s = (Inr r, s'')"
    by (auto simp: svc_Resolve_def split: sum.splits)
  then have "resolve_verified_domain h (ty_db ?s) = Some r" by (rule coherent_answer [OF inv'])
  ultimately show False using same by (auto simp: resolve_verified_domain_def dest!: find_SomeD)
qed

section \<open>Overlapping requests\<close>

lemma run_calls_flights: "tr_flights (run_ops (exec_event E X) (map Call ops) c) = tr_flights c"
  by (induction ops arbitrary: c) auto

text \<open>
  (C20) An overlapping resolution restores a stale answer. A resolution that has read the database is under
  way while other requests run, for instance the suspension of the tenant with all its
  invalidations. When it then stores what it read, that answer is served for the hostname until the entry
  expires, whatever the database holds.
\<close>

theorem stale_resolution:
  assumes "FlResolve h r \<in> set (tr_flights c)" and "c' = run_ops (exec_event E X) (map Call ops) c"
    and "ty_cache (tr_sys c') \<noteq> None" and "io_set_ok io" and "NormalizeHostname E host = Inr h"
    and "io_get_ok io'" and "io_now io' < io_now io + cache_ttl"
  shows "fst (svc_Resolve E io' host (tr_sys (exec_event E X (Finish io (FlResolve h r)) c'))) = Inr r"
proof -
  have "FlResolve h r \<in> set (tr_flights c')" using assms(1,2) by (simp add: run_calls_flights)
  then have "tr_sys (exec_event E X (Finish io (FlResolve h r)) c') = resolve_store io h r (tr_sys c')" by simp
  moreover have "cache_get io' (domainCacheKey h) (resolve_store io h r (tr_sys c')) = Some (CachedResolution r)"
    using assms(3,4,6,7) by (auto simp: resolve_store_def cache_set_def cache_get_def)
  ultimately show ?thesis using assms(5) by (simp add: svc_Resolve_def ResolveDomain_def)
qed

end
