(* ===== verification/Gateway_Tenant.thy ===== *)
theory Gateway_Tenant
  imports Gateway Tenant_Policy
begin

text \<open>
  The gateway and tenant-service together: the resolver of the gateway is answered by the route
  \<^verbatim>\<open>/internal/v1/domains/resolve\<close> of tenant-service, over a transport that may fail.
\<close>

section \<open>Where the context of a request comes from\<close>

definition carries :: "out_req \<Rightarrow> string \<Rightarrow> string \<Rightarrow> bool" where
  "carries req t app \<longleftrightarrow> (TenantIDHeader, t) \<in> set (oq_Header req) \<and> (AppTypeHeader, app) \<in> set (oq_Header req)"

lemma header_names:
  "InternalHeaderName \<noteq> TenantIDHeader" "RequestIDHeader \<noteq> TenantIDHeader" "AppTypeHeader \<noteq> TenantIDHeader"
  "TenantIDHeader \<noteq> AppTypeHeader" "TenantIDHeader \<noteq> ''Content-Type''" "TenantIDHeader \<noteq> ''Cookie''" "TenantIDHeader \<noteq> ''Idempotency-Key''"
  "TenantIDHeader \<noteq> ''X-Customer-ID''" "TenantIDHeader \<noteq> ''X-Customer-Session''" "TenantIDHeader \<noteq> ''X-Platform-Actor''"
  "TenantIDHeader \<notin> set frontend_headers" "TenantIDHeader \<noteq> InternalHeaderName" "TenantIDHeader \<noteq> RequestIDHeader"
  by code_simp+

lemma optional_header_in: "(k, v) \<in> set (optional_header k' v') \<Longrightarrow> k = k'"
  by (simp add: optional_header_def split: if_splits)

lemma session_check_customer:
  assumes "(k, v) \<in> set (fst (session_check h r c))"
  shows "k = ''X-Customer-ID''"
proof -
  have "fst (session_check h r c) = [] \<or> (\<exists>i. fst (session_check h r c) = optional_header ''X-Customer-ID'' i)"
    unfolding session_check_def Let_def
    by (simp split: if_split up_result.split option.split) blast
  with assms show ?thesis by (auto dest: optional_header_in)
qed

lemma session_check_context:
  assumes "req \<in> set (snd (session_check h r c))" and "(TenantIDHeader, t) \<in> set (oq_Header req)"
  shows "t = rn_TenantID r \<and> carries req t (rn_AppType r)"
proof -
  from assms(1) have "oq_Header req = [(InternalHeaderName, g_token h), (TenantIDHeader, rn_TenantID r), (AppTypeHeader, rn_AppType r),
      (''X-Customer-Session'', session_cookie c)]"
    by (auto simp: session_check_def Let_def split: if_splits)
  with assms(2) show ?thesis using header_names by (auto simp: carries_def)
qed

lemma health_no_context: "q \<in> set (snd (health_entry h e)) \<Longrightarrow> oq_Header q = []"
  by (cases e) (auto simp: health_entry_def get_request_def Let_def split: if_splits)

lemma context_in: "(TenantIDHeader, t) \<in> set (context_headers h r c) \<longleftrightarrow> t = rn_TenantID r"
  "(AppTypeHeader, rn_AppType r) \<in> set (context_headers h r c)"
  by (auto simp: context_headers_def header_names)

lemma context_carried:
  assumes "oq_Header req = context_headers h r c @ rest" and "(TenantIDHeader, t) \<in> set (oq_Header req)"
    and "\<And>x. (TenantIDHeader, x) \<notin> set rest"
  shows "t = rn_TenantID r \<and> carries req t (rn_AppType r)"
  using assms by (auto simp: carries_def context_in)

lemma auth_context:
  assumes "req \<in> set (snd (fst (gw_auth h cell c)))" and "(TenantIDHeader, t) \<in> set (oq_Header req)"
  obtains r where "Resolver_Resolve (g_resolver h) (hostname c) = Inr r" "t = rn_TenantID r" "carries req t (rn_AppType r)"
proof (cases "Resolver_Resolve (g_resolver h) (hostname c)")
  case (Inl e)
  with assms(1) show thesis by (cases e) (auto simp: gw_auth_def)
next
  case (Inr r)
  with assms(1) have "oq_Header req = context_headers h r c @ [(''Content-Type'', gc_Get c ''Content-Type'')] @
      optional_header ''Cookie'' (gc_Get c ''Cookie'')"
    by (auto simp: gw_auth_def Let_def split: if_splits)
  from context_carried [OF this assms(2)] have "t = rn_TenantID r \<and> carries req t (rn_AppType r)"
    using header_names(5,6) by (auto dest: optional_header_in)
  with Inr that show thesis by blast
qed

lemma proxy_context:
  assumes "req \<in> set (snd (gw_proxy h base path appType c))" and "(TenantIDHeader, t) \<in> set (oq_Header req)"
  obtains r where "Resolver_Resolve (g_resolver h) (hostname c) = Inr r" "t = rn_TenantID r" "carries req t (rn_AppType r)"
proof (cases "Resolver_Resolve (g_resolver h) (hostname c)")
  case (Inl e)
  with assms(1) show thesis by (cases e) (auto simp: gw_proxy_def)
next
  case (Inr r)
  obtain customer checks where sc: "(if base = g_appointmentURL h \<and> is_prefix ''/internal/v1/public/appointments'' path
      then session_check h r c else ([], [])) = (customer, checks)" by fastforce
  have customer: "(TenantIDHeader, x) \<notin> set customer" for x
    using sc session_check_customer [of TenantIDHeader x h r c] header_names(8) by (auto split: if_splits)
  have checks: "q \<in> set checks \<Longrightarrow> (TenantIDHeader, t) \<in> set (oq_Header q) \<Longrightarrow> t = rn_TenantID r \<and> carries q t (rn_AppType r)" for q
    using sc session_check_context [of q h r c t] by (auto split: if_splits)
  have "t = rn_TenantID r \<and> carries req t (rn_AppType r)"
    using assms Inr checks customer optional_header_in header_names(5-7) context_in
    unfolding gw_proxy_def by (auto simp: sc Let_def carries_def split: if_splits)
  with Inr that show thesis by blast
qed

lemma serve_context:
  assumes "req \<in> set (snd (fst (gw_serve h n c st)))" and "(TenantIDHeader, t) \<in> set (oq_Header req)"
  obtains r where "Resolver_Resolve (g_resolver h) (hostname c) = Inr r" "t = rn_TenantID r" "carries req t (rn_AppType r)"
proof (cases "gw_route_at n")
  case (RPlatform path)
  with assms that show thesis
    by (auto simp: gw_serve_def platformProxy_def Let_def header_names split: if_splits)
next
  case (RPlatformService base path)
  with assms that show thesis
    by (auto simp: gw_serve_def platformServiceProxy_def Let_def header_names split: if_splits)
next
  case RHealth
  with assms health_no_context show thesis
    by (fastforce simp: gw_serve_def platformHealth_def Let_def split: if_splits)
next
  case RConfig
  with assms that show thesis
    by (auto simp: gw_serve_def gw_config_def Let_def context_in carries_def split: if_splits sum.splits resolve_error.splits)
next
  case (RAuth path)
  with assms(1) have "req \<in> set (snd (fst (gw_auth h (st n) c)))" by (simp add: gw_serve_def split: prod.splits)
  with assms(2) that show thesis by (blast elim: auth_context)
next
  case (RProxy base path appType)
  with assms(1) have "req \<in> set (snd (gw_proxy h (base h) path appType c))" by (simp add: gw_serve_def)
  with assms(2) that show thesis by (blast elim: proxy_context)
next
  case RFrontend
  with assms that optional_header_in header_names(11) show thesis
    by (auto simp: gw_serve_def gw_frontend_def Let_def split: if_splits sum.splits resolve_error.splits)
qed

section \<open>The resolver answered by tenant-service\<close>

text \<open>The request of the resolver as tenant-service receives it, and its answer.\<close>

definition resolve_ctx :: "resolver \<Rightarrow> string \<Rightarrow> fiber_ctx" where
  "resolve_ctx rs host = \<lparr>c_Get = (\<lambda>k. if k = InternalHeaderName then rs_token rs else []), c_Params = (\<lambda>_. []),
     c_Query = (\<lambda>k. if k = ''hostname'' then host else []), c_Body = []\<rparr>"

definition as_response :: "('a \<Rightarrow> string) \<Rightarrow> 'a response \<Rightarrow> http_resp" where
  "as_response enc r = (case r of SendStatus code \<Rightarrow> Response code [] | JSON code v \<Rightarrow> Response code (enc v)
     | JSONError code msg \<Rightarrow> Response code msg)"

text \<open>
  The transport delivers a request to the route and its answer back, or fails; decoding the text of a
  resolution gives its fields, the identifier in its text form.
\<close>

definition resolver_served :: "resolver \<Rightarrow> (domain_resolution \<Rightarrow> string) \<Rightarrow> tenant_handler \<Rightarrow> tenant_io \<Rightarrow> tenant_sys \<Rightarrow> bool" where
  "resolver_served rs enc th io s \<longleftrightarrow>
     (\<forall>host. let answer = rs_Do rs \<lparr>hr_method = ''GET'', hr_url = resolve_url rs host,
                hr_headers = [(InternalHeaderName, rs_token rs)]\<rparr>
        in (\<exists>e. answer = TransportError e) \<or> answer = as_response enc (fst (h_resolve th io (resolve_ctx rs host) s))) \<and>
     (\<forall>r. rs_decode rs (enc r) = Some \<lparr>rn_TenantID = uuid_String (th_X th) (dr_TenantID r), rn_AppType = dr_AppType r\<rparr>)"

lemma served_resolution:
  assumes "resolver_served rs enc th io s" and "Resolver_Resolve rs host = Inr v"
  obtains r s' where "svc_Resolve (th_E th) io host s = (Inr r, s')"
    "v = \<lparr>rn_TenantID = uuid_String (th_X th) (dr_TenantID r), rn_AppType = dr_AppType r\<rparr>"
proof -
  let ?req = "\<lparr>hr_method = ''GET'', hr_url = resolve_url rs host, hr_headers = [(InternalHeaderName, rs_token rs)]\<rparr>"
  from assms(2) obtain body where body: "rs_Do rs ?req = Response 200 body" "rs_decode rs body = Some v"
    by (auto simp: Resolver_Resolve_def split: if_splits http_resp.splits option.splits)
  with assms(1) have "as_response enc (fst (h_resolve th io (resolve_ctx rs host) s)) = Response 200 body"
    unfolding resolver_served_def Let_def by (metis http_resp.distinct(1))
  then obtain r where r: "fst (h_resolve th io (resolve_ctx rs host) s) = JSON 200 r" "body = enc r"
    by (cases "svc_Resolve (th_E th) io host s"; cases "fst (svc_Resolve (th_E th) io host s)")
      (auto simp: as_response_def h_resolve_def resolve_ctx_def split: if_splits response.splits)
  then obtain s' where "svc_Resolve (th_E th) io host s = (Inr r, s')"
    by (cases "svc_Resolve (th_E th) io host s"; cases "fst (svc_Resolve (th_E th) io host s)")
      (auto simp: h_resolve_def resolve_ctx_def split: if_splits)
  with that body(2) r(2) assms(1) show thesis by (simp add: resolver_served_def)
qed

text \<open>
  (C22) A request is bound to the tenant of its hostname. Whenever the gateway, on any route, sends a private
  service a request with a tenant context, there is a domain in the tables of tenant-service that is
  verified and activated, of a tenant that is active, whose hostname is the normal form of the one the
  browser asked for, and the context carries exactly that tenant and the type of that domain. This
  holds after any sequence of control-plane requests that were served one after another and whose
  cache invalidations all reached Redis; after overlapping requests, or a lost invalidation, the cache
  may still name a tenant that is no longer active.
\<close>

theorem gateway_tenant_bound:
  assumes "s = run_ops (exec_tenant (th_E th) X) ops (tenant_sys_start cached)" and "list_all dels_work ops"
    and "resolver_served (g_resolver h) enc th io s"
    and "req \<in> set (snd (fst (gw_serve h n c st)))" and "(TenantIDHeader, t) \<in> set (oq_Header req)"
  shows "\<exists>d \<in> set (tenant_domains (ty_db s)). d_verified d \<and> d_active d \<and> tenant_active (ty_db s) (d_tenant d) \<and>
    NormalizeHostname (th_E th) (hostname c) = Inr (d_hostname d) \<and> t = uuid_String (th_X th) (d_tenant d) \<and> carries req t (d_type d)"
proof -
  have inv: "tenant_inv (th_E th) X s" "coherent s"
    unfolding assms(1) by (rule tenant_ops.invar_reachable, rule run_coherent [OF assms(2)])
  from assms(4,5) obtain v where v: "Resolver_Resolve (g_resolver h) (hostname c) = Inr v" "t = rn_TenantID v"
    "carries req t (rn_AppType v)" by (rule serve_context)
  from assms(3) v(1) obtain r s' where r: "svc_Resolve (th_E th) io (hostname c) s = (Inr r, s')"
    "v = \<lparr>rn_TenantID = uuid_String (th_X th) (dr_TenantID r), rn_AppType = dr_AppType r\<rparr>" by (rule served_resolution)
  then obtain host where host: "NormalizeHostname (th_E th) (hostname c) = Inr host" "ResolveDomain io host s = (Inr r, s')"
    by (auto simp: svc_Resolve_def split: sum.splits)
  from coherent_answer [OF inv host(2)] NormalizeHostname_lower [OF host(1)]
  obtain d where "d \<in> set (tenant_domains (ty_db s))" "d_hostname d = host" "d_verified d" "d_active d"
    "tenant_active (ty_db s) (d_tenant d)" "r = \<lparr>dr_TenantID = d_tenant d, dr_AppType = d_type d\<rparr>"
    by (auto simp: resolve_verified_domain_def dest!: find_SomeD)
  with v r(2) host(1) show ?thesis by auto
qed

end
