(* ===== verification/Tenant_Examples.thy ===== *)
theory Tenant_Examples
  imports Tenant_Policy
begin

text \<open>
  Concrete runs of tenant-service: a shop is created, registers a domain, proves it by a TXT record and
  activates it; the shop is suspended, without and with a resolution under way.
\<close>

definition tx_E :: tenant_ext where
  "tx_E = \<lparr>te_LoadLocation = (\<lambda>z. z = ''Europe/Istanbul'' \<or> z = ''UTC''), te_ParseIP = (\<lambda>_. False), te_ToLower = (\<lambda>s. s),
     te_sha256 = (\<lambda>s. CHR ''h'' # s), te_allowLocalhost = False\<rparr>"

definition tx_X :: externals where
  "tx_X = \<lparr>uuid_String = (\<lambda>u. replicate (unat u) (CHR ''1'')), uuid_Parse = (\<lambda>s. Some (word_of_nat (length s))),
     mail_ParseAddress = (\<lambda>s. Some s), sha256_hex = (\<lambda>s. s), json_strings = concat, rfc3339nano = (\<lambda>_. [])\<rparr>"

definition tx_io :: "nat \<Rightarrow> tenant_io" where
  "tx_io n = \<lparr>io_now = 1000 * int n, io_get_ok = True, io_set_ok = True, io_del_ok = (\<lambda>_. True), io_pool_ok = True,
     io_tx = NoFault, io_id = word_of_nat n, io_audit_id = word_of_nat n, io_token = Some ''tok'',
     io_LookupTXT = (\<lambda>name. if name = ''_barber-verify.shop.example'' then Some [''spf'', ''barber-verify=tok''] else None)\<rparr>"

definition tx_tenant :: string where
  "tx_tenant = ''1111111''"

definition tx_domain :: string where
  "tx_domain = ''11111111''"

definition tx_create :: tenant_op where
  "tx_create = OpCreateTenant (tx_io 7) \<lparr>ct_Name = '' Shop '', ct_Settings = zero_settings\<rparr>"

definition tx_register :: tenant_op where
  "tx_register = OpCreateDomain (tx_io 8) tx_tenant \<lparr>cd_Hostname = ''Shop.Example.'', cd_DomainType = ''booking''\<rparr>"

definition tx_verify :: tenant_op where
  "tx_verify = OpVerify (tx_io 9) (tx_io 10) tx_tenant tx_domain"

definition tx_activate :: tenant_op where
  "tx_activate = OpActivate (tx_io 11) (tx_io 12) tx_tenant tx_domain"

definition tx_suspend :: tenant_op where
  "tx_suspend = OpStatus (tx_io 20) tx_tenant ''suspended'' ''root'' ''req''"

lemmas tx_ops = tx_create_def tx_register_def tx_verify_def tx_activate_def tx_suspend_def

text \<open>The domain is open: registered, verified, activated, and resolved once, so that the answer is cached.\<close>

definition tx_open :: "tenant_op list" where
  "tx_open = [tx_create, tx_register, tx_verify, tx_activate, OpResolve (tx_io 13) ''SHOP.example'']"

definition tx_sys :: tenant_sys where
  "tx_sys = run_ops (exec_tenant tx_E tx_X) tx_open (tenant_sys_start True)"

lemma tx_open_dels: "list_all dels_work tx_open"
  by (simp add: tx_open_def tx_ops tx_io_def)

lemma sum_Inr: "(case fst p of Inl _ \<Rightarrow> False | Inr v \<Rightarrow> v = w) \<Longrightarrow> p = (Inr w, snd p)"
  by (cases p) (auto split: sum.splits)

theorem settings_well_formed_witness:
  "\<exists>st s'. repo_Settings tx_X (tx_io 14) 7 (tr_sys (run_ops (exec_event tx_E tx_X) [Call tx_create] (tenant_start True))) = (Inr st, s') \<and>
     settings_ok tx_E st \<and> st_TenantID st = 7"
proof -
  let ?s = "tr_sys (run_ops (exec_event tx_E tx_X) [Call tx_create] (tenant_start True))"
  have "repo_Settings tx_X (tx_io 14) 7 ?s = (Inr (DefaultSettings\<lparr>st_TenantID := 7\<rparr>), snd (repo_Settings tx_X (tx_io 14) 7 ?s))"
    by (rule sum_Inr) code_simp
  with settings_well_formed [OF refl, of tx_E tx_X "[Call tx_create]" True] show ?thesis by blast
qed

text \<open>A verification that is completed after the domain was read, with the TXT record published.\<close>

definition tx_pending :: tsvc_run where
  "tx_pending = run_ops (exec_event tx_E tx_X) [Call tx_create, Call tx_register, Begin (tx_io 9) (RqVerify 7 8)] (tenant_start True)"

theorem verified_by_dns_witness:
  "let c = tx_pending; ev = Finish (tx_io 10) (hd (tr_flights tx_pending)) in
   \<exists>r r' answers. tenant_domains (ty_db (tr_sys c)) = [r] \<and> \<not> d_verified r \<and>
     tenant_domains (ty_db (tr_sys (exec_event tx_E tx_X ev c))) = [r'] \<and> d_verified r' \<and>
     event_dns ev ''_barber-verify.shop.example'' = Some answers \<and>
     (\<exists>answer \<in> set answers. d_token_hash r = Some (te_sha256 tx_E answer))"
proof -
  let ?ev = "Finish (tx_io 10) (hd (tr_flights tx_pending))"
  let ?d = "tenant_domains (ty_db (tr_sys tx_pending))" and ?d' = "tenant_domains (ty_db (tr_sys (exec_event tx_E tx_X ?ev tx_pending)))"
  let ?r = "hd ?d" and ?r' = "hd ?d'"
  have r: "length ?d = 1" "\<not> d_verified ?r" "d_hostname ?r = ''shop.example''" by code_simp+
  have r': "length ?d' = 1" "d_verified ?r'" "d_id ?r' = d_id ?r" by code_simp+
  have in_d: "?r \<in> set ?d" "?d = [?r]" using r(1) by (cases ?d; simp)+
  have in_d': "?r' \<in> set ?d'" "?d' = [?r']" using r'(1) by (cases ?d'; simp)+
  from verified_by_dns [OF tx_pending_def in_d(1) r(2) in_d'(1) r'(3,2)] r(3) in_d(2) in_d'(2) r(2) r'(2)
  show ?thesis unfolding Let_def by fastforce
qed

theorem resolution_exact_witness:
  "fst (svc_Resolve tx_E (tx_io 14) ''shop.example'' tx_sys) = Inr \<lparr>dr_TenantID = 7, dr_AppType = ''booking''\<rparr> \<and>
   fst (svc_Resolve tx_E (tx_io 14) ''shop.example'' (tx_sys\<lparr>ty_cache := None\<rparr>)) = Inr \<lparr>dr_TenantID = 7, dr_AppType = ''booking''\<rparr>"
proof -
  have "svc_Resolve tx_E (tx_io 14) ''shop.example'' tx_sys =
      (Inr \<lparr>dr_TenantID = 7, dr_AppType = ''booking''\<rparr>, snd (svc_Resolve tx_E (tx_io 14) ''shop.example'' tx_sys))"
    by (rule sum_Inr) code_simp
  then have "fst (svc_Resolve tx_E (tx_io 14) ''shop.example'' tx_sys) = Inr \<lparr>dr_TenantID = 7, dr_AppType = ''booking''\<rparr>"
    by (metis fst_conv)
  moreover have "io_pool_ok (tx_io 14)" by (simp add: tx_io_def)
  ultimately show ?thesis using resolution_exact [OF tx_sys_def tx_open_dels, of "tx_io 14" "''shop.example''"] by simp
qed

text \<open>
  Two shops with a domain each; the first is suspended, and the second keeps resolving.
\<close>

definition tx_two :: "tenant_op list" where
  "tx_two = tx_open @ [OpCreateTenant (tx_io 3) \<lparr>ct_Name = ''Other'', ct_Settings = zero_settings\<rparr>,
     OpCreateDomain (tx_io 4) ''111'' \<lparr>cd_Hostname = ''other.example'', cd_DomainType = ''admin''\<rparr>,
     OpVerify (tx_io 15) ((tx_io 15)\<lparr>io_LookupTXT := (\<lambda>_. Some [''barber-verify=tok''])\<rparr>) ''111'' ''1111'',
     OpActivate (tx_io 16) (tx_io 17) ''111'' ''1111'']"

definition tx_sys2 :: tenant_sys where
  "tx_sys2 = run_ops (exec_tenant tx_E tx_X) tx_two (tenant_sys_start True)"

theorem suspension_effective_witness:
  "\<exists>v s' r s''. svc_SetTenantStatus tx_X (tx_io 20) tx_tenant ''suspended'' ''root'' ''req'' tx_sys2 = (Inr v, s') \<and>
     svc_Resolve tx_E (tx_io 21) ''other.example'' (run_ops (exec_tenant tx_E tx_X) [OpResolve (tx_io 20) ''shop.example''] s') = (Inr r, s'') \<and>
     tn_ID v = 7 \<and> dr_TenantID r \<noteq> 7"
proof -
  let ?S = "svc_SetTenantStatus tx_X (tx_io 20) tx_tenant ''suspended'' ''root'' ''req'' tx_sys2"
  let ?v = "\<lparr>tn_ID = 7, tn_Name = ''Shop'', tn_Status = ''suspended'', tn_CreatedAt = 7000, tn_Settings = zero_settings\<rparr>"
  let ?later = "[OpResolve (tx_io 20) ''shop.example'']"
  let ?R = "svc_Resolve tx_E (tx_io 21) ''other.example'' (run_ops (exec_tenant tx_E tx_X) ?later (snd ?S))"
  let ?r = "\<lparr>dr_TenantID = 3, dr_AppType = ''admin''\<rparr>"
  have S: "?S = (Inr ?v, snd ?S)" by (rule sum_Inr) code_simp
  have R: "?R = (Inr ?r, snd ?R)" by (rule sum_Inr) code_simp
  have dels: "list_all dels_work tx_two" "\<forall>k. io_del_ok (tx_io 20) k"
    using tx_open_dels by (simp_all add: tx_two_def tx_io_def)
  have "dr_TenantID ?r \<noteq> tn_ID ?v" 
    by (rule suspension_effective [OF tx_sys2_def dels(1) S dels(2) _ _ R]) simp_all
  with S R show ?thesis by fastforce
qed

text \<open>
  The overlap that \<open>suspension_effective\<close> excludes. A resolution reads the database, the tenant is suspended
  and its hostnames are deleted from the cache, and then the resolution stores what it read: the
  suspended tenant resolves until the entry expires.
\<close>

definition tx_reading :: tsvc_run where
  "tx_reading = run_ops (exec_event tx_E tx_X)
     (map Call [tx_create, tx_register, tx_verify, tx_activate] @ [Begin (tx_io 13) (RqResolve ''shop.example'')]) (tenant_start True)"

definition tx_suspended :: tsvc_run where
  "tx_suspended = run_ops (exec_event tx_E tx_X) (map Call [tx_suspend]) tx_reading"

theorem stale_resolution_witness:
  "map t_status (tenants (ty_db (tr_sys tx_suspended))) = [''suspended''] \<and>
   resolve_verified_domain ''shop.example'' (ty_db (tr_sys tx_suspended)) = None \<and>
   fst (svc_Resolve tx_E (tx_io 22) ''shop.example'' (tr_sys (exec_event tx_E tx_X
      (Finish (tx_io 21) (FlResolve ''shop.example'' \<lparr>dr_TenantID = 7, dr_AppType = ''booking''\<rparr>)) tx_suspended))) =
     Inr \<lparr>dr_TenantID = 7, dr_AppType = ''booking''\<rparr>"
proof -
  let ?r = "\<lparr>dr_TenantID = 7, dr_AppType = ''booking''\<rparr>"
  have "length (tr_flights tx_reading) = 1 \<and>
      (case hd (tr_flights tx_reading) of FlResolve h r \<Rightarrow> h = ''shop.example'' \<and> r = ?r | _ \<Rightarrow> False)" by code_simp
  then have fl: "FlResolve ''shop.example'' ?r \<in> set (tr_flights tx_reading)"
    by (cases "tr_flights tx_reading") (auto split: flight.splits)
  have "(case ty_cache (tr_sys tx_suspended) of None \<Rightarrow> False | Some _ \<Rightarrow> True)" by code_simp
  then have cached: "ty_cache (tr_sys tx_suspended) \<noteq> None" by (auto split: option.splits)
  have host: "NormalizeHostname tx_E ''shop.example'' = Inr ''shop.example''" by code_simp
  have "map t_status (tenants (ty_db (tr_sys tx_suspended))) = [''suspended'']"
    "resolve_verified_domain ''shop.example'' (ty_db (tr_sys tx_suspended)) = None" by code_simp+
  moreover have io: "io_set_ok (tx_io 21)" "io_get_ok (tx_io 22)" "io_now (tx_io 22) < io_now (tx_io 21) + cache_ttl" by code_simp+
  have "fst (svc_Resolve tx_E (tx_io 22) ''shop.example'' (tr_sys (exec_event tx_E tx_X
      (Finish (tx_io 21) (FlResolve ''shop.example'' ?r)) tx_suspended))) = Inr ?r"
    by (rule stale_resolution [OF fl tx_suspended_def cached io(1) host io(2,3)])
  ultimately show ?thesis by blast
qed

end
