(* ===== verification/Gateway_Examples.thy ===== *)
theory Gateway_Examples
  imports Gateway_Tenant Tenant_Examples
begin

text \<open>
  Concrete requests at the gateway: a browser that forges context headers, two requests for different
  members, and a booking page of the shop of the tenant-service examples.
\<close>

section \<open>An admin host\<close>

definition gx_resolver :: resolver where
  "gx_resolver = \<lparr>rs_baseURL = ''http://tenant'', rs_token = ''secret'', rs_valid = (\<lambda>_. True), rs_Do = (\<lambda>_. Response 200 []),
     rs_decode = (\<lambda>_. Some \<lparr>rn_TenantID = ''1111111'', rn_AppType = ''admin''\<rparr>)\<rparr>"

definition gx_gateway :: "resolver \<Rightarrow> gateway" where
  "gx_gateway rs = \<lparr>g_resolver = rs, g_tenantURL = ''http://tenant'', g_authURL = ''http://auth'', g_barberURL = ''http://barber'',
     g_catalogURL = ''http://catalog'', g_schedulingURL = ''http://scheduling'', g_appointmentURL = ''http://appointment'',
     g_notificationURL = ''http://notification'', g_customerURL = ''http://customer'', g_token = ''secret'',
     g_adminWebURL = ''http://admin-web'', g_bookingWebURL = ''http://booking-web'', g_platformToken = ''platform'',
     g_Do = (\<lambda>_. UpResponse 200 [] (Some ''ok'')), g_valid = (\<lambda>_ _. True), g_customer_id = (\<lambda>_. None), g_ParseFloat = (\<lambda>_. None)\<rparr>"

definition gx_ctx :: "string \<Rightarrow> string \<Rightarrow> gw_ctx" where
  "gx_ctx host member = \<lparr>gc_Method = ''PATCH'', gc_Path = [], gc_OriginalURL = [], gc_Hostname = host, gc_Get = (\<lambda>_. []),
     gc_Params = (\<lambda>k. if k = ''id'' then member else []), gc_RawQuery = [], gc_Cookies = (\<lambda>_. []), gc_Body = [], gc_Locals = Some ''r''\<rparr>"

text \<open>The route \<^verbatim>\<open>PATCH /api/v1/admin/members/:id/role\<close>.\<close>

definition gx_role :: nat where
  "gx_role = 33"

lemma gx_role_route: "gw_route_at gx_role = RAuth (''/members/'' @ '':id'' @ ''/role'')"
proof -
  have "(case gw_route_at gx_role of RAuth p \<Rightarrow> p = ''/members/'' @ '':id'' @ ''/role'' | _ \<Rightarrow> False)" by code_simp
  then show ?thesis by (simp split: gw_route.splits)
qed

theorem client_context_ignored_witness:
  "gw_serve (gx_gateway gx_resolver) gx_role ((gx_ctx ''shop.example'' ''a'')\<lparr>gc_Get := (\<lambda>k. if k = TenantIDHeader then ''forged'' else [])\<rparr>) gw_start =
   gw_serve (gx_gateway gx_resolver) gx_role (gx_ctx ''shop.example'' ''a'') gw_start"
  by (rule client_context_ignored) (auto simp: gx_ctx_def context_header_names_def)

text \<open>The change of the role of member b, after one of member a, is sent for member a.\<close>

theorem auth_path_sticks_witness:
  "map oq_URL (snd (fst (gw_serve (gx_gateway gx_resolver) gx_role (gx_ctx ''shop.example'' ''b'')
      (snd (gw_serve (gx_gateway gx_resolver) gx_role (gx_ctx ''shop.example'' ''a'') gw_start))))) =
   [''http://auth/internal/v1/auth/members/a/role'']"
proof -
  let ?h = "gx_gateway gx_resolver"
  let ?st = "gw_run ?h [] (snd (gw_serve ?h gx_role (gx_ctx ''shop.example'' ''a'') gw_start))"
  let ?sent = "snd (fst (gw_serve ?h gx_role (gx_ctx ''shop.example'' ''b'') ?st))"
  have "Resolver_Resolve (g_resolver ?h) (hostname (gx_ctx ''shop.example'' ''a'')) = Inr \<lparr>rn_TenantID = ''1111111'', rn_AppType = ''admin''\<rparr>"
    by (simp add: Resolver_Resolve_def gx_gateway_def gx_resolver_def)
  note sticks = auth_path_sticks [OF gx_role_route _ _ this _ _ _ refl, of "''a''" _ "gx_ctx ''shop.example'' ''b''"]
  have "oq_URL req = ''http://auth/internal/v1/auth/members/a/role''" if "req \<in> set ?sent" for req
    using sticks [OF _ _ _ _ _ that] by (simp add: gx_ctx_def gx_gateway_def)
  moreover have "length ?sent = 1" unfolding gw_run_def by code_simp
  ultimately have "map oq_URL ?sent = [''http://auth/internal/v1/auth/members/a/role'']"
    by (cases ?sent) auto
  then show ?thesis by (simp add: gw_run_def)
qed

section \<open>The shop of the tenant-service examples\<close>

definition gx_tenants :: tenant_handler where
  "gx_tenants = \<lparr>th_E = tx_E, th_X = tx_X, th_verify = TokenVerifier_Verify ''secret'',
     th_admin = \<lparr>ac_baseURL = [], ac_token = [], ac_Do = (\<lambda>_. TransportError []), ac_decode = (\<lambda>_. None)\<rparr>,
     th_decode_update = (\<lambda>_. None), th_decode_tenant = (\<lambda>_. None), th_decode_domain = (\<lambda>_. None)\<rparr>"

definition gx_enc :: "domain_resolution \<Rightarrow> string" where
  "gx_enc r = uuid_String tx_X (dr_TenantID r) @ '':'' @ dr_AppType r"

definition gx_dec :: "string \<Rightarrow> resolution option" where
  "gx_dec body = Some \<lparr>rn_TenantID = takeWhile (\<lambda>c. c = CHR ''1'') body, rn_AppType = tl (dropWhile (\<lambda>c. c = CHR ''1'') body)\<rparr>"

definition gx_wired :: resolver where
  "gx_wired = gx_resolver\<lparr>rs_decode := gx_dec, rs_Do := (\<lambda>req.
     if hr_url req = ''http://tenant/internal/v1/domains/resolve?hostname=shop.example''
     then as_response gx_enc (fst (h_resolve gx_tenants (tx_io 30) (resolve_ctx gx_resolver ''shop.example'') tx_sys))
     else TransportError ''unreachable'')\<rparr>"

lemma gx_dec_enc: "gx_dec (gx_enc r) = Some \<lparr>rn_TenantID = uuid_String tx_X (dr_TenantID r), rn_AppType = dr_AppType r\<rparr>"
  by (simp add: gx_dec_def gx_enc_def tx_X_def takeWhile_append dropWhile_append)

lemma QueryEscape_plain:
  "list_all (\<lambda>c. c \<noteq> CHR ''%'' \<and> c \<noteq> CHR ''+'') (QueryEscape h) \<Longrightarrow> QueryEscape h = h"
  by (induction h) (auto simp: QueryEscape_def query_char_def Let_def split: if_splits)

lemma gx_served: "resolver_served gx_wired gx_enc gx_tenants (tx_io 30) tx_sys"
proof -
  have "host = ''shop.example''" if "QueryEscape host = ''shop.example''" for host
    using QueryEscape_plain [of host] that by simp
  moreover have token: "rs_token gx_wired = rs_token gx_resolver" by (simp add: gx_wired_def)
  then have "resolve_ctx gx_wired host = resolve_ctx gx_resolver host" for host
    unfolding resolve_ctx_def token by simp
  moreover have "resolve_url gx_wired host = ''http://tenant/internal/v1/domains/resolve?hostname='' @ QueryEscape host" for host
    by (simp add: resolve_url_def gx_wired_def gx_resolver_def)
  moreover have "rs_Do gx_wired req = (if hr_url req = ''http://tenant/internal/v1/domains/resolve?hostname='' @ ''shop.example''
     then as_response gx_enc (fst (h_resolve gx_tenants (tx_io 30) (resolve_ctx gx_resolver ''shop.example'') tx_sys))
     else TransportError ''unreachable'')" for req
    by (simp add: gx_wired_def)
  moreover have "rs_decode gx_wired = gx_dec" "th_X gx_tenants = tx_X" by (simp_all add: gx_wired_def gx_tenants_def)
  ultimately show ?thesis unfolding resolver_served_def Let_def by (auto simp: gx_dec_enc)
qed

theorem gateway_tenant_bound_witness:
  "\<exists>req d. snd (fst (gw_serve (gx_gateway gx_wired) 13 (gx_ctx '' Shop.Example. '' []) gw_start)) = [req] \<and>
     d \<in> set (tenant_domains (ty_db tx_sys)) \<and> d_verified d \<and> d_active d \<and> d_hostname d = ''shop.example'' \<and>
     carries req (uuid_String tx_X (d_tenant d)) (d_type d)"
proof -
  let ?h = "gx_gateway gx_wired" and ?c = "gx_ctx '' Shop.Example. '' []"
  let ?sent = "snd (fst (gw_serve ?h 13 ?c gw_start))"
  have len: "length ?sent = 1" "list_ex (\<lambda>(k, v). k = TenantIDHeader \<and> v = ''1111111'') (oq_Header (hd ?sent))" by code_simp+
  then have one: "?sent = [hd ?sent]" by (cases ?sent) auto
  have hdr: "(TenantIDHeader, ''1111111'') \<in> set (oq_Header (hd ?sent))" using len(2) by (auto simp: list_ex_iff)
  have sys: "tx_sys = run_ops (exec_tenant (th_E gx_tenants) tx_X) tx_open (tenant_sys_start True)"
    by (simp add: tx_sys_def gx_tenants_def)
  have served: "resolver_served (g_resolver ?h) gx_enc gx_tenants (tx_io 30) tx_sys" using gx_served by (simp add: gx_gateway_def)
  have "hd ?sent \<in> set ?sent" using one by (metis list.set_intros(1))
  from gateway_tenant_bound [OF sys tx_open_dels served this hdr] obtain d where d:
    "d \<in> set (tenant_domains (ty_db tx_sys))" "d_verified d" "d_active d"
    "NormalizeHostname (th_E gx_tenants) (hostname ?c) = Inr (d_hostname d)" "''1111111'' = uuid_String (th_X gx_tenants) (d_tenant d)"
    "carries (hd ?sent) ''1111111'' (d_type d)" by blast
  have "NormalizeHostname (th_E gx_tenants) (hostname ?c) = Inr ''shop.example''" by code_simp
  with d(4) have "d_hostname d = ''shop.example''" by simp
  moreover have "uuid_String tx_X (d_tenant d) = ''1111111''" using d(5) by (simp add: gx_tenants_def)
  ultimately show ?thesis using one d(1-3,6) by metis
qed

end
