(* ===== verification/Auth_Store.thy ===== *)
theory Auth_Store
  imports Platform Store_Spec "HOL-Library.List_Lexorder" "HOL-Library.Char_ord"
begin

text \<open>
  The store of auth-service: identities, credentials, tenant memberships and sessions with the
  constraints of its migrations, the trigger that guards the last active owner, the function that
  revokes the sessions of an identity, and the operations of \<^verbatim>\<open>internal/repository/repository.go\<close>.

  Identities and credentials are global; memberships and sessions belong to a tenant, and their
  policies add the tenant of the transaction to conditions that name it already. The columns that
  no statement of the service reads (row identifiers of memberships, creation and update times of
  the other tables) are left out. Each operation reads the clock once. Texts are ordered by the
  sort keys of the database's collation, the argument \<open>coll\<close> of the two listings.
\<close>

section \<open>internal/domain\<close>

definition RoleOwner :: string where
  "RoleOwner = ''OWNER''"

definition RoleManager :: string where
  "RoleManager = ''MANAGER''"

definition RoleBarber :: string where
  "RoleBarber = ''BARBER''"

definition RoleReceptionist :: string where
  "RoleReceptionist = ''RECEPTIONIST''"

definition Role_Valid :: "string \<Rightarrow> bool" where
  "Role_Valid r \<longleftrightarrow> r = RoleOwner \<or> r = RoleManager \<or> r = RoleBarber \<or> r = RoleReceptionist"

record auth_principal =
  pn_IdentityID :: uuid
  pn_Name :: string
  pn_Email :: string
  pn_Phone :: string
  pn_MustChangePassword :: bool
  pn_Role :: string
  pn_TenantID :: uuid
  pn_SessionID :: uuid

record member =
  me_IdentityID :: uuid
  me_Name :: string
  me_Email :: string
  me_Phone :: string
  me_Role :: string
  me_Status :: string
  me_CreatedAt :: time

record owner_state =
  ow_IdentityID :: uuid
  ow_Name :: string
  ow_Email :: string
  ow_IdentityStatus :: string
  ow_MembershipStatus :: string
  ow_MustChangePassword :: bool
  ow_DeliveryStatus :: string

section \<open>Tables\<close>

record identity_row =
  ai_id :: uuid
  ai_name :: "string option"
  ai_email :: "string option"
  ai_phone :: "string option"
  ai_status :: string

record credential_row =
  cr_identity :: uuid
  cr_hash :: string
  cr_changed_at :: time
  cr_must_change :: bool
  cr_status :: string
  cr_attempts :: int
  cr_error :: "string option"
  cr_claim :: "uuid option"
  cr_until :: "time option"

record membership_row =
  mb_tenant :: uuid
  mb_identity :: uuid
  mb_role :: string
  mb_status :: string
  mb_created :: time

record session_row =
  se_id :: uuid
  se_tenant :: uuid
  se_identity :: uuid
  se_token :: string
  se_expires :: time
  se_revoked :: "time option"

record auth_db =
  identities :: "identity_row list"
  credentials :: "credential_row list"
  memberships :: "membership_row list"
  sessions :: "session_row list"

definition empty_auth_db :: auth_db where
  "empty_auth_db = \<lparr>identities = [], credentials = [], memberships = [], sessions = []\<rparr>"

text \<open>The clock of an operation and the identifiers it generates.\<close>

record auth_env =
  ae_now :: time
  ae_id :: uuid

section \<open>Constraints\<close>

definition nullif :: "string \<Rightarrow> string option" where
  "nullif s = (if s = [] then None else Some s)"

definition coalesce_text :: "string option \<Rightarrow> string" where
  "coalesce_text v = (case v of None \<Rightarrow> [] | Some s \<Rightarrow> s)"

text \<open>\<open>phone ~ '^\+[0-9]{8,15}$'\<close>\<close>

definition phone_e164 :: "string \<Rightarrow> bool" where
  "phone_e164 p \<longleftrightarrow> (case p of [] \<Rightarrow> False
     | c # ds \<Rightarrow> c = CHR ''+'' \<and> 8 \<le> length ds \<and> length ds \<le> 15 \<and> list_all is_digit ds)"

definition identity_checks :: "identity_row \<Rightarrow> bool" where
  "identity_checks r \<longleftrightarrow>
     (case ai_name r of None \<Rightarrow> True | Some n \<Rightarrow> 1 \<le> RuneCountInString n \<and> RuneCountInString n \<le> 200) \<and>
     (case ai_phone r of None \<Rightarrow> True | Some p \<Rightarrow> phone_e164 p) \<and>
     (ai_status r = ''active'' \<or> ai_status r = ''disabled'')"

definition same_email :: "string option \<Rightarrow> string option \<Rightarrow> bool" where
  "same_email e e' \<longleftrightarrow> (case (e, e') of (Some a, Some b) \<Rightarrow> ToLower a = ToLower b | _ \<Rightarrow> False)"

text \<open>Two rows that the unique indexes on identifier, lower-case address and phone keep apart.\<close>

definition identity_conflict :: "identity_row \<Rightarrow> identity_row \<Rightarrow> bool" where
  "identity_conflict r r' \<longleftrightarrow> ai_id r = ai_id r' \<or> same_email (ai_email r) (ai_email r') \<or>
     (ai_phone r \<noteq> None \<and> ai_phone r = ai_phone r')"

definition delivery_status :: "string \<Rightarrow> bool" where
  "delivery_status s \<longleftrightarrow> s = ''pending'' \<or> s = ''sending'' \<or> s = ''sent'' \<or> s = ''failed''"

definition identity_exists :: "auth_db \<Rightarrow> uuid \<Rightarrow> bool" where
  "identity_exists d i \<longleftrightarrow> list_ex (\<lambda>r. ai_id r = i) (identities d)"

definition same_member :: "uuid \<Rightarrow> uuid \<Rightarrow> membership_row \<Rightarrow> bool" where
  "same_member t i m \<longleftrightarrow> mb_tenant m = t \<and> mb_identity m = i"

text \<open>\<open>prevent_last_active_owner_change\<close>: the update of an active owner is refused when no other is left.\<close>

definition last_owner_guard :: "auth_db \<Rightarrow> membership_row \<Rightarrow> membership_row \<Rightarrow> bool" where
  "last_owner_guard d old new \<longleftrightarrow>
     mb_role old = RoleOwner \<and> mb_status old = ''active'' \<and> (mb_role new \<noteq> RoleOwner \<or> mb_status new \<noteq> ''active'') \<and>
     \<not> list_ex (\<lambda>m. mb_tenant m = mb_tenant old \<and> mb_identity m \<noteq> mb_identity old \<and> mb_role m = RoleOwner \<and>
          mb_status m = ''active'') (memberships d)"

section \<open>Statements\<close>

text \<open>\<^verbatim>\<open>INSERT INTO identities \<dots> ON CONFLICT DO NOTHING\<close>; the checks come before the indexes.\<close>

definition sql_insert_identity :: "identity_row \<Rightarrow> auth_db \<Rightarrow> repo_error + (bool \<times> auth_db)" where
  "sql_insert_identity r d =
     (if \<not> identity_checks r then Inl (PgError ''23514'')
      else if list_ex (identity_conflict r) (identities d) then Inr (False, d)
      else Inr (True, d\<lparr>identities := identities d @ [r]\<rparr>))"

definition sql_insert_credential :: "credential_row \<Rightarrow> auth_db \<Rightarrow> repo_error + auth_db" where
  "sql_insert_credential c d =
     (if \<not> delivery_status (cr_status c) \<or> cr_attempts c < 0 then Inl (PgError ''23514'')
      else if list_ex (\<lambda>c'. cr_identity c' = cr_identity c) (credentials d) then Inl (PgError ''23505'')
      else if \<not> identity_exists d (cr_identity c) then Inl (PgError ''23503'')
      else Inr (d\<lparr>credentials := credentials d @ [c]\<rparr>))"

definition sql_insert_membership :: "uuid \<Rightarrow> membership_row \<Rightarrow> auth_db \<Rightarrow> repo_error + (bool \<times> auth_db)" where
  "sql_insert_membership ctx m d =
     (if mb_tenant m \<noteq> ctx then Inl (PgError ''42501'')
      else if \<not> Role_Valid (mb_role m) then Inl (PgError ''23514'')
      else if list_ex (same_member (mb_tenant m) (mb_identity m)) (memberships d) then Inr (False, d)
      else if \<not> identity_exists d (mb_identity m) then Inl (PgError ''23503'')
      else Inr (True, d\<lparr>memberships := memberships d @ [m]\<rparr>))"

text \<open>An update of the membership of an identity, which passes the trigger before the checks.\<close>

definition sql_update_membership ::
  "(membership_row \<Rightarrow> membership_row) \<Rightarrow> uuid \<Rightarrow> uuid \<Rightarrow> auth_db \<Rightarrow> repo_error + (membership_row \<times> identity_row \<times> auth_db)" where
  "sql_update_membership upd t i d =
     (case (find (same_member t i) (memberships d), find (\<lambda>r. ai_id r = i) (identities d)) of
        (Some old, Some r) \<Rightarrow>
          if last_owner_guard d old (upd old) \<or> \<not> Role_Valid (mb_role (upd old)) \<or>
             \<not> (mb_status (upd old) = ''active'' \<or> mb_status (upd old) = ''inactive'')
          then Inl (PgError ''23514'')
          else Inr (upd old, r, d\<lparr>memberships := map (\<lambda>m. if same_member t i m then upd m else m) (memberships d)\<rparr>)
      | _ \<Rightarrow> Inl ErrNoRows)"

definition sql_insert_session :: "uuid \<Rightarrow> session_row \<Rightarrow> auth_db \<Rightarrow> repo_error + auth_db" where
  "sql_insert_session ctx s d =
     (if se_tenant s \<noteq> ctx then Inl (PgError ''42501'')
      else if list_ex (\<lambda>x. se_id x = se_id s \<or> (se_tenant x = se_tenant s \<and> se_token x = se_token s)) (sessions d)
      then Inl (PgError ''23505'')
      else if \<not> identity_exists d (se_identity s) then Inl (PgError ''23503'')
      else Inr (d\<lparr>sessions := sessions d @ [s]\<rparr>))"

text \<open>\<open>revoke_identity_sessions\<close>: with the rights of the owner of the tables, so across tenants.\<close>

definition revoke_identity_sessions :: "time \<Rightarrow> uuid \<Rightarrow> uuid option \<Rightarrow> auth_db \<Rightarrow> auth_db" where
  "revoke_identity_sessions now i keep d =
     d\<lparr>sessions := map (\<lambda>s. if se_identity s = i \<and> se_revoked s = None \<and> (keep = None \<or> keep \<noteq> Some (se_id s))
         then s\<lparr>se_revoked := Some now\<rparr> else s) (sessions d)\<rparr>"

definition sql_set_password :: "time \<Rightarrow> uuid \<Rightarrow> string \<Rightarrow> bool \<Rightarrow> auth_db \<Rightarrow> auth_db" where
  "sql_set_password now i hash must d =
     d\<lparr>credentials := map (\<lambda>c. if cr_identity c = i
         then c\<lparr>cr_hash := hash, cr_changed_at := now, cr_must_change := must\<rparr> else c) (credentials d)\<rparr>"

definition active_member :: "auth_db \<Rightarrow> uuid \<Rightarrow> uuid \<Rightarrow> bool" where
  "active_member d t i \<longleftrightarrow> list_ex (\<lambda>m. same_member t i m \<and> mb_status m = ''active'') (memberships d)"

section \<open>Repository: credentials and registration\<close>

record credential =
  cv_IdentityID :: uuid
  cv_Name :: string
  cv_Phone :: string
  cv_Email :: string
  cv_PasswordHash :: string
  cv_MustChangePassword :: bool
  cv_DeliveryStatus :: string
  cv_Active :: bool

record registration_result =
  rg_IdentityID :: uuid
  rg_CreatedIdentity :: bool
  rg_CreatedMembership :: bool
  rg_Role :: string

definition to_credential :: "identity_row \<Rightarrow> credential_row \<Rightarrow> credential" where
  "to_credential r c = \<lparr>cv_IdentityID = ai_id r, cv_Name = coalesce_text (ai_name r), cv_Phone = coalesce_text (ai_phone r),
     cv_Email = coalesce_text (ai_email r), cv_PasswordHash = cr_hash c, cv_MustChangePassword = cr_must_change c,
     cv_DeliveryStatus = cr_status c, cv_Active = (ai_status r = ''active'')\<rparr>"

definition find_identity :: "string \<Rightarrow> auth_db \<Rightarrow> identity_row option" where
  "find_identity email d = find (\<lambda>r. same_email (ai_email r) (Some email)) (identities d)"

definition find_credential :: "uuid \<Rightarrow> auth_db \<Rightarrow> credential_row option" where
  "find_credential i d = find (\<lambda>c. cr_identity c = i) (credentials d)"

definition CredentialByEmail :: "tx_fault \<Rightarrow> string \<Rightarrow> auth_db \<Rightarrow> repo_error + credential" where
  "CredentialByEmail f email d =
     (if f \<noteq> NoFault then Inl (TxFault f)
      else case find_identity email d of
        None \<Rightarrow> Inl RepoNotFound
      | Some r \<Rightarrow> (case find_credential (ai_id r) d of None \<Rightarrow> Inl RepoNotFound | Some c \<Rightarrow> Inr (to_credential r c)))"

text \<open>The identity of a registration: a new one with its credential, or the one that has the address.\<close>

definition register_identity ::
  "auth_env \<Rightarrow> string \<Rightarrow> string \<Rightarrow> string \<Rightarrow> string \<Rightarrow> auth_db \<Rightarrow> repo_error + (uuid \<times> bool \<times> auth_db)" where
  "register_identity env name email phone hash d =
     (case sql_insert_identity \<lparr>ai_id = ae_id env, ai_name = Some name, ai_email = Some email, ai_phone = nullif phone,
             ai_status = ''active''\<rparr> d of
        Inl e \<Rightarrow> Inl e
      | Inr (False, _) \<Rightarrow> (case find_identity email d of None \<Rightarrow> Inl ErrNoRows | Some r \<Rightarrow> Inr (ai_id r, False, d))
      | Inr (True, d1) \<Rightarrow>
          (case sql_insert_credential \<lparr>cr_identity = ae_id env, cr_hash = hash, cr_changed_at = ae_now env,
                  cr_must_change = True, cr_status = ''pending'', cr_attempts = 0, cr_error = None, cr_claim = None,
                  cr_until = None\<rparr> d1 of
             Inl e \<Rightarrow> Inl e
           | Inr d2 \<Rightarrow> Inr (ae_id env, True, d2)))"

definition repo_Register ::
  "tx_fault \<Rightarrow> auth_env \<Rightarrow> uuid \<Rightarrow> string \<Rightarrow> string \<Rightarrow> string \<Rightarrow> string \<Rightarrow> string \<Rightarrow> auth_db \<Rightarrow>
     (repo_error + registration_result) \<times> auth_db" where
  "repo_Register f env t name email phone role hash = WithTenantTx f t (\<lambda>ctx d.
     case register_identity env name email phone hash d of
       Inl e \<Rightarrow> Inl e
     | Inr (i, created, d1) \<Rightarrow>
       (case sql_insert_membership ctx \<lparr>mb_tenant = t, mb_identity = i, mb_role = role, mb_status = ''active'',
               mb_created = ae_now env\<rparr> d1 of
          Inl e \<Rightarrow> Inl e
        | Inr (inserted, d2) \<Rightarrow>
          (case find (same_member t i) (memberships d2) of
             None \<Rightarrow> Inl ErrNoRows
           | Some m \<Rightarrow> Inr (\<lparr>rg_IdentityID = i, rg_CreatedIdentity = created, rg_CreatedMembership = inserted,
               rg_Role = mb_role m\<rparr>, d2))))"

section \<open>Repository: delivery of the initial password\<close>

definition delivery_lease :: duration where
  "delivery_lease = 120000000000"

definition delivery_claimable :: "time \<Rightarrow> credential_row \<Rightarrow> bool" where
  "delivery_claimable now c \<longleftrightarrow> cr_status c = ''pending'' \<or> cr_status c = ''failed'' \<or>
     (cr_status c = ''sending'' \<and> (case cr_until c of None \<Rightarrow> False | Some u \<Rightarrow> u < now))"

definition repo_ClaimInitialDelivery ::
  "tx_fault \<Rightarrow> auth_env \<Rightarrow> uuid \<Rightarrow> auth_db \<Rightarrow> (repo_error + (uuid \<times> bool)) \<times> auth_db" where
  "repo_ClaimInitialDelivery f env i = pool_exec f (\<lambda>d.
     let hit = (\<lambda>c. cr_identity c = i \<and> delivery_claimable (ae_now env) c) in
     Inr ((ae_id env, list_ex hit (credentials d)),
       d\<lparr>credentials := map (\<lambda>c. if hit c then c\<lparr>cr_status := ''sending'', cr_claim := Some (ae_id env),
           cr_until := Some (ae_now env + delivery_lease)\<rparr> else c) (credentials d)\<rparr>))"

text \<open>
  What ends a claim: every attempt counts, and the claim is cleared. The counter is unbounded here; an
  attempt takes at least a mail, and the 32 bits of its column are not reached.
\<close>

definition sql_finish_delivery ::
  "(credential_row \<Rightarrow> bool) \<Rightarrow> (credential_row \<Rightarrow> credential_row) \<Rightarrow> auth_db \<Rightarrow> repo_error + (unit \<times> auth_db)" where
  "sql_finish_delivery hit upd d =
     (if \<not> list_ex hit (credentials d) then Inl RepoNotFound
      else if list_ex (\<lambda>c. hit c \<and> \<not> delivery_status (cr_status (upd c))) (credentials d) then Inl (PgError ''23514'')
      else Inr ((), d\<lparr>credentials := map (\<lambda>c. if hit c
        then (upd c)\<lparr>cr_attempts := cr_attempts c + 1, cr_claim := None, cr_until := None\<rparr> else c) (credentials d)\<rparr>))"

definition repo_MarkInitialDelivery ::
  "tx_fault \<Rightarrow> uuid \<Rightarrow> uuid \<Rightarrow> string \<Rightarrow> string \<Rightarrow> auth_db \<Rightarrow> (repo_error + unit) \<times> auth_db" where
  "repo_MarkInitialDelivery f i claim status problem = pool_exec f
     (sql_finish_delivery (\<lambda>c. cr_identity c = i \<and> cr_claim c = Some claim)
        (\<lambda>c. c\<lparr>cr_status := status, cr_error := nullif problem\<rparr>))"

definition repo_ActivateRetriedCredential ::
  "tx_fault \<Rightarrow> uuid \<Rightarrow> uuid \<Rightarrow> string \<Rightarrow> auth_db \<Rightarrow> (repo_error + unit) \<times> auth_db" where
  "repo_ActivateRetriedCredential f i claim hash = pool_exec f
     (sql_finish_delivery (\<lambda>c. cr_identity c = i \<and> cr_claim c = Some claim \<and> cr_status c = ''sending'')
        (\<lambda>c. c\<lparr>cr_hash := hash, cr_must_change := True, cr_status := ''sent'', cr_error := None\<rparr>))"

section \<open>Repository: members\<close>

definition to_member :: "membership_row \<Rightarrow> identity_row \<Rightarrow> member" where
  "to_member m r = \<lparr>me_IdentityID = ai_id r, me_Name = coalesce_text (ai_name r), me_Email = coalesce_text (ai_email r),
     me_Phone = coalesce_text (ai_phone r), me_Role = mb_role m, me_Status = mb_status m, me_CreatedAt = mb_created m\<rparr>"

definition member_join :: "uuid \<Rightarrow> auth_db \<Rightarrow> (membership_row \<times> identity_row) list" where
  "member_join t d = concat (map (\<lambda>m. map (Pair m) (filter (\<lambda>r. ai_id r = mb_identity m) (identities d)))
     (filter (\<lambda>m. mb_tenant m = t) (memberships d)))"

text \<open>\<^verbatim>\<open>ORDER BY\<close> a text that may be null, which comes last.\<close>

definition order_by_text :: "(string \<Rightarrow> string) \<Rightarrow> ('a \<Rightarrow> string option) \<Rightarrow> 'a list \<Rightarrow> 'a list" where
  "order_by_text coll key xs =
     sort_key (\<lambda>x. if key x = None then 1 else (0 :: nat)) (sort_key (\<lambda>x. coll (coalesce_text (key x))) xs)"

definition repo_Members :: "(string \<Rightarrow> string) \<Rightarrow> tx_fault \<Rightarrow> uuid \<Rightarrow> auth_db \<Rightarrow> repo_error + member list" where
  "repo_Members coll f t d = tenant_read f (Inr (map (\<lambda>(m, r). to_member m r)
     (order_by_text coll (ai_name \<circ> snd) (order_by_text coll (ai_email \<circ> snd) (member_join t d)))))"

text \<open>The address of an owner is scanned into a string, which a null does not fit.\<close>

definition to_owner :: "membership_row \<times> identity_row \<times> credential_row \<Rightarrow> repo_error + owner_state" where
  "to_owner x = (case x of (m, r, c) \<Rightarrow> (case ai_email r of
      None \<Rightarrow> Inl ScanError
    | Some e \<Rightarrow> Inr \<lparr>ow_IdentityID = ai_id r, ow_Name = coalesce_text (ai_name r), ow_Email = e, ow_IdentityStatus = ai_status r,
        ow_MembershipStatus = mb_status m, ow_MustChangePassword = cr_must_change c, ow_DeliveryStatus = cr_status c\<rparr>))"

fun scan_rows :: "('r \<Rightarrow> repo_error + 'a) \<Rightarrow> 'r list \<Rightarrow> repo_error + 'a list" where
  "scan_rows scan [] = Inr []"
| "scan_rows scan (r # rs) =
     (case scan r of Inl e \<Rightarrow> Inl e | Inr v \<Rightarrow> (case scan_rows scan rs of Inl e \<Rightarrow> Inl e | Inr vs \<Rightarrow> Inr (v # vs)))"

definition repo_Owners :: "(string \<Rightarrow> string) \<Rightarrow> tx_fault \<Rightarrow> uuid \<Rightarrow> auth_db \<Rightarrow> repo_error + owner_state list" where
  "repo_Owners coll f t d = tenant_read f (scan_rows to_owner
     (order_by_text coll (\<lambda>(m, r, c). ai_email r)
       (concat (map (\<lambda>(m, r). map (\<lambda>c. (m, r, c)) (filter (\<lambda>c. cr_identity c = ai_id r) (credentials d)))
         (filter (\<lambda>(m, r). mb_role m = RoleOwner) (member_join t d))))))"

definition repo_Member :: "tx_fault \<Rightarrow> uuid \<Rightarrow> uuid \<Rightarrow> auth_db \<Rightarrow> repo_error + member" where
  "repo_Member f t i d = tenant_read f
     (case (find (same_member t i) (memberships d), find (\<lambda>r. ai_id r = i) (identities d)) of
        (Some m, Some r) \<Rightarrow> Inr (to_member m r)
      | _ \<Rightarrow> Inl RepoNotFound)"

definition update_member ::
  "tx_fault \<Rightarrow> (membership_row \<Rightarrow> membership_row) \<Rightarrow> uuid \<Rightarrow> uuid \<Rightarrow> auth_db \<Rightarrow> (repo_error + member) \<times> auth_db" where
  "update_member f upd t i = WithTenantTx f t (\<lambda>ctx d.
     case sql_update_membership upd t i d of
       Inl e \<Rightarrow> if e = ErrNoRows then Inl RepoNotFound else Inl e
     | Inr (m, r, d') \<Rightarrow> Inr (to_member m r, d'))"

definition repo_ChangeMemberRole ::
  "tx_fault \<Rightarrow> uuid \<Rightarrow> uuid \<Rightarrow> string \<Rightarrow> auth_db \<Rightarrow> (repo_error + member) \<times> auth_db" where
  "repo_ChangeMemberRole f t i role = update_member f (\<lambda>m. m\<lparr>mb_role := role\<rparr>) t i"

definition repo_SetMemberStatus ::
  "tx_fault \<Rightarrow> uuid \<Rightarrow> uuid \<Rightarrow> string \<Rightarrow> auth_db \<Rightarrow> (repo_error + member) \<times> auth_db" where
  "repo_SetMemberStatus f t i status = update_member f (\<lambda>m. m\<lparr>mb_status := status\<rparr>) t i"

definition repo_BarberEligible :: "tx_fault \<Rightarrow> uuid \<Rightarrow> uuid \<Rightarrow> auth_db \<Rightarrow> repo_error + bool" where
  "repo_BarberEligible f t i d = tenant_read f
     (Inr (list_ex (\<lambda>m. same_member t i m \<and> mb_role m = RoleBarber \<and> mb_status m = ''active'') (memberships d)))"

section \<open>Repository: sessions and passwords\<close>

text \<open>\<^verbatim>\<open>FindActiveMembership\<close>\<close>

definition FindActiveMembership :: "uuid \<Rightarrow> uuid \<Rightarrow> auth_db \<Rightarrow> string option" where
  "FindActiveMembership t i d =
     map_option mb_role (find (\<lambda>m. same_member t i m \<and> mb_status m = ''active'') (memberships d))"

text \<open>An active identity with its credential.\<close>

definition active_identity :: "uuid \<Rightarrow> auth_db \<Rightarrow> (identity_row \<times> credential_row) option" where
  "active_identity i d =
     (case (find (\<lambda>r. ai_id r = i \<and> ai_status r = ''active'') (identities d), find_credential i d) of
        (Some r, Some c) \<Rightarrow> Some (r, c)
      | _ \<Rightarrow> None)"

definition to_principal :: "uuid \<Rightarrow> uuid \<Rightarrow> string \<Rightarrow> identity_row \<Rightarrow> credential_row \<Rightarrow> auth_principal" where
  "to_principal t sid role r c = \<lparr>pn_IdentityID = ai_id r, pn_Name = coalesce_text (ai_name r), pn_Email = coalesce_text (ai_email r),
     pn_Phone = coalesce_text (ai_phone r), pn_MustChangePassword = cr_must_change c, pn_Role = role, pn_TenantID = t,
     pn_SessionID = sid\<rparr>"

definition repo_CreateSession ::
  "tx_fault \<Rightarrow> auth_env \<Rightarrow> uuid \<Rightarrow> uuid \<Rightarrow> string \<Rightarrow> time \<Rightarrow> auth_db \<Rightarrow> (repo_error + auth_principal) \<times> auth_db" where
  "repo_CreateSession f env t i token expires = WithTenantTx f t (\<lambda>ctx d.
     case FindActiveMembership t i d of
       None \<Rightarrow> Inl RepoNotFound
     | Some role \<Rightarrow>
       (case active_identity i d of
          None \<Rightarrow> Inl RepoNotFound
        | Some (r, c) \<Rightarrow>
          (case sql_insert_session ctx \<lparr>se_id = ae_id env, se_tenant = t, se_identity = i, se_token = token,
                  se_expires = expires, se_revoked = None\<rparr> d of
             Inl e \<Rightarrow> Inl e
           | Inr d' \<Rightarrow> Inr (to_principal t (ae_id env) role r c, d'))))"

definition live_session :: "time \<Rightarrow> uuid \<Rightarrow> string \<Rightarrow> session_row \<Rightarrow> bool" where
  "live_session now t token s \<longleftrightarrow> se_tenant s = t \<and> se_token s = token \<and> se_revoked s = None \<and> now < se_expires s"

text \<open>A token that does not decode has no digest, and nothing equals null.\<close>

definition repo_Session :: "tx_fault \<Rightarrow> time \<Rightarrow> uuid \<Rightarrow> string option \<Rightarrow> auth_db \<Rightarrow> repo_error + auth_principal" where
  "repo_Session f now t token d = tenant_read f
     (case token of
        None \<Rightarrow> Inl RepoNotFound
      | Some h \<Rightarrow>
        (case find (live_session now t h) (sessions d) of
           None \<Rightarrow> Inl RepoNotFound
         | Some s \<Rightarrow>
           (case (FindActiveMembership t (se_identity s) d, active_identity (se_identity s) d) of
              (Some role, Some (r, c)) \<Rightarrow> Inr (to_principal t (se_id s) role r c)
            | _ \<Rightarrow> Inl RepoNotFound)))"

definition repo_RevokeSession ::
  "tx_fault \<Rightarrow> time \<Rightarrow> uuid \<Rightarrow> string option \<Rightarrow> auth_db \<Rightarrow> (repo_error + unit) \<times> auth_db" where
  "repo_RevokeSession f now t token = WithTenantTx f t (\<lambda>ctx d.
     Inr ((), d\<lparr>sessions := map (\<lambda>s. if se_tenant s = t \<and> Some (se_token s) = token \<and> se_revoked s = None
       then s\<lparr>se_revoked := Some now\<rparr> else s) (sessions d)\<rparr>))"

definition repo_HasActiveMembership :: "tx_fault \<Rightarrow> uuid \<Rightarrow> uuid \<Rightarrow> auth_db \<Rightarrow> repo_error + bool" where
  "repo_HasActiveMembership f t i d = tenant_read f (Inr (active_member d t i))"

definition repo_ChangePassword ::
  "tx_fault \<Rightarrow> time \<Rightarrow> uuid \<Rightarrow> uuid \<Rightarrow> uuid \<Rightarrow> string \<Rightarrow> auth_db \<Rightarrow> (repo_error + unit) \<times> auth_db" where
  "repo_ChangePassword f now t i keep hash = WithTenantTx f t (\<lambda>ctx d.
     if \<not> active_member d t i then Inl RepoNotFound
     else Inr ((), revoke_identity_sessions now i (Some keep) (sql_set_password now i hash False d)))"

definition repo_ResetPassword ::
  "tx_fault \<Rightarrow> time \<Rightarrow> uuid \<Rightarrow> uuid \<Rightarrow> string \<Rightarrow> auth_db \<Rightarrow> (repo_error + bool) \<times> auth_db" where
  "repo_ResetPassword f now t i hash = WithTenantTx f t (\<lambda>ctx d.
     if \<not> active_member d t i then Inr (False, d)
     else Inr (True, revoke_identity_sessions now i None (sql_set_password now i hash True d)))"

end
