(* ===== verification/Customer_Store.thy ===== *)
theory Customer_Store
  imports Auth_Store
begin

text \<open>
  The store of customer-service: the type and the phone numbers of \<^verbatim>\<open>internal/domain/domain.go\<close>, the tables of the
  migrations with their constraints, and every operation of \<^verbatim>\<open>internal/repository/repository.go\<close>. The states of the
  delivery of an initial password and its lease are those of auth-service.
\<close>

section \<open>internal/domain\<close>

record Customer =
  cm_ID :: uuid
  cm_TenantID :: uuid
  cm_Name :: string
  cm_Email :: string
  cm_Phone :: string
  cm_Status :: string
  cm_MustChangePassword :: bool
  cm_InitialDeliveryStatus :: string
  cm_PasswordChangedAt :: "time option"

definition phone_filler :: "char \<Rightarrow> bool" where
  "phone_filler c \<longleftrightarrow> c = CHR '' '' \<or> c = CHR ''-'' \<or> c = CHR ''('' \<or> c = CHR '')''"

definition NormalizePhone :: "string \<Rightarrow> string option" where
  "NormalizePhone value =
     (let v = filter (\<lambda>c. \<not> phone_filler c) (TrimSpace value) in
      if length v < 9 \<or> length v > 16 \<or> \<not> is_prefix ''+'' v then None
      else if list_all is_digit (tl v) then Some v else None)"

section \<open>Tables\<close>

record cust_row =
  cu_id :: uuid
  cu_tenant :: uuid
  cu_name :: string
  cu_email :: "string option"
  cu_phone :: "string option"
  cu_hash :: string
  cu_status :: string
  cu_changed_at :: "time option"
  cu_must_change :: bool
  cu_delivery :: string
  cu_attempts :: int
  cu_error :: "string option"
  cu_claim :: "uuid option"
  cu_until :: "time option"

record customer_session_row =
  cq_id :: uuid
  cq_tenant :: uuid
  cq_customer :: uuid
  cq_token :: string
  cq_expires :: time
  cq_revoked :: "time option"

record customer_db =
  customers :: "cust_row list"
  customer_sessions :: "customer_session_row list"

definition empty_customer_db :: customer_db where
  "empty_customer_db = \<lparr>customers = [], customer_sessions = []\<rparr>"

text \<open>\<^verbatim>\<open>btrim\<close> of PostgreSQL removes spaces only.\<close>

definition btrim :: "string \<Rightarrow> string" where
  "btrim s = rev (dropWhile (\<lambda>c. c = CHR '' '') (rev (dropWhile (\<lambda>c. c = CHR '' '') s)))"

definition claim_state :: "cust_row \<Rightarrow> bool" where
  "claim_state r \<longleftrightarrow>
     (cu_delivery r = ''sending'' \<and> cu_claim r \<noteq> None \<and> cu_until r \<noteq> None) \<or>
     (cu_delivery r \<noteq> ''sending'' \<and> cu_claim r = None \<and> cu_until r = None)"

definition customer_checks :: "cust_row \<Rightarrow> bool" where
  "customer_checks r \<longleftrightarrow> btrim (cu_name r) \<noteq> [] \<and> (cu_status r = ''active'' \<or> cu_status r = ''inactive'') \<and>
     (case cu_email r of None \<Rightarrow> True | Some e \<Rightarrow> e = ToLower (btrim e)) \<and>
     delivery_status (cu_delivery r) \<and> 0 \<le> cu_attempts r \<and> claim_state r"

definition same_phone :: "cust_row \<Rightarrow> cust_row \<Rightarrow> bool" where
  "same_phone r r' \<longleftrightarrow> cu_tenant r = cu_tenant r' \<and> cu_phone r \<noteq> None \<and> cu_phone r = cu_phone r'"

definition same_address :: "cust_row \<Rightarrow> cust_row \<Rightarrow> bool" where
  "same_address r r' \<longleftrightarrow> cu_tenant r = cu_tenant r' \<and> cu_email r \<noteq> None \<and> cu_email r = cu_email r'"

definition same_customer :: "uuid \<Rightarrow> uuid \<Rightarrow> cust_row \<Rightarrow> bool" where
  "same_customer t i r \<longleftrightarrow> cu_tenant r = t \<and> cu_id r = i"

section \<open>Statements\<close>

definition sql_insert_customer :: "uuid \<Rightarrow> cust_row \<Rightarrow> customer_db \<Rightarrow> repo_error + customer_db" where
  "sql_insert_customer ctx r d =
     (if cu_tenant r \<noteq> ctx then Inl (PgError ''42501'')
      else if \<not> customer_checks r then Inl (PgError ''23514'')
      else if list_ex (\<lambda>x. cu_id x = cu_id r \<or> same_phone x r \<or> same_address x r) (customers d) then Inl (PgError ''23505'')
      else Inr (d\<lparr>customers := customers d @ [r]\<rparr>))"

text \<open>
  \<^verbatim>\<open>INSERT \<dots> ON CONFLICT(tenant_id,normalized_phone) DO UPDATE SET name=public.customers.name\<close>: the row with the
  phone stays as it is and is returned.
\<close>

definition sql_upsert_guest :: "uuid \<Rightarrow> cust_row \<Rightarrow> customer_db \<Rightarrow> repo_error + (cust_row \<times> customer_db)" where
  "sql_upsert_guest ctx r d =
     (if cu_tenant r \<noteq> ctx then Inl (PgError ''42501'')
      else if \<not> customer_checks r then Inl (PgError ''23514'')
      else case find (\<lambda>x. same_phone x r) (customers d) of
        Some x \<Rightarrow> Inr (x, d)
      | None \<Rightarrow> (case sql_insert_customer ctx r d of Inl e \<Rightarrow> Inl e | Inr d' \<Rightarrow> Inr (r, d')))"

text \<open>An update of the customers of the tenant that satisfy a condition; the answer says whether there was one.\<close>

definition sql_update_customers ::
  "uuid \<Rightarrow> (cust_row \<Rightarrow> bool) \<Rightarrow> (cust_row \<Rightarrow> cust_row) \<Rightarrow> customer_db \<Rightarrow> repo_error + (bool \<times> customer_db)" where
  "sql_update_customers t hit upd d =
     (if list_ex (\<lambda>r. cu_tenant r = t \<and> hit r \<and> \<not> customer_checks (upd r)) (customers d) then Inl (PgError ''23514'')
      else Inr (list_ex (\<lambda>r. cu_tenant r = t \<and> hit r) (customers d),
                d\<lparr>customers := map (\<lambda>r. if cu_tenant r = t \<and> hit r then upd r else r) (customers d)\<rparr>))"

definition sql_insert_customer_session ::
  "uuid \<Rightarrow> customer_session_row \<Rightarrow> customer_db \<Rightarrow> repo_error + customer_db" where
  "sql_insert_customer_session ctx s d =
     (if cq_tenant s \<noteq> ctx then Inl (PgError ''42501'')
      else if list_ex (\<lambda>x. cq_id x = cq_id s \<or> (cq_tenant x = cq_tenant s \<and> cq_token x = cq_token s)) (customer_sessions d)
      then Inl (PgError ''23505'')
      else if \<not> list_ex (same_customer (cq_tenant s) (cq_customer s)) (customers d) then Inl (PgError ''23503'')
      else Inr (d\<lparr>customer_sessions := customer_sessions d @ [s]\<rparr>))"

definition sql_revoke_sessions ::
  "time \<Rightarrow> uuid \<Rightarrow> (customer_session_row \<Rightarrow> bool) \<Rightarrow> customer_db \<Rightarrow> customer_db" where
  "sql_revoke_sessions now t hit d =
     d\<lparr>customer_sessions := map (\<lambda>s. if cq_tenant s = t \<and> hit s then s\<lparr>cq_revoked := Some now\<rparr> else s) (customer_sessions d)\<rparr>"

section \<open>Repository: accounts\<close>

definition hashToken :: "externals \<Rightarrow> string \<Rightarrow> string" where
  "hashToken X v = sha256_hex X v"

text \<open>The columns the query of \<open>Create\<close> and \<open>FindByEmail\<close> returns; the others leave zero values.\<close>

definition to_customer :: "uuid \<Rightarrow> cust_row \<Rightarrow> Customer" where
  "to_customer t r = \<lparr>cm_ID = cu_id r, cm_TenantID = t, cm_Name = cu_name r, cm_Email = coalesce_text (cu_email r),
     cm_Phone = coalesce_text (cu_phone r), cm_Status = cu_status r, cm_MustChangePassword = cu_must_change r,
     cm_InitialDeliveryStatus = cu_delivery r, cm_PasswordChangedAt = cu_changed_at r\<rparr>"

definition guest_view :: "Customer \<Rightarrow> Customer" where
  "guest_view c = c\<lparr>cm_Email := [], cm_MustChangePassword := False, cm_InitialDeliveryStatus := []\<rparr>"

definition cust_Create ::
  "tx_fault \<Rightarrow> auth_env \<Rightarrow> uuid \<Rightarrow> string \<Rightarrow> string \<Rightarrow> string \<Rightarrow> string \<Rightarrow> customer_db \<Rightarrow> (repo_error + Customer) \<times> customer_db" where
  "cust_Create f env t name email phone hash = WithTenantTx f t (\<lambda>ctx d.
     let r = \<lparr>cu_id = ae_id env, cu_tenant = t, cu_name = name, cu_email = Some email, cu_phone = nullif phone, cu_hash = hash,
              cu_status = ''active'', cu_changed_at = Some (ae_now env), cu_must_change = True, cu_delivery = ''pending'',
              cu_attempts = 0, cu_error = None, cu_claim = None, cu_until = None\<rparr>
     in case sql_insert_customer ctx r d of Inl e \<Rightarrow> Inl e | Inr d' \<Rightarrow> Inr (to_customer t r, d'))"

definition guest_row :: "auth_env \<Rightarrow> uuid \<Rightarrow> string \<Rightarrow> string \<Rightarrow> cust_row" where
  "guest_row env t name phone = \<lparr>cu_id = ae_id env, cu_tenant = t, cu_name = name, cu_email = None, cu_phone = Some phone,
     cu_hash = ''!guest-no-password!'', cu_status = ''active'', cu_changed_at = None, cu_must_change = False,
     cu_delivery = ''sent'', cu_attempts = 0, cu_error = None, cu_claim = None, cu_until = None\<rparr>"

definition cust_EnsureGuest ::
  "tx_fault \<Rightarrow> auth_env \<Rightarrow> uuid \<Rightarrow> string \<Rightarrow> string \<Rightarrow> customer_db \<Rightarrow> (repo_error + Customer) \<times> customer_db" where
  "cust_EnsureGuest f env t name phone = WithTenantTx f t (\<lambda>ctx d.
     case sql_upsert_guest ctx (guest_row env t name phone) d of
       Inl e \<Rightarrow> Inl e | Inr (r, d') \<Rightarrow> Inr (guest_view (to_customer t r), d'))"

definition cust_Find :: "tx_fault \<Rightarrow> uuid \<Rightarrow> string \<Rightarrow> customer_db \<Rightarrow> repo_error + (Customer \<times> string)" where
  "cust_Find f t phone d = tenant_read f (case find (\<lambda>r. cu_tenant r = t \<and> cu_phone r = Some phone) (customers d) of
     None \<Rightarrow> Inl RepoNotFound | Some r \<Rightarrow> Inr (guest_view (to_customer t r), cu_hash r))"

definition find_address :: "uuid \<Rightarrow> string \<Rightarrow> customer_db \<Rightarrow> cust_row option" where
  "find_address t email d = find (\<lambda>r. cu_tenant r = t \<and> cu_email r = Some email) (customers d)"

definition cust_FindByEmail :: "tx_fault \<Rightarrow> uuid \<Rightarrow> string \<Rightarrow> customer_db \<Rightarrow> repo_error + (Customer \<times> string)" where
  "cust_FindByEmail f t email d = tenant_read f (case find_address t email d of
     None \<Rightarrow> Inl RepoNotFound | Some r \<Rightarrow> Inr (to_customer t r, cu_hash r))"

definition cust_ByID :: "tx_fault \<Rightarrow> uuid \<Rightarrow> uuid \<Rightarrow> customer_db \<Rightarrow> repo_error + Customer" where
  "cust_ByID f t i d = tenant_read f (case find (same_customer t i) (customers d) of
     None \<Rightarrow> Inl RepoNotFound | Some r \<Rightarrow> Inr ((to_customer t r)\<lparr>cm_InitialDeliveryStatus := []\<rparr>))"

definition update_customer ::
  "tx_fault \<Rightarrow> uuid \<Rightarrow> uuid \<Rightarrow> (cust_row \<Rightarrow> cust_row) \<Rightarrow> customer_db \<Rightarrow> (repo_error + unit) \<times> customer_db" where
  "update_customer f t i upd = WithTenantTx f t (\<lambda>ctx d.
     case sql_update_customers t (\<lambda>r. cu_id r = i) upd d of Inl e \<Rightarrow> Inl e | Inr (_, d') \<Rightarrow> Inr ((), d'))"

definition cust_UpdateName ::
  "tx_fault \<Rightarrow> uuid \<Rightarrow> uuid \<Rightarrow> string \<Rightarrow> customer_db \<Rightarrow> (repo_error + unit) \<times> customer_db" where
  "cust_UpdateName f t i name = update_customer f t i (\<lambda>r. r\<lparr>cu_name := name\<rparr>)"

definition cust_UpdatePassword ::
  "tx_fault \<Rightarrow> time \<Rightarrow> uuid \<Rightarrow> uuid \<Rightarrow> string \<Rightarrow> customer_db \<Rightarrow> (repo_error + unit) \<times> customer_db" where
  "cust_UpdatePassword f now t i hash =
     update_customer f t i (\<lambda>r. r\<lparr>cu_hash := hash, cu_changed_at := Some now, cu_must_change := False\<rparr>)"

definition cust_ResetPassword ::
  "tx_fault \<Rightarrow> time \<Rightarrow> uuid \<Rightarrow> uuid \<Rightarrow> string \<Rightarrow> customer_db \<Rightarrow> (repo_error + unit) \<times> customer_db" where
  "cust_ResetPassword f now t i hash =
     update_customer f t i (\<lambda>r. r\<lparr>cu_hash := hash, cu_changed_at := Some now, cu_must_change := True\<rparr>)"

section \<open>Repository: delivery of the initial password\<close>

definition customer_claimable :: "time \<Rightarrow> cust_row \<Rightarrow> bool" where
  "customer_claimable now r \<longleftrightarrow> cu_delivery r = ''pending'' \<or> cu_delivery r = ''failed'' \<or>
     (cu_delivery r = ''sending'' \<and> (case cu_until r of None \<Rightarrow> False | Some u \<Rightarrow> u < now))"

definition cust_ClaimInitialDelivery ::
  "tx_fault \<Rightarrow> auth_env \<Rightarrow> uuid \<Rightarrow> uuid \<Rightarrow> customer_db \<Rightarrow> (repo_error + (uuid \<times> bool)) \<times> customer_db" where
  "cust_ClaimInitialDelivery f env t i = WithTenantTx f t (\<lambda>ctx d.
     case sql_update_customers t (\<lambda>r. cu_id r = i \<and> customer_claimable (ae_now env) r)
            (\<lambda>r. r\<lparr>cu_delivery := ''sending'', cu_claim := Some (ae_id env), cu_until := Some (ae_now env + delivery_lease)\<rparr>) d of
       Inl e \<Rightarrow> Inl e | Inr (claimed, d') \<Rightarrow> Inr ((ae_id env, claimed), d'))"

definition finish_claim ::
  "tx_fault \<Rightarrow> uuid \<Rightarrow> (cust_row \<Rightarrow> bool) \<Rightarrow> (cust_row \<Rightarrow> cust_row) \<Rightarrow> customer_db \<Rightarrow> (repo_error + unit) \<times> customer_db" where
  "finish_claim f t hit upd = WithTenantTx f t (\<lambda>ctx d.
     case sql_update_customers t hit
            (\<lambda>r. (upd r)\<lparr>cu_attempts := cu_attempts r + 1, cu_claim := None, cu_until := None\<rparr>) d of
       Inl e \<Rightarrow> Inl e | Inr (False, _) \<Rightarrow> Inl RepoNotFound | Inr (True, d') \<Rightarrow> Inr ((), d'))"

definition cust_MarkInitialDelivery ::
  "tx_fault \<Rightarrow> uuid \<Rightarrow> uuid \<Rightarrow> uuid \<Rightarrow> string \<Rightarrow> string \<Rightarrow> customer_db \<Rightarrow> (repo_error + unit) \<times> customer_db" where
  "cust_MarkInitialDelivery f t i claim status problem =
     finish_claim f t (\<lambda>r. cu_id r = i \<and> cu_claim r = Some claim) (\<lambda>r. r\<lparr>cu_delivery := status, cu_error := nullif problem\<rparr>)"

definition cust_ActivateRetriedCredential ::
  "tx_fault \<Rightarrow> uuid \<Rightarrow> uuid \<Rightarrow> uuid \<Rightarrow> string \<Rightarrow> customer_db \<Rightarrow> (repo_error + unit) \<times> customer_db" where
  "cust_ActivateRetriedCredential f t i claim hash =
     finish_claim f t (\<lambda>r. cu_id r = i \<and> cu_claim r = Some claim \<and> cu_delivery r = ''sending'')
       (\<lambda>r. r\<lparr>cu_hash := hash, cu_must_change := True, cu_delivery := ''sent'', cu_error := None\<rparr>)"

section \<open>Repository: sessions\<close>

definition cust_CreateSession ::
  "externals \<Rightarrow> tx_fault \<Rightarrow> uuid \<Rightarrow> uuid \<Rightarrow> uuid \<Rightarrow> string \<Rightarrow> time \<Rightarrow> customer_db \<Rightarrow> (repo_error + unit) \<times> customer_db" where
  "cust_CreateSession X f sid t cid token expires = WithTenantTx f t (\<lambda>ctx d.
     case sql_insert_customer_session ctx \<lparr>cq_id = sid, cq_tenant = t, cq_customer = cid, cq_token = hashToken X token,
            cq_expires = expires, cq_revoked = None\<rparr> d of
       Inl e \<Rightarrow> Inl e | Inr d' \<Rightarrow> Inr ((), d'))"

definition live_customer_session :: "time \<Rightarrow> uuid \<Rightarrow> string \<Rightarrow> customer_session_row \<Rightarrow> bool" where
  "live_customer_session now t token s \<longleftrightarrow> cq_tenant s = t \<and> cq_token s = token \<and> cq_revoked s = None \<and> cq_expires s > now"

text \<open>Two transactions: the session, then its customer.\<close>

definition cust_Session ::
  "externals \<Rightarrow> tx_fault \<Rightarrow> tx_fault \<Rightarrow> time \<Rightarrow> uuid \<Rightarrow> string \<Rightarrow> customer_db \<Rightarrow> repo_error + Customer" where
  "cust_Session X f f' now t token d =
     (case tenant_read f (case find (live_customer_session now t (hashToken X token)) (customer_sessions d) of
             None \<Rightarrow> Inl RepoNotFound | Some s \<Rightarrow> Inr (cq_customer s)) of
        Inl e \<Rightarrow> Inl e
      | Inr i \<Rightarrow> cust_ByID f' t i d)"

definition revoke_tx ::
  "tx_fault \<Rightarrow> time \<Rightarrow> uuid \<Rightarrow> (customer_session_row \<Rightarrow> bool) \<Rightarrow> customer_db \<Rightarrow> (repo_error + unit) \<times> customer_db" where
  "revoke_tx f now t hit = WithTenantTx f t (\<lambda>ctx d. Inr ((), sql_revoke_sessions now t hit d))"

definition cust_Revoke ::
  "externals \<Rightarrow> tx_fault \<Rightarrow> time \<Rightarrow> uuid \<Rightarrow> string \<Rightarrow> customer_db \<Rightarrow> (repo_error + unit) \<times> customer_db" where
  "cust_Revoke X f now t token = revoke_tx f now t (\<lambda>s. cq_token s = hashToken X token)"

definition cust_RevokeOthers ::
  "externals \<Rightarrow> tx_fault \<Rightarrow> time \<Rightarrow> uuid \<Rightarrow> uuid \<Rightarrow> string \<Rightarrow> customer_db \<Rightarrow> (repo_error + unit) \<times> customer_db" where
  "cust_RevokeOthers X f now t cid token =
     revoke_tx f now t (\<lambda>s. cq_customer s = cid \<and> cq_token s \<noteq> hashToken X token \<and> cq_revoked s = None)"

definition cust_RevokeAll :: "tx_fault \<Rightarrow> time \<Rightarrow> uuid \<Rightarrow> uuid \<Rightarrow> customer_db \<Rightarrow> (repo_error + unit) \<times> customer_db" where
  "cust_RevokeAll f now t cid = revoke_tx f now t (\<lambda>s. cq_customer s = cid \<and> cq_revoked s = None)"

end
