(* ===== verification/Customer_Inv.thy ===== *)
theory Customer_Inv
  imports Customer_Store Store_Spec
begin

text \<open>
  The invariant of the tables of customer-service, kept by every operation of the repository, and the store as an
  instance of \<open>tenant_store\<close>, \<open>claim_store\<close> (deliveries of initial passwords) and \<open>session_store\<close>. No operation removes
  a customer or changes its tenant, address, phone or status.
\<close>

section \<open>The invariant\<close>

definition accounts_wf :: "cust_row list \<Rightarrow> bool" where
  "accounts_wf cs \<longleftrightarrow> distinct (map cu_id cs) \<and> (\<forall>r \<in> set cs. customer_checks r) \<and>
     (\<forall>r \<in> set cs. \<forall>r' \<in> set cs. same_phone r r' \<or> same_address r r' \<longrightarrow> cu_id r = cu_id r')"

definition customer_keys :: "cust_row list \<Rightarrow> (uuid \<times> uuid) set" where
  "customer_keys cs = set (map (\<lambda>r. (cu_tenant r, cu_id r)) cs)"

definition session_key :: "customer_session_row \<Rightarrow> uuid \<times> string" where
  "session_key s = (cq_tenant s, cq_token s)"

definition customer_sessions_wf :: "(uuid \<times> uuid) set \<Rightarrow> customer_session_row list \<Rightarrow> bool" where
  "customer_sessions_wf keys ss \<longleftrightarrow> distinct (map cq_id ss) \<and> distinct (map session_key ss) \<and>
     (\<forall>s \<in> set ss. (cq_tenant s, cq_customer s) \<in> keys)"

definition customer_inv :: "customer_db \<Rightarrow> bool" where
  "customer_inv d \<longleftrightarrow> accounts_wf (customers d) \<and> customer_sessions_wf (customer_keys (customers d)) (customer_sessions d)"

lemma customer_inv_empty: "customer_inv empty_customer_db"
  by (simp add: customer_inv_def empty_customer_db_def accounts_wf_def customer_sessions_wf_def)

lemma same_contact_sym: "same_phone r r' = same_phone r' r" "same_address r r' = same_address r' r"
  unfolding same_phone_def same_address_def by metis+

lemma customer_unique:
  "customer_inv d \<Longrightarrow> r \<in> set (customers d) \<Longrightarrow> r' \<in> set (customers d) \<Longrightarrow>
     cu_id r = cu_id r' \<or> same_phone r r' \<or> same_address r r' \<Longrightarrow> r = r'"
  using inj_key [of cu_id "customers d" r r'] by (auto simp: customer_inv_def accounts_wf_def)

lemma find_customer_iff:
  assumes "customer_inv d"
  shows "find (same_customer t i) (customers d) = Some r \<longleftrightarrow> r \<in> set (customers d) \<and> cu_tenant r = t \<and> cu_id r = i"
proof
  assume "r \<in> set (customers d) \<and> cu_tenant r = t \<and> cu_id r = i"
  then show "find (same_customer t i) (customers d) = Some r"
    using assms by (intro find_unique [of cu_id]) (auto simp: same_customer_def customer_inv_def accounts_wf_def)
qed (auto dest!: find_SomeD simp: same_customer_def)

section \<open>Changes of rows\<close>

text \<open>An update that leaves what identifies a customer.\<close>

definition keeps_account :: "(cust_row \<Rightarrow> cust_row) \<Rightarrow> bool" where
  "keeps_account upd \<longleftrightarrow> (\<forall>r. cu_id (upd r) = cu_id r \<and> cu_tenant (upd r) = cu_tenant r \<and> cu_email (upd r) = cu_email r \<and>
     cu_phone (upd r) = cu_phone r \<and> cu_status (upd r) = cu_status r)"

lemma keeps_accountD:
  "keeps_account upd \<Longrightarrow> cu_id (upd r) = cu_id r" "keeps_account upd \<Longrightarrow> cu_tenant (upd r) = cu_tenant r"
  "keeps_account upd \<Longrightarrow> cu_email (upd r) = cu_email r" "keeps_account upd \<Longrightarrow> cu_phone (upd r) = cu_phone r"
  "keeps_account upd \<Longrightarrow> cu_status (upd r) = cu_status r"
  by (auto simp: keeps_account_def)

lemma keeps_account_if: "keeps_account upd \<Longrightarrow> keeps_account (\<lambda>r. if P r then upd r else r)"
  by (simp add: keeps_account_def)

lemma same_contact_keeps:
  assumes "keeps_account upd"
  shows "same_phone (upd r) (upd r') = same_phone r r'" "same_address (upd r) (upd r') = same_address r r'"
  using keeps_accountD [OF assms] by (simp_all add: same_phone_def same_address_def)

lemma sql_update_customersD:
  assumes "sql_update_customers t hit upd d = Inr (b, d')"
  shows "b = list_ex (\<lambda>r. cu_tenant r = t \<and> hit r) (customers d)"
    and "d' = d\<lparr>customers := map (\<lambda>r. if cu_tenant r = t \<and> hit r then upd r else r) (customers d)\<rparr>"
    and "\<And>r. r \<in> set (customers d) \<Longrightarrow> cu_tenant r = t \<Longrightarrow> hit r \<Longrightarrow> customer_checks (upd r)"
  using assms by (auto simp: sql_update_customers_def list_ex_iff split: if_splits)

lemma map_customers_inv:
  assumes inv: "customer_inv d" and upd: "keeps_account upd" and checks: "\<And>r. r \<in> set (customers d) \<Longrightarrow> customer_checks (upd r)"
  shows "customer_inv (d\<lparr>customers := map upd (customers d)\<rparr>)"
proof -
  have ids: "map cu_id (map upd (customers d)) = map cu_id (customers d)" using keeps_accountD [OF upd] by simp
  have "(\<lambda>r. (cu_tenant r, cu_id r)) \<circ> upd = (\<lambda>r. (cu_tenant r, cu_id r))" using keeps_accountD [OF upd] by (simp add: comp_def)
  then have keys: "customer_keys (map upd (customers d)) = customer_keys (customers d)" by (simp add: customer_keys_def)
  have "accounts_wf (map upd (customers d))"
    unfolding accounts_wf_def ids
    using inv checks by (auto simp: customer_inv_def accounts_wf_def same_contact_keeps [OF upd] keeps_accountD [OF upd])
  then show ?thesis using inv keys by (simp add: customer_inv_def)
qed

lemma sql_update_customers_inv:
  assumes inv: "customer_inv d" and upd: "keeps_account upd" and ok: "sql_update_customers t hit upd d = Inr (b, d')"
  shows "customer_inv d'"
  unfolding sql_update_customersD(2) [OF ok]
proof (rule map_customers_inv [OF inv keeps_account_if [OF upd]])
  fix r assume "r \<in> set (customers d)"
  then show "customer_checks (if cu_tenant r = t \<and> hit r then upd r else r)"
    using inv sql_update_customersD(3) [OF ok] by (simp add: customer_inv_def accounts_wf_def)
qed

lemma sql_insert_customerD:
  assumes "sql_insert_customer ctx r d = Inr d'"
  shows "d' = d\<lparr>customers := customers d @ [r]\<rparr>" and "cu_tenant r = ctx" and "customer_checks r"
    and "\<And>x. x \<in> set (customers d) \<Longrightarrow> cu_id x \<noteq> cu_id r \<and> \<not> same_phone x r \<and> \<not> same_address x r"
  using assms by (auto simp: sql_insert_customer_def list_ex_iff split: if_splits)

lemma sql_insert_customer_inv:
  assumes inv: "customer_inv d" and ok: "sql_insert_customer ctx r d = Inr d'"
  shows "customer_inv d'"
proof -
  note fresh = sql_insert_customerD [OF ok]
  have other: "cu_id x \<noteq> cu_id r" "\<not> same_phone x r" "\<not> same_address x r" "\<not> same_phone r x" "\<not> same_address r x"
    if "x \<in> set (customers d)" for x
    using fresh(4) [OF that] same_contact_sym [of x r] by simp_all
  have "accounts_wf (customers d @ [r])"
    unfolding accounts_wf_def
  proof (intro conjI ballI impI)
    show "distinct (map cu_id (customers d @ [r]))"
      using inv other(1) by (auto simp: customer_inv_def accounts_wf_def) metis
    show "customer_checks x" if "x \<in> set (customers d @ [r])" for x
      using that inv fresh(3) by (auto simp: customer_inv_def accounts_wf_def)
    show "cu_id x = cu_id x'" if "x \<in> set (customers d @ [r])" "x' \<in> set (customers d @ [r])"
      "same_phone x x' \<or> same_address x x'" for x x'
      using that inv other(2-5) by (auto simp: customer_inv_def accounts_wf_def)
  qed
  then show ?thesis using inv unfolding fresh(1) by (auto simp: customer_inv_def customer_sessions_wf_def customer_keys_def)
qed

lemma sql_upsert_guestD:
  assumes "sql_upsert_guest ctx r d = Inr (x, d')"
  obtains (old) "d' = d" "x \<in> set (customers d)" "same_phone x r" "cu_tenant r = ctx" "customer_checks r"
  | (fresh) "x = r" "sql_insert_customer ctx r d = Inr d'" "find (\<lambda>x. same_phone x r) (customers d) = None"
  using assms find_SomeD [of "\<lambda>x. same_phone x r" "customers d" x]
  by (auto simp: sql_upsert_guest_def split: if_splits option.splits sum.splits)

lemma revoke_sessions_inv: "customer_inv d \<Longrightarrow> customer_inv (sql_revoke_sessions now t hit d)"
proof -
  assume inv: "customer_inv d"
  let ?ss = "map (\<lambda>s. if cq_tenant s = t \<and> hit s then s\<lparr>cq_revoked := Some now\<rparr> else s) (customer_sessions d)"
  have "map cq_id ?ss = map cq_id (customer_sessions d)" "map session_key ?ss = map session_key (customer_sessions d)"
    by (rule map_key_update, simp add: session_key_def)+
  then show ?thesis using inv by (auto simp: customer_inv_def customer_sessions_wf_def sql_revoke_sessions_def simp del: map_map)
qed

lemma sql_insert_customer_sessionD:
  assumes "sql_insert_customer_session ctx s d = Inr d'"
  shows "d' = d\<lparr>customer_sessions := customer_sessions d @ [s]\<rparr>" and "cq_tenant s = ctx"
    and "\<And>x. x \<in> set (customer_sessions d) \<Longrightarrow> cq_id x \<noteq> cq_id s \<and> session_key x \<noteq> session_key s"
    and "(cq_tenant s, cq_customer s) \<in> customer_keys (customers d)"
  using assms
  by (auto simp: sql_insert_customer_session_def list_ex_iff session_key_def customer_keys_def same_customer_def split: if_splits)
    (force simp: image_iff)

lemma sql_insert_customer_session_inv:
  assumes "customer_inv d" and ok: "sql_insert_customer_session ctx s d = Inr d'"
  shows "customer_inv d'"
proof -
  have "cq_id s \<notin> cq_id ` set (customer_sessions d)" "session_key s \<notin> session_key ` set (customer_sessions d)"
    using sql_insert_customer_sessionD(3) [OF ok] by (auto simp: image_iff) metis+
  then show ?thesis unfolding sql_insert_customer_sessionD(1) [OF ok]
    using assms(1) sql_insert_customer_sessionD(4) [OF ok] by (simp add: customer_inv_def customer_sessions_wf_def)
qed

section \<open>Operations\<close>

text \<open>What a transaction of a tenant does to the tables.\<close>

inductive customer_effect :: "uuid \<Rightarrow> customer_db \<Rightarrow> customer_db \<Rightarrow> bool" for t where
  nothing: "customer_effect t d d"
| insert: "sql_insert_customer t r d = Inr d' \<Longrightarrow> customer_effect t d d'"
| update: "keeps_account upd \<Longrightarrow> sql_update_customers t hit upd d = Inr (b, d') \<Longrightarrow> customer_effect t d d'"
| session: "sql_insert_customer_session t s d = Inr d' \<Longrightarrow> customer_effect t d d'"
| revoke: "customer_effect t d (sql_revoke_sessions now t hit d)"

datatype customer_op =
    CuCreate tx_fault auth_env uuid string string string string
  | CuGuest tx_fault auth_env uuid string string
  | CuClaim tx_fault auth_env uuid uuid
  | CuMark tx_fault uuid uuid uuid string string
  | CuActivate tx_fault uuid uuid uuid string
  | CuName tx_fault uuid uuid string
  | CuPassword tx_fault time uuid uuid string
  | CuReset tx_fault time uuid uuid string
  | CuSession externals tx_fault uuid uuid uuid string time
  | CuRevoke externals tx_fault time uuid string
  | CuRevokeOthers externals tx_fault time uuid uuid string
  | CuRevokeAll tx_fault time uuid uuid

fun exec_customer :: "customer_op \<Rightarrow> customer_db \<Rightarrow> customer_db" where
  "exec_customer (CuCreate f env t name email phone hash) d = snd (cust_Create f env t name email phone hash d)"
| "exec_customer (CuGuest f env t name phone) d = snd (cust_EnsureGuest f env t name phone d)"
| "exec_customer (CuClaim f env t i) d = snd (cust_ClaimInitialDelivery f env t i d)"
| "exec_customer (CuMark f t i claim status problem) d = snd (cust_MarkInitialDelivery f t i claim status problem d)"
| "exec_customer (CuActivate f t i claim hash) d = snd (cust_ActivateRetriedCredential f t i claim hash d)"
| "exec_customer (CuName f t i name) d = snd (cust_UpdateName f t i name d)"
| "exec_customer (CuPassword f now t i hash) d = snd (cust_UpdatePassword f now t i hash d)"
| "exec_customer (CuReset f now t i hash) d = snd (cust_ResetPassword f now t i hash d)"
| "exec_customer (CuSession X f i t cid token expires) d = snd (cust_CreateSession X f i t cid token expires d)"
| "exec_customer (CuRevoke X f now t token) d = snd (cust_Revoke X f now t token d)"
| "exec_customer (CuRevokeOthers X f now t cid token) d = snd (cust_RevokeOthers X f now t cid token d)"
| "exec_customer (CuRevokeAll f now t cid) d = snd (cust_RevokeAll f now t cid d)"

fun customer_op_tenant :: "customer_op \<Rightarrow> uuid" where
  "customer_op_tenant (CuCreate f env t name email phone hash) = t"
| "customer_op_tenant (CuGuest f env t name phone) = t"
| "customer_op_tenant (CuClaim f env t i) = t"
| "customer_op_tenant (CuMark f t i claim status problem) = t"
| "customer_op_tenant (CuActivate f t i claim hash) = t"
| "customer_op_tenant (CuName f t i name) = t"
| "customer_op_tenant (CuPassword f now t i hash) = t"
| "customer_op_tenant (CuReset f now t i hash) = t"
| "customer_op_tenant (CuSession X f i t cid token expires) = t"
| "customer_op_tenant (CuRevoke X f now t token) = t"
| "customer_op_tenant (CuRevokeOthers X f now t cid token) = t"
| "customer_op_tenant (CuRevokeAll f now t cid) = t"

lemma tx_effect:
  assumes "\<And>v d'. fn t d = Inr (v, d') \<Longrightarrow> customer_effect t d d'"
  shows "customer_effect t d (snd (WithTenantTx f t fn d))"
  by (rule WithTenantTx_inv [where P = "customer_effect t d"]) (auto intro: assms customer_effect.nothing)

lemma update_customer_effect:
  "keeps_account upd \<Longrightarrow> customer_effect t d (snd (update_customer f t i upd d))"
  unfolding update_customer_def by (rule tx_effect) (auto split: sum.splits intro: customer_effect.update)

lemma finish_claim_effect:
  assumes "keeps_account upd"
  shows "customer_effect t d (snd (finish_claim f t hit upd d))"
proof -
  have "keeps_account (\<lambda>r. (upd r)\<lparr>cu_attempts := cu_attempts r + 1, cu_claim := None, cu_until := None\<rparr>)"
    using assms by (simp add: keeps_account_def)
  then show ?thesis
    unfolding finish_claim_def by (intro tx_effect) (auto split: sum.splits bool.splits intro: customer_effect.update)
qed

lemma cust_Create_effect: "customer_effect t d (snd (cust_Create f env t name email phone hash d))"
  unfolding cust_Create_def Let_def by (rule tx_effect) (auto split: sum.splits intro: customer_effect.insert)

lemma cust_EnsureGuest_effect: "customer_effect t d (snd (cust_EnsureGuest f env t name phone d))"
  unfolding cust_EnsureGuest_def
  by (rule tx_effect) (auto split: sum.splits elim!: sql_upsert_guestD intro: customer_effect.nothing customer_effect.insert)

lemma cust_Claim_effect: "customer_effect t d (snd (cust_ClaimInitialDelivery f env t i d))"
  unfolding cust_ClaimInitialDelivery_def
  by (rule tx_effect) (auto split: sum.splits elim!: customer_effect.update [rotated] simp: keeps_account_def)

lemma cust_CreateSession_effect: "customer_effect t d (snd (cust_CreateSession X f i t cid token expires d))"
  unfolding cust_CreateSession_def by (rule tx_effect) (auto split: sum.splits intro: customer_effect.session)

lemma revoke_tx_effect: "customer_effect t d (snd (revoke_tx f now t hit d))"
  unfolding revoke_tx_def by (rule tx_effect) (auto intro: customer_effect.revoke)

lemma exec_customer_effect: "customer_effect (customer_op_tenant x) d (exec_customer x d)"
  by (cases x)
    (auto simp: cust_UpdateName_def cust_UpdatePassword_def cust_ResetPassword_def cust_MarkInitialDelivery_def
      cust_ActivateRetriedCredential_def cust_Revoke_def cust_RevokeOthers_def cust_RevokeAll_def keeps_account_def
      intro: cust_Create_effect cust_EnsureGuest_effect cust_Claim_effect cust_CreateSession_effect revoke_tx_effect
        update_customer_effect finish_claim_effect)

lemma customer_effect_inv: "customer_effect t d d' \<Longrightarrow> customer_inv d \<Longrightarrow> customer_inv d'"
  by (induction rule: customer_effect.induct)
    (auto intro: sql_insert_customer_inv sql_update_customers_inv sql_insert_customer_session_inv revoke_sessions_inv)

lemma exec_customer_inv: "customer_inv d \<Longrightarrow> customer_inv (exec_customer x d)"
  by (rule customer_effect_inv [OF exec_customer_effect])

section \<open>Tenants\<close>

definition customer_view :: "uuid \<Rightarrow> customer_db \<Rightarrow> cust_row list \<times> customer_session_row list" where
  "customer_view t d = (filter (\<lambda>r. cu_tenant r = t) (customers d), filter (\<lambda>s. cq_tenant s = t) (customer_sessions d))"

lemma customer_effect_view: "customer_effect t d d' \<Longrightarrow> t' \<noteq> t \<Longrightarrow> customer_view t' d' = customer_view t' d"
proof (induction rule: customer_effect.induct)
  case (insert r d d')
  then show ?case using sql_insert_customerD(1,2) [OF insert(1)] by (simp add: customer_view_def)
next
  case (update upd hit d b d')
  have "filter (\<lambda>r. cu_tenant r = t') (map (\<lambda>r. if cu_tenant r = t \<and> hit r then upd r else r) (customers d)) =
      filter (\<lambda>r. cu_tenant r = t') (customers d)"
    by (rule filter_map_frame) (use update keeps_accountD(2) [OF update(1)] in auto)
  then show ?case unfolding sql_update_customersD(2) [OF update(2)] by (simp add: customer_view_def)
next
  case (session s d d')
  then show ?case using sql_insert_customer_sessionD(1,2) [OF session(1)] by (simp add: customer_view_def)
next
  case (revoke d now hit)
  then show ?case unfolding customer_view_def sql_revoke_sessions_def by (auto intro: filter_map_frame)
qed simp

lemma exec_customer_view: "customer_op_tenant x \<noteq> t \<Longrightarrow> customer_view t (exec_customer x d) = customer_view t d"
  by (rule customer_effect_view [OF exec_customer_effect]) simp

interpretation customer: tenant_store exec_customer customer_inv empty_customer_db "Some \<circ> customer_op_tenant" customer_view
  by unfold_locales (auto intro: customer_inv_empty exec_customer_inv exec_customer_view)

section \<open>Customers stay\<close>

definition same_account :: "cust_row \<Rightarrow> cust_row \<Rightarrow> bool" where
  "same_account r r' \<longleftrightarrow> cu_id r' = cu_id r \<and> cu_tenant r' = cu_tenant r \<and> cu_email r' = cu_email r \<and>
     cu_phone r' = cu_phone r \<and> cu_status r' = cu_status r"

definition accounts_kept :: "customer_db \<Rightarrow> customer_db \<Rightarrow> bool" where
  "accounts_kept d d' \<longleftrightarrow> (\<forall>r \<in> set (customers d). \<exists>r' \<in> set (customers d'). same_account r r')"

lemma accounts_kept_refl: "customers d' = customers d \<Longrightarrow> accounts_kept d d'"
  by (auto simp: accounts_kept_def same_account_def)

lemma accounts_kept_trans: "accounts_kept d d1 \<Longrightarrow> accounts_kept d1 d2 \<Longrightarrow> accounts_kept d d2"
  unfolding accounts_kept_def same_account_def by metis

lemma map_accounts_kept: "keeps_account upd \<Longrightarrow> accounts_kept d (d\<lparr>customers := map upd (customers d)\<rparr>)"
  by (auto simp: accounts_kept_def same_account_def keeps_accountD)

lemma customer_effect_kept: "customer_effect t d d' \<Longrightarrow> accounts_kept d d'"
proof (induction rule: customer_effect.induct)
  case (insert r d d')
  then show ?case using sql_insert_customerD(1) [OF insert(1)] by (auto simp: accounts_kept_def same_account_def)
next
  case (update upd hit d b d')
  show ?case unfolding sql_update_customersD(2) [OF update(2)]
    by (rule map_accounts_kept [OF keeps_account_if [OF update(1)]])
next
  case (session s d d')
  then show ?case using sql_insert_customer_sessionD(1) [OF session(1)] by (simp add: accounts_kept_refl)
qed (simp_all add: accounts_kept_refl sql_revoke_sessions_def)

lemma run_accounts_kept: "accounts_kept d (run_ops exec_customer xs d)"
proof (induction xs arbitrary: d)
  case (Cons x xs)
  then show ?case using accounts_kept_trans customer_effect_kept [OF exec_customer_effect] by (metis run_ops_simps(2))
qed (simp add: accounts_kept_refl)

section \<open>Claims\<close>

definition customer_holder :: "customer_db \<Rightarrow> uuid \<times> uuid \<Rightarrow> uuid option" where
  "customer_holder d k = (case find (same_customer (fst k) (snd k)) (customers d) of None \<Rightarrow> None | Some r \<Rightarrow> cu_claim r)"

definition finish_initial :: "uuid \<times> uuid \<Rightarrow> uuid \<Rightarrow> bool \<Rightarrow> customer_db \<Rightarrow> customer_db" where
  "finish_initial k claim sent d = snd (cust_MarkInitialDelivery NoFault (fst k) (snd k) claim
     (if sent then ''sent'' else ''failed'') (if sent then [] else ''email provider unavailable'') d)"

lemma customer_holder_iff:
  assumes "customer_inv d"
  shows "customer_holder d (t, i) = Some c \<longleftrightarrow> (\<exists>r \<in> set (customers d). cu_tenant r = t \<and> cu_id r = i \<and> cu_claim r = Some c)"
proof -
  have "customer_holder d (t, i) = Some c \<longleftrightarrow> (\<exists>r. find (same_customer t i) (customers d) = Some r \<and> cu_claim r = Some c)"
    by (auto simp: customer_holder_def split: option.splits)
  then show ?thesis using find_customer_iff [OF assms] by auto
qed

lemma finish_initial_stale:
  assumes "customer_inv d" and "customer_holder d k \<noteq> Some claim"
  shows "finish_initial k claim sent d = d"
proof -
  obtain t i where k: "k = (t, i)" by fastforce
  then have "\<not> list_ex (\<lambda>r. cu_tenant r = t \<and> cu_id r = i \<and> cu_claim r = Some claim) (customers d)"
    using assms by (auto simp: customer_holder_iff list_ex_iff)
  then show ?thesis
    by (auto simp: k finish_initial_def cust_MarkInitialDelivery_def finish_claim_def WithTenantTx_def sql_update_customers_def)
qed

definition finished :: "bool \<Rightarrow> cust_row \<Rightarrow> cust_row" where
  "finished sent r = r\<lparr>cu_delivery := (if sent then ''sent'' else ''failed''),
     cu_error := nullif (if sent then [] else ''email provider unavailable''), cu_attempts := cu_attempts r + 1,
     cu_claim := None, cu_until := None\<rparr>"

lemma find_map_frame: "(\<And>x. Q x \<Longrightarrow> \<not> P x \<and> \<not> P (g x)) \<Longrightarrow> find P (map (\<lambda>x. if Q x then g x else x) xs) = find P xs"
  by (induction xs) auto

lemma finish_initial_ok:
  assumes inv: "customer_inv d" and h: "customer_holder d (t, i) = Some claim"
  shows "customers (finish_initial (t, i) claim sent d) =
    map (\<lambda>r. if cu_tenant r = t \<and> cu_id r = i \<and> cu_claim r = Some claim then finished sent r else r) (customers d)"
proof -
  have hit: "list_ex (\<lambda>r. cu_tenant r = t \<and> cu_id r = i \<and> cu_claim r = Some claim) (customers d)"
    using inv h by (auto simp: customer_holder_iff list_ex_iff)
  have checks: "customer_checks (finished sent r)" if "r \<in> set (customers d)" for r
  proof -
    have "customer_checks r" using inv that by (simp add: customer_inv_def accounts_wf_def)
    then show ?thesis by (simp add: customer_checks_def delivery_status_def claim_state_def finished_def)
  qed
  then show ?thesis
    using hit unfolding finish_initial_def cust_MarkInitialDelivery_def finish_claim_def WithTenantTx_NoFault sql_update_customers_def
    by (auto simp: list_ex_iff finished_def)
qed

lemma finish_initial_inv: "customer_inv d \<Longrightarrow> customer_inv (finish_initial k claim sent d)"
  unfolding finish_initial_def cust_MarkInitialDelivery_def
  by (rule customer_effect_inv [OF finish_claim_effect]) (simp_all add: keeps_account_def)

lemma finish_initial_releases:
  assumes inv: "customer_inv d" and h: "customer_holder d k = Some claim"
  shows "customer_holder (finish_initial k claim sent d) k = None"
proof (rule ccontr)
  obtain t i where k: "k = (t, i)" by fastforce
  assume "customer_holder (finish_initial k claim sent d) k \<noteq> None"
  then obtain c where "customer_holder (finish_initial k claim sent d) (t, i) = Some c" using k by auto
  then obtain r where "r \<in> set (customers (finish_initial k claim sent d))" "cu_tenant r = t" "cu_id r = i" "cu_claim r = Some c"
    using customer_holder_iff [OF finish_initial_inv [OF inv]] by blast
  moreover from this obtain r0 where "r0 \<in> set (customers d)"
    "r = (if cu_tenant r0 = t \<and> cu_id r0 = i \<and> cu_claim r0 = Some claim then finished sent r0 else r0)"
    using finish_initial_ok [OF inv h [unfolded k], of sent] unfolding k by auto
  ultimately have r0: "r0 \<in> set (customers d)" "cu_tenant r0 = t" "cu_id r0 = i" "cu_claim r0 \<noteq> Some claim"
    by (auto simp: finished_def split: if_splits)
  moreover obtain r1 where "r1 \<in> set (customers d)" "cu_tenant r1 = t" "cu_id r1 = i" "cu_claim r1 = Some claim"
    using h customer_holder_iff [OF inv] by (auto simp: k)
  ultimately show False using customer_unique [OF inv r0(1)] by metis
qed

lemma finish_initial_other:
  assumes inv: "customer_inv d" and "k \<noteq> k'"
  shows "customer_holder (finish_initial k claim sent d) k' = customer_holder d k'"
proof (cases "customer_holder d k = Some claim")
  case True
  obtain t i t' i' where k: "k = (t, i)" "k' = (t', i')" by fastforce
  have "find (same_customer t' i') (customers (finish_initial (t, i) claim sent d)) = find (same_customer t' i') (customers d)"
    unfolding finish_initial_ok [OF inv True [unfolded k]]
    by (rule find_map_frame) (use assms(2) k in \<open>auto simp: same_customer_def finished_def\<close>)
  then show ?thesis by (simp add: customer_holder_def k)
qed (simp add: finish_initial_stale [OF inv])

interpretation initial_passwords: claim_store exec_customer customer_inv empty_customer_db customer_holder finish_initial
  by unfold_locales
    (rule customer_inv_empty exec_customer_inv finish_initial_stale finish_initial_releases finish_initial_other finish_initial_inv;
      assumption)+

section \<open>Revoked sessions\<close>

definition customer_session_dead :: "customer_db \<Rightarrow> uuid \<times> string \<Rightarrow> bool" where
  "customer_session_dead d k \<longleftrightarrow> (\<exists>s \<in> set (customer_sessions d). session_key s = k \<and> cq_revoked s \<noteq> None)"

definition customer_session_accepted :: "time \<Rightarrow> customer_db \<Rightarrow> uuid \<times> string \<Rightarrow> bool" where
  "customer_session_accepted now d k \<longleftrightarrow> find (live_customer_session now (fst k) (snd k)) (customer_sessions d) \<noteq> None"

lemma customer_session_dead_effect: "customer_effect t d d' \<Longrightarrow> customer_session_dead d k \<Longrightarrow> customer_session_dead d' k"
proof (induction rule: customer_effect.induct)
  case (insert r d d')
  then show ?case using sql_insert_customerD(1) [OF insert(1)] by (simp add: customer_session_dead_def)
next
  case (update upd hit d b d')
  then show ?case using sql_update_customersD(2) [OF update(2)] by (simp add: customer_session_dead_def)
next
  case (session s d d')
  then show ?case using sql_insert_customer_sessionD(1) [OF session(1)] by (auto simp: customer_session_dead_def)
next
  case (revoke d now hit)
  then obtain s where s: "s \<in> set (customer_sessions d)" "session_key s = k" "cq_revoked s \<noteq> None"
    by (auto simp: customer_session_dead_def)
  let ?s = "if cq_tenant s = t \<and> hit s then s\<lparr>cq_revoked := Some now\<rparr> else s"
  have "?s \<in> set (customer_sessions (sql_revoke_sessions now t hit d))" using s(1) by (simp add: sql_revoke_sessions_def)
  moreover have "session_key ?s = k" "cq_revoked ?s \<noteq> None" using s(2,3) by (auto simp: session_key_def)
  ultimately show ?case unfolding customer_session_dead_def by blast
qed simp

lemma customer_session_unique:
  "customer_inv d \<Longrightarrow> s \<in> set (customer_sessions d) \<Longrightarrow> s' \<in> set (customer_sessions d) \<Longrightarrow> session_key s = session_key s' \<Longrightarrow> s = s'"
  using inj_key [of session_key "customer_sessions d" s s'] by (simp add: customer_inv_def customer_sessions_wf_def)

lemma customer_session_dead_refused: "customer_inv d \<Longrightarrow> customer_session_dead d k \<Longrightarrow> \<not> customer_session_accepted now d k"
proof
  assume inv: "customer_inv d" and "customer_session_dead d k" and "customer_session_accepted now d k"
  then obtain s s' where "s \<in> set (customer_sessions d)" "session_key s = k" "cq_revoked s \<noteq> None"
    and "find (live_customer_session now (fst k) (snd k)) (customer_sessions d) = Some s'"
    by (auto simp: customer_session_dead_def customer_session_accepted_def)
  moreover from this have "s' \<in> set (customer_sessions d)" "session_key s' = k" "cq_revoked s' = None"
    using find_SomeD by (force simp: live_customer_session_def session_key_def)+
  ultimately show False using customer_session_unique [OF inv] by metis
qed

interpretation customer_sessions: session_store exec_customer customer_inv empty_customer_db customer_session_dead customer_session_accepted
  by unfold_locales
    (rule customer_inv_empty exec_customer_inv customer_session_dead_effect [OF exec_customer_effect] customer_session_dead_refused;
      assumption)+

end
