(* ===== verification/Auth_Inv.thy ===== *)
theory Auth_Inv
  imports Auth_Store
begin

text \<open>
  The invariant of the tables of auth-service, its preservation by every operation of the
  repository, and the store as an instance of \<open>tenant_store\<close> (memberships), \<open>claim_store\<close> (deliveries of
  initial passwords) and \<open>session_store\<close> (revoked sessions).
\<close>

section \<open>The invariant\<close>

definition identities_wf :: "auth_db \<Rightarrow> bool" where
  "identities_wf d \<longleftrightarrow> distinct (map ai_id (identities d)) \<and> (\<forall>r \<in> set (identities d). identity_checks r) \<and>
     (\<forall>r \<in> set (identities d). \<forall>r' \<in> set (identities d). ai_id r \<noteq> ai_id r' \<longrightarrow> \<not> identity_conflict r r')"

text \<open>A credential is claimed exactly while its delivery is under way.\<close>

definition credential_ok :: "credential_row \<Rightarrow> bool" where
  "credential_ok c \<longleftrightarrow> delivery_status (cr_status c) \<and> 0 \<le> cr_attempts c \<and>
     (cr_claim c \<noteq> None \<longleftrightarrow> cr_status c = ''sending'') \<and> (cr_until c \<noteq> None \<longleftrightarrow> cr_status c = ''sending'')"

definition credentials_wf :: "auth_db \<Rightarrow> bool" where
  "credentials_wf d \<longleftrightarrow> distinct (map cr_identity (credentials d)) \<and>
     cr_identity ` set (credentials d) = ai_id ` set (identities d) \<and> (\<forall>c \<in> set (credentials d). credential_ok c)"

definition membership_ok :: "auth_db \<Rightarrow> membership_row \<Rightarrow> bool" where
  "membership_ok d m \<longleftrightarrow> mb_identity m \<in> ai_id ` set (identities d) \<and> Role_Valid (mb_role m) \<and>
     (mb_status m = ''active'' \<or> mb_status m = ''inactive'')"

definition memberships_wf :: "auth_db \<Rightarrow> bool" where
  "memberships_wf d \<longleftrightarrow> distinct (map (\<lambda>m. (mb_tenant m, mb_identity m)) (memberships d)) \<and>
     (\<forall>m \<in> set (memberships d). membership_ok d m)"

definition sessions_wf :: "auth_db \<Rightarrow> bool" where
  "sessions_wf d \<longleftrightarrow> distinct (map se_id (sessions d)) \<and>
     distinct (map (\<lambda>s. (se_tenant s, se_token s)) (sessions d)) \<and>
     (\<forall>s \<in> set (sessions d). se_identity s \<in> ai_id ` set (identities d))"

definition auth_inv :: "auth_db \<Rightarrow> bool" where
  "auth_inv d \<longleftrightarrow> identities_wf d \<and> credentials_wf d \<and> memberships_wf d \<and> sessions_wf d"

lemmas auth_inv_defs = auth_inv_def identities_wf_def credentials_wf_def memberships_wf_def sessions_wf_def

lemma auth_inv_empty: "auth_inv empty_auth_db"
  by (simp add: auth_inv_defs empty_auth_db_def)

lemma identity_exists_iff: "identity_exists d i \<longleftrightarrow> i \<in> ai_id ` set (identities d)"
  by (auto simp: identity_exists_def list_ex_iff)

lemma identity_conflict_sym: "identity_conflict r r' \<longleftrightarrow> identity_conflict r' r"
  unfolding identity_conflict_def same_email_def
  by (cases "ai_email r"; cases "ai_email r'"; cases "ai_phone r"; cases "ai_phone r'") auto

section \<open>Rows are changed in place\<close>

text \<open>An update of credentials, memberships or sessions that keeps keys and the conditions on a row.\<close>

lemma update_credentials_inv:
  assumes "auth_inv d" and "\<And>c. cr_identity (upd c) = cr_identity c"
    and "\<And>c. c \<in> set (credentials d) \<Longrightarrow> P c \<Longrightarrow> credential_ok (upd c)"
  shows "auth_inv (d\<lparr>credentials := map (\<lambda>c. if P c then upd c else c) (credentials d)\<rparr>)"
proof -
  let ?cs = "map (\<lambda>c. if P c then upd c else c) (credentials d)"
  have keys: "map cr_identity ?cs = map cr_identity (credentials d)" by (rule map_key_update) (rule assms(2))
  then have "cr_identity ` set ?cs = cr_identity ` set (credentials d)" by (metis set_map)
  moreover have "\<forall>c \<in> set ?cs. credential_ok c" using assms(1,3) by (auto simp: auth_inv_defs)
  ultimately show ?thesis using keys assms(1) by (simp add: auth_inv_defs membership_ok_def del: set_map map_map)
qed

lemma update_memberships_inv:
  assumes "auth_inv d" and "\<And>m. mb_tenant (upd m) = mb_tenant m" and "\<And>m. mb_identity (upd m) = mb_identity m"
    and "\<And>m. m \<in> set (memberships d) \<Longrightarrow> P m \<Longrightarrow> membership_ok d (upd m)"
  shows "auth_inv (d\<lparr>memberships := map (\<lambda>m. if P m then upd m else m) (memberships d)\<rparr>)"
proof -
  let ?ms = "map (\<lambda>m. if P m then upd m else m) (memberships d)"
  have "map (\<lambda>m. (mb_tenant m, mb_identity m)) ?ms = map (\<lambda>m. (mb_tenant m, mb_identity m)) (memberships d)"
    by (rule map_key_update) (simp add: assms(2,3))
  with assms(1,4) show ?thesis by (auto simp: auth_inv_defs membership_ok_def simp del: map_map)
qed

lemma update_sessions_inv:
  assumes "auth_inv d" and "\<And>s. se_id (upd s) = se_id s" and "\<And>s. se_tenant (upd s) = se_tenant s"
    and "\<And>s. se_token (upd s) = se_token s" and "\<And>s. se_identity (upd s) = se_identity s"
  shows "auth_inv (d\<lparr>sessions := map (\<lambda>s. if P s then upd s else s) (sessions d)\<rparr>)"
proof -
  let ?ss = "map (\<lambda>s. if P s then upd s else s) (sessions d)"
  have "map se_id ?ss = map se_id (sessions d)" by (rule map_key_update) (rule assms(2))
  moreover have "map (\<lambda>s. (se_tenant s, se_token s)) ?ss = map (\<lambda>s. (se_tenant s, se_token s)) (sessions d)"
    by (rule map_key_update) (simp add: assms(3,4))
  ultimately show ?thesis using assms(1,5) by (auto simp: auth_inv_defs membership_ok_def simp del: map_map)
qed

section \<open>Registration\<close>

text \<open>A registration adds an identity and its credential, or none of them.\<close>

definition new_identity :: "auth_env \<Rightarrow> string \<Rightarrow> string \<Rightarrow> string \<Rightarrow> identity_row" where
  "new_identity env name email phone = \<lparr>ai_id = ae_id env, ai_name = Some name, ai_email = Some email,
     ai_phone = nullif phone, ai_status = ''active''\<rparr>"

definition new_credential :: "auth_env \<Rightarrow> string \<Rightarrow> credential_row" where
  "new_credential env hash = \<lparr>cr_identity = ae_id env, cr_hash = hash, cr_changed_at = ae_now env, cr_must_change = True,
     cr_status = ''pending'', cr_attempts = 0, cr_error = None, cr_claim = None, cr_until = None\<rparr>"

lemma register_identityD:
  assumes "register_identity env name email phone hash d = Inr (i, created, d1)"
  obtains (existing) r where "\<not> created" "d1 = d" "find_identity email d = Some r" "i = ai_id r"
  | (fresh) "created" "i = ae_id env" "identity_checks (new_identity env name email phone)"
      "\<not> list_ex (identity_conflict (new_identity env name email phone)) (identities d)"
      "\<not> list_ex (\<lambda>c'. cr_identity c' = ae_id env) (credentials d)"
      "d1 = d\<lparr>identities := identities d @ [new_identity env name email phone],
              credentials := credentials d @ [new_credential env hash]\<rparr>"
proof (cases "list_ex (identity_conflict (new_identity env name email phone)) (identities d)")
  case True
  with assms show ?thesis
    by (auto simp: register_identity_def sql_insert_identity_def new_identity_def split: if_splits option.splits intro!: existing)
next
  case False
  with assms show ?thesis
    by (auto simp: register_identity_def sql_insert_identity_def sql_insert_credential_def new_identity_def [symmetric]
        new_credential_def split: if_splits intro!: fresh)
qed

lemma register_identity_inv:
  assumes inv: "auth_inv d" and reg: "register_identity env name email phone hash d = Inr (i, created, d1)"
  shows "auth_inv d1 \<and> i \<in> ai_id ` set (identities d1)"
  using reg
proof (cases rule: register_identityD)
  case (existing r)
  then show ?thesis using inv find_SomeD by (fastforce simp: find_identity_def)
next
  case fresh
  let ?r = "new_identity env name email phone" and ?c = "new_credential env hash"
  have ids: "ai_id ?r = ae_id env" "cr_identity ?c = ae_id env" "credential_ok ?c"
    by (simp_all add: new_identity_def new_credential_def credential_ok_def delivery_status_def)
  have apart: "\<forall>r' \<in> set (identities d). \<not> identity_conflict ?r r' \<and> \<not> identity_conflict r' ?r"
    using fresh(4) identity_conflict_sym by (auto simp: list_ex_iff)
  then have "ae_id env \<notin> ai_id ` set (identities d)" using ids by (auto simp: identity_conflict_def)
  moreover have "ae_id env \<notin> cr_identity ` set (credentials d)" using fresh(5) by (auto simp: list_ex_iff)
  ultimately show ?thesis using inv ids apart fresh(2,3,6)
    by (auto simp: auth_inv_defs membership_ok_def)
qed

lemma sql_insert_membershipD:
  assumes "sql_insert_membership ctx m d = Inr (inserted, d')"
  obtains "inserted" "mb_tenant m = ctx" "Role_Valid (mb_role m)" "identity_exists d (mb_identity m)"
      "\<not> list_ex (same_member (mb_tenant m) (mb_identity m)) (memberships d)"
      "d' = d\<lparr>memberships := memberships d @ [m]\<rparr>"
  | "\<not> inserted" "d' = d" "list_ex (same_member (mb_tenant m) (mb_identity m)) (memberships d)"
  using assms by (auto simp: sql_insert_membership_def split: if_splits)

lemma sql_insert_membership_inv:
  assumes "auth_inv d" and "sql_insert_membership ctx m d = Inr (inserted, d')"
    and "mb_status m = ''active''"
  shows "auth_inv d'"
  using assms(2)
proof (cases rule: sql_insert_membershipD)
  case 1
  then show ?thesis using assms(1,3)
    by (auto simp: auth_inv_defs membership_ok_def identity_exists_iff list_ex_iff same_member_def)
qed (use assms in simp)

lemma repo_RegisterD:
  assumes "repo_Register f env t name email phone role hash d = (Inr v, d')"
  obtains i created d1 m where "register_identity env name email phone hash d = Inr (i, created, d1)"
    "sql_insert_membership t \<lparr>mb_tenant = t, mb_identity = i, mb_role = role, mb_status = ''active'',
       mb_created = ae_now env\<rparr> d1 = Inr (rg_CreatedMembership v, d')"
    "find (same_member t i) (memberships d') = Some m" "rg_IdentityID v = i" "rg_CreatedIdentity v = created"
    "rg_Role v = mb_role m" "f = NoFault"
proof -
  from assms have f: "f = NoFault" and "(case register_identity env name email phone hash d of
      Inl e \<Rightarrow> Inl e
    | Inr (i, created, d1) \<Rightarrow>
        (case sql_insert_membership t \<lparr>mb_tenant = t, mb_identity = i, mb_role = role, mb_status = ''active'',
               mb_created = ae_now env\<rparr> d1 of
          Inl e \<Rightarrow> Inl e
        | Inr (inserted, d2) \<Rightarrow>
          (case find (same_member t i) (memberships d2) of
             None \<Rightarrow> Inl ErrNoRows
           | Some m \<Rightarrow> Inr (\<lparr>rg_IdentityID = i, rg_CreatedIdentity = created, rg_CreatedMembership = inserted,
               rg_Role = mb_role m\<rparr>, d2)))) = Inr (v, d')"
    by (simp_all add: repo_Register_def WithTenantTx_ok)
  then show ?thesis using that by (fastforce split: sum.splits prod.splits option.splits)
qed

lemma repo_Register_inv [inv_intros]:
  assumes "auth_inv d"
  shows "auth_inv (snd (repo_Register f env t name email phone role hash d))"
  unfolding repo_Register_def
proof (rule WithTenantTx_inv [where P = auth_inv], goal_cases)
  case (1 v d')
  then have "repo_Register NoFault env t name email phone role hash d = (Inr v, d')"
    by (simp add: repo_Register_def WithTenantTx_ok)
  then show ?case
  proof (rule repo_RegisterD)
    fix i created d1
    assume "register_identity env name email phone hash d = Inr (i, created, d1)"
      and ins: "sql_insert_membership t \<lparr>mb_tenant = t, mb_identity = i, mb_role = role, mb_status = ''active'',
        mb_created = ae_now env\<rparr> d1 = Inr (rg_CreatedMembership v, d')"
    then have "auth_inv d1" using assms register_identity_inv by blast
    then show ?thesis using ins by (rule sql_insert_membership_inv) simp
  qed
qed (rule assms)

section \<open>Deliveries, members, sessions and passwords\<close>

lemma repo_ClaimInitialDelivery_inv [inv_intros]:
  "auth_inv d \<Longrightarrow> auth_inv (snd (repo_ClaimInitialDelivery f env i d))"
  unfolding repo_ClaimInitialDelivery_def Let_def
proof (rule pool_exec_inv)
  assume inv: "auth_inv d"
  then have "\<forall>c \<in> set (credentials d). credential_ok c" by (simp add: auth_inv_defs)
  then show "auth_inv d'"
    if "Inr ((ae_id env, list_ex (\<lambda>c. cr_identity c = i \<and> delivery_claimable (ae_now env) c) (credentials d)),
       d\<lparr>credentials := map (\<lambda>c. if cr_identity c = i \<and> delivery_claimable (ae_now env) c
         then c\<lparr>cr_status := ''sending'', cr_claim := Some (ae_id env), cr_until := Some (ae_now env + delivery_lease)\<rparr>
         else c) (credentials d)\<rparr>) = Inr (v, d')" for v d'
    using that update_credentials_inv [OF inv, of "\<lambda>c. c\<lparr>cr_status := ''sending'', cr_claim := Some (ae_id env),
        cr_until := Some (ae_now env + delivery_lease)\<rparr>"]
    by (auto simp: credential_ok_def delivery_status_def)
qed

lemma sql_finish_delivery_inv:
  assumes "auth_inv d" and "sql_finish_delivery hit upd d = Inr (u, d')"
    and "\<And>c. cr_identity (upd c) = cr_identity c" and "\<And>c. cr_status (upd c) \<noteq> ''sending''"
    and "\<And>c. cr_attempts (upd c) = cr_attempts c"
  shows "auth_inv d'"
proof -
  have ok: "\<forall>c \<in> set (credentials d). hit c \<longrightarrow> delivery_status (cr_status (upd c))"
    and d': "d' = d\<lparr>credentials := map (\<lambda>c. if hit c then (upd c)\<lparr>cr_attempts := cr_attempts c + 1, cr_claim := None,
      cr_until := None\<rparr> else c) (credentials d)\<rparr>"
    using assms(2) by (auto simp: sql_finish_delivery_def list_ex_iff split: if_splits)
  have "\<forall>c \<in> set (credentials d). 0 \<le> cr_attempts c"
    using assms(1) by (auto simp: auth_inv_defs credential_ok_def)
  then show ?thesis unfolding d' using ok assms(3-5)
    by (intro update_credentials_inv assms(1)) (auto simp: credential_ok_def)
qed

lemma repo_MarkInitialDelivery_inv [inv_intros]:
  "auth_inv d \<Longrightarrow> auth_inv (snd (repo_MarkInitialDelivery f i claim (if sent then ''sent'' else ''failed'') problem d))"
  unfolding repo_MarkInitialDelivery_def
  by (rule pool_exec_inv) (auto elim!: sql_finish_delivery_inv split: if_splits)

lemma repo_ActivateRetriedCredential_inv [inv_intros]:
  "auth_inv d \<Longrightarrow> auth_inv (snd (repo_ActivateRetriedCredential f i claim hash d))"
  unfolding repo_ActivateRetriedCredential_def
  by (rule pool_exec_inv) (auto elim!: sql_finish_delivery_inv)

lemma sql_update_membershipD:
  assumes "sql_update_membership upd t i d = Inr (m, r, d')"
  obtains old where "find (same_member t i) (memberships d) = Some old" "find (\<lambda>r. ai_id r = i) (identities d) = Some r"
    "m = upd old" "\<not> last_owner_guard d old (upd old)" "Role_Valid (mb_role (upd old))"
    "mb_status (upd old) = ''active'' \<or> mb_status (upd old) = ''inactive''"
    "d' = d\<lparr>memberships := map (\<lambda>m. if same_member t i m then upd m else m) (memberships d)\<rparr>"
  using assms by (auto simp: sql_update_membership_def split: option.splits if_splits)

lemma same_member_unique:
  "auth_inv d \<Longrightarrow> m \<in> set (memberships d) \<Longrightarrow> m' \<in> set (memberships d) \<Longrightarrow> same_member t i m \<Longrightarrow> same_member t i m' \<Longrightarrow> m = m'"
  using inj_key [of "\<lambda>m. (mb_tenant m, mb_identity m)" "memberships d" m m']
  by (auto simp: auth_inv_defs same_member_def)

lemma sql_update_membership_inv:
  assumes inv: "auth_inv d" and upd: "sql_update_membership upd t i d = Inr (m, r, d')"
    and "\<And>m. mb_tenant (upd m) = mb_tenant m" and "\<And>m. mb_identity (upd m) = mb_identity m"
  shows "auth_inv d'"
  using upd
proof (rule sql_update_membershipD)
  fix old
  assume old: "find (same_member t i) (memberships d) = Some old" "Role_Valid (mb_role (upd old))"
    "mb_status (upd old) = ''active'' \<or> mb_status (upd old) = ''inactive''"
    and d': "d' = d\<lparr>memberships := map (\<lambda>m. if same_member t i m then upd m else m) (memberships d)\<rparr>"
  have "membership_ok d (upd x)" if "x \<in> set (memberships d)" "same_member t i x" for x
  proof -
    have "x = old" using same_member_unique [OF inv that(1)] that(2) find_SomeD [OF old(1)] by blast
    then show ?thesis using old(2,3) that(1) inv assms(4) by (auto simp: membership_ok_def auth_inv_defs)
  qed
  then show ?thesis unfolding d' using assms(3,4) by (intro update_memberships_inv inv) auto
qed

lemma update_member_inv:
  assumes "auth_inv d" and "\<And>m. mb_tenant (upd m) = mb_tenant m" and "\<And>m. mb_identity (upd m) = mb_identity m"
  shows "auth_inv (snd (update_member f upd t i d))"
  unfolding update_member_def
  by (rule WithTenantTx_inv)
    (use assms in \<open>auto split: sum.splits if_splits intro: sql_update_membership_inv\<close>)

lemma repo_ChangeMemberRole_inv [inv_intros]: "auth_inv d \<Longrightarrow> auth_inv (snd (repo_ChangeMemberRole f t i role d))"
  unfolding repo_ChangeMemberRole_def by (rule update_member_inv) simp_all

lemma repo_SetMemberStatus_inv [inv_intros]: "auth_inv d \<Longrightarrow> auth_inv (snd (repo_SetMemberStatus f t i status d))"
  unfolding repo_SetMemberStatus_def by (rule update_member_inv) simp_all

lemma sql_insert_sessionD:
  "sql_insert_session ctx s d = Inr d' \<Longrightarrow> d' = d\<lparr>sessions := sessions d @ [s]\<rparr> \<and> se_tenant s = ctx \<and>
     se_id s \<notin> se_id ` set (sessions d) \<and> (se_tenant s, se_token s) \<notin> (\<lambda>s. (se_tenant s, se_token s)) ` set (sessions d) \<and>
     se_identity s \<in> ai_id ` set (identities d)"
  by (auto simp: sql_insert_session_def list_ex_iff identity_exists_iff split: if_splits)

lemma sql_insert_session_inv:
  assumes "auth_inv d" and "sql_insert_session ctx s d = Inr d'"
  shows "auth_inv d'"
  using sql_insert_sessionD [OF assms(2)] assms(1) by (clarsimp simp: auth_inv_defs membership_ok_def)

lemma repo_CreateSession_inv [inv_intros]: "auth_inv d \<Longrightarrow> auth_inv (snd (repo_CreateSession f env t i token expires d))"
  unfolding repo_CreateSession_def
  by (rule WithTenantTx_inv) (auto split: option.splits sum.splits prod.splits intro: sql_insert_session_inv)

lemma revoke_identity_sessions_inv: "auth_inv d \<Longrightarrow> auth_inv (revoke_identity_sessions now i keep d)"
  unfolding revoke_identity_sessions_def by (rule update_sessions_inv) simp_all

lemma sql_set_password_inv: "auth_inv d \<Longrightarrow> auth_inv (sql_set_password now i hash must d)"
  unfolding sql_set_password_def by (rule update_credentials_inv) (auto simp: auth_inv_defs credential_ok_def)

lemma repo_RevokeSession_inv [inv_intros]: "auth_inv d \<Longrightarrow> auth_inv (snd (repo_RevokeSession f now t token d))"
  unfolding repo_RevokeSession_def
  by (rule WithTenantTx_inv) (auto intro!: update_sessions_inv)

lemma repo_ChangePassword_inv [inv_intros]: "auth_inv d \<Longrightarrow> auth_inv (snd (repo_ChangePassword f now t i keep hash d))"
  unfolding repo_ChangePassword_def
  by (rule WithTenantTx_inv) (auto split: if_splits intro: revoke_identity_sessions_inv sql_set_password_inv)

lemma repo_ResetPassword_inv [inv_intros]: "auth_inv d \<Longrightarrow> auth_inv (snd (repo_ResetPassword f now t i hash d))"
  unfolding repo_ResetPassword_def
  by (rule WithTenantTx_inv) (auto split: if_splits intro: revoke_identity_sessions_inv sql_set_password_inv)

end
