(* ===== verification/Auth_Runs.thy ===== *)
theory Auth_Runs
  imports Auth_Inv
begin

text \<open>
  Runs of the repository of auth-service: every interleaving of requests is a sequence of its
  operations. The store implements the interfaces of \<open>Store_Spec\<close>: memberships are isolated between
  tenants, a delivery is finished under its current claim only, and a revoked session stays revoked.
\<close>

section \<open>Operations\<close>

datatype auth_op =
    ORegister tx_fault auth_env uuid string string string string string
  | OClaim tx_fault auth_env uuid
  | OMark tx_fault uuid uuid bool
  | OActivate tx_fault uuid uuid string
  | ORole tx_fault uuid uuid string
  | OStatus tx_fault uuid uuid bool
  | OSession tx_fault auth_env uuid uuid string time
  | ORevoke tx_fault time uuid "string option"
  | OChange tx_fault time uuid uuid uuid string
  | OReset tx_fault time uuid uuid string

definition mark_delivery :: "tx_fault \<Rightarrow> uuid \<Rightarrow> uuid \<Rightarrow> bool \<Rightarrow> auth_db \<Rightarrow> (repo_error + unit) \<times> auth_db" where
  "mark_delivery f i claim sent = repo_MarkInitialDelivery f i claim (if sent then ''sent'' else ''failed'')
     (if sent then [] else ''email provider unavailable'')"

fun exec_auth :: "auth_op \<Rightarrow> auth_db \<Rightarrow> auth_db" where
  "exec_auth (ORegister f env t name email phone role hash) d = snd (repo_Register f env t name email phone role hash d)"
| "exec_auth (OClaim f env i) d = snd (repo_ClaimInitialDelivery f env i d)"
| "exec_auth (OMark f i claim sent) d = snd (mark_delivery f i claim sent d)"
| "exec_auth (OActivate f i claim hash) d = snd (repo_ActivateRetriedCredential f i claim hash d)"
| "exec_auth (ORole f t i role) d = snd (repo_ChangeMemberRole f t i role d)"
| "exec_auth (OStatus f t i active) d = snd (repo_SetMemberStatus f t i (if active then ''active'' else ''inactive'') d)"
| "exec_auth (OSession f env t i token expires) d = snd (repo_CreateSession f env t i token expires d)"
| "exec_auth (ORevoke f now t token) d = snd (repo_RevokeSession f now t token d)"
| "exec_auth (OChange f now t i keep hash) d = snd (repo_ChangePassword f now t i keep hash d)"
| "exec_auth (OReset f now t i hash) d = snd (repo_ResetPassword f now t i hash d)"

lemma mark_delivery_inv [inv_intros]: "auth_inv d \<Longrightarrow> auth_inv (snd (mark_delivery f i claim sent d))"
  unfolding mark_delivery_def by (rule inv_intros)

lemma exec_auth_inv: "auth_inv d \<Longrightarrow> auth_inv (exec_auth x d)"
  by (cases x) (auto intro: inv_intros)

section \<open>What an operation leaves alone\<close>

lemma sql_insert_membership_frame:
  "sql_insert_membership ctx m d = Inr (b, d') \<Longrightarrow>
     sessions d' = sessions d \<and> credentials d' = credentials d \<and> identities d' = identities d"
  by (auto simp: sql_insert_membership_def split: if_splits)

lemma register_identity_frame:
  "register_identity env name email phone hash d = Inr (i, created, d1) \<Longrightarrow>
     sessions d1 = sessions d \<and> memberships d1 = memberships d"
  by (erule register_identityD) auto

lemma repo_Register_sessions [simp]: "sessions (snd (repo_Register f env t name email phone role hash d)) = sessions d"
  unfolding repo_Register_def
  by (rule tx_frame)
    (auto dest!: sql_insert_membership_frame register_identity_frame split: sum.splits option.splits prod.splits)

lemma repo_Claim_frame [simp]:
  "sessions (snd (repo_ClaimInitialDelivery f env i d)) = sessions d"
  "memberships (snd (repo_ClaimInitialDelivery f env i d)) = memberships d"
  unfolding repo_ClaimInitialDelivery_def Let_def by (rule pool_frame, auto)+

lemma sql_finish_delivery_frame:
  "sql_finish_delivery hit upd d = Inr (u, d') \<Longrightarrow> sessions d' = sessions d \<and> memberships d' = memberships d"
  by (auto simp: sql_finish_delivery_def split: if_splits)

lemma finish_frame [simp]:
  "sessions (snd (mark_delivery f i claim sent d)) = sessions d"
  "memberships (snd (mark_delivery f i claim sent d)) = memberships d"
  "sessions (snd (repo_ActivateRetriedCredential f i claim hash d)) = sessions d"
  "memberships (snd (repo_ActivateRetriedCredential f i claim hash d)) = memberships d"
  unfolding mark_delivery_def repo_MarkInitialDelivery_def repo_ActivateRetriedCredential_def
  by (rule pool_frame, auto dest: sql_finish_delivery_frame)+

lemma update_member_sessions [simp]: "sessions (snd (update_member f upd t i d)) = sessions d"
  unfolding update_member_def
  by (rule tx_frame) (auto split: sum.splits if_splits elim!: sql_update_membershipD)

lemma repo_CreateSession_memberships [simp]:
  "memberships (snd (repo_CreateSession f env t i token expires d)) = memberships d"
  unfolding repo_CreateSession_def
  by (rule tx_frame) (auto split: option.splits sum.splits prod.splits dest!: sql_insert_sessionD)

lemma password_memberships [simp]:
  "memberships (snd (repo_RevokeSession f now t token d)) = memberships d"
  "memberships (snd (repo_ChangePassword f now t i keep hash d)) = memberships d"
  "memberships (snd (repo_ResetPassword f now t i hash d)) = memberships d"
  unfolding repo_RevokeSession_def repo_ChangePassword_def repo_ResetPassword_def
  by (rule tx_frame, auto simp: revoke_identity_sessions_def sql_set_password_def split: if_splits)+

section \<open>Tenants\<close>

text \<open>What a tenant sees: its memberships, and its sessions up to their revocation.\<close>

definition auth_view :: "uuid \<Rightarrow> auth_db \<Rightarrow> membership_row list \<times> session_row list" where
  "auth_view t d = (filter (\<lambda>m. mb_tenant m = t) (memberships d),
     map (\<lambda>s. s\<lparr>se_revoked := None\<rparr>) (filter (\<lambda>s. se_tenant s = t) (sessions d)))"

fun auth_op_tenant :: "auth_op \<Rightarrow> uuid option" where
  "auth_op_tenant (ORegister f env t name email phone role hash) = Some t"
| "auth_op_tenant (ORole f t i role) = Some t"
| "auth_op_tenant (OStatus f t i active) = Some t"
| "auth_op_tenant (OSession f env t i token expires) = Some t"
| "auth_op_tenant (ORevoke f now t token) = Some t"
| "auth_op_tenant (OChange f now t i keep hash) = Some t"
| "auth_op_tenant (OReset f now t i hash) = Some t"
| "auth_op_tenant _ = None"

lemma repo_Register_view:
  "t' \<noteq> t \<Longrightarrow> filter (\<lambda>m. mb_tenant m = t) (memberships (snd (repo_Register f env t' name email phone role hash d))) =
     filter (\<lambda>m. mb_tenant m = t) (memberships d)"
  unfolding repo_Register_def
  by (rule tx_frame) (auto dest!: register_identity_frame split: sum.splits option.splits prod.splits elim!: sql_insert_membershipD)

lemma update_member_view:
  assumes "t' \<noteq> t" and "\<And>m. mb_tenant (upd m) = mb_tenant m"
  shows "filter (\<lambda>m. mb_tenant m = t) (memberships (snd (update_member f upd t' i d))) =
     filter (\<lambda>m. mb_tenant m = t) (memberships d)"
  unfolding update_member_def
  by (rule tx_frame)
    (use assms in \<open>auto split: sum.splits if_splits elim!: sql_update_membershipD intro!: filter_map_frame simp: same_member_def\<close>)

definition sessions_up_to :: "uuid \<Rightarrow> session_row list \<Rightarrow> session_row list" where
  "sessions_up_to t ss = map (\<lambda>s. s\<lparr>se_revoked := None\<rparr>) (filter (\<lambda>s. se_tenant s = t) ss)"

lemma sessions_up_to_revoke [simp]:
  "sessions_up_to t (map (\<lambda>s. if P s then s\<lparr>se_revoked := r\<rparr> else s) ss) = sessions_up_to t ss"
  unfolding sessions_up_to_def by (rule map_filter_frame) simp_all

lemma revoke_view [simp]:
  "sessions_up_to t (sessions (snd (repo_RevokeSession f now t' token d))) = sessions_up_to t (sessions d)"
  "sessions_up_to t (sessions (snd (repo_ChangePassword f now t' i keep hash d))) = sessions_up_to t (sessions d)"
  "sessions_up_to t (sessions (snd (repo_ResetPassword f now t' i hash d))) = sessions_up_to t (sessions d)"
  unfolding repo_RevokeSession_def repo_ChangePassword_def repo_ResetPassword_def
  by (rule tx_frame, auto simp: revoke_identity_sessions_def sql_set_password_def split: if_splits)+

lemma repo_CreateSession_view:
  "t' \<noteq> t \<Longrightarrow> sessions_up_to t (sessions (snd (repo_CreateSession f env t' i token expires d))) = sessions_up_to t (sessions d)"
  unfolding repo_CreateSession_def
  by (rule tx_frame)
    (auto simp: sessions_up_to_def split: option.splits sum.splits prod.splits dest!: sql_insert_sessionD)

lemma auth_view_alt: "auth_view t d = (filter (\<lambda>m. mb_tenant m = t) (memberships d), sessions_up_to t (sessions d))"
  by (simp add: auth_view_def sessions_up_to_def)

lemma exec_auth_view: "auth_op_tenant x \<noteq> Some t \<Longrightarrow> auth_view t (exec_auth x d) = auth_view t d"
  by (cases x)
    (auto simp: auth_view_alt repo_Register_view repo_CreateSession_view update_member_view repo_ChangeMemberRole_def
      repo_SetMemberStatus_def)

interpretation auth: tenant_store exec_auth auth_inv empty_auth_db auth_op_tenant auth_view
  by unfold_locales (auto intro: auth_inv_empty exec_auth_inv exec_auth_view)

section \<open>Claims\<close>

definition delivery_holder :: "auth_db \<Rightarrow> uuid \<Rightarrow> uuid option" where
  "delivery_holder d i = (case find_credential i d of None \<Rightarrow> None | Some c \<Rightarrow> cr_claim c)"

definition finish_delivery :: "uuid \<Rightarrow> uuid \<Rightarrow> bool \<Rightarrow> auth_db \<Rightarrow> auth_db" where
  "finish_delivery i claim sent d = snd (mark_delivery NoFault i claim sent d)"

lemma find_credential_iff:
  "auth_inv d \<Longrightarrow> find_credential i d = Some c \<longleftrightarrow> c \<in> set (credentials d) \<and> cr_identity c = i"
  using find_unique [of cr_identity "credentials d" c "\<lambda>c. cr_identity c = i"] find_SomeD
  by (fastforce simp: find_credential_def auth_inv_defs)

lemma delivery_holder_iff:
  assumes "auth_inv d"
  shows "delivery_holder d i = Some claim \<longleftrightarrow> (\<exists>c \<in> set (credentials d). cr_identity c = i \<and> cr_claim c = Some claim)"
proof -
  have "delivery_holder d i = Some claim \<longleftrightarrow> (\<exists>c. find_credential i d = Some c \<and> cr_claim c = Some claim)"
    by (auto simp: delivery_holder_def split: option.splits)
  then show ?thesis using find_credential_iff [OF assms] by auto
qed

lemma finish_delivery_stale:
  "auth_inv d \<Longrightarrow> delivery_holder d i \<noteq> Some claim \<Longrightarrow> finish_delivery i claim sent d = d"
  by (auto simp: delivery_holder_iff finish_delivery_def mark_delivery_def repo_MarkInitialDelivery_def pool_exec_def
      sql_finish_delivery_def list_ex_iff)

lemma finish_delivery_rows:
  assumes "auth_inv d" and "delivery_holder d i = Some claim"
  shows "credentials (finish_delivery i claim sent d) = map (\<lambda>c. if cr_identity c = i \<and> cr_claim c = Some claim
    then c\<lparr>cr_status := (if sent then ''sent'' else ''failed''), cr_error := (if sent then None else Some ''email provider unavailable''),
      cr_attempts := cr_attempts c + 1, cr_claim := None, cr_until := None\<rparr> else c) (credentials d)"
proof -
  have "list_ex (\<lambda>c. cr_identity c = i \<and> cr_claim c = Some claim) (credentials d)"
    using assms by (auto simp: delivery_holder_iff list_ex_iff)
  then show ?thesis
    by (auto simp: finish_delivery_def mark_delivery_def repo_MarkInitialDelivery_def pool_exec_def sql_finish_delivery_def
        nullif_def delivery_status_def list_ex_iff)
qed

lemma find_credential_finish:
  assumes "auth_inv d" and "delivery_holder d i = Some claim"
  shows "find_credential j (finish_delivery i claim sent d) = map_option (\<lambda>c. if cr_identity c = i \<and> cr_claim c = Some claim
    then c\<lparr>cr_status := (if sent then ''sent'' else ''failed''), cr_error := (if sent then None else Some ''email provider unavailable''),
      cr_attempts := cr_attempts c + 1, cr_claim := None, cr_until := None\<rparr> else c) (find_credential j d)"
  unfolding find_credential_def finish_delivery_rows [OF assms] by (rule find_map_update) simp

lemma finish_delivery_inv: "auth_inv d \<Longrightarrow> auth_inv (finish_delivery i claim sent d)"
  unfolding finish_delivery_def by (rule mark_delivery_inv)

lemma finish_delivery_releases:
  assumes "auth_inv d" and "delivery_holder d i = Some claim"
  shows "delivery_holder (finish_delivery i claim sent d) i = None"
proof -
  obtain c where "find_credential i d = Some c" "cr_claim c = Some claim" "cr_identity c = i"
    using assms find_credential_iff by (auto simp: delivery_holder_def split: option.splits)
  then show ?thesis by (simp add: delivery_holder_def find_credential_finish [OF assms])
qed

lemma finish_delivery_other:
  assumes "auth_inv d" and "i \<noteq> j"
  shows "delivery_holder (finish_delivery i claim sent d) j = delivery_holder d j"
proof (cases "delivery_holder d i = Some claim")
  case True
  show ?thesis
  proof (cases "find_credential j d")
    case None
    then show ?thesis by (simp add: delivery_holder_def find_credential_finish [OF assms(1) True])
  next
    case (Some c)
    then have "cr_identity c \<noteq> i" using assms find_credential_iff by blast
    with Some show ?thesis by (simp add: delivery_holder_def find_credential_finish [OF assms(1) True])
  qed
qed (simp add: finish_delivery_stale [OF assms(1)])

interpretation deliveries: claim_store exec_auth auth_inv empty_auth_db delivery_holder finish_delivery
  by unfold_locales
    (rule auth_inv_empty exec_auth_inv finish_delivery_stale finish_delivery_releases finish_delivery_other finish_delivery_inv;
      assumption)+

section \<open>Revoked sessions\<close>

definition session_dead :: "auth_db \<Rightarrow> uuid \<times> string \<Rightarrow> bool" where
  "session_dead d k \<longleftrightarrow> (\<exists>s \<in> set (sessions d). (se_tenant s, se_token s) = k \<and> se_revoked s \<noteq> None)"

definition session_accepted :: "tx_fault \<times> time \<Rightarrow> auth_db \<Rightarrow> uuid \<times> string \<Rightarrow> bool" where
  "session_accepted n d k \<longleftrightarrow> (\<exists>p. repo_Session (fst n) (snd n) (fst k) (Some (snd k)) d = Inr p)"

lemma bex_map_mono: "\<exists>x \<in> set xs. Q x \<Longrightarrow> (\<And>x. Q x \<Longrightarrow> Q (f x)) \<Longrightarrow> \<exists>x \<in> set (map f xs). Q x"
  by (induction xs) auto

lemma session_dead_revoke:
  assumes "session_dead d k"
  shows "session_dead (d\<lparr>sessions := map (\<lambda>s. if P s then s\<lparr>se_revoked := Some now\<rparr> else s) (sessions d)\<rparr>) k"
    (is "session_dead ?d k")
proof -
  have rows: "sessions ?d = map (\<lambda>s. if P s then s\<lparr>se_revoked := Some now\<rparr> else s) (sessions d)" by simp
  show ?thesis using assms unfolding session_dead_def rows by (rule bex_map_mono) auto
qed

lemma session_dead_sessions: "sessions d' = sessions d \<Longrightarrow> session_dead d' k = session_dead d k"
  by (simp add: session_dead_def)

lemma session_dead_create: "session_dead d k \<Longrightarrow> session_dead (snd (repo_CreateSession f env t i token expires d)) k"
  unfolding repo_CreateSession_def
  by (rule WithTenantTx_inv)
    (auto simp: session_dead_def split: option.splits sum.splits prod.splits dest!: sql_insert_sessionD)

lemma session_dead_passwords:
  assumes "session_dead d k"
  shows "session_dead (snd (repo_RevokeSession f now t token d)) k"
    and "session_dead (snd (repo_ChangePassword f now t i keep hash d)) k"
    and "session_dead (snd (repo_ResetPassword f now t i hash d)) k"
proof -
  have set: "session_dead (sql_set_password now i hash must d) k" for must
    using assms by (simp add: session_dead_def sql_set_password_def)
  have rev: "session_dead (revoke_identity_sessions now i kp (sql_set_password now i hash must d)) k" for kp must
    unfolding revoke_identity_sessions_def by (rule session_dead_revoke) (rule set)
  show "session_dead (snd (repo_RevokeSession f now t token d)) k"
    unfolding repo_RevokeSession_def by (rule WithTenantTx_inv) (auto intro: session_dead_revoke assms)
  show "session_dead (snd (repo_ChangePassword f now t i keep hash d)) k"
    unfolding repo_ChangePassword_def by (rule WithTenantTx_inv) (auto split: if_splits intro: rev assms)
  show "session_dead (snd (repo_ResetPassword f now t i hash d)) k"
    unfolding repo_ResetPassword_def by (rule WithTenantTx_inv) (auto split: if_splits intro: rev assms)
qed

lemma session_dead_exec: "session_dead d k \<Longrightarrow> session_dead (exec_auth x d) k"
  by (cases x)
    (auto intro: session_dead_create session_dead_passwords simp: repo_ChangeMemberRole_def repo_SetMemberStatus_def
      session_dead_sessions [of "snd (repo_Register f env t name email phone role hash d)" d for f env t name email phone role hash]
      session_dead_sessions [of "snd (repo_ClaimInitialDelivery f env i d)" d for f env i]
      session_dead_sessions [of "snd (mark_delivery f i claim sent d)" d for f i claim sent]
      session_dead_sessions [of "snd (repo_ActivateRetriedCredential f i claim hash d)" d for f i claim hash]
      session_dead_sessions [of "snd (update_member f upd t i d)" d for f upd t i])

lemma session_dead_refused: "auth_inv d \<Longrightarrow> session_dead d k \<Longrightarrow> \<not> session_accepted n d k"
proof
  assume inv: "auth_inv d" and dead: "session_dead d k" and "session_accepted n d k"
  then obtain s where "find (live_session (snd n) (fst k) (snd k)) (sessions d) = Some s"
    by (auto simp: session_accepted_def repo_Session_def tenant_read_ok split: option.splits)
  then have s: "s \<in> set (sessions d)" "(se_tenant s, se_token s) = k" "se_revoked s = None"
    using find_SomeD by (force simp: live_session_def)+
  from dead obtain s' where "s' \<in> set (sessions d)" "(se_tenant s', se_token s') = k" "se_revoked s' \<noteq> None"
    by (auto simp: session_dead_def)
  then show False
    using s inv inj_key [of "\<lambda>s. (se_tenant s, se_token s)" "sessions d" s s'] by (auto simp: auth_inv_defs)
qed

interpretation staff_sessions: session_store exec_auth auth_inv empty_auth_db session_dead session_accepted
  by unfold_locales (auto intro: auth_inv_empty exec_auth_inv session_dead_exec dest: session_dead_refused)

end
