(* ===== verification/Base64.thy ===== *)
theory Base64
  imports Prelude
begin

text \<open>
  \<^verbatim>\<open>base64.RawURLEncoding\<close> of the Go library, which session tokens and generated passwords travel in:
  the URL alphabet without padding. The decoder skips carriage returns and line feeds and does not
  look at the unused bits of the last symbol.
\<close>

section \<open>The alphabet\<close>

definition b64_char :: "nat \<Rightarrow> char" where
  "b64_char n =
     (if n < 26 then char_of (65 + n) else if n < 52 then char_of (71 + n) else if n < 62 then char_of (n - 4)
      else if n = 62 then CHR ''-'' else CHR ''_'')"

definition b64_val :: "char \<Rightarrow> nat option" where
  "b64_val c = (let n = (of_char c :: nat) in
     if 65 \<le> n \<and> n \<le> 90 then Some (n - 65) else if 97 \<le> n \<and> n \<le> 122 then Some (n - 71)
     else if 48 \<le> n \<and> n \<le> 57 then Some (n + 4) else if c = CHR ''-'' then Some 62
     else if c = CHR ''_'' then Some 63 else None)"

section \<open>Encoding and decoding\<close>

definition byte :: "char \<Rightarrow> nat" where
  "byte c = of_char c"

fun EncodeToString :: "string \<Rightarrow> string" where
  "EncodeToString [] = []"
| "EncodeToString [a] = [b64_char (byte a div 4), b64_char (byte a mod 4 * 16)]"
| "EncodeToString [a, b] =
     [b64_char (byte a div 4), b64_char (byte a mod 4 * 16 + byte b div 16), b64_char (byte b mod 16 * 4)]"
| "EncodeToString (a # b # c # rest) =
     [b64_char (byte a div 4), b64_char (byte a mod 4 * 16 + byte b div 16),
      b64_char (byte b mod 16 * 4 + byte c div 64), b64_char (byte c mod 64)] @ EncodeToString rest"

fun b64_vals :: "string \<Rightarrow> nat list option" where
  "b64_vals [] = Some []"
| "b64_vals (c # cs) =
     (case b64_val c of None \<Rightarrow> None | Some v \<Rightarrow> (case b64_vals cs of None \<Rightarrow> None | Some vs \<Rightarrow> Some (v # vs)))"

fun decode_quanta :: "nat list \<Rightarrow> string option" where
  "decode_quanta [] = Some []"
| "decode_quanta [p] = None"
| "decode_quanta [p, q] = Some [char_of (p * 4 + q div 16)]"
| "decode_quanta [p, q, r] = Some [char_of (p * 4 + q div 16), char_of (q mod 16 * 16 + r div 4)]"
| "decode_quanta (p # q # r # s # rest) =
     (case decode_quanta rest of
        None \<Rightarrow> None
      | Some bs \<Rightarrow> Some ([char_of (p * 4 + q div 16), char_of (q mod 16 * 16 + r div 4), char_of (r mod 4 * 64 + s)] @ bs))"

definition DecodeString :: "string \<Rightarrow> string option" where
  "DecodeString s =
     (case b64_vals (filter (\<lambda>c. c \<noteq> CHR 0x0A \<and> c \<noteq> CHR 0x0D) s) of None \<Rightarrow> None | Some vs \<Rightarrow> decode_quanta vs)"

section \<open>The round trip\<close>

lemma b64_val_char [simp]: "n < 64 \<Longrightarrow> b64_val (b64_char n) = Some n"
  by (auto simp: b64_char_def b64_val_def Let_def of_char_of)

lemma byte_less [simp]: "byte c < 256"
  by (simp add: byte_def)

lemma char_of_byte [simp]: "char_of (byte c) = c"
  by (simp add: byte_def)

text \<open>Joining the parts a byte was split into gives the byte.\<close>

lemma rejoin:
  fixes a :: nat
  shows "a div 4 * 4 + (a mod 4 * 16 + b) div 16 = a + b div 16"
    and "a mod 4 * 16 mod 16 = 0"
    and "(x * 16 + b) mod 16 = b mod 16"
    and "(x * 4 + b) div 4 = x + b div 4"
    and "(x * 4 + b) mod 4 = b mod 4"
  by (simp_all add: div_mult_mod_eq)

lemma byte_parts [simp]:
  "byte b div 16 div 16 = 0" "byte c div 64 div 4 = 0" "byte b div 16 mod 16 = byte b div 16" "byte c div 64 mod 4 = byte c div 64"
  using byte_less [of b] byte_less [of c] by (simp_all add: div_mult2_eq [symmetric] less_mult_imp_div_less)

lemma symbol_bounds [simp]:
  "byte a div 4 < 64" "x mod 4 * 16 < (64 :: nat)" "x mod 4 * 16 + byte b div 16 < 64" "x mod 16 * 4 < (64 :: nat)"
  "x mod 16 * 4 + byte c div 64 < 64"
proof -
  have "byte a div 4 < 64" "byte b div 16 < 16" "byte c div 64 < 4"
    using byte_less [of a] byte_less [of b] byte_less [of c] by (simp_all add: less_mult_imp_div_less)
  moreover have "x mod 4 < 4" "x mod 16 < 16" by simp_all
  ultimately show "byte a div 4 < 64" "x mod 4 * 16 < (64 :: nat)" "x mod 4 * 16 + byte b div 16 < 64"
    "x mod 16 * 4 < (64 :: nat)" "x mod 16 * 4 + byte c div 64 < 64" by linarith+
qed

lemma b64_char_no_break [simp]: "n < 64 \<Longrightarrow> b64_char n \<noteq> CHR 0x0A \<and> b64_char n \<noteq> CHR 0x0D"
proof -
  assume "n < 64"
  then have "b64_val (b64_char n) \<noteq> None" by simp
  moreover have "b64_val (CHR 0x0A) = None" "b64_val (CHR 0x0D) = None" by (simp_all add: b64_val_def)
  ultimately show ?thesis by metis
qed

lemma Encode_no_break: "filter (\<lambda>c. c \<noteq> CHR 0x0A \<and> c \<noteq> CHR 0x0D) (EncodeToString s) = EncodeToString s"
  by (induction s rule: EncodeToString.induct) simp_all

lemma decode_vals_Encode: "\<exists>vs. b64_vals (EncodeToString s) = Some vs \<and> decode_quanta vs = Some s"
proof (induction s rule: EncodeToString.induct)
  case (4 a b c rest)
  then show ?case by (auto simp: rejoin)
qed (simp_all add: rejoin)

text \<open>What was encoded decodes to itself.\<close>

lemma DecodeString_Encode [simp]: "DecodeString (EncodeToString s) = Some s"
  using decode_vals_Encode [of s] by (auto simp: DecodeString_def Encode_no_break)

lemma EncodeToString_inject [simp]: "EncodeToString s = EncodeToString s' \<longleftrightarrow> s = s'"
  by (metis DecodeString_Encode option.inject)

lemma EncodeToString_Nil [simp]: "EncodeToString s = [] \<longleftrightarrow> s = []"
  by (cases s rule: EncodeToString.cases) simp_all

end
