(* ===== verification/Rate_Limit.thy ===== *)
theory Rate_Limit
  imports Prelude
begin

text \<open>
  The package \<^verbatim>\<open>platform/ratelimit\<close>: a fixed-window limit kept by a script that Redis runs atomically. A key
  holds its counter and the instant, in milliseconds, at which it expires; a command that meets an expired key
  finds none.
\<close>

type_synonym redis_counters = "string \<Rightarrow> (int \<times> int option) option"

text \<open>The key as a command at the instant \<open>now\<close> sees it.\<close>

definition live_key :: "int \<Rightarrow> string \<Rightarrow> redis_counters \<Rightarrow> (int \<times> int option) option" where
  "live_key now k r = (case r k of
     Some (n, Some expiry) \<Rightarrow> if expiry \<le> now then None else Some (n, Some expiry)
   | v \<Rightarrow> v)"

text \<open>The script: INCR, PEXPIRE when the counter is new, and the answer.\<close>

definition allow_script :: "int \<Rightarrow> string \<Rightarrow> int \<Rightarrow> int \<Rightarrow> redis_counters \<Rightarrow> int \<times> redis_counters" where
  "allow_script now key window limit r =
     (let (n0, expiry) = (case live_key now key r of None \<Rightarrow> (0, None) | Some v \<Rightarrow> v);
          n = n0 + 1;
          r' = r(key \<mapsto> (n, if n = 1 then Some (now + window) else expiry))
      in (if n > limit then 0 else 1, r'))"

text \<open>\<open>Allow\<close>; \<open>fails\<close> says that Redis could not be reached.\<close>

definition ratelimit_Allow :: "bool \<Rightarrow> int \<Rightarrow> string \<Rightarrow> int \<Rightarrow> duration \<Rightarrow> redis_counters \<Rightarrow> bool option \<times> redis_counters" where
  "ratelimit_Allow fails now key limit window r =
     (if fails then (None, r)
      else case allow_script now key (window div 1000000) limit r of (result, r') \<Rightarrow> (Some (result = 1), r'))"

section \<open>The bound\<close>

text \<open>The number of calls for a key that were let through, over calls at the given instants.\<close>

fun passed :: "string \<Rightarrow> int \<Rightarrow> int \<Rightarrow> (int \<times> string) list \<Rightarrow> redis_counters \<Rightarrow> nat" where
  "passed k limit window [] r = 0"
| "passed k limit window ((now, key) # calls) r =
     (case allow_script now key window limit r of
        (a, r') \<Rightarrow> (if key = k \<and> a = 1 then 1 else 0) + passed k limit window calls r')"

text \<open>Every counter is at least one and expires, which PEXPIRE with the first increment ensures.\<close>

definition counters_ok :: "int \<Rightarrow> int \<Rightarrow> redis_counters \<Rightarrow> bool" where
  "counters_ok now window r \<longleftrightarrow> (\<forall>k n e. r k = Some (n, e) \<longrightarrow> 1 \<le> n \<and> (\<exists>x. e = Some x \<and> x \<le> now + window))"

lemma counters_ok_later: "counters_ok now window r \<Longrightarrow> now \<le> now' \<Longrightarrow> counters_ok now' window r"
  unfolding counters_ok_def by (meson add_right_mono order_trans)

lemma allow_script_other: "key \<noteq> k \<Longrightarrow> snd (allow_script now key window limit r) k = r k"
  by (simp add: allow_script_def Let_def split: prod.splits)

lemma allow_script_ok:
  assumes "counters_ok now window r"
  shows "counters_ok now window (snd (allow_script now key window limit r))"
proof -
  obtain n0 e where v: "(case live_key now key r of None \<Rightarrow> (0, None) | Some v \<Rightarrow> v) = (n0, e)" by fastforce
  then have "n0 = 0 \<and> e = None \<or> r key = Some (n0, e)"
    by (auto simp: live_key_def split: option.splits prod.splits if_splits)
  then show ?thesis using assms v by (fastforce simp: allow_script_def Let_def counters_ok_def)
qed

text \<open>Over calls that all come before the key expires, the counter never starts again.\<close>

lemma passed_within_window:
  assumes "\<forall>(now, key) \<in> set calls. now < x" and "r k = Some (n, Some x)" and "1 \<le> n"
  shows "int (passed k limit window calls r) \<le> max 0 (limit - n)"
  using assms
proof (induction calls arbitrary: r n)
  case (Cons c calls)
  obtain now key where c: "c = (now, key)" by fastforce
  obtain a r' where s: "allow_script now key window limit r = (a, r')" by fastforce
  show ?case
  proof (cases "key = k")
    case True
    then have "live_key now k r = Some (n, Some x)" using Cons.prems c by (simp add: live_key_def)
    then have "r' k = Some (n + 1, Some x)" "a = (if n + 1 > limit then 0 else 1)"
      using s True Cons.prems(3) by (auto simp: allow_script_def Let_def)
    then show ?thesis using Cons.IH [of r' "n + 1"] Cons.prems c s True by (auto simp: max_def split: if_splits)
  next
    case False
    then have "r' k = r k" using s allow_script_other [OF False] by (metis snd_conv)
    then show ?thesis using Cons.IH [of r' n] Cons.prems c s False by auto
  qed
qed simp

text \<open>
  Calls of one window, from the first call for the key on: not more of them pass than the limit.
\<close>

lemma passed_window_bound:
  assumes "live_key now k r = None" and "\<forall>(at, key) \<in> set calls. at < now + window" and "0 \<le> limit"
  shows "int (passed k limit window ((now, k) # calls) r) \<le> limit"
proof -
  obtain a r' where s: "allow_script now k window limit r = (a, r')" by fastforce
  then have "r' k = Some (1, Some (now + window))" "a = (if 1 > limit then 0 else 1)"
    using assms(1) by (auto simp: allow_script_def Let_def)
  moreover from this have "int (passed k limit window calls r') \<le> max 0 (limit - 1)"
    using passed_within_window [OF assms(2), of r' k 1 limit window] by simp
  ultimately show ?thesis using assms(3) s by (auto simp: max_def split: if_splits)
qed

text \<open>
  Calls within any interval of the length of a window, wherever it lies: they meet at most the rest of one
  window and the start of the next.
\<close>

lemma passed_sliding_bound:
  assumes "\<forall>(at, key) \<in> set calls. a \<le> at \<and> at < a + window" and "0 \<le> limit"
    and "\<forall>n e. r k = Some (n, e) \<longrightarrow> 1 \<le> n \<and> e \<noteq> None"
  shows "int (passed k limit window calls r) \<le> limit + (case r k of None \<Rightarrow> 0 | Some (n, e) \<Rightarrow> max 0 (limit - n))"
  using assms
proof (induction calls arbitrary: r)
  case Nil
  then show ?case by (simp split: option.splits prod.splits)
next
  case (Cons c calls)
  obtain now key where c: "c = (now, key)" by fastforce
  obtain b r' where s: "allow_script now key window limit r = (b, r')" by fastforce
  have rest: "0 \<le> (case r k of None \<Rightarrow> 0 | Some (n, e) \<Rightarrow> max 0 (limit - n))" by (auto split: option.splits)
  consider (other) "key \<noteq> k" | (fresh) "key = k" "live_key now k r = None"
    | (live) n x where "key = k" "r k = Some (n, Some x)" "live_key now k r = Some (n, Some x)" "1 \<le> n"
  proof (cases "live_key now k r")
    case None
    then show ?thesis using that by blast
  next
    case (Some v)
    then have "r k = Some v" by (auto simp: live_key_def split: option.splits prod.splits if_splits)
    moreover obtain n e where "v = (n, e)" by fastforce
    ultimately show ?thesis using that Some Cons.prems(3) by blast
  qed
  then show ?case
  proof cases
    case other
    then have "r' k = r k" using s allow_script_other [OF other] by (metis snd_conv)
    then show ?thesis using Cons.IH [of r'] Cons.prems c s other by auto
  next
    case fresh
    have "\<forall>(at, key) \<in> set calls. at < now + window" using Cons.prems(1) c by force
    then have "int (passed k limit window (c # calls) r) \<le> limit"
      using passed_window_bound [OF fresh(2)] Cons.prems(2) fresh(1) c by blast
    then show ?thesis using rest by linarith
  next
    case live
    then have "r' k = Some (n + 1, Some x)" "b = (if n + 1 > limit then 0 else 1)"
      using s by (auto simp: allow_script_def Let_def)
    then show ?thesis using Cons.IH [of r'] Cons.prems c s live by (auto simp: max_def split: if_splits)
  qed
qed

section \<open>Calls of Allow\<close>

text \<open>
  A sequence of calls of \<open>Allow\<close>, each with whether Redis could not be reached, its instant and its key: how many
  calls for the key \<open>k\<close> were let through, and the counters afterwards.
\<close>

fun let_through ::
  "string \<Rightarrow> int \<Rightarrow> duration \<Rightarrow> (bool \<times> int \<times> string) list \<Rightarrow> redis_counters \<Rightarrow> nat \<times> redis_counters" where
  "let_through k limit window [] r = (0, r)"
| "let_through k limit window ((fails, now, key) # calls) r =
     (case ratelimit_Allow fails now key limit window r of (a, r') \<Rightarrow>
      case let_through k limit window calls r' of (n, r'') \<Rightarrow>
        ((if key = k \<and> a = Some True then 1 else 0) + n, r''))"

lemma let_through_passed:
  "fst (let_through k limit window calls r) = passed k limit (window div 1000000) (map snd (filter (\<lambda>c. \<not> fst c) calls)) r"
  by (induction k limit window calls r rule: let_through.induct)
     (auto simp: ratelimit_Allow_def split: prod.splits if_splits)

definition counters_set :: "redis_counters \<Rightarrow> bool" where
  "counters_set r \<longleftrightarrow> (\<forall>k n e. r k = Some (n, e) \<longrightarrow> 1 \<le> n \<and> e \<noteq> None)"

lemma live_key_set: "counters_set r \<Longrightarrow> live_key now key r = Some (n, e) \<Longrightarrow> 1 \<le> n \<and> e \<noteq> None"
  unfolding counters_set_def live_key_def by (fastforce split: option.splits prod.splits if_splits)

lemma allow_script_set:
  assumes "counters_set r"
  shows "counters_set (snd (allow_script now key window limit r))"
proof (cases "live_key now key r")
  case None
  then show ?thesis using assms by (simp add: counters_set_def allow_script_def)
next
  case (Some v)
  obtain n e where v: "v = (n, e)" by fastforce
  then have "1 \<le> n \<and> e \<noteq> None" using live_key_set [OF assms] Some by blast
  then show ?thesis using assms Some v by (simp add: counters_set_def allow_script_def)
qed

lemma ratelimit_Allow_set: "counters_set r \<Longrightarrow> ratelimit_Allow fails now key limit window r = (a, r') \<Longrightarrow> counters_set r'"
  using allow_script_set [of r now key "window div 1000000" limit]
  by (auto simp: ratelimit_Allow_def split: if_splits prod.splits)

lemma let_through_set: "counters_set r \<Longrightarrow> counters_set (snd (let_through k limit window calls r))"
proof (induction calls arbitrary: r)
  case (Cons c calls)
  obtain fails now key where c: "c = (fails, now, key)" by (cases c)
  obtain a r' where a: "ratelimit_Allow fails now key limit window r = (a, r')" by fastforce
  then show ?case using Cons.IH [OF ratelimit_Allow_set [OF Cons.prems a]] c by (auto split: prod.splits)
qed simp

text \<open>
  (C31) Whatever calls came before, Redis failures included, in any span as long as the window fewer than twice
  the limit of calls for one key are let through.
\<close>

theorem rate_limit_bound:
  assumes history: "r = snd (let_through k limit window before (\<lambda>_. None))"
    and span: "\<forall>(fails, at, key) \<in> set calls. a \<le> at \<and> at < a + window div 1000000"
    and limit: "0 < limit"
  shows "int (fst (let_through k limit window calls r)) < 2 * limit"
proof -
  have set: "counters_set r" unfolding history by (rule let_through_set) (simp add: counters_set_def)
  have "int (fst (let_through k limit window calls r)) \<le> limit + (case r k of None \<Rightarrow> 0 | Some (n, e) \<Rightarrow> max 0 (limit - n))"
    unfolding let_through_passed
    by (rule passed_sliding_bound [where a = a]) (use span limit set in \<open>auto simp: counters_set_def\<close>)
  moreover have "(case r k of None \<Rightarrow> 0 | Some (n, e) \<Rightarrow> max 0 (limit - n)) < limit"
    using set limit by (fastforce simp: counters_set_def split: option.splits)
  ultimately show ?thesis by linarith
qed

theorem rate_limit_bound_witness:
  "let before = [(False, 0, ''k''), (True, 1, ''k''), (False, 59990, ''k'')];
       calls = [(False, 59995, ''k''), (False, 60001, ''k''), (False, 60002, ''k''), (False, 60003, ''k'')];
       r = snd (let_through ''k'' 3 60000000000 before (\<lambda>_. None))
   in int (fst (let_through ''k'' 3 60000000000 calls r)) = 4 \<and> int (fst (let_through ''k'' 3 60000000000 calls r)) < 2 * 3"
  unfolding Let_def
  by (rule conjI, code_simp, rule rate_limit_bound [where a = 59995, OF refl]) simp_all

end
