(* ===== verification/Auth_Service.thy ===== *)
theory Auth_Service
  imports Auth_Runs Email Base64 Rate_Limit
begin

text \<open>
  auth-service above its store: the operations of \<^verbatim>\<open>internal/service/service.go\<close>, the routes of
  \<^verbatim>\<open>internal/handler/http.go\<close> with their middleware, and the session cookie.

  Parameters: the address grammar and the text form of identifiers (\<open>externals\<close>), SHA-256, bcrypt, the mail
  provider with its world, JSON decoding, and the cookie parser of fiber. \<open>auth_io\<close> holds what a request
  meets: the fault, clock and generated identifier of its n-th statement on the database, the clock of the process,
  random bytes, and the salted hashes bcrypt produces.
\<close>

section \<open>internal/service\<close>

datatype auth_error =
    AuErrUnauthorized
  | AuErrInvalidInput
  | AuErrForbidden
  | AuErrDeliveryUnavailable
  | AuErrDeliveryInProgress
  | AuErrRepo repo_error
  | AuErrRandom
  | AuErrHash

record login_input =
  li_Email :: string
  li_Password :: string

record register_input =
  ri_Name :: string
  ri_Email :: string
  ri_Phone :: string
  ri_Role :: string

record change_password_input =
  cp_CurrentPassword :: string
  cp_NewPassword :: string

record registration =
  rn_IdentityID :: uuid
  rn_MembershipCreated :: bool
  rn_CredentialScheduled :: bool
  rn_Role :: string

record auth_session =
  as_Principal :: auth_principal
  as_Token :: string
  as_ExpiresAt :: time

record 'w mailer =
  ml_send :: "'w \<Rightarrow> email_message \<Rightarrow> (send_error + string) \<times> 'w"
  ml_ctx :: "'w \<Rightarrow> send_error option"
  ml_sleep :: "nat \<Rightarrow> 'w \<Rightarrow> send_error option \<times> 'w"

record 'w auth_service =
  av_X :: externals
  av_sha256 :: "string \<Rightarrow> string"
  av_compare :: "string \<Rightarrow> string \<Rightarrow> bool"
  av_sessionTTL :: duration
  av_email :: "'w mailer option"
  av_coll :: "string \<Rightarrow> string"

record auth_io =
  ao_f :: "nat \<Rightarrow> tx_fault"
  ao_env :: "nat \<Rightarrow> auth_env"
  ao_now :: time
  ao_rand :: "nat \<Rightarrow> string option"
  ao_hash :: "string \<Rightarrow> string option"
  ao_key :: uuid

definition normalizeEmail :: "externals \<Rightarrow> string \<Rightarrow> string option" where
  "normalizeEmail X value =
     (let v = ToLower (TrimSpace value) in
      case mail_ParseAddress X v of
        None \<Rightarrow> None
      | Some address \<Rightarrow> if address \<noteq> v \<or> length v > 320 then None else Some v)"

definition staffRole :: "string \<Rightarrow> bool" where
  "staffRole role \<longleftrightarrow> role = RoleManager \<or> role = RoleBarber \<or> role = RoleReceptionist"

definition validateNewPassword :: "string \<Rightarrow> bool" where
  "validateNewPassword password \<longleftrightarrow> \<not> (length password < 10 \<or> length password > 256)"

definition validateRegistration :: "externals \<Rightarrow> register_input \<Rightarrow> auth_error + (string \<times> string \<times> string)" where
  "validateRegistration X inp =
     (let name = TrimSpace (ri_Name inp) in
      if name = [] \<or> RuneCountInString name > 200 then Inl AuErrInvalidInput
      else case normalizeEmail X (ri_Email inp) of
        None \<Rightarrow> Inl AuErrInvalidInput
      | Some email \<Rightarrow> if \<not> staffRole (ri_Role inp) then Inl AuErrInvalidInput else Inr (name, email, ri_Role inp))"

text \<open>\<open>newPassword\<close> and \<open>newToken\<close> take 18 and 32 random bytes.\<close>

definition newPassword :: "auth_io \<Rightarrow> auth_error + string" where
  "newPassword io = (case ao_rand io 18 of None \<Rightarrow> Inl AuErrRandom | Some bytes \<Rightarrow> Inr (EncodeToString bytes))"

definition hashPassword :: "auth_io \<Rightarrow> string \<Rightarrow> auth_error + string" where
  "hashPassword io password = (case ao_hash io password of None \<Rightarrow> Inl AuErrHash | Some h \<Rightarrow> Inr h)"

definition newToken :: "'w auth_service \<Rightarrow> auth_io \<Rightarrow> auth_error + (string \<times> string)" where
  "newToken s io = (case ao_rand io 32 of
     None \<Rightarrow> Inl AuErrRandom | Some bytes \<Rightarrow> Inr (EncodeToString bytes, av_sha256 s bytes))"

definition tokenDigest :: "'w auth_service \<Rightarrow> string \<Rightarrow> string option" where
  "tokenDigest s token = map_option (av_sha256 s) (DecodeString token)"

definition newline :: string where
  "newline = [CHR 0x0A]"

definition initialPasswordMessage :: "externals \<Rightarrow> string \<Rightarrow> string \<Rightarrow> uuid \<Rightarrow> email_message" where
  "initialPasswordMessage X email password i =
     \<lparr>em_To = email, em_Subject = ''Your initial password'',
      em_Text = ''Your initial password is: '' @ password @ newline @ ''You must change it after signing in.'',
      em_Template = ''user_initial_password'', em_IdempotencyKey = uuid_String X i\<rparr>"

definition resetPasswordMessage :: "externals \<Rightarrow> string \<Rightarrow> string \<Rightarrow> uuid \<Rightarrow> email_message" where
  "resetPasswordMessage X email password key =
     \<lparr>em_To = email, em_Subject = ''Password reset'',
      em_Text = ''Your temporary password is: '' @ password @ newline @ ''You must change it after signing in.'',
      em_Template = ''user_password_reset'', em_IdempotencyKey = uuid_String X key\<rparr>"

definition send_mail :: "'w mailer \<Rightarrow> email_message \<Rightarrow> 'w \<Rightarrow> bool \<times> 'w" where
  "send_mail ml m w = (case SendWithRetry (ml_send ml) (ml_ctx ml) (ml_sleep ml) m 3 w of
     (Inl _, w') \<Rightarrow> (False, w') | (Inr _, w') \<Rightarrow> (True, w'))"

definition svc_Login ::
  "'w auth_service \<Rightarrow> auth_io \<Rightarrow> uuid \<Rightarrow> login_input \<Rightarrow> auth_db \<Rightarrow> (auth_error + auth_session) \<times> auth_db" where
  "svc_Login s io t inp d =
     (case normalizeEmail (av_X s) (li_Email inp) of
        None \<Rightarrow> (Inl AuErrUnauthorized, d)
      | Some email \<Rightarrow>
        if li_Password inp = [] then (Inl AuErrUnauthorized, d)
        else case CredentialByEmail (ao_f io 0) email d of
          Inl _ \<Rightarrow> (Inl AuErrUnauthorized, d)
        | Inr identity \<Rightarrow>
          if \<not> cv_Active identity \<or> \<not> av_compare s (cv_PasswordHash identity) (li_Password inp)
          then (Inl AuErrUnauthorized, d)
          else case newToken s io of
            Inl e \<Rightarrow> (Inl e, d)
          | Inr (token, tokenHash) \<Rightarrow>
            (let expiresAt = ao_now io + av_sessionTTL s in
             case repo_CreateSession (ao_f io 1) (ao_env io 1) t (cv_IdentityID identity) tokenHash expiresAt d of
               (Inl e, d') \<Rightarrow> (if e = RepoNotFound then Inl AuErrUnauthorized else Inl (AuErrRepo e), d')
             | (Inr p, d') \<Rightarrow> (Inr \<lparr>as_Principal = p, as_Token = token, as_ExpiresAt = expiresAt\<rparr>, d')))"

definition registration_of :: "registration_result \<Rightarrow> bool \<Rightarrow> registration" where
  "registration_of r scheduled = \<lparr>rn_IdentityID = rg_IdentityID r, rn_MembershipCreated = rg_CreatedMembership r,
     rn_CredentialScheduled = scheduled, rn_Role = rg_Role r\<rparr>"

type_synonym 'w registered = "(auth_error + registration) \<times> auth_db \<times> 'w"

text \<open>The branch for an address that is known: membership, and a renewed delivery when none has succeeded yet.\<close>

definition register_existing ::
  "'w auth_service \<Rightarrow> 'w mailer \<Rightarrow> auth_io \<Rightarrow> uuid \<Rightarrow> string \<Rightarrow> string \<Rightarrow> string \<Rightarrow> string \<Rightarrow> credential \<Rightarrow>
     auth_db \<Rightarrow> 'w \<Rightarrow> 'w registered" where
  "register_existing s ml io t name email phone role existing d w =
     (case repo_Register (ao_f io 1) (ao_env io 1) t name email phone role [] d of
        (Inl e, d1) \<Rightarrow> (Inl (AuErrRepo e), d1, w)
      | (Inr result, d1) \<Rightarrow>
        if cv_DeliveryStatus existing = ''sent'' then (Inr (registration_of result False), d1, w)
        else case repo_ClaimInitialDelivery (ao_f io 2) (ao_env io 2) (rg_IdentityID result) d1 of
          (Inl e, d2) \<Rightarrow> (Inl (AuErrRepo e), d2, w)
        | (Inr (claim, claimed), d2) \<Rightarrow>
          if \<not> claimed then (Inl AuErrDeliveryInProgress, d2, w)
          else case newPassword io of
            Inl e \<Rightarrow> (Inl e, d2, w)
          | Inr password \<Rightarrow>
            (case hashPassword io password of
               Inl e \<Rightarrow> (Inl e, d2, w)
             | Inr hash \<Rightarrow>
               (case send_mail ml (initialPasswordMessage (av_X s) email password (rg_IdentityID result)) w of
                  (False, w') \<Rightarrow> (Inl AuErrDeliveryUnavailable,
                    snd (mark_delivery (ao_f io 3) (rg_IdentityID result) claim False d2), w')
                | (True, w') \<Rightarrow>
                  (case repo_ActivateRetriedCredential (ao_f io 3) (rg_IdentityID result) claim hash d2 of
                     (Inl e, d3) \<Rightarrow> (Inl (AuErrRepo e), d3, w')
                   | (Inr _, d3) \<Rightarrow> (Inr (registration_of result True), d3, w')))))"

text \<open>The branch for an address that is not known.\<close>

definition register_new ::
  "'w auth_service \<Rightarrow> 'w mailer \<Rightarrow> auth_io \<Rightarrow> uuid \<Rightarrow> string \<Rightarrow> string \<Rightarrow> string \<Rightarrow> string \<Rightarrow>
     auth_db \<Rightarrow> 'w \<Rightarrow> 'w registered" where
  "register_new s ml io t name email phone role d w =
     (case newPassword io of
        Inl e \<Rightarrow> (Inl e, d, w)
      | Inr password \<Rightarrow>
      (case hashPassword io password of
        Inl e \<Rightarrow> (Inl e, d, w)
      | Inr hash \<Rightarrow>
      (case repo_Register (ao_f io 1) (ao_env io 1) t name email phone role hash d of
        (Inl e, d1) \<Rightarrow> (Inl (AuErrRepo e), d1, w)
      | (Inr result, d1) \<Rightarrow>
        if \<not> rg_CreatedIdentity result then (Inr (registration_of result False), d1, w)
        else case repo_ClaimInitialDelivery (ao_f io 2) (ao_env io 2) (rg_IdentityID result) d1 of
          (Inl e, d2) \<Rightarrow> (Inl (AuErrRepo e), d2, w)
        | (Inr (claim, claimed), d2) \<Rightarrow>
          if \<not> claimed then (Inl AuErrDeliveryInProgress, d2, w)
          else case send_mail ml (initialPasswordMessage (av_X s) email password (rg_IdentityID result)) w of
            (False, w') \<Rightarrow> (Inl AuErrDeliveryUnavailable,
              snd (mark_delivery (ao_f io 3) (rg_IdentityID result) claim False d2), w')
          | (True, w') \<Rightarrow>
            (case mark_delivery (ao_f io 3) (rg_IdentityID result) claim True d2 of
               (Inl e, d3) \<Rightarrow> (Inl (AuErrRepo e), d3, w')
             | (Inr _, d3) \<Rightarrow> (Inr (registration_of result True), d3, w')))))"

definition svc_Register ::
  "'w auth_service \<Rightarrow> auth_io \<Rightarrow> uuid \<Rightarrow> auth_principal \<Rightarrow> register_input \<Rightarrow> auth_db \<Rightarrow> 'w \<Rightarrow> 'w registered" where
  "svc_Register s io t actor inp d w =
     (if pn_TenantID actor \<noteq> t \<or> pn_Role actor \<noteq> RoleOwner then (Inl AuErrForbidden, d, w)
      else case validateRegistration (av_X s) inp of
        Inl e \<Rightarrow> (Inl e, d, w)
      | Inr (name, email, role) \<Rightarrow>
        (case av_email s of
           None \<Rightarrow> (Inl AuErrDeliveryUnavailable, d, w)
         | Some ml \<Rightarrow>
           (case CredentialByEmail (ao_f io 0) email d of
              Inr existing \<Rightarrow> register_existing s ml io t name email (ri_Phone inp) role existing d w
            | Inl findErr \<Rightarrow>
                if findErr \<noteq> RepoNotFound then (Inl (AuErrRepo findErr), d, w)
                else register_new s ml io t name email (ri_Phone inp) role d w)))"

definition svc_ChangeMemberRole ::
  "auth_io \<Rightarrow> uuid \<Rightarrow> auth_principal \<Rightarrow> uuid \<Rightarrow> string \<Rightarrow> auth_db \<Rightarrow> (auth_error + member) \<times> auth_db" where
  "svc_ChangeMemberRole io t actor target role d =
     (if pn_TenantID actor \<noteq> t \<or> pn_Role actor \<noteq> RoleOwner \<or> pn_IdentityID actor = target \<or> \<not> staffRole role
      then (Inl AuErrForbidden, d)
      else case repo_Member (ao_f io 0) t target d of
        Inl e \<Rightarrow> (Inl (AuErrRepo e), d)
      | Inr m \<Rightarrow>
        if me_Role m = RoleOwner then (Inl AuErrForbidden, d)
        else case repo_ChangeMemberRole (ao_f io 1) t target role d of
          (Inl e, d') \<Rightarrow> (Inl (AuErrRepo e), d') | (Inr v, d') \<Rightarrow> (Inr v, d'))"

definition svc_SetMemberStatus ::
  "auth_io \<Rightarrow> uuid \<Rightarrow> auth_principal \<Rightarrow> uuid \<Rightarrow> bool \<Rightarrow> auth_db \<Rightarrow> (auth_error + member) \<times> auth_db" where
  "svc_SetMemberStatus io t actor target active d =
     (if pn_TenantID actor \<noteq> t \<or> pn_Role actor \<noteq> RoleOwner \<or> pn_IdentityID actor = target
      then (Inl AuErrForbidden, d)
      else case repo_Member (ao_f io 0) t target d of
        Inl e \<Rightarrow> (Inl (AuErrRepo e), d)
      | Inr m \<Rightarrow>
        if me_Role m = RoleOwner then (Inl AuErrForbidden, d)
        else case repo_SetMemberStatus (ao_f io 1) t target (if active then ''active'' else ''inactive'') d of
          (Inl e, d') \<Rightarrow> (Inl (AuErrRepo e), d') | (Inr v, d') \<Rightarrow> (Inr v, d'))"

definition svc_ChangePassword ::
  "'w auth_service \<Rightarrow> auth_io \<Rightarrow> uuid \<Rightarrow> auth_principal \<Rightarrow> change_password_input \<Rightarrow> auth_db \<Rightarrow>
     auth_error option \<times> auth_db" where
  "svc_ChangePassword s io t p inp d =
     (if \<not> validateNewPassword (cp_NewPassword inp) \<or> cp_CurrentPassword inp = [] then (Some AuErrInvalidInput, d)
      else case CredentialByEmail (ao_f io 0) (pn_Email p) d of
        Inl _ \<Rightarrow> (Some AuErrUnauthorized, d)
      | Inr identity \<Rightarrow>
        if cv_IdentityID identity \<noteq> pn_IdentityID p \<or> \<not> cv_Active identity \<or>
           \<not> av_compare s (cv_PasswordHash identity) (cp_CurrentPassword inp)
        then (Some AuErrUnauthorized, d)
        else case hashPassword io (cp_NewPassword inp) of
          Inl e \<Rightarrow> (Some e, d)
        | Inr hash \<Rightarrow>
          (case repo_ChangePassword (ao_f io 1) (ae_now (ao_env io 1)) t (pn_IdentityID p) (pn_SessionID p) hash d of
             (Inl e, d') \<Rightarrow> (Some (if e = RepoNotFound then AuErrUnauthorized else AuErrRepo e), d')
           | (Inr _, d') \<Rightarrow> (None, d')))"

text \<open>The credential of a failed lookup, \<^verbatim>\<open>Credential{}\<close>, is not active.\<close>

definition zero_credential :: credential where
  "zero_credential = \<lparr>cv_IdentityID = uuid_nil, cv_Name = [], cv_Phone = [], cv_Email = [], cv_PasswordHash = [],
     cv_MustChangePassword = False, cv_DeliveryStatus = [], cv_Active = False\<rparr>"

text \<open>\<open>ForgotPassword\<close> once an active identity was found.\<close>

definition forgot_active ::
  "'w auth_service \<Rightarrow> 'w mailer \<Rightarrow> auth_io \<Rightarrow> uuid \<Rightarrow> string \<Rightarrow> uuid \<Rightarrow> auth_db \<Rightarrow> 'w \<Rightarrow> auth_error option \<times> auth_db \<times> 'w" where
  "forgot_active s ml io t email i d w =
     (case repo_HasActiveMembership (ao_f io 1) t i d of
        Inl e \<Rightarrow> (Some (AuErrRepo e), d, w)
      | Inr active \<Rightarrow>
        if \<not> active then (None, d, w)
        else case newPassword io of
          Inl e \<Rightarrow> (Some e, d, w)
        | Inr password \<Rightarrow>
          (case hashPassword io password of
             Inl e \<Rightarrow> (Some e, d, w)
           | Inr hash \<Rightarrow>
             (case send_mail ml (resetPasswordMessage (av_X s) email password (ao_key io)) w of
                (False, w') \<Rightarrow> (Some AuErrDeliveryUnavailable, d, w')
              | (True, w') \<Rightarrow>
                (case repo_ResetPassword (ao_f io 2) (ae_now (ao_env io 2)) t i hash d of
                   (Inl e, d') \<Rightarrow> (Some (AuErrRepo e), d', w')
                 | (Inr _, d') \<Rightarrow> (None, d', w')))))"

definition svc_ForgotPassword ::
  "'w auth_service \<Rightarrow> auth_io \<Rightarrow> uuid \<Rightarrow> string \<Rightarrow> auth_db \<Rightarrow> 'w \<Rightarrow> auth_error option \<times> auth_db \<times> 'w" where
  "svc_ForgotPassword s io t value d w =
     (case (normalizeEmail (av_X s) value, av_email s) of
        (Some email, Some ml) \<Rightarrow>
          (case CredentialByEmail (ao_f io 0) email d of
             Inl e \<Rightarrow> if e = RepoNotFound \<or> \<not> cv_Active zero_credential then (None, d, w) else (Some (AuErrRepo e), d, w)
           | Inr identity \<Rightarrow>
               if \<not> cv_Active identity then (None, d, w)
               else forgot_active s ml io t email (cv_IdentityID identity) d w)
      | _ \<Rightarrow> (None, d, w))"

definition svc_Current ::
  "'w auth_service \<Rightarrow> tx_fault \<Rightarrow> time \<Rightarrow> uuid \<Rightarrow> string \<Rightarrow> auth_db \<Rightarrow> auth_error + auth_principal" where
  "svc_Current s f now t token d =
     (if token = [] then Inl AuErrUnauthorized
      else case repo_Session f now t (tokenDigest s token) d of
        Inl e \<Rightarrow> if e = RepoNotFound then Inl AuErrUnauthorized else Inl (AuErrRepo e)
      | Inr p \<Rightarrow> Inr p)"

definition svc_Logout ::
  "'w auth_service \<Rightarrow> tx_fault \<Rightarrow> time \<Rightarrow> uuid \<Rightarrow> string \<Rightarrow> auth_db \<Rightarrow> (repo_error + unit) \<times> auth_db" where
  "svc_Logout s f now t token d =
     (if token = [] then (Inr (), d) else repo_RevokeSession f now t (tokenDigest s token) d)"

section \<open>internal/handler\<close>

datatype auth_body =
    BPrincipal auth_principal
  | BMembers "member list"
  | BMember member
  | BOwners "owner_state list"
  | BRegistration string registration

record auth_cookie =
  sk_Name :: string
  sk_Value :: string
  sk_Secure :: bool
  sk_Expires :: time
  sk_MaxAge :: int

record 'w auth_handler =
  ah_service :: "'w auth_service"
  ah_verify :: "string \<Rightarrow> bool"
  ah_cookieName :: string
  ah_cookieSecure :: bool
  ah_limiter :: bool
  ah_cookies :: "string \<Rightarrow> string \<Rightarrow> string"
  ah_login :: "string \<Rightarrow> login_input option"
  ah_register :: "string \<Rightarrow> register_input option"
  ah_role :: "string \<Rightarrow> string option"
  ah_change :: "string \<Rightarrow> change_password_input option"
  ah_forgot :: "string \<Rightarrow> string option"

record 'w auth_sys =
  ay_db :: auth_db
  ay_redis :: redis_counters
  ay_world :: 'w

text \<open>Beside \<open>auth_io\<close>: the clock of the database for the session, and Redis with its clock.\<close>

record auth_call =
  al_io :: auth_io
  al_session :: "tx_fault \<times> time"
  al_redis_fails :: bool
  al_redis_now :: int
  al_later :: time

type_synonym 'w auth_answer = "(auth_body response \<times> auth_cookie option) \<times> 'w auth_sys"

definition status_only :: "int \<Rightarrow> 'w auth_sys \<Rightarrow> 'w auth_answer" where
  "status_only n y = ((SendStatus n, None), y)"

definition trustedContext :: "'w auth_handler \<Rightarrow> fiber_ctx \<Rightarrow> tenant_ctx option" where
  "trustedContext h c =
     (if \<not> ah_verify h (c_Get c InternalHeaderName) then None
      else case tenantctx_New (av_X (ah_service h)) (c_Get c TenantIDHeader) (c_Get c AppTypeHeader) (c_Get c RequestIDHeader) of
        Inl _ \<Rightarrow> None
      | Inr t \<Rightarrow> if AppType t \<noteq> ''admin'' then None else Some t)"

definition session_token :: "'w auth_handler \<Rightarrow> fiber_ctx \<Rightarrow> string" where
  "session_token h c = ah_cookies h (c_Get c ''Cookie'') (ah_cookieName h)"

definition rate_key :: "externals \<Rightarrow> tenant_ctx \<Rightarrow> string \<Rightarrow> string" where
  "rate_key X t operation = ''auth-rate:'' @ uuid_String X (TenantID t) @ '':'' @ operation"

text \<open>\<open>limited\<close>: no limiter denies; \<open>None\<close> is an error of Redis.\<close>

definition limited :: "'w auth_handler \<Rightarrow> auth_call \<Rightarrow> tenant_ctx \<Rightarrow> string \<Rightarrow> 'w auth_sys \<Rightarrow> bool option \<times> 'w auth_sys" where
  "limited h k t operation y =
     (if \<not> ah_limiter h then (Some False, y)
      else case ratelimit_Allow (al_redis_fails k) (al_redis_now k) (rate_key (av_X (ah_service h)) t operation) 10
                  60000000000 (ay_redis y) of
        (r, counters) \<Rightarrow> (r, y\<lparr>ay_redis := counters\<rparr>))"

text \<open>The handlers for login, registration and reset first pass the trusted context and the limit.\<close>

definition with_limit ::
  "'w auth_handler \<Rightarrow> auth_call \<Rightarrow> string \<Rightarrow> fiber_ctx \<Rightarrow> (tenant_ctx \<Rightarrow> 'w auth_sys \<Rightarrow> 'w auth_answer) \<Rightarrow>
     'w auth_sys \<Rightarrow> 'w auth_answer" where
  "with_limit h k operation c next y =
     (case trustedContext h c of
        None \<Rightarrow> status_only 401 y
      | Some t \<Rightarrow> (case limited h k t operation y of
          (None, y') \<Rightarrow> status_only 503 y'
        | (Some False, y') \<Rightarrow> status_only 429 y'
        | (Some True, y') \<Rightarrow> next t y'))"

text \<open>\<^verbatim>\<open>int(time.Until(expiresAt).Seconds())\<close>\<close>

definition whole_seconds :: "duration \<Rightarrow> int" where
  "whole_seconds x = (if x < 0 then - ((- x) div 1000000000) else x div 1000000000)"

definition setCookie :: "'w auth_handler \<Rightarrow> auth_call \<Rightarrow> string \<Rightarrow> time \<Rightarrow> auth_cookie" where
  "setCookie h k value expiresAt = \<lparr>sk_Name = ah_cookieName h, sk_Value = value, sk_Secure = ah_cookieSecure h,
     sk_Expires = expiresAt, sk_MaxAge = whole_seconds (expiresAt - al_later k)\<rparr>"

definition clearCookie :: "'w auth_handler \<Rightarrow> auth_cookie" where
  "clearCookie h = \<lparr>sk_Name = ah_cookieName h, sk_Value = [], sk_Secure = ah_cookieSecure h, sk_Expires = 0, sk_MaxAge = -1\<rparr>"

definition auth_login :: "'w auth_handler \<Rightarrow> auth_call \<Rightarrow> fiber_ctx \<Rightarrow> 'w auth_sys \<Rightarrow> 'w auth_answer" where
  "auth_login h k c = with_limit h k ''login'' c (\<lambda>t y.
     case ah_login h (c_Body c) of
       None \<Rightarrow> status_only 400 y
     | Some inp \<Rightarrow>
       if li_Email inp = [] \<or> li_Password inp = [] then status_only 400 y
       else case svc_Login (ah_service h) (al_io k) (TenantID t) inp (ay_db y) of
         (Inl e, d) \<Rightarrow> status_only (if e = AuErrUnauthorized then 401 else 500) (y\<lparr>ay_db := d\<rparr>)
       | (Inr ses, d) \<Rightarrow> ((JSON 200 (BPrincipal (as_Principal ses)),
           Some (setCookie h k (as_Token ses) (as_ExpiresAt ses))), y\<lparr>ay_db := d\<rparr>))"

fun register_status :: "auth_error \<Rightarrow> int" where
  "register_status AuErrInvalidInput = 400"
| "register_status AuErrForbidden = 403"
| "register_status AuErrDeliveryUnavailable = 503"
| "register_status AuErrDeliveryInProgress = 409"
| "register_status _ = 500"

definition auth_register :: "'w auth_handler \<Rightarrow> auth_call \<Rightarrow> fiber_ctx \<Rightarrow> auth_principal \<Rightarrow> 'w auth_sys \<Rightarrow> 'w auth_answer" where
  "auth_register h k c p = with_limit h k ''register'' c (\<lambda>t y.
     case ah_register h (c_Body c) of
       None \<Rightarrow> status_only 400 y
     | Some inp \<Rightarrow>
       (case svc_Register (ah_service h) (al_io k) (TenantID t) p inp (ay_db y) (ay_world y) of
          (Inl e, d, w) \<Rightarrow> status_only (register_status e) (y\<lparr>ay_db := d, ay_world := w\<rparr>)
        | (Inr r, d, w) \<Rightarrow> ((JSON (if rn_MembershipCreated r then 201 else 200)
            (BRegistration (if rn_CredentialScheduled r then ''Initial login credentials have been sent to the user's email.''
               else ''Membership created for the existing identity.'') r), None), y\<lparr>ay_db := d, ay_world := w\<rparr>)))"

definition auth_members :: "'w auth_handler \<Rightarrow> auth_call \<Rightarrow> fiber_ctx \<Rightarrow> 'w auth_sys \<Rightarrow> 'w auth_answer" where
  "auth_members h k c y =
     (case trustedContext h c of
        None \<Rightarrow> status_only 401 y
      | Some t \<Rightarrow> (case repo_Members (av_coll (ah_service h)) (ao_f (al_io k) 0) (TenantID t) (ay_db y) of
          Inl _ \<Rightarrow> status_only 500 y
        | Inr ms \<Rightarrow> ((JSON 200 (BMembers ms), None), y)))"

definition memberID :: "'w auth_handler \<Rightarrow> fiber_ctx \<Rightarrow> uuid option" where
  "memberID h c = uuid_Parse (av_X (ah_service h)) (c_Params c ''id'')"

definition auth_member :: "'w auth_handler \<Rightarrow> auth_call \<Rightarrow> fiber_ctx \<Rightarrow> 'w auth_sys \<Rightarrow> 'w auth_answer" where
  "auth_member h k c y =
     (case trustedContext h c of
        None \<Rightarrow> status_only 401 y
      | Some t \<Rightarrow> (case memberID h c of
          None \<Rightarrow> status_only 400 y
        | Some i \<Rightarrow> (case repo_Member (ao_f (al_io k) 0) (TenantID t) i (ay_db y) of
            Inl e \<Rightarrow> status_only (if e = RepoNotFound then 404 else 500) y
          | Inr m \<Rightarrow> ((JSON 200 (BMember m), None), y))))"

fun member_status :: "auth_error \<Rightarrow> int" where
  "member_status AuErrForbidden = 403"
| "member_status (AuErrRepo e) = (if e = RepoNotFound then 404 else 500)"
| "member_status _ = 500"

definition member_answer :: "(auth_error + member) \<times> auth_db \<Rightarrow> 'w auth_sys \<Rightarrow> 'w auth_answer" where
  "member_answer r y = (case r of
     (Inl e, d) \<Rightarrow> status_only (member_status e) (y\<lparr>ay_db := d\<rparr>)
   | (Inr m, d) \<Rightarrow> ((JSON 200 (BMember m), None), y\<lparr>ay_db := d\<rparr>))"

definition auth_changeMemberRole ::
  "'w auth_handler \<Rightarrow> auth_call \<Rightarrow> fiber_ctx \<Rightarrow> auth_principal \<Rightarrow> 'w auth_sys \<Rightarrow> 'w auth_answer" where
  "auth_changeMemberRole h k c p y =
     (case trustedContext h c of
        None \<Rightarrow> status_only 401 y
      | Some t \<Rightarrow> (case memberID h c of
          None \<Rightarrow> status_only 400 y
        | Some i \<Rightarrow> (case ah_role h (c_Body c) of
            None \<Rightarrow> status_only 400 y
          | Some role \<Rightarrow> member_answer (svc_ChangeMemberRole (al_io k) (TenantID t) p i role (ay_db y)) y)))"

definition auth_setMemberStatus ::
  "'w auth_handler \<Rightarrow> auth_call \<Rightarrow> fiber_ctx \<Rightarrow> auth_principal \<Rightarrow> bool \<Rightarrow> 'w auth_sys \<Rightarrow> 'w auth_answer" where
  "auth_setMemberStatus h k c p active y =
     (case trustedContext h c of
        None \<Rightarrow> status_only 401 y
      | Some t \<Rightarrow> (case memberID h c of
          None \<Rightarrow> status_only 400 y
        | Some i \<Rightarrow> member_answer (svc_SetMemberStatus (al_io k) (TenantID t) p i active (ay_db y)) y))"

definition auth_barberEligibility :: "'w auth_handler \<Rightarrow> auth_call \<Rightarrow> fiber_ctx \<Rightarrow> 'w auth_sys \<Rightarrow> 'w auth_answer" where
  "auth_barberEligibility h k c y =
     (case (trustedContext h c, memberID h c) of
        (Some t, Some i) \<Rightarrow> (case repo_BarberEligible (ao_f (al_io k) 0) (TenantID t) i (ay_db y) of
            Inl _ \<Rightarrow> status_only 500 y
          | Inr eligible \<Rightarrow> status_only (if eligible then 204 else 404) y)
      | _ \<Rightarrow> status_only 401 y)"

definition auth_changePassword ::
  "'w auth_handler \<Rightarrow> auth_call \<Rightarrow> fiber_ctx \<Rightarrow> auth_principal \<Rightarrow> 'w auth_sys \<Rightarrow> 'w auth_answer" where
  "auth_changePassword h k c p y =
     (case trustedContext h c of
        None \<Rightarrow> status_only 401 y
      | Some t \<Rightarrow> (case ah_change h (c_Body c) of
          None \<Rightarrow> status_only 400 y
        | Some inp \<Rightarrow> (case svc_ChangePassword (ah_service h) (al_io k) (TenantID t) p inp (ay_db y) of
            (None, d) \<Rightarrow> status_only 204 (y\<lparr>ay_db := d\<rparr>)
          | (Some e, d) \<Rightarrow> status_only (if e = AuErrInvalidInput then 400 else if e = AuErrUnauthorized then 401 else 500)
              (y\<lparr>ay_db := d\<rparr>))))"

definition auth_forgotPassword :: "'w auth_handler \<Rightarrow> auth_call \<Rightarrow> fiber_ctx \<Rightarrow> 'w auth_sys \<Rightarrow> 'w auth_answer" where
  "auth_forgotPassword h k c = with_limit h k ''forgot-password'' c (\<lambda>t y.
     case ah_forgot h (c_Body c) of
       None \<Rightarrow> status_only 400 y
     | Some email \<Rightarrow>
       if email = [] then status_only 400 y
       else case svc_ForgotPassword (ah_service h) (al_io k) (TenantID t) email (ay_db y) (ay_world y) of
         (err, d, w) \<Rightarrow> status_only (if err = None then 204 else 503) (y\<lparr>ay_db := d, ay_world := w\<rparr>))"

definition auth_logout :: "'w auth_handler \<Rightarrow> auth_call \<Rightarrow> fiber_ctx \<Rightarrow> 'w auth_sys \<Rightarrow> 'w auth_answer" where
  "auth_logout h k c y =
     (case trustedContext h c of
        None \<Rightarrow> status_only 401 y
      | Some t \<Rightarrow> (case svc_Logout (ah_service h) (ao_f (al_io k) 0) (ae_now (ao_env (al_io k) 0)) (TenantID t)
                       (session_token h c) (ay_db y) of
          (Inl _, d) \<Rightarrow> status_only 500 (y\<lparr>ay_db := d\<rparr>)
        | (Inr _, d) \<Rightarrow> ((SendStatus 204, Some (clearCookie h)), y\<lparr>ay_db := d\<rparr>)))"

definition auth_platformOwners :: "'w auth_handler \<Rightarrow> auth_call \<Rightarrow> fiber_ctx \<Rightarrow> 'w auth_sys \<Rightarrow> 'w auth_answer" where
  "auth_platformOwners h k c y =
     (if \<not> ah_verify h (c_Get c InternalHeaderName) then status_only 401 y
      else case memberID h c of
        None \<Rightarrow> status_only 400 y
      | Some t \<Rightarrow> (case repo_Owners (av_coll (ah_service h)) (ao_f (al_io k) 0) t (ay_db y) of
          Inl _ \<Rightarrow> status_only 500 y
        | Inr os \<Rightarrow> ((JSON 200 (BOwners os), None), y)))"

text \<open>\<open>Authenticate\<close> hands the principal of the session to what follows it.\<close>

definition auth_Authenticate ::
  "'w auth_handler \<Rightarrow> auth_call \<Rightarrow> fiber_ctx \<Rightarrow> (auth_principal \<Rightarrow> 'w auth_sys \<Rightarrow> 'w auth_answer) \<Rightarrow>
     'w auth_sys \<Rightarrow> 'w auth_answer" where
  "auth_Authenticate h k c next y =
     (case trustedContext h c of
        None \<Rightarrow> status_only 401 y
      | Some t \<Rightarrow> (case svc_Current (ah_service h) (fst (al_session k)) (snd (al_session k)) (TenantID t) (session_token h c) (ay_db y) of
          Inl e \<Rightarrow> status_only (if e = AuErrUnauthorized then 401 else 500) y
        | Inr p \<Rightarrow> next p y))"

definition RequireCurrentPassword ::
  "(auth_principal \<Rightarrow> 'w auth_sys \<Rightarrow> 'w auth_answer) \<Rightarrow> auth_principal \<Rightarrow> 'w auth_sys \<Rightarrow> 'w auth_answer" where
  "RequireCurrentPassword next p y =
     (if pn_MustChangePassword p then ((JSONError 403 ''password change required'', None), y) else next p y)"

definition RequireRoles ::
  "string list \<Rightarrow> (auth_principal \<Rightarrow> 'w auth_sys \<Rightarrow> 'w auth_answer) \<Rightarrow> auth_principal \<Rightarrow> 'w auth_sys \<Rightarrow> 'w auth_answer" where
  "RequireRoles allowed next p y = (if list_ex (\<lambda>role. pn_Role p = role) allowed then next p y else status_only 403 y)"

definition owner_only ::
  "'w auth_handler \<Rightarrow> auth_call \<Rightarrow> fiber_ctx \<Rightarrow> (auth_principal \<Rightarrow> 'w auth_sys \<Rightarrow> 'w auth_answer) \<Rightarrow>
     'w auth_sys \<Rightarrow> 'w auth_answer" where
  "owner_only h k c next = auth_Authenticate h k c (RequireCurrentPassword (RequireRoles [RoleOwner] next))"

datatype auth_route =
    RtLogin | RtLogout | RtMe | RtRegister | RtMembers | RtMember | RtRole | RtActivate | RtDeactivate
  | RtEligibility | RtChangePassword | RtForgotPassword | RtOwners

text \<open>\<open>Register\<close>: which handler serves which route, behind which middleware.\<close>

fun auth_serve :: "'w auth_handler \<Rightarrow> auth_route \<Rightarrow> auth_call \<Rightarrow> fiber_ctx \<Rightarrow> 'w auth_sys \<Rightarrow> 'w auth_answer" where
  "auth_serve h RtLogin k c y = auth_login h k c y"
| "auth_serve h RtLogout k c y = auth_logout h k c y"
| "auth_serve h RtMe k c y = auth_Authenticate h k c (\<lambda>p y. ((JSON 200 (BPrincipal p), None), y)) y"
| "auth_serve h RtRegister k c y = owner_only h k c (auth_register h k c) y"
| "auth_serve h RtMembers k c y = owner_only h k c (\<lambda>_. auth_members h k c) y"
| "auth_serve h RtMember k c y = owner_only h k c (\<lambda>_. auth_member h k c) y"
| "auth_serve h RtRole k c y = owner_only h k c (auth_changeMemberRole h k c) y"
| "auth_serve h RtActivate k c y = owner_only h k c (\<lambda>p. auth_setMemberStatus h k c p True) y"
| "auth_serve h RtDeactivate k c y = owner_only h k c (\<lambda>p. auth_setMemberStatus h k c p False) y"
| "auth_serve h RtEligibility k c y = auth_barberEligibility h k c y"
| "auth_serve h RtChangePassword k c y = auth_Authenticate h k c (auth_changePassword h k c) y"
| "auth_serve h RtForgotPassword k c y = auth_forgotPassword h k c y"
| "auth_serve h RtOwners k c y = auth_platformOwners h k c y"

end
