(* ===== verification/Customer_App.thy ===== *)
theory Customer_App
  imports Customer_Inv Auth_Service
begin

text \<open>
  customer-service above its store: the client of appointment-service (\<^verbatim>\<open>internal/client/appointments.go\<close>), the operations of
  \<^verbatim>\<open>internal/application/application.go\<close> and the routes of \<^verbatim>\<open>internal/handler/http.go\<close>. Parameters are those of
  auth-service: bcrypt, random bytes, the mail provider with its world, the HTTP transport, JSON decoding and cookies.
  The n-th statement of a request on the database meets the n-th fault, clock and identifier of its \<open>auth_io\<close>.
\<close>

section \<open>internal/client\<close>

record appointments_client =
  aq_baseURL :: string
  aq_token :: string
  aq_Do :: "http_req \<Rightarrow> http_resp"
  aq_query_ok :: "string \<Rightarrow> bool"
  aq_valid :: "string \<Rightarrow> string \<Rightarrow> bool"

definition NewAppointments ::
  "string \<Rightarrow> string \<Rightarrow> (http_req \<Rightarrow> http_resp) \<Rightarrow> (string \<Rightarrow> bool) \<Rightarrow> (string \<Rightarrow> string \<Rightarrow> bool) \<Rightarrow> appointments_client" where
  "NewAppointments baseURL token http query_ok valid =
     \<lparr>aq_baseURL = trim_right_slash baseURL, aq_token = token, aq_Do = http, aq_query_ok = query_ok, aq_valid = valid\<rparr>"

text \<open>\<open>Forward\<close>; \<open>None\<close> is an error of the query, the request, the transport or the body.\<close>

definition Forward ::
  "externals \<Rightarrow> appointments_client \<Rightarrow> tenant_ctx \<Rightarrow> uuid \<Rightarrow> string \<Rightarrow> string \<Rightarrow> string \<Rightarrow> (int \<times> string) option" where
  "Forward X a t customer method path rawQuery =
     (let target = aq_baseURL a @ ''/internal/v1/customer/appointments'' @ path @ (if rawQuery \<noteq> [] then ''?'' @ rawQuery else []) in
      if rawQuery \<noteq> [] \<and> \<not> aq_query_ok a rawQuery then None
      else if \<not> aq_valid a method target then None
      else case aq_Do a \<lparr>hr_method = method, hr_url = target,
                hr_headers = [(InternalHeaderName, aq_token a), (TenantIDHeader, uuid_String X (TenantID t)),
                  (AppTypeHeader, ''booking''), (RequestIDHeader, RequestID t), (''X-Customer-ID'', uuid_String X customer)]\<rparr> of
        TransportError _ \<Rightarrow> None
      | Response status body \<Rightarrow> Some (status, body))"

section \<open>internal/application\<close>

datatype customer_error =
    CuErrInvalid
  | CuErrUnauthorized
  | CuErrForbidden
  | CuErrNotFound
  | CuErrConflict
  | CuErrUnavailable
  | CuErrRepo repo_error
  | CuErrRandom
  | CuErrHash

record 'w customer_service =
  cz_X :: externals
  cz_compare :: "string \<Rightarrow> string \<Rightarrow> bool"
  cz_email :: "'w mailer"
  cz_appointments :: appointments_client

record customer_registration =
  rc_Name :: string
  rc_Email :: string
  rc_Phone :: string

record customer_registered =
  rr_Customer :: Customer
  rr_Retried :: bool

record customer_login =
  lr_Customer :: Customer
  lr_Token :: string
  lr_Expires :: time

definition cus_normalizeEmail :: "externals \<Rightarrow> string \<Rightarrow> string option" where
  "cus_normalizeEmail X value =
     (let v = ToLower (TrimSpace value) in
      case mail_ParseAddress X v of
        None \<Rightarrow> None
      | Some address \<Rightarrow> if address \<noteq> v \<or> length v > 320 then None else Some v)"

definition cus_random :: "auth_io \<Rightarrow> nat \<Rightarrow> customer_error + string" where
  "cus_random io n = (case ao_rand io n of None \<Rightarrow> Inl CuErrRandom | Some bytes \<Rightarrow> Inr (EncodeToString bytes))"

definition cus_hash :: "auth_io \<Rightarrow> string \<Rightarrow> customer_error + string" where
  "cus_hash io password = (case ao_hash io password of None \<Rightarrow> Inl CuErrHash | Some h \<Rightarrow> Inr h)"

definition initialEmail :: "externals \<Rightarrow> string \<Rightarrow> string \<Rightarrow> uuid \<Rightarrow> email_message" where
  "initialEmail X address password i =
     \<lparr>em_To = address, em_Subject = ''Your initial password'',
      em_Text = ''Your initial password is: '' @ password @ newline @ ''You must change it after signing in.'',
      em_Template = ''user_initial_password'', em_IdempotencyKey = uuid_String X i\<rparr>"

definition resetEmail :: "externals \<Rightarrow> string \<Rightarrow> string \<Rightarrow> uuid \<Rightarrow> email_message" where
  "resetEmail X address password key =
     \<lparr>em_To = address, em_Subject = ''Password reset'',
      em_Text = ''Your temporary password is: '' @ password @ newline @ ''You must change it after signing in.'',
      em_Template = ''user_password_reset'', em_IdempotencyKey = uuid_String X key\<rparr>"

definition cus_mapRepo :: "repo_error \<Rightarrow> customer_error" where
  "cus_mapRepo e = (if e = RepoNotFound then CuErrNotFound else CuErrRepo e)"

text \<open>The second half of \<open>Register\<close>: claim the delivery, send the mail, record the outcome.\<close>

definition deliver_initial ::
  "'w customer_service \<Rightarrow> auth_io \<Rightarrow> uuid \<Rightarrow> string \<Rightarrow> string \<Rightarrow> string \<Rightarrow> Customer \<Rightarrow> bool \<Rightarrow> customer_db \<Rightarrow> 'w \<Rightarrow>
     (customer_error + customer_registered) \<times> customer_db \<times> 'w" where
  "deliver_initial s io t address password hash c retried d w =
     (case cust_ClaimInitialDelivery (ao_f io 2) (ao_env io 2) t (cm_ID c) d of
        (Inl e, d2) \<Rightarrow> (Inl (CuErrRepo e), d2, w)
      | (Inr (claim, claimed), d2) \<Rightarrow>
        if \<not> claimed then (Inl CuErrConflict, d2, w)
        else case send_mail (cz_email s) (initialEmail (cz_X s) address password (cm_ID c)) w of
          (False, w') \<Rightarrow> (Inl CuErrUnavailable,
             snd (cust_MarkInitialDelivery (ao_f io 3) t (cm_ID c) claim ''failed'' ''email provider unavailable'' d2), w')
        | (True, w') \<Rightarrow>
          (case (if retried then cust_ActivateRetriedCredential (ao_f io 3) t (cm_ID c) claim hash d2
                 else cust_MarkInitialDelivery (ao_f io 3) t (cm_ID c) claim ''sent'' [] d2) of
             (Inl e, d3) \<Rightarrow> (Inl (CuErrRepo e), d3, w')
           | (Inr _, d3) \<Rightarrow> (Inr \<lparr>rr_Customer = c, rr_Retried = retried\<rparr>, d3, w')))"

definition cus_Register ::
  "'w customer_service \<Rightarrow> auth_io \<Rightarrow> uuid \<Rightarrow> customer_registration \<Rightarrow> customer_db \<Rightarrow> 'w \<Rightarrow>
     (customer_error + customer_registered) \<times> customer_db \<times> 'w" where
  "cus_Register s io t inp d w =
     (let name = TrimSpace (rc_Name inp) in
      case cus_normalizeEmail (cz_X s) (rc_Email inp) of
        None \<Rightarrow> (Inl CuErrInvalid, d, w)
      | Some address \<Rightarrow>
        if name = [] \<or> length name > 200 then (Inl CuErrInvalid, d, w)
        else case cus_random io 12 of
          Inl e \<Rightarrow> (Inl e, d, w)
        | Inr password \<Rightarrow>
          (case cus_hash io password of
             Inl e \<Rightarrow> (Inl e, d, w)
           | Inr hash \<Rightarrow>
             (case cust_Create (ao_f io 0) (ao_env io 0) t name address (rc_Phone inp) hash d of
                (Inr c, d1) \<Rightarrow> deliver_initial s io t address password hash c False d1 w
              | (Inl _, d1) \<Rightarrow>
                (case cust_FindByEmail (ao_f io 1) t address d1 of
                   Inl _ \<Rightarrow> (Inl CuErrConflict, d1, w)
                 | Inr (c, _) \<Rightarrow>
                   if cm_InitialDeliveryStatus c = ''sent'' then (Inl CuErrConflict, d1, w)
                   else deliver_initial s io t address password hash c True d1 w))))"

text \<open>\<^verbatim>\<open>30 * 24 * time.Hour\<close>\<close>

definition customer_session_ttl :: duration where
  "customer_session_ttl = 2592000000000000"

definition cus_Login ::
  "'w customer_service \<Rightarrow> auth_io \<Rightarrow> uuid \<Rightarrow> string \<Rightarrow> string \<Rightarrow> customer_db \<Rightarrow> (customer_error + customer_login) \<times> customer_db" where
  "cus_Login s io t email password d =
     (case cus_normalizeEmail (cz_X s) email of
        None \<Rightarrow> (Inl CuErrUnauthorized, d)
      | Some address \<Rightarrow>
        (case cust_FindByEmail (ao_f io 0) t address d of
           Inl _ \<Rightarrow> (Inl CuErrUnauthorized, d)
         | Inr (c, hash) \<Rightarrow>
           if cm_Status c \<noteq> ''active'' \<or> \<not> cz_compare s hash password then (Inl CuErrUnauthorized, d)
           else case cus_random io 32 of
             Inl e \<Rightarrow> (Inl e, d)
           | Inr token \<Rightarrow>
             (let expires = ao_now io + customer_session_ttl in
              case cust_CreateSession (cz_X s) (ao_f io 1) (ae_id (ao_env io 1)) t (cm_ID c) token expires d of
                (Inl e, d') \<Rightarrow> (Inl (CuErrRepo e), d')
              | (Inr _, d') \<Rightarrow> (Inr \<lparr>lr_Customer = c, lr_Token = token, lr_Expires = expires\<rparr>, d'))))"

definition cus_Current :: "'w customer_service \<Rightarrow> auth_io \<Rightarrow> uuid \<Rightarrow> string \<Rightarrow> customer_db \<Rightarrow> customer_error + Customer" where
  "cus_Current s io t token d =
     (if token = [] then Inl CuErrUnauthorized
      else case cust_Session (cz_X s) (ao_f io 0) (ao_f io 1) (ae_now (ao_env io 0)) t token d of
        Inl _ \<Rightarrow> Inl CuErrUnauthorized | Inr c \<Rightarrow> Inr c)"

definition cus_Logout :: "'w customer_service \<Rightarrow> auth_io \<Rightarrow> uuid \<Rightarrow> string \<Rightarrow> customer_db \<Rightarrow> customer_db" where
  "cus_Logout s io t token d = snd (cust_Revoke (cz_X s) (ao_f io 0) (ae_now (ao_env io 0)) t token d)"

definition cus_Profile :: "'w customer_service \<Rightarrow> auth_io \<Rightarrow> uuid \<Rightarrow> string \<Rightarrow> customer_db \<Rightarrow> customer_error + Customer" where
  "cus_Profile s io t token d = (case cus_Current s io t token d of
     Inl e \<Rightarrow> Inl e | Inr c \<Rightarrow> if cm_MustChangePassword c then Inl CuErrForbidden else Inr c)"

definition cus_UpdateProfile ::
  "'w customer_service \<Rightarrow> auth_io \<Rightarrow> uuid \<Rightarrow> string \<Rightarrow> string \<Rightarrow> customer_db \<Rightarrow> (customer_error + Customer) \<times> customer_db" where
  "cus_UpdateProfile s io t token value d =
     (case cus_Profile s io t token d of
        Inl e \<Rightarrow> (Inl e, d)
      | Inr c \<Rightarrow>
        (let name = TrimSpace value in
         if name = [] \<or> length name > 200 then (Inl CuErrInvalid, d)
         else case cust_UpdateName (ao_f io 2) t (cm_ID c) name d of
           (Inl e, d') \<Rightarrow> (Inl (CuErrRepo e), d')
         | (Inr _, d') \<Rightarrow> (Inr (c\<lparr>cm_Name := name\<rparr>), d')))"

definition cus_ChangePassword ::
  "'w customer_service \<Rightarrow> auth_io \<Rightarrow> uuid \<Rightarrow> string \<Rightarrow> string \<Rightarrow> string \<Rightarrow> customer_db \<Rightarrow> customer_error option \<times> customer_db" where
  "cus_ChangePassword s io t token current new d =
     (case cus_Current s io t token d of
        Inl e \<Rightarrow> (Some e, d)
      | Inr c \<Rightarrow>
        if length new < 10 then (Some CuErrInvalid, d)
        else case cust_FindByEmail (ao_f io 2) t (cm_Email c) d of
          Inl _ \<Rightarrow> (Some CuErrUnauthorized, d)
        | Inr (_, hash) \<Rightarrow>
          if \<not> cz_compare s hash current then (Some CuErrUnauthorized, d)
          else case cus_hash io new of
            Inl e \<Rightarrow> (Some e, d)
          | Inr nextHash \<Rightarrow>
            (case cust_UpdatePassword (ao_f io 3) (ae_now (ao_env io 3)) t (cm_ID c) nextHash d of
               (Inl e, d1) \<Rightarrow> (Some (CuErrRepo e), d1)
             | (Inr _, d1) \<Rightarrow> (None, snd (cust_RevokeOthers (cz_X s) (ao_f io 4) (ae_now (ao_env io 4)) t (cm_ID c) token d1))))"

definition cus_ForgotPassword ::
  "'w customer_service \<Rightarrow> auth_io \<Rightarrow> uuid \<Rightarrow> string \<Rightarrow> customer_db \<Rightarrow> 'w \<Rightarrow> customer_error option \<times> customer_db \<times> 'w" where
  "cus_ForgotPassword s io t value d w =
     (case cus_normalizeEmail (cz_X s) value of
        None \<Rightarrow> (None, d, w)
      | Some address \<Rightarrow>
        (case cust_FindByEmail (ao_f io 0) t address d of
           Inl _ \<Rightarrow> (None, d, w)
         | Inr (c, _) \<Rightarrow>
           (case cus_random io 12 of
              Inl _ \<Rightarrow> (None, d, w)
            | Inr password \<Rightarrow>
              (case cus_hash io password of
                 Inl _ \<Rightarrow> (None, d, w)
               | Inr hash \<Rightarrow>
                 (case send_mail (cz_email s) (resetEmail (cz_X s) address password (ao_key io)) w of
                    (False, w') \<Rightarrow> (Some CuErrUnavailable, d, w')
                  | (True, w') \<Rightarrow>
                    (case cust_ResetPassword (ao_f io 1) (ae_now (ao_env io 1)) t (cm_ID c) hash d of
                       (Inl _, d1) \<Rightarrow> (Some CuErrUnavailable, d1, w')
                     | (Inr _, d1) \<Rightarrow> (None, snd (cust_RevokeAll (ao_f io 2) (ae_now (ao_env io 2)) t (cm_ID c) d1), w')))))))"

definition cus_ResolveGuest ::
  "auth_io \<Rightarrow> uuid \<Rightarrow> string \<Rightarrow> string \<Rightarrow> customer_db \<Rightarrow> (customer_error + Customer) \<times> customer_db" where
  "cus_ResolveGuest io t value phone d =
     (let name = TrimSpace value in
      case NormalizePhone phone of
        None \<Rightarrow> (Inl CuErrInvalid, d)
      | Some normalized \<Rightarrow>
        if name = [] \<or> length name > 200 then (Inl CuErrInvalid, d)
        else case cust_EnsureGuest (ao_f io 0) (ao_env io 0) t name normalized d of
          (Inl e, d') \<Rightarrow> (Inl (CuErrRepo e), d') | (Inr c, d') \<Rightarrow> (Inr c, d'))"

definition cus_ByID :: "auth_io \<Rightarrow> uuid \<Rightarrow> uuid \<Rightarrow> customer_db \<Rightarrow> customer_error + Customer" where
  "cus_ByID io t i d = (case cust_ByID (ao_f io 0) t i d of Inl e \<Rightarrow> Inl (cus_mapRepo e) | Inr c \<Rightarrow> Inr c)"

definition cus_InternalSession :: "'w customer_service \<Rightarrow> auth_io \<Rightarrow> uuid \<Rightarrow> string \<Rightarrow> customer_db \<Rightarrow> customer_error + Customer" where
  "cus_InternalSession s io t token d = (case cus_Current s io t token d of
     Inl e \<Rightarrow> Inl e | Inr c \<Rightarrow> if cm_MustChangePassword c then Inl CuErrForbidden else Inr c)"

definition cus_Appointments ::
  "'w customer_service \<Rightarrow> auth_io \<Rightarrow> tenant_ctx \<Rightarrow> string \<Rightarrow> string \<Rightarrow> string \<Rightarrow> string \<Rightarrow> customer_db \<Rightarrow>
     customer_error + (int \<times> string)" where
  "cus_Appointments s io t token method path query d =
     (case cus_Profile s io (TenantID t) token d of
        Inl e \<Rightarrow> Inl e
      | Inr c \<Rightarrow> (case Forward (cz_X s) (cz_appointments s) t (cm_ID c) method path query of
          None \<Rightarrow> Inl CuErrUnavailable | Some result \<Rightarrow> Inr result))"

section \<open>internal/handler\<close>

datatype customer_body = KuCustomer Customer | KuCreated | KuRaw string

datatype customer_cookie = CuSetCookie string string bool int | CuClearCookie string

record 'w customer_handler =
  hz_app :: "'w customer_service"
  hz_verify :: "string \<Rightarrow> bool"
  hz_InternalToken :: string
  hz_limiter :: bool
  hz_development :: bool
  hz_cookies :: "string \<Rightarrow> string \<Rightarrow> string"
  hz_register :: "string \<Rightarrow> customer_registration option"
  hz_login :: "string \<Rightarrow> (string \<times> string) option"
  hz_change :: "string \<Rightarrow> (string \<times> string) option"
  hz_forgot :: "string \<Rightarrow> string option"
  hz_name :: "string \<Rightarrow> string option"
  hz_guest :: "string \<Rightarrow> (string \<times> string) option"

record 'w customer_sys =
  ky_db :: customer_db
  ky_redis :: redis_counters
  ky_world :: 'w

record customer_call =
  kl_io :: auth_io
  kl_redis_fails :: bool
  kl_redis_now :: int
  kl_later :: time

type_synonym 'w customer_answer = "(customer_body response \<times> customer_cookie option) \<times> 'w customer_sys"

definition plain :: "customer_body response \<Rightarrow> 'w customer_sys \<Rightarrow> 'w customer_answer" where
  "plain r y = ((r, None), y)"

definition sessionCookieName :: "'w customer_handler \<Rightarrow> string" where
  "sessionCookieName h = (if hz_development h then ''barber_customer_session'' else ''__Host-barber_customer_session'')"

definition cuh_tenant :: "'w customer_handler \<Rightarrow> fiber_ctx \<Rightarrow> tenant_ctx option" where
  "cuh_tenant h c = (case adminauth_Context (cz_X (hz_app h)) (hz_verify h) c of
     Inl _ \<Rightarrow> None | Inr t \<Rightarrow> if AppType t \<noteq> ''booking'' then None else Some t)"

fun cuh_appError :: "customer_error \<Rightarrow> int" where
  "cuh_appError CuErrInvalid = 400"
| "cuh_appError CuErrUnauthorized = 401"
| "cuh_appError CuErrForbidden = 403"
| "cuh_appError CuErrNotFound = 404"
| "cuh_appError CuErrConflict = 409"
| "cuh_appError CuErrUnavailable = 503"
| "cuh_appError _ = 500"

definition cuh_limited ::
  "'w customer_handler \<Rightarrow> customer_call \<Rightarrow> tenant_ctx \<Rightarrow> string \<Rightarrow> 'w customer_sys \<Rightarrow> bool option \<times> 'w customer_sys" where
  "cuh_limited h k t operation y =
     (if \<not> hz_limiter h then (Some False, y)
      else case ratelimit_Allow (kl_redis_fails k) (kl_redis_now k)
                  (''customer-rate:'' @ uuid_String (cz_X (hz_app h)) (TenantID t) @ '':'' @ operation) 10 60000000000 (ky_redis y) of
        (r, counters) \<Rightarrow> (r, y\<lparr>ky_redis := counters\<rparr>))"

definition with_customer_limit ::
  "'w customer_handler \<Rightarrow> customer_call \<Rightarrow> string \<Rightarrow> fiber_ctx \<Rightarrow> (tenant_ctx \<Rightarrow> 'w customer_sys \<Rightarrow> 'w customer_answer) \<Rightarrow>
     'w customer_sys \<Rightarrow> 'w customer_answer" where
  "with_customer_limit h k operation c body y =
     (case cuh_tenant h c of
        None \<Rightarrow> plain (SendStatus 403) y
      | Some t \<Rightarrow> (case cuh_limited h k t operation y of
          (None, y') \<Rightarrow> plain (SendStatus 503) y'
        | (Some False, y') \<Rightarrow> plain (SendStatus 429) y'
        | (Some True, y') \<Rightarrow> body t y'))"

definition cuh_register :: "'w customer_handler \<Rightarrow> customer_call \<Rightarrow> fiber_ctx \<Rightarrow> 'w customer_sys \<Rightarrow> 'w customer_answer" where
  "cuh_register h k c = with_customer_limit h k ''register'' c (\<lambda>t y.
     case hz_register h (c_Body c) of
       None \<Rightarrow> plain (SendStatus 400) y
     | Some inp \<Rightarrow> (case cus_Register (hz_app h) (kl_io k) (TenantID t) inp (ky_db y) (ky_world y) of
         (Inl e, d, w) \<Rightarrow> plain (SendStatus (cuh_appError e)) (y\<lparr>ky_db := d, ky_world := w\<rparr>)
       | (Inr r, d, w) \<Rightarrow> plain (JSON (if rr_Retried r then 200 else 201) KuCreated) (y\<lparr>ky_db := d, ky_world := w\<rparr>)))"

definition cuh_login :: "'w customer_handler \<Rightarrow> customer_call \<Rightarrow> fiber_ctx \<Rightarrow> 'w customer_sys \<Rightarrow> 'w customer_answer" where
  "cuh_login h k c = with_customer_limit h k ''login'' c (\<lambda>t y.
     case hz_login h (c_Body c) of
       None \<Rightarrow> plain (SendStatus 400) y
     | Some (email, password) \<Rightarrow> (case cus_Login (hz_app h) (kl_io k) (TenantID t) email password (ky_db y) of
         (Inl e, d) \<Rightarrow> plain (SendStatus (cuh_appError e)) (y\<lparr>ky_db := d\<rparr>)
       | (Inr r, d) \<Rightarrow> ((JSON 200 (KuCustomer (lr_Customer r)), Some (CuSetCookie (sessionCookieName h) (lr_Token r) (\<not> hz_development h)
           (whole_seconds (lr_Expires r - kl_later k)))), y\<lparr>ky_db := d\<rparr>)))"

definition cuh_logout :: "'w customer_handler \<Rightarrow> customer_call \<Rightarrow> fiber_ctx \<Rightarrow> 'w customer_sys \<Rightarrow> 'w customer_answer" where
  "cuh_logout h k c y =
     (case cuh_tenant h c of
        None \<Rightarrow> plain (SendStatus 401) y
      | Some t \<Rightarrow> ((SendStatus 204, Some (CuClearCookie (sessionCookieName h))),
          y\<lparr>ky_db := cus_Logout (hz_app h) (kl_io k) (TenantID t) (hz_cookies h (c_Get c ''Cookie'') (sessionCookieName h)) (ky_db y)\<rparr>))"

definition cuh_current :: "'w customer_handler \<Rightarrow> fiber_ctx \<Rightarrow> (tenant_ctx \<times> string) option" where
  "cuh_current h c =
     (case cuh_tenant h c of
        None \<Rightarrow> None
      | Some t \<Rightarrow> (let token = hz_cookies h (c_Get c ''Cookie'') (sessionCookieName h) in if token = [] then None else Some (t, token)))"

text \<open>The handlers for a signed-in customer start with \<open>current\<close>.\<close>

definition with_session ::
  "'w customer_handler \<Rightarrow> fiber_ctx \<Rightarrow> (tenant_ctx \<Rightarrow> string \<Rightarrow> 'w customer_answer) \<Rightarrow> 'w customer_sys \<Rightarrow> 'w customer_answer" where
  "with_session h c body y = (case cuh_current h c of None \<Rightarrow> plain (SendStatus 401) y | Some (t, token) \<Rightarrow> body t token)"

definition customer_reply :: "customer_error + Customer \<Rightarrow> customer_body response" where
  "customer_reply r = (case r of Inl e \<Rightarrow> SendStatus (cuh_appError e) | Inr c \<Rightarrow> JSON 200 (KuCustomer c))"

definition cuh_me :: "'w customer_handler \<Rightarrow> customer_call \<Rightarrow> fiber_ctx \<Rightarrow> 'w customer_sys \<Rightarrow> 'w customer_answer" where
  "cuh_me h k c y = with_session h c (\<lambda>t token.
     plain (case cus_Current (hz_app h) (kl_io k) (TenantID t) token (ky_db y) of
              Inl _ \<Rightarrow> SendStatus 401 | Inr v \<Rightarrow> JSON 200 (KuCustomer v)) y) y"

definition cuh_profile :: "'w customer_handler \<Rightarrow> customer_call \<Rightarrow> fiber_ctx \<Rightarrow> 'w customer_sys \<Rightarrow> 'w customer_answer" where
  "cuh_profile h k c y = with_session h c (\<lambda>t token.
     plain (customer_reply (cus_Profile (hz_app h) (kl_io k) (TenantID t) token (ky_db y))) y) y"

definition cuh_profilePatch :: "'w customer_handler \<Rightarrow> customer_call \<Rightarrow> fiber_ctx \<Rightarrow> 'w customer_sys \<Rightarrow> 'w customer_answer" where
  "cuh_profilePatch h k c y = with_session h c (\<lambda>t token.
     case hz_name h (c_Body c) of
       None \<Rightarrow> plain (SendStatus 400) y
     | Some name \<Rightarrow> (case cus_UpdateProfile (hz_app h) (kl_io k) (TenantID t) token name (ky_db y) of
         (r, d) \<Rightarrow> plain (customer_reply r) (y\<lparr>ky_db := d\<rparr>))) y"

definition cuh_changePassword :: "'w customer_handler \<Rightarrow> customer_call \<Rightarrow> fiber_ctx \<Rightarrow> 'w customer_sys \<Rightarrow> 'w customer_answer" where
  "cuh_changePassword h k c y = with_session h c (\<lambda>t token.
     case hz_change h (c_Body c) of
       None \<Rightarrow> plain (SendStatus 400) y
     | Some (current, new) \<Rightarrow> (case cus_ChangePassword (hz_app h) (kl_io k) (TenantID t) token current new (ky_db y) of
         (r, d) \<Rightarrow> plain (SendStatus (case r of None \<Rightarrow> 204 | Some e \<Rightarrow> cuh_appError e)) (y\<lparr>ky_db := d\<rparr>))) y"

definition cuh_forgot :: "'w customer_handler \<Rightarrow> customer_call \<Rightarrow> fiber_ctx \<Rightarrow> 'w customer_sys \<Rightarrow> 'w customer_answer" where
  "cuh_forgot h k c = with_customer_limit h k ''forgot-password'' c (\<lambda>t y.
     case hz_forgot h (c_Body c) of
       None \<Rightarrow> plain (SendStatus 204) y
     | Some email \<Rightarrow> (case cus_ForgotPassword (hz_app h) (kl_io k) (TenantID t) email (ky_db y) (ky_world y) of
         (r, d, w) \<Rightarrow> plain (SendStatus (case r of None \<Rightarrow> 204 | Some e \<Rightarrow> cuh_appError e)) (y\<lparr>ky_db := d, ky_world := w\<rparr>)))"

definition cuh_internalSession :: "'w customer_handler \<Rightarrow> customer_call \<Rightarrow> fiber_ctx \<Rightarrow> 'w customer_sys \<Rightarrow> 'w customer_answer" where
  "cuh_internalSession h k c y =
     (case cuh_tenant h c of
        None \<Rightarrow> plain (SendStatus 401) y
      | Some t \<Rightarrow> plain (customer_reply (cus_InternalSession (hz_app h) (kl_io k) (TenantID t) (c_Get c ''X-Customer-Session'') (ky_db y))) y)"

definition TrimPrefix :: "string \<Rightarrow> string \<Rightarrow> string" where
  "TrimPrefix s p = (if is_prefix p s then drop (length p) s else s)"

text \<open>\<open>appointments\<close>, with the method, path and query of the request; the answer is passed on as it came.\<close>

definition cuh_appointments ::
  "'w customer_handler \<Rightarrow> customer_call \<Rightarrow> string \<Rightarrow> string \<Rightarrow> string \<Rightarrow> fiber_ctx \<Rightarrow> 'w customer_sys \<Rightarrow> 'w customer_answer" where
  "cuh_appointments h k method path query c y = with_session h c (\<lambda>t token.
     plain (case cus_Appointments (hz_app h) (kl_io k) t token method
                   (TrimPrefix path ''/internal/v1/public/customer/appointments'') query (ky_db y) of
              Inl e \<Rightarrow> SendStatus (cuh_appError e) | Inr (status, body) \<Rightarrow> JSON status (KuRaw body)) y) y"

definition internal_context :: "'w customer_handler \<Rightarrow> fiber_ctx \<Rightarrow> tenant_ctx option" where
  "internal_context h c =
     (if c_Get c InternalHeaderName \<noteq> hz_InternalToken h then None
      else case adminauth_Context (cz_X (hz_app h)) (hz_verify h) c of Inl _ \<Rightarrow> None | Inr t \<Rightarrow> Some t)"

definition cuh_resolveGuest :: "'w customer_handler \<Rightarrow> customer_call \<Rightarrow> fiber_ctx \<Rightarrow> 'w customer_sys \<Rightarrow> 'w customer_answer" where
  "cuh_resolveGuest h k c y =
     (case internal_context h c of
        None \<Rightarrow> plain (SendStatus 401) y
      | Some t \<Rightarrow> (case hz_guest h (c_Body c) of
          None \<Rightarrow> plain (SendStatus 400) y
        | Some (name, phone) \<Rightarrow> (case cus_ResolveGuest (kl_io k) (TenantID t) name phone (ky_db y) of
            (r, d) \<Rightarrow> plain (customer_reply r) (y\<lparr>ky_db := d\<rparr>))))"

definition cuh_internalCustomer :: "'w customer_handler \<Rightarrow> customer_call \<Rightarrow> fiber_ctx \<Rightarrow> 'w customer_sys \<Rightarrow> 'w customer_answer" where
  "cuh_internalCustomer h k c y =
     (case internal_context h c of
        None \<Rightarrow> plain (SendStatus 401) y
      | Some t \<Rightarrow> (case uuid_Parse (cz_X (hz_app h)) (c_Params c ''id'') of
          None \<Rightarrow> plain (SendStatus 400) y
        | Some i \<Rightarrow> plain (customer_reply (cus_ByID (kl_io k) (TenantID t) i (ky_db y))) y))"

datatype customer_route =
    CrRegister | CrLogin | CrLogout | CrMe | CrChangePassword | CrForgot | CrResolve | CrCustomer | CrProfile | CrProfilePatch
  | CrAppointments string string string | CrSession

fun customer_serve ::
  "'w customer_handler \<Rightarrow> customer_route \<Rightarrow> customer_call \<Rightarrow> fiber_ctx \<Rightarrow> 'w customer_sys \<Rightarrow> 'w customer_answer" where
  "customer_serve h CrRegister k c y = cuh_register h k c y"
| "customer_serve h CrLogin k c y = cuh_login h k c y"
| "customer_serve h CrLogout k c y = cuh_logout h k c y"
| "customer_serve h CrMe k c y = cuh_me h k c y"
| "customer_serve h CrChangePassword k c y = cuh_changePassword h k c y"
| "customer_serve h CrForgot k c y = cuh_forgot h k c y"
| "customer_serve h CrResolve k c y = cuh_resolveGuest h k c y"
| "customer_serve h CrCustomer k c y = cuh_internalCustomer h k c y"
| "customer_serve h CrProfile k c y = cuh_profile h k c y"
| "customer_serve h CrProfilePatch k c y = cuh_profilePatch h k c y"
| "customer_serve h (CrAppointments method path query) k c y = cuh_appointments h k method path query c y"
| "customer_serve h CrSession k c y = cuh_internalSession h k c y"

end
