(* ===== verification/Customer_Policy.thy ===== *)
theory Customer_Policy
  imports Customer_App
begin

text \<open>
  The rules of customer-service: a phone names one customer of a tenant for good, guests never sign in, a change of the
  password ends the other sessions unless their revocation fails, and the row of a customer changes only for the
  customer itself or through a mail to its address.
\<close>

section \<open>Guests\<close>

lemma strip_first_hit: "p \<in> set ps \<Longrightarrow> p \<noteq> [] \<Longrightarrow> is_prefix p s \<Longrightarrow> strip_first ps s \<noteq> None"
  by (induction ps) auto

lemma TrimSpace_stripped: "strip_first space_seqs (TrimSpace s) = None"
proof -
  let ?l = "trim_left space_seqs s"
  obtain n where "trim_left (map rev space_seqs) (rev ?l) = drop n (rev ?l)" using trim_left_drop by blast
  then have "TrimSpace s = take (length ?l - n) ?l" by (simp add: TrimSpace_def rev_drop)
  then show ?thesis using strip_first_take trim_left_stripped by metis
qed

lemma btrim_TrimSpace:
  assumes "TrimSpace s \<noteq> []"
  shows "btrim (TrimSpace s) \<noteq> []"
proof -
  obtain a rest where s: "TrimSpace s = a # rest" using assms by (cases "TrimSpace s") auto
  have "[CHR '' ''] \<in> set space_seqs" by (simp add: space_seqs_def)
  then have "a \<noteq> CHR '' ''" using strip_first_hit [of "[CHR '' '']" space_seqs "TrimSpace s"] TrimSpace_stripped [of s] s by auto
  then show ?thesis by (auto simp: btrim_def s dropWhile_eq_Nil_conv)
qed

lemma guest_row_checks: "TrimSpace v \<noteq> [] \<Longrightarrow> customer_checks (guest_row env t (TrimSpace v) phone)"
  by (simp add: customer_checks_def guest_row_def btrim_TrimSpace delivery_status_def claim_state_def)

lemma cus_ResolveGuestD:
  assumes "cus_ResolveGuest io t value phone d = (Inr c, d1)"
  obtains p x where "NormalizePhone phone = Some p" "TrimSpace value \<noteq> []" "length (TrimSpace value) \<le> 200"
    "sql_upsert_guest t (guest_row (ao_env io 0) t (TrimSpace value) p) d = Inr (x, d1)" "c = guest_view (to_customer t x)"
proof -
  obtain p where p: "NormalizePhone phone = Some p" using assms by (auto simp: cus_ResolveGuest_def Let_def split: option.splits)
  with assms have "TrimSpace value \<noteq> []" "length (TrimSpace value) \<le> 200"
    "cust_EnsureGuest (ao_f io 0) (ao_env io 0) t (TrimSpace value) p d = (Inr c, d1)"
    by (auto simp: cus_ResolveGuest_def Let_def split: if_splits sum.splits prod.splits)
  moreover from this(3) obtain x where "sql_upsert_guest t (guest_row (ao_env io 0) t (TrimSpace value) p) d = Inr (x, d1)"
    "c = guest_view (to_customer t x)"
    unfolding cust_EnsureGuest_def WithTenantTx_ok by (auto split: sum.splits prod.splits)
  ultimately show ?thesis using that p by blast
qed

lemma sql_upsert_guest_row:
  assumes "sql_upsert_guest t r d = Inr (x, d1)"
  shows "x \<in> set (customers d1)" and "cu_tenant x = t" and "cu_phone r \<noteq> None \<Longrightarrow> cu_phone x = cu_phone r"
  using assms
  by (auto elim!: sql_upsert_guestD simp: same_phone_def dest: sql_insert_customerD(1,2))

lemma sql_upsert_guest_old:
  assumes inv: "customer_inv d" and x: "x \<in> set (customers d)" "same_phone x r" and r: "cu_tenant r = t" "customer_checks r"
  shows "sql_upsert_guest t r d = Inr (x, d)"
proof -
  have "find (\<lambda>x. same_phone x r) (customers d) = Some x"
  proof (rule find_unique [of cu_id])
    show "cu_id y = cu_id x" if "y \<in> set (customers d)" "same_phone y r" for y
    proof -
      have "same_phone y x" using that(2) x(2) unfolding same_phone_def by metis
      then show ?thesis using customer_unique [OF inv that(1) x(1)] by blast
    qed
  qed (use inv x in \<open>auto simp: customer_inv_def accounts_wf_def\<close>)
  then show ?thesis using r by (simp add: sql_upsert_guest_def)
qed

text \<open>(C38)
  A phone names one customer of a tenant for good. Once a guest was resolved, and whatever operations follow, resolving
  any spelling of the same number under any valid name returns the same customer and changes nothing.
\<close>

theorem guest_resolution_stable:
  assumes inv: "customer_inv d" and first: "cus_ResolveGuest io t name phone d = (Inr c, d1)"
    and same: "NormalizePhone phone' = NormalizePhone phone"
    and valid: "TrimSpace name' \<noteq> []" "length (TrimSpace name') \<le> 200" and nofault: "ao_f io' 0 = NoFault"
  shows "\<exists>c'. cus_ResolveGuest io' t name' phone' (run_ops exec_customer ys d1) = (Inr c', run_ops exec_customer ys d1) \<and>
    cm_ID c' = cm_ID c \<and> cm_Phone c' = cm_Phone c \<and> cm_TenantID c' = t"
proof -
  let ?d = "run_ops exec_customer ys d1"
  from first obtain p x where p: "NormalizePhone phone = Some p" and c: "c = guest_view (to_customer t x)"
    and up: "sql_upsert_guest t (guest_row (ao_env io 0) t (TrimSpace name) p) d = Inr (x, d1)"
    by (rule cus_ResolveGuestD)
  have "d1 = snd (cust_EnsureGuest NoFault (ao_env io 0) t (TrimSpace name) p d)"
    using up by (simp add: cust_EnsureGuest_def WithTenantTx_NoFault)
  then have inv1: "customer_inv ?d"
    using customer.invar_run customer_effect_inv [OF cust_EnsureGuest_effect inv] by metis
  have x: "x \<in> set (customers d1)" "cu_tenant x = t" "cu_phone x = Some p"
    using sql_upsert_guest_row [OF up] by (simp_all add: guest_row_def)
  then obtain x' where x': "x' \<in> set (customers ?d)" "same_account x x'"
    using run_accounts_kept [of d1 ys] by (auto simp: accounts_kept_def)
  let ?r = "guest_row (ao_env io' 0) t (TrimSpace name') p"
  have "same_phone x' ?r" "cu_tenant ?r = t" using x x' by (auto simp: same_phone_def same_account_def guest_row_def)
  then have "sql_upsert_guest t ?r ?d = Inr (x', ?d)"
    using sql_upsert_guest_old [OF inv1 x'(1)] guest_row_checks [OF valid(1)] by blast
  then have "cus_ResolveGuest io' t name' phone' ?d = (Inr (guest_view (to_customer t x')), ?d)"
    using valid nofault same p by (simp add: cus_ResolveGuest_def cust_EnsureGuest_def WithTenantTx_NoFault)
  then show ?thesis using x' by (auto simp: c guest_view_def to_customer_def same_account_def)
qed

section \<open>Sign-in\<close>

lemma find_addressD:
  "find_address t email d = Some r \<Longrightarrow> r \<in> set (customers d) \<and> cu_tenant r = t \<and> cu_email r = Some email"
  by (auto simp: find_address_def dest!: find_SomeD)

lemma cust_FindByEmail_ok:
  "cust_FindByEmail f t email d = Inr (c, hash) \<longleftrightarrow>
     f = NoFault \<and> (\<exists>r. find_address t email d = Some r \<and> c = to_customer t r \<and> hash = cu_hash r)"
  by (auto simp: cust_FindByEmail_def tenant_read_ok split: option.splits)

lemma cus_LoginD:
  assumes "cus_Login s io t email password d = (Inr res, d')"
  obtains address r where "cus_normalizeEmail (cz_X s) email = Some address" "find_address t address d = Some r"
    "lr_Customer res = to_customer t r" "cu_status r = ''active''" "cz_compare s (cu_hash r) password"
    "lr_Expires res = ao_now io + customer_session_ttl"
    "cust_CreateSession (cz_X s) (ao_f io 1) (ae_id (ao_env io 1)) t (cu_id r) (lr_Token res) (lr_Expires res) d = (Inr (), d')"
proof -
  obtain address where a: "cus_normalizeEmail (cz_X s) email = Some address"
    using assms by (auto simp: cus_Login_def split: option.splits)
  with assms obtain c hash where "cust_FindByEmail (ao_f io 0) t address d = Inr (c, hash)"
    by (auto simp: cus_Login_def split: sum.splits)
  then obtain r where f: "cust_FindByEmail (ao_f io 0) t address d = Inr (to_customer t r, cu_hash r)" "find_address t address d = Some r"
    by (auto simp: cust_FindByEmail_ok)
  from assms a f(1) obtain token where "cus_random io 32 = Inr token" "cu_status r = ''active''" "cz_compare s (cu_hash r) password"
    by (auto simp: cus_Login_def to_customer_def split: if_splits sum.splits)
  with assms a f show ?thesis
    by (intro that [of address r]) (auto simp: cus_Login_def Let_def to_customer_def split: if_splits sum.splits prod.splits)
qed

text \<open>
  A customer that was created as a guest never signs in: whatever operations follow, every login that succeeds is of
  another customer, which has the address given, is active and whose stored hash the password matches.
\<close>

theorem guests_never_sign_in:
  assumes inv: "customer_inv d" and guest: "r \<in> set (customers d)" "cu_email r = None"
    and login: "cus_Login s io t email password (run_ops exec_customer ys d) = (Inr res, d')"
  shows "cm_ID (lr_Customer res) \<noteq> cu_id r \<and>
    (\<exists>r' \<in> set (customers (run_ops exec_customer ys d)). cm_ID (lr_Customer res) = cu_id r' \<and> cu_tenant r' = t \<and>
       cu_email r' = cus_normalizeEmail (cz_X s) email \<and> cu_status r' = ''active'' \<and> cz_compare s (cu_hash r') password)"
proof -
  let ?d = "run_ops exec_customer ys d"
  have inv': "customer_inv ?d" by (rule customer.invar_run [OF inv])
  obtain g where g: "g \<in> set (customers ?d)" "same_account r g"
    using run_accounts_kept [of d ys] guest(1) by (auto simp: accounts_kept_def)
  from login obtain address r' where r': "cus_normalizeEmail (cz_X s) email = Some address" "find_address t address ?d = Some r'"
    "lr_Customer res = to_customer t r'" "cu_status r' = ''active''" "cz_compare s (cu_hash r') password"
    by (rule cus_LoginD)
  note row = find_addressD [OF r'(2)]
  have "cu_id r' \<noteq> cu_id r"
  proof
    assume "cu_id r' = cu_id r"
    then have "r' = g" using customer_unique [OF inv', of r' g] row g by (simp add: same_account_def)
    then show False using row g guest(2) by (simp add: same_account_def)
  qed
  then show ?thesis using r' row by (auto simp: to_customer_def)
qed

section \<open>Passwords\<close>

lemma cus_CurrentD:
  assumes "cus_Current s io t token d = Inr c"
  obtains q where "token \<noteq> []" "ao_f io 0 = NoFault" "ao_f io 1 = NoFault"
    "find (live_customer_session (ae_now (ao_env io 0)) t (hashToken (cz_X s) token)) (customer_sessions d) = Some q"
    "cust_ByID NoFault t (cq_customer q) d = Inr c"
  using assms
  by (auto simp: cus_Current_def cust_Session_def tenant_read_ok cust_ByID_def split: if_splits sum.splits option.splits)

lemma cust_ByID_ok:
  "cust_ByID f t i d = Inr c \<longleftrightarrow> f = NoFault \<and> (\<exists>r. find (same_customer t i) (customers d) = Some r \<and>
     c = (to_customer t r)\<lparr>cm_InitialDeliveryStatus := []\<rparr>)"
  by (auto simp: cust_ByID_def tenant_read_ok split: option.splits)

lemma cus_Current_row:
  assumes "cus_Current s io t token d = Inr c"
  obtains r where "r \<in> set (customers d)" "cu_tenant r = t" "cu_id r = cm_ID c"
    "c = (to_customer t r)\<lparr>cm_InitialDeliveryStatus := []\<rparr>"
  using assms
  by (rule cus_CurrentD) (auto simp: cust_ByID_ok same_customer_def to_customer_def dest!: find_SomeD intro: that)

lemma cus_ChangePasswordD:
  assumes "cus_ChangePassword s io t token current new d = (None, d')"
  obtains c hash d1 where "cus_Current s io t token d = Inr c" "ao_hash io new = Some hash" "10 \<le> length new"
    "cust_UpdatePassword (ao_f io 3) (ae_now (ao_env io 3)) t (cm_ID c) hash d = (Inr (), d1)"
    "d' = snd (cust_RevokeOthers (cz_X s) (ao_f io 4) (ae_now (ao_env io 4)) t (cm_ID c) token d1)"
proof -
  obtain c where c: "cus_Current s io t token d = Inr c" using assms by (cases "cus_Current s io t token d") (auto simp: cus_ChangePassword_def)
  with assms obtain v hash0 where f: "cust_FindByEmail (ao_f io 2) t (cm_Email c) d = Inr (v, hash0)" "10 \<le> length new"
    by (auto simp: cus_ChangePassword_def split: if_splits sum.splits)
  with assms c obtain hash where h: "ao_hash io new = Some hash"
    by (auto simp: cus_ChangePassword_def cus_hash_def split: if_splits option.splits)
  with assms c f show ?thesis
    by (intro that [of c hash "snd (cust_UpdatePassword (ao_f io 3) (ae_now (ao_env io 3)) t (cm_ID c) hash d)"])
      (auto simp: cus_ChangePassword_def cus_hash_def split: if_splits sum.splits prod.splits)
qed

lemma update_customer_ok:
  assumes "update_customer f t i upd d = (Inr u, d')"
  shows "d' = d\<lparr>customers := map (\<lambda>r. if cu_tenant r = t \<and> cu_id r = i then upd r else r) (customers d)\<rparr>"
  using assms unfolding update_customer_def WithTenantTx_ok
  by (auto split: sum.splits prod.splits dest: sql_update_customersD(2))

lemma revoke_tx_cases:
  obtains (ran) "f = NoFault" "snd (revoke_tx f now t hit d) = sql_revoke_sessions now t hit d"
  | (failed) "f \<noteq> NoFault" "snd (revoke_tx f now t hit d) = d"
  by (cases f) (auto simp: revoke_tx_def WithTenantTx_def)

lemma revoked_session_dead:
  assumes "q \<in> set (customer_sessions d)" and "hit q" and "cq_tenant q = t"
  shows "customer_session_dead (sql_revoke_sessions now t hit d) (session_key q)"
proof -
  have "q\<lparr>cq_revoked := Some now\<rparr> \<in> set (customer_sessions (sql_revoke_sessions now t hit d))"
    using assms by (force simp: sql_revoke_sessions_def)
  moreover have "session_key (q\<lparr>cq_revoked := Some now\<rparr>) = session_key q" by (simp add: session_key_def)
  ultimately show ?thesis unfolding customer_session_dead_def by force
qed

lemma dead_session_refused:
  assumes "customer_inv d" and "customer_session_dead d (t, hashToken (cz_X s) token)"
  shows "cus_Current s io t token (run_ops exec_customer ys d) \<noteq> Inr c"
proof
  assume "cus_Current s io t token (run_ops exec_customer ys d) = Inr c"
  then obtain q where "find (live_customer_session (ae_now (ao_env io 0)) t (hashToken (cz_X s) token))
    (customer_sessions (run_ops exec_customer ys d)) = Some q" by (rule cus_CurrentD)
  then have "customer_session_accepted (ae_now (ao_env io 0)) (run_ops exec_customer ys d) (t, hashToken (cz_X s) token)"
    by (simp add: customer_session_accepted_def)
  then show False using customer_sessions.refused_forever [OF assms] by blast
qed

lemma change_password_fault:
  assumes "cus_ChangePassword s io t token current new d = (None, d')"
    and "cus_Current s io t token d = Inr c" and "ao_hash io new = Some hash"
    and "cust_UpdatePassword (ao_f io 3) (ae_now (ao_env io 3)) t (cm_ID c) hash d = (Inr (), d1)"
  shows "cus_ChangePassword s (io\<lparr>ao_f := (ao_f io)(4 := f)\<rparr>) t token current new d =
    (None, snd (cust_RevokeOthers (cz_X s) f (ae_now (ao_env io 4)) t (cm_ID c) token d1))"
proof -
  let ?io = "io\<lparr>ao_f := (ao_f io)(4 := f)\<rparr>"
  have "cus_Current s ?io t token d = cus_Current s io t token d" by (simp add: cus_Current_def)
  then show ?thesis using assms
    by (auto simp: cus_ChangePassword_def cus_hash_def split: if_splits sum.splits)
qed

text \<open>(C37)
  A change of the password that was answered as successful stored the hash of the new password. When the statement that
  revokes the other sessions of the customer ran, none of them is ever accepted again. But the answer does not depend on
  that statement: had it failed in any way, the same request would have been answered as successful too, with the same new
  password stored and every session as it was.
\<close>

theorem customer_password_change:
  assumes inv: "customer_inv d" and change: "cus_ChangePassword s io t token current new d = (None, d')"
  shows "\<exists>c. cus_Current s io t token d = Inr c \<and>
    (\<forall>r \<in> set (customers d'). same_customer t (cm_ID c) r \<longrightarrow> Some (cu_hash r) = ao_hash io new \<and> \<not> cu_must_change r) \<and>
    (ao_f io 4 = NoFault \<longrightarrow> (\<forall>q \<in> set (customer_sessions d). cq_tenant q = t \<and> cq_customer q = cm_ID c \<longrightarrow>
       (\<forall>other io' ys v. hashToken (cz_X s) other = cq_token q \<and> cq_token q \<noteq> hashToken (cz_X s) token \<longrightarrow>
          cus_Current s io' t other (run_ops exec_customer ys d') \<noteq> Inr v))) \<and>
    (\<forall>f. f \<noteq> NoFault \<longrightarrow> (\<exists>df. cus_ChangePassword s (io\<lparr>ao_f := (ao_f io)(4 := f)\<rparr>) t token current new d = (None, df) \<and>
       customers df = customers d' \<and> customer_sessions df = customer_sessions d))"
proof -
  from change obtain c hash d1 where c: "cus_Current s io t token d = Inr c" and hash: "ao_hash io new = Some hash"
    and upd: "cust_UpdatePassword (ao_f io 3) (ae_now (ao_env io 3)) t (cm_ID c) hash d = (Inr (), d1)"
    and d': "d' = snd (cust_RevokeOthers (cz_X s) (ao_f io 4) (ae_now (ao_env io 4)) t (cm_ID c) token d1)"
    by (rule cus_ChangePasswordD)
  have d1: "d1 = d\<lparr>customers := map (\<lambda>r. if cu_tenant r = t \<and> cu_id r = cm_ID c
      then r\<lparr>cu_hash := hash, cu_changed_at := Some (ae_now (ao_env io 3)), cu_must_change := False\<rparr> else r) (customers d)\<rparr>"
    using upd unfolding cust_UpdatePassword_def by (rule update_customer_ok)
  have inv1: "customer_inv d1"
    using exec_customer_inv [OF inv, of "CuPassword (ao_f io 3) (ae_now (ao_env io 3)) t (cm_ID c) hash"] upd by simp
  have inv': "customer_inv d'"
    using exec_customer_inv [OF inv1, of "CuRevokeOthers (cz_X s) (ao_f io 4) (ae_now (ao_env io 4)) t (cm_ID c) token"] d' by simp
  let ?hit = "\<lambda>q. cq_customer q = cm_ID c \<and> cq_token q \<noteq> hashToken (cz_X s) token \<and> cq_revoked q = None"
  have cases: "customers d' = customers d1" "ao_f io 4 \<noteq> NoFault \<Longrightarrow> d' = d1"
    "ao_f io 4 = NoFault \<Longrightarrow> d' = sql_revoke_sessions (ae_now (ao_env io 4)) t ?hit d1"
    unfolding d' cust_RevokeOthers_def
    by (cases rule: revoke_tx_cases [of "ao_f io 4" "ae_now (ao_env io 4)" t ?hit d1]; simp add: sql_revoke_sessions_def)+
  have stored: "Some (cu_hash r) = ao_hash io new \<and> \<not> cu_must_change r" if "r \<in> set (customers d')" "same_customer t (cm_ID c) r" for r
  proof -
    let ?f = "\<lambda>r. if cu_tenant r = t \<and> cu_id r = cm_ID c
        then r\<lparr>cu_hash := hash, cu_changed_at := Some (ae_now (ao_env io 3)), cu_must_change := False\<rparr> else r"
    have rows: "customers d' = map ?f (customers d)" by (simp add: cases(1) d1)
    from that(1) obtain r0 where r0: "r = ?f r0" unfolding rows set_map by (rule imageE)
    show ?thesis
    proof (cases "cu_tenant r0 = t \<and> cu_id r0 = cm_ID c")
      case True
      then show ?thesis using r0 hash by simp
    next
      case False
      then show ?thesis using r0 that(2) unfolding same_customer_def by metis
    qed
  qed
  have ended: "cus_Current s io' t other (run_ops exec_customer ys d') \<noteq> Inr v"
    if f: "ao_f io 4 = NoFault" and q: "q \<in> set (customer_sessions d)" "cq_tenant q = t" "cq_customer q = cm_ID c"
      and other: "hashToken (cz_X s) other = cq_token q" "cq_token q \<noteq> hashToken (cz_X s) token" for q other io' ys v
  proof (rule dead_session_refused [OF inv'])
    have key: "session_key q = (t, hashToken (cz_X s) other)" using q other by (simp add: session_key_def)
    have q1: "q \<in> set (customer_sessions d1)" using q(1) by (simp add: d1)
    show "customer_session_dead d' (t, hashToken (cz_X s) other)"
    proof (cases "cq_revoked q = None")
      case True
      then show ?thesis unfolding cases(3) [OF f] key [symmetric]
        by (intro revoked_session_dead) (use q q1 other in auto)
    next
      case False
      then have "customer_session_dead d1 (session_key q)" using q1 by (auto simp: customer_session_dead_def)
      then show ?thesis unfolding cases(3) [OF f] key by (rule customer_session_dead_effect [OF customer_effect.revoke])
    qed
  qed
  have "\<exists>df. cus_ChangePassword s (io\<lparr>ao_f := (ao_f io)(4 := f)\<rparr>) t token current new d = (None, df) \<and>
      customers df = customers d' \<and> customer_sessions df = customer_sessions d" if "f \<noteq> NoFault" for f
  proof -
    have "snd (cust_RevokeOthers (cz_X s) f (ae_now (ao_env io 4)) t (cm_ID c) token d1) = d1"
      unfolding cust_RevokeOthers_def using that
      by (cases rule: revoke_tx_cases [of f "ae_now (ao_env io 4)" t ?hit d1]) simp_all
    then show ?thesis unfolding change_password_fault [OF change c hash upd] by (simp add: cases(1) d1)
  qed
  then show ?thesis using c stored ended by blast
qed

end
