(* ===== verification/Customer_Access.thy ===== *)
theory Customer_Access
  imports Customer_Policy
begin

text \<open>
  What a request to customer-service may change: the row of a customer changes for a request with a session of that
  customer, or through a registration or a reset for its address, which set a password only that was mailed there.
\<close>

section \<open>Steps that set a password\<close>

text \<open>Between two states only the customer \<open>i\<close> changed, not its name, and its hash at most to one of \<open>H\<close>.\<close>

definition credential_step :: "uuid \<Rightarrow> uuid \<Rightarrow> string set \<Rightarrow> customer_db \<Rightarrow> customer_db \<Rightarrow> bool" where
  "credential_step t i H d d' \<longleftrightarrow> (\<forall>r \<in> set (customers d). r \<in> set (customers d') \<or>
     (same_customer t i r \<and> (\<exists>r' \<in> set (customers d'). same_account r r' \<and> cu_name r' = cu_name r \<and>
        (cu_hash r' = cu_hash r \<or> cu_hash r' \<in> H))))"

lemma credential_step_rows: "set (customers d) \<subseteq> set (customers d') \<Longrightarrow> credential_step t i H d d'"
  by (auto simp: credential_step_def)

lemma credential_step_mono: "credential_step t i H d d' \<Longrightarrow> H \<subseteq> H' \<Longrightarrow> credential_step t i H' d d'"
  unfolding credential_step_def by blast

lemma credential_step_trans:
  assumes "credential_step t i H d d1" and "credential_step t i H d1 d2"
  shows "credential_step t i H d d2"
  unfolding credential_step_def
proof
  fix r assume r: "r \<in> set (customers d)"
  from assms(1) r consider "r \<in> set (customers d1)"
    | r1 where "same_customer t i r" "r1 \<in> set (customers d1)" "same_account r r1" "cu_name r1 = cu_name r"
        "cu_hash r1 = cu_hash r \<or> cu_hash r1 \<in> H"
    unfolding credential_step_def by blast
  then show "r \<in> set (customers d2) \<or> (same_customer t i r \<and> (\<exists>r' \<in> set (customers d2). same_account r r' \<and>
      cu_name r' = cu_name r \<and> (cu_hash r' = cu_hash r \<or> cu_hash r' \<in> H)))"
  proof cases
    case 1
    then show ?thesis using assms(2) unfolding credential_step_def by blast
  next
    case 2
    from assms(2) 2(2) consider "r1 \<in> set (customers d2)"
      | r2 where "r2 \<in> set (customers d2)" "same_account r1 r2" "cu_name r2 = cu_name r1" "cu_hash r2 = cu_hash r1 \<or> cu_hash r2 \<in> H"
      unfolding credential_step_def by blast
    then show ?thesis
    proof cases
      case 1
      then show ?thesis using 2 by blast
    next
      case (2 r2)
      then have "same_account r r2" using \<open>same_account r r1\<close> by (simp add: same_account_def)
      then show ?thesis using \<open>same_customer t i r\<close> \<open>cu_name r1 = cu_name r\<close> \<open>cu_hash r1 = cu_hash r \<or> cu_hash r1 \<in> H\<close> 2 by metis
    qed
  qed
qed

lemma sql_update_step:
  assumes "sql_update_customers t hit upd d = Inr (b, d')" and "keeps_account upd" and "\<And>r. hit r \<Longrightarrow> cu_id r = i"
    and "\<And>r. cu_name (upd r) = cu_name r" and "\<And>r. cu_hash (upd r) = cu_hash r \<or> cu_hash (upd r) \<in> H"
  shows "credential_step t i H d d'"
  unfolding credential_step_def
proof
  fix r assume r: "r \<in> set (customers d)"
  have rows: "customers d' = map (\<lambda>r. if cu_tenant r = t \<and> hit r then upd r else r) (customers d)"
    using sql_update_customersD(2) [OF assms(1)] by simp
  show "r \<in> set (customers d') \<or> (same_customer t i r \<and> (\<exists>r' \<in> set (customers d'). same_account r r' \<and>
      cu_name r' = cu_name r \<and> (cu_hash r' = cu_hash r \<or> cu_hash r' \<in> H)))"
  proof (cases "cu_tenant r = t \<and> hit r")
    case True
    then have "upd r \<in> set (customers d')" using r unfolding rows by force
    moreover have "same_account r (upd r)" using keeps_accountD [OF assms(2)] by (simp add: same_account_def)
    ultimately show ?thesis using True assms(3-5) unfolding same_customer_def by blast
  next
    case False
    then have "r \<in> set (customers d')" using r unfolding rows by force
    then show ?thesis ..
  qed
qed

lemma tx_step:
  assumes "\<And>v d'. fn t d = Inr (v, d') \<Longrightarrow> credential_step t i H d d'"
  shows "credential_step t i H d (snd (WithTenantTx f t fn d))"
  by (rule WithTenantTx_inv [where P = "credential_step t i H d"]) (auto intro: assms credential_step_rows)

lemma cust_Claim_step: "credential_step t i {} d (snd (cust_ClaimInitialDelivery f env t i d))"
  unfolding cust_ClaimInitialDelivery_def
  by (rule tx_step) (auto split: sum.splits elim!: sql_update_step simp: keeps_account_def)

lemma cust_Mark_step: "credential_step t i {} d (snd (cust_MarkInitialDelivery f t i claim status problem d))"
  unfolding cust_MarkInitialDelivery_def finish_claim_def
  by (rule tx_step) (auto split: sum.splits bool.splits elim!: sql_update_step simp: keeps_account_def)

lemma cust_Activate_step: "credential_step t i {hash} d (snd (cust_ActivateRetriedCredential f t i claim hash d))"
  unfolding cust_ActivateRetriedCredential_def finish_claim_def
  by (rule tx_step) (auto split: sum.splits bool.splits elim!: sql_update_step simp: keeps_account_def)

lemma cust_Reset_step: "credential_step t i {hash} d (snd (cust_ResetPassword f now t i hash d))"
  unfolding cust_ResetPassword_def update_customer_def
  by (rule tx_step) (auto split: sum.splits elim!: sql_update_step simp: keeps_account_def)

lemma update_customer_other:
  assumes "r \<in> set (customers d)" and "\<not> same_customer t i r"
  shows "r \<in> set (customers (snd (update_customer f t i upd d)))"
  unfolding update_customer_def
  by (rule WithTenantTx_inv [where P = "\<lambda>d'. r \<in> set (customers d')"])
    (use assms in \<open>force split: sum.splits dest: sql_update_customersD(2) simp: same_customer_def\<close>)+

lemma revoke_tx_customers: "customers (snd (revoke_tx f now t hit d)) = customers d"
  unfolding revoke_tx_def by (rule tx_frame) (auto simp: sql_revoke_sessions_def)

lemma cust_CreateSession_customers: "customers (snd (cust_CreateSession X f i t cid token expires d)) = customers d"
  unfolding cust_CreateSession_def by (rule tx_frame) (auto split: sum.splits dest: sql_insert_customer_sessionD(1))

section \<open>Registration and reset\<close>

text \<open>
  A change of the row of the customer with this address that keeps the account and the name, and the hash unless the
  provider accepted a mail to the address with a generated password of that hash; \<open>w'\<close> is the state of the provider
  after exactly this mail. The mail is that of a registration or that of a reset.
\<close>

definition mailed_change ::
  "'w customer_service \<Rightarrow> auth_io \<Rightarrow> bool \<Rightarrow> string \<Rightarrow> 'w \<Rightarrow> 'w \<Rightarrow> cust_row \<Rightarrow> cust_row \<Rightarrow> bool" where
  "mailed_change s io reset address w w' r r' \<longleftrightarrow> cu_email r = Some address \<and> same_account r r' \<and> cu_name r' = cu_name r \<and>
     (cu_hash r' = cu_hash r \<or> (\<exists>password. cus_random io 12 = Inr password \<and> ao_hash io password = Some (cu_hash r') \<and>
        send_mail (cz_email s) (if reset then resetEmail (cz_X s) address password (ao_key io)
          else initialEmail (cz_X s) address password (cu_id r)) w = (True, w')))"

lemma deliver_initial_step:
  assumes "deliver_initial s io t address password hash c retried d w = (res, d', w')"
  shows "credential_step t (cm_ID c)
    (if send_mail (cz_email s) (initialEmail (cz_X s) address password (cm_ID c)) w = (True, w') then {hash} else {}) d d'"
proof -
  let ?m = "initialEmail (cz_X s) address password (cm_ID c)"
  obtain q d2 where q: "cust_ClaimInitialDelivery (ao_f io 2) (ao_env io 2) t (cm_ID c) d = (q, d2)" by fastforce
  have claim: "credential_step t (cm_ID c) H d d2" for H
    using cust_Claim_step [of t "cm_ID c" d] q credential_step_mono by (metis empty_subsetI snd_conv)
  have mark: "credential_step t (cm_ID c) H d2 (snd (cust_MarkInitialDelivery (ao_f io 3) t (cm_ID c) claim status problem d2))"
    for H claim status problem
    by (rule credential_step_mono [OF cust_Mark_step]) simp
  obtain ok w1 where m: "send_mail (cz_email s) ?m w = (ok, w1)" by fastforce
  show ?thesis
  proof (cases q)
    case (Inl e)
    then show ?thesis using assms q claim by (simp add: deliver_initial_def)
  next
    case (Inr v)
    obtain claim_token claimed where v: "v = (claim_token, claimed)" by fastforce
    consider "d' = d2" | "claimed" "\<not> ok" "d' = snd (cust_MarkInitialDelivery (ao_f io 3) t (cm_ID c) claim_token ''failed''
          ''email provider unavailable'' d2)"
      | "claimed" "ok" "retried" "w' = w1" "d' = snd (cust_ActivateRetriedCredential (ao_f io 3) t (cm_ID c) claim_token hash d2)"
      | "claimed" "ok" "d' = snd (cust_MarkInitialDelivery (ao_f io 3) t (cm_ID c) claim_token ''sent'' [] d2)"
      using assms q Inr v m by (auto simp: deliver_initial_def split: if_splits bool.splits sum.splits prod.splits)
    then show ?thesis
    proof cases
      case 3
      then show ?thesis using m credential_step_trans [OF claim cust_Activate_step] by simp
    qed (use m claim credential_step_trans [OF claim mark] in simp_all)
  qed
qed

lemma credential_step_changed:
  assumes "credential_step t i H d d'" and "r \<in> set (customers d)" and "r \<notin> set (customers d')"
  obtains r' where "cu_tenant r = t" "cu_id r = i" "r' \<in> set (customers d')" "same_account r r'" "cu_name r' = cu_name r"
    "cu_hash r' = cu_hash r \<or> cu_hash r' \<in> H"
  using assms unfolding credential_step_def same_customer_def by blast

lemma register_changes:
  assumes inv: "customer_inv d" and reg: "cus_Register s io t inp d w = (res, d', w')"
    and r: "r \<in> set (customers d)" "r \<notin> set (customers d')"
  shows "\<exists>address. cus_normalizeEmail (cz_X s) (rc_Email inp) = Some address \<and> cu_tenant r = t \<and>
    (\<exists>r' \<in> set (customers d'). mailed_change s io False address w w' r r')"
proof -
  obtain address where a: "cus_normalizeEmail (cz_X s) (rc_Email inp) = Some address"
    using reg r by (cases "cus_normalizeEmail (cz_X s) (rc_Email inp)") (auto simp: cus_Register_def Let_def)
  let ?name = "TrimSpace (rc_Name inp)"
  obtain password where p: "cus_random io 12 = Inr password" and name: "\<not> (?name = [] \<or> length ?name > 200)"
    using reg r a by (cases "cus_random io 12") (auto simp: cus_Register_def Let_def split: if_splits)
  obtain hash where h: "cus_hash io password = Inr hash"
    using reg r a p name by (cases "cus_hash io password") (auto simp: cus_Register_def Let_def)
  then have hash: "ao_hash io password = Some hash" by (auto simp: cus_hash_def split: option.splits)
  obtain q d1 where q: "cust_Create (ao_f io 0) (ao_env io 0) t ?name address (rc_Phone inp) hash d = (q, d1)" by fastforce
  have body: "(case q of Inr c \<Rightarrow> deliver_initial s io t address password hash c False d1 w
      | Inl _ \<Rightarrow> (case cust_FindByEmail (ao_f io 1) t address d1 of
          Inl _ \<Rightarrow> (Inl CuErrConflict, d1, w)
        | Inr (c, _) \<Rightarrow> if cm_InitialDeliveryStatus c = ''sent'' then (Inl CuErrConflict, d1, w)
            else deliver_initial s io t address password hash c True d1 w)) = (res, d', w')"
    using reg a p name h q by (simp add: cus_Register_def Let_def split: sum.splits)
  show ?thesis
  proof (cases q)
    case (Inl e)
    have d1: "d1 = d" using q unfolding cust_Create_def Inl by (rule WithTenantTx_atomic)
    obtain c x where f: "cust_FindByEmail (ao_f io 1) t address d = Inr (c, x)"
      using body Inl d1 r by (cases "cust_FindByEmail (ao_f io 1) t address d") auto
    then obtain row where row: "find_address t address d = Some row" "c = to_customer t row" by (auto simp: cust_FindByEmail_ok)
    have "deliver_initial s io t address password hash c True d w = (res, d', w')"
      using body Inl d1 f r by (auto split: if_splits)
    from deliver_initial_step [OF this] r obtain r' where r': "cu_tenant r = t" "cu_id r = cm_ID c" "r' \<in> set (customers d')"
      "same_account r r'" "cu_name r' = cu_name r"
      "cu_hash r' = cu_hash r \<or> cu_hash r' \<in>
         (if send_mail (cz_email s) (initialEmail (cz_X s) address password (cm_ID c)) w = (True, w') then {hash} else {})"
      by (rule credential_step_changed)
    have "r = row" using customer_unique [OF inv r(1), of row] find_addressD [OF row(1)] r'(2) row(2) by (simp add: to_customer_def)
    then have "cu_email r = Some address" using find_addressD [OF row(1)] by simp
    then have "mailed_change s io False address w w' r r'"
      using r'(2,4-6) hash p by (auto simp: mailed_change_def split: if_splits)
    then show ?thesis using a r'(1,3) by blast
  next
    case (Inr c)
    then have "cust_Create (ao_f io 0) (ao_env io 0) t ?name address (rc_Phone inp) hash d = (Inr c, d1)" using q by simp
    then obtain x where x: "sql_insert_customer t x d = Inr d1" "cm_ID c = cu_id x"
      unfolding cust_Create_def Let_def WithTenantTx_ok by (auto simp: to_customer_def split: sum.splits)
    have r1: "r \<in> set (customers d1)" "cu_id r \<noteq> cm_ID c"
      using r(1) sql_insert_customerD(1) [OF x(1)] sql_insert_customerD(4) [OF x(1) r(1)] x(2) by simp_all
    have "deliver_initial s io t address password hash c False d1 w = (res, d', w')" using body Inr by simp
    from deliver_initial_step [OF this] r1(1) r(2) have "cu_id r = cm_ID c" by (rule credential_step_changed)
    then show ?thesis using r1(2) by simp
  qed
qed

lemma forgot_changes:
  assumes inv: "customer_inv d" and forgot: "cus_ForgotPassword s io t value d w = (res, d', w')"
    and r: "r \<in> set (customers d)" "r \<notin> set (customers d')"
  shows "\<exists>address. cus_normalizeEmail (cz_X s) value = Some address \<and> cu_tenant r = t \<and>
    (\<exists>r' \<in> set (customers d'). mailed_change s io True address w w' r r')"
proof -
  obtain address where a: "cus_normalizeEmail (cz_X s) value = Some address"
    using forgot r by (cases "cus_normalizeEmail (cz_X s) value") (auto simp: cus_ForgotPassword_def)
  obtain c x where f: "cust_FindByEmail (ao_f io 0) t address d = Inr (c, x)"
    using forgot r a by (cases "cust_FindByEmail (ao_f io 0) t address d") (auto simp: cus_ForgotPassword_def)
  then obtain row where row: "find_address t address d = Some row" "c = to_customer t row" by (auto simp: cust_FindByEmail_ok)
  obtain password where p: "cus_random io 12 = Inr password"
    using forgot r a f by (cases "cus_random io 12") (auto simp: cus_ForgotPassword_def)
  obtain hash where h: "cus_hash io password = Inr hash"
    using forgot r a f p by (cases "cus_hash io password") (auto simp: cus_ForgotPassword_def)
  then have hash: "ao_hash io password = Some hash" by (auto simp: cus_hash_def split: option.splits)
  let ?m = "resetEmail (cz_X s) address password (ao_key io)"
  obtain w1 where m: "send_mail (cz_email s) ?m w = (True, w1)"
    using forgot r a f p h by (cases "send_mail (cz_email s) ?m w") (auto simp: cus_ForgotPassword_def split: bool.splits)
  obtain q d1 where q: "cust_ResetPassword (ao_f io 1) (ae_now (ao_env io 1)) t (cm_ID c) hash d = (q, d1)" by fastforce
  have "customers d' = customers d1"
    using forgot a f p h m q revoke_tx_customers by (auto simp: cus_ForgotPassword_def cust_RevokeAll_def split: sum.splits)
  moreover have "credential_step t (cm_ID c) {hash} d d1"
    using cust_Reset_step [of t "cm_ID c" hash d] q by (metis snd_conv)
  ultimately have "credential_step t (cm_ID c) {hash} d d'" by (simp add: credential_step_def)
  then obtain r' where r': "cu_tenant r = t" "cu_id r = cm_ID c" "r' \<in> set (customers d')" "same_account r r'"
    "cu_name r' = cu_name r" "cu_hash r' = cu_hash r \<or> cu_hash r' \<in> {hash}"
    using r by (rule credential_step_changed)
  have "r = row" using customer_unique [OF inv r(1), of row] find_addressD [OF row(1)] r'(2) row(2) by (simp add: to_customer_def)
  then have "cu_email r = Some address" using find_addressD [OF row(1)] by simp
  moreover have "w' = w1" using forgot a f p h m q by (auto simp: cus_ForgotPassword_def split: sum.splits)
  ultimately have "mailed_change s io True address w w' r r'" using r'(4-6) hash p m by (auto simp: mailed_change_def)
  then show ?thesis using a r'(1,3) by blast
qed

section \<open>Requests\<close>

definition cookie_token :: "'w customer_handler \<Rightarrow> fiber_ctx \<Rightarrow> string" where
  "cookie_token h c = hz_cookies h (c_Get c ''Cookie'') (sessionCookieName h)"

lemma with_customer_limit_cases:
  obtains (refused) "ky_db (snd (with_customer_limit h k operation c body y)) = ky_db y"
  | (allowed) t y' where "cuh_tenant h c = Some t" "ky_db y' = ky_db y" "ky_world y' = ky_world y"
      "with_customer_limit h k operation c body y = body t y'"
proof (cases "cuh_tenant h c")
  case None
  then show ?thesis using refused by (simp add: with_customer_limit_def plain_def)
next
  case (Some t)
  obtain a y' where l: "cuh_limited h k t operation y = (a, y')" by fastforce
  then have y': "ky_db y' = ky_db y" "ky_world y' = ky_world y" by (auto simp: cuh_limited_def split: if_splits prod.splits)
  show ?thesis
  proof (cases "a = Some True")
    case True
    then show ?thesis using allowed Some l y' by (simp add: with_customer_limit_def)
  next
    case False
    then show ?thesis using refused Some l y' by (auto simp: with_customer_limit_def plain_def split: option.splits bool.splits)
  qed
qed

lemma cus_Profile_current: "cus_Profile s io t token d = Inr c \<Longrightarrow> cus_Current s io t token d = Inr c"
  by (auto simp: cus_Profile_def split: sum.splits if_splits)

lemma update_profile_changes:
  assumes "cus_UpdateProfile s io t token value d = (res, d')" and r: "r \<in> set (customers d)" "r \<notin> set (customers d')"
  shows "cu_tenant r = t \<and> (\<exists>v. cus_Current s io t token d = Inr v \<and> cm_ID v = cu_id r)"
proof -
  obtain v where v: "cus_Profile s io t token d = Inr v"
    using assms by (cases "cus_Profile s io t token d") (auto simp: cus_UpdateProfile_def)
  have "d' = d \<or> d' = snd (cust_UpdateName (ao_f io 2) t (cm_ID v) (TrimSpace value) d)"
    using assms(1) v by (auto simp: cus_UpdateProfile_def Let_def split: if_splits sum.splits prod.splits)
  then have "same_customer t (cm_ID v) r" using r update_customer_other [OF r(1)] unfolding cust_UpdateName_def by blast
  then show ?thesis using cus_Profile_current [OF v] by (auto simp: same_customer_def)
qed

lemma change_password_changes:
  assumes "cus_ChangePassword s io t token current new d = (res, d')" and r: "r \<in> set (customers d)" "r \<notin> set (customers d')"
  shows "cu_tenant r = t \<and> (\<exists>v. cus_Current s io t token d = Inr v \<and> cm_ID v = cu_id r)"
proof -
  obtain v where v: "cus_Current s io t token d = Inr v"
    using assms by (cases "cus_Current s io t token d") (auto simp: cus_ChangePassword_def)
  have "d' = d \<or> (\<exists>hash. customers d' = customers (snd (cust_UpdatePassword (ao_f io 3) (ae_now (ao_env io 3)) t (cm_ID v) hash d)))"
    using assms(1) v
    by (auto simp: cus_ChangePassword_def cust_RevokeOthers_def revoke_tx_customers split: if_splits sum.splits prod.splits)
      (metis snd_conv)+
  then have "same_customer t (cm_ID v) r"
    using r update_customer_other [OF r(1), of t "cm_ID v"] unfolding cust_UpdatePassword_def by metis
  then show ?thesis using v by (auto simp: same_customer_def)
qed

lemma resolve_guest_rows:
  "cus_ResolveGuest io t value phone d = (res, d') \<Longrightarrow> set (customers d) \<subseteq> set (customers d')"
proof -
  have "set (customers d) \<subseteq> set (customers (snd (cust_EnsureGuest f env t name p d)))" for f env name p
    unfolding cust_EnsureGuest_def
    by (rule WithTenantTx_inv [where P = "\<lambda>d'. set (customers d) \<subseteq> set (customers d')"])
      (auto split: sum.splits elim!: sql_upsert_guestD dest: sql_insert_customerD(1))
  then show "cus_ResolveGuest io t value phone d = (res, d') \<Longrightarrow> set (customers d) \<subseteq> set (customers d')"
    by (auto simp: cus_ResolveGuest_def Let_def split: option.splits if_splits prod.splits sum.splits) (metis snd_conv subsetD)+
qed

lemma register_db:
  fixes h :: "'w customer_handler"
  obtains "ky_db (snd (cuh_register h k c y)) = ky_db y"
  | t inp res where "cuh_tenant h c = Some t" "hz_register h (c_Body c) = Some inp"
      "cus_Register (hz_app h) (kl_io k) (TenantID t) inp (ky_db y) (ky_world y) =
         (res, ky_db (snd (cuh_register h k c y)), ky_world (snd (cuh_register h k c y)))"
proof -
  define body :: "tenant_ctx \<Rightarrow> 'w customer_sys \<Rightarrow> 'w customer_answer" where "body = (\<lambda>t y. case hz_register h (c_Body c) of
       None \<Rightarrow> plain (SendStatus 400) y
     | Some inp \<Rightarrow> (case cus_Register (hz_app h) (kl_io k) (TenantID t) inp (ky_db y) (ky_world y) of
         (Inl e, d, w) \<Rightarrow> plain (SendStatus (cuh_appError e)) (y\<lparr>ky_db := d, ky_world := w\<rparr>)
       | (Inr r, d, w) \<Rightarrow> plain (JSON (if rr_Retried r then 200 else 201) KuCreated) (y\<lparr>ky_db := d, ky_world := w\<rparr>)))"
  have reg: "cuh_register h k c y = with_customer_limit h k ''register'' c body y" by (simp add: cuh_register_def body_def)
  show ?thesis
  proof (cases rule: with_customer_limit_cases [of h k "''register''" c body y])
    case refused
    then show ?thesis using that(1) reg by simp
  next
    case (allowed t y')
    then show ?thesis using that reg
      by (cases "hz_register h (c_Body c)") (auto simp: body_def plain_def split: prod.splits sum.splits)
  qed
qed

lemma forgot_db:
  fixes h :: "'w customer_handler"
  obtains "ky_db (snd (cuh_forgot h k c y)) = ky_db y"
  | t v res where "cuh_tenant h c = Some t" "hz_forgot h (c_Body c) = Some v"
      "cus_ForgotPassword (hz_app h) (kl_io k) (TenantID t) v (ky_db y) (ky_world y) =
         (res, ky_db (snd (cuh_forgot h k c y)), ky_world (snd (cuh_forgot h k c y)))"
proof -
  define body :: "tenant_ctx \<Rightarrow> 'w customer_sys \<Rightarrow> 'w customer_answer" where "body = (\<lambda>t y. case hz_forgot h (c_Body c) of
       None \<Rightarrow> plain (SendStatus 204) y
     | Some email \<Rightarrow> (case cus_ForgotPassword (hz_app h) (kl_io k) (TenantID t) email (ky_db y) (ky_world y) of
         (r, d, w) \<Rightarrow> plain (SendStatus (case r of None \<Rightarrow> 204 | Some e \<Rightarrow> cuh_appError e)) (y\<lparr>ky_db := d, ky_world := w\<rparr>)))"
  have reg: "cuh_forgot h k c y = with_customer_limit h k ''forgot-password'' c body y" by (simp add: cuh_forgot_def body_def)
  show ?thesis
  proof (cases rule: with_customer_limit_cases [of h k "''forgot-password''" c body y])
    case refused
    then show ?thesis using that(1) reg by simp
  next
    case (allowed t y')
    then show ?thesis using that reg
      by (cases "hz_forgot h (c_Body c)") (auto simp: body_def plain_def split: prod.splits)
  qed
qed

lemma cuh_current_some: "cuh_current h c = Some (t, token) \<Longrightarrow> cuh_tenant h c = Some t \<and> token = cookie_token h c"
  by (auto simp: cuh_current_def cookie_token_def Let_def split: option.splits if_splits)

lemma profile_db:
  obtains "ky_db (snd (cuh_profilePatch h k c y)) = ky_db y"
  | t v res where "cuh_tenant h c = Some t"
      "cus_UpdateProfile (hz_app h) (kl_io k) (TenantID t) (cookie_token h c) v (ky_db y) = (res, ky_db (snd (cuh_profilePatch h k c y)))"
proof (cases "cuh_current h c")
  case None
  then show ?thesis using that(1) by (simp add: cuh_profilePatch_def with_session_def plain_def)
next
  case (Some p)
  obtain t token where "p = (t, token)" by fastforce
  then have p: "cuh_current h c = Some (t, token)" "cuh_tenant h c = Some t" "token = cookie_token h c"
    using Some cuh_current_some [of h c t token] by simp_all
  show ?thesis
  proof (cases "hz_name h (c_Body c)")
    case None
    then show ?thesis using that(1) p(1) by (simp add: cuh_profilePatch_def with_session_def plain_def)
  next
    case (Some v)
    then have "ky_db (snd (cuh_profilePatch h k c y)) = snd (cus_UpdateProfile (hz_app h) (kl_io k) (TenantID t) token v (ky_db y))"
      using p(1) by (simp add: cuh_profilePatch_def with_session_def plain_def split: prod.splits)
    then show ?thesis using that(2) p(2,3) by (metis prod.collapse)
  qed
qed

lemma change_db:
  obtains "ky_db (snd (cuh_changePassword h k c y)) = ky_db y"
  | t current new res where "cuh_tenant h c = Some t"
      "cus_ChangePassword (hz_app h) (kl_io k) (TenantID t) (cookie_token h c) current new (ky_db y) =
         (res, ky_db (snd (cuh_changePassword h k c y)))"
proof (cases "cuh_current h c")
  case None
  then show ?thesis using that(1) by (simp add: cuh_changePassword_def with_session_def plain_def)
next
  case (Some p)
  obtain t token where "p = (t, token)" by fastforce
  then have p: "cuh_current h c = Some (t, token)" "cuh_tenant h c = Some t" "token = cookie_token h c"
    using Some cuh_current_some [of h c t token] by simp_all
  show ?thesis
  proof (cases "hz_change h (c_Body c)")
    case None
    then show ?thesis using that(1) p(1) by (simp add: cuh_changePassword_def with_session_def plain_def)
  next
    case (Some v)
    obtain current new where "v = (current, new)" by fastforce
    then have "ky_db (snd (cuh_changePassword h k c y)) =
        snd (cus_ChangePassword (hz_app h) (kl_io k) (TenantID t) token current new (ky_db y))"
      using Some p(1) by (simp add: cuh_changePassword_def with_session_def plain_def split: prod.splits)
    then show ?thesis using that(2) p(2,3) by (metis prod.collapse)
  qed
qed

lemma login_customers: "customers (snd (cus_Login s io t email password d)) = customers d"
proof -
  have "snd (cus_Login s io t email password d) = d \<or> (\<exists>i token. snd (cus_Login s io t email password d) =
      snd (cust_CreateSession (cz_X s) (ao_f io 1) (ae_id (ao_env io 1)) t i token (ao_now io + customer_session_ttl) d))"
    by (auto simp: cus_Login_def Let_def split: option.splits sum.splits prod.splits) (metis snd_conv)+
  then show ?thesis using cust_CreateSession_customers by metis
qed

lemma cuh_login_customers:
  fixes h :: "'w customer_handler"
  shows "customers (ky_db (snd (cuh_login h k c y))) = customers (ky_db y)"
proof -
  define body :: "tenant_ctx \<Rightarrow> 'w customer_sys \<Rightarrow> 'w customer_answer" where "body = (\<lambda>t y. case hz_login h (c_Body c) of
       None \<Rightarrow> plain (SendStatus 400) y
     | Some (email, password) \<Rightarrow> (case cus_Login (hz_app h) (kl_io k) (TenantID t) email password (ky_db y) of
         (Inl e, d) \<Rightarrow> plain (SendStatus (cuh_appError e)) (y\<lparr>ky_db := d\<rparr>)
       | (Inr r, d) \<Rightarrow> ((JSON 200 (KuCustomer (lr_Customer r)), Some (CuSetCookie (sessionCookieName h) (lr_Token r) (\<not> hz_development h)
           (whole_seconds (lr_Expires r - kl_later k)))), y\<lparr>ky_db := d\<rparr>)))"
  have "customers (ky_db (snd (body t y'))) = customers (ky_db y')" for t y'
    using login_customers [of "hz_app h" "kl_io k" "TenantID t" _ _ "ky_db y'"]
    by (auto simp: body_def plain_def split: option.splits prod.splits sum.splits) (metis snd_conv)+
  moreover have "cuh_login h k c y = with_customer_limit h k ''login'' c body y" by (simp add: cuh_login_def body_def)
  ultimately show ?thesis by (cases rule: with_customer_limit_cases [of h k "''login''" c body y]) simp_all
qed

lemma other_routes_rows:
  assumes "rt \<notin> {CrRegister, CrForgot, CrProfilePatch, CrChangePassword}"
  shows "set (customers (ky_db y)) \<subseteq> set (customers (ky_db (snd (customer_serve h rt k c y))))"
proof (cases rt)
  case CrLogin
  then show ?thesis by (simp add: cuh_login_customers)
next
  case CrLogout
  then show ?thesis
    by (auto simp: cuh_logout_def plain_def cus_Logout_def cust_Revoke_def revoke_tx_customers split: option.splits)
next
  case CrResolve
  then show ?thesis
    by (auto simp: cuh_resolveGuest_def plain_def split: option.splits prod.splits dest: resolve_guest_rows)
qed (use assms in \<open>auto simp: cuh_me_def cuh_internalCustomer_def cuh_profile_def cuh_appointments_def cuh_internalSession_def
    with_session_def plain_def split: option.splits prod.splits\<close>)

text \<open>The address a registration or a reset is for: the normal form of the one in the body of the request.\<close>

definition requested_address :: "'w customer_handler \<Rightarrow> customer_route \<Rightarrow> fiber_ctx \<Rightarrow> string option" where
  "requested_address h rt c =
     (if rt = CrRegister then (case hz_register h (c_Body c) of None \<Rightarrow> None
        | Some inp \<Rightarrow> cus_normalizeEmail (cz_X (hz_app h)) (rc_Email inp))
      else if rt = CrForgot then (case hz_forgot h (c_Body c) of None \<Rightarrow> None
        | Some v \<Rightarrow> cus_normalizeEmail (cz_X (hz_app h)) v)
      else None)"

text \<open>(C36)
  A request changes the row of a customer only with a trusted booking context of its tenant and in one of two ways. Either
  it updates the profile or the password and its session cookie is a live session of that customer; or it is a registration
  or a reset whose body names the address of the customer: then the address, the account and the name of the row stay, and
  a new password hash is that of a generated password which the provider accepted in a mail to that address.
\<close>

theorem customer_changes_owned:
  assumes inv: "customer_inv (ky_db y)" and r: "r \<in> set (customers (ky_db y))"
    and changed: "r \<notin> set (customers (ky_db (snd (customer_serve h rt k c y))))"
  shows "\<exists>t. cuh_tenant h c = Some t \<and> TenantID t = cu_tenant r \<and>
    ((rt = CrProfilePatch \<or> rt = CrChangePassword) \<and>
       (\<exists>v. cus_Current (hz_app h) (kl_io k) (TenantID t) (cookie_token h c) (ky_db y) = Inr v \<and> cm_ID v = cu_id r) \<or>
     (\<exists>address. requested_address h rt c = Some address \<and>
        (\<exists>r' \<in> set (customers (ky_db (snd (customer_serve h rt k c y)))).
           mailed_change (hz_app h) (kl_io k) (rt = CrForgot) address (ky_world y)
             (ky_world (snd (customer_serve h rt k c y))) r r')))"
proof (cases rt)
  case CrRegister
  have out: "r \<notin> set (customers (ky_db (snd (cuh_register h k c y))))" using changed CrRegister by simp
  then have "ky_db (snd (cuh_register h k c y)) \<noteq> ky_db y" using r by metis
  then obtain t inp res where t: "cuh_tenant h c = Some t" "hz_register h (c_Body c) = Some inp"
    and run: "cus_Register (hz_app h) (kl_io k) (TenantID t) inp (ky_db y) (ky_world y) =
      (res, ky_db (snd (cuh_register h k c y)), ky_world (snd (cuh_register h k c y)))"
    using register_db by blast
  then show ?thesis using register_changes [OF inv run r out] CrRegister by (auto simp: requested_address_def)
next
  case CrForgot
  have out: "r \<notin> set (customers (ky_db (snd (cuh_forgot h k c y))))" using changed CrForgot by simp
  then have "ky_db (snd (cuh_forgot h k c y)) \<noteq> ky_db y" using r by metis
  then obtain t v res where t: "cuh_tenant h c = Some t" "hz_forgot h (c_Body c) = Some v"
    and run: "cus_ForgotPassword (hz_app h) (kl_io k) (TenantID t) v (ky_db y) (ky_world y) =
      (res, ky_db (snd (cuh_forgot h k c y)), ky_world (snd (cuh_forgot h k c y)))"
    using forgot_db by blast
  then show ?thesis using forgot_changes [OF inv run r out] CrForgot by (auto simp: requested_address_def)
next
  case CrProfilePatch
  have out: "r \<notin> set (customers (ky_db (snd (cuh_profilePatch h k c y))))" using changed CrProfilePatch by simp
  then have "ky_db (snd (cuh_profilePatch h k c y)) \<noteq> ky_db y" using r by metis
  then obtain t v res where "cuh_tenant h c = Some t" and run:
    "cus_UpdateProfile (hz_app h) (kl_io k) (TenantID t) (cookie_token h c) v (ky_db y) = (res, ky_db (snd (cuh_profilePatch h k c y)))"
    using profile_db by blast
  then show ?thesis using update_profile_changes [OF run r out] CrProfilePatch by auto
next
  case CrChangePassword
  have out: "r \<notin> set (customers (ky_db (snd (cuh_changePassword h k c y))))" using changed CrChangePassword by simp
  then have "ky_db (snd (cuh_changePassword h k c y)) \<noteq> ky_db y" using r by metis
  then obtain t current new res where "cuh_tenant h c = Some t" and run:
    "cus_ChangePassword (hz_app h) (kl_io k) (TenantID t) (cookie_token h c) current new (ky_db y) =
       (res, ky_db (snd (cuh_changePassword h k c y)))"
    using change_db by blast
  then show ?thesis using change_password_changes [OF run r out] CrChangePassword by auto
qed (use r changed other_routes_rows [of rt y h k c] in auto)

end
