(* ===== verification/Gateway_Customer.thy ===== *)
theory Gateway_Customer
  imports Gateway_Tenant Customer_Policy
begin

text \<open>
  The gateway and customer-service together: the session of a customer, which the gateway checks for the public
  appointment routes, is answered by the route \<^verbatim>\<open>/internal/v1/internal/customer/session\<close> of customer-service, over a
  transport that may fail. appointment-service takes the customer of a request from the header the gateway adds.
\<close>

section \<open>Where the customer header comes from\<close>

definition CustomerHeader :: string where
  "CustomerHeader = ''X-Customer-ID''"

lemma customer_header_names:
  "CustomerHeader \<noteq> InternalHeaderName" "CustomerHeader \<noteq> TenantIDHeader" "CustomerHeader \<noteq> AppTypeHeader" "CustomerHeader \<noteq> RequestIDHeader"
  "CustomerHeader \<noteq> ''Content-Type''" "CustomerHeader \<noteq> ''Cookie''" "CustomerHeader \<noteq> ''Idempotency-Key''"
  "CustomerHeader \<noteq> ''X-Customer-Session''" "CustomerHeader \<noteq> ''X-Platform-Actor''" "CustomerHeader \<notin> set frontend_headers"
  by code_simp+

lemma customer_not_optional: "k \<noteq> CustomerHeader \<Longrightarrow> (CustomerHeader, i) \<notin> set (optional_header k v)"
  by (auto dest: optional_header_in)

lemma customer_not_context: "(CustomerHeader, i) \<notin> set (context_headers h r c)"
  using customer_header_names by (auto simp: context_headers_def)

lemma customer_not_checked: "req \<in> set (snd (session_check h r c)) \<Longrightarrow> (CustomerHeader, i) \<notin> set (oq_Header req)"
  using customer_header_names by (auto simp: session_check_def Let_def split: if_splits)

lemma proxy_customer:
  assumes "req \<in> set (snd (gw_proxy h base path appType c))" and "(CustomerHeader, i) \<in> set (oq_Header req)"
  obtains r where "Resolver_Resolve (g_resolver h) (hostname c) = Inr r" "rn_AppType r = appType"
    "(CustomerHeader, i) \<in> set (fst (session_check h r c))"
proof (cases "Resolver_Resolve (g_resolver h) (hostname c)")
  case (Inl e)
  with assms(1) show thesis by (cases e) (auto simp: gw_proxy_def)
next
  case (Inr r)
  obtain customer checks where sc: "(if base = g_appointmentURL h \<and> is_prefix ''/internal/v1/public/appointments'' path
      then session_check h r c else ([], [])) = (customer, checks)" by fastforce
  have checks: "q \<in> set checks \<Longrightarrow> (CustomerHeader, i) \<notin> set (oq_Header q)" for q
    using sc customer_not_checked [of q h r c i] by (auto split: if_splits)
  have app: "rn_AppType r = appType" using assms(1) Inr by (auto simp: gw_proxy_def split: if_splits)
  have "(CustomerHeader, i) \<in> set customer"
    using assms Inr checks customer_not_context customer_not_optional customer_header_names(5-7)
    unfolding gw_proxy_def by (auto simp: sc Let_def split: if_splits)
  then have "(CustomerHeader, i) \<in> set (fst (session_check h r c))" using sc by (auto split: if_splits)
  with Inr app that show thesis by blast
qed

lemma serve_customer:
  assumes "req \<in> set (snd (fst (gw_serve h n c st)))" and "(CustomerHeader, i) \<in> set (oq_Header req)"
  obtains r where "Resolver_Resolve (g_resolver h) (hostname c) = Inr r" "(CustomerHeader, i) \<in> set (fst (session_check h r c))"
proof (cases "gw_route_at n")
  case (RPlatform path)
  with assms that show thesis
    by (auto simp: gw_serve_def platformProxy_def Let_def customer_header_names split: if_splits)
next
  case (RPlatformService base path)
  with assms that show thesis
    by (auto simp: gw_serve_def platformServiceProxy_def Let_def customer_header_names split: if_splits)
next
  case RHealth
  with assms health_no_context show thesis
    by (fastforce simp: gw_serve_def platformHealth_def Let_def split: if_splits)
next
  case RConfig
  with assms customer_not_context show thesis
    by (auto simp: gw_serve_def gw_config_def Let_def split: if_splits sum.splits resolve_error.splits)
next
  case (RAuth path)
  with assms customer_not_context customer_not_optional customer_header_names(5,6) show thesis
    by (auto simp: gw_serve_def gw_auth_def Let_def split: if_splits sum.splits resolve_error.splits prod.splits)
next
  case (RProxy base path appType)
  with assms(1) have "req \<in> set (snd (gw_proxy h (base h) path appType c))" by (simp add: gw_serve_def)
  with assms(2) that show thesis by (blast elim: proxy_customer)
next
  case RFrontend
  with assms that customer_header_names(10) optional_header_in show thesis
    by (auto simp: gw_serve_def gw_frontend_def Let_def split: if_splits sum.splits resolve_error.splits)
qed

lemma answer_header:
  assumes "(CustomerHeader, i) \<in> set (case x of
      UpResponse status _ (Some body) \<Rightarrow>
        (if 200 \<le> status \<and> status < 300 then case g body of Some j \<Rightarrow> optional_header ''X-Customer-ID'' j | None \<Rightarrow> [] else [])
    | _ \<Rightarrow> [])"
  shows "\<exists>status hs body. x = UpResponse status hs (Some body) \<and> 200 \<le> status \<and> status < 300 \<and> g body = Some i"
proof (cases x)
  case (UpResponse status hs b)
  show ?thesis
  proof (cases b)
    case (Some body)
    have ok: "200 \<le> status \<and> status < 300"
      using assms unfolding UpResponse Some up_result.case option.case
      by (cases "200 \<le> status \<and> status < 300") (simp_all only: if_False list.set empty_iff)
    obtain j where j: "g body = Some j" using assms unfolding UpResponse Some up_result.case option.case
      by (cases "g body") (simp_all only: ok simp_thms if_True option.case list.set empty_iff option.inject)
    have "(CustomerHeader, i) \<in> set (optional_header ''X-Customer-ID'' j)"
      using assms unfolding UpResponse Some up_result.case option.case by (simp only: ok j simp_thms if_True option.case)
    then have "j = i" by (cases "j = []") (simp_all add: optional_header_def)
    then show ?thesis using UpResponse Some ok j by blast
  qed (use assms UpResponse in simp)
qed (use assms in simp_all)

lemma session_check_answered:
  assumes "(CustomerHeader, i) \<in> set (fst (session_check h r c))"
  obtains status hs body where
    "g_Do h \<lparr>oq_Method = ''GET'', oq_URL = g_customerURL h @ ''/internal/v1/internal/customer/session'',
        oq_Header = [(InternalHeaderName, g_token h), (TenantIDHeader, rn_TenantID r), (AppTypeHeader, rn_AppType r),
          (''X-Customer-Session'', session_cookie c)], oq_Body = [], oq_Host = []\<rparr> = UpResponse status hs (Some body)"
    "200 \<le> status" "status < 300" "g_customer_id h body = Some i"
proof -
  let ?req = "\<lparr>oq_Method = ''GET'', oq_URL = g_customerURL h @ ''/internal/v1/internal/customer/session'',
      oq_Header = [(InternalHeaderName, g_token h), (TenantIDHeader, rn_TenantID r), (AppTypeHeader, rn_AppType r),
        (''X-Customer-Session'', session_cookie c)], oq_Body = [], oq_Host = []\<rparr>"
  let ?answer = "case g_Do h ?req of
      UpResponse status _ (Some body) \<Rightarrow>
        (if 200 \<le> status \<and> status < 300 then case g_customer_id h body of
           Some i \<Rightarrow> optional_header ''X-Customer-ID'' i | None \<Rightarrow> [] else [])
    | _ \<Rightarrow> []"
  have answer: "(CustomerHeader, i) \<in> set ?answer"
    using assms
    by (cases "session_cookie c = [] \<or> \<not> g_valid h ''GET'' (g_customerURL h @ ''/internal/v1/internal/customer/session'')")
      (simp_all only: session_check_def Let_def if_True if_False fst_conv list.set empty_iff)
  then show thesis using answer_header [OF answer] that by blast
qed

section \<open>The session answered by customer-service\<close>

definition session_ctx :: "out_req \<Rightarrow> fiber_ctx" where
  "session_ctx req = \<lparr>c_Get = (\<lambda>k. case map_of (oq_Header req) k of None \<Rightarrow> [] | Some v \<Rightarrow> v), c_Params = (\<lambda>_. []),
     c_Query = (\<lambda>_. []), c_Body = oq_Body req\<rparr>"

text \<open>
  The transport delivers a request for the session to the route and its answer back, or fails; the decoder of the gateway
  reads the identifier from the text of a customer.
\<close>

definition session_served ::
  "gateway \<Rightarrow> 'w customer_handler \<Rightarrow> customer_call \<Rightarrow> 'w customer_sys \<Rightarrow> (customer_body \<Rightarrow> string) \<Rightarrow> bool" where
  "session_served h hc k y enc \<longleftrightarrow>
     (\<forall>req. oq_URL req = g_customerURL h @ ''/internal/v1/internal/customer/session'' \<longrightarrow>
        (case g_Do h req of
           UpResponse status _ (Some body) \<Rightarrow>
             Response status body = as_response enc (fst (fst (customer_serve hc CrSession k (session_ctx req) y)))
         | _ \<Rightarrow> True)) \<and>
     (\<forall>v. g_customer_id h (enc (KuCustomer v)) = Some (uuid_String (cz_X (hz_app hc)) (cm_ID v)))"

lemma appError_not_ok: "\<not> (200 \<le> cuh_appError e \<and> cuh_appError e < 300)"
  by (cases e) simp_all

lemma session_route_ok:
  assumes "as_response enc (fst (fst (customer_serve hc CrSession k c y))) = Response status body" and "200 \<le> status" "status < 300"
  obtains t v where "cuh_tenant hc c = Some t" "body = enc (KuCustomer v)" "\<not> cm_MustChangePassword v"
    "cus_Current (hz_app hc) (kl_io k) (TenantID t) (c_Get c ''X-Customer-Session'') (ky_db y) = Inr v"
proof (cases "cuh_tenant hc c")
  case None
  then show thesis using assms by (simp add: cuh_internalSession_def plain_def as_response_def)
next
  case (Some t)
  let ?r = "cus_InternalSession (hz_app hc) (kl_io k) (TenantID t) (c_Get c ''X-Customer-Session'') (ky_db y)"
  show thesis
  proof (cases ?r)
    case (Inl e)
    then show thesis using assms Some appError_not_ok [of e]
      by (simp add: cuh_internalSession_def plain_def as_response_def customer_reply_def)
  next
    case (Inr v)
    then show thesis using assms(1) Some that [of t v]
      by (auto simp: cuh_internalSession_def plain_def as_response_def customer_reply_def cus_InternalSession_def
          split: sum.splits if_splits)
  qed
qed

text \<open>(C35)
  Whatever the browser sends, a request of the gateway to a private service carries a customer only if customer-service
  accepted the session cookie of the browser: the customer has a live session with that token in the tenant of the
  hostname, the application is the booking one, and no password change is pending.
\<close>

theorem customer_header_backed:
  assumes served: "session_served h hc k y enc" and req: "req \<in> set (snd (fst (gw_serve h n c st)))"
    and header: "(''X-Customer-ID'', i) \<in> set (oq_Header req)"
  shows "\<exists>r t v q. Resolver_Resolve (g_resolver h) (hostname c) = Inr r \<and> uuid_Parse (cz_X (hz_app hc)) (rn_TenantID r) = Some t \<and>
    rn_AppType r = ''booking'' \<and> i = uuid_String (cz_X (hz_app hc)) (cm_ID v) \<and>
    cust_ByID NoFault t (cm_ID v) (ky_db y) = Inr v \<and> \<not> cm_MustChangePassword v \<and>
    q \<in> set (customer_sessions (ky_db y)) \<and> cq_customer q = cm_ID v \<and>
    live_customer_session (ae_now (ao_env (kl_io k) 0)) t (hashToken (cz_X (hz_app hc)) (session_cookie c)) q"
proof -
  let ?X = "cz_X (hz_app hc)"
  from req header [folded CustomerHeader_def] obtain r where r: "Resolver_Resolve (g_resolver h) (hostname c) = Inr r"
    and sc: "(CustomerHeader, i) \<in> set (fst (session_check h r c))" by (rule serve_customer)
  let ?req = "\<lparr>oq_Method = ''GET'', oq_URL = g_customerURL h @ ''/internal/v1/internal/customer/session'',
      oq_Header = [(InternalHeaderName, g_token h), (TenantIDHeader, rn_TenantID r), (AppTypeHeader, rn_AppType r),
        (''X-Customer-Session'', session_cookie c)], oq_Body = [], oq_Host = []\<rparr>"
  from sc obtain status hs body where up: "g_Do h ?req = UpResponse status hs (Some body)" "200 \<le> status" "status < 300"
    "g_customer_id h body = Some i" by (rule session_check_answered)
  have "Response status body = as_response enc (fst (fst (customer_serve hc CrSession k (session_ctx ?req) y)))"
    using served up(1) unfolding session_served_def by (auto dest!: spec [of _ ?req])
  then obtain t v where t: "cuh_tenant hc (session_ctx ?req) = Some t" and v: "body = enc (KuCustomer v)" "\<not> cm_MustChangePassword v"
      "cus_Current (hz_app hc) (kl_io k) (TenantID t) (c_Get (session_ctx ?req) ''X-Customer-Session'') (ky_db y) = Inr v"
    using up(2,3) by (metis session_route_ok)
  have get: "c_Get (session_ctx ?req) TenantIDHeader = rn_TenantID r" "c_Get (session_ctx ?req) AppTypeHeader = rn_AppType r"
    "c_Get (session_ctx ?req) ''X-Customer-Session'' = session_cookie c"
    by (simp_all add: session_ctx_def InternalHeaderName_def TenantIDHeader_def AppTypeHeader_def)
  have parse: "uuid_Parse ?X (rn_TenantID r) = Some (TenantID t)" "rn_AppType r = ''booking''"
    using t get by (auto simp: cuh_tenant_def adminauth_Context_def tenantctx_New_def split: sum.splits if_splits option.splits)
  have i: "i = uuid_String ?X (cm_ID v)" using served up(4) v(1) by (simp add: session_served_def)
  from v(3) [unfolded get] obtain q where q:
    "find (live_customer_session (ae_now (ao_env (kl_io k) 0)) (TenantID t) (hashToken ?X (session_cookie c))) (customer_sessions (ky_db y)) = Some q"
    "cust_ByID NoFault (TenantID t) (cq_customer q) (ky_db y) = Inr v" by (rule cus_CurrentD)
  have "cm_ID v = cq_customer q" using q(2) by (auto simp: cust_ByID_ok to_customer_def same_customer_def dest!: find_SomeD)
  then show ?thesis using r parse i v(2) q find_SomeD [OF q(1)] by (intro exI [of _ r] exI [of _ "TenantID t"] exI [of _ v] exI [of _ q]) simp
qed

end
