(* ===== verification/Auth_Policy.thy ===== *)
theory Auth_Policy
  imports Auth_Service
begin

text \<open>
  What auth-service promises: a session authenticates exactly while it is live, a logged-out or revoked session
  never comes back, a new password ends every other session of the identity in every tenant, the mailed password
  is the stored one, and no request creates, demotes or deactivates an owner.
\<close>

section \<open>What a session stands for\<close>

definition session_stands :: "time \<Rightarrow> uuid \<Rightarrow> string \<Rightarrow> auth_db \<Rightarrow> auth_principal \<Rightarrow> bool" where
  "session_stands now t h d p \<longleftrightarrow> (\<exists>s \<in> set (sessions d). \<exists>m \<in> set (memberships d). \<exists>r \<in> set (identities d). \<exists>c \<in> set (credentials d).
     live_session now t h s \<and> same_member t (se_identity s) m \<and> mb_status m = ''active'' \<and>
     ai_id r = se_identity s \<and> ai_status r = ''active'' \<and> cr_identity c = se_identity s \<and>
     p = to_principal t (se_id s) (mb_role m) r c)"

lemma FindActiveMembership_iff:
  assumes "auth_inv d"
  shows "FindActiveMembership t i d = Some role \<longleftrightarrow>
    (\<exists>m \<in> set (memberships d). same_member t i m \<and> mb_status m = ''active'' \<and> mb_role m = role)"
proof
  assume "FindActiveMembership t i d = Some role"
  then show "\<exists>m \<in> set (memberships d). same_member t i m \<and> mb_status m = ''active'' \<and> mb_role m = role"
    by (auto simp: FindActiveMembership_def dest!: find_SomeD)
next
  assume "\<exists>m \<in> set (memberships d). same_member t i m \<and> mb_status m = ''active'' \<and> mb_role m = role"
  then obtain m where m: "m \<in> set (memberships d)" "same_member t i m" "mb_status m = ''active''" "mb_role m = role" by blast
  have "find (\<lambda>m. same_member t i m \<and> mb_status m = ''active'') (memberships d) = Some m"
    using assms m by (intro find_unique [of "\<lambda>m. (mb_tenant m, mb_identity m)"]) (auto simp: auth_inv_defs same_member_def)
  then show "FindActiveMembership t i d = Some role" using m(4) by (simp add: FindActiveMembership_def)
qed

lemma active_identity_iff:
  assumes "auth_inv d"
  shows "active_identity i d = Some (r, c) \<longleftrightarrow> r \<in> set (identities d) \<and> ai_id r = i \<and> ai_status r = ''active'' \<and>
    c \<in> set (credentials d) \<and> cr_identity c = i"
proof -
  have "find (\<lambda>r. ai_id r = i \<and> ai_status r = ''active'') (identities d) = Some r \<longleftrightarrow>
      r \<in> set (identities d) \<and> ai_id r = i \<and> ai_status r = ''active''" (is "?find \<longleftrightarrow> ?row")
  proof
    show "?find \<Longrightarrow> ?row" by (drule find_SomeD) simp
    show "?row \<Longrightarrow> ?find" using assms by (intro find_unique [of ai_id]) (auto simp: auth_inv_defs)
  qed
  then show ?thesis using find_credential_iff [OF assms, of i c]
    by (auto simp: active_identity_def split: option.splits)
qed

lemma live_session_unique:
  assumes "auth_inv d" and "s \<in> set (sessions d)" and "live_session now t h s"
  shows "find (live_session now t h) (sessions d) = Some s"
  using assms by (intro find_unique [of "\<lambda>s. (se_tenant s, se_token s)"]) (auto simp: auth_inv_defs live_session_def)

lemma repo_Session_iff:
  assumes inv: "auth_inv d"
  shows "repo_Session f now t (Some h) d = Inr p \<longleftrightarrow> f = NoFault \<and> session_stands now t h d p"
proof
  assume "repo_Session f now t (Some h) d = Inr p"
  then obtain s role r c where "f = NoFault" "find (live_session now t h) (sessions d) = Some s"
    "FindActiveMembership t (se_identity s) d = Some role" "active_identity (se_identity s) d = Some (r, c)"
    "p = to_principal t (se_id s) role r c"
    by (auto simp: repo_Session_def tenant_read_ok split: option.splits)
  then show "f = NoFault \<and> session_stands now t h d p"
    unfolding session_stands_def FindActiveMembership_iff [OF inv] active_identity_iff [OF inv]
    using find_SomeD by metis
next
  assume "f = NoFault \<and> session_stands now t h d p"
  then obtain s m r c where f: "f = NoFault" and s: "s \<in> set (sessions d)" "live_session now t h s"
    and "m \<in> set (memberships d)" "same_member t (se_identity s) m" "mb_status m = ''active''"
    and "r \<in> set (identities d)" "ai_id r = se_identity s" "ai_status r = ''active''"
    and "c \<in> set (credentials d)" "cr_identity c = se_identity s" and p: "p = to_principal t (se_id s) (mb_role m) r c"
    unfolding session_stands_def by blast
  then have "FindActiveMembership t (se_identity s) d = Some (mb_role m)" "active_identity (se_identity s) d = Some (r, c)"
    unfolding FindActiveMembership_iff [OF inv] active_identity_iff [OF inv] by blast+
  then show "repo_Session f now t (Some h) d = Inr p"
    using live_session_unique [OF inv s] by (simp add: repo_Session_def tenant_read_ok f p)
qed

lemma svc_Current_iff:
  assumes "auth_inv d"
  shows "svc_Current s f now t token d = Inr p \<longleftrightarrow>
    token \<noteq> [] \<and> f = NoFault \<and> (\<exists>h. tokenDigest s token = Some h \<and> session_stands now t h d p)"
proof (cases "tokenDigest s token")
  case None
  then show ?thesis by (auto simp: svc_Current_def repo_Session_def tenant_read_ok split: sum.splits if_splits)
next
  case (Some h)
  then show ?thesis using repo_Session_iff [OF assms, of f now t h p]
    by (auto simp: svc_Current_def split: sum.splits if_splits)
qed

section \<open>Ended sessions\<close>

lemma dead_token_refused:
  assumes "auth_inv d" and "session_dead d (t, h)" and "tokenDigest s token = Some h"
  shows "svc_Current s f now t token (run_ops exec_auth ys d) \<noteq> Inr p"
  using staff_sessions.refused_forever [OF assms(1,2), of "(f, now)" ys] assms(3)
  by (auto simp: session_accepted_def svc_Current_def split: sum.splits if_splits)

lemma revoke_makes_dead:
  assumes "sess \<in> set (sessions d)" and "P sess" and "\<And>x. P x \<Longrightarrow> se_revoked x = None"
  shows "session_dead (d\<lparr>sessions := map (\<lambda>x. if P x then x\<lparr>se_revoked := Some now\<rparr> else x) (sessions d)\<rparr>)
    (se_tenant sess, se_token sess)"
proof -
  have "sess\<lparr>se_revoked := Some now\<rparr> \<in> set (map (\<lambda>x. if P x then x\<lparr>se_revoked := Some now\<rparr> else x) (sessions d))"
    using assms(1,2) by (force simp: in_set_conv_nth)
  then show ?thesis unfolding session_dead_def by (intro bexI [of _ "sess\<lparr>se_revoked := Some now\<rparr>"]) auto
qed

text \<open>(C25)
  A session that authenticated a request and was then logged out never authenticates again: not at any later time
  and not after any interleaving of other operations, since its row stays and its token cannot be inserted twice.
\<close>

theorem logout_final:
  assumes "auth_inv d" and "svc_Current s f0 now0 t token d = Inr p"
    and "svc_Logout s f1 now1 t token d = (Inr (), d')"
  shows "svc_Current s f now t token (run_ops exec_auth ys d') \<noteq> Inr q"
proof -
  note inv = assms(1)
  obtain h sess where h: "token \<noteq> []" "tokenDigest s token = Some h" "sess \<in> set (sessions d)" "live_session now0 t h sess"
    using assms(2) unfolding svc_Current_iff [OF inv] session_stands_def by blast
  let ?P = "\<lambda>x. se_tenant x = t \<and> Some (se_token x) = Some h \<and> se_revoked x = None"
  have d': "d' = d\<lparr>sessions := map (\<lambda>x. if ?P x then x\<lparr>se_revoked := Some now1\<rparr> else x) (sessions d)\<rparr>"
    using assms(3) h(1,2) by (simp add: svc_Logout_def repo_RevokeSession_def WithTenantTx_ok)
  then have "session_dead d' (t, h)"
    using revoke_makes_dead [of sess d ?P now1] h(3,4) by (simp add: live_session_def)
  moreover have "auth_inv d'"
    using repo_RevokeSession_inv [OF inv, of f1 now1 t "Some h"] assms(3) h(1,2) by (simp add: svc_Logout_def)
  ultimately show ?thesis using dead_token_refused h(2) by blast
qed

lemma revoke_identity_dead:
  assumes "sess \<in> set (sessions d)" and "se_identity sess = i" and "keep \<noteq> Some (se_id sess)"
  shows "session_dead (revoke_identity_sessions now i keep d) (se_tenant sess, se_token sess)"
proof (cases "se_revoked sess")
  case None
  then show ?thesis unfolding revoke_identity_sessions_def using assms by (intro revoke_makes_dead) auto
next
  case (Some x)
  then show ?thesis unfolding revoke_identity_sessions_def using assms(1)
    by (intro session_dead_revoke) (auto simp: session_dead_def)
qed

lemma sql_set_password_sessions [simp]: "sessions (sql_set_password now i hash must d) = sessions d"
  by (simp add: sql_set_password_def)

lemma svc_ChangePassword_ok:
  assumes "svc_ChangePassword s io t p inp d = (None, d')"
  obtains hash where "ao_hash io (cp_NewPassword inp) = Some hash" "ao_f io 1 = NoFault"
    "d' = revoke_identity_sessions (ae_now (ao_env io 1)) (pn_IdentityID p) (Some (pn_SessionID p))
       (sql_set_password (ae_now (ao_env io 1)) (pn_IdentityID p) hash False d)"
  using assms
  by (auto simp: svc_ChangePassword_def hashPassword_def repo_ChangePassword_def WithTenantTx_ok
      split: if_splits sum.splits option.splits prod.splits)

text \<open>(C26)
  A successful change of the password stores the hash of the new one, clears the obligation to change it, and ends
  every other session of the identity, in every tenant: none of them authenticates again, whatever follows.
\<close>

theorem password_change_ends_sessions:
  assumes "auth_inv d" and "svc_ChangePassword s io t p inp d = (None, d')"
  shows "(\<forall>c \<in> set (credentials d'). cr_identity c = pn_IdentityID p \<longrightarrow>
      Some (cr_hash c) = ao_hash io (cp_NewPassword inp) \<and> \<not> cr_must_change c) \<and>
    (\<forall>sess \<in> set (sessions d). se_identity sess = pn_IdentityID p \<and> se_id sess \<noteq> pn_SessionID p \<longrightarrow>
      (\<forall>token f now ys q. tokenDigest s token = Some (se_token sess) \<longrightarrow>
         svc_Current s f now (se_tenant sess) token (run_ops exec_auth ys d') \<noteq> Inr q))"
proof -
  obtain hash where hash: "ao_hash io (cp_NewPassword inp) = Some hash"
    and d': "d' = revoke_identity_sessions (ae_now (ao_env io 1)) (pn_IdentityID p) (Some (pn_SessionID p))
       (sql_set_password (ae_now (ao_env io 1)) (pn_IdentityID p) hash False d)"
    using assms(2) by (rule svc_ChangePassword_ok)
  have inv: "auth_inv d'" unfolding d'
    using assms(1) by (intro revoke_identity_sessions_inv sql_set_password_inv)
  have "\<forall>c \<in> set (credentials d'). cr_identity c = pn_IdentityID p \<longrightarrow> cr_hash c = hash \<and> \<not> cr_must_change c"
    by (auto simp: d' revoke_identity_sessions_def sql_set_password_def)
  moreover have "session_dead d' (se_tenant sess, se_token sess)"
    if "sess \<in> set (sessions d)" "se_identity sess = pn_IdentityID p" "se_id sess \<noteq> pn_SessionID p" for sess
    unfolding d' using that by (intro revoke_identity_dead) auto
  then have "svc_Current s f now (se_tenant sess) token (run_ops exec_auth ys d') \<noteq> Inr q"
    if "sess \<in> set (sessions d)" "se_identity sess = pn_IdentityID p" "se_id sess \<noteq> pn_SessionID p"
      "tokenDigest s token = Some (se_token sess)" for sess token f now ys q
    using that by (intro dead_token_refused [OF inv])
  ultimately show ?thesis using hash by auto
qed

section \<open>Login\<close>

lemma CredentialByEmail_rows:
  assumes "CredentialByEmail f email d = Inr v"
  obtains r c where "find_identity email d = Some r" "find_credential (ai_id r) d = Some c" "v = to_credential r c" "f = NoFault"
  using assms by (auto simp: CredentialByEmail_def split: if_splits option.splits)

lemma repo_CreateSession_ok:
  assumes "repo_CreateSession f env t i h expires d = (Inr p, d')"
  obtains role r c where "f = NoFault" "FindActiveMembership t i d = Some role" "active_identity i d = Some (r, c)"
    "p = to_principal t (ae_id env) role r c"
    "sql_insert_session t \<lparr>se_id = ae_id env, se_tenant = t, se_identity = i, se_token = h, se_expires = expires,
       se_revoked = None\<rparr> d = Inr d'"
  using assms by (auto simp: repo_CreateSession_def WithTenantTx_ok split: option.splits sum.splits)

lemma svc_Login_ok:
  assumes "svc_Login s io t inp d = (Inr ses, d')"
  obtains email v bytes where "normalizeEmail (av_X s) (li_Email inp) = Some email" "CredentialByEmail (ao_f io 0) email d = Inr v"
    "cv_Active v" "av_compare s (cv_PasswordHash v) (li_Password inp)" "ao_rand io 32 = Some bytes"
    "as_Token ses = EncodeToString bytes" "as_ExpiresAt ses = ao_now io + av_sessionTTL s"
    "repo_CreateSession (ao_f io 1) (ao_env io 1) t (cv_IdentityID v) (av_sha256 s bytes) (as_ExpiresAt ses) d =
       (Inr (as_Principal ses), d')"
  using assms by (auto simp: svc_Login_def newToken_def Let_def split: option.splits if_splits sum.splits prod.splits)

text \<open>(C27)
  The token a login returns authenticates until the session expires: it decodes to the bytes whose digest was
  stored, and the principal is the one the login answered. The password was that of the identity with the address,
  which is active and an active member of the tenant.
\<close>

theorem login_roundtrip:
  assumes "auth_inv d" and "svc_Login s io t inp d = (Inr ses, d')"
    and "\<forall>n bytes. ao_rand io n = Some bytes \<longrightarrow> length bytes = n" and "now < as_ExpiresAt ses"
  shows "svc_Current s NoFault now t (as_Token ses) d' = Inr (as_Principal ses) \<and>
    (\<exists>r c. find_identity (ToLower (TrimSpace (li_Email inp))) d = Some r \<and> find_credential (ai_id r) d = Some c \<and>
       ai_status r = ''active'' \<and> av_compare s (cr_hash c) (li_Password inp) \<and> active_member d t (ai_id r) \<and>
       pn_IdentityID (as_Principal ses) = ai_id r)"
proof -
  note inv = assms(1)
  from assms(2) obtain email v bytes where email: "normalizeEmail (av_X s) (li_Email inp) = Some email"
    and cred: "CredentialByEmail (ao_f io 0) email d = Inr v" "cv_Active v" "av_compare s (cv_PasswordHash v) (li_Password inp)"
    and tok: "ao_rand io 32 = Some bytes" "as_Token ses = EncodeToString bytes"
    and cs: "repo_CreateSession (ao_f io 1) (ao_env io 1) t (cv_IdentityID v) (av_sha256 s bytes) (as_ExpiresAt ses) d =
       (Inr (as_Principal ses), d')"
    by (rule svc_Login_ok)
  from cred(1) obtain r c where rc: "find_identity email d = Some r" "find_credential (ai_id r) d = Some c" "v = to_credential r c"
    by (rule CredentialByEmail_rows)
  from cs obtain role r' c' where ok: "FindActiveMembership t (ai_id r) d = Some role" "active_identity (ai_id r) d = Some (r', c')"
    "as_Principal ses = to_principal t (ae_id (ao_env io 1)) role r' c'"
    "sql_insert_session t \<lparr>se_id = ae_id (ao_env io 1), se_tenant = t, se_identity = ai_id r, se_token = av_sha256 s bytes,
       se_expires = as_ExpiresAt ses, se_revoked = None\<rparr> d = Inr d'"
    using rc(3) by (elim repo_CreateSession_ok) (simp add: to_credential_def)
  let ?row = "\<lparr>se_id = ae_id (ao_env io 1), se_tenant = t, se_identity = ai_id r, se_token = av_sha256 s bytes,
       se_expires = as_ExpiresAt ses, se_revoked = None\<rparr>"
  have d': "d' = d\<lparr>sessions := sessions d @ [?row]\<rparr>" using sql_insert_sessionD [OF ok(4)] by blast
  have inv': "auth_inv d'" using sql_insert_session_inv [OF inv ok(4)] .
  have "bytes \<noteq> []" using assms(3) tok(1) by fastforce
  then have token: "as_Token ses \<noteq> []" "tokenDigest s (as_Token ses) = Some (av_sha256 s bytes)"
    using tok(2) by (simp_all add: tokenDigest_def)
  have "live_session now t (av_sha256 s bytes) ?row" using assms(4) by (simp add: live_session_def)
  then have "session_stands now t (av_sha256 s bytes) d' (as_Principal ses)"
    using ok(1,2) unfolding FindActiveMembership_iff [OF inv] active_identity_iff [OF inv] session_stands_def d' ok(3)
    by force
  then have "svc_Current s NoFault now t (as_Token ses) d' = Inr (as_Principal ses)"
    unfolding svc_Current_iff [OF inv'] using token by blast
  moreover have "email = ToLower (TrimSpace (li_Email inp))"
    using email by (auto simp: normalizeEmail_def Let_def split: option.splits if_splits)
  moreover have "active_member d t (ai_id r)" using ok(1) unfolding FindActiveMembership_iff [OF inv]
    by (auto simp: active_member_def list_ex_iff)
  moreover have "ai_id r' = ai_id r" using ok(2) unfolding active_identity_iff [OF inv] by blast
  ultimately show ?thesis using rc cred(2,3) ok(3) by (simp add: to_credential_def to_principal_def)
qed

end
