(* ===== verification/Auth_Staff.thy ===== *)
theory Auth_Staff
  imports Auth_Policy
begin

text \<open>
  The administration of members: who may change memberships, and that the service neither creates nor demotes nor
  deactivates an owner, also when the check of a target and the update it permits are separated by other requests.
\<close>

section \<open>Owners\<close>

definition owner_rows :: "auth_db \<Rightarrow> membership_row list" where
  "owner_rows d = filter (\<lambda>m. mb_role m = RoleOwner) (memberships d)"

lemma owner_rows_memberships: "memberships d' = memberships d \<Longrightarrow> owner_rows d' = owner_rows d"
  by (simp add: owner_rows_def)

lemma staffRole_not_owner: "staffRole role \<Longrightarrow> role \<noteq> RoleOwner"
  by (auto simp: staffRole_def RoleManager_def RoleBarber_def RoleReceptionist_def RoleOwner_def)

lemma repo_Register_owners:
  assumes "staffRole role"
  shows "owner_rows (snd (repo_Register f env t name email phone role hash d)) = owner_rows d"
  unfolding repo_Register_def
proof (rule tx_frame, goal_cases)
  case (1 v d')
  then have "repo_Register NoFault env t name email phone role hash d = (Inr v, d')"
    by (simp add: repo_Register_def WithTenantTx_ok)
  then show ?case
  proof (rule repo_RegisterD)
    fix i created d1
    assume reg: "register_identity env name email phone hash d = Inr (i, created, d1)"
      and ins: "sql_insert_membership t \<lparr>mb_tenant = t, mb_identity = i, mb_role = role, mb_status = ''active'',
        mb_created = ae_now env\<rparr> d1 = Inr (rg_CreatedMembership v, d')"
    from register_identity_frame [OF reg] have "memberships d1 = memberships d" by simp
    with ins show ?thesis using staffRole_not_owner [OF assms]
      by (elim sql_insert_membershipD) (simp_all add: owner_rows_def)
  qed
qed

text \<open>The target of an update is not an owner.\<close>

definition not_owner :: "auth_db \<Rightarrow> uuid \<Rightarrow> uuid \<Rightarrow> bool" where
  "not_owner d t i \<longleftrightarrow> list_all (\<lambda>m. \<not> same_member t i m) (owner_rows d)"

lemma filter_map_keep:
  "\<forall>x \<in> set xs. P x \<longrightarrow> \<not> V x \<and> \<not> V (upd x) \<Longrightarrow> filter V (map (\<lambda>x. if P x then upd x else x) xs) = filter V xs"
  by (induction xs) auto

lemma update_member_owners:
  assumes "not_owner d t i" and "\<And>m. same_member t i m \<Longrightarrow> mb_role m \<noteq> RoleOwner \<Longrightarrow> mb_role (upd m) \<noteq> RoleOwner"
  shows "owner_rows (snd (update_member f upd t i d)) = owner_rows d"
  unfolding update_member_def
proof (rule tx_frame, goal_cases)
  case (1 v d')
  then obtain m r where "sql_update_membership upd t i d = Inr (m, r, d')" by (auto split: sum.splits if_splits)
  then have d': "memberships d' = map (\<lambda>m. if same_member t i m then upd m else m) (memberships d)"
    by (elim sql_update_membershipD) simp
  have "\<forall>m \<in> set (memberships d). same_member t i m \<longrightarrow> mb_role m \<noteq> RoleOwner"
    using assms(1) by (auto simp: not_owner_def owner_rows_def list_all_iff)
  then have "filter (\<lambda>m. mb_role m = RoleOwner) (map (\<lambda>m. if same_member t i m then upd m else m) (memberships d)) =
      filter (\<lambda>m. mb_role m = RoleOwner) (memberships d)"
    using assms(2) by (intro filter_map_keep) blast
  then show ?case by (simp add: owner_rows_def d')
qed

lemma repo_Member_not_owner:
  assumes "auth_inv d" and "repo_Member f t i d = Inr m" and "me_Role m \<noteq> RoleOwner"
  shows "not_owner d t i"
proof -
  obtain row r where row: "find (same_member t i) (memberships d) = Some row" "m = to_member row r"
    using assms(2) by (auto simp: repo_Member_def tenant_read_ok split: option.splits)
  have "x = row" if "x \<in> set (memberships d)" "same_member t i x" for x
    using same_member_unique [OF assms(1) that(1)] that(2) find_SomeD [OF row(1)] by blast
  then show ?thesis using assms(3) row(2) by (auto simp: not_owner_def owner_rows_def list_all_iff to_member_def)
qed

section \<open>Interleaved administration\<close>

text \<open>
  The halves of service calls: the lookup of a target that is no owner (\<open>StCheck\<close>), and later the update it
  permits (\<open>StRole\<close>, \<open>StStatus\<close>); registrations, whose role was validated; and every operation of the repository that
  does not touch memberships.
\<close>

datatype staff_event =
    StOp auth_op
  | StRegister tx_fault auth_env uuid string string string string string
  | StCheck tx_fault uuid uuid
  | StRole tx_fault uuid uuid string
  | StStatus tx_fault uuid uuid bool

record staff_run =
  st_db :: auth_db
  st_checked :: "(uuid \<times> uuid) list"

fun membership_op :: "auth_op \<Rightarrow> bool" where
  "membership_op (ORegister f env t name email phone role hash) = True"
| "membership_op (ORole f t i role) = True"
| "membership_op (OStatus f t i active) = True"
| "membership_op _ = False"

fun exec_staff :: "staff_event \<Rightarrow> staff_run \<Rightarrow> staff_run" where
  "exec_staff (StOp x) c = (if membership_op x then c else c\<lparr>st_db := exec_auth x (st_db c)\<rparr>)"
| "exec_staff (StRegister f env t name email phone role hash) c =
     (if staffRole role then c\<lparr>st_db := exec_auth (ORegister f env t name email phone role hash) (st_db c)\<rparr> else c)"
| "exec_staff (StCheck f t i) c =
     (case repo_Member f t i (st_db c) of
        Inl _ \<Rightarrow> c
      | Inr m \<Rightarrow> if me_Role m = RoleOwner then c else c\<lparr>st_checked := (t, i) # st_checked c\<rparr>)"
| "exec_staff (StRole f t i role) c =
     (if (t, i) \<in> set (st_checked c) \<and> staffRole role then c\<lparr>st_db := exec_auth (ORole f t i role) (st_db c)\<rparr> else c)"
| "exec_staff (StStatus f t i active) c =
     (if (t, i) \<in> set (st_checked c) then c\<lparr>st_db := exec_auth (OStatus f t i active) (st_db c)\<rparr> else c)"

definition staff_inv :: "staff_run \<Rightarrow> bool" where
  "staff_inv c \<longleftrightarrow> auth_inv (st_db c) \<and> (\<forall>(t, i) \<in> set (st_checked c). not_owner (st_db c) t i)"

lemma membership_op_frame: "\<not> membership_op x \<Longrightarrow> memberships (exec_auth x d) = memberships d"
  by (cases x) simp_all

lemma exec_staff_owners: "staff_inv c \<Longrightarrow> owner_rows (st_db (exec_staff e c)) = owner_rows (st_db c)"
proof (cases e)
  case (StRole f t i role)
  then show "staff_inv c \<Longrightarrow> ?thesis"
    using update_member_owners [of "st_db c" t i "\<lambda>m. m\<lparr>mb_role := role\<rparr>" f] staffRole_not_owner [of role]
    by (auto simp: repo_ChangeMemberRole_def staff_inv_def)
next
  case (StStatus f t i active)
  then show "staff_inv c \<Longrightarrow> ?thesis"
    using update_member_owners [of "st_db c" t i "\<lambda>m. m\<lparr>mb_status := if active then ''active'' else ''inactive''\<rparr>" f]
    by (auto simp: repo_SetMemberStatus_def staff_inv_def)
qed (auto simp: repo_Register_owners membership_op_frame intro: owner_rows_memberships split: sum.splits)

lemma exec_staff_auth_inv: "auth_inv (st_db c) \<Longrightarrow> auth_inv (st_db (exec_staff e c))"
  by (cases e) (auto simp del: exec_auth.simps intro: exec_auth_inv split: sum.splits)

lemma exec_staff_inv:
  assumes "staff_inv c"
  shows "staff_inv (exec_staff e c)"
proof -
  have "not_owner (st_db (exec_staff e c)) t i" if "(t, i) \<in> set (st_checked c)" for t i
    using that assms exec_staff_owners [OF assms, of e] by (auto simp: staff_inv_def not_owner_def)
  moreover have "not_owner (st_db c) t i" if "(t, i) \<in> set (st_checked (exec_staff e c))" "(t, i) \<notin> set (st_checked c)" for t i
    using that assms repo_Member_not_owner
    by (cases e) (auto simp: staff_inv_def split: sum.splits if_splits)
  ultimately have "not_owner (st_db (exec_staff e c)) t i" if "(t, i) \<in> set (st_checked (exec_staff e c))" for t i
    using that exec_staff_owners [OF assms, of e] unfolding not_owner_def by metis
  then show ?thesis using assms exec_staff_auth_inv by (auto simp: staff_inv_def)
qed

interpretation staff: invariant_store exec_staff staff_inv "\<lparr>st_db = empty_auth_db, st_checked = []\<rparr>"
proof
  show "staff_inv \<lparr>st_db = empty_auth_db, st_checked = []\<rparr>" by (simp add: staff_inv_def auth_inv_empty)
qed (rule exec_staff_inv)

lemma owners_run:
  assumes "staff_inv c"
  shows "owner_rows (st_db (run_ops exec_staff evs c)) = owner_rows (st_db c)"
  using staff.stable_run [of "\<lambda>c'. owner_rows (st_db c') = owner_rows (st_db c)" "\<lambda>_. True" c evs] assms exec_staff_owners
  by (auto simp: list_all_iff)

section \<open>Requests\<close>

text \<open>What an operation of the repository leaves alone, as a rule for its result.\<close>

lemma frame_dest: "g (snd x) = v \<Longrightarrow> x = (r, d') \<Longrightarrow> g d' = v"
  by auto

lemmas login_frame = frame_dest [where g = memberships, OF repo_CreateSession_memberships]
lemmas claim_frame = frame_dest [where g = memberships, OF repo_Claim_frame(2)]
lemmas mark_frame = frame_dest [where g = memberships, OF finish_frame(2)]
lemmas activate_frame = frame_dest [where g = memberships, OF finish_frame(4)]
lemmas change_frame = frame_dest [where g = memberships, OF password_memberships(2)]
lemmas reset_frame = frame_dest [where g = memberships, OF password_memberships(3)]

lemma svc_Login_memberships [simp]: "memberships (snd (svc_Login s io t inp d)) = memberships d"
  by (auto simp: svc_Login_def Let_def split: option.splits sum.splits prod.splits dest: login_frame)

lemma svc_Logout_memberships [simp]: "memberships (snd (svc_Logout s f now t token d)) = memberships d"
  by (simp add: svc_Logout_def)

lemma svc_ChangePassword_memberships [simp]: "memberships (snd (svc_ChangePassword s io t p inp d)) = memberships d"
  by (auto simp: svc_ChangePassword_def split: option.splits sum.splits prod.splits dest: change_frame)

lemma forgot_active_memberships: "memberships (fst (snd (forgot_active s ml io t email i d w))) = memberships d"
  by (auto simp: forgot_active_def split: sum.splits prod.splits bool.splits dest: reset_frame)

lemma svc_ForgotPassword_memberships [simp]: "memberships (fst (snd (svc_ForgotPassword s io t value d w))) = memberships d"
  by (auto simp: svc_ForgotPassword_def forgot_active_memberships split: option.splits sum.splits)

text \<open>A registration and the updates of a member, seen through a function of the memberships that their
  transaction does not change.\<close>

lemma svc_Register_frame:
  assumes reg: "\<And>name email role hash. staffRole role \<Longrightarrow>
      g (memberships (snd (repo_Register (ao_f io 1) (ao_env io 1) t name email (ri_Phone inp) role hash d))) = g (memberships d)"
  shows "g (memberships (fst (snd (svc_Register s io t actor inp d w)))) = g (memberships d)"
proof -
  have role: "staffRole role" if "validateRegistration (av_X s) inp = Inr (name, email, role)" for name email role
    using that by (auto simp: validateRegistration_def Let_def split: if_splits option.splits)
  have reg': "g (memberships d') = g (memberships d)"
    if "staffRole role" "repo_Register (ao_f io 1) (ao_env io 1) t name email (ri_Phone inp) role hash d = (r, d')"
    for name email role hash r d'
    using reg [OF that(1), of name email hash] that(2) by simp
  have "g (memberships (fst (snd (register_existing s ml io t name email (ri_Phone inp) role v d w)))) = g (memberships d)"
    if "staffRole role" for ml name email role v
    using reg' [OF that, of name email "[]"]
    by (auto simp: register_existing_def split: sum.splits prod.splits bool.splits
        dest!: claim_frame mark_frame activate_frame)
  moreover have "g (memberships (fst (snd (register_new s ml io t name email (ri_Phone inp) role d w)))) = g (memberships d)"
    if "staffRole role" for ml name email role
    using reg' [OF that, of name email]
    by (auto simp: register_new_def split: sum.splits prod.splits bool.splits dest!: claim_frame mark_frame)
  ultimately show ?thesis using role
    by (auto simp: svc_Register_def split: sum.splits option.splits prod.splits)
qed

lemma svc_ChangeMemberRole_db:
  "snd (svc_ChangeMemberRole io t actor target role d) = d \<or>
   (\<exists>m. repo_Member (ao_f io 0) t target d = Inr m \<and> me_Role m \<noteq> RoleOwner \<and> staffRole role \<and>
      snd (svc_ChangeMemberRole io t actor target role d) =
        snd (update_member (ao_f io 1) (\<lambda>m. m\<lparr>mb_role := role\<rparr>) t target d))"
  by (auto simp: svc_ChangeMemberRole_def repo_ChangeMemberRole_def split: sum.splits prod.splits)

lemma svc_SetMemberStatus_db:
  "snd (svc_SetMemberStatus io t actor target active d) = d \<or>
   (\<exists>m. repo_Member (ao_f io 0) t target d = Inr m \<and> me_Role m \<noteq> RoleOwner \<and>
      snd (svc_SetMemberStatus io t actor target active d) =
        snd (update_member (ao_f io 1) (\<lambda>m. m\<lparr>mb_status := (if active then ''active'' else ''inactive'')\<rparr>) t target d))"
  by (auto simp: svc_SetMemberStatus_def repo_SetMemberStatus_def split: sum.splits prod.splits)

lemma svc_member_owners:
  assumes "auth_inv d"
  shows "owner_rows (snd (svc_ChangeMemberRole io t actor target role d)) = owner_rows d"
    and "owner_rows (snd (svc_SetMemberStatus io t actor target active d)) = owner_rows d"
    and "owner_rows (fst (snd (svc_Register s io t actor inp d w))) = owner_rows d"
proof -
  show "owner_rows (snd (svc_ChangeMemberRole io t actor target role d)) = owner_rows d"
    using svc_ChangeMemberRole_db [of io t actor target role d] assms repo_Member_not_owner staffRole_not_owner
      update_member_owners [of d t target "\<lambda>m. m\<lparr>mb_role := role\<rparr>" "ao_f io 1"]
    by (elim disjE exE) auto
  show "owner_rows (snd (svc_SetMemberStatus io t actor target active d)) = owner_rows d"
    using svc_SetMemberStatus_db [of io t actor target active d] assms repo_Member_not_owner
      update_member_owners [of d t target "\<lambda>m. m\<lparr>mb_status := (if active then ''active'' else ''inactive'')\<rparr>" "ao_f io 1"]
    by (elim disjE exE) auto
  show "owner_rows (fst (snd (svc_Register s io t actor inp d w))) = owner_rows d"
    using svc_Register_frame [of "filter (\<lambda>m. mb_role m = RoleOwner)" io t inp d s actor w] repo_Register_owners
    by (simp add: owner_rows_def)
qed

lemma svc_member_view:
  assumes "t' \<noteq> t"
  shows "filter (\<lambda>m. mb_tenant m = t') (memberships (snd (svc_ChangeMemberRole io t actor target role d))) =
      filter (\<lambda>m. mb_tenant m = t') (memberships d)"
    and "filter (\<lambda>m. mb_tenant m = t') (memberships (snd (svc_SetMemberStatus io t actor target active d))) =
      filter (\<lambda>m. mb_tenant m = t') (memberships d)"
    and "filter (\<lambda>m. mb_tenant m = t') (memberships (fst (snd (svc_Register s io t actor inp d w)))) =
      filter (\<lambda>m. mb_tenant m = t') (memberships d)"
proof -
  note ne = assms [symmetric]
  show "filter (\<lambda>m. mb_tenant m = t') (memberships (snd (svc_ChangeMemberRole io t actor target role d))) =
      filter (\<lambda>m. mb_tenant m = t') (memberships d)"
    using svc_ChangeMemberRole_db [of io t actor target role d] by (elim disjE exE) (simp_all add: update_member_view [OF ne])
  show "filter (\<lambda>m. mb_tenant m = t') (memberships (snd (svc_SetMemberStatus io t actor target active d))) =
      filter (\<lambda>m. mb_tenant m = t') (memberships d)"
    using svc_SetMemberStatus_db [of io t actor target active d] by (elim disjE exE) (simp_all add: update_member_view [OF ne])
  show "filter (\<lambda>m. mb_tenant m = t') (memberships (fst (snd (svc_Register s io t actor inp d w)))) =
      filter (\<lambda>m. mb_tenant m = t') (memberships d)"
    by (rule svc_Register_frame) (rule repo_Register_view [OF ne])
qed

text \<open>The database after a service call of the administration of members by the principal \<open>p\<close>.\<close>

definition member_call ::
  "'w auth_handler \<Rightarrow> auth_call \<Rightarrow> uuid \<Rightarrow> auth_principal \<Rightarrow> auth_db \<Rightarrow> 'w \<Rightarrow> auth_db \<Rightarrow> bool" where
  "member_call h k t p d w d' \<longleftrightarrow>
     (\<exists>inp. d' = fst (snd (svc_Register (ah_service h) (al_io k) t p inp d w))) \<or>
     (\<exists>i role. d' = snd (svc_ChangeMemberRole (al_io k) t p i role d)) \<or>
     (\<exists>i active. d' = snd (svc_SetMemberStatus (al_io k) t p i active d))"

definition request_session :: "'w auth_handler \<Rightarrow> auth_call \<Rightarrow> fiber_ctx \<Rightarrow> auth_db \<Rightarrow> (uuid \<times> auth_principal) option" where
  "request_session h k c d = (case trustedContext h c of
     None \<Rightarrow> None
   | Some t \<Rightarrow> (case svc_Current (ah_service h) (fst (al_session k)) (snd (al_session k)) (TenantID t) (session_token h c) d of
       Inl _ \<Rightarrow> None | Inr p \<Rightarrow> Some (TenantID t, p)))"

lemma with_limit_db:
  "(\<exists>n y'. with_limit h k op c next y = status_only n y' \<and> ay_db y' = ay_db y \<and> ay_world y' = ay_world y) \<or>
   (\<exists>t y'. trustedContext h c = Some t \<and> with_limit h k op c next y = next t y' \<and> ay_db y' = ay_db y \<and> ay_world y' = ay_world y)"
proof (cases "trustedContext h c")
  case None
  then show ?thesis by (auto simp: with_limit_def)
next
  case (Some t)
  obtain r y' where r: "limited h k t op y = (r, y')" by fastforce
  then have "ay_db y' = ay_db y" "ay_world y' = ay_world y"
    by (auto simp: limited_def split: if_splits prod.splits)
  then show ?thesis using Some r by (cases r) (auto simp: with_limit_def split: bool.splits)
qed

text \<open>A handler behind the limit changes the database as its inner part does.\<close>

lemma with_limit_P:
  assumes "P (ay_db y)"
    and "\<And>t y'. trustedContext h c = Some t \<Longrightarrow> ay_db y' = ay_db y \<Longrightarrow> ay_world y' = ay_world y \<Longrightarrow> P (ay_db (snd (next t y')))"
  shows "P (ay_db (snd (with_limit h k op c next y)))"
  using with_limit_db [of h k op c "next" y] assms by (auto simp: status_only_def)

lemma owner_only_db:
  "(\<exists>r. owner_only h k c next y = (r, y)) \<or>
   (\<exists>t p. request_session h k c (ay_db y) = Some (TenantID t, p) \<and> trustedContext h c = Some t \<and>
      \<not> pn_MustChangePassword p \<and> pn_Role p = RoleOwner \<and> owner_only h k c next y = next p y)"
proof (cases "trustedContext h c")
  case (Some t)
  then show ?thesis
    by (cases "svc_Current (ah_service h) (fst (al_session k)) (snd (al_session k)) (TenantID t) (session_token h c) (ay_db y)")
      (auto simp: owner_only_def auth_Authenticate_def RequireCurrentPassword_def RequireRoles_def request_session_def
        status_only_def)
qed (simp add: owner_only_def auth_Authenticate_def status_only_def)

lemmas svc_login_frame = frame_dest [where g = memberships, OF svc_Login_memberships]
lemmas svc_logout_frame = frame_dest [where g = memberships, OF svc_Logout_memberships]
lemmas svc_change_frame = frame_dest [where g = memberships, OF svc_ChangePassword_memberships]

lemma svc_forgot_frame: "svc_ForgotPassword s io t value d w = (e, d', w') \<Longrightarrow> memberships d' = memberships d"
  using svc_ForgotPassword_memberships [of s io t "value" d w] by simp

lemma auth_login_db: "memberships (ay_db (snd (auth_login h k c y))) = memberships (ay_db y)"
  unfolding auth_login_def
  by (rule with_limit_P) (auto simp: status_only_def split: option.splits prod.splits sum.splits dest: svc_login_frame)

lemma auth_forgot_db: "memberships (ay_db (snd (auth_forgotPassword h k c y))) = memberships (ay_db y)"
  unfolding auth_forgotPassword_def
  by (rule with_limit_P) (auto simp: status_only_def split: option.splits prod.splits dest: svc_forgot_frame)

lemma member_call_intros:
  "svc_Register (ah_service h) (al_io k) t p inp d w = (r, d', w') \<Longrightarrow> member_call h k t p d w d'"
  "svc_ChangeMemberRole (al_io k) t p i role d = (m, d') \<Longrightarrow> member_call h k t p d w d'"
  "svc_SetMemberStatus (al_io k) t p i active d = (m, d') \<Longrightarrow> member_call h k t p d w d'"
  unfolding member_call_def by (metis fst_conv snd_conv)+

lemma member_handlers_db:
  assumes "trustedContext h c = Some t"
  shows "ay_db (snd (auth_register h k c p y)) = ay_db y \<or>
      member_call h k (TenantID t) p (ay_db y) (ay_world y) (ay_db (snd (auth_register h k c p y)))"
    and "ay_db (snd (auth_changeMemberRole h k c p y)) = ay_db y \<or>
      member_call h k (TenantID t) p (ay_db y) (ay_world y) (ay_db (snd (auth_changeMemberRole h k c p y)))"
    and "ay_db (snd (auth_setMemberStatus h k c p active y)) = ay_db y \<or>
      member_call h k (TenantID t) p (ay_db y) (ay_world y) (ay_db (snd (auth_setMemberStatus h k c p active y)))"
proof -
  show "ay_db (snd (auth_register h k c p y)) = ay_db y \<or>
      member_call h k (TenantID t) p (ay_db y) (ay_world y) (ay_db (snd (auth_register h k c p y)))"
    unfolding auth_register_def
    by (rule with_limit_P)
      (use assms in \<open>auto simp: status_only_def split: option.splits prod.splits sum.splits dest: member_call_intros(1)\<close>)
  show "ay_db (snd (auth_changeMemberRole h k c p y)) = ay_db y \<or>
      member_call h k (TenantID t) p (ay_db y) (ay_world y) (ay_db (snd (auth_changeMemberRole h k c p y)))"
    using assms by (auto simp: auth_changeMemberRole_def member_answer_def status_only_def
        split: option.splits prod.splits sum.splits dest: member_call_intros(2))
  show "ay_db (snd (auth_setMemberStatus h k c p active y)) = ay_db y \<or>
      member_call h k (TenantID t) p (ay_db y) (ay_world y) (ay_db (snd (auth_setMemberStatus h k c p active y)))"
    using assms by (auto simp: auth_setMemberStatus_def member_answer_def status_only_def
        split: option.splits prod.splits sum.splits dest: member_call_intros(3))
qed

lemma plain_routes_db:
  "memberships (ay_db (snd (auth_logout h k c y))) = memberships (ay_db y)"
  "memberships (ay_db (snd (auth_changePassword h k c p y))) = memberships (ay_db y)"
  "ay_db (snd (auth_barberEligibility h k c y)) = ay_db y"
  "ay_db (snd (auth_platformOwners h k c y)) = ay_db y"
  "ay_db (snd (auth_members h k c y)) = ay_db y"
  "ay_db (snd (auth_member h k c y)) = ay_db y"
  by (auto simp: auth_logout_def auth_changePassword_def auth_barberEligibility_def auth_platformOwners_def auth_members_def
      auth_member_def status_only_def split: option.splits prod.splits sum.splits dest: svc_logout_frame svc_change_frame)

lemma auth_Authenticate_P:
  "P (ay_db y) \<Longrightarrow> (\<And>p. P (ay_db (snd (next p y)))) \<Longrightarrow> P (ay_db (snd (auth_Authenticate h k c next y)))"
  by (auto simp: auth_Authenticate_def status_only_def split: option.splits sum.splits)

text \<open>A request leaves the memberships as they were, or is a call of the administration by an owner.\<close>

lemma auth_serve_db:
  "memberships (ay_db (snd (auth_serve h rt k c y))) = memberships (ay_db y) \<or>
   (\<exists>t p. request_session h k c (ay_db y) = Some (t, p) \<and> \<not> pn_MustChangePassword p \<and> pn_Role p = RoleOwner \<and>
      member_call h k t p (ay_db y) (ay_world y) (ay_db (snd (auth_serve h rt k c y))))"
proof -
  have owner: ?thesis
    if "auth_serve h rt k c y = owner_only h k c nxt y"
      and "\<And>t p. trustedContext h c = Some t \<Longrightarrow> ay_db (snd (nxt p y)) = ay_db y \<or>
        member_call h k (TenantID t) p (ay_db y) (ay_world y) (ay_db (snd (nxt p y)))" for nxt
    using owner_only_db [of h k c nxt y] that by (elim disjE exE) (auto, metis)
  show ?thesis
  proof (cases rt)
    case RtRegister
    then show ?thesis by (intro owner [where nxt = "auth_register h k c"]) (simp, rule member_handlers_db(1))
  next
    case RtRole
    then show ?thesis by (intro owner [where nxt = "auth_changeMemberRole h k c"]) (simp, rule member_handlers_db(2))
  next
    case RtActivate
    then show ?thesis by (intro owner [where nxt = "\<lambda>p. auth_setMemberStatus h k c p True"]) (simp, rule member_handlers_db(3))
  next
    case RtDeactivate
    then show ?thesis by (intro owner [where nxt = "\<lambda>p. auth_setMemberStatus h k c p False"]) (simp, rule member_handlers_db(3))
  next
    case RtMembers
    then show ?thesis by (intro owner [where nxt = "\<lambda>_. auth_members h k c"]) (simp_all add: plain_routes_db)
  next
    case RtMember
    then show ?thesis by (intro owner [where nxt = "\<lambda>_. auth_member h k c"]) (simp_all add: plain_routes_db)
  next
    case RtMe
    then show ?thesis using auth_Authenticate_P [of "\<lambda>d. memberships d = memberships (ay_db y)" y] by simp
  next
    case RtChangePassword
    then show ?thesis
      using auth_Authenticate_P [of "\<lambda>d. memberships d = memberships (ay_db y)" y "auth_changePassword h k c"]
      by (simp add: plain_routes_db)
  qed (simp_all add: auth_login_db auth_forgot_db plain_routes_db)
qed

text \<open>(C28)
  A request changes memberships only as an administration call of an owner: its context is trusted and of the admin
  application, its cookie holds a token whose session is live in that tenant for an active identity that is an active
  OWNER there and has no password change pending, and the memberships of every other tenant stay as they were.
\<close>

theorem staff_changes_authorized:
  assumes "auth_inv (ay_db y)"
    and "memberships (ay_db (snd (auth_serve h rt k c y))) \<noteq> memberships (ay_db y)"
  shows "\<exists>t p digest. trustedContext h c = Some t \<and> tokenDigest (ah_service h) (session_token h c) = Some digest \<and>
    session_stands (snd (al_session k)) (TenantID t) digest (ay_db y) p \<and> pn_Role p = RoleOwner \<and> \<not> pn_MustChangePassword p \<and>
    (\<forall>t'. t' \<noteq> TenantID t \<longrightarrow> filter (\<lambda>m. mb_tenant m = t') (memberships (ay_db (snd (auth_serve h rt k c y)))) =
       filter (\<lambda>m. mb_tenant m = t') (memberships (ay_db y)))"
proof -
  obtain tid p where req: "request_session h k c (ay_db y) = Some (tid, p)" "\<not> pn_MustChangePassword p" "pn_Role p = RoleOwner"
    and call: "member_call h k tid p (ay_db y) (ay_world y) (ay_db (snd (auth_serve h rt k c y)))"
    using auth_serve_db [of h rt k c y] assms(2) by blast
  from req(1) obtain t where t: "trustedContext h c = Some t" "tid = TenantID t"
    "svc_Current (ah_service h) (fst (al_session k)) (snd (al_session k)) (TenantID t) (session_token h c) (ay_db y) = Inr p"
    by (auto simp: request_session_def split: option.splits sum.splits)
  have "filter (\<lambda>m. mb_tenant m = t') (memberships (ay_db (snd (auth_serve h rt k c y)))) =
      filter (\<lambda>m. mb_tenant m = t') (memberships (ay_db y))" if "t' \<noteq> TenantID t" for t'
    using call svc_member_view [OF that] unfolding member_call_def t(2) by (elim disjE exE) simp_all
  then show ?thesis using t(1,3) req(2,3) unfolding svc_Current_iff [OF assms(1)] by blast
qed

text \<open>(C29)
  No request creates, demotes, deactivates or otherwise changes an owner: the rows of owners are the same after
  every request, and after any interleaving of the halves of service calls, in which a target found not to be an
  owner is updated only after other requests have run.
\<close>

theorem owners_fixed:
  assumes "auth_inv (ay_db y)"
  shows "owner_rows (ay_db (snd (auth_serve h rt k c y))) = owner_rows (ay_db y) \<and>
    owner_rows (st_db (run_ops exec_staff evs \<lparr>st_db = ay_db y, st_checked = []\<rparr>)) = owner_rows (ay_db y)"
proof
  show "owner_rows (ay_db (snd (auth_serve h rt k c y))) = owner_rows (ay_db y)"
    using auth_serve_db [of h rt k c y] svc_member_owners [OF assms]
    unfolding member_call_def by (elim disjE exE conjE) (auto intro: owner_rows_memberships)
  have "staff_inv \<lparr>st_db = ay_db y, st_checked = []\<rparr>" using assms by (simp add: staff_inv_def)
  from owners_run [OF this, of evs]
  show "owner_rows (st_db (run_ops exec_staff evs \<lparr>st_db = ay_db y, st_checked = []\<rparr>)) = owner_rows (ay_db y)" by simp
qed

end
