(* ===== verification/Auth_Delivery.thy ===== *)
theory Auth_Delivery
  imports Auth_Staff
begin

text \<open>
  The delivery of initial passwords: what is stored once a registration reports that credentials were sent, and
  what happens to an identity that registers again while no delivery has succeeded.
\<close>

section \<open>Credentials through the operations of a registration\<close>

lemma find_credential_map:
  assumes "\<And>c. cr_identity (upd c) = cr_identity c" and "credentials d' = map (\<lambda>c. if P c then upd c else c) (credentials d)"
  shows "find_credential i d' = map_option (\<lambda>c. if P c then upd c else c) (find_credential i d)"
  unfolding find_credential_def assms(2) by (rule find_map_update) (simp add: assms(1))

lemma repo_Register_credential:
  assumes inv: "auth_inv d" and reg: "repo_Register f env t name email phone role hash d = (Inr v, d')"
  obtains (existing) r where "\<not> rg_CreatedIdentity v" "find_identity email d = Some r" "rg_IdentityID v = ai_id r"
      "credentials d' = credentials d"
  | (fresh) "rg_CreatedIdentity v" "find_credential (rg_IdentityID v) d' = Some (new_credential env hash)"
  using reg
proof (rule repo_RegisterD)
  fix i created d1
  assume id: "register_identity env name email phone hash d = Inr (i, created, d1)"
    and ins: "sql_insert_membership t \<lparr>mb_tenant = t, mb_identity = i, mb_role = role, mb_status = ''active'',
      mb_created = ae_now env\<rparr> d1 = Inr (rg_CreatedMembership v, d')"
    and v: "rg_IdentityID v = i" "rg_CreatedIdentity v = created"
  have same: "credentials d' = credentials d1" using sql_insert_membership_frame [OF ins] by simp
  from id show ?thesis
  proof (cases rule: register_identityD)
    case (existing r)
    then show ?thesis using that(1) v same by simp
  next
    case fresh
    have "auth_inv d1" using register_identity_inv [OF inv id] by simp
    then have "find_credential i d1 = Some (new_credential env hash)"
      using fresh(2,6) by (simp add: find_credential_iff) (simp add: new_credential_def)
    then show ?thesis using that(2) v fresh(1) same by (simp add: find_credential_def)
  qed
qed

lemma repo_Claim_credential:
  assumes "repo_ClaimInitialDelivery f env i d = (Inr (claim, claimed), d')"
  shows "f = NoFault \<and> claim = ae_id env \<and> find_credential j d' = map_option (\<lambda>c. if cr_identity c = i \<and> delivery_claimable (ae_now env) c
    then c\<lparr>cr_status := ''sending'', cr_claim := Some (ae_id env), cr_until := Some (ae_now env + delivery_lease)\<rparr> else c) (find_credential j d)"
proof -
  have "f = NoFault" "claim = ae_id env" "credentials d' = map (\<lambda>c. if cr_identity c = i \<and> delivery_claimable (ae_now env) c
    then c\<lparr>cr_status := ''sending'', cr_claim := Some (ae_id env), cr_until := Some (ae_now env + delivery_lease)\<rparr> else c) (credentials d)"
    using assms by (auto simp: repo_ClaimInitialDelivery_def pool_exec_ok Let_def)
  then show ?thesis using find_credential_map
      [of "\<lambda>c. c\<lparr>cr_status := ''sending'', cr_claim := Some (ae_id env), cr_until := Some (ae_now env + delivery_lease)\<rparr>"] by simp
qed

text \<open>A finished delivery: the row that held the claim, changed.\<close>

lemma sql_finish_credential:
  assumes "auth_inv d" and "sql_finish_delivery hit upd d = Inr (u, d')" and "\<And>c. cr_identity (upd c) = cr_identity c"
    and "\<And>c. hit c \<Longrightarrow> cr_identity c = i"
  obtains c where "find_credential i d = Some c" "hit c"
    "find_credential i d' = Some ((upd c)\<lparr>cr_attempts := cr_attempts c + 1, cr_claim := None, cr_until := None\<rparr>)"
proof -
  have rows: "list_ex hit (credentials d)" "credentials d' = map (\<lambda>c. if hit c
      then (upd c)\<lparr>cr_attempts := cr_attempts c + 1, cr_claim := None, cr_until := None\<rparr> else c) (credentials d)"
    using assms(2) by (auto simp: sql_finish_delivery_def split: if_splits)
  from rows(1) obtain c where "c \<in> set (credentials d)" "hit c" by (auto simp: list_ex_iff)
  then have c: "find_credential i d = Some c" "hit c" using find_credential_iff [OF assms(1)] assms(4) by auto
  moreover have "find_credential i d' = map_option (\<lambda>c. if hit c
      then (upd c)\<lparr>cr_attempts := cr_attempts c + 1, cr_claim := None, cr_until := None\<rparr> else c) (find_credential i d)"
    using rows(2) assms(3) by (intro find_credential_map) auto
  ultimately show ?thesis using that by simp
qed

lemma mark_sent_credential:
  assumes "auth_inv d" and "mark_delivery f i claim True d = (Inr u, d')"
  obtains c where "find_credential i d = Some c"
    "find_credential i d' = Some (c\<lparr>cr_status := ''sent'', cr_error := None, cr_attempts := cr_attempts c + 1,
       cr_claim := None, cr_until := None\<rparr>)"
proof -
  have "sql_finish_delivery (\<lambda>c. cr_identity c = i \<and> cr_claim c = Some claim)
      (\<lambda>c. c\<lparr>cr_status := ''sent'', cr_error := nullif []\<rparr>) d = Inr (u, d')"
    using assms(2) by (simp add: mark_delivery_def repo_MarkInitialDelivery_def pool_exec_ok)
  then show ?thesis
    by (rule sql_finish_credential [OF assms(1), where i = i]) (auto simp: nullif_def intro: that)
qed

lemma activate_credential:
  assumes "auth_inv d" and "repo_ActivateRetriedCredential f i claim hash d = (Inr u, d')"
  obtains c where "find_credential i d = Some c"
    "find_credential i d' = Some (c\<lparr>cr_hash := hash, cr_must_change := True, cr_status := ''sent'', cr_error := None,
       cr_attempts := cr_attempts c + 1, cr_claim := None, cr_until := None\<rparr>)"
proof -
  have "sql_finish_delivery (\<lambda>c. cr_identity c = i \<and> cr_claim c = Some claim \<and> cr_status c = ''sending'')
      (\<lambda>c. c\<lparr>cr_hash := hash, cr_must_change := True, cr_status := ''sent'', cr_error := None\<rparr>) d = Inr (u, d')"
    using assms(2) by (simp add: repo_ActivateRetriedCredential_def pool_exec_ok)
  then show ?thesis
    by (rule sql_finish_credential [OF assms(1), where i = i]) (auto intro: that)
qed

section \<open>The mailed password\<close>

text \<open>The address accepted a mail with the password, whose hash is stored.\<close>

definition delivered ::
  "'w auth_service \<Rightarrow> auth_io \<Rightarrow> string \<Rightarrow> uuid \<Rightarrow> auth_db \<Rightarrow> 'w \<Rightarrow> 'w \<Rightarrow> bool" where
  "delivered s io email i d' w w' \<longleftrightarrow> (\<exists>ml bytes c. av_email s = Some ml \<and> ao_rand io 18 = Some bytes \<and>
     send_mail ml (initialPasswordMessage (av_X s) email (EncodeToString bytes) i) w = (True, w') \<and>
     find_credential i d' = Some c \<and> Some (cr_hash c) = ao_hash io (EncodeToString bytes) \<and> cr_must_change c \<and>
     cr_status c = ''sent'' \<and> cr_claim c = None)"

lemma register_new_delivered:
  assumes inv: "auth_inv d" and ml: "av_email s = Some ml"
    and reg: "register_new s ml io t name email phone role d w = (Inr r, d', w')" and "rn_CredentialScheduled r"
  shows "delivered s io email (rn_IdentityID r) d' w w'"
proof -
  let ?reg = "repo_Register (ao_f io 1) (ao_env io 1) t name email phone role"
  obtain bytes where rand: "ao_rand io 18 = Some bytes"
    using reg by (cases "ao_rand io 18") (simp_all add: register_new_def newPassword_def)
  obtain hash where hash: "ao_hash io (EncodeToString bytes) = Some hash"
    using reg rand by (cases "ao_hash io (EncodeToString bytes)") (simp_all add: register_new_def newPassword_def hashPassword_def)
  note pw = rand hash and unfold = register_new_def newPassword_def hashPassword_def rand hash
  obtain v d1 where v: "?reg hash d = (Inr v, d1)"
    using reg by (cases "?reg hash d"; cases "fst (?reg hash d)") (simp_all add: unfold)
  have new: "rg_CreatedIdentity v" using reg v assms(4) by (auto simp: unfold registration_of_def split: if_splits)
  let ?cl = "repo_ClaimInitialDelivery (ao_f io 2) (ao_env io 2) (rg_IdentityID v) d1"
  obtain claim claimed d2 where "?cl = (Inr (claim, claimed), d2)"
    using reg v new by (cases ?cl; cases "fst ?cl") (auto simp: unfold)
  with reg v new have cl: "?cl = (Inr (claim, True), d2)" by (cases claimed) (simp_all add: unfold)
  let ?send = "send_mail ml (initialPasswordMessage (av_X s) email (EncodeToString bytes) (rg_IdentityID v)) w"
  obtain w1 where sent: "?send = (True, w1)"
    using reg v new cl by (cases ?send; cases "fst ?send") (simp_all add: unfold)
  let ?fin = "mark_delivery (ao_f io 3) (rg_IdentityID v) claim True d2"
  obtain u where fin: "?fin = (Inr u, d')" "w' = w1" "r = registration_of v True"
    using reg v new cl sent by (cases ?fin; cases "fst ?fin") (simp_all add: unfold)
  have inv1: "auth_inv d1" using repo_Register_inv [OF inv] v by (metis snd_conv)
  then have inv2: "auth_inv d2" using repo_ClaimInitialDelivery_inv cl by (metis snd_conv)
  have "find_credential (rg_IdentityID v) d1 = Some (new_credential (ao_env io 1) hash)"
    using repo_Register_credential [OF inv v] new by blast
  then obtain c where c: "find_credential (rg_IdentityID v) d2 = Some c" "cr_hash c = hash" "cr_must_change c"
    using repo_Claim_credential [OF cl, of "rg_IdentityID v"] by (auto simp: new_credential_def split: if_splits)
  obtain c' where "find_credential (rg_IdentityID v) d2 = Some c'"
    "find_credential (rg_IdentityID v) d' = Some (c'\<lparr>cr_status := ''sent'', cr_error := None,
       cr_attempts := cr_attempts c' + 1, cr_claim := None, cr_until := None\<rparr>)"
    using inv2 fin(1) by (rule mark_sent_credential)
  then show ?thesis using ml pw sent fin c by (auto simp: delivered_def registration_of_def)
qed

lemma register_existing_delivered:
  assumes inv: "auth_inv d" and ml: "av_email s = Some ml"
    and reg: "register_existing s ml io t name email phone role existing d w = (Inr r, d', w')" and "rn_CredentialScheduled r"
  shows "delivered s io email (rn_IdentityID r) d' w w'"
proof -
  let ?reg = "repo_Register (ao_f io 1) (ao_env io 1) t name email phone role [] d"
  obtain v d1 where v: "?reg = (Inr v, d1)"
    using reg by (cases ?reg; cases "fst ?reg") (simp_all add: register_existing_def)
  have open_delivery: "cv_DeliveryStatus existing \<noteq> ''sent''"
    using reg v assms(4) by (auto simp: register_existing_def registration_of_def split: if_splits)
  note unfold = register_existing_def newPassword_def hashPassword_def open_delivery
  let ?cl = "repo_ClaimInitialDelivery (ao_f io 2) (ao_env io 2) (rg_IdentityID v) d1"
  obtain claim claimed d2 where "?cl = (Inr (claim, claimed), d2)"
    using reg v by (cases ?cl; cases "fst ?cl") (auto simp: unfold)
  with reg v have cl: "?cl = (Inr (claim, True), d2)" by (cases claimed) (simp_all add: unfold)
  obtain bytes where rand: "ao_rand io 18 = Some bytes"
    using reg v cl by (cases "ao_rand io 18") (simp_all add: unfold)
  obtain hash where hash: "ao_hash io (EncodeToString bytes) = Some hash"
    using reg v cl rand by (cases "ao_hash io (EncodeToString bytes)") (simp_all add: unfold)
  let ?send = "send_mail ml (initialPasswordMessage (av_X s) email (EncodeToString bytes) (rg_IdentityID v)) w"
  obtain w1 where sent: "?send = (True, w1)"
    using reg v cl rand hash by (cases ?send; cases "fst ?send") (simp_all add: unfold)
  let ?fin = "repo_ActivateRetriedCredential (ao_f io 3) (rg_IdentityID v) claim hash d2"
  obtain u where fin: "?fin = (Inr u, d')" "w' = w1" "r = registration_of v True"
    using reg v cl rand hash sent by (cases ?fin; cases "fst ?fin") (simp_all add: unfold)
  have "auth_inv d1" using repo_Register_inv [OF inv] v by (metis snd_conv)
  then have inv2: "auth_inv d2" using repo_ClaimInitialDelivery_inv cl by (metis snd_conv)
  obtain c where "find_credential (rg_IdentityID v) d' = Some (c\<lparr>cr_hash := hash, cr_must_change := True,
       cr_status := ''sent'', cr_error := None, cr_attempts := cr_attempts c + 1, cr_claim := None, cr_until := None\<rparr>)"
    using inv2 fin(1) by (rule activate_credential)
  then show ?thesis using ml rand hash sent fin by (auto simp: delivered_def registration_of_def)
qed

text \<open>
  When a registration reports that credentials were sent, the mail provider accepted a mail to the registered
  address that holds the generated password, and the stored hash is the hash of that password, marked to be changed
  at the first login; the delivery is closed and its claim released. So the mailed password is the one that works.
\<close>

theorem mailed_password_stored:
  assumes "auth_inv d" and "svc_Register s io t actor inp d w = (Inr r, d', w')" and "rn_CredentialScheduled r"
  shows "delivered s io (ToLower (TrimSpace (ri_Email inp))) (rn_IdentityID r) d' w w'"
proof -
  let ?val = "validateRegistration (av_X s) inp"
  obtain name email role where val: "?val = Inr (name, email, role)"
    using assms(2) by (cases ?val) (auto simp: svc_Register_def split: if_splits)
  then have email: "email = ToLower (TrimSpace (ri_Email inp))"
    by (auto simp: validateRegistration_def normalizeEmail_def Let_def split: option.splits if_splits)
  obtain ml where ml: "av_email s = Some ml"
    using assms(2) val by (cases "av_email s") (auto simp: svc_Register_def split: if_splits)
  show ?thesis
  proof (cases "CredentialByEmail (ao_f io 0) email d")
    case (Inl e)
    then have "register_new s ml io t name email (ri_Phone inp) role d w = (Inr r, d', w')"
      using assms(2) val ml by (auto simp: svc_Register_def split: if_splits)
    then show ?thesis using register_new_delivered [OF assms(1) ml] assms(3) email by blast
  next
    case (Inr v)
    then have "register_existing s ml io t name email (ri_Phone inp) role v d w = (Inr r, d', w')"
      using assms(2) val ml by (auto simp: svc_Register_def split: if_splits)
    then show ?thesis using register_existing_delivered [OF assms(1) ml] assms(3) email by blast
  qed
qed

section \<open>Registering an identity again\<close>

lemma find_identity_member:
  "find_identity email d = Some r \<Longrightarrow> r \<in> set (identities d) \<and> same_email (ai_email r) (Some email)"
  unfolding find_identity_def by (rule find_SomeD)

lemma register_identity_existing:
  assumes "find_identity email d = Some r" and "1 \<le> RuneCountInString name" and "RuneCountInString name \<le> 200"
    and "phone = [] \<or> phone_e164 phone"
  shows "register_identity env name email phone hash d = Inr (ai_id r, False, d)"
proof -
  let ?new = "\<lparr>ai_id = ae_id env, ai_name = Some name, ai_email = Some email, ai_phone = nullif phone, ai_status = ''active''\<rparr>"
  have "identity_conflict ?new r"
    using find_identity_member [OF assms(1)] by (auto simp: identity_conflict_def same_email_def split: option.splits)
  then have "list_ex (identity_conflict ?new) (identities d)"
    using find_identity_member [OF assms(1)] by (auto simp: list_ex_iff)
  moreover have "identity_checks ?new" using assms(2-4) by (auto simp: identity_checks_def nullif_def)
  ultimately show ?thesis using assms(1) by (simp add: register_identity_def sql_insert_identity_def)
qed

lemma sql_insert_membership_accepts:
  assumes "Role_Valid role" and "identity_exists d i"
  obtains b d' m where "sql_insert_membership t \<lparr>mb_tenant = t, mb_identity = i, mb_role = role, mb_status = ''active'',
      mb_created = now\<rparr> d = Inr (b, d')"
    "find (same_member t i) (memberships d') = Some m" "credentials d' = credentials d"
proof (cases "list_ex (same_member t i) (memberships d)")
  case True
  then obtain m where "find (same_member t i) (memberships d) = Some m"
    using find_is_Some by (fastforce simp: list_ex_iff)
  then show ?thesis using True assms that [of False d m] by (simp add: sql_insert_membership_def)
next
  case False
  let ?m = "\<lparr>mb_tenant = t, mb_identity = i, mb_role = role, mb_status = ''active'', mb_created = now\<rparr>"
  obtain m where "find (same_member t i) (memberships d @ [?m]) = Some m"
    using find_is_Some [of ?m "memberships d @ [?m]" "same_member t i"] by (auto simp: same_member_def)
  then show ?thesis using False assms that by (simp add: sql_insert_membership_def)
qed

lemma repo_Register_existing:
  assumes "find_identity email d = Some r" and "1 \<le> RuneCountInString name" and "RuneCountInString name \<le> 200"
    and "phone = [] \<or> phone_e164 phone" and "staffRole role"
  obtains v d' where "repo_Register NoFault env t name email phone role hash d = (Inr v, d')"
    "rg_IdentityID v = ai_id r" "credentials d' = credentials d"
proof -
  have "identity_exists d (ai_id r)" "Role_Valid role"
    using find_identity_member [OF assms(1)] assms(5) by (auto simp: identity_exists_iff staffRole_def Role_Valid_def)
  then obtain b d' m where "sql_insert_membership t \<lparr>mb_tenant = t, mb_identity = ai_id r, mb_role = role,
      mb_status = ''active'', mb_created = ae_now env\<rparr> d = Inr (b, d')"
    "find (same_member t (ai_id r)) (memberships d') = Some m" "credentials d' = credentials d"
    using sql_insert_membership_accepts by blast
  then show ?thesis using that register_identity_existing [OF assms(1-4)]
    by (simp add: repo_Register_def WithTenantTx_ok)
qed

lemma claim_then_activate:
  assumes inv: "auth_inv d" and c: "find_credential i d = Some c" "cr_status c = ''failed''"
  obtains d2 where "repo_ClaimInitialDelivery NoFault env i d = (Inr (ae_id env, True), d2)"
    "\<exists>d3 c'. repo_ActivateRetriedCredential NoFault i (ae_id env) hash d2 = (Inr (), d3) \<and>
      find_credential i d3 = Some c' \<and> cr_hash c' = hash \<and> cr_must_change c'"
proof -
  have mem: "c \<in> set (credentials d)" "cr_identity c = i" using c find_credential_iff [OF inv] by auto
  then have "list_ex (\<lambda>c. cr_identity c = i \<and> delivery_claimable (ae_now env) c) (credentials d)"
    using c(2) by (auto simp: list_ex_iff delivery_claimable_def)
  then obtain d2 where cl: "repo_ClaimInitialDelivery NoFault env i d = (Inr (ae_id env, True), d2)"
    by (simp add: repo_ClaimInitialDelivery_def pool_exec_def Let_def)
  have inv2: "auth_inv d2" using repo_ClaimInitialDelivery_inv [OF inv] cl by (metis snd_conv)
  obtain c2 where "find_credential i d2 = Some c2" "cr_identity c2 = i" "cr_claim c2 = Some (ae_id env)" "cr_status c2 = ''sending''"
    using repo_Claim_credential [OF cl, of i] c mem(2) by (auto simp: delivery_claimable_def)
  then have "list_ex (\<lambda>c. cr_identity c = i \<and> cr_claim c = Some (ae_id env) \<and> cr_status c = ''sending'') (credentials d2)"
    using find_credential_iff [OF inv2] by (auto simp: list_ex_iff)
  moreover have "\<not> list_ex (\<lambda>c. (cr_identity c = i \<and> cr_claim c = Some (ae_id env) \<and> cr_status c = ''sending'') \<and>
      \<not> delivery_status (cr_status (c\<lparr>cr_hash := hash, cr_must_change := True, cr_status := ''sent'', cr_error := None\<rparr>)))
      (credentials d2)"
    by (simp add: list_ex_iff delivery_status_def)
  ultimately obtain d3 where act: "repo_ActivateRetriedCredential NoFault i (ae_id env) hash d2 = (Inr (), d3)"
    by (simp add: repo_ActivateRetriedCredential_def pool_exec_def sql_finish_delivery_def)
  obtain c3 where "find_credential i d3 = Some (c3\<lparr>cr_hash := hash, cr_must_change := True, cr_status := ''sent'',
       cr_error := None, cr_attempts := cr_attempts c3 + 1, cr_claim := None, cr_until := None\<rparr>)"
    using inv2 act by (rule activate_credential)
  then show ?thesis using that cl act by auto
qed

text \<open>(C30)
  An identity whose initial delivery failed keeps that state when it later obtains a password through a reset and
  chooses its own. A valid registration of the same address by the owner of any tenant (with no phone or one in E.164
  form), while the database answers and the provider accepts the mail, then generates a password, mails it to that
  address and stores its hash over the one in use, to be changed at the next login: the service ends in the state the
  provider has after exactly this message. (The comment in Register says that existing identities retain their password.)
\<close>

theorem registration_replaces_password:
  assumes inv: "auth_inv d" and actor: "pn_TenantID actor = t" "pn_Role actor = RoleOwner"
    and val: "validateRegistration (av_X s) inp = Inr (name, email, role)" "1 \<le> RuneCountInString name"
      "ri_Phone inp = [] \<or> phone_e164 (ri_Phone inp)"
    and cred: "find_identity email d = Some r" "find_credential (ai_id r) d = Some c" "cr_status c = ''failed''"
    and pw: "ao_rand io 18 = Some bytes" "ao_hash io (EncodeToString bytes) = Some hash"
    and mail: "av_email s = Some ml" "m = initialPasswordMessage (av_X s) email (EncodeToString bytes) (ai_id r)"
      "fst (send_mail ml m w)"
    and nofault: "\<forall>n. ao_f io n = NoFault"
  shows "\<exists>reg d' c'. svc_Register s io t actor inp d w = (Inr reg, d', snd (send_mail ml m w)) \<and>
    rn_IdentityID reg = ai_id r \<and> rn_CredentialScheduled reg \<and>
    find_credential (ai_id r) d' = Some c' \<and> cr_hash c' = hash \<and> cr_must_change c' \<and>
    em_To m = email \<and> (\<exists>rest. em_Text m = ''Your initial password is: '' @ EncodeToString bytes @ rest)"
proof -
  let ?phone = "ri_Phone inp"
  have role: "staffRole role" and len: "RuneCountInString name \<le> 200"
    using val(1) by (auto simp: validateRegistration_def Let_def split: option.splits if_splits)
  obtain v d1 where v: "repo_Register NoFault (ao_env io 1) t name email ?phone role [] d = (Inr v, d1)"
    "rg_IdentityID v = ai_id r" "credentials d1 = credentials d"
    using cred(1) val(2) len val(3) role by (rule repo_Register_existing)
  have inv1: "auth_inv d1" using repo_Register_inv [OF inv] v(1) by (metis snd_conv)
  have "find_credential (ai_id r) d1 = Some c" using cred(2) v(3) by (simp add: find_credential_def)
  then obtain d2 where d2: "repo_ClaimInitialDelivery NoFault (ao_env io 2) (ai_id r) d1 = (Inr (ae_id (ao_env io 2), True), d2)"
    "\<exists>d3 c'. repo_ActivateRetriedCredential NoFault (ai_id r) (ae_id (ao_env io 2)) hash d2 = (Inr (), d3) \<and>
      find_credential (ai_id r) d3 = Some c' \<and> cr_hash c' = hash \<and> cr_must_change c'"
    using inv1 cred(3) claim_then_activate by blast
  have sent: "send_mail ml (initialPasswordMessage (av_X s) email (EncodeToString bytes) (ai_id r)) w = (True, snd (send_mail ml m w))"
    using mail(3) unfolding mail(2) by (metis prod.collapse)
  have look: "CredentialByEmail NoFault email d = Inr (to_credential r c)" "cv_DeliveryStatus (to_credential r c) = ''failed''"
    using cred by (simp_all add: CredentialByEmail_def to_credential_def)
  have "svc_Register s io t actor inp d w = register_existing s ml io t name email ?phone role (to_credential r c) d w"
    using actor val mail(1) nofault look by (simp add: svc_Register_def)
  moreover obtain d3 c' where "find_credential (ai_id r) d3 = Some c'" "cr_hash c' = hash" "cr_must_change c'"
      "register_existing s ml io t name email ?phone role (to_credential r c) d w =
         (Inr (registration_of v True), d3, snd (send_mail ml m w))"
    using v d2 sent pw nofault look(2) by (auto simp: register_existing_def newPassword_def hashPassword_def)
  moreover have "em_To m = email" "\<exists>rest. em_Text m = ''Your initial password is: '' @ EncodeToString bytes @ rest"
    by (simp_all add: mail(2) initialPasswordMessage_def)
  ultimately show ?thesis using v(2) by (auto simp: registration_of_def)
qed

end
