(* ===== verification/Auth_Examples.thy ===== *)
theory Auth_Examples
  imports Auth_Policy Auth_Staff Auth_Delivery
begin

text \<open>
  Concrete runs of auth-service: a shop with an owner, who is logged in, and a receptionist; the hash of a password
  is the password after an h, the digest of a token its bytes after an s.
\<close>

section \<open>A shop\<close>

definition ax_X :: externals where
  "ax_X = \<lparr>uuid_String = (\<lambda>u. replicate (unat u) (CHR ''1'')), uuid_Parse = (\<lambda>s. Some (word_of_nat (length s))),
     mail_ParseAddress = (\<lambda>s. Some s), sha256_hex = (\<lambda>s. s), json_strings = concat, rfc3339nano = (\<lambda>_. [])\<rparr>"

definition ax_mailer :: "email_message list mailer" where
  "ax_mailer = \<lparr>ml_send = (\<lambda>w m. (Inr ''id'', m # w)), ml_ctx = (\<lambda>_. None), ml_sleep = (\<lambda>_ w. (None, w))\<rparr>"

definition ax_service :: "email_message list auth_service" where
  "ax_service = \<lparr>av_X = ax_X, av_sha256 = (\<lambda>b. CHR ''s'' # b), av_compare = (\<lambda>h p. h = CHR ''h'' # p),
     av_sessionTTL = 1000, av_email = Some ax_mailer, av_coll = (\<lambda>s. s)\<rparr>"

definition ax_env :: "time \<Rightarrow> uuid \<Rightarrow> auth_env" where
  "ax_env now i = \<lparr>ae_now = now, ae_id = i\<rparr>"

definition ax_io :: auth_io where
  "ax_io = \<lparr>ao_f = (\<lambda>_. NoFault), ao_env = (\<lambda>n. ax_env (100 + int n) (word_of_nat (50 + n))), ao_now = 100,
     ao_rand = (\<lambda>n. Some (replicate n (CHR ''r''))), ao_hash = (\<lambda>p. Some (CHR ''h'' # p)), ao_key = 60\<rparr>"

definition ax_setup :: "auth_op list" where
  "ax_setup = [ORegister NoFault (ax_env 1 1) 7 ''Ada'' ''ada@shop'' [] ''OWNER'' ''hsecret'',
     OClaim NoFault (ax_env 2 90) 1, OMark NoFault 1 90 True, OChange NoFault 3 7 1 0 ''hsecret'',
     ORegister NoFault (ax_env 4 2) 7 ''Bob'' ''bob@shop'' [] ''RECEPTIONIST'' ''hbobsecret'',
     OClaim NoFault (ax_env 5 91) 2, OMark NoFault 2 91 False,
     OSession NoFault (ax_env 6 11) 7 1 ''sone'' 1000, OSession NoFault (ax_env 7 12) 7 1 ''stwo'' 1000]"

definition ax_db :: auth_db where
  "ax_db = run_ops exec_auth ax_setup empty_auth_db"

lemma ax_db_inv: "auth_inv ax_db"
  unfolding ax_db_def using auth.invar_reachable by blast

definition ax_token :: string where
  "ax_token = EncodeToString ''one''"

definition ax_owner :: auth_principal where
  "ax_owner = \<lparr>pn_IdentityID = 1, pn_Name = ''Ada'', pn_Email = ''ada@shop'', pn_Phone = [], pn_MustChangePassword = False,
     pn_Role = ''OWNER'', pn_TenantID = 7, pn_SessionID = 11\<rparr>"

lemma pair_InrI: "(case fst p of Inl _ \<Rightarrow> False | Inr v \<Rightarrow> v = w) \<Longrightarrow> p = (Inr w, snd p)"
  by (cases p) (auto split: sum.splits)

lemma inrI: "(case r of Inl _ \<Rightarrow> False | Inr v \<Rightarrow> v = w) \<Longrightarrow> r = Inr w"
  by (auto split: sum.splits)

lemma ax_current: "svc_Current ax_service NoFault 100 7 ax_token ax_db = Inr ax_owner"
  by (rule inrI) code_simp

section \<open>Sessions\<close>

theorem logout_final_witness:
  "svc_Current ax_service NoFault 100 7 ax_token ax_db = Inr ax_owner \<and>
   (\<forall>f now ys q. svc_Current ax_service f now 7 ax_token
      (run_ops exec_auth ys (snd (svc_Logout ax_service NoFault 200 7 ax_token ax_db))) \<noteq> Inr q)"
proof -
  have "svc_Logout ax_service NoFault 200 7 ax_token ax_db = (Inr (), snd (svc_Logout ax_service NoFault 200 7 ax_token ax_db))"
    by (rule pair_InrI) code_simp
  from logout_final [OF ax_db_inv ax_current this] ax_current show ?thesis by blast
qed

definition ax_change :: change_password_input where
  "ax_change = \<lparr>cp_CurrentPassword = ''secret'', cp_NewPassword = ''longer secret''\<rparr>"

theorem password_change_ends_sessions_witness:
  "fst (svc_ChangePassword ax_service ax_io 7 ax_owner ax_change ax_db) = None \<and>
   filter (\<lambda>c. cr_identity c = 1 \<and> cr_hash c \<noteq> ''hlonger secret'')
     (credentials (snd (svc_ChangePassword ax_service ax_io 7 ax_owner ax_change ax_db))) = [] \<and>
   svc_Current ax_service NoFault 100 7 (EncodeToString ''two'')
     (run_ops exec_auth [] (snd (svc_ChangePassword ax_service ax_io 7 ax_owner ax_change ax_db))) \<noteq> Inr (ax_owner\<lparr>pn_SessionID := 12\<rparr>) \<and>
   svc_Current ax_service NoFault 100 7 (EncodeToString ''two'') ax_db = Inr (ax_owner\<lparr>pn_SessionID := 12\<rparr>)"
proof -
  let ?r = "svc_ChangePassword ax_service ax_io 7 ax_owner ax_change ax_db"
  let ?sess = "\<lparr>se_id = 12, se_tenant = 7, se_identity = 1, se_token = ''stwo'', se_expires = 1000, se_revoked = None\<rparr>"
  have ok: "?r = (None, snd ?r)"
  proof -
    have "(case fst ?r of None \<Rightarrow> True | Some _ \<Rightarrow> False)" by code_simp
    then show ?thesis by (cases ?r) (simp split: option.splits)
  qed
  have sess: "?sess \<in> set (sessions ax_db)"
  proof -
    have "list_ex (\<lambda>x. x = ?sess) (sessions ax_db)" by code_simp
    then show ?thesis by (simp add: list_ex_iff)
  qed
  have digest: "tokenDigest ax_service (EncodeToString ''two'') = Some (se_token ?sess)"
    by (simp add: tokenDigest_def ax_service_def del: EncodeToString.simps)
  note end1 = password_change_ends_sessions [OF ax_db_inv ok]
  have "filter (\<lambda>c. cr_identity c = 1 \<and> cr_hash c \<noteq> ''hlonger secret'') (credentials (snd ?r)) = []"
    using conjunct1 [OF end1] unfolding filter_empty_conv by (simp add: ax_io_def ax_change_def ax_owner_def)
  moreover have "svc_Current ax_service NoFault 100 7 (EncodeToString ''two'') (run_ops exec_auth [] (snd ?r)) \<noteq> Inr (ax_owner\<lparr>pn_SessionID := 12\<rparr>)"
  proof -
    have "se_identity ?sess = pn_IdentityID ax_owner \<and> se_id ?sess \<noteq> pn_SessionID ax_owner" by (simp add: ax_owner_def)
    from mp [OF bspec [OF conjunct2 [OF end1] sess] this] digest show ?thesis by (metis session_row.select_convs(2))
  qed
  moreover have "svc_Current ax_service NoFault 100 7 (EncodeToString ''two'') ax_db = Inr (ax_owner\<lparr>pn_SessionID := 12\<rparr>)"
    by (rule inrI) code_simp
  ultimately show ?thesis using arg_cong [OF ok, of fst] by simp
qed

definition ax_login :: login_input where
  "ax_login = \<lparr>li_Email = '' Ada@Shop '', li_Password = ''secret''\<rparr>"

definition ax_session :: auth_session where
  "ax_session = \<lparr>as_Principal = ax_owner\<lparr>pn_SessionID := 51\<rparr>, as_Token = EncodeToString (replicate 32 (CHR ''r'')), as_ExpiresAt = 1100\<rparr>"

theorem login_roundtrip_witness:
  "fst (svc_Login ax_service ax_io 7 ax_login ax_db) = Inr ax_session \<and>
   svc_Current ax_service NoFault 1099 7 (as_Token ax_session) (snd (svc_Login ax_service ax_io 7 ax_login ax_db)) =
     Inr (as_Principal ax_session)"
proof -
  have ok: "svc_Login ax_service ax_io 7 ax_login ax_db = (Inr ax_session, snd (svc_Login ax_service ax_io 7 ax_login ax_db))"
    by (rule pair_InrI) code_simp
  have "\<forall>n bytes. ao_rand ax_io n = Some bytes \<longrightarrow> length bytes = n" by (auto simp: ax_io_def)
  from login_roundtrip [OF ax_db_inv ok this, of 1099] arg_cong [OF ok, of fst] show ?thesis
    by (simp add: ax_session_def)
qed

section \<open>Members\<close>

definition ax_handler :: "email_message list auth_handler" where
  "ax_handler = \<lparr>ah_service = ax_service, ah_verify = (\<lambda>tok. tok = ''secret''), ah_cookieName = ''sid'', ah_cookieSecure = True,
     ah_limiter = True, ah_cookies = (\<lambda>hd _. hd), ah_login = (\<lambda>_. Some ax_login), ah_register = (\<lambda>_. None),
     ah_role = (\<lambda>b. Some b), ah_change = (\<lambda>_. Some ax_change), ah_forgot = (\<lambda>b. Some b)\<rparr>"

definition ax_call :: auth_call where
  "ax_call = \<lparr>al_io = ax_io, al_session = (NoFault, 100), al_redis_fails = False, al_redis_now = 0, al_later = 100\<rparr>"

definition ax_sys :: "email_message list auth_sys" where
  "ax_sys = \<lparr>ay_db = ax_db, ay_redis = (\<lambda>_. None), ay_world = []\<rparr>"

definition ax_ctx :: "string \<Rightarrow> fiber_ctx" where
  "ax_ctx body = \<lparr>c_Get = (\<lambda>k. if k = InternalHeaderName then ''secret'' else if k = TenantIDHeader then ''1111111''
       else if k = AppTypeHeader then ''admin'' else if k = ''Cookie'' then ax_token else []),
     c_Params = (\<lambda>_. ''11''), c_Query = (\<lambda>_. []), c_Body = body\<rparr>"

lemma ax_sys_inv: "auth_inv (ay_db ax_sys)"
  by (simp add: ax_sys_def ax_db_inv)

lemma ax_trusted: "trustedContext ax_handler (ax_ctx b) = Some \<lparr>TenantID = 7, AppType = ''admin'', RequestID = []\<rparr>"
  by (simp add: trustedContext_def tenantctx_New_def ax_handler_def ax_service_def ax_X_def ax_ctx_def InternalHeaderName_def
      TenantIDHeader_def AppTypeHeader_def RequestIDHeader_def)

text \<open>The owner makes the receptionist a manager.\<close>

theorem staff_changes_authorized_witness:
  "memberships (ay_db (snd (auth_serve ax_handler RtRole ax_call (ax_ctx ''MANAGER'') ax_sys))) \<noteq> memberships (ay_db ax_sys) \<and>
   (\<exists>p digest. tokenDigest ax_service (session_token ax_handler (ax_ctx ''MANAGER'')) = Some digest \<and>
      session_stands 100 7 digest ax_db p \<and> pn_Role p = RoleOwner)"
proof -
  let ?y' = "ay_db (snd (auth_serve ax_handler RtRole ax_call (ax_ctx ''MANAGER'') ax_sys))"
  have "map mb_role (memberships ?y') = [''OWNER'', ''MANAGER'']" by code_simp
  moreover have "map mb_role (memberships (ay_db ax_sys)) = [''OWNER'', ''RECEPTIONIST'']" by code_simp
  ultimately have change: "memberships ?y' \<noteq> memberships (ay_db ax_sys)" by auto
  obtain t p digest where "trustedContext ax_handler (ax_ctx ''MANAGER'') = Some t"
    "tokenDigest (ah_service ax_handler) (session_token ax_handler (ax_ctx ''MANAGER'')) = Some digest"
    "session_stands (snd (al_session ax_call)) (TenantID t) digest (ay_db ax_sys) p" "pn_Role p = RoleOwner"
    using staff_changes_authorized [OF ax_sys_inv change] by blast
  moreover have "TenantID t = 7" using calculation(1) by (auto simp: ax_trusted)
  ultimately show ?thesis using change by (auto simp: ax_handler_def ax_call_def ax_sys_def)
qed

definition ax_events :: "staff_event list" where
  "ax_events = [StCheck NoFault 7 2, StCheck NoFault 7 1, StRole NoFault 7 1 ''BARBER'', StRole NoFault 7 2 ''BARBER'',
     StStatus NoFault 7 1 False]"

theorem owners_fixed_witness:
  "map mb_identity (owner_rows (ay_db (snd (auth_serve ax_handler RtDeactivate ax_call (ax_ctx []) ax_sys)))) = [1] \<and>
   map mb_identity (owner_rows (st_db (run_ops exec_staff ax_events \<lparr>st_db = ax_db, st_checked = []\<rparr>))) = [1]"
proof -
  have "map mb_identity (owner_rows (ay_db ax_sys)) = [1]" by code_simp
  with owners_fixed [OF ax_sys_inv, of ax_handler RtDeactivate ax_call "ax_ctx []" ax_events] show ?thesis
    by (simp add: ax_sys_def)
qed

section \<open>Registration\<close>

definition ax_cem :: register_input where
  "ax_cem = \<lparr>ri_Name = ''Cem'', ri_Email = ''Cem@Shop'', ri_Phone = [], ri_Role = ''BARBER''\<rparr>"

definition ax_registered :: registration where
  "ax_registered = \<lparr>rn_IdentityID = 51, rn_MembershipCreated = True, rn_CredentialScheduled = True, rn_Role = ''BARBER''\<rparr>"

theorem mailed_password_stored_witness:
  "\<exists>d' w'. svc_Register ax_service ax_io 7 ax_owner ax_cem ax_db [] = (Inr ax_registered, d', w') \<and>
     delivered ax_service ax_io ''cem@shop'' 51 d' [] w'"
proof -
  let ?r = "svc_Register ax_service ax_io 7 ax_owner ax_cem ax_db []"
  have ok: "?r = (Inr ax_registered, fst (snd ?r), snd (snd ?r))"
  proof -
    have "(case fst ?r of Inl _ \<Rightarrow> False | Inr v \<Rightarrow> v = ax_registered)" by code_simp
    from pair_InrI [OF this] show ?thesis by simp
  qed
  have "delivered ax_service ax_io (ToLower (TrimSpace (ri_Email ax_cem))) 51 (fst (snd ?r)) [] (snd (snd ?r))"
    using mailed_password_stored [OF ax_db_inv ok] by (simp add: ax_registered_def)
  moreover have "ToLower (TrimSpace (ri_Email ax_cem)) = ''cem@shop''" by code_simp
  ultimately show ?thesis using ok by metis
qed

text \<open>The delivery to the receptionist failed; a reset gave a password, which was then changed to \<open>mysecret!!\<close>.\<close>

definition ax_db2 :: auth_db where
  "ax_db2 = run_ops exec_auth (ax_setup @ [OReset NoFault 20 7 2 ''htemporary'', OChange NoFault 30 7 2 0 ''hmysecret!!'']) empty_auth_db"

definition ax_bob :: register_input where
  "ax_bob = \<lparr>ri_Name = ''Bob'', ri_Email = ''bob@shop'', ri_Phone = [], ri_Role = ''BARBER''\<rparr>"

theorem registration_replaces_password_witness:
  "map cr_hash (filter (\<lambda>c. cr_identity c = 2) (credentials ax_db2)) = [''hmysecret!!''] \<and>
   (\<exists>reg d' c'. svc_Register ax_service ax_io 7 ax_owner ax_bob ax_db2 [] = (Inr reg, d', snd (send_mail ax_mailer
       (initialPasswordMessage ax_X ''bob@shop'' (EncodeToString (replicate 18 (CHR ''r''))) 2) [])) \<and> rn_IdentityID reg = 2 \<and>
     find_credential 2 d' = Some c' \<and> cr_hash c' = CHR ''h'' # EncodeToString (replicate 18 (CHR ''r'')) \<and> cr_must_change c')"
proof -
  have inv: "auth_inv ax_db2" unfolding ax_db2_def using auth.invar_reachable by blast
  let ?id = "\<lparr>ai_id = 2, ai_name = Some ''Bob'', ai_email = Some ''bob@shop'', ai_phone = None, ai_status = ''active''\<rparr>"
  obtain r where r: "find_identity ''bob@shop'' ax_db2 = Some r" "ai_id r = 2"
  proof -
    have "(case find_identity ''bob@shop'' ax_db2 of None \<Rightarrow> False | Some r \<Rightarrow> ai_id r = 2)" by code_simp
    then show ?thesis using that by (auto split: option.splits)
  qed
  obtain c where c: "find_credential (ai_id r) ax_db2 = Some c" "cr_status c = ''failed''"
  proof -
    have "(case find_credential 2 ax_db2 of None \<Rightarrow> False | Some c \<Rightarrow> cr_status c = ''failed'')" by code_simp
    then show ?thesis using that r(2) by (auto split: option.splits)
  qed
  have val: "validateRegistration (av_X ax_service) ax_bob = Inr (''Bob'', ''bob@shop'', ''BARBER'')"
    by (rule inrI) code_simp
  have sent: "fst (send_mail ax_mailer m [])" for m
    by (simp add: send_mail_def SendWithRetry_def ax_mailer_def numeral_3_eq_3)
  have "map cr_hash (filter (\<lambda>c. cr_identity c = 2) (credentials ax_db2)) = [''hmysecret!!'']" by code_simp
  moreover have "pn_TenantID ax_owner = 7" "pn_Role ax_owner = RoleOwner" "1 \<le> RuneCountInString ''Bob''"
    "ri_Phone ax_bob = [] \<or> phone_e164 (ri_Phone ax_bob)" "ao_rand ax_io 18 = Some (replicate 18 (CHR ''r''))"
    "ao_hash ax_io (EncodeToString (replicate 18 (CHR ''r''))) = Some (CHR ''h'' # EncodeToString (replicate 18 (CHR ''r'')))"
    "av_email ax_service = Some ax_mailer" "av_X ax_service = ax_X" "\<forall>n. ao_f ax_io n = NoFault"
    by (simp_all add: ax_owner_def RoleOwner_def ax_bob_def ax_service_def ax_io_def RuneCountInString_def del: EncodeToString.simps)
  note registration_replaces_password [OF inv this(1,2) val this(3,4) r(1) c this(5,6,7) refl sent this(9), unfolded r(2) this(8)]
  ultimately show ?thesis by (elim exE conjE) (intro conjI exI; assumption)
qed

end
