(* ===== verification/Customer_Examples.thy ===== *)
theory Customer_Examples
  imports Customer_Access Gateway_Customer Gateway_Examples Auth_Examples
begin

text \<open>
  Concrete runs of customer-service: a shop with a guest and a registered customer who is signed in on two devices, with
  the hashes, mail provider and random bytes of the auth-service examples, and a booking of that customer at the gateway.
\<close>

section \<open>A shop with customers\<close>

definition cx_service :: "email_message list customer_service" where
  "cx_service = \<lparr>cz_X = ax_X, cz_compare = (\<lambda>h p. h = CHR ''h'' # p), cz_email = ax_mailer,
     cz_appointments = NewAppointments ''http://appointment/'' ''secret'' (\<lambda>_. Response 200 ''[]'') (\<lambda>_. True) (\<lambda>_ _. True)\<rparr>"

definition cx_setup :: "customer_op list" where
  "cx_setup = [CuGuest NoFault (ax_env 1 1) 7 ''Gul'' ''+905551112233'', CuCreate NoFault (ax_env 2 2) 7 ''Eda'' ''eda@mail'' [] ''hfirst'',
     CuPassword NoFault 3 7 2 ''hsecret'', CuSession ax_X NoFault 11 7 2 ''one'' 1000, CuSession ax_X NoFault 12 7 2 ''two'' 1000]"

definition cx_db :: customer_db where
  "cx_db = run_ops exec_customer cx_setup empty_customer_db"

lemma cx_db_inv: "customer_inv cx_db"
  unfolding cx_db_def using customer.invar_reachable by blast

definition cx_guest :: Customer where
  "cx_guest = \<lparr>cm_ID = 50, cm_TenantID = 7, cm_Name = ''Gul'', cm_Email = [], cm_Phone = ''+905551112233'', cm_Status = ''active'',
     cm_MustChangePassword = False, cm_InitialDeliveryStatus = [], cm_PasswordChangedAt = None\<rparr>"

definition cx_eda :: Customer where
  "cx_eda = \<lparr>cm_ID = 2, cm_TenantID = 7, cm_Name = ''Eda'', cm_Email = ''eda@mail'', cm_Phone = [], cm_Status = ''active'',
     cm_MustChangePassword = False, cm_InitialDeliveryStatus = [], cm_PasswordChangedAt = Some 3\<rparr>"

section \<open>Guests\<close>

text \<open>A guest gives the same number twice, in two spellings and under two names; between the two a customer registers.\<close>

theorem guest_resolution_stable_witness:
  "\<exists>c' d'. cus_ResolveGuest ax_io 7 '' Gul '' ''+90 (555) 111-2233'' empty_customer_db = (Inr cx_guest, d') \<and>
     fst (cus_ResolveGuest ax_io 7 ''Gulsen'' ''+905551112233'' (run_ops exec_customer (tl cx_setup) d')) = Inr c' \<and>
     cm_ID c' = 50 \<and> cm_Phone c' = ''+905551112233''"
proof -
  let ?r = "cus_ResolveGuest ax_io 7 '' Gul '' ''+90 (555) 111-2233'' empty_customer_db"
  have ok: "?r = (Inr cx_guest, snd ?r)" by (rule pair_InrI) code_simp
  have same: "NormalizePhone ''+905551112233'' = NormalizePhone ''+90 (555) 111-2233''" by code_simp
  have valid: "TrimSpace ''Gulsen'' \<noteq> []" "length (TrimSpace ''Gulsen'') \<le> 200" "ao_f ax_io 0 = NoFault" by code_simp+
  have guest: "cm_ID cx_guest = 50" "cm_Phone cx_guest = ''+905551112233''" by (simp_all add: cx_guest_def)
  from guest_resolution_stable [OF customer_inv_empty ok same valid, of "tl cx_setup"] obtain c' where
    "fst (cus_ResolveGuest ax_io 7 ''Gulsen'' ''+905551112233'' (run_ops exec_customer (tl cx_setup) (snd ?r))) = Inr c'"
    "cm_ID c' = 50" "cm_Phone c' = ''+905551112233''" unfolding guest by (metis fst_conv)
  then show ?thesis using ok by blast
qed

definition cx_login :: customer_login where
  "cx_login = \<lparr>lr_Customer = cx_eda\<lparr>cm_InitialDeliveryStatus := ''pending''\<rparr>, lr_Token = EncodeToString (replicate 32 (CHR ''r'')),
     lr_Expires = 2592000000000100\<rparr>"

theorem guests_never_sign_in_witness:
  "(\<exists>r. r \<in> set (customers cx_db) \<and> cu_email r = None \<and> cm_ID (lr_Customer cx_login) \<noteq> cu_id r) \<and>
   fst (cus_Login cx_service ax_io 7 '' Eda@Mail '' ''secret'' cx_db) = Inr cx_login"
proof -
  let ?l = "cus_Login cx_service ax_io 7 '' Eda@Mail '' ''secret'' (run_ops exec_customer [] cx_db)"
  have ok: "?l = (Inr cx_login, snd ?l)" by (rule pair_InrI) code_simp
  have "list_ex (\<lambda>r. cu_email r = None) (customers cx_db)" by code_simp
  then obtain r where r: "r \<in> set (customers cx_db)" "cu_email r = None" by (auto simp: list_ex_iff)
  from guests_never_sign_in [OF cx_db_inv r ok] r ok show ?thesis by (metis fst_conv run_ops_simps(1))
qed

section \<open>Passwords\<close>

text \<open>The statement that revokes the other sessions fails at its commit: the change is answered as successful.\<close>

theorem customer_password_change_witness:
  "fst (cus_ChangePassword cx_service (ax_io\<lparr>ao_f := (ao_f ax_io)(4 := CommitFails)\<rparr>) 7 ''one'' ''secret'' ''longer secret'' cx_db) = None \<and>
   customer_sessions (snd (cus_ChangePassword cx_service (ax_io\<lparr>ao_f := (ao_f ax_io)(4 := CommitFails)\<rparr>) 7 ''one'' ''secret'' ''longer secret'' cx_db)) =
     customer_sessions cx_db \<and>
   (\<forall>ys io'. cus_Current cx_service io' 7 ''two''
      (run_ops exec_customer ys (snd (cus_ChangePassword cx_service ax_io 7 ''one'' ''secret'' ''longer secret'' cx_db))) \<noteq> Inr cx_eda)"
proof -
  let ?io = "ax_io\<lparr>ao_f := (ao_f ax_io)(4 := CommitFails)\<rparr>"
  let ?r = "\<lambda>io. cus_ChangePassword cx_service io 7 ''one'' ''secret'' ''longer secret'' cx_db"
  have none: "p = (None, snd p)" if "(case fst p of None \<Rightarrow> True | Some _ \<Rightarrow> False)" for p :: "customer_error option \<times> customer_db"
    using that by (cases p) (simp split: option.splits)
  have ran: "?r ax_io = (None, snd (?r ax_io))" by (rule none, code_simp)
  have "CommitFails \<noteq> NoFault" by simp
  with customer_password_change [OF cx_db_inv ran] obtain df where "?r ?io = (None, df)" "customer_sessions df = customer_sessions cx_db"
    by blast
  then have failed: "fst (?r ?io) = None" and kept: "customer_sessions (snd (?r ?io)) = customer_sessions cx_db" by simp_all
  have current: "cus_Current cx_service ax_io 7 ''one'' cx_db = Inr cx_eda" by (rule inrI) code_simp
  let ?q = "\<lparr>cq_id = 12, cq_tenant = 7, cq_customer = 2, cq_token = ''two'', cq_expires = 1000, cq_revoked = None\<rparr>"
  have "list_ex (\<lambda>q. q = ?q) (customer_sessions cx_db)" by code_simp
  then have q: "?q \<in> set (customer_sessions cx_db)" by (simp add: list_ex_iff)
  have "hashToken (cz_X cx_service) ''two'' = cq_token ?q" "cq_token ?q \<noteq> hashToken (cz_X cx_service) ''one''" by code_simp+
  moreover have "ao_f ax_io 4 = NoFault" by (simp add: ax_io_def)
  moreover have "cq_tenant ?q = 7 \<and> cq_customer ?q = cm_ID cx_eda" by (simp add: cx_eda_def)
  ultimately have "cus_Current cx_service io' 7 ''two'' (run_ops exec_customer ys (snd (?r ax_io))) \<noteq> Inr cx_eda" for ys io'
    using customer_password_change [OF cx_db_inv ran] current q by (metis sum.inject(2))
  then show ?thesis using kept failed by blast
qed

section \<open>Requests\<close>

definition cx_handler :: "email_message list customer_handler" where
  "cx_handler = \<lparr>hz_app = cx_service, hz_verify = (\<lambda>tok. tok = ''secret''), hz_InternalToken = ''secret'', hz_limiter = True,
     hz_development = False, hz_cookies = (\<lambda>hd name. hd), hz_register = (\<lambda>_. None), hz_login = (\<lambda>_. None), hz_change = (\<lambda>_. None),
     hz_forgot = (\<lambda>b. Some b), hz_name = (\<lambda>b. Some b), hz_guest = (\<lambda>_. None)\<rparr>"

definition cx_call :: customer_call where
  "cx_call = \<lparr>kl_io = ax_io, kl_redis_fails = False, kl_redis_now = 0, kl_later = 100\<rparr>"

definition cx_sys :: "email_message list customer_sys" where
  "cx_sys = \<lparr>ky_db = cx_db, ky_redis = (\<lambda>_. None), ky_world = []\<rparr>"

definition cx_ctx :: "string \<Rightarrow> string \<Rightarrow> fiber_ctx" where
  "cx_ctx cookie body = \<lparr>c_Get = (\<lambda>k. if k = InternalHeaderName then ''secret'' else if k = TenantIDHeader then ''1111111''
       else if k = AppTypeHeader then ''booking'' else if k = ''Cookie'' then cookie else []),
     c_Params = (\<lambda>_. []), c_Query = (\<lambda>_. []), c_Body = body\<rparr>"

definition cx_row :: cust_row where
  "cx_row = \<lparr>cu_id = 2, cu_tenant = 7, cu_name = ''Eda'', cu_email = Some ''eda@mail'', cu_phone = None, cu_hash = ''hsecret'',
     cu_status = ''active'', cu_changed_at = Some 3, cu_must_change = False, cu_delivery = ''pending'', cu_attempts = 0,
     cu_error = None, cu_claim = None, cu_until = None\<rparr>"

text \<open>Twice Eda's row changes: she renames herself in a session, and somebody asks for a reset of her address.\<close>

definition cx_renamed :: "email_message list customer_sys" where
  "cx_renamed = snd (customer_serve cx_handler CrProfilePatch cx_call (cx_ctx ''one'' '' Edanur '') cx_sys)"

definition cx_reset :: "email_message list customer_sys" where
  "cx_reset = snd (customer_serve cx_handler CrForgot cx_call (cx_ctx [] '' Eda@Mail '') cx_sys)"

theorem customer_changes_owned_witness:
  "cx_row \<in> set (customers (ky_db cx_sys)) \<and> cx_row \<notin> set (customers (ky_db cx_renamed)) \<and>
   cx_row \<notin> set (customers (ky_db cx_reset)) \<and>
   (\<exists>v. cus_Current cx_service ax_io 7 ''one'' cx_db = Inr v \<and> cm_ID v = 2) \<and>
   (\<exists>r' \<in> set (customers (ky_db cx_reset)). mailed_change cx_service ax_io True ''eda@mail'' [] (ky_world cx_reset) cx_row r')"
proof -
  have inv: "customer_inv (ky_db cx_sys)" using cx_db_inv by (simp add: cx_sys_def)
  have "list_ex (\<lambda>r. r = cx_row) (customers (ky_db cx_sys))" "\<not> list_ex (\<lambda>r. r = cx_row) (customers (ky_db cx_renamed))"
    "\<not> list_ex (\<lambda>r. r = cx_row) (customers (ky_db cx_reset))" by code_simp+
  then have r: "cx_row \<in> set (customers (ky_db cx_sys))" "cx_row \<notin> set (customers (ky_db cx_renamed))"
    "cx_row \<notin> set (customers (ky_db cx_reset))" unfolding list_ex_iff by blast+
  have parts: "hz_app cx_handler = cx_service" "kl_io cx_call = ax_io" "cookie_token cx_handler (cx_ctx ''one'' b) = ''one''"
    "ky_db cx_sys = cx_db" "ky_world cx_sys = []" "cu_tenant cx_row = 7" "cu_id cx_row = 2" for b
    by (simp_all add: cx_handler_def cx_call_def cookie_token_def cx_ctx_def cx_sys_def cx_row_def InternalHeaderName_def
        TenantIDHeader_def AppTypeHeader_def)
  have "requested_address cx_handler CrProfilePatch (cx_ctx ''one'' '' Edanur '') = None" by (simp add: requested_address_def)
  with customer_changes_owned [OF inv r(1) r(2) [unfolded cx_renamed_def]] obtain t :: tenant_ctx and v
    where "TenantID t = cu_tenant cx_row"
    "cus_Current (hz_app cx_handler) (kl_io cx_call) (TenantID t) (cookie_token cx_handler (cx_ctx ''one'' '' Edanur '')) (ky_db cx_sys) = Inr v"
    "cm_ID v = cu_id cx_row" by (metis option.distinct(1))
  then have "\<exists>v. cus_Current cx_service ax_io 7 ''one'' cx_db = Inr v \<and> cm_ID v = 2" unfolding parts by metis
  moreover have "requested_address cx_handler CrForgot (cx_ctx [] '' Eda@Mail '') = Some ''eda@mail''" by code_simp
  with customer_changes_owned [OF inv r(1) r(3) [unfolded cx_reset_def]]
  have "\<exists>r' \<in> set (customers (ky_db cx_reset)).
      mailed_change cx_service ax_io True ''eda@mail'' [] (ky_world cx_reset) cx_row r'"
    unfolding parts cx_reset_def by auto
  ultimately show ?thesis using r by blast
qed

section \<open>A booking at the gateway\<close>

definition cx_enc :: "customer_body \<Rightarrow> string" where
  "cx_enc b = (case b of KuCustomer v \<Rightarrow> CHR ''#'' # uuid_String ax_X (cm_ID v) | _ \<Rightarrow> [])"

definition cx_gateway :: gateway where
  "cx_gateway = (gx_gateway (gx_resolver\<lparr>rs_decode := (\<lambda>_. Some \<lparr>rn_TenantID = ''1111111'', rn_AppType = ''booking''\<rparr>)\<rparr>))\<lparr>
     g_customer_id := (\<lambda>body. if body = [] then None else Some (tl body)),
     g_Do := (\<lambda>req. if oq_URL req = ''http://customer/internal/v1/internal/customer/session''
       then case as_response cx_enc (fst (fst (customer_serve cx_handler CrSession cx_call (session_ctx req) cx_sys))) of
              Response status body \<Rightarrow> UpResponse status [] (Some body) | TransportError _ \<Rightarrow> UpFailure
       else UpResponse 200 [] (Some ''ok''))\<rparr>"

lemma cx_served: "session_served cx_gateway cx_handler cx_call cx_sys cx_enc"
  unfolding session_served_def
  by (auto simp: cx_gateway_def gx_gateway_def cx_enc_def cx_handler_def cx_service_def as_response_def split: response.splits)

text \<open>The session cookie of a customer with the booking; the header the browser forged is not used.\<close>

definition cx_book :: gw_ctx where
  "cx_book = (gx_ctx ''shop.example'' [])\<lparr>gc_Method := ''POST'', gc_Get := (\<lambda>k. if k = ''X-Customer-ID'' then ''1'' else []),
     gc_Cookies := (\<lambda>name. if name = ''__Host-barber_customer_session'' then ''one'' else [])\<rparr>"

theorem customer_header_backed_witness:
  "\<exists>req v. req \<in> set (snd (fst (gw_serve cx_gateway 46 cx_book gw_start))) \<and> (''X-Customer-ID'', ''11'') \<in> set (oq_Header req) \<and>
     uuid_String ax_X (cm_ID v) = ''11'' \<and> cust_ByID NoFault 7 (cm_ID v) cx_db = Inr v"
proof -
  let ?sent = "snd (fst (gw_serve cx_gateway 46 cx_book gw_start))"
  have "list_ex (\<lambda>req. list_ex (\<lambda>kv. kv = (''X-Customer-ID'', ''11'')) (oq_Header req)) ?sent" by code_simp
  then obtain req where req: "req \<in> set ?sent" "(''X-Customer-ID'', ''11'') \<in> set (oq_Header req)"
    unfolding list_ex_iff by blast
  have parts: "cz_X (hz_app cx_handler) = ax_X" "ky_db cx_sys = cx_db" "uuid_Parse ax_X s = Some (word_of_nat (length s))" for s
    by (simp_all add: cx_handler_def cx_service_def cx_sys_def ax_X_def)
  have tenant: "rn_TenantID r = ''1111111''" if "Resolver_Resolve (g_resolver cx_gateway) host = Inr r" for host r
    using that by (auto simp: Resolver_Resolve_def cx_gateway_def gx_gateway_def gx_resolver_def)
  from customer_header_backed [OF cx_served req] obtain r t v where
    "Resolver_Resolve (g_resolver cx_gateway) (hostname cx_book) = Inr r" "uuid_Parse ax_X (rn_TenantID r) = Some t"
    "''11'' = uuid_String ax_X (cm_ID v)" "cust_ByID NoFault t (cm_ID v) cx_db = Inr v" unfolding parts(1,2) by blast
  moreover from this(1,2) have "t = 7" using tenant by (simp add: parts(3))
  ultimately show ?thesis using req by metis
qed

end
