(* ===== verification/Catalog_Store.thy ===== *)
theory Catalog_Store
  imports Platform Store_Spec "HOL-Library.List_Lexorder" "HOL-Library.Char_ord"
begin

text \<open>
  The store of catalog-service: services, their prices, and which barber offers which service, with the constraints
  of the migrations and the operations of \<^verbatim>\<open>internal/repository/repository.go\<close>.

  A price is a \<^verbatim>\<open>numeric(12,2)\<close>, here its value in hundredths; it is read as text with two decimals. Durations are
  32-bit columns. As in the other stores, policies repeat conditions that name the tenant, columns that no statement
  reads are left out, texts are ordered by the sort keys of the database's collation (\<open>coll\<close>) and identifiers by
  their bytes.
\<close>

section \<open>Decimal text\<close>

definition digit_char :: "int \<Rightarrow> char" where
  "digit_char n = char_of (48 + nat n)"

function int_text :: "int \<Rightarrow> string" where
  "int_text n = (if n < 10 then [digit_char n] else int_text (n div 10) @ [digit_char (n mod 10)])"
  by auto

termination int_text
  by (relation "measure nat") auto

declare int_text.simps [simp del]

definition int_of_digits :: "string \<Rightarrow> int" where
  "int_of_digits s = foldl (\<lambda>n c. 10 * n + digit_val c) 0 s"

text \<open>\<^verbatim>\<open>amount::text\<close>, and the value of a text the pattern of prices accepts.\<close>

definition amount_text :: "int \<Rightarrow> string" where
  "amount_text c = int_text (c div 100) @ CHR ''.'' # [digit_char (c mod 100 div 10), digit_char (c mod 10)]"

definition amount_cents :: "string \<Rightarrow> int" where
  "amount_cents s =
     (let whole = takeWhile is_digit s; frac = drop 1 (dropWhile is_digit s) in
      100 * int_of_digits whole + (if length frac = 1 then 10 * int_of_digits frac else int_of_digits frac))"

lemma digit_char_digit [simp]:
  assumes "0 \<le> n" and "n < 10"
  shows "is_digit (digit_char n)" and "digit_val (digit_char n) = n"
proof -
  have "nat n < 10" using assms by simp
  then show "is_digit (digit_char n)" "digit_val (digit_char n) = n"
    using assms by (simp_all add: is_digit_def digit_val_def digit_char_def)
qed

lemma int_of_digits_snoc: "int_of_digits (s @ [c]) = 10 * int_of_digits s + digit_val c"
  by (simp add: int_of_digits_def)

lemma int_text_digits: "0 \<le> n \<Longrightarrow> int_of_digits (int_text n) = n \<and> list_all is_digit (int_text n) \<and> int_text n \<noteq> []"
proof (induction n rule: int_text.induct)
  case (1 n)
  show ?case
  proof (cases "n < 10")
    case True
    then show ?thesis using 1(2) by (simp add: int_text.simps [of n] int_of_digits_def)
  next
    case False
    then show ?thesis using 1(1) [OF False] 1(2) by (subst (1 2 3) int_text.simps) (simp add: int_of_digits_snoc)
  qed
qed

lemma amount_roundtrip:
  assumes "0 \<le> c"
  shows "amount_cents (amount_text c) = c"
proof -
  have dot: "\<not> is_digit CHR ''.''" by (simp add: is_digit_def)
  have ds: "int_of_digits (int_text (c div 100)) = c div 100" "list_all is_digit (int_text (c div 100))"
    using int_text_digits [of "c div 100"] assms by simp_all
  have "takeWhile is_digit (amount_text c) = int_text (c div 100)"
    "dropWhile is_digit (amount_text c) = CHR ''.'' # [digit_char (c mod 100 div 10), digit_char (c mod 10)]"
    using ds dot by (simp_all add: amount_text_def takeWhile_append list_all_iff dropWhile_append)
  moreover have "c mod 10 = (c mod 100) mod 10" by (simp add: mod_mod_cancel)
  then have "int_of_digits [digit_char (c mod 100 div 10), digit_char (c mod 10)] = 10 * (c mod 100 div 10) + (c mod 100) mod 10"
    using digit_char_digit(2) [of "c mod 100 div 10"] digit_char_digit(2) [of "c mod 10"]
    by (simp only: int_of_digits_def foldl.simps) simp
  then have "int_of_digits [digit_char (c mod 100 div 10), digit_char (c mod 10)] = c mod 100" by (simp only: mult_div_mod_eq)
  ultimately show ?thesis using ds by (simp add: amount_cents_def Let_def)
qed

lemma digits_nonneg: "list_all is_digit ds \<Longrightarrow> 0 \<le> int_of_digits ds"
proof (induction ds rule: rev_induct)
  case (snoc c ds)
  then show ?case by (simp add: int_of_digits_snoc is_digit_def digit_val_def)
qed (simp add: int_of_digits_def)

section \<open>internal/domain\<close>

record catalog_item =
  ci_ID :: uuid
  ci_Name :: string
  ci_DurationMinutes :: int
  ci_BufferBeforeMinutes :: int
  ci_BufferAfterMinutes :: int
  ci_Price :: string
  ci_Currency :: string
  ci_Active :: bool

record service_input =
  si_Name :: string
  si_DurationMinutes :: int
  si_BufferBeforeMinutes :: int
  si_BufferAfterMinutes :: int
  si_Price :: string
  si_Currency :: string
  si_Active :: "bool option"

record public_barber_services =
  pb_BarberID :: uuid
  pb_ServiceIDs :: "uuid list"

section \<open>Tables\<close>

record service_row =
  sv_id :: uuid
  sv_tenant :: uuid
  sv_name :: string
  sv_duration :: int
  sv_before :: int
  sv_after :: int
  sv_active :: bool

record price_row =
  pr_service :: uuid
  pr_tenant :: uuid
  pr_amount :: int
  pr_currency :: string

record offer_row =
  of_tenant :: uuid
  of_barber :: uuid
  of_service :: uuid
  of_active :: bool

record catalog_db =
  services :: "service_row list"
  pricing :: "price_row list"
  barber_services :: "offer_row list"

definition empty_catalog_db :: catalog_db where
  "empty_catalog_db = \<lparr>services = [], pricing = [], barber_services = []\<rparr>"

section \<open>Statements\<close>

definition same_service :: "uuid \<Rightarrow> uuid \<Rightarrow> service_row \<Rightarrow> bool" where
  "same_service t i r \<longleftrightarrow> sv_tenant r = t \<and> sv_id r = i"

definition same_price :: "uuid \<Rightarrow> uuid \<Rightarrow> price_row \<Rightarrow> bool" where
  "same_price t i r \<longleftrightarrow> pr_tenant r = t \<and> pr_service r = i"

definition same_offer :: "uuid \<Rightarrow> uuid \<Rightarrow> uuid \<Rightarrow> offer_row \<Rightarrow> bool" where
  "same_offer t b s r \<longleftrightarrow> of_tenant r = t \<and> of_barber r = b \<and> of_service r = s"

definition minutes_fit :: "int \<Rightarrow> bool" where
  "minutes_fit n \<longleftrightarrow> - 2147483648 \<le> n \<and> n \<le> 2147483647"

text \<open>The type and the checks of the columns of a service: a value that does not fit, or a negative one.\<close>

definition service_checks :: "service_row \<Rightarrow> repo_error option" where
  "service_checks r =
     (if \<not> minutes_fit (sv_duration r) \<or> \<not> minutes_fit (sv_before r) \<or> \<not> minutes_fit (sv_after r) then Some (PgError ''22003'')
      else if sv_duration r < 0 \<or> sv_before r < 0 \<or> sv_after r < 0 then Some (PgError ''23514'')
      else None)"

definition currency_code :: "string \<Rightarrow> bool" where
  "currency_code s \<longleftrightarrow> length s = 3 \<and> list_all (\<lambda>c. 65 \<le> (of_char c :: nat) \<and> (of_char c :: nat) \<le> 90) s"

definition price_checks :: "int \<Rightarrow> string \<Rightarrow> repo_error option" where
  "price_checks cents currency =
     (if 1000000000000 \<le> cents then Some (PgError ''22003'') else if cents < 0 \<or> \<not> currency_code currency then Some (PgError ''23514'')
      else None)"

definition sql_insert_service :: "uuid \<Rightarrow> service_row \<Rightarrow> catalog_db \<Rightarrow> repo_error + catalog_db" where
  "sql_insert_service ctx r d =
     (if sv_tenant r \<noteq> ctx then Inl (PgError ''42501'')
      else case service_checks r of
        Some e \<Rightarrow> Inl e
      | None \<Rightarrow>
        if list_ex (\<lambda>x. sv_id x = sv_id r \<or> (sv_tenant x = sv_tenant r \<and> sv_name x = sv_name r)) (services d)
        then Inl (PgError ''23505'')
        else Inr (d\<lparr>services := services d @ [r]\<rparr>))"

definition sql_insert_price :: "uuid \<Rightarrow> price_row \<Rightarrow> catalog_db \<Rightarrow> repo_error + catalog_db" where
  "sql_insert_price ctx p d =
     (if pr_tenant p \<noteq> ctx then Inl (PgError ''42501'')
      else case price_checks (pr_amount p) (pr_currency p) of
        Some e \<Rightarrow> Inl e
      | None \<Rightarrow>
        if list_ex (\<lambda>x. pr_service x = pr_service p) (pricing d) then Inl (PgError ''23505'')
        else if \<not> list_ex (same_service (pr_tenant p) (pr_service p)) (services d) then Inl (PgError ''23503'')
        else Inr (d\<lparr>pricing := pricing d @ [p]\<rparr>))"

definition sql_update_service :: "uuid \<Rightarrow> uuid \<Rightarrow> (service_row \<Rightarrow> service_row) \<Rightarrow> catalog_db \<Rightarrow> repo_error + catalog_db" where
  "sql_update_service t i upd d =
     (case find (same_service t i) (services d) of
        None \<Rightarrow> Inl ErrNoRows
      | Some r \<Rightarrow>
        (case service_checks (upd r) of
           Some e \<Rightarrow> Inl e
         | None \<Rightarrow>
           if list_ex (\<lambda>x. sv_id x \<noteq> i \<and> sv_tenant x = t \<and> sv_name x = sv_name (upd r)) (services d) then Inl (PgError ''23505'')
           else Inr (d\<lparr>services := map (\<lambda>x. if same_service t i x then upd x else x) (services d)\<rparr>)))"

definition sql_update_price :: "uuid \<Rightarrow> uuid \<Rightarrow> int \<Rightarrow> string \<Rightarrow> catalog_db \<Rightarrow> repo_error + catalog_db" where
  "sql_update_price t i cents currency d =
     (case price_checks cents currency of
        Some e \<Rightarrow> Inl e
      | None \<Rightarrow> Inr (d\<lparr>pricing := map (\<lambda>p. if same_price t i p then p\<lparr>pr_amount := cents, pr_currency := currency\<rparr> else p)
          (pricing d)\<rparr>))"

section \<open>Repository\<close>

definition price_join :: "catalog_db \<Rightarrow> service_row list \<Rightarrow> (service_row \<times> price_row) list" where
  "price_join d rs = concat (map (\<lambda>r. map (Pair r) (filter (same_price (sv_tenant r) (sv_id r)) (pricing d))) rs)"

definition to_item :: "service_row \<times> price_row \<Rightarrow> catalog_item" where
  "to_item = (\<lambda>(r, p). \<lparr>ci_ID = sv_id r, ci_Name = sv_name r, ci_DurationMinutes = sv_duration r,
     ci_BufferBeforeMinutes = sv_before r, ci_BufferAfterMinutes = sv_after r, ci_Price = amount_text (pr_amount p),
     ci_Currency = pr_currency p, ci_Active = sv_active r\<rparr>)"

definition by_name :: "(string \<Rightarrow> string) \<Rightarrow> (service_row \<times> price_row) list \<Rightarrow> (service_row \<times> price_row) list" where
  "by_name coll xs = sort_key (\<lambda>x. coll (sv_name (fst x))) xs"

definition repo_Services :: "(string \<Rightarrow> string) \<Rightarrow> tx_fault \<Rightarrow> uuid \<Rightarrow> bool \<Rightarrow> catalog_db \<Rightarrow> repo_error + catalog_item list" where
  "repo_Services coll f t activeOnly d = tenant_read f (Inr (map to_item (by_name coll
     (price_join d (filter (\<lambda>r. sv_tenant r = t \<and> (activeOnly \<longrightarrow> sv_active r)) (services d))))))"

text \<open>The pairs that the query of \<open>PublicBarberServices\<close> returns, ordered by barber and service.\<close>

definition offered_pairs :: "uuid \<Rightarrow> catalog_db \<Rightarrow> (uuid \<times> uuid) list" where
  "offered_pairs t d = sort_key fst (sort_key snd (concat (map (\<lambda>b.
       map (\<lambda>s. (of_barber b, of_service b)) (filter (\<lambda>s. same_service (of_tenant b) (of_service b) s \<and> sv_active s) (services d)))
     (filter (\<lambda>b. of_tenant b = t \<and> of_active b) (barber_services d)))))"

text \<open>The loop over them: \<open>out\<close> with the position of every barber in it (\<open>byBarber\<close>).\<close>

fun group_pairs ::
  "(uuid \<times> uuid) list \<Rightarrow> public_barber_services list \<Rightarrow> (uuid \<Rightarrow> nat option) \<Rightarrow> public_barber_services list" where
  "group_pairs [] out byBarber = out"
| "group_pairs ((b, s) # rows) out byBarber =
     (case byBarber b of
        None \<Rightarrow> group_pairs rows (out @ [\<lparr>pb_BarberID = b, pb_ServiceIDs = [s]\<rparr>]) (byBarber(b \<mapsto> length out))
      | Some idx \<Rightarrow> group_pairs rows (out[idx := (out ! idx)\<lparr>pb_ServiceIDs := pb_ServiceIDs (out ! idx) @ [s]\<rparr>]) byBarber)"

definition repo_PublicBarberServices :: "tx_fault \<Rightarrow> uuid \<Rightarrow> catalog_db \<Rightarrow> repo_error + public_barber_services list" where
  "repo_PublicBarberServices f t d = tenant_read f (Inr (group_pairs (offered_pairs t d) [] Map.empty))"

definition repo_Service :: "tx_fault \<Rightarrow> uuid \<Rightarrow> uuid \<Rightarrow> catalog_db \<Rightarrow> repo_error + catalog_item" where
  "repo_Service f t i d = tenant_read f
     (case price_join d (filter (same_service t i) (services d)) of [] \<Rightarrow> Inl RepoNotFound | x # _ \<Rightarrow> Inr (to_item x))"

definition default_active :: "bool option \<Rightarrow> bool" where
  "default_active v = (case v of None \<Rightarrow> True | Some b \<Rightarrow> b)"

definition repo_Save ::
  "tx_fault \<Rightarrow> uuid \<Rightarrow> uuid \<Rightarrow> uuid \<Rightarrow> service_input \<Rightarrow> catalog_db \<Rightarrow> (repo_error + catalog_item) \<times> catalog_db" where
  "repo_Save f new t i inp = WithTenantTx f t (\<lambda>ctx d.
     let a = default_active (si_Active inp);
         v = (\<lambda>k. \<lparr>ci_ID = k, ci_Name = si_Name inp, ci_DurationMinutes = si_DurationMinutes inp,
               ci_BufferBeforeMinutes = si_BufferBeforeMinutes inp, ci_BufferAfterMinutes = si_BufferAfterMinutes inp,
               ci_Price = si_Price inp, ci_Currency = si_Currency inp, ci_Active = a\<rparr>) in
     if i = uuid_nil
     then case sql_insert_service ctx \<lparr>sv_id = new, sv_tenant = t, sv_name = si_Name inp, sv_duration = si_DurationMinutes inp,
                 sv_before = si_BufferBeforeMinutes inp, sv_after = si_BufferAfterMinutes inp, sv_active = a\<rparr> d of
            Inl e \<Rightarrow> Inl e
          | Inr d1 \<Rightarrow>
            (case sql_insert_price ctx \<lparr>pr_service = new, pr_tenant = t, pr_amount = amount_cents (si_Price inp),
                    pr_currency = si_Currency inp\<rparr> d1 of
               Inl e \<Rightarrow> Inl e
             | Inr d2 \<Rightarrow> Inr (v new, d2))
     else case sql_update_service t i (\<lambda>r. r\<lparr>sv_name := si_Name inp, sv_duration := si_DurationMinutes inp,
                 sv_before := si_BufferBeforeMinutes inp, sv_after := si_BufferAfterMinutes inp, sv_active := a\<rparr>) d of
            Inl e \<Rightarrow> Inl (if e = ErrNoRows then RepoNotFound else e)
          | Inr d1 \<Rightarrow>
            (case sql_update_price t i (amount_cents (si_Price inp)) (si_Currency inp) d1 of
               Inl e \<Rightarrow> Inl e
             | Inr d2 \<Rightarrow> Inr (v i, d2)))"

definition repo_Assign :: "tx_fault \<Rightarrow> uuid \<Rightarrow> uuid \<Rightarrow> uuid \<Rightarrow> catalog_db \<Rightarrow> (repo_error + unit) \<times> catalog_db" where
  "repo_Assign f t b s = WithTenantTx f t (\<lambda>ctx d.
     if \<not> list_ex (same_service t s) (services d) then Inl RepoNotFound
     else if list_ex (same_offer t b s) (barber_services d)
     then Inr ((), d\<lparr>barber_services := map (\<lambda>r. if same_offer t b s r then r\<lparr>of_active := True\<rparr> else r) (barber_services d)\<rparr>)
     else Inr ((), d\<lparr>barber_services := barber_services d @ [\<lparr>of_tenant = t, of_barber = b, of_service = s, of_active = True\<rparr>]\<rparr>))"

definition offered_items :: "uuid \<Rightarrow> (offer_row \<Rightarrow> bool) \<Rightarrow> (service_row \<Rightarrow> bool) \<Rightarrow> catalog_db \<Rightarrow> (service_row \<times> price_row) list" where
  "offered_items t P Q d = price_join d (concat (map (\<lambda>b. filter (\<lambda>r. same_service (of_tenant b) (of_service b) r \<and> Q r) (services d))
     (filter (\<lambda>b. of_tenant b = t \<and> of_active b \<and> P b) (barber_services d))))"

definition repo_Assignments :: "(string \<Rightarrow> string) \<Rightarrow> tx_fault \<Rightarrow> uuid \<Rightarrow> uuid \<Rightarrow> catalog_db \<Rightarrow> repo_error + catalog_item list" where
  "repo_Assignments coll f t b d = tenant_read f
     (Inr (map to_item (by_name coll (offered_items t (\<lambda>r. of_barber r = b) (\<lambda>_. True) d))))"

definition repo_Unassign :: "tx_fault \<Rightarrow> uuid \<Rightarrow> uuid \<Rightarrow> uuid \<Rightarrow> catalog_db \<Rightarrow> (repo_error + unit) \<times> catalog_db" where
  "repo_Unassign f t b s = WithTenantTx f t (\<lambda>ctx d.
     if list_ex (same_offer t b s) (barber_services d)
     then Inr ((), d\<lparr>barber_services := filter (\<lambda>r. \<not> same_offer t b s r) (barber_services d)\<rparr>)
     else Inl RepoNotFound)"

definition repo_ActiveAssignedService :: "tx_fault \<Rightarrow> uuid \<Rightarrow> uuid \<Rightarrow> uuid \<Rightarrow> catalog_db \<Rightarrow> repo_error + catalog_item" where
  "repo_ActiveAssignedService f t b s d = tenant_read f
     (case offered_items t (\<lambda>r. of_barber r = b \<and> of_service r = s) sv_active d of
        [] \<Rightarrow> Inl RepoNotFound | x # _ \<Rightarrow> Inr (to_item x))"

end
