(* ===== verification/Barber_Store.thy ===== *)
theory Barber_Store
  imports Platform Store_Spec "HOL-Library.List_Lexorder" "HOL-Library.Char_ord"
begin

text \<open>
  The store of barber-service: branches, barbers with their profiles, and the assignments of barbers to
  branches, with the constraints of the migrations and the operations of
  \<^verbatim>\<open>internal/repository/repository.go\<close>.

  Every table belongs to tenants; the policies add the tenant of the transaction to conditions that name it
  already, and refuse rows of another tenant. Columns that no statement reads (creation and update times) are left
  out. Texts are ordered by the sort keys of the database's collation, the argument \<open>coll\<close> of the listings;
  identifiers by their bytes. The text of an identifier that the database prints is read back unchanged.
\<close>

section \<open>internal/domain\<close>

record branch =
  bn_ID :: uuid
  bn_Name :: string
  bn_Address :: string
  bn_Active :: bool

record barber =
  bv_ID :: uuid
  bv_DisplayName :: string
  bv_Bio :: string
  bv_Active :: bool
  bv_IdentityID :: "uuid option"
  bv_BranchIDs :: "uuid list"

record branch_input =
  bi_Name :: string
  bi_Address :: string
  bi_Active :: "bool option"

text \<open>An absent list of branches (\<open>None\<close>) is not the empty list.\<close>

record barber_input =
  bri_DisplayName :: string
  bri_Bio :: string
  bri_Active :: "bool option"
  bri_BranchIDs :: "uuid list option"

section \<open>Tables\<close>

record branch_row =
  br_id :: uuid
  br_tenant :: uuid
  br_name :: string
  br_address :: string
  br_active :: bool

record barber_row =
  bb_id :: uuid
  bb_tenant :: uuid
  bb_name :: string
  bb_active :: bool
  bb_identity :: "uuid option"

record profile_row =
  bp_barber :: uuid
  bp_tenant :: uuid
  bp_bio :: string

record assignment_row =
  ba_tenant :: uuid
  ba_barber :: uuid
  ba_branch :: uuid
  ba_active :: bool

record barber_db =
  branches :: "branch_row list"
  barbers :: "barber_row list"
  barber_profiles :: "profile_row list"
  assignments :: "assignment_row list"

definition empty_barber_db :: barber_db where
  "empty_barber_db = \<lparr>branches = [], barbers = [], barber_profiles = [], assignments = []\<rparr>"

section \<open>Statements\<close>

definition same_branch :: "uuid \<Rightarrow> uuid \<Rightarrow> branch_row \<Rightarrow> bool" where
  "same_branch t i r \<longleftrightarrow> br_tenant r = t \<and> br_id r = i"

definition same_barber :: "uuid \<Rightarrow> uuid \<Rightarrow> barber_row \<Rightarrow> bool" where
  "same_barber t i r \<longleftrightarrow> bb_tenant r = t \<and> bb_id r = i"

definition same_profile :: "uuid \<Rightarrow> uuid \<Rightarrow> profile_row \<Rightarrow> bool" where
  "same_profile t i r \<longleftrightarrow> bp_tenant r = t \<and> bp_barber r = i"

definition same_assignment :: "uuid \<Rightarrow> uuid \<Rightarrow> uuid \<Rightarrow> assignment_row \<Rightarrow> bool" where
  "same_assignment t b br r \<longleftrightarrow> ba_tenant r = t \<and> ba_barber r = b \<and> ba_branch r = br"

definition sql_insert_branch :: "uuid \<Rightarrow> branch_row \<Rightarrow> barber_db \<Rightarrow> repo_error + barber_db" where
  "sql_insert_branch ctx r d =
     (if br_tenant r \<noteq> ctx then Inl (PgError ''42501'')
      else if list_ex (\<lambda>x. br_id x = br_id r \<or> (br_tenant x = br_tenant r \<and> br_name x = br_name r)) (branches d)
      then Inl (PgError ''23505'')
      else Inr (d\<lparr>branches := branches d @ [r]\<rparr>))"

text \<open>\<^verbatim>\<open>UPDATE public.branches SET name, address, active\<close>; the name is unique in the tenant.\<close>

definition sql_update_branch ::
  "uuid \<Rightarrow> uuid \<Rightarrow> string \<Rightarrow> string \<Rightarrow> bool \<Rightarrow> barber_db \<Rightarrow> repo_error + barber_db" where
  "sql_update_branch t i name address active d =
     (if \<not> list_ex (same_branch t i) (branches d) then Inl ErrNoRows
      else if list_ex (\<lambda>x. br_id x \<noteq> i \<and> br_tenant x = t \<and> br_name x = name) (branches d) then Inl (PgError ''23505'')
      else Inr (d\<lparr>branches := map (\<lambda>r. if same_branch t i r
        then r\<lparr>br_name := name, br_address := address, br_active := active\<rparr> else r) (branches d)\<rparr>))"

definition sql_insert_barber :: "uuid \<Rightarrow> barber_row \<Rightarrow> barber_db \<Rightarrow> repo_error + barber_db" where
  "sql_insert_barber ctx r d =
     (if bb_tenant r \<noteq> ctx then Inl (PgError ''42501'')
      else if list_ex (\<lambda>x. bb_id x = bb_id r) (barbers d) then Inl (PgError ''23505'')
      else Inr (d\<lparr>barbers := barbers d @ [r]\<rparr>))"

definition sql_insert_profile :: "uuid \<Rightarrow> profile_row \<Rightarrow> barber_db \<Rightarrow> repo_error + barber_db" where
  "sql_insert_profile ctx p d =
     (if bp_tenant p \<noteq> ctx then Inl (PgError ''42501'')
      else if list_ex (\<lambda>x. bp_barber x = bp_barber p) (barber_profiles d) then Inl (PgError ''23505'')
      else if \<not> list_ex (same_barber (bp_tenant p) (bp_barber p)) (barbers d) then Inl (PgError ''23503'')
      else Inr (d\<lparr>barber_profiles := barber_profiles d @ [p]\<rparr>))"

definition sql_update_barber :: "uuid \<Rightarrow> uuid \<Rightarrow> string \<Rightarrow> bool \<Rightarrow> barber_db \<Rightarrow> barber_db" where
  "sql_update_barber t i name active d =
     d\<lparr>barbers := map (\<lambda>r. if same_barber t i r then r\<lparr>bb_name := name, bb_active := active\<rparr> else r) (barbers d)\<rparr>"

definition sql_update_profile :: "uuid \<Rightarrow> uuid \<Rightarrow> string \<Rightarrow> barber_db \<Rightarrow> barber_db" where
  "sql_update_profile t i bio d =
     d\<lparr>barber_profiles := map (\<lambda>p. if same_profile t i p then p\<lparr>bp_bio := bio\<rparr> else p) (barber_profiles d)\<rparr>"

text \<open>\<^verbatim>\<open>SET identity_id\<close>: unique in the tenant where it is not null.\<close>

definition sql_set_identity :: "uuid \<Rightarrow> uuid \<Rightarrow> uuid option \<Rightarrow> barber_db \<Rightarrow> repo_error + barber_db" where
  "sql_set_identity t i link d =
     (if link \<noteq> None \<and> list_ex (\<lambda>x. bb_id x \<noteq> i \<and> bb_tenant x = t \<and> bb_identity x = link) (barbers d)
      then Inl (PgError ''23505'')
      else Inr (d\<lparr>barbers := map (\<lambda>r. if same_barber t i r then r\<lparr>bb_identity := link\<rparr> else r) (barbers d)\<rparr>))"

definition sql_deactivate_assignments :: "uuid \<Rightarrow> uuid \<Rightarrow> barber_db \<Rightarrow> barber_db" where
  "sql_deactivate_assignments t b d =
     d\<lparr>assignments := map (\<lambda>a. if ba_tenant a = t \<and> ba_barber a = b then a\<lparr>ba_active := False\<rparr> else a) (assignments d)\<rparr>"

text \<open>\<^verbatim>\<open>INSERT \<dots> ON CONFLICT(tenant_id,barber_id,branch_id) DO UPDATE SET active=true\<close>\<close>

definition sql_upsert_assignment :: "uuid \<Rightarrow> uuid \<Rightarrow> uuid \<Rightarrow> barber_db \<Rightarrow> repo_error + barber_db" where
  "sql_upsert_assignment t b br d =
     (if list_ex (same_assignment t b br) (assignments d)
      then Inr (d\<lparr>assignments := map (\<lambda>a. if same_assignment t b br a then a\<lparr>ba_active := True\<rparr> else a) (assignments d)\<rparr>)
      else if \<not> list_ex (same_barber t b) (barbers d) \<or> \<not> list_ex (same_branch t br) (branches d) then Inl (PgError ''23503'')
      else Inr (d\<lparr>assignments := assignments d @ [\<lparr>ba_tenant = t, ba_barber = b, ba_branch = br, ba_active = True\<rparr>]\<rparr>))"

fun upsert_assignments :: "uuid \<Rightarrow> uuid \<Rightarrow> uuid list \<Rightarrow> barber_db \<Rightarrow> repo_error + barber_db" where
  "upsert_assignments t b [] d = Inr d"
| "upsert_assignments t b (br # rest) d =
     (case sql_upsert_assignment t b br d of Inl e \<Rightarrow> Inl e | Inr d' \<Rightarrow> upsert_assignments t b rest d')"

section \<open>Repository\<close>

definition to_branch :: "branch_row \<Rightarrow> branch" where
  "to_branch r = \<lparr>bn_ID = br_id r, bn_Name = br_name r, bn_Address = br_address r, bn_Active = br_active r\<rparr>"

definition is_assigned :: "uuid \<Rightarrow> uuid \<Rightarrow> uuid \<Rightarrow> barber_db \<Rightarrow> bool" where
  "is_assigned t br b d \<longleftrightarrow> list_ex (\<lambda>a. same_assignment t b br a \<and> ba_active a) (assignments d)"

definition repo_Assigned :: "tx_fault \<Rightarrow> uuid \<Rightarrow> uuid \<Rightarrow> uuid \<Rightarrow> barber_db \<Rightarrow> repo_error + bool" where
  "repo_Assigned f t br b d = tenant_read f (Inr (is_assigned t br b d))"

definition repo_Branches :: "(string \<Rightarrow> string) \<Rightarrow> tx_fault \<Rightarrow> uuid \<Rightarrow> bool \<Rightarrow> barber_db \<Rightarrow> repo_error + branch list" where
  "repo_Branches coll f t activeOnly d = tenant_read f (Inr (map to_branch (sort_key (\<lambda>r. coll (br_name r))
     (filter (\<lambda>r. br_tenant r = t \<and> (activeOnly \<longrightarrow> br_active r)) (branches d)))))"

definition repo_Branch :: "tx_fault \<Rightarrow> uuid \<Rightarrow> uuid \<Rightarrow> barber_db \<Rightarrow> repo_error + branch" where
  "repo_Branch f t i d = tenant_read f
     (case find (same_branch t i) (branches d) of None \<Rightarrow> Inl RepoNotFound | Some r \<Rightarrow> Inr (to_branch r))"

definition default_true :: "bool option \<Rightarrow> bool" where
  "default_true v = (case v of None \<Rightarrow> True | Some b \<Rightarrow> b)"

text \<open>The argument \<open>new\<close> of the two saves is the identifier the database generates for an inserted row.\<close>

definition repo_SaveBranch ::
  "tx_fault \<Rightarrow> uuid \<Rightarrow> uuid \<Rightarrow> uuid \<Rightarrow> branch_input \<Rightarrow> barber_db \<Rightarrow> (repo_error + branch) \<times> barber_db" where
  "repo_SaveBranch f new t i inp = WithTenantTx f t (\<lambda>ctx d.
     let active = default_true (bi_Active inp) in
     if i = uuid_nil
     then case sql_insert_branch ctx \<lparr>br_id = new, br_tenant = t, br_name = bi_Name inp, br_address = bi_Address inp,
                 br_active = active\<rparr> d of
            Inl e \<Rightarrow> Inl e
          | Inr d' \<Rightarrow> Inr (\<lparr>bn_ID = new, bn_Name = bi_Name inp, bn_Address = bi_Address inp, bn_Active = active\<rparr>, d')
     else case sql_update_branch t i (bi_Name inp) (bi_Address inp) active d of
            Inl e \<Rightarrow> Inl (if e = ErrNoRows then RepoNotFound else e)
          | Inr d' \<Rightarrow> Inr (\<lparr>bn_ID = i, bn_Name = bi_Name inp, bn_Address = bi_Address inp, bn_Active = active\<rparr>, d'))"

definition branchIDs :: "uuid \<Rightarrow> uuid \<Rightarrow> barber_db \<Rightarrow> uuid list" where
  "branchIDs t b d = sort (map ba_branch (filter (\<lambda>a. ba_tenant a = t \<and> ba_barber a = b \<and> ba_active a) (assignments d)))"

definition barber_join :: "uuid \<Rightarrow> barber_db \<Rightarrow> (barber_row \<times> profile_row) list" where
  "barber_join t d = concat (map (\<lambda>b. map (Pair b) (filter (same_profile (bb_tenant b) (bb_id b)) (barber_profiles d)))
     (filter (\<lambda>b. bb_tenant b = t) (barbers d)))"

text \<open>Active, and assigned to a branch that is active.\<close>

definition publicly_listed :: "barber_db \<Rightarrow> barber_row \<Rightarrow> bool" where
  "publicly_listed d b \<longleftrightarrow> bb_active b \<and>
     list_ex (\<lambda>a. ba_tenant a = bb_tenant b \<and> ba_barber a = bb_id b \<and> ba_active a \<and>
        list_ex (\<lambda>br. same_branch (ba_tenant a) (ba_branch a) br \<and> br_active br) (branches d)) (assignments d)"

definition to_barber :: "barber_db \<Rightarrow> barber_row \<times> profile_row \<Rightarrow> barber" where
  "to_barber d = (\<lambda>(b, p). \<lparr>bv_ID = bb_id b, bv_DisplayName = bb_name b, bv_Bio = bp_bio p, bv_Active = bb_active b,
     bv_IdentityID = bb_identity b, bv_BranchIDs = branchIDs (bb_tenant b) (bb_id b) d\<rparr>)"

definition repo_Barbers :: "(string \<Rightarrow> string) \<Rightarrow> tx_fault \<Rightarrow> uuid \<Rightarrow> bool \<Rightarrow> barber_db \<Rightarrow> repo_error + barber list" where
  "repo_Barbers coll f t public d = tenant_read f (Inr
     (map (\<lambda>x. if public then (to_barber d x)\<lparr>bv_IdentityID := None\<rparr> else to_barber d x)
       (sort_key (\<lambda>x. coll (bb_name (fst x))) (filter (\<lambda>x. public \<longrightarrow> publicly_listed d (fst x)) (barber_join t d)))))"

definition repo_Barber :: "tx_fault \<Rightarrow> uuid \<Rightarrow> uuid \<Rightarrow> barber_db \<Rightarrow> repo_error + barber" where
  "repo_Barber f t i d = tenant_read f
     (case find (\<lambda>x. bb_id (fst x) = i) (barber_join t d) of None \<Rightarrow> Inl RepoNotFound | Some x \<Rightarrow> Inr (to_barber d x))"

text \<open>The row of the barber and its profile: inserted, or updated.\<close>

definition save_barber_row ::
  "uuid \<Rightarrow> uuid \<Rightarrow> uuid \<Rightarrow> uuid \<Rightarrow> barber_input \<Rightarrow> barber_db \<Rightarrow> repo_error + (uuid \<times> uuid option \<times> barber_db)" where
  "save_barber_row ctx new t i inp d =
     (let active = default_true (bri_Active inp) in
      if i = uuid_nil
      then case sql_insert_barber ctx \<lparr>bb_id = new, bb_tenant = t, bb_name = bri_DisplayName inp, bb_active = active,
                  bb_identity = None\<rparr> d of
             Inl e \<Rightarrow> Inl e
           | Inr d1 \<Rightarrow> (case sql_insert_profile ctx \<lparr>bp_barber = new, bp_tenant = t, bp_bio = bri_Bio inp\<rparr> d1 of
               Inl e \<Rightarrow> Inl e
             | Inr d2 \<Rightarrow> Inr (new, None, d2))
      else case find (same_barber t i) (barbers d) of
             None \<Rightarrow> Inl RepoNotFound
           | Some r \<Rightarrow> Inr (i, bb_identity r,
               sql_update_profile t i (bri_Bio inp) (sql_update_barber t i (bri_DisplayName inp) active d)))"

text \<open>The assignments of a barber are replaced: every branch is looked up first.\<close>

definition replace_assignments :: "uuid \<Rightarrow> uuid \<Rightarrow> uuid list \<Rightarrow> barber_db \<Rightarrow> repo_error + barber_db" where
  "replace_assignments t b ids d =
     (if list_all (\<lambda>br. list_ex (same_branch t br) (branches d)) ids
      then upsert_assignments t b ids (sql_deactivate_assignments t b d)
      else Inl RepoNotFound)"

definition repo_SaveBarber ::
  "tx_fault \<Rightarrow> uuid \<Rightarrow> uuid \<Rightarrow> uuid \<Rightarrow> barber_input \<Rightarrow> barber_db \<Rightarrow> (repo_error + barber) \<times> barber_db" where
  "repo_SaveBarber f new t i inp = WithTenantTx f t (\<lambda>ctx d.
     case save_barber_row ctx new t i inp d of
       Inl e \<Rightarrow> Inl e
     | Inr (b, link, d1) \<Rightarrow>
       (let v = \<lparr>bv_ID = b, bv_DisplayName = bri_DisplayName inp, bv_Bio = bri_Bio inp,
                 bv_Active = default_true (bri_Active inp), bv_IdentityID = link, bv_BranchIDs = branchIDs t b d1\<rparr> in
        case bri_BranchIDs inp of
          None \<Rightarrow> Inr (v, d1)
        | Some ids \<Rightarrow> (case replace_assignments t b ids d1 of
            Inl e \<Rightarrow> Inl e
          | Inr d2 \<Rightarrow> Inr (v\<lparr>bv_BranchIDs := ids\<rparr>, d2))))"

definition repo_LinkIdentity :: "tx_fault \<Rightarrow> uuid \<Rightarrow> uuid \<Rightarrow> uuid \<Rightarrow> barber_db \<Rightarrow> (repo_error + unit) \<times> barber_db" where
  "repo_LinkIdentity f t b identity = WithTenantTx f t (\<lambda>ctx d.
     case find (same_barber t b) (barbers d) of
       None \<Rightarrow> Inl RepoNotFound
     | Some r \<Rightarrow> (case bb_identity r of
         Some linked \<Rightarrow> if linked = identity then Inr ((), d) else Inl RepoConflict
       | None \<Rightarrow> (case sql_set_identity t b (Some identity) d of
           Inl e \<Rightarrow> Inl (if e = PgError ''23505'' then RepoConflict else e)
         | Inr d' \<Rightarrow> Inr ((), d'))))"

definition repo_UnlinkIdentity :: "tx_fault \<Rightarrow> uuid \<Rightarrow> uuid \<Rightarrow> barber_db \<Rightarrow> (repo_error + unit) \<times> barber_db" where
  "repo_UnlinkIdentity f t b = WithTenantTx f t (\<lambda>ctx d.
     case sql_set_identity t b None d of
       Inl e \<Rightarrow> Inl e
     | Inr d' \<Rightarrow> if list_ex (same_barber t b) (barbers d) then Inr ((), d') else Inl RepoNotFound)"

end
