(* ===== verification/Barber_Inv.thy ===== *)
theory Barber_Inv
  imports Barber_Store
begin

text \<open>
  The invariant of the tables of barber-service, its preservation by every operation of the repository, and the
  store as an instance of \<open>tenant_store\<close>. A barber has exactly one profile, assignments name a barber and a branch
  of their tenant, and no two barbers of a tenant are linked to the same identity.
\<close>

section \<open>The invariant\<close>

text \<open>The wellformedness of a table is a condition on its rows and on the keys of the tables it refers to.\<close>

definition branches_wf :: "branch_row list \<Rightarrow> bool" where
  "branches_wf rs \<longleftrightarrow> distinct (map br_id rs) \<and> distinct (map (\<lambda>r. (br_tenant r, br_name r)) rs)"

definition same_link :: "barber_row \<Rightarrow> barber_row \<Rightarrow> bool" where
  "same_link r r' \<longleftrightarrow> bb_tenant r = bb_tenant r' \<and> bb_identity r \<noteq> None \<and> bb_identity r = bb_identity r'"

definition barbers_wf :: "barber_row list \<Rightarrow> bool" where
  "barbers_wf rs \<longleftrightarrow> distinct (map bb_id rs) \<and>
     (\<forall>r \<in> set rs. \<forall>r' \<in> set rs. same_link r r' \<longrightarrow> bb_id r = bb_id r')"

definition barber_keys :: "barber_row list \<Rightarrow> (uuid \<times> uuid) set" where
  "barber_keys rs = set (map (\<lambda>r. (bb_tenant r, bb_id r)) rs)"

definition branch_keys :: "branch_row list \<Rightarrow> (uuid \<times> uuid) set" where
  "branch_keys rs = set (map (\<lambda>r. (br_tenant r, br_id r)) rs)"

definition profiles_wf :: "(uuid \<times> uuid) set \<Rightarrow> profile_row list \<Rightarrow> bool" where
  "profiles_wf K ps \<longleftrightarrow> distinct (map bp_barber ps) \<and> set (map (\<lambda>p. (bp_tenant p, bp_barber p)) ps) = K"

definition assignment_key :: "assignment_row \<Rightarrow> uuid \<times> uuid \<times> uuid" where
  "assignment_key a = (ba_tenant a, ba_barber a, ba_branch a)"

definition assignments_wf :: "(uuid \<times> uuid) set \<Rightarrow> (uuid \<times> uuid) set \<Rightarrow> assignment_row list \<Rightarrow> bool" where
  "assignments_wf K L as \<longleftrightarrow> distinct (map assignment_key as) \<and>
     (\<forall>(t, b, br) \<in> set (map assignment_key as). (t, b) \<in> K \<and> (t, br) \<in> L)"

definition barber_inv :: "barber_db \<Rightarrow> bool" where
  "barber_inv d \<longleftrightarrow> branches_wf (branches d) \<and> barbers_wf (barbers d) \<and>
     profiles_wf (barber_keys (barbers d)) (barber_profiles d) \<and>
     assignments_wf (barber_keys (barbers d)) (branch_keys (branches d)) (assignments d)"

lemma barber_inv_empty: "barber_inv empty_barber_db"
  by (simp add: barber_inv_def empty_barber_db_def branches_wf_def barbers_wf_def profiles_wf_def assignments_wf_def barber_keys_def)

lemma same_barber_ex: "list_ex (same_barber t b) rs \<longleftrightarrow> (t, b) \<in> barber_keys rs"
  by (auto simp: barber_keys_def list_ex_iff same_barber_def)

lemma same_branch_ex: "list_ex (same_branch t b) rs \<longleftrightarrow> (t, b) \<in> branch_keys rs"
  by (auto simp: branch_keys_def list_ex_iff same_branch_def)

lemma same_assignment_ex: "list_ex (same_assignment t b br) as \<longleftrightarrow> (t, b, br) \<in> set (map assignment_key as)"
  by (auto simp: assignment_key_def list_ex_iff same_assignment_def)

section \<open>Rows changed in place\<close>

lemma barber_keys_update:
  assumes "\<And>r. bb_id (upd r) = bb_id r" and "\<And>r. bb_tenant (upd r) = bb_tenant r"
  shows "barber_keys (map (\<lambda>r. if P r then upd r else r) rs) = barber_keys rs"
  unfolding barber_keys_def by (rule arg_cong [where f = set], rule map_key_update) (simp add: assms)

lemma branch_keys_update:
  assumes "\<And>r. br_id (upd r) = br_id r" and "\<And>r. br_tenant (upd r) = br_tenant r"
  shows "branch_keys (map (\<lambda>r. if P r then upd r else r) rs) = branch_keys rs"
  unfolding branch_keys_def by (rule arg_cong [where f = set], rule map_key_update) (simp add: assms)

lemma update_barbers_wf:
  assumes "barbers_wf rs" and "\<And>r. bb_id (upd r) = bb_id r"
    and "\<And>r r'. r \<in> set rs \<Longrightarrow> r' \<in> set rs \<Longrightarrow>
      same_link (if P r then upd r else r) (if P r' then upd r' else r') \<Longrightarrow> bb_id r = bb_id r'"
  shows "barbers_wf (map (\<lambda>r. if P r then upd r else r) rs)"
proof -
  let ?rs = "map (\<lambda>r. if P r then upd r else r) rs"
  have "map bb_id ?rs = map bb_id rs" by (rule map_key_update) (rule assms(2))
  then have "distinct (map bb_id ?rs)" using assms(1) by (simp only: barbers_wf_def)
  moreover have "bb_id r = bb_id r'" if mem: "r \<in> set ?rs" "r' \<in> set ?rs" and link: "same_link r r'" for r r'
  proof -
    obtain x x' where x: "x \<in> set rs" "r = (if P x then upd x else x)" "x' \<in> set rs" "r' = (if P x' then upd x' else x')"
      using mem by auto
    with link have "bb_id x = bb_id x'" using assms(3) by blast
    then show ?thesis using x assms(2) by simp
  qed
  ultimately show ?thesis unfolding barbers_wf_def by blast
qed

lemma update_barbers_inv:
  assumes "barber_inv d" and "\<And>r. bb_id (upd r) = bb_id r" and "\<And>r. bb_tenant (upd r) = bb_tenant r"
    and "\<And>r r'. r \<in> set (barbers d) \<Longrightarrow> r' \<in> set (barbers d) \<Longrightarrow>
      same_link (if P r then upd r else r) (if P r' then upd r' else r') \<Longrightarrow> bb_id r = bb_id r'"
  shows "barber_inv (d\<lparr>barbers := map (\<lambda>r. if P r then upd r else r) (barbers d)\<rparr>)"
  using assms(1) update_barbers_wf [OF _ assms(2,4)] barber_keys_update [OF assms(2,3)] by (simp add: barber_inv_def)

lemma update_profiles_inv:
  assumes "barber_inv d" and "\<And>p. bp_barber (upd p) = bp_barber p" and "\<And>p. bp_tenant (upd p) = bp_tenant p"
  shows "barber_inv (d\<lparr>barber_profiles := map (\<lambda>p. if P p then upd p else p) (barber_profiles d)\<rparr>)"
proof -
  let ?ps = "map (\<lambda>p. if P p then upd p else p) (barber_profiles d)"
  have "map bp_barber ?ps = map bp_barber (barber_profiles d)" by (rule map_key_update) (rule assms(2))
  moreover have "map (\<lambda>p. (bp_tenant p, bp_barber p)) ?ps = map (\<lambda>p. (bp_tenant p, bp_barber p)) (barber_profiles d)"
    by (rule map_key_update) (simp add: assms(2,3))
  ultimately have "profiles_wf K ?ps = profiles_wf K (barber_profiles d)" for K unfolding profiles_wf_def by (simp only:)
  then show ?thesis using assms(1) by (simp add: barber_inv_def)
qed

lemma update_assignments_inv:
  assumes "barber_inv d" and "\<And>a. assignment_key (upd a) = assignment_key a"
  shows "barber_inv (d\<lparr>assignments := map (\<lambda>a. if P a then upd a else a) (assignments d)\<rparr>)"
proof -
  have "map assignment_key (map (\<lambda>a. if P a then upd a else a) (assignments d)) = map assignment_key (assignments d)"
    by (rule map_key_update) (rule assms(2))
  then have "assignments_wf K L (map (\<lambda>a. if P a then upd a else a) (assignments d)) = assignments_wf K L (assignments d)" for K L
    unfolding assignments_wf_def by (simp only:)
  then show ?thesis using assms(1) by (simp add: barber_inv_def)
qed

section \<open>Statements\<close>

lemma assignments_wf_mono: "assignments_wf K L as \<Longrightarrow> K \<subseteq> K' \<Longrightarrow> L \<subseteq> L' \<Longrightarrow> assignments_wf K' L' as"
  by (fastforce simp: assignments_wf_def)

lemma sql_insert_branch_inv:
  assumes "barber_inv d" and "sql_insert_branch ctx r d = Inr d'"
  shows "barber_inv d'"
proof -
  have d': "d' = d\<lparr>branches := branches d @ [r]\<rparr>"
    and new: "\<forall>x \<in> set (branches d). br_id x \<noteq> br_id r \<and> \<not> (br_tenant x = br_tenant r \<and> br_name x = br_name r)"
    using assms(2) by (auto simp: sql_insert_branch_def list_ex_iff split: if_splits)
  have "branches_wf (branches d @ [r])" using assms(1) new by (force simp: barber_inv_def branches_wf_def)
  moreover have "branch_keys (branches d) \<subseteq> branch_keys (branches d @ [r])" by (auto simp: branch_keys_def)
  ultimately show ?thesis using assms(1) assignments_wf_mono by (fastforce simp: barber_inv_def d')
qed

lemma sql_update_branch_inv:
  assumes inv: "barber_inv d" and upd: "sql_update_branch t i name address active d = Inr d'"
  shows "barber_inv d'"
proof -
  let ?upd = "\<lambda>r. r\<lparr>br_name := name, br_address := address, br_active := active\<rparr>"
  let ?rs = "map (\<lambda>r. if same_branch t i r then ?upd r else r) (branches d)"
  have free: "\<forall>x \<in> set (branches d). br_tenant x = t \<and> br_name x = name \<longrightarrow> br_id x = i"
    and d': "d' = d\<lparr>branches := ?rs\<rparr>"
    using upd by (auto simp: sql_update_branch_def list_ex_iff split: if_splits)
  have wf: "distinct (map br_id (branches d))" "distinct (map (\<lambda>r. (br_tenant r, br_name r)) (branches d))"
    using inv by (simp_all add: barber_inv_def branches_wf_def)
  then have keys: "distinct (map (\<lambda>r. (br_tenant r, br_id r)) (branches d))" by (auto simp: distinct_map inj_on_def)
  have "map br_id ?rs = map br_id (branches d)" by (rule map_key_update) simp
  moreover have "distinct (map (\<lambda>r. (br_tenant r, br_name r)) ?rs)"
    by (rule distinct_rename [where ident = "\<lambda>r. (br_tenant r, br_id r)" and i = "(t, i)", OF wf(2) keys])
      (use free in \<open>auto simp: same_branch_def\<close>)
  ultimately have "branches_wf ?rs" using wf(1) by (simp only: branches_wf_def)
  moreover have "branch_keys ?rs = branch_keys (branches d)" by (rule branch_keys_update) simp_all
  ultimately show ?thesis using inv by (simp add: barber_inv_def d')
qed

lemma new_barber_inv:
  assumes inv: "barber_inv d"
    and ins: "sql_insert_barber ctx b d = Inr d1" "bb_identity b = None"
    and prof: "sql_insert_profile ctx p d1 = Inr d2" "bp_barber p = bb_id b" "bp_tenant p = bb_tenant b"
  shows "barber_inv d2"
proof -
  have b: "\<forall>r \<in> set (barbers d). bb_id r \<noteq> bb_id b" "d1 = d\<lparr>barbers := barbers d @ [b]\<rparr>"
    using ins(1) by (auto simp: sql_insert_barber_def list_ex_iff split: if_splits)
  have p: "\<forall>r \<in> set (barber_profiles d). bp_barber r \<noteq> bp_barber p" "d2 = d1\<lparr>barber_profiles := barber_profiles d @ [p]\<rparr>"
    using prof(1) by (auto simp: b(2) sql_insert_profile_def list_ex_iff split: if_splits)
  have keys: "barber_keys (barbers d @ [b]) = insert (bb_tenant b, bb_id b) (barber_keys (barbers d))"
    by (auto simp: barber_keys_def)
  have "\<not> same_link r b" "\<not> same_link b r" for r using ins(2) unfolding same_link_def by metis+
  then have "barbers_wf (barbers d @ [b])"
    using inv b(1) by (auto simp: barber_inv_def barbers_wf_def)
  moreover have "profiles_wf (barber_keys (barbers d @ [b])) (barber_profiles d @ [p])"
    using inv p(1) prof(2,3) unfolding barber_inv_def profiles_wf_def keys by simp (metis imageE)
  moreover have "assignments_wf (barber_keys (barbers d @ [b])) (branch_keys (branches d)) (assignments d)"
    using inv unfolding barber_inv_def keys by (elim conjE) (erule assignments_wf_mono; blast)
  ultimately show ?thesis using inv by (simp add: barber_inv_def p(2) b(2))
qed

lemma sql_update_barber_inv: "barber_inv d \<Longrightarrow> barber_inv (sql_update_barber t i name active d)"
  unfolding sql_update_barber_def
  by (rule update_barbers_inv) (auto simp: barber_inv_def barbers_wf_def same_link_def split: if_splits)

lemma sql_update_profile_inv: "barber_inv d \<Longrightarrow> barber_inv (sql_update_profile t i bio d)"
  unfolding sql_update_profile_def by (rule update_profiles_inv) auto

lemma sql_set_identity_inv:
  assumes inv: "barber_inv d" and "sql_set_identity t i link d = Inr d'"
  shows "barber_inv d'"
proof -
  have free: "link \<noteq> None \<longrightarrow> \<not> list_ex (\<lambda>x. bb_id x \<noteq> i \<and> bb_tenant x = t \<and> bb_identity x = link) (barbers d)"
    and d': "d' = d\<lparr>barbers := map (\<lambda>r. if same_barber t i r then r\<lparr>bb_identity := link\<rparr> else r) (barbers d)\<rparr>"
    using assms(2) by (auto simp: sql_set_identity_def split: if_splits)
  show ?thesis unfolding d'
    by (rule update_barbers_inv [OF inv])
      (use inv free in \<open>auto simp: barber_inv_def barbers_wf_def same_link_def same_barber_def list_ex_iff split: if_splits\<close>)
qed

lemma sql_deactivate_inv: "barber_inv d \<Longrightarrow> barber_inv (sql_deactivate_assignments t b d)"
  unfolding sql_deactivate_assignments_def by (rule update_assignments_inv) (simp_all add: assignment_key_def)

lemma sql_upsert_inv:
  assumes inv: "barber_inv d" and up: "sql_upsert_assignment t b br d = Inr d'"
  shows "barber_inv d'"
proof (cases "list_ex (same_assignment t b br) (assignments d)")
  case True
  then have "d' = d\<lparr>assignments := map (\<lambda>a. if same_assignment t b br a then a\<lparr>ba_active := True\<rparr> else a) (assignments d)\<rparr>"
    using up by (simp add: sql_upsert_assignment_def)
  then show ?thesis using update_assignments_inv [OF inv, of "\<lambda>a. a\<lparr>ba_active := True\<rparr>"] by (simp add: assignment_key_def)
next
  case False
  then have "(t, b) \<in> barber_keys (barbers d)" "(t, br) \<in> branch_keys (branches d)"
    "d' = d\<lparr>assignments := assignments d @ [\<lparr>ba_tenant = t, ba_barber = b, ba_branch = br, ba_active = True\<rparr>]\<rparr>"
    using up by (auto simp: sql_upsert_assignment_def same_barber_ex same_branch_ex split: if_splits)
  then show ?thesis using inv False
    by (simp add: barber_inv_def assignments_wf_def same_assignment_ex) (simp add: assignment_key_def)
qed

lemma upsert_assignments_inv:
  "barber_inv d \<Longrightarrow> upsert_assignments t b ids d = Inr d' \<Longrightarrow> barber_inv d'"
  by (induction ids arbitrary: d) (auto split: sum.splits intro: sql_upsert_inv)

section \<open>Operations\<close>

lemma save_barber_row_inv:
  assumes inv: "barber_inv d" and "save_barber_row ctx new t i inp d = Inr (b, link, d1)"
  shows "barber_inv d1"
proof (cases "i = uuid_nil")
  case True
  let ?row = "\<lparr>bb_id = new, bb_tenant = t, bb_name = bri_DisplayName inp, bb_active = default_true (bri_Active inp), bb_identity = None\<rparr>"
  obtain d0 where "sql_insert_barber ctx ?row d = Inr d0" "sql_insert_profile ctx \<lparr>bp_barber = new, bp_tenant = t, bp_bio = bri_Bio inp\<rparr> d0 = Inr d1"
    using assms(2) True by (auto simp: save_barber_row_def Let_def split: sum.splits)
  then show ?thesis by (intro new_barber_inv [OF inv]) auto
next
  case False
  then show ?thesis using assms
    by (auto simp: save_barber_row_def Let_def split: option.splits intro: sql_update_profile_inv sql_update_barber_inv)
qed

lemma repo_SaveBranch_inv [inv_intros]: "barber_inv d \<Longrightarrow> barber_inv (snd (repo_SaveBranch f new t i inp d))"
  unfolding repo_SaveBranch_def
  by (rule WithTenantTx_inv)
    (auto simp: Let_def split: sum.splits if_splits intro: sql_insert_branch_inv sql_update_branch_inv)

lemma replace_assignments_inv: "barber_inv d \<Longrightarrow> replace_assignments t b ids d = Inr d' \<Longrightarrow> barber_inv d'"
  by (auto simp: replace_assignments_def split: if_splits intro: upsert_assignments_inv sql_deactivate_inv)

lemma repo_SaveBarber_inv [inv_intros]: "barber_inv d \<Longrightarrow> barber_inv (snd (repo_SaveBarber f new t i inp d))"
  unfolding repo_SaveBarber_def
  by (rule WithTenantTx_inv)
    (auto simp: Let_def split: sum.splits option.splits intro: save_barber_row_inv replace_assignments_inv [OF save_barber_row_inv])

lemma repo_LinkIdentity_inv [inv_intros]: "barber_inv d \<Longrightarrow> barber_inv (snd (repo_LinkIdentity f t b i d))"
  unfolding repo_LinkIdentity_def
  by (rule WithTenantTx_inv) (auto split: sum.splits option.splits if_splits intro: sql_set_identity_inv)

lemma repo_UnlinkIdentity_inv [inv_intros]: "barber_inv d \<Longrightarrow> barber_inv (snd (repo_UnlinkIdentity f t b d))"
  unfolding repo_UnlinkIdentity_def
  by (rule WithTenantTx_inv) (auto split: sum.splits if_splits intro: sql_set_identity_inv)

end
