(* ===== verification/Barber_App.thy ===== *)
theory Barber_App
  imports Barber_Inv
begin

text \<open>
  barber-service above its store: the operations of \<^verbatim>\<open>internal/application/service.go\<close> and the routes of
  \<^verbatim>\<open>internal/handler/http.go\<close>. JSON decoding is a parameter of the handler; of the raw object only the
  presence of the key \<^verbatim>\<open>identity_id\<close> is read.
\<close>

section \<open>internal/application\<close>

text \<open>The sentinels of barber-service and of catalog-service (which has no ErrUnprocessable), and what passes unmapped.\<close>

datatype app_error =
    AppErrInvalid
  | AppErrUnauthorized
  | AppErrForbidden
  | AppErrNotFound
  | AppErrConflict
  | AppErrUnavailable
  | AppErrUnprocessable
  | AppErrRepo repo_error

record barber_service =
  bs_X :: externals
  bs_auth :: auth_client
  bs_coll :: "string \<Rightarrow> string"

text \<open>What a request meets: the faults of its statements, and the identifier the database generates.\<close>

record barber_io =
  bo_f :: "nat \<Rightarrow> tx_fault"
  bo_new :: uuid

definition repoError :: "repo_error \<Rightarrow> app_error" where
  "repoError e = (if e = RepoNotFound then AppErrNotFound else if e = RepoConflict then AppErrConflict else AppErrRepo e)"

definition map_error :: "('e \<Rightarrow> 'e') \<Rightarrow> 'e + 'a \<Rightarrow> 'e' + 'a" where
  "map_error g r = (case r of Inl e \<Rightarrow> Inl (g e) | Inr v \<Rightarrow> Inr v)"

definition barber_authorize :: "barber_service \<Rightarrow> tenant_ctx \<Rightarrow> string \<Rightarrow> bool \<Rightarrow> app_error option" where
  "barber_authorize s tenant cookie write =
     (if AppType tenant \<noteq> ''admin'' then Some AppErrUnauthorized
      else case Authenticate (bs_X s) (bs_auth s) tenant cookie of
        Inl _ \<Rightarrow> Some (if write then AppErrForbidden else AppErrUnauthorized)
      | Inr p \<Rightarrow>
        if \<not> CanRead (ap_Role p) then Some (if \<not> write then AppErrUnauthorized else AppErrForbidden)
        else if write \<and> \<not> CanWrite (ap_Role p) then Some AppErrForbidden
        else None)"

definition bar_PublicBranches :: "barber_service \<Rightarrow> barber_io \<Rightarrow> tenant_ctx \<Rightarrow> barber_db \<Rightarrow> app_error + branch list" where
  "bar_PublicBranches s io tenant d =
     (if AppType tenant \<noteq> ''booking'' then Inl AppErrUnauthorized
      else map_error AppErrRepo (repo_Branches (bs_coll s) (bo_f io 0) (TenantID tenant) True d))"

definition bar_PublicBarbers :: "barber_service \<Rightarrow> barber_io \<Rightarrow> tenant_ctx \<Rightarrow> barber_db \<Rightarrow> app_error + barber list" where
  "bar_PublicBarbers s io tenant d =
     (if AppType tenant \<noteq> ''booking'' then Inl AppErrUnauthorized
      else map_error AppErrRepo (repo_Barbers (bs_coll s) (bo_f io 0) (TenantID tenant) True d))"

definition bar_Branches :: "barber_service \<Rightarrow> barber_io \<Rightarrow> tenant_ctx \<Rightarrow> string \<Rightarrow> barber_db \<Rightarrow> app_error + branch list" where
  "bar_Branches s io tenant cookie d =
     (case barber_authorize s tenant cookie False of
        Some e \<Rightarrow> Inl e
      | None \<Rightarrow> map_error AppErrRepo (repo_Branches (bs_coll s) (bo_f io 0) (TenantID tenant) False d))"

definition bar_Branch :: "barber_service \<Rightarrow> barber_io \<Rightarrow> tenant_ctx \<Rightarrow> string \<Rightarrow> uuid \<Rightarrow> barber_db \<Rightarrow> app_error + branch" where
  "bar_Branch s io tenant cookie i d =
     (case barber_authorize s tenant cookie False of
        Some e \<Rightarrow> Inl e
      | None \<Rightarrow> map_error repoError (repo_Branch (bo_f io 0) (TenantID tenant) i d))"

text \<open>Every error of a save that is not a missing row is a conflict.\<close>

definition save_error :: "repo_error \<Rightarrow> app_error" where
  "save_error e = (if e \<noteq> RepoNotFound then AppErrConflict else repoError e)"

definition bar_SaveBranch ::
  "barber_service \<Rightarrow> barber_io \<Rightarrow> tenant_ctx \<Rightarrow> string \<Rightarrow> uuid \<Rightarrow> branch_input \<Rightarrow> barber_db \<Rightarrow> (app_error + branch) \<times> barber_db" where
  "bar_SaveBranch s io tenant cookie i inp d =
     (case barber_authorize s tenant cookie True of
        Some e \<Rightarrow> (Inl e, d)
      | None \<Rightarrow>
        (let name = TrimSpace (bi_Name inp) in
         if name = [] then (Inl AppErrInvalid, d)
         else case repo_SaveBranch (bo_f io 0) (bo_new io) (TenantID tenant) i (inp\<lparr>bi_Name := name\<rparr>) d of
           (r, d') \<Rightarrow> (map_error save_error r, d')))"

definition bar_Barbers :: "barber_service \<Rightarrow> barber_io \<Rightarrow> tenant_ctx \<Rightarrow> string \<Rightarrow> barber_db \<Rightarrow> app_error + barber list" where
  "bar_Barbers s io tenant cookie d =
     (case barber_authorize s tenant cookie False of
        Some e \<Rightarrow> Inl e
      | None \<Rightarrow> map_error AppErrRepo (repo_Barbers (bs_coll s) (bo_f io 0) (TenantID tenant) False d))"

definition bar_Barber :: "barber_service \<Rightarrow> barber_io \<Rightarrow> tenant_ctx \<Rightarrow> string \<Rightarrow> uuid \<Rightarrow> barber_db \<Rightarrow> app_error + barber" where
  "bar_Barber s io tenant cookie i d =
     (case barber_authorize s tenant cookie False of
        Some e \<Rightarrow> Inl e
      | None \<Rightarrow> map_error repoError (repo_Barber (bo_f io 0) (TenantID tenant) i d))"

definition bar_SaveBarber ::
  "barber_service \<Rightarrow> barber_io \<Rightarrow> tenant_ctx \<Rightarrow> string \<Rightarrow> uuid \<Rightarrow> barber_input \<Rightarrow> barber_db \<Rightarrow> (app_error + barber) \<times> barber_db" where
  "bar_SaveBarber s io tenant cookie i inp d =
     (case barber_authorize s tenant cookie True of
        Some e \<Rightarrow> (Inl e, d)
      | None \<Rightarrow>
        (let name = TrimSpace (bri_DisplayName inp) in
         if name = [] then (Inl AppErrInvalid, d)
         else case repo_SaveBarber (bo_f io 0) (bo_new io) (TenantID tenant) i (inp\<lparr>bri_DisplayName := name\<rparr>) d of
           (r, d') \<Rightarrow> (map_error save_error r, d')))"

definition repoErrorOrNotFound :: "repo_error option \<Rightarrow> app_error" where
  "repoErrorOrNotFound err = (case err of None \<Rightarrow> AppErrNotFound
     | Some e \<Rightarrow> if e = RepoNotFound then AppErrNotFound else AppErrRepo e)"

definition BookingAccess :: "barber_io \<Rightarrow> tenant_ctx \<Rightarrow> uuid \<Rightarrow> uuid \<Rightarrow> barber_db \<Rightarrow> app_error + unit" where
  "BookingAccess io tenant branchID barberID d =
     (if AppType tenant \<noteq> ''admin'' \<and> AppType tenant \<noteq> ''booking'' then Inl AppErrUnauthorized
      else case repo_Branch (bo_f io 0) (TenantID tenant) branchID d of
        Inl e \<Rightarrow> Inl (repoErrorOrNotFound (Some e))
      | Inr branch \<Rightarrow>
        if \<not> bn_Active branch then Inl (repoErrorOrNotFound None)
        else case repo_Barber (bo_f io 1) (TenantID tenant) barberID d of
          Inl e \<Rightarrow> Inl (repoErrorOrNotFound (Some e))
        | Inr barber \<Rightarrow>
          if \<not> bv_Active barber then Inl (repoErrorOrNotFound None)
          else case repo_Assigned (bo_f io 2) (TenantID tenant) branchID barberID d of
            Inl e \<Rightarrow> Inl (AppErrRepo e)
          | Inr assigned \<Rightarrow> if \<not> assigned then Inl AppErrNotFound else Inr ())"

definition SchedulingAccess :: "barber_io \<Rightarrow> tenant_ctx \<Rightarrow> uuid \<Rightarrow> barber_db \<Rightarrow> app_error + uuid option" where
  "SchedulingAccess io tenant i d =
     (if AppType tenant \<noteq> ''admin'' \<and> AppType tenant \<noteq> ''booking'' then Inl AppErrUnauthorized
      else case repo_Barber (bo_f io 0) (TenantID tenant) i d of
        Inl e \<Rightarrow> Inl (repoErrorOrNotFound (Some e))
      | Inr b \<Rightarrow> if \<not> bv_Active b then Inl (repoErrorOrNotFound None) else Inr (bv_IdentityID b))"

definition bar_Exists :: "barber_io \<Rightarrow> tenant_ctx \<Rightarrow> uuid \<Rightarrow> barber_db \<Rightarrow> app_error + unit" where
  "bar_Exists io tenant i d =
     (if AppType tenant \<noteq> ''admin'' then Inl AppErrUnauthorized
      else case repo_Barber (bo_f io 0) (TenantID tenant) i d of Inl e \<Rightarrow> Inl (repoError e) | Inr _ \<Rightarrow> Inr ())"

definition bar_LinkIdentity ::
  "barber_service \<Rightarrow> barber_io \<Rightarrow> tenant_ctx \<Rightarrow> string \<Rightarrow> uuid \<Rightarrow> uuid \<Rightarrow> barber_db \<Rightarrow> (app_error + unit) \<times> barber_db" where
  "bar_LinkIdentity s io tenant cookie barberID identityID d =
     (if identityID = uuid_nil then (Inl AppErrInvalid, d)
      else case barber_authorize s tenant cookie True of
        Some e \<Rightarrow> (Inl e, d)
      | None \<Rightarrow>
        (case EnsureBarberMembership (bs_X s) (bs_auth s) tenant identityID of
           Some _ \<Rightarrow> (Inl AppErrUnprocessable, d)
         | None \<Rightarrow> (case repo_LinkIdentity (bo_f io 0) (TenantID tenant) barberID identityID d of
             (r, d') \<Rightarrow> (map_error repoError r, d'))))"

definition bar_UnlinkIdentity ::
  "barber_service \<Rightarrow> barber_io \<Rightarrow> tenant_ctx \<Rightarrow> string \<Rightarrow> uuid \<Rightarrow> barber_db \<Rightarrow> (app_error + unit) \<times> barber_db" where
  "bar_UnlinkIdentity s io tenant cookie barberID d =
     (case barber_authorize s tenant cookie True of
        Some e \<Rightarrow> (Inl e, d)
      | None \<Rightarrow> (case repo_UnlinkIdentity (bo_f io 0) (TenantID tenant) barberID d of
          (r, d') \<Rightarrow> (map_error repoError r, d')))"

section \<open>internal/handler\<close>

datatype barber_body =
    BkBranch branch
  | BkBranches "branch list"
  | BkBarber barber
  | BkBarbers "barber list"
  | BkIdentity "uuid option"

record barber_handler =
  bh_app :: barber_service
  bh_verify :: "string \<Rightarrow> bool"
  bh_branch :: "string \<Rightarrow> branch_input option"
  bh_barber :: "string \<Rightarrow> barber_input option"
  bh_raw :: "string \<Rightarrow> bool option"
  bh_link :: "string \<Rightarrow> uuid option"

type_synonym barber_answer = "barber_body response \<times> barber_db"

definition bar_tenant :: "barber_handler \<Rightarrow> fiber_ctx \<Rightarrow> tenant_ctx option" where
  "bar_tenant h c = (case adminauth_Context (bs_X (bh_app h)) (bh_verify h) c of Inl _ \<Rightarrow> None | Inr t \<Rightarrow> Some t)"

definition bar_id :: "barber_handler \<Rightarrow> fiber_ctx \<Rightarrow> string \<Rightarrow> uuid option" where
  "bar_id h c key = uuid_Parse (bs_X (bh_app h)) (c_Params c key)"

fun bar_respond :: "app_error \<Rightarrow> int" where
  "bar_respond AppErrInvalid = 400"
| "bar_respond AppErrUnauthorized = 401"
| "bar_respond AppErrForbidden = 403"
| "bar_respond AppErrNotFound = 404"
| "bar_respond AppErrConflict = 409"
| "bar_respond AppErrUnprocessable = 422"
| "bar_respond _ = 500"

text \<open>An error through \<open>bar_respond\<close>, a value as the handler answers it.\<close>

definition bar_reply :: "('a \<Rightarrow> barber_body response) \<Rightarrow> app_error + 'a \<Rightarrow> barber_body response" where
  "bar_reply ok r = (case r of Inl e \<Rightarrow> SendStatus (bar_respond e) | Inr v \<Rightarrow> ok v)"

definition with_bar_tenant ::
  "barber_handler \<Rightarrow> int \<Rightarrow> fiber_ctx \<Rightarrow> (tenant_ctx \<Rightarrow> barber_answer) \<Rightarrow> barber_db \<Rightarrow> barber_answer" where
  "with_bar_tenant h refused c f d = (case bar_tenant h c of None \<Rightarrow> (SendStatus refused, d) | Some t \<Rightarrow> f t)"

definition bar_publicBranches :: "barber_handler \<Rightarrow> barber_io \<Rightarrow> fiber_ctx \<Rightarrow> barber_db \<Rightarrow> barber_answer" where
  "bar_publicBranches h io c d = with_bar_tenant h 401 c (\<lambda>t.
     (bar_reply (JSON 200 \<circ> BkBranches) (bar_PublicBranches (bh_app h) io t d), d)) d"

definition bar_publicBarbers :: "barber_handler \<Rightarrow> barber_io \<Rightarrow> fiber_ctx \<Rightarrow> barber_db \<Rightarrow> barber_answer" where
  "bar_publicBarbers h io c d = with_bar_tenant h 401 c (\<lambda>t.
     (bar_reply (JSON 200 \<circ> BkBarbers) (bar_PublicBarbers (bh_app h) io t d), d)) d"

definition bar_branchList :: "barber_handler \<Rightarrow> barber_io \<Rightarrow> fiber_ctx \<Rightarrow> barber_db \<Rightarrow> barber_answer" where
  "bar_branchList h io c d = with_bar_tenant h 401 c (\<lambda>t.
     (bar_reply (JSON 200 \<circ> BkBranches) (bar_Branches (bh_app h) io t (c_Get c ''Cookie'') d), d)) d"

definition bar_branchGet :: "barber_handler \<Rightarrow> barber_io \<Rightarrow> fiber_ctx \<Rightarrow> barber_db \<Rightarrow> barber_answer" where
  "bar_branchGet h io c d = with_bar_tenant h 401 c (\<lambda>t.
     case bar_id h c ''id'' of
       None \<Rightarrow> (SendStatus 400, d)
     | Some i \<Rightarrow> (bar_reply (JSON 200 \<circ> BkBranch) (bar_Branch (bh_app h) io t (c_Get c ''Cookie'') i d), d)) d"

text \<open>The identifier of a save: that of the path under PATCH, the nil identifier under POST.\<close>

definition save_id :: "barber_handler \<Rightarrow> bool \<Rightarrow> fiber_ctx \<Rightarrow> uuid option" where
  "save_id h patch c = (if patch then bar_id h c ''id'' else Some uuid_nil)"

definition bar_branchSave :: "barber_handler \<Rightarrow> bool \<Rightarrow> barber_io \<Rightarrow> fiber_ctx \<Rightarrow> barber_db \<Rightarrow> barber_answer" where
  "bar_branchSave h patch io c d = with_bar_tenant h 403 c (\<lambda>t.
     case (bh_branch h (c_Body c), save_id h patch c) of
       (Some inp, Some i) \<Rightarrow> (case bar_SaveBranch (bh_app h) io t (c_Get c ''Cookie'') i inp d of
           (r, d') \<Rightarrow> (bar_reply (JSON (if i = uuid_nil then 201 else 200) \<circ> BkBranch) r, d'))
     | _ \<Rightarrow> (SendStatus 400, d)) d"

definition bar_barberList :: "barber_handler \<Rightarrow> barber_io \<Rightarrow> fiber_ctx \<Rightarrow> barber_db \<Rightarrow> barber_answer" where
  "bar_barberList h io c d = with_bar_tenant h 401 c (\<lambda>t.
     (bar_reply (JSON 200 \<circ> BkBarbers) (bar_Barbers (bh_app h) io t (c_Get c ''Cookie'') d), d)) d"

definition bar_barberGet :: "barber_handler \<Rightarrow> barber_io \<Rightarrow> fiber_ctx \<Rightarrow> barber_db \<Rightarrow> barber_answer" where
  "bar_barberGet h io c d = with_bar_tenant h 401 c (\<lambda>t.
     case bar_id h c ''id'' of
       None \<Rightarrow> (SendStatus 400, d)
     | Some i \<Rightarrow> (bar_reply (JSON 200 \<circ> BkBarber) (bar_Barber (bh_app h) io t (c_Get c ''Cookie'') i d), d)) d"

definition bar_barberSave :: "barber_handler \<Rightarrow> bool \<Rightarrow> barber_io \<Rightarrow> fiber_ctx \<Rightarrow> barber_db \<Rightarrow> barber_answer" where
  "bar_barberSave h patch io c d = with_bar_tenant h 403 c (\<lambda>t.
     case (bh_raw h (c_Body c), bh_barber h (c_Body c), save_id h patch c) of
       (Some False, Some inp, Some i) \<Rightarrow> (case bar_SaveBarber (bh_app h) io t (c_Get c ''Cookie'') i inp d of
           (r, d') \<Rightarrow> (bar_reply (JSON (if i = uuid_nil then 201 else 200) \<circ> BkBarber) r, d'))
     | _ \<Rightarrow> (SendStatus 400, d)) d"

definition bar_branchBarberAccess :: "barber_handler \<Rightarrow> barber_io \<Rightarrow> fiber_ctx \<Rightarrow> barber_db \<Rightarrow> barber_answer" where
  "bar_branchBarberAccess h io c d = with_bar_tenant h 401 c (\<lambda>t.
     case (bar_id h c ''branch_id'', bar_id h c ''barber_id'') of
       (Some b, Some r) \<Rightarrow> (bar_reply (\<lambda>_. SendStatus 204) (BookingAccess io t b r d), d)
     | _ \<Rightarrow> (SendStatus 401, d)) d"

definition bar_schedulingAccess :: "barber_handler \<Rightarrow> barber_io \<Rightarrow> fiber_ctx \<Rightarrow> barber_db \<Rightarrow> barber_answer" where
  "bar_schedulingAccess h io c d = with_bar_tenant h 401 c (\<lambda>t.
     case bar_id h c ''id'' of
       None \<Rightarrow> (SendStatus 401, d)
     | Some i \<Rightarrow> (bar_reply (JSON 200 \<circ> BkIdentity) (SchedulingAccess io t i d), d)) d"

definition bar_barberExists :: "barber_handler \<Rightarrow> barber_io \<Rightarrow> fiber_ctx \<Rightarrow> barber_db \<Rightarrow> barber_answer" where
  "bar_barberExists h io c d = with_bar_tenant h 401 c (\<lambda>t.
     case bar_id h c ''id'' of
       None \<Rightarrow> (SendStatus 401, d)
     | Some i \<Rightarrow> (bar_reply (\<lambda>_. SendStatus 204) (bar_Exists io t i d), d)) d"

definition bar_linkIdentity :: "barber_handler \<Rightarrow> barber_io \<Rightarrow> fiber_ctx \<Rightarrow> barber_db \<Rightarrow> barber_answer" where
  "bar_linkIdentity h io c d = with_bar_tenant h 401 c (\<lambda>t.
     case (bar_id h c ''barber_id'', bh_link h (c_Body c)) of
       (Some b, Some i) \<Rightarrow> (case bar_LinkIdentity (bh_app h) io t (c_Get c ''Cookie'') b i d of
           (r, d') \<Rightarrow> (bar_reply (\<lambda>_. SendStatus 204) r, d'))
     | _ \<Rightarrow> (SendStatus 400, d)) d"

definition bar_unlinkIdentity :: "barber_handler \<Rightarrow> barber_io \<Rightarrow> fiber_ctx \<Rightarrow> barber_db \<Rightarrow> barber_answer" where
  "bar_unlinkIdentity h io c d = with_bar_tenant h 401 c (\<lambda>t.
     case bar_id h c ''barber_id'' of
       None \<Rightarrow> (SendStatus 400, d)
     | Some b \<Rightarrow> (case bar_UnlinkIdentity (bh_app h) io t (c_Get c ''Cookie'') b d of
         (r, d') \<Rightarrow> (bar_reply (\<lambda>_. SendStatus 204) r, d'))) d"

datatype barber_route =
    BrExists | BrScheduling | BrBooking | BrPublicBranches | BrPublicBarbers | BrCreateBranch | BrBranches | BrBranch
  | BrUpdateBranch | BrCreateBarber | BrBarbers | BrBarber | BrUpdateBarber | BrLink | BrUnlink

text \<open>\<open>Register\<close>: which handler serves which route.\<close>

fun barber_serve :: "barber_handler \<Rightarrow> barber_route \<Rightarrow> barber_io \<Rightarrow> fiber_ctx \<Rightarrow> barber_db \<Rightarrow> barber_answer" where
  "barber_serve h BrExists = bar_barberExists h"
| "barber_serve h BrScheduling = bar_schedulingAccess h"
| "barber_serve h BrBooking = bar_branchBarberAccess h"
| "barber_serve h BrPublicBranches = bar_publicBranches h"
| "barber_serve h BrPublicBarbers = bar_publicBarbers h"
| "barber_serve h BrCreateBranch = bar_branchSave h False"
| "barber_serve h BrBranches = bar_branchList h"
| "barber_serve h BrBranch = bar_branchGet h"
| "barber_serve h BrUpdateBranch = bar_branchSave h True"
| "barber_serve h BrCreateBarber = bar_barberSave h False"
| "barber_serve h BrBarbers = bar_barberList h"
| "barber_serve h BrBarber = bar_barberGet h"
| "barber_serve h BrUpdateBarber = bar_barberSave h True"
| "barber_serve h BrLink = bar_linkIdentity h"
| "barber_serve h BrUnlink = bar_unlinkIdentity h"

end
