(* ===== verification/Catalog_App.thy ===== *)
theory Catalog_App
  imports Catalog_Store Barber_App
begin

text \<open>
  catalog-service above its store: the client of barber-service (\<^verbatim>\<open>platform/barberclient\<close>), the operations of
  \<^verbatim>\<open>internal/application/application.go\<close> and the routes of \<^verbatim>\<open>internal/handler/http.go\<close>. The sentinels of the
  application are those of \<open>app_error\<close>; JSON decoding is a parameter of the handler.
\<close>

section \<open>platform/barberclient\<close>

datatype lookup_error = BarberNotFound | BarberLookupError string

record barber_client =
  bc_baseURL :: string
  bc_token :: string
  bc_Do :: "http_req \<Rightarrow> http_resp"

definition NewBarberClient :: "string \<Rightarrow> string \<Rightarrow> (http_req \<Rightarrow> http_resp) \<Rightarrow> barber_client" where
  "NewBarberClient baseURL token http =
     \<lparr>bc_baseURL = rev (dropWhile (\<lambda>c. c = CHR ''/'') (rev baseURL)), bc_token = token, bc_Do = http\<rparr>"

definition EnsureExists :: "externals \<Rightarrow> barber_client \<Rightarrow> tenant_ctx \<Rightarrow> uuid \<Rightarrow> lookup_error option" where
  "EnsureExists X cl tenant barberID =
     (if AppType tenant \<noteq> ''admin'' \<or> barberID = uuid_nil then Some (BarberLookupError ''invalid barber lookup context'')
      else case bc_Do cl \<lparr>hr_method = ''GET'',
          hr_url = bc_baseURL cl @ ''/internal/v1/barbers/'' @ uuid_String X barberID @ ''/exists'',
          hr_headers = tenant_headers X (bc_token cl) tenant\<rparr> of
        TransportError e \<Rightarrow> Some (BarberLookupError e)
      | Response status _ \<Rightarrow>
          if status = 204 then None
          else if status = 404 then Some BarberNotFound
          else Some (BarberLookupError ''barber lookup failed''))"

section \<open>internal/application\<close>

record catalog_service =
  cs_X :: externals
  cs_auth :: auth_client
  cs_barber :: barber_client
  cs_coll :: "string \<Rightarrow> string"

record catalog_io =
  co_f :: tx_fault
  co_new :: uuid

text \<open>The patterns for prices and currencies.\<close>

definition amount_match :: "string \<Rightarrow> bool" where
  "amount_match s \<longleftrightarrow>
     (let rest = dropWhile is_digit s in
      takeWhile is_digit s \<noteq> [] \<and>
      (case rest of [] \<Rightarrow> True
       | c # ds \<Rightarrow> c = CHR ''.'' \<and> (length ds = 1 \<or> length ds = 2) \<and> list_all is_digit ds))"

definition currency_match :: "string \<Rightarrow> bool" where
  "currency_match s \<longleftrightarrow> length s = 3 \<and> list_all (\<lambda>c. 65 \<le> (of_char c :: nat) \<and> (of_char c :: nat) \<le> 90) s"

definition catalog_mapRepo :: "repo_error \<Rightarrow> app_error" where
  "catalog_mapRepo e = (if e = RepoNotFound then AppErrNotFound else AppErrRepo e)"

definition catalog_authorize :: "catalog_service \<Rightarrow> tenant_ctx \<Rightarrow> string \<Rightarrow> bool \<Rightarrow> app_error option" where
  "catalog_authorize s t cookie write =
     (if AppType t \<noteq> ''admin'' then Some AppErrUnauthorized
      else case Authenticate (cs_X s) (cs_auth s) t cookie of
        Inl _ \<Rightarrow> Some (if write then AppErrForbidden else AppErrUnauthorized)
      | Inr p \<Rightarrow>
        if \<not> CanRead (ap_Role p) then Some (if \<not> write then AppErrUnauthorized else AppErrForbidden)
        else if write \<and> \<not> CanWrite (ap_Role p) then Some AppErrForbidden
        else None)"

definition valid_service :: "service_input \<Rightarrow> bool" where
  "valid_service inp \<longleftrightarrow> TrimSpace (si_Name inp) \<noteq> [] \<and> si_DurationMinutes inp \<ge> 0 \<and> si_BufferBeforeMinutes inp \<ge> 0 \<and>
     si_BufferAfterMinutes inp \<ge> 0 \<and> amount_match (si_Price inp) \<and> currency_match (si_Currency inp)"

definition cat_Public :: "catalog_service \<Rightarrow> catalog_io \<Rightarrow> tenant_ctx \<Rightarrow> catalog_db \<Rightarrow> app_error + catalog_item list" where
  "cat_Public s io t d =
     (if AppType t \<noteq> ''booking'' then Inl AppErrUnauthorized
      else map_error AppErrRepo (repo_Services (cs_coll s) (co_f io) (TenantID t) True d))"

definition cat_PublicBarberServices :: "catalog_io \<Rightarrow> tenant_ctx \<Rightarrow> catalog_db \<Rightarrow> app_error + public_barber_services list" where
  "cat_PublicBarberServices io t d =
     (if AppType t \<noteq> ''booking'' then Inl AppErrUnauthorized
      else map_error AppErrRepo (repo_PublicBarberServices (co_f io) (TenantID t) d))"

definition cat_Available :: "catalog_io \<Rightarrow> tenant_ctx \<Rightarrow> uuid \<Rightarrow> uuid \<Rightarrow> catalog_db \<Rightarrow> app_error + catalog_item" where
  "cat_Available io t b i d =
     (if AppType t \<noteq> ''booking'' \<and> AppType t \<noteq> ''admin'' then Inl AppErrUnauthorized
      else map_error catalog_mapRepo (repo_ActiveAssignedService (co_f io) (TenantID t) b i d))"

definition cat_List :: "catalog_service \<Rightarrow> catalog_io \<Rightarrow> tenant_ctx \<Rightarrow> string \<Rightarrow> catalog_db \<Rightarrow> app_error + catalog_item list" where
  "cat_List s io t cookie d =
     (case catalog_authorize s t cookie False of
        Some e \<Rightarrow> Inl e
      | None \<Rightarrow> map_error AppErrRepo (repo_Services (cs_coll s) (co_f io) (TenantID t) False d))"

definition cat_Get :: "catalog_service \<Rightarrow> catalog_io \<Rightarrow> tenant_ctx \<Rightarrow> string \<Rightarrow> uuid \<Rightarrow> catalog_db \<Rightarrow> app_error + catalog_item" where
  "cat_Get s io t cookie i d =
     (case catalog_authorize s t cookie False of
        Some e \<Rightarrow> Inl e
      | None \<Rightarrow> map_error catalog_mapRepo (repo_Service (co_f io) (TenantID t) i d))"

text \<open>An error of a write that is not a missing row is a conflict.\<close>

definition catalog_save_error :: "repo_error \<Rightarrow> app_error" where
  "catalog_save_error e = (if e \<noteq> RepoNotFound then AppErrConflict else catalog_mapRepo e)"

definition cat_Save ::
  "catalog_service \<Rightarrow> catalog_io \<Rightarrow> tenant_ctx \<Rightarrow> string \<Rightarrow> uuid \<Rightarrow> service_input \<Rightarrow> catalog_db \<Rightarrow>
     (app_error + catalog_item) \<times> catalog_db" where
  "cat_Save s io t cookie i inp d =
     (case catalog_authorize s t cookie True of
        Some e \<Rightarrow> (Inl e, d)
      | None \<Rightarrow>
        (let inp' = inp\<lparr>si_Name := TrimSpace (si_Name inp)\<rparr> in
         if \<not> valid_service inp' then (Inl AppErrInvalid, d)
         else case repo_Save (co_f io) (co_new io) (TenantID t) i inp' d of
           (r, d') \<Rightarrow> (map_error catalog_save_error r, d')))"

definition ensureBarber :: "catalog_service \<Rightarrow> tenant_ctx \<Rightarrow> uuid \<Rightarrow> app_error option" where
  "ensureBarber s t i =
     (case EnsureExists (cs_X s) (cs_barber s) t i of
        None \<Rightarrow> None
      | Some e \<Rightarrow> Some (if e = BarberNotFound then AppErrNotFound else AppErrUnavailable))"

definition cat_Assign ::
  "catalog_service \<Rightarrow> catalog_io \<Rightarrow> tenant_ctx \<Rightarrow> string \<Rightarrow> uuid \<Rightarrow> uuid \<Rightarrow> catalog_db \<Rightarrow> (app_error + unit) \<times> catalog_db" where
  "cat_Assign s io t cookie b service d =
     (case catalog_authorize s t cookie True of
        Some e \<Rightarrow> (Inl e, d)
      | None \<Rightarrow>
        if service = uuid_nil then (Inl AppErrInvalid, d)
        else case ensureBarber s t b of
          Some e \<Rightarrow> (Inl e, d)
        | None \<Rightarrow> (case repo_Assign (co_f io) (TenantID t) b service d of
            (r, d') \<Rightarrow> (map_error (\<lambda>e. if e = RepoNotFound then AppErrNotFound else AppErrConflict) r, d')))"

definition cat_Assignments ::
  "catalog_service \<Rightarrow> catalog_io \<Rightarrow> tenant_ctx \<Rightarrow> string \<Rightarrow> uuid \<Rightarrow> catalog_db \<Rightarrow> app_error + catalog_item list" where
  "cat_Assignments s io t cookie b d =
     (case catalog_authorize s t cookie False of
        Some e \<Rightarrow> Inl e
      | None \<Rightarrow> (case ensureBarber s t b of
          Some e \<Rightarrow> Inl e
        | None \<Rightarrow> map_error AppErrRepo (repo_Assignments (cs_coll s) (co_f io) (TenantID t) b d)))"

definition cat_Unassign ::
  "catalog_service \<Rightarrow> catalog_io \<Rightarrow> tenant_ctx \<Rightarrow> string \<Rightarrow> uuid \<Rightarrow> uuid \<Rightarrow> catalog_db \<Rightarrow> (app_error + unit) \<times> catalog_db" where
  "cat_Unassign s io t cookie b service d =
     (case catalog_authorize s t cookie True of
        Some e \<Rightarrow> (Inl e, d)
      | None \<Rightarrow> (case ensureBarber s t b of
          Some e \<Rightarrow> (Inl e, d)
        | None \<Rightarrow> (case repo_Unassign (co_f io) (TenantID t) b service d of
            (r, d') \<Rightarrow> (map_error catalog_mapRepo r, d'))))"

section \<open>internal/handler\<close>

datatype catalog_body = CkItem catalog_item | CkItems "catalog_item list" | CkPublic "public_barber_services list"

record catalog_handler =
  ch_app :: catalog_service
  ch_verify :: "string \<Rightarrow> bool"
  ch_service :: "string \<Rightarrow> service_input option"
  ch_assign :: "string \<Rightarrow> uuid option"

type_synonym catalog_answer = "catalog_body response \<times> catalog_db"

definition cat_tenant :: "catalog_handler \<Rightarrow> fiber_ctx \<Rightarrow> tenant_ctx option" where
  "cat_tenant h c = (case adminauth_Context (cs_X (ch_app h)) (ch_verify h) c of Inl _ \<Rightarrow> None | Inr t \<Rightarrow> Some t)"

definition sid :: "catalog_handler \<Rightarrow> fiber_ctx \<Rightarrow> string \<Rightarrow> uuid option" where
  "sid h c key = uuid_Parse (cs_X (ch_app h)) (c_Params c key)"

fun catalog_result :: "app_error \<Rightarrow> int" where
  "catalog_result AppErrInvalid = 400"
| "catalog_result AppErrUnauthorized = 401"
| "catalog_result AppErrForbidden = 403"
| "catalog_result AppErrNotFound = 404"
| "catalog_result AppErrConflict = 409"
| "catalog_result AppErrUnavailable = 502"
| "catalog_result _ = 500"

definition cat_reply :: "('a \<Rightarrow> catalog_body response) \<Rightarrow> app_error + 'a \<Rightarrow> catalog_body response" where
  "cat_reply ok r = (case r of Inl e \<Rightarrow> SendStatus (catalog_result e) | Inr v \<Rightarrow> ok v)"

definition with_cat_tenant ::
  "catalog_handler \<Rightarrow> int \<Rightarrow> fiber_ctx \<Rightarrow> (tenant_ctx \<Rightarrow> catalog_answer) \<Rightarrow> catalog_db \<Rightarrow> catalog_answer" where
  "with_cat_tenant h refused c f d = (case cat_tenant h c of None \<Rightarrow> (SendStatus refused, d) | Some t \<Rightarrow> f t)"

definition cat_public :: "catalog_handler \<Rightarrow> catalog_io \<Rightarrow> fiber_ctx \<Rightarrow> catalog_db \<Rightarrow> catalog_answer" where
  "cat_public h io c d = with_cat_tenant h 401 c (\<lambda>t. (cat_reply (JSON 200 \<circ> CkItems) (cat_Public (ch_app h) io t d), d)) d"

definition cat_publicBarberServices :: "catalog_handler \<Rightarrow> catalog_io \<Rightarrow> fiber_ctx \<Rightarrow> catalog_db \<Rightarrow> catalog_answer" where
  "cat_publicBarberServices h io c d = with_cat_tenant h 401 c (\<lambda>t.
     (cat_reply (JSON 200 \<circ> CkPublic) (cat_PublicBarberServices io t d), d)) d"

definition cat_availabilityService :: "catalog_handler \<Rightarrow> catalog_io \<Rightarrow> fiber_ctx \<Rightarrow> catalog_db \<Rightarrow> catalog_answer" where
  "cat_availabilityService h io c d = with_cat_tenant h 401 c (\<lambda>t.
     case (sid h c ''barber_id'', sid h c ''service_id'') of
       (Some b, Some s) \<Rightarrow> (cat_reply (JSON 200 \<circ> CkItem) (cat_Available io t b s d), d)
     | _ \<Rightarrow> (SendStatus 401, d)) d"

definition cat_list :: "catalog_handler \<Rightarrow> catalog_io \<Rightarrow> fiber_ctx \<Rightarrow> catalog_db \<Rightarrow> catalog_answer" where
  "cat_list h io c d = with_cat_tenant h 401 c (\<lambda>t.
     (cat_reply (JSON 200 \<circ> CkItems) (cat_List (ch_app h) io t (c_Get c ''Cookie'') d), d)) d"

definition cat_get :: "catalog_handler \<Rightarrow> catalog_io \<Rightarrow> fiber_ctx \<Rightarrow> catalog_db \<Rightarrow> catalog_answer" where
  "cat_get h io c d = with_cat_tenant h 401 c (\<lambda>t.
     case sid h c ''id'' of
       None \<Rightarrow> (SendStatus 400, d)
     | Some i \<Rightarrow> (cat_reply (JSON 200 \<circ> CkItem) (cat_Get (ch_app h) io t (c_Get c ''Cookie'') i d), d)) d"

definition cat_save :: "catalog_handler \<Rightarrow> bool \<Rightarrow> catalog_io \<Rightarrow> fiber_ctx \<Rightarrow> catalog_db \<Rightarrow> catalog_answer" where
  "cat_save h patch io c d = with_cat_tenant h 403 c (\<lambda>t.
     case (ch_service h (c_Body c), if patch then sid h c ''id'' else Some uuid_nil) of
       (Some inp, Some i) \<Rightarrow> (case cat_Save (ch_app h) io t (c_Get c ''Cookie'') i inp d of
           (r, d') \<Rightarrow> (cat_reply (JSON (if i = uuid_nil then 201 else 200) \<circ> CkItem) r, d'))
     | _ \<Rightarrow> (SendStatus 400, d)) d"

definition cat_assign :: "catalog_handler \<Rightarrow> catalog_io \<Rightarrow> fiber_ctx \<Rightarrow> catalog_db \<Rightarrow> catalog_answer" where
  "cat_assign h io c d = with_cat_tenant h 403 c (\<lambda>t.
     case (sid h c ''barber_id'', ch_assign h (c_Body c)) of
       (Some b, Some s) \<Rightarrow> (case cat_Assign (ch_app h) io t (c_Get c ''Cookie'') b s d of
           (r, d') \<Rightarrow> (cat_reply (\<lambda>_. SendStatus 201) r, d'))
     | _ \<Rightarrow> (SendStatus 400, d)) d"

definition cat_assignments :: "catalog_handler \<Rightarrow> catalog_io \<Rightarrow> fiber_ctx \<Rightarrow> catalog_db \<Rightarrow> catalog_answer" where
  "cat_assignments h io c d = with_cat_tenant h 401 c (\<lambda>t.
     case sid h c ''barber_id'' of
       None \<Rightarrow> (SendStatus 400, d)
     | Some b \<Rightarrow> (cat_reply (JSON 200 \<circ> CkItems) (cat_Assignments (ch_app h) io t (c_Get c ''Cookie'') b d), d)) d"

definition cat_unassign :: "catalog_handler \<Rightarrow> catalog_io \<Rightarrow> fiber_ctx \<Rightarrow> catalog_db \<Rightarrow> catalog_answer" where
  "cat_unassign h io c d = with_cat_tenant h 403 c (\<lambda>t.
     case (sid h c ''barber_id'', sid h c ''service_id'') of
       (Some b, Some s) \<Rightarrow> (case cat_Unassign (ch_app h) io t (c_Get c ''Cookie'') b s d of
           (r, d') \<Rightarrow> (cat_reply (\<lambda>_. SendStatus 204) r, d'))
     | _ \<Rightarrow> (SendStatus 400, d)) d"

datatype catalog_route =
    CrPublic | CrPublicBarberServices | CrAvailability | CrCreate | CrList | CrGet | CrUpdate | CrAssign | CrAssignments | CrUnassign

text \<open>\<open>Register\<close>: which handler serves which route.\<close>

fun catalog_serve :: "catalog_handler \<Rightarrow> catalog_route \<Rightarrow> catalog_io \<Rightarrow> fiber_ctx \<Rightarrow> catalog_db \<Rightarrow> catalog_answer" where
  "catalog_serve h CrPublic = cat_public h"
| "catalog_serve h CrPublicBarberServices = cat_publicBarberServices h"
| "catalog_serve h CrAvailability = cat_availabilityService h"
| "catalog_serve h CrCreate = cat_save h False"
| "catalog_serve h CrList = cat_list h"
| "catalog_serve h CrGet = cat_get h"
| "catalog_serve h CrUpdate = cat_save h True"
| "catalog_serve h CrAssign = cat_assign h"
| "catalog_serve h CrAssignments = cat_assignments h"
| "catalog_serve h CrUnassign = cat_unassign h"

end
