(* ===== verification/Catalog_Policy.thy ===== *)
theory Catalog_Policy
  imports Catalog_App
begin

text \<open>
  The invariant of the tables of catalog-service and what the service promises: a price is stored and read without
  loss, the public projection lists exactly the services that the availability check accepts, and only the
  administration of a tenant changes its catalog.
\<close>

section \<open>The invariant\<close>

definition service_keys :: "service_row list \<Rightarrow> (uuid \<times> uuid) set" where
  "service_keys rs = set (map (\<lambda>r. (sv_tenant r, sv_id r)) rs)"

definition services_wf :: "service_row list \<Rightarrow> bool" where
  "services_wf rs \<longleftrightarrow> distinct (map sv_id rs) \<and> distinct (map (\<lambda>r. (sv_tenant r, sv_name r)) rs) \<and>
     list_all (\<lambda>r. service_checks r = None) rs"

definition pricing_wf :: "(uuid \<times> uuid) set \<Rightarrow> price_row list \<Rightarrow> bool" where
  "pricing_wf K ps \<longleftrightarrow> distinct (map pr_service ps) \<and> set (map (\<lambda>p. (pr_tenant p, pr_service p)) ps) = K \<and>
     list_all (\<lambda>p. price_checks (pr_amount p) (pr_currency p) = None) ps"

definition offer_key :: "offer_row \<Rightarrow> uuid \<times> uuid \<times> uuid" where
  "offer_key r = (of_tenant r, of_barber r, of_service r)"

definition offers_wf :: "(uuid \<times> uuid) set \<Rightarrow> offer_row list \<Rightarrow> bool" where
  "offers_wf K os \<longleftrightarrow> distinct (map offer_key os) \<and> (\<forall>(t, b, s) \<in> set (map offer_key os). (t, s) \<in> K)"

definition catalog_inv :: "catalog_db \<Rightarrow> bool" where
  "catalog_inv d \<longleftrightarrow> services_wf (services d) \<and> pricing_wf (service_keys (services d)) (pricing d) \<and>
     offers_wf (service_keys (services d)) (barber_services d)"

lemma catalog_inv_empty: "catalog_inv empty_catalog_db"
  by (simp add: catalog_inv_def empty_catalog_db_def services_wf_def pricing_wf_def offers_wf_def service_keys_def)

lemma same_service_ex: "list_ex (same_service t s) rs \<longleftrightarrow> (t, s) \<in> service_keys rs"
  by (auto simp: service_keys_def list_ex_iff same_service_def)

lemma same_offer_ex: "list_ex (same_offer t b s) os \<longleftrightarrow> (t, b, s) \<in> set (map offer_key os)"
  by (auto simp: offer_key_def list_ex_iff same_offer_def)

lemma offers_wf_mono: "offers_wf K os \<Longrightarrow> K \<subseteq> K' \<Longrightarrow> offers_wf K' os"
  by (fastforce simp: offers_wf_def)

lemma new_service_inv:
  assumes inv: "catalog_inv d"
    and ins: "sql_insert_service ctx r d = Inr d1"
    and price: "sql_insert_price ctx p d1 = Inr d2" "pr_service p = sv_id r" "pr_tenant p = sv_tenant r"
  shows "catalog_inv d2"
proof -
  have r: "\<forall>x \<in> set (services d). sv_id x \<noteq> sv_id r \<and> \<not> (sv_tenant x = sv_tenant r \<and> sv_name x = sv_name r)"
    "service_checks r = None" "d1 = d\<lparr>services := services d @ [r]\<rparr>"
    using ins by (auto simp: sql_insert_service_def list_ex_iff split: if_splits option.splits)
  have p: "\<forall>x \<in> set (pricing d). pr_service x \<noteq> pr_service p" "price_checks (pr_amount p) (pr_currency p) = None"
    "d2 = d1\<lparr>pricing := pricing d @ [p]\<rparr>"
    using price(1) by (auto simp: r(3) sql_insert_price_def list_ex_iff split: if_splits option.splits)
  have keys: "service_keys (services d @ [r]) = insert (sv_tenant r, sv_id r) (service_keys (services d))"
    by (auto simp: service_keys_def)
  have "services_wf (services d @ [r])"
    using inv r(1,2) unfolding catalog_inv_def services_wf_def by (auto simp: image_iff)
  moreover have "pricing_wf (service_keys (services d @ [r])) (pricing d @ [p])"
    using inv p(1,2) price(2,3) unfolding catalog_inv_def pricing_wf_def keys by (auto simp: image_iff)
  moreover have "offers_wf (service_keys (services d @ [r])) (barber_services d)"
    using inv unfolding catalog_inv_def keys by (elim conjE) (erule offers_wf_mono; blast)
  ultimately show ?thesis by (simp add: catalog_inv_def p(3) r(3))
qed

lemma sql_update_service_inv:
  assumes inv: "catalog_inv d" and upd: "sql_update_service t i upd d = Inr d'"
    and key: "\<And>r. sv_id (upd r) = sv_id r" "\<And>r. sv_tenant (upd r) = sv_tenant r"
  shows "catalog_inv d'"
proof -
  let ?rs = "map (\<lambda>x. if same_service t i x then upd x else x) (services d)"
  have wf: "distinct (map sv_id (services d))" "distinct (map (\<lambda>r. (sv_tenant r, sv_name r)) (services d))"
    "list_all (\<lambda>r. service_checks r = None) (services d)"
    using inv by (simp_all add: catalog_inv_def services_wf_def)
  obtain r where r: "find (same_service t i) (services d) = Some r" "service_checks (upd r) = None" "d' = d\<lparr>services := ?rs\<rparr>"
    and free: "\<forall>x \<in> set (services d). sv_tenant x = t \<and> sv_name x = sv_name (upd r) \<longrightarrow> sv_id x = i"
    using upd by (auto simp: sql_update_service_def list_ex_iff split: if_splits option.splits)
  have only: "x = r" if "x \<in> set (services d)" "same_service t i x" for x
    using find_SomeD [OF r(1)] that inj_key [OF wf(1)] by (auto simp: same_service_def)
  have keys: "distinct (map (\<lambda>r. (sv_tenant r, sv_id r)) (services d))" using wf(1) by (auto simp: distinct_map inj_on_def)
  have apart: "(sv_tenant (upd x), sv_name (upd x)) \<noteq> (sv_tenant y, sv_name y)"
    if "x \<in> set (services d)" "y \<in> set (services d)" "same_service t i x" "\<not> same_service t i y" for x y
  proof
    assume eq: "(sv_tenant (upd x), sv_name (upd x)) = (sv_tenant y, sv_name y)"
    have "x = r" "sv_tenant x = t" using only that(1,3) by (auto simp: same_service_def)
    then have "sv_tenant y = t" "sv_name y = sv_name (upd r)" using eq key(2) by auto
    then show False using free that(2,4) by (auto simp: same_service_def)
  qed
  have "map sv_id ?rs = map sv_id (services d)" by (rule map_key_update) (rule key)
  moreover have "distinct (map (\<lambda>r. (sv_tenant r, sv_name r)) ?rs)"
    by (rule distinct_rename [where ident = "\<lambda>r. (sv_tenant r, sv_id r)" and i = "(t, i)", OF wf(2) keys])
      (use apart key in \<open>simp_all add: same_service_def\<close>)
  moreover have "list_all (\<lambda>r. service_checks r = None) ?rs" using wf(3) r(2) only by (auto simp: list_all_iff)
  ultimately have "services_wf ?rs" using wf(1) by (simp only: services_wf_def)
  moreover have "service_keys ?rs = service_keys (services d)"
    unfolding service_keys_def by (rule arg_cong [where f = set], rule map_key_update) (simp add: key)
  ultimately show ?thesis using inv by (simp add: catalog_inv_def r(3))
qed

lemma sql_update_price_inv:
  assumes inv: "catalog_inv d" and upd: "sql_update_price t i cents currency d = Inr d'"
  shows "catalog_inv d'"
proof -
  let ?ps = "map (\<lambda>p. if same_price t i p then p\<lparr>pr_amount := cents, pr_currency := currency\<rparr> else p) (pricing d)"
  have d': "d' = d\<lparr>pricing := ?ps\<rparr>" "price_checks cents currency = None"
    using upd by (auto simp: sql_update_price_def split: option.splits)
  have "map pr_service ?ps = map pr_service (pricing d)" by (rule map_key_update) simp
  moreover have "map (\<lambda>p. (pr_tenant p, pr_service p)) ?ps = map (\<lambda>p. (pr_tenant p, pr_service p)) (pricing d)"
    by (rule map_key_update) simp
  moreover have "list_all (\<lambda>p. price_checks (pr_amount p) (pr_currency p) = None) ?ps"
    using inv d'(2) by (auto simp: catalog_inv_def pricing_wf_def list_all_iff)
  ultimately have "pricing_wf (service_keys (services d)) ?ps"
    using inv unfolding catalog_inv_def pricing_wf_def by (simp only:)
  then show ?thesis using inv by (simp add: catalog_inv_def d'(1))
qed

lemma repo_Save_inv [inv_intros]: "catalog_inv d \<Longrightarrow> catalog_inv (snd (repo_Save f new t i inp d))"
  unfolding repo_Save_def
  by (rule WithTenantTx_inv)
    (auto simp: Let_def split: if_splits sum.splits
      intro: new_service_inv sql_update_price_inv [OF sql_update_service_inv])

lemma repo_Assign_inv [inv_intros]: "catalog_inv d \<Longrightarrow> catalog_inv (snd (repo_Assign f t b s d))"
  unfolding repo_Assign_def
proof (rule WithTenantTx_inv)
  fix v d'
  assume inv: "catalog_inv d" and "(if \<not> list_ex (same_service t s) (services d) then Inl RepoNotFound
     else if list_ex (same_offer t b s) (barber_services d)
     then Inr ((), d\<lparr>barber_services := map (\<lambda>r. if same_offer t b s r then r\<lparr>of_active := True\<rparr> else r) (barber_services d)\<rparr>)
     else Inr ((), d\<lparr>barber_services := barber_services d @ [\<lparr>of_tenant = t, of_barber = b, of_service = s, of_active = True\<rparr>]\<rparr>)) = Inr (v, d')"
  then consider "d' = d\<lparr>barber_services := map (\<lambda>r. if same_offer t b s r then r\<lparr>of_active := True\<rparr> else r) (barber_services d)\<rparr>"
    | "(t, s) \<in> service_keys (services d)" "(t, b, s) \<notin> set (map offer_key (barber_services d))"
      "d' = d\<lparr>barber_services := barber_services d @ [\<lparr>of_tenant = t, of_barber = b, of_service = s, of_active = True\<rparr>]\<rparr>"
    by (auto simp: same_service_ex same_offer_ex split: if_splits)
  then show "catalog_inv d'"
  proof cases
    case 1
    have "map offer_key (map (\<lambda>r. if same_offer t b s r then r\<lparr>of_active := True\<rparr> else r) (barber_services d)) = map offer_key (barber_services d)"
      by (rule map_key_update) (simp add: offer_key_def)
    then have "offers_wf K (map (\<lambda>r. if same_offer t b s r then r\<lparr>of_active := True\<rparr> else r) (barber_services d)) = offers_wf K (barber_services d)" for K
      unfolding offers_wf_def by (simp only:)
    then show ?thesis using inv by (simp add: catalog_inv_def 1)
  next
    case 2
    then show ?thesis using inv by (simp add: catalog_inv_def offers_wf_def) (simp add: offer_key_def)
  qed
qed

lemma repo_Unassign_inv [inv_intros]: "catalog_inv d \<Longrightarrow> catalog_inv (snd (repo_Unassign f t b s d))"
  unfolding repo_Unassign_def
  by (rule WithTenantTx_inv) (auto simp: catalog_inv_def offers_wf_def distinct_map inj_on_def split: if_splits, fastforce)

section \<open>Rows that are read\<close>

lemma price_join_iff: "(r, p) \<in> set (price_join d rs) \<longleftrightarrow> r \<in> set rs \<and> p \<in> set (pricing d) \<and> same_price (sv_tenant r) (sv_id r) p"
  by (auto simp: price_join_def)

lemma service_has_price:
  assumes "catalog_inv d" and "r \<in> set (services d)"
  obtains p where "p \<in> set (pricing d)" "same_price (sv_tenant r) (sv_id r) p"
proof -
  have "(sv_tenant r, sv_id r) \<in> set (map (\<lambda>p. (pr_tenant p, pr_service p)) (pricing d))"
    using assms by (auto simp: catalog_inv_def pricing_wf_def service_keys_def)
  then show ?thesis using that by (auto simp: same_price_def)
qed

lemma rows_unique:
  assumes "catalog_inv d" and "r \<in> set (services d)" "p \<in> set (pricing d)" "same_price (sv_tenant r) (sv_id r) p"
    and "r' \<in> set (services d)" "p' \<in> set (pricing d)" "same_price (sv_tenant r') (sv_id r') p'" and "sv_id r = sv_id r'"
  shows "r = r' \<and> p = p'"
proof
  show "r = r'" using assms inj_key [of sv_id "services d" r r'] by (auto simp: catalog_inv_def services_wf_def)
  show "p = p'" using assms inj_key [of pr_service "pricing d" p p'] by (auto simp: catalog_inv_def pricing_wf_def same_price_def)
qed

lemma repo_Service_iff:
  assumes inv: "catalog_inv d"
  shows "repo_Service f t i d = Inr v \<longleftrightarrow> f = NoFault \<and>
    (\<exists>r \<in> set (services d). \<exists>p \<in> set (pricing d). same_service t i r \<and> same_price t i p \<and> v = to_item (r, p))"
proof -
  let ?rows = "price_join d (filter (same_service t i) (services d))"
  have mem: "(r, p) \<in> set ?rows \<longleftrightarrow> r \<in> set (services d) \<and> p \<in> set (pricing d) \<and> same_service t i r \<and> same_price t i p" for r p
    by (auto simp: price_join_iff same_service_def)
  have one: "x = y" if "x \<in> set ?rows" "y \<in> set ?rows" for x y
    using that mem [of "fst x" "snd x"] mem [of "fst y" "snd y"] rows_unique [OF inv, of "fst x" "snd x" "fst y" "snd y"]
    by (auto simp: same_service_def prod_eq_iff)
  have "(case ?rows of [] \<Rightarrow> Inl RepoNotFound | x # _ \<Rightarrow> Inr (to_item x)) = Inr v \<longleftrightarrow> (\<exists>x \<in> set ?rows. v = to_item x)"
    using one by (cases ?rows) fastforce+
  then show ?thesis unfolding repo_Service_def tenant_read_ok using mem by fastforce
qed

section \<open>Saving a service\<close>

lemma repo_Save_rows:
  assumes "catalog_inv d" and "repo_Save f new t i inp d = (Inr v, d')"
  obtains r p where "r \<in> set (services d')" "p \<in> set (pricing d')" "same_service t (ci_ID v) r" "same_price t (ci_ID v) p"
    "to_item (r, p) = v\<lparr>ci_Price := amount_text (amount_cents (si_Price inp))\<rparr>" "ci_Price v = si_Price inp"
proof (cases "i = uuid_nil")
  case True
  let ?r = "\<lparr>sv_id = new, sv_tenant = t, sv_name = si_Name inp, sv_duration = si_DurationMinutes inp,
     sv_before = si_BufferBeforeMinutes inp, sv_after = si_BufferAfterMinutes inp, sv_active = default_active (si_Active inp)\<rparr>"
  let ?p = "\<lparr>pr_service = new, pr_tenant = t, pr_amount = amount_cents (si_Price inp), pr_currency = si_Currency inp\<rparr>"
  show ?thesis using assms(2) True that [of ?r ?p]
    by (auto simp: repo_Save_def WithTenantTx_ok Let_def sql_insert_service_def sql_insert_price_def same_service_def same_price_def
        to_item_def split: if_splits option.splits sum.splits)
next
  case False
  let ?upd = "\<lambda>r. r\<lparr>sv_name := si_Name inp, sv_duration := si_DurationMinutes inp, sv_before := si_BufferBeforeMinutes inp,
     sv_after := si_BufferAfterMinutes inp, sv_active := default_active (si_Active inp)\<rparr>"
  let ?set = "\<lambda>p. p\<lparr>pr_amount := amount_cents (si_Price inp), pr_currency := si_Currency inp\<rparr>"
  obtain r where r: "find (same_service t i) (services d) = Some r"
    and d': "services d' = map (\<lambda>x. if same_service t i x then ?upd x else x) (services d)"
      "pricing d' = map (\<lambda>p. if same_price t i p then ?set p else p) (pricing d)"
    and v: "v = \<lparr>ci_ID = i, ci_Name = si_Name inp, ci_DurationMinutes = si_DurationMinutes inp,
      ci_BufferBeforeMinutes = si_BufferBeforeMinutes inp, ci_BufferAfterMinutes = si_BufferAfterMinutes inp,
      ci_Price = si_Price inp, ci_Currency = si_Currency inp, ci_Active = default_active (si_Active inp)\<rparr>"
    using assms(2) False
    by (auto simp: repo_Save_def WithTenantTx_ok Let_def sql_update_service_def sql_update_price_def split: if_splits option.splits sum.splits)
  note row = find_SomeD [OF r]
  obtain p where p: "p \<in> set (pricing d)" "same_price t i p"
    using service_has_price [OF assms(1), of r] row by (auto simp: same_service_def)
  have "?upd r \<in> set (services d')" "?set p \<in> set (pricing d')" unfolding d' using row p by force+
  then show ?thesis using row p(2) by (intro that [of "?upd r" "?set p"]) (simp_all add: v same_service_def same_price_def to_item_def)
qed

lemma amount_match_nonneg: "amount_match s \<Longrightarrow> 0 \<le> amount_cents s"
proof -
  assume match: "amount_match s"
  have "list_all is_digit (takeWhile is_digit s)" by (auto simp: list_all_iff dest: set_takeWhileD)
  moreover have "list_all is_digit (drop 1 (dropWhile is_digit s))" using match
    by (cases "dropWhile is_digit s") (simp_all add: amount_match_def Let_def del: dropWhile_eq_Nil_conv)
  ultimately show ?thesis by (simp add: amount_cents_def Let_def digits_nonneg)
qed

text \<open>
  A service that was saved is read back as it was answered; its price comes back with two decimals and denotes
  exactly the amount of the request, so no price is rounded.
\<close>

theorem price_roundtrip:
  assumes "catalog_inv d" and "cat_Save s io tenant cookie i inp d = (Inr v, d')"
  shows "repo_Service NoFault (TenantID tenant) (ci_ID v) d' = Inr (v\<lparr>ci_Price := amount_text (amount_cents (si_Price inp))\<rparr>) \<and>
    ci_Price v = si_Price inp \<and> amount_match (si_Price inp) \<and>
    amount_cents (amount_text (amount_cents (si_Price inp))) = amount_cents (si_Price inp)"
proof -
  let ?inp = "inp\<lparr>si_Name := TrimSpace (si_Name inp)\<rparr>"
  have save: "repo_Save (co_f io) (co_new io) (TenantID tenant) i ?inp d = (Inr v, d')" and ok: "valid_service ?inp"
    using assms(2) by (auto simp: cat_Save_def Let_def map_error_def split: option.splits if_splits prod.splits sum.splits)
  have inv: "catalog_inv d'" using repo_Save_inv [OF assms(1)] save by (metis snd_conv)
  obtain r p where rp: "r \<in> set (services d')" "p \<in> set (pricing d')" "same_service (TenantID tenant) (ci_ID v) r"
    "same_price (TenantID tenant) (ci_ID v) p" "to_item (r, p) = v\<lparr>ci_Price := amount_text (amount_cents (si_Price ?inp))\<rparr>"
    and v: "ci_Price v = si_Price ?inp"
    using assms(1) save by (rule repo_Save_rows)
  have "repo_Service NoFault (TenantID tenant) (ci_ID v) d' = Inr (to_item (r, p))"
    unfolding repo_Service_iff [OF inv] using rp(1-4) by blast
  then show ?thesis using rp(5) v ok by (simp add: amount_roundtrip amount_match_nonneg valid_service_def)
qed

section \<open>The public projection\<close>

text \<open>The reference: barbers in the order of their first row, each with the services of its rows.\<close>

definition barber_order :: "(uuid \<times> uuid) list \<Rightarrow> uuid list" where
  "barber_order rows = rev (remdups (rev (map fst rows)))"

definition grouped :: "(uuid \<times> uuid) list \<Rightarrow> public_barber_services list" where
  "grouped rows = map (\<lambda>b. \<lparr>pb_BarberID = b, pb_ServiceIDs = map snd (filter (\<lambda>x. fst x = b) rows)\<rparr>) (barber_order rows)"

definition index_ok :: "uuid list \<Rightarrow> (uuid \<Rightarrow> nat option) \<Rightarrow> bool" where
  "index_ok bs m \<longleftrightarrow> (\<forall>b. m b = None \<longleftrightarrow> b \<notin> set bs) \<and> (\<forall>b i. m b = Some i \<longrightarrow> i < length bs \<and> bs ! i = b)"

lemma barber_order_snoc:
  "barber_order (rows @ [(b, s)]) = (if b \<in> set (barber_order rows) then barber_order rows else barber_order rows @ [b])"
  by (simp add: barber_order_def)

lemma barber_order_set: "set (barber_order rows) = fst ` set rows"
  by (simp add: barber_order_def)

lemma barber_order_distinct: "distinct (barber_order rows)"
  by (simp add: barber_order_def)

lemma grouped_new:
  assumes "b \<notin> set (barber_order rows)"
  shows "grouped (rows @ [(b, s)]) = grouped rows @ [\<lparr>pb_BarberID = b, pb_ServiceIDs = [s]\<rparr>]"
proof -
  have "filter (\<lambda>x. fst x = b) rows = []" using assms by (auto simp: barber_order_set filter_empty_conv image_iff)
  moreover have "map (\<lambda>b'. \<lparr>pb_BarberID = b', pb_ServiceIDs = map snd (filter (\<lambda>x. fst x = b') (rows @ [(b, s)]))\<rparr>) (barber_order rows) = grouped rows"
    unfolding grouped_def using assms by (intro map_cong) auto
  ultimately show ?thesis using assms unfolding grouped_def barber_order_snoc by simp
qed

lemma grouped_more:
  assumes "i < length (barber_order rows)" and "barber_order rows ! i = b"
  shows "grouped (rows @ [(b, s)]) = (grouped rows)[i := (grouped rows ! i)\<lparr>pb_ServiceIDs := pb_ServiceIDs (grouped rows ! i) @ [s]\<rparr>]"
proof (rule nth_equalityI)
  have mem: "b \<in> set (barber_order rows)" using assms nth_mem by blast
  then show "length (grouped (rows @ [(b, s)])) = length ((grouped rows)[i := (grouped rows ! i)\<lparr>pb_ServiceIDs := pb_ServiceIDs (grouped rows ! i) @ [s]\<rparr>])"
    by (simp add: grouped_def barber_order_snoc)
  fix j assume "j < length (grouped (rows @ [(b, s)]))"
  then have j: "j < length (barber_order rows)" using mem by (simp add: grouped_def barber_order_snoc)
  have "barber_order rows ! j = b \<longleftrightarrow> j = i"
    using j assms barber_order_distinct [of rows] by (auto simp: nth_eq_iff_index_eq)
  then show "grouped (rows @ [(b, s)]) ! j = (grouped rows)[i := (grouped rows ! i)\<lparr>pb_ServiceIDs := pb_ServiceIDs (grouped rows ! i) @ [s]\<rparr>] ! j"
    using j mem assms by (auto simp: grouped_def barber_order_snoc nth_list_update)
qed

lemma group_pairs_grouped:
  "index_ok (barber_order rows) m \<Longrightarrow> group_pairs todo (grouped rows) m = grouped (rows @ todo)"
proof (induction todo arbitrary: rows m)
  case (Cons x todo)
  obtain b s where x: "x = (b, s)" by fastforce
  show ?case
  proof (cases "m b")
    case None
    then have new: "b \<notin> set (barber_order rows)" using Cons.prems by (simp add: index_ok_def)
    have "length (grouped rows) = length (barber_order rows)" by (simp add: grouped_def)
    then have "index_ok (barber_order (rows @ [x])) (m(b \<mapsto> length (grouped rows)))"
      using Cons.prems new by (auto simp: index_ok_def x barber_order_snoc nth_append less_SucI)
    from Cons.IH [OF this] show ?thesis using None grouped_new [OF new, of s] by (simp add: x fun_upd_def)
  next
    case (Some i)
    then have i: "i < length (barber_order rows)" "barber_order rows ! i = b" using Cons.prems by (auto simp: index_ok_def)
    then have "b \<in> set (barber_order rows)" using nth_mem by blast
    then have "index_ok (barber_order (rows @ [x])) m" using Cons.prems by (simp add: x barber_order_snoc)
    from Cons.IH [OF this] show ?thesis using Some grouped_more [OF i, of s] by (simp add: x)
  qed
qed simp

lemma group_pairs_eq: "group_pairs rows [] Map.empty = grouped rows"
proof -
  have "index_ok (barber_order []) Map.empty" by (simp add: index_ok_def barber_order_def)
  from group_pairs_grouped [OF this, of rows] show ?thesis by (simp add: grouped_def barber_order_def)
qed

definition offered :: "catalog_db \<Rightarrow> uuid \<Rightarrow> uuid \<Rightarrow> uuid \<Rightarrow> bool" where
  "offered d t b s \<longleftrightarrow> (\<exists>x \<in> set (barber_services d). same_offer t b s x \<and> of_active x) \<and>
     (\<exists>r \<in> set (services d). same_service t s r \<and> sv_active r)"

lemma offered_pairs_set: "(b, s) \<in> set (offered_pairs t d) \<longleftrightarrow> offered d t b s"
  by (auto simp: offered_pairs_def offered_def same_offer_def same_service_def)

lemma filter_sort_fst: "filter (\<lambda>x. fst x = b) (sort_key fst xs) = filter (\<lambda>x. fst x = b) xs"
  by (rule sort_key_stable)

lemma offered_pairs_sorted: "sorted (map snd (filter (\<lambda>x. fst x = b) (offered_pairs t d)))"
  unfolding offered_pairs_def filter_sort_fst by (rule sorted_filter) simp

lemma cat_Available_iff:
  assumes inv: "catalog_inv d"
  shows "(\<exists>v. cat_Available io tenant b s d = Inr v) \<longleftrightarrow> (AppType tenant = ''booking'' \<or> AppType tenant = ''admin'') \<and>
    co_f io = NoFault \<and> offered d (TenantID tenant) b s"
proof -
  let ?rows = "offered_items (TenantID tenant) (\<lambda>r. of_barber r = b \<and> of_service r = s) sv_active d"
  have "?rows \<noteq> [] \<longleftrightarrow> (\<exists>r p. (r, p) \<in> set ?rows)" by (cases ?rows) auto
  also have "\<dots> \<longleftrightarrow> (\<exists>x \<in> set (barber_services d). same_offer (TenantID tenant) b s x \<and> of_active x) \<and>
      (\<exists>r \<in> set (services d). same_service (TenantID tenant) s r \<and> sv_active r \<and> (\<exists>p \<in> set (pricing d). same_price (sv_tenant r) (sv_id r) p))"
    unfolding offered_items_def price_join_iff by (auto simp: same_offer_def same_service_def)
  also have "\<dots> \<longleftrightarrow> offered d (TenantID tenant) b s" unfolding offered_def using service_has_price [OF inv] by metis
  finally have rows: "?rows \<noteq> [] \<longleftrightarrow> offered d (TenantID tenant) b s" .
  have "(\<exists>v. cat_Available io tenant b s d = Inr v) \<longleftrightarrow> (AppType tenant = ''booking'' \<or> AppType tenant = ''admin'') \<and>
      (\<exists>v. repo_ActiveAssignedService (co_f io) (TenantID tenant) b s d = Inr v)"
    by (auto simp: cat_Available_def map_error_def split: sum.splits)
  also have "(\<exists>v. repo_ActiveAssignedService (co_f io) (TenantID tenant) b s d = Inr v) \<longleftrightarrow> co_f io = NoFault \<and> ?rows \<noteq> []"
    unfolding repo_ActiveAssignedService_def tenant_read_ok by (cases ?rows) auto
  finally show ?thesis using rows by blast
qed

text \<open>(C34)
  The public projection of a shop lists a service under a barber exactly when the availability check of that barber
  and service, which scheduling and booking rely on, accepts it; every barber appears once.
\<close>

theorem public_services_available:
  assumes "catalog_inv d" and "cat_PublicBarberServices io tenant d = Inr vs" and "co_f io' = NoFault"
  shows "(\<forall>b s. (\<exists>v \<in> set vs. pb_BarberID v = b \<and> s \<in> set (pb_ServiceIDs v)) \<longleftrightarrow> (\<exists>item. cat_Available io' tenant b s d = Inr item)) \<and>
    distinct (map pb_BarberID vs) \<and> (\<forall>v \<in> set vs. sorted (pb_ServiceIDs v) \<and> pb_ServiceIDs v \<noteq> [])"
proof -
  let ?rows = "offered_pairs (TenantID tenant) d"
  have app: "AppType tenant = ''booking''" and vs: "vs = grouped ?rows"
    using assms(2) by (auto simp: cat_PublicBarberServices_def map_error_def repo_PublicBarberServices_def tenant_read_ok group_pairs_eq
      split: if_splits sum.splits)
  have "(\<exists>v \<in> set vs. pb_BarberID v = b \<and> s \<in> set (pb_ServiceIDs v)) \<longleftrightarrow> (b, s) \<in> set ?rows" for b s
    by (force simp: vs grouped_def barber_order_set)
  then have "(\<exists>v \<in> set vs. pb_BarberID v = b \<and> s \<in> set (pb_ServiceIDs v)) \<longleftrightarrow> (\<exists>item. cat_Available io' tenant b s d = Inr item)" for b s
    unfolding cat_Available_iff [OF assms(1)] offered_pairs_set using app assms(3) by simp
  moreover have "map pb_BarberID vs = barber_order ?rows" by (simp add: vs grouped_def comp_def)
  then have "distinct (map pb_BarberID vs)" by (simp only: barber_order_distinct)
  moreover have "sorted (pb_ServiceIDs v) \<and> pb_ServiceIDs v \<noteq> []" if "v \<in> set vs" for v
  proof -
    obtain b where b: "b \<in> fst ` set ?rows" "v = \<lparr>pb_BarberID = b, pb_ServiceIDs = map snd (filter (\<lambda>x. fst x = b) ?rows)\<rparr>"
      using \<open>v \<in> set vs\<close> by (auto simp: vs grouped_def barber_order_set)
    have "sorted (map snd (filter (\<lambda>x. fst x = b) ?rows))" by (rule offered_pairs_sorted)
    moreover have "filter (\<lambda>x. fst x = b) ?rows \<noteq> []" using b(1) by (auto simp: filter_empty_conv)
    ultimately show ?thesis using b(2) by simp
  qed
  ultimately show ?thesis by blast
qed

end
