(* ===== verification/Catalog_Staff.thy ===== *)
theory Catalog_Staff
  imports Catalog_Policy
begin

text \<open>
  Who changes the tables of catalog-service: every request is one operation of the repository or none, and the
  operation belongs to the tenant the request was authorised for. The store is an instance of \<open>tenant_store\<close>.
\<close>

datatype catalog_op =
    CoSave tx_fault uuid uuid uuid service_input
  | CoAssign tx_fault uuid uuid uuid
  | CoUnassign tx_fault uuid uuid uuid

fun exec_catalog :: "catalog_op \<Rightarrow> catalog_db \<Rightarrow> catalog_db" where
  "exec_catalog (CoSave f new t i inp) d = snd (repo_Save f new t i inp d)"
| "exec_catalog (CoAssign f t b s) d = snd (repo_Assign f t b s d)"
| "exec_catalog (CoUnassign f t b s) d = snd (repo_Unassign f t b s d)"

fun catalog_op_tenant :: "catalog_op \<Rightarrow> uuid option" where
  "catalog_op_tenant (CoSave f new t i inp) = Some t"
| "catalog_op_tenant (CoAssign f t b s) = Some t"
| "catalog_op_tenant (CoUnassign f t b s) = Some t"

definition catalog_view :: "uuid \<Rightarrow> catalog_db \<Rightarrow> service_row list \<times> price_row list \<times> offer_row list" where
  "catalog_view t d = (filter (\<lambda>r. sv_tenant r = t) (services d), filter (\<lambda>p. pr_tenant p = t) (pricing d),
     filter (\<lambda>x. of_tenant x = t) (barber_services d))"

lemma exec_catalog_inv: "catalog_inv d \<Longrightarrow> catalog_inv (exec_catalog x d)"
  by (cases x) (auto intro: inv_intros)

lemma catalog_insert_views:
  shows "sql_insert_service t r d = Inr d' \<Longrightarrow> t' \<noteq> t \<Longrightarrow> catalog_view t' d' = catalog_view t' d"
    and "sql_insert_price t p d = Inr d' \<Longrightarrow> t' \<noteq> t \<Longrightarrow> catalog_view t' d' = catalog_view t' d"
  by (auto simp: catalog_view_def sql_insert_service_def sql_insert_price_def split: if_splits option.splits)

lemma catalog_update_views:
  shows "sql_update_service t i upd d = Inr d' \<Longrightarrow> t' \<noteq> t \<Longrightarrow> (\<And>r. sv_tenant (upd r) = sv_tenant r) \<Longrightarrow>
      catalog_view t' d' = catalog_view t' d"
    and "sql_update_price t i cents currency d = Inr d' \<Longrightarrow> t' \<noteq> t \<Longrightarrow> catalog_view t' d' = catalog_view t' d"
  by (auto simp: catalog_view_def sql_update_service_def sql_update_price_def same_service_def same_price_def
      intro!: filter_map_frame split: if_splits option.splits)

lemma repo_Save_view:
  assumes "t' \<noteq> t"
  shows "catalog_view t' (snd (repo_Save f new t i inp d)) = catalog_view t' d"
  unfolding repo_Save_def
  by (rule tx_frame)
    (use assms in \<open>auto simp: Let_def split: if_splits sum.splits
      intro: trans [OF catalog_insert_views(2) catalog_insert_views(1)] trans [OF catalog_update_views(2) catalog_update_views(1)]\<close>)

lemma exec_catalog_view: "catalog_op_tenant x \<noteq> Some t \<Longrightarrow> catalog_view t (exec_catalog x d) = catalog_view t d"
proof (cases x)
  case (CoAssign f t' b s)
  then show "catalog_op_tenant x \<noteq> Some t \<Longrightarrow> ?thesis" unfolding CoAssign exec_catalog.simps repo_Assign_def
    by (intro tx_frame) (auto simp: catalog_view_def same_offer_def intro!: filter_map_frame split: if_splits)
next
  case (CoUnassign f t' b s)
  then show "catalog_op_tenant x \<noteq> Some t \<Longrightarrow> ?thesis" unfolding CoUnassign exec_catalog.simps repo_Unassign_def
    by (intro tx_frame) (auto simp: catalog_view_def same_offer_def split: if_splits, rule filter_cong, auto)
qed (simp add: repo_Save_view)

interpretation catalog: tenant_store exec_catalog catalog_inv empty_catalog_db catalog_op_tenant catalog_view
  by unfold_locales (auto intro: catalog_inv_empty exec_catalog_inv exec_catalog_view)

section \<open>Requests\<close>

definition catalog_writer :: "catalog_handler \<Rightarrow> fiber_ctx \<Rightarrow> tenant_ctx \<Rightarrow> bool" where
  "catalog_writer h c t \<longleftrightarrow> cat_tenant h c = Some t \<and> AppType t = ''admin'' \<and>
     (\<exists>p. Authenticate (cs_X (ch_app h)) (cs_auth (ch_app h)) t (c_Get c ''Cookie'') = Inr p \<and> CanWrite (ap_Role p))"

lemma catalog_authorize_write:
  "catalog_authorize s t cookie True = None \<longleftrightarrow>
     AppType t = ''admin'' \<and> (\<exists>p. Authenticate (cs_X s) (cs_auth s) t cookie = Inr p \<and> CanWrite (ap_Role p))"
  by (auto simp: catalog_authorize_def CanRead_def CanWrite_def split: sum.splits)

text \<open>An operation on the services of a barber runs only after barber-service confirmed the barber.\<close>

fun op_barber :: "catalog_op \<Rightarrow> uuid option" where
  "op_barber (CoSave f new t i inp) = None"
| "op_barber (CoAssign f t b s) = Some b"
| "op_barber (CoUnassign f t b s) = Some b"

definition catalog_request_op :: "catalog_handler \<Rightarrow> tenant_ctx \<Rightarrow> catalog_op \<Rightarrow> bool" where
  "catalog_request_op h t x \<longleftrightarrow> catalog_op_tenant x = Some (TenantID t) \<and>
     (\<forall>b. op_barber x = Some b \<longrightarrow> EnsureExists (cs_X (ch_app h)) (cs_barber (ch_app h)) t b = None)"

definition catalog_step :: "catalog_handler \<Rightarrow> fiber_ctx \<Rightarrow> tenant_ctx \<Rightarrow> catalog_db \<Rightarrow> catalog_db \<Rightarrow> bool" where
  "catalog_step h c t d d' \<longleftrightarrow> d' = d \<or> (catalog_writer h c t \<and> (\<exists>x. catalog_request_op h t x \<and> d' = exec_catalog x d))"

lemma catalog_step_refl [simp]: "catalog_step h c t d d"
  by (simp add: catalog_step_def)

lemma catalog_stepI:
  assumes "cat_tenant h c = Some t" and "catalog_authorize (ch_app h) t (c_Get c ''Cookie'') True = None"
    and "catalog_request_op h t x" and "d' = exec_catalog x d"
  shows "catalog_step h c t d d'"
  using assms unfolding catalog_step_def catalog_authorize_write catalog_writer_def by blast

lemma ensureBarber_None: "ensureBarber s t b = None \<longleftrightarrow> EnsureExists (cs_X s) (cs_barber s) t b = None"
  by (simp add: ensureBarber_def split: option.splits)

lemma cat_Save_step:
  assumes "cat_tenant h c = Some t"
  shows "catalog_step h c t d (snd (cat_Save (ch_app h) io t (c_Get c ''Cookie'') i inp d))"
proof -
  have "catalog_request_op h t (CoSave (co_f io) (co_new io) (TenantID t) i (inp\<lparr>si_Name := TrimSpace (si_Name inp)\<rparr>))"
    by (simp add: catalog_request_op_def)
  from catalog_stepI [OF assms _ this refl, of d] show ?thesis
    by (simp add: cat_Save_def Let_def snd_case_pair split: option.split)
qed

lemma cat_Assign_step:
  assumes "cat_tenant h c = Some t"
  shows "catalog_step h c t d (snd (cat_Assign (ch_app h) io t (c_Get c ''Cookie'') b s d))"
proof (cases "ensureBarber (ch_app h) t b")
  case None
  then have "catalog_request_op h t (CoAssign (co_f io) (TenantID t) b s)" by (simp add: catalog_request_op_def ensureBarber_None)
  from catalog_stepI [OF assms _ this refl, of d] None show ?thesis
    by (simp add: cat_Assign_def snd_case_pair split: option.split)
qed (simp add: cat_Assign_def split: option.split)

lemma cat_Unassign_step:
  assumes "cat_tenant h c = Some t"
  shows "catalog_step h c t d (snd (cat_Unassign (ch_app h) io t (c_Get c ''Cookie'') b s d))"
proof (cases "ensureBarber (ch_app h) t b")
  case None
  then have "catalog_request_op h t (CoUnassign (co_f io) (TenantID t) b s)" by (simp add: catalog_request_op_def ensureBarber_None)
  from catalog_stepI [OF assms _ this refl, of d] None show ?thesis
    by (simp add: cat_Unassign_def snd_case_pair split: option.split)
qed (simp add: cat_Unassign_def split: option.split)

lemmas cat_handlers = cat_public_def cat_publicBarberServices_def cat_availabilityService_def cat_list_def cat_get_def cat_save_def
  cat_assign_def cat_assignments_def cat_unassign_def

lemma with_cat_tenant_step:
  assumes "\<And>t. cat_tenant h c = Some t \<Longrightarrow> catalog_step h c t d (snd (f t))"
  shows "snd (with_cat_tenant h n c f d) = d \<or> (\<exists>t. catalog_step h c t d (snd (with_cat_tenant h n c f d)))"
  using assms by (auto simp: with_cat_tenant_def split: option.splits)

lemma catalog_serve_step: "snd (catalog_serve h rt io c d) = d \<or> (\<exists>t. catalog_step h c t d (snd (catalog_serve h rt io c d)))"
  by (cases rt; simp only: catalog_serve.simps cat_handlers; rule with_cat_tenant_step)
    (simp_all add: snd_case_pair cat_Save_step cat_Assign_step cat_Unassign_step split: option.split)

text \<open>An offer that was not there before comes from the operation on that barber.\<close>

lemma new_offer:
  assumes "\<exists>y \<in> set (barber_services (exec_catalog x d)). same_offer t b s y"
    and "\<forall>y \<in> set (barber_services d). \<not> same_offer t b s y"
  shows "op_barber x = Some b"
proof (cases x)
  case (CoSave f new t' i inp)
  have "barber_services (snd (repo_Save f new t' i inp d)) = barber_services d"
    unfolding repo_Save_def
    by (rule tx_frame) (auto simp: Let_def sql_insert_service_def sql_insert_price_def sql_update_service_def sql_update_price_def
        split: if_splits option.splits sum.splits)
  then show ?thesis using assms CoSave by simp
next
  case (CoAssign f t' b' s')
  then show ?thesis using assms
    by (auto simp: repo_Assign_def WithTenantTx_def same_offer_def split: if_splits)
next
  case (CoUnassign f t' b' s')
  then show ?thesis using assms
    by (auto simp: repo_Unassign_def WithTenantTx_def same_offer_def split: if_splits)
qed

text \<open>
  A request changes the catalog only as a call of the administration of the tenant, for a role that may write, and
  leaves the rows of other tenants; the services of a barber change only for a barber whom barber-service confirmed
  to exist in the tenant.
\<close>

theorem catalog_changes_authorized:
  assumes "snd (catalog_serve h rt io c d) \<noteq> d"
  shows "\<exists>t p. cat_tenant h c = Some t \<and> AppType t = ''admin'' \<and>
    Authenticate (cs_X (ch_app h)) (cs_auth (ch_app h)) t (c_Get c ''Cookie'') = Inr p \<and> CanWrite (ap_Role p) \<and>
    (\<forall>t'. t' \<noteq> TenantID t \<longrightarrow> catalog_view t' (snd (catalog_serve h rt io c d)) = catalog_view t' d) \<and>
    (\<forall>b s. offered (snd (catalog_serve h rt io c d)) (TenantID t) b s \<and> (\<forall>x \<in> set (barber_services d). \<not> same_offer (TenantID t) b s x) \<longrightarrow>
       EnsureExists (cs_X (ch_app h)) (cs_barber (ch_app h)) t b = None)"
proof -
  obtain t x where w: "catalog_writer h c t" "catalog_request_op h t x" "snd (catalog_serve h rt io c d) = exec_catalog x d"
    using catalog_serve_step [of h rt io c d] assms unfolding catalog_step_def by blast
  have "EnsureExists (cs_X (ch_app h)) (cs_barber (ch_app h)) t b = None"
    if "offered (exec_catalog x d) (TenantID t) b s" "\<forall>y \<in> set (barber_services d). \<not> same_offer (TenantID t) b s y" for b s
    using that w(2) new_offer [of x d "TenantID t" b s] unfolding catalog_request_op_def offered_def by blast
  moreover have "catalog_view t' (exec_catalog x d) = catalog_view t' d" if "t' \<noteq> TenantID t" for t'
    using that w(2) exec_catalog_view by (simp add: catalog_request_op_def)
  ultimately show ?thesis using w(1) unfolding w(3) catalog_writer_def by blast
qed

end
