(* ===== verification/Barber_Policy.thy ===== *)
theory Barber_Policy
  imports Barber_App
begin

text \<open>
  What barber-service promises: the public listing shows exactly the barbers a customer can book, a saved barber is
  read back as it was saved, an identity is linked to at most one barber and never silently replaced, and only the
  administration of a tenant changes the rows of that tenant.
\<close>

section \<open>Rows that are read\<close>

lemma barber_join_iff:
  "(b, p) \<in> set (barber_join t d) \<longleftrightarrow>
     b \<in> set (barbers d) \<and> bb_tenant b = t \<and> p \<in> set (barber_profiles d) \<and> same_profile t (bb_id b) p"
  by (auto simp: barber_join_def)

lemma barber_join_unique:
  assumes "barber_inv d" and "(b, p) \<in> set (barber_join t d)" and "(b', p') \<in> set (barber_join t d)" and "bb_id b = bb_id b'"
  shows "b = b' \<and> p = p'"
proof
  show "b = b'" using assms inj_key [of bb_id "barbers d" b b'] by (auto simp: barber_join_iff barber_inv_def barbers_wf_def)
  show "p = p'" using assms inj_key [of bp_barber "barber_profiles d" p p']
    by (auto simp: barber_join_iff barber_inv_def profiles_wf_def same_profile_def)
qed

lemma barber_has_profile:
  assumes "barber_inv d" and "b \<in> set (barbers d)"
  obtains p where "(b, p) \<in> set (barber_join (bb_tenant b) d)"
proof -
  have "(bb_tenant b, bb_id b) \<in> set (map (\<lambda>p. (bp_tenant p, bp_barber p)) (barber_profiles d))"
    using assms by (auto simp: barber_inv_def profiles_wf_def barber_keys_def)
  then obtain p where "p \<in> set (barber_profiles d)" "bp_tenant p = bb_tenant b" "bp_barber p = bb_id b" by auto
  then show ?thesis using that assms(2) by (simp add: barber_join_iff same_profile_def)
qed

lemma barber_join_rows:
  assumes "barber_inv d"
  shows "(\<exists>x \<in> set (barber_join t d). bb_id (fst x) = b \<and> P (fst x)) \<longleftrightarrow> (\<exists>r \<in> set (barbers d). same_barber t b r \<and> P r)"
proof
  assume "\<exists>x \<in> set (barber_join t d). bb_id (fst x) = b \<and> P (fst x)"
  then show "\<exists>r \<in> set (barbers d). same_barber t b r \<and> P r" by (auto simp: barber_join_iff same_barber_def)
next
  assume "\<exists>r \<in> set (barbers d). same_barber t b r \<and> P r"
  then obtain r where r: "r \<in> set (barbers d)" "bb_tenant r = t" "bb_id r = b" "P r" by (auto simp: same_barber_def)
  then obtain p where "(r, p) \<in> set (barber_join t d)" using barber_has_profile [OF assms r(1)] by blast
  then show "\<exists>x \<in> set (barber_join t d). bb_id (fst x) = b \<and> P (fst x)" using r by (intro bexI [of _ "(r, p)"]) auto
qed

lemma repo_Barber_iff:
  assumes "barber_inv d"
  shows "repo_Barber f t i d = Inr v \<longleftrightarrow>
    f = NoFault \<and> (\<exists>b p. (b, p) \<in> set (barber_join t d) \<and> bb_id b = i \<and> v = to_barber d (b, p))"
proof -
  let ?found = "find (\<lambda>x. bb_id (fst x) = i) (barber_join t d)"
  have "(b, p) \<in> set (barber_join t d) \<and> bb_id b = i \<longleftrightarrow> ?found = Some (b, p)" for b p
  proof
    assume "?found = Some (b, p)"
    then show "(b, p) \<in> set (barber_join t d) \<and> bb_id b = i" using find_SomeD by fastforce
  next
    assume bp: "(b, p) \<in> set (barber_join t d) \<and> bb_id b = i"
    then obtain y where y: "?found = Some y" using find_is_Some [of "(b, p)" "barber_join t d" "\<lambda>x. bb_id (fst x) = i"] by auto
    then have "y \<in> set (barber_join t d)" "bb_id (fst y) = i" using find_SomeD by fastforce+
    then show "?found = Some (b, p)" using y bp barber_join_unique [OF assms, of b p t "fst y" "snd y"] by simp
  qed
  then show ?thesis unfolding repo_Barber_def tenant_read_ok by (cases ?found) (auto; metis)+
qed

lemma repo_Branch_iff:
  assumes "barber_inv d"
  shows "repo_Branch f t i d = Inr v \<longleftrightarrow> f = NoFault \<and> (\<exists>r \<in> set (branches d). same_branch t i r \<and> v = to_branch r)"
proof -
  have "find (same_branch t i) (branches d) = Some r" if "r \<in> set (branches d)" "same_branch t i r" for r
    using assms that by (intro find_unique [of br_id]) (auto simp: barber_inv_def branches_wf_def same_branch_def)
  then show ?thesis using find_SomeD by (fastforce simp: repo_Branch_def tenant_read_ok split: option.splits)
qed

section \<open>Who can be booked\<close>

definition bookable :: "barber_db \<Rightarrow> uuid \<Rightarrow> uuid \<Rightarrow> uuid \<Rightarrow> bool" where
  "bookable d t br b \<longleftrightarrow> (\<exists>r \<in> set (branches d). same_branch t br r \<and> br_active r) \<and>
     (\<exists>r \<in> set (barbers d). same_barber t b r \<and> bb_active r) \<and> is_assigned t br b d"

lemma BookingAccess_iff:
  assumes inv: "barber_inv d"
  shows "BookingAccess io tenant br b d = Inr () \<longleftrightarrow>
    bo_f io 0 = NoFault \<and> bo_f io 1 = NoFault \<and> bo_f io 2 = NoFault \<and>
    (AppType tenant = ''admin'' \<or> AppType tenant = ''booking'') \<and> bookable d (TenantID tenant) br b" (is "?lhs \<longleftrightarrow> ?rhs")
proof -
  have branch: "(\<exists>v. repo_Branch (bo_f io 0) (TenantID tenant) br d = Inr v \<and> bn_Active v) \<longleftrightarrow>
      bo_f io 0 = NoFault \<and> (\<exists>r \<in> set (branches d). same_branch (TenantID tenant) br r \<and> br_active r)"
    unfolding repo_Branch_iff [OF inv] by (auto simp: to_branch_def)
  have barber: "(\<exists>v. repo_Barber (bo_f io 1) (TenantID tenant) b d = Inr v \<and> bv_Active v) \<longleftrightarrow>
      bo_f io 1 = NoFault \<and> (\<exists>r \<in> set (barbers d). same_barber (TenantID tenant) b r \<and> bb_active r)" (is "?l \<longleftrightarrow> ?r")
  proof
    assume ?l
    then show ?r unfolding repo_Barber_iff [OF inv] by (auto simp: to_barber_def barber_join_iff same_barber_def)
  next
    assume ?r
    then obtain r where r: "bo_f io 1 = NoFault" "r \<in> set (barbers d)" "bb_tenant r = TenantID tenant" "bb_id r = b" "bb_active r"
      by (auto simp: same_barber_def)
    then obtain p where "(r, p) \<in> set (barber_join (TenantID tenant) d)" using barber_has_profile [OF inv] by metis
    then show ?l unfolding repo_Barber_iff [OF inv] using r by (auto simp: to_barber_def intro!: exI [of _ r])
  qed
  have "?lhs \<longleftrightarrow> (AppType tenant = ''admin'' \<or> AppType tenant = ''booking'') \<and>
      (\<exists>v. repo_Branch (bo_f io 0) (TenantID tenant) br d = Inr v \<and> bn_Active v) \<and>
      (\<exists>v. repo_Barber (bo_f io 1) (TenantID tenant) b d = Inr v \<and> bv_Active v) \<and>
      bo_f io 2 = NoFault \<and> is_assigned (TenantID tenant) br b d"
    by (auto simp: BookingAccess_def repo_Assigned_def tenant_read_ok split: sum.splits)
  then show ?thesis unfolding branch barber bookable_def by blast
qed

lemma publicly_listed_iff:
  assumes "barber_inv d" and "b \<in> set (barbers d)"
  shows "publicly_listed d b \<longleftrightarrow> (\<exists>br. bookable d (bb_tenant b) br (bb_id b))"
proof -
  have "(\<exists>r \<in> set (barbers d). same_barber (bb_tenant b) (bb_id b) r \<and> bb_active r) \<longleftrightarrow> bb_active b"
    using assms inj_key [of bb_id "barbers d"] by (auto simp: same_barber_def barber_inv_def barbers_wf_def)
  then show ?thesis
    unfolding publicly_listed_def bookable_def is_assigned_def list_ex_iff same_assignment_def same_branch_def
    by (simp only:) (intro iffI; elim exE conjE bexE; fastforce)
qed

lemma listed_bookable:
  assumes "barber_inv d"
  shows "(\<exists>r \<in> set (barbers d). same_barber t b r \<and> publicly_listed d r) \<longleftrightarrow> (\<exists>br. bookable d t br b)"
proof
  assume "\<exists>r \<in> set (barbers d). same_barber t b r \<and> publicly_listed d r"
  then obtain r where "r \<in> set (barbers d)" "same_barber t b r" "publicly_listed d r" by blast
  then show "\<exists>br. bookable d t br b" using publicly_listed_iff [OF assms, of r] by (simp add: same_barber_def)
next
  assume "\<exists>br. bookable d t br b"
  then obtain br r where br: "bookable d t br b" and r: "r \<in> set (barbers d)" "same_barber t b r" unfolding bookable_def by blast
  have "publicly_listed d r" using publicly_listed_iff [OF assms r(1)] br r(2) unfolding same_barber_def by blast
  then show "\<exists>r \<in> set (barbers d). same_barber t b r \<and> publicly_listed d r" using r by blast
qed

text \<open>(C32)
  The public listing of a shop's barbers shows exactly those barbers for whom some branch of the shop passes the
  booking-access check that appointment-service and scheduling-service make, in the order of their names, and it never
  shows the identity a barber is linked to.
\<close>

theorem public_listing_bookable:
  assumes "barber_inv d" and "bar_PublicBarbers s io tenant d = Inr vs" and "\<forall>n. bo_f io' n = NoFault"
  shows "(\<forall>b. b \<in> bv_ID ` set vs \<longleftrightarrow> (\<exists>br. BookingAccess io' tenant br b d = Inr ())) \<and>
    (\<forall>v \<in> set vs. bv_IdentityID v = None) \<and> sorted (map (\<lambda>v. bs_coll s (bv_DisplayName v)) vs)"
proof -
  let ?t = "TenantID tenant"
  let ?rows = "sort_key (\<lambda>x. bs_coll s (bb_name (fst x))) (filter (\<lambda>x. publicly_listed d (fst x)) (barber_join ?t d))"
  have app: "AppType tenant = ''booking''" and vs: "vs = map (\<lambda>x. (to_barber d x)\<lparr>bv_IdentityID := None\<rparr>) ?rows"
    using assms(2) by (auto simp: bar_PublicBarbers_def map_error_def repo_Barbers_def tenant_read_ok split: if_splits sum.splits)
  have "b \<in> bv_ID ` set vs \<longleftrightarrow> (\<exists>br. BookingAccess io' tenant br b d = Inr ())" for b
  proof -
    have "bv_ID ` set vs = (\<lambda>x. bb_id (fst x)) ` {x \<in> set (barber_join ?t d). publicly_listed d (fst x)}"
      by (simp add: vs image_image to_barber_def split_def)
    then have "b \<in> bv_ID ` set vs \<longleftrightarrow> (\<exists>x \<in> set (barber_join ?t d). bb_id (fst x) = b \<and> publicly_listed d (fst x))"
      by (simp only: image_iff mem_Collect_eq Bex_def) blast
    also have "\<dots> \<longleftrightarrow> (\<exists>r \<in> set (barbers d). same_barber ?t b r \<and> publicly_listed d r)"
      by (rule barber_join_rows [OF assms(1)])
    also have "\<dots> \<longleftrightarrow> (\<exists>br. bookable d ?t br b)"
      by (rule listed_bookable [OF assms(1)])
    also have "\<dots> \<longleftrightarrow> (\<exists>br. BookingAccess io' tenant br b d = Inr ())"
      using assms(3) app by (simp add: BookingAccess_iff [OF assms(1)])
    finally show ?thesis .
  qed
  moreover have "map (\<lambda>v. bs_coll s (bv_DisplayName v)) vs = map (\<lambda>x. bs_coll s (bb_name (fst x))) ?rows"
    by (simp add: vs to_barber_def split_def)
  then have "sorted (map (\<lambda>v. bs_coll s (bv_DisplayName v)) vs)" by (simp only: sorted_sort_key)
  ultimately show ?thesis by (auto simp: vs)
qed

section \<open>Saving a barber\<close>

lemma branchIDs_set:
  assumes "barber_inv d"
  shows "branchIDs t b d = sorted_list_of_set {br. is_assigned t br b d}"
proof -
  let ?as = "filter (\<lambda>a. ba_tenant a = t \<and> ba_barber a = b \<and> ba_active a) (assignments d)"
  have "inj_on assignment_key (set (assignments d))" "distinct (assignments d)"
    using assms by (auto simp: barber_inv_def assignments_wf_def distinct_map)
  then have "distinct (map ba_branch ?as)"
    by (auto simp: distinct_map inj_on_def assignment_key_def)
  moreover have "set (map ba_branch ?as) = {br. is_assigned t br b d}"
    by (auto simp: is_assigned_def list_ex_iff same_assignment_def)
  moreover have "sorted_list_of_set (set (map ba_branch ?as)) = sort (map ba_branch ?as)" if "distinct (map ba_branch ?as)"
    using that by (simp only: sorted_list_of_set_sort_remdups distinct_remdups_id)
  ultimately show ?thesis unfolding branchIDs_def by metis
qed

lemma is_assigned_finite: "finite {br. is_assigned t br b d}"
proof -
  have "{br. is_assigned t br b d} \<subseteq> ba_branch ` set (assignments d)" by (auto simp: is_assigned_def list_ex_iff same_assignment_def)
  then show ?thesis by (rule finite_subset) simp
qed

definition assignments_only :: "barber_db \<Rightarrow> barber_db \<Rightarrow> bool" where
  "assignments_only d d' \<longleftrightarrow> barbers d' = barbers d \<and> barber_profiles d' = barber_profiles d \<and> branches d' = branches d"

lemma sql_upsert_effect:
  assumes "sql_upsert_assignment t b br d = Inr d'"
  shows "(is_assigned t' br' b' d' \<longleftrightarrow> is_assigned t' br' b' d \<or> (t', br', b') = (t, br, b)) \<and> assignments_only d d'"
proof (cases "list_ex (same_assignment t b br) (assignments d)")
  case True
  then have d': "d' = d\<lparr>assignments := map (\<lambda>a. if same_assignment t b br a then a\<lparr>ba_active := True\<rparr> else a) (assignments d)\<rparr>"
    using assms by (simp add: sql_upsert_assignment_def)
  have "is_assigned t' br' b' d' \<longleftrightarrow> (\<exists>a \<in> set (assignments d). same_assignment t' b' br' a \<and> (ba_active a \<or> same_assignment t b br a))"
    unfolding is_assigned_def d' by (simp add: list_ex_update) (auto simp: list_ex_iff same_assignment_def split: if_splits)
  also have "\<dots> \<longleftrightarrow> is_assigned t' br' b' d \<or> (t', br', b') = (t, br, b)"
    using True by (auto simp: is_assigned_def list_ex_iff same_assignment_def)
  finally show ?thesis by (simp add: assignments_only_def d')
next
  case False
  then show ?thesis using assms
    by (auto simp: sql_upsert_assignment_def assignments_only_def is_assigned_def list_ex_iff same_assignment_def split: if_splits)
qed

lemma upsert_assignments_effect:
  assumes "upsert_assignments t b ids d = Inr d'"
  shows "(is_assigned t' br' b' d' \<longleftrightarrow> is_assigned t' br' b' d \<or> (t' = t \<and> b' = b \<and> br' \<in> set ids)) \<and> assignments_only d d'"
  using assms
proof (induction ids arbitrary: d)
  case (Cons br rest)
  obtain d1 where up: "sql_upsert_assignment t b br d = Inr d1" and rest: "upsert_assignments t b rest d1 = Inr d'"
    using Cons.prems by (auto split: sum.splits)
  show ?case using Cons.IH [OF rest] sql_upsert_effect [OF up, of t' br' b'] by (auto simp: assignments_only_def)
qed (simp add: assignments_only_def)

lemma replace_assignments_effect:
  assumes "replace_assignments t b ids d = Inr d'"
  shows "(is_assigned t' br' b' d' \<longleftrightarrow> (if t' = t \<and> b' = b then br' \<in> set ids else is_assigned t' br' b' d)) \<and> assignments_only d d'"
proof -
  have up: "upsert_assignments t b ids (sql_deactivate_assignments t b d) = Inr d'"
    using assms by (auto simp: replace_assignments_def split: if_splits)
  have "is_assigned t' br' b' (sql_deactivate_assignments t b d) \<longleftrightarrow> \<not> (t' = t \<and> b' = b) \<and> is_assigned t' br' b' d"
    by (auto simp: is_assigned_def sql_deactivate_assignments_def list_ex_update list_ex_iff same_assignment_def split: if_splits)
  then show ?thesis using upsert_assignments_effect [OF up, of t' br' b']
    by (auto simp: assignments_only_def sql_deactivate_assignments_def)
qed

lemma save_barber_row_effect:
  assumes "barber_inv d" and "save_barber_row t new t i inp d = Inr (b, link, d1)"
  obtains row prof where "(row, prof) \<in> set (barber_join t d1)" "bb_id row = b" "bb_name row = bri_DisplayName inp"
    "bb_active row = default_true (bri_Active inp)" "bb_identity row = link" "bp_bio prof = bri_Bio inp"
    "assignments d1 = assignments d"
proof (cases "i = uuid_nil")
  case True
  then show ?thesis
    using assms that [of "\<lparr>bb_id = new, bb_tenant = t, bb_name = bri_DisplayName inp, bb_active = default_true (bri_Active inp),
        bb_identity = None\<rparr>" "\<lparr>bp_barber = new, bp_tenant = t, bp_bio = bri_Bio inp\<rparr>"]
    by (auto simp: save_barber_row_def Let_def sql_insert_barber_def sql_insert_profile_def barber_join_iff same_profile_def
        split: sum.splits if_splits)
next
  case False
  let ?upd = "\<lambda>r. r\<lparr>bb_name := bri_DisplayName inp, bb_active := default_true (bri_Active inp)\<rparr>"
  obtain r where r: "find (same_barber t i) (barbers d) = Some r" "b = i" "link = bb_identity r"
    and d1: "d1 = sql_update_profile t i (bri_Bio inp) (sql_update_barber t i (bri_DisplayName inp) (default_true (bri_Active inp)) d)"
    using assms(2) False by (auto simp: save_barber_row_def Let_def split: option.splits)
  then have mem: "r \<in> set (barbers d)" "bb_tenant r = t" "bb_id r = i" using find_SomeD by (fastforce simp: same_barber_def)+
  then obtain p where p: "p \<in> set (barber_profiles d)" "same_profile t i p"
    using barber_has_profile [OF assms(1), of r] by (auto simp: barber_join_iff)
  have "?upd r \<in> set (barbers d1)" using mem by (force simp: d1 sql_update_profile_def sql_update_barber_def same_barber_def)
  moreover have "p\<lparr>bp_bio := bri_Bio inp\<rparr> \<in> set (barber_profiles d1)"
    using p by (force simp: d1 sql_update_profile_def sql_update_barber_def)
  ultimately show ?thesis using that [of "?upd r" "p\<lparr>bp_bio := bri_Bio inp\<rparr>"] mem p(2) r(2,3)
    by (simp add: barber_join_iff same_profile_def) (simp add: d1 sql_update_profile_def sql_update_barber_def)
qed

lemma repo_SaveBarber_ok:
  assumes "repo_SaveBarber f new t i inp d = (Inr v, d')"
  obtains b link d1 where "save_barber_row t new t i inp d = Inr (b, link, d1)" "bv_ID v = b" "bv_IdentityID v = link"
    "bv_DisplayName v = bri_DisplayName inp" "bv_Bio v = bri_Bio inp" "bv_Active v = default_true (bri_Active inp)"
    "case bri_BranchIDs inp of None \<Rightarrow> bv_BranchIDs v = branchIDs t b d1 \<and> d' = d1
       | Some ids \<Rightarrow> bv_BranchIDs v = ids \<and> replace_assignments t b ids d1 = Inr d'"
  using assms by (auto simp: repo_SaveBarber_def WithTenantTx_ok Let_def split: sum.splits option.splits)

text \<open>
  A barber that was saved is read back as it was answered, with its branches in order and without repetition; the
  branches of the request, where it lists some, replace the assignments of the barber, and every other assignment stays.
\<close>

theorem save_barber_roundtrip:
  assumes "barber_inv d" and "bar_SaveBarber s io tenant cookie i inp d = (Inr v, d')"
  shows "repo_Barber NoFault (TenantID tenant) (bv_ID v) d' = Inr (v\<lparr>bv_BranchIDs := sort (remdups (bv_BranchIDs v))\<rparr>) \<and>
    (\<forall>ids. bri_BranchIDs inp = Some ids \<longrightarrow> bv_BranchIDs v = ids) \<and>
    (\<forall>t br b. (t, b) \<noteq> (TenantID tenant, bv_ID v) \<or> bri_BranchIDs inp = None \<longrightarrow> is_assigned t br b d' = is_assigned t br b d)"
proof -
  let ?t = "TenantID tenant" and ?inp = "inp\<lparr>bri_DisplayName := TrimSpace (bri_DisplayName inp)\<rparr>"
  have save: "repo_SaveBarber (bo_f io 0) (bo_new io) ?t i ?inp d = (Inr v, d')"
    using assms(2) by (auto simp: bar_SaveBarber_def Let_def map_error_def split: option.splits if_splits prod.splits sum.splits)
  then have inv': "barber_inv d'" using repo_SaveBarber_inv [OF assms(1)] by (metis snd_conv)
  from save obtain b link d1 where row: "save_barber_row ?t (bo_new io) ?t i ?inp d = Inr (b, link, d1)"
    and v: "bv_ID v = b" "bv_IdentityID v = link" "bv_DisplayName v = bri_DisplayName ?inp" "bv_Bio v = bri_Bio ?inp"
      "bv_Active v = default_true (bri_Active ?inp)"
    and ids: "case bri_BranchIDs ?inp of None \<Rightarrow> bv_BranchIDs v = branchIDs ?t b d1 \<and> d' = d1
       | Some ids \<Rightarrow> bv_BranchIDs v = ids \<and> replace_assignments ?t b ids d1 = Inr d'"
    by (rule repo_SaveBarber_ok)
  obtain r p where rp: "(r, p) \<in> set (barber_join ?t d1)" "bb_id r = b" "bb_name r = bri_DisplayName ?inp"
      "bb_active r = default_true (bri_Active ?inp)" "bb_identity r = link" "bp_bio p = bri_Bio ?inp"
    and asg: "assignments d1 = assignments d"
    using save_barber_row_effect [OF assms(1) row] by blast
  have same: "is_assigned t br x d1 = is_assigned t br x d" for t br x by (simp add: is_assigned_def asg)
  have join: "(r, p) \<in> set (barber_join ?t d')"
    using ids rp(1) replace_assignments_effect [of ?t b _ d1 d'] by (auto simp: barber_join_iff assignments_only_def split: option.splits)
  have now: "is_assigned ?t br b d' \<longleftrightarrow> br \<in> set (bv_BranchIDs v)" for br
    using ids replace_assignments_effect [of ?t b _ d1 d' ?t br b] inv'
    by (auto simp: branchIDs_set is_assigned_finite split: option.splits)
  then have "branchIDs ?t b d' = sort (remdups (bv_BranchIDs v))"
    unfolding branchIDs_set [OF inv'] by (simp add: sorted_list_of_set_sort_remdups)
  moreover have "bb_tenant r = ?t" using rp(1) by (simp add: barber_join_iff)
  ultimately have "to_barber d' (r, p) = v\<lparr>bv_BranchIDs := sort (remdups (bv_BranchIDs v))\<rparr>"
    using v rp by (simp add: to_barber_def)
  then have "repo_Barber NoFault ?t (bv_ID v) d' = Inr (v\<lparr>bv_BranchIDs := sort (remdups (bv_BranchIDs v))\<rparr>)"
    unfolding repo_Barber_iff [OF inv'] using join rp(2) v(1) by metis
  moreover have "is_assigned t br x d' = is_assigned t br x d" if "(t, x) \<noteq> (?t, b) \<or> bri_BranchIDs inp = None" for t br x
    using that ids same replace_assignments_effect [of ?t b _ d1 d' t br x] by (auto split: option.splits)
  ultimately show ?thesis using ids v(1) by auto
qed

end
