(* ===== verification/Barber_Staff.thy ===== *)
theory Barber_Staff
  imports Barber_Policy
begin

text \<open>
  Who changes the tables of barber-service. Every request is one operation of the repository or none; the store is
  an instance of \<open>tenant_store\<close>, and the operation of a request belongs to the tenant it was authorised for.
\<close>

section \<open>The operations of the store\<close>

datatype barber_op =
    BoSaveBranch tx_fault uuid uuid uuid branch_input
  | BoSaveBarber tx_fault uuid uuid uuid barber_input
  | BoLink tx_fault uuid uuid uuid
  | BoUnlink tx_fault uuid uuid

fun exec_barber :: "barber_op \<Rightarrow> barber_db \<Rightarrow> barber_db" where
  "exec_barber (BoSaveBranch f new t i inp) d = snd (repo_SaveBranch f new t i inp d)"
| "exec_barber (BoSaveBarber f new t i inp) d = snd (repo_SaveBarber f new t i inp d)"
| "exec_barber (BoLink f t b i) d = snd (repo_LinkIdentity f t b i d)"
| "exec_barber (BoUnlink f t b) d = snd (repo_UnlinkIdentity f t b d)"

fun barber_op_tenant :: "barber_op \<Rightarrow> uuid option" where
  "barber_op_tenant (BoSaveBranch f new t i inp) = Some t"
| "barber_op_tenant (BoSaveBarber f new t i inp) = Some t"
| "barber_op_tenant (BoLink f t b i) = Some t"
| "barber_op_tenant (BoUnlink f t b) = Some t"

type_synonym barber_rows = "branch_row list \<times> barber_row list \<times> profile_row list \<times> assignment_row list"

definition barber_view :: "uuid \<Rightarrow> barber_db \<Rightarrow> barber_rows" where
  "barber_view t d = (filter (\<lambda>r. br_tenant r = t) (branches d), filter (\<lambda>r. bb_tenant r = t) (barbers d),
     filter (\<lambda>p. bp_tenant p = t) (barber_profiles d), filter (\<lambda>a. ba_tenant a = t) (assignments d))"

lemma exec_barber_inv: "barber_inv d \<Longrightarrow> barber_inv (exec_barber x d)"
  by (cases x) (auto intro: inv_intros)

lemma statement_views:
  assumes "t' \<noteq> t"
  shows "sql_update_branch t i name address active d = Inr d' \<Longrightarrow> barber_view t' d' = barber_view t' d"
    and "sql_set_identity t i link d = Inr d' \<Longrightarrow> barber_view t' d' = barber_view t' d"
    and "sql_upsert_assignment t b br d = Inr d' \<Longrightarrow> barber_view t' d' = barber_view t' d"
    and "barber_view t' (sql_update_barber t i name active d) = barber_view t' d"
    and "barber_view t' (sql_update_profile t i bio d) = barber_view t' d"
    and "barber_view t' (sql_deactivate_assignments t b d) = barber_view t' d"
  using assms
  by (auto simp: barber_view_def sql_update_branch_def sql_set_identity_def sql_upsert_assignment_def sql_update_barber_def
      sql_update_profile_def sql_deactivate_assignments_def same_branch_def same_barber_def same_assignment_def same_profile_def
      intro!: filter_map_frame split: if_splits)

lemma insert_views:
  shows "sql_insert_branch t r d = Inr d' \<Longrightarrow> t' \<noteq> t \<Longrightarrow> barber_view t' d' = barber_view t' d"
    and "sql_insert_barber t b d = Inr d' \<Longrightarrow> t' \<noteq> t \<Longrightarrow> barber_view t' d' = barber_view t' d"
    and "sql_insert_profile t p d = Inr d' \<Longrightarrow> t' \<noteq> t \<Longrightarrow> barber_view t' d' = barber_view t' d"
  by (auto simp: barber_view_def sql_insert_branch_def sql_insert_barber_def sql_insert_profile_def split: if_splits)

lemma upsert_assignments_view:
  "t' \<noteq> t \<Longrightarrow> upsert_assignments t b ids d = Inr d' \<Longrightarrow> barber_view t' d' = barber_view t' d"
  by (induction ids arbitrary: d) (auto simp: statement_views(3) split: sum.splits)

lemma replace_assignments_view:
  "t' \<noteq> t \<Longrightarrow> replace_assignments t b ids d = Inr d' \<Longrightarrow> barber_view t' d' = barber_view t' d"
  unfolding replace_assignments_def
  by (auto split: if_splits) (metis upsert_assignments_view statement_views(6))

lemma save_barber_row_view:
  "t' \<noteq> t \<Longrightarrow> save_barber_row t new t i inp d = Inr (b, link, d1) \<Longrightarrow> barber_view t' d1 = barber_view t' d"
  by (auto simp: save_barber_row_def Let_def statement_views(4,5) insert_views split: if_splits sum.splits option.splits)

lemma exec_barber_view:
  assumes "barber_op_tenant x \<noteq> Some t"
  shows "barber_view t (exec_barber x d) = barber_view t d"
proof (cases x)
  case (BoSaveBranch f new t' i inp)
  then show ?thesis using assms unfolding BoSaveBranch exec_barber.simps repo_SaveBranch_def
    by (intro tx_frame) (auto simp: Let_def intro: statement_views(1) insert_views split: if_splits sum.splits)
next
  case (BoSaveBarber f new t' i inp)
  then show ?thesis using assms unfolding BoSaveBarber exec_barber.simps repo_SaveBarber_def
    by (intro tx_frame)
      (auto simp: Let_def split: sum.splits option.splits
        intro: save_barber_row_view trans [OF replace_assignments_view save_barber_row_view])
next
  case (BoLink f t' b i)
  then show ?thesis using assms unfolding BoLink exec_barber.simps repo_LinkIdentity_def
    by (intro tx_frame) (auto intro: statement_views(2) split: sum.splits option.splits if_splits)
next
  case (BoUnlink f t' b)
  then show ?thesis using assms unfolding BoUnlink exec_barber.simps repo_UnlinkIdentity_def
    by (intro tx_frame) (auto intro: statement_views(2) split: sum.splits if_splits)
qed

interpretation barber: tenant_store exec_barber barber_inv empty_barber_db barber_op_tenant barber_view
  by unfold_locales (auto intro: barber_inv_empty exec_barber_inv exec_barber_view)

section \<open>Requests\<close>

definition barber_writer :: "barber_handler \<Rightarrow> fiber_ctx \<Rightarrow> tenant_ctx \<Rightarrow> bool" where
  "barber_writer h c t \<longleftrightarrow> bar_tenant h c = Some t \<and> AppType t = ''admin'' \<and>
     (\<exists>p. Authenticate (bs_X (bh_app h)) (bs_auth (bh_app h)) t (c_Get c ''Cookie'') = Inr p \<and> CanWrite (ap_Role p))"

lemma barber_authorize_write:
  "barber_authorize s t cookie True = None \<longleftrightarrow>
     AppType t = ''admin'' \<and> (\<exists>p. Authenticate (bs_X s) (bs_auth s) t cookie = Inr p \<and> CanWrite (ap_Role p))"
  by (auto simp: barber_authorize_def CanRead_def CanWrite_def split: sum.splits)

text \<open>
  The operation a request may run: one of its tenant; a link only on the route for links, between the barber of the path
  and the identity of the body, which auth-service found eligible.
\<close>

definition barber_request_op ::
  "barber_handler \<Rightarrow> barber_route \<Rightarrow> fiber_ctx \<Rightarrow> tenant_ctx \<Rightarrow> barber_op \<Rightarrow> bool" where
  "barber_request_op h rt c t x \<longleftrightarrow> barber_op_tenant x = Some (TenantID t) \<and>
     (\<forall>f t' b i. x = BoLink f t' b i \<longrightarrow> rt = BrLink \<and> bar_id h c ''barber_id'' = Some b \<and>
        bh_link h (c_Body c) = Some i \<and> EnsureBarberMembership (bs_X (bh_app h)) (bs_auth (bh_app h)) t i = None)"

definition barber_step ::
  "barber_handler \<Rightarrow> barber_route \<Rightarrow> fiber_ctx \<Rightarrow> tenant_ctx \<Rightarrow> barber_db \<Rightarrow> barber_db \<Rightarrow> bool" where
  "barber_step h rt c t d d' \<longleftrightarrow>
     d' = d \<or> (barber_writer h c t \<and> (\<exists>x. barber_request_op h rt c t x \<and> d' = exec_barber x d))"

lemma barber_step_refl [simp]: "barber_step h rt c t d d"
  by (simp add: barber_step_def)

lemma barber_stepI:
  assumes "bar_tenant h c = Some t" and "barber_authorize (bh_app h) t (c_Get c ''Cookie'') True = None"
    and "barber_request_op h rt c t x" and "d' = exec_barber x d"
  shows "barber_step h rt c t d d'"
  using assms unfolding barber_step_def barber_authorize_write barber_writer_def by blast

lemma bar_SaveBranch_step:
  assumes "bar_tenant h c = Some t"
  shows "barber_step h rt c t d (snd (bar_SaveBranch (bh_app h) io t (c_Get c ''Cookie'') i inp d))"
proof -
  let ?x = "BoSaveBranch (bo_f io 0) (bo_new io) (TenantID t) i (inp\<lparr>bi_Name := TrimSpace (bi_Name inp)\<rparr>)"
  have "barber_request_op h rt c t ?x" by (simp add: barber_request_op_def)
  from barber_stepI [OF assms _ this refl, of d] show ?thesis
    by (simp add: bar_SaveBranch_def Let_def snd_case_pair split: option.split)
qed

lemma bar_SaveBarber_step:
  assumes "bar_tenant h c = Some t"
  shows "barber_step h rt c t d (snd (bar_SaveBarber (bh_app h) io t (c_Get c ''Cookie'') i inp d))"
proof -
  let ?x = "BoSaveBarber (bo_f io 0) (bo_new io) (TenantID t) i (inp\<lparr>bri_DisplayName := TrimSpace (bri_DisplayName inp)\<rparr>)"
  have "barber_request_op h rt c t ?x" by (simp add: barber_request_op_def)
  from barber_stepI [OF assms _ this refl, of d] show ?thesis
    by (simp add: bar_SaveBarber_def Let_def snd_case_pair split: option.split)
qed

lemma bar_LinkIdentity_step:
  assumes "bar_tenant h c = Some t" and "bar_id h c ''barber_id'' = Some b" and "bh_link h (c_Body c) = Some i"
  shows "barber_step h BrLink c t d (snd (bar_LinkIdentity (bh_app h) io t (c_Get c ''Cookie'') b i d))"
proof (cases "EnsureBarberMembership (bs_X (bh_app h)) (bs_auth (bh_app h)) t i")
  case None
  then have "barber_request_op h BrLink c t (BoLink (bo_f io 0) (TenantID t) b i)"
    using assms by (simp add: barber_request_op_def)
  from barber_stepI [OF assms(1) _ this refl, of d] None show ?thesis
    by (simp add: bar_LinkIdentity_def snd_case_pair split: option.split)
qed (auto simp: bar_LinkIdentity_def split: option.splits)

lemma bar_UnlinkIdentity_step:
  assumes "bar_tenant h c = Some t"
  shows "barber_step h rt c t d (snd (bar_UnlinkIdentity (bh_app h) io t (c_Get c ''Cookie'') b d))"
proof -
  have "barber_request_op h rt c t (BoUnlink (bo_f io 0) (TenantID t) b)" by (simp add: barber_request_op_def)
  from barber_stepI [OF assms _ this refl, of d] show ?thesis
    by (simp add: bar_UnlinkIdentity_def snd_case_pair split: option.split)
qed

text \<open>What a request leaves: the tables, or an operation on them for an authorised writer.\<close>

lemmas bar_handlers = bar_barberExists_def bar_schedulingAccess_def bar_branchBarberAccess_def
  bar_publicBranches_def bar_publicBarbers_def bar_branchSave_def bar_branchList_def bar_branchGet_def bar_barberSave_def
  bar_barberList_def bar_barberGet_def bar_linkIdentity_def bar_unlinkIdentity_def

lemma with_bar_tenant_step:
  assumes "\<And>t. bar_tenant h c = Some t \<Longrightarrow> barber_step h rt c t d (snd (f t))"
  shows "snd (with_bar_tenant h n c f d) = d \<or> (\<exists>t. barber_step h rt c t d (snd (with_bar_tenant h n c f d)))"
  using assms by (auto simp: with_bar_tenant_def split: option.splits)

lemma barber_serve_step: "snd (barber_serve h rt io c d) = d \<or> (\<exists>t. barber_step h rt c t d (snd (barber_serve h rt io c d)))"
  by (cases rt; simp only: barber_serve.simps bar_handlers; rule with_bar_tenant_step)
    (simp_all add: snd_case_pair bar_SaveBranch_step bar_SaveBarber_step bar_LinkIdentity_step bar_UnlinkIdentity_step
      split: option.split bool.split)

lemma barber_serve_op:
  assumes "snd (barber_serve h rt io c d) \<noteq> d"
  obtains t x where "barber_writer h c t" "barber_request_op h rt c t x" "snd (barber_serve h rt io c d) = exec_barber x d"
  using barber_serve_step [of h rt io c d] assms that unfolding barber_step_def by blast

text \<open>
  A request changes the tables of barber-service only as a call of the administration: its context is trusted and of
  the admin application, auth-service accepts its session, with no password change pending, for a role that may write,
  and the rows of every other tenant stay as they were.
\<close>

theorem barber_changes_authorized:
  assumes "snd (barber_serve h rt io c d) \<noteq> d"
  shows "\<exists>t p. bar_tenant h c = Some t \<and> AppType t = ''admin'' \<and>
    Authenticate (bs_X (bh_app h)) (bs_auth (bh_app h)) t (c_Get c ''Cookie'') = Inr p \<and> CanWrite (ap_Role p) \<and>
    (\<forall>t'. t' \<noteq> TenantID t \<longrightarrow> barber_view t' (snd (barber_serve h rt io c d)) = barber_view t' d)"
proof -
  obtain t x where "barber_writer h c t" "barber_request_op h rt c t x" "snd (barber_serve h rt io c d) = exec_barber x d"
    using assms by (rule barber_serve_op)
  then show ?thesis using exec_barber_view by (auto simp: barber_writer_def barber_request_op_def)
qed

section \<open>Linked identities\<close>

text \<open>The links of a database, and that an operation makes no new ones.\<close>

definition links :: "barber_db \<Rightarrow> (uuid \<times> uuid \<times> uuid) set" where
  "links d = {(bb_tenant r, bb_id r, i) | r i. r \<in> set (barbers d) \<and> bb_identity r = Some i}"

lemma links_iff: "(t, b, i) \<in> links d \<longleftrightarrow> (\<exists>r \<in> set (barbers d). same_barber t b r \<and> bb_identity r = Some i)"
  by (auto simp: links_def same_barber_def)

lemma links_barbers: "barbers d' = barbers d \<Longrightarrow> links d' = links d"
  by (simp add: links_def)

lemma save_barber_row_links: "save_barber_row ctx new t i inp d = Inr (b, link, d1) \<Longrightarrow> links d1 \<subseteq> links d"
  by (auto simp: save_barber_row_def Let_def sql_insert_barber_def sql_insert_profile_def sql_update_profile_def
      sql_update_barber_def links_def split: if_splits sum.splits option.splits) blast+

lemma repo_SaveBarber_links: "links (snd (repo_SaveBarber f new t i inp d)) \<subseteq> links d"
proof (cases "repo_SaveBarber f new t i inp d")
  case (Pair r d')
  show ?thesis
  proof (cases r)
    case (Inl e)
    have "d' = d" using Pair unfolding repo_SaveBarber_def Inl by (rule WithTenantTx_atomic)
    then show ?thesis by (simp add: Pair)
  next
    case (Inr v)
    then have "repo_SaveBarber f new t i inp d = (Inr v, d')" using Pair by simp
    then obtain b link d1 where row: "save_barber_row t new t i inp d = Inr (b, link, d1)"
      and ids: "case bri_BranchIDs inp of None \<Rightarrow> bv_BranchIDs v = branchIDs t b d1 \<and> d' = d1
        | Some ids \<Rightarrow> bv_BranchIDs v = ids \<and> replace_assignments t b ids d1 = Inr d'"
      by (rule repo_SaveBarber_ok)
    have "links d' = links d1"
    proof (cases "bri_BranchIDs inp")
      case (Some xs)
      then show ?thesis using ids replace_assignments_effect [of t b xs d1 d'] by (intro links_barbers) (simp add: assignments_only_def)
    qed (use ids in simp)
    then show ?thesis using save_barber_row_links [OF row] by (simp add: Pair)
  qed
qed

lemma set_identity_links:
  assumes "sql_set_identity t b link d = Inr d'" and "l \<in> links d'" and "l \<notin> links d"
  shows "\<exists>i. link = Some i \<and> l = (t, b, i)"
  using assms by (auto simp: sql_set_identity_def links_def same_barber_def split: if_splits)

lemma repo_LinkIdentity_links:
  assumes "l \<in> links (snd (repo_LinkIdentity f t b i d))" and "l \<notin> links d"
  shows "l = (t, b, i) \<and> (\<exists>r \<in> set (barbers d). same_barber t b r \<and> bb_identity r = None)"
proof (cases "repo_LinkIdentity f t b i d")
  case (Pair v d')
  then obtain u where "repo_LinkIdentity f t b i d = (Inr u, d')"
    using assms WithTenantTx_atomic unfolding repo_LinkIdentity_def by (cases v) fastforce+
  then obtain r where r: "find (same_barber t b) (barbers d) = Some r" "bb_identity r = None" "sql_set_identity t b (Some i) d = Inr d'"
    using Pair assms by (auto simp: repo_LinkIdentity_def WithTenantTx_ok split: option.splits if_splits sum.splits)
  then show ?thesis using set_identity_links [OF r(3)] assms Pair find_SomeD [OF r(1)] by auto
qed

lemma repo_UnlinkIdentity_links: "links (snd (repo_UnlinkIdentity f t b d)) \<subseteq> links d"
proof
  fix l assume l: "l \<in> links (snd (repo_UnlinkIdentity f t b d))"
  show "l \<in> links d"
  proof (cases "repo_UnlinkIdentity f t b d")
    case (Pair v d')
    show ?thesis
    proof (cases v)
      case (Inl e)
      have "d' = d" using Pair unfolding repo_UnlinkIdentity_def Inl by (rule WithTenantTx_atomic)
      then show ?thesis using l by (simp add: Pair)
    next
      case (Inr u)
      then have "sql_set_identity t b None d = Inr d'"
        using Pair by (auto simp: repo_UnlinkIdentity_def WithTenantTx_ok split: sum.splits if_splits)
      then show ?thesis using set_identity_links [of t b None d d' l] l by (auto simp: Pair)
    qed
  qed
qed

lemma repo_SaveBranch_links: "links (snd (repo_SaveBranch f new t i inp d)) = links d"
  unfolding repo_SaveBranch_def
  by (rule tx_frame) (auto simp: Let_def sql_insert_branch_def sql_update_branch_def links_def split: if_splits)

lemma new_link:
  assumes "l \<in> links (exec_barber x d)" and "l \<notin> links d"
  shows "\<exists>f t b i. x = BoLink f t b i \<and> l = (t, b, i) \<and> (\<exists>r \<in> set (barbers d). same_barber t b r \<and> bb_identity r = None)"
  using assms repo_SaveBranch_links repo_SaveBarber_links repo_UnlinkIdentity_links repo_LinkIdentity_links
  by (cases x) (simp_all, blast+)

text \<open>(C33)
  A request makes at most one link, the one it names: if it adds a link between a barber and an identity, it is a request
  to the link route of that tenant whose path names the barber and whose body names the identity. The barber had no link
  before, so a link is never replaced; auth-service confirmed the identity as an active member of the tenant with the role
  BARBER; and no other barber of the tenant has the identity afterwards.
\<close>

theorem identity_links_guarded:
  assumes "barber_inv d" and "(t, b, i) \<in> links (snd (barber_serve h rt io c d))" and "(t, b, i) \<notin> links d"
  shows "rt = BrLink \<and> bar_id h c ''barber_id'' = Some b \<and> bh_link h (c_Body c) = Some i \<and>
    (\<exists>r \<in> set (barbers d). same_barber t b r \<and> bb_identity r = None) \<and>
    (\<exists>tenant. bar_tenant h c = Some tenant \<and> TenantID tenant = t \<and>
       EnsureBarberMembership (bs_X (bh_app h)) (bs_auth (bh_app h)) tenant i = None) \<and>
    (\<forall>b'. (t, b', i) \<in> links (snd (barber_serve h rt io c d)) \<longrightarrow> b' = b)"
proof -
  let ?d = "snd (barber_serve h rt io c d)"
  obtain tenant x where w: "barber_writer h c tenant" "barber_request_op h rt c tenant x" "?d = exec_barber x d"
    using assms(2,3) by (metis barber_serve_op)
  obtain f where x: "x = BoLink f t b i" and free: "\<exists>r \<in> set (barbers d). same_barber t b r \<and> bb_identity r = None"
    using new_link [of "(t, b, i)" x d] assms(2,3) unfolding w(3) by blast
  have "barber_inv ?d" using exec_barber_inv [OF assms(1)] unfolding w(3) .
  then have "b' = b" if "(t, b', i) \<in> links ?d" for b'
    using that assms(2) by (fastforce simp: links_iff same_barber_def barber_inv_def barbers_wf_def same_link_def)
  then show ?thesis using w(1,2) free unfolding x barber_writer_def barber_request_op_def by auto
qed

end
