(* ===== verification/Barber_Examples.thy ===== *)
theory Barber_Examples
  imports Barber_Staff
begin

text \<open>
  A shop with a branch that is open and one that is closed, a barber at both and a barber at the closed one only;
  its owner saves a barber and links an identity.
\<close>

definition bx_X :: externals where
  "bx_X = \<lparr>uuid_String = (\<lambda>u. replicate (unat u) (CHR ''1'')), uuid_Parse = (\<lambda>s. Some (word_of_nat (length s))),
     mail_ParseAddress = (\<lambda>s. Some s), sha256_hex = (\<lambda>s. s), json_strings = concat, rfc3339nano = (\<lambda>_. [])\<rparr>"

definition bx_auth :: auth_client where
  "bx_auth = \<lparr>ac_baseURL = ''http://auth'', ac_token = ''secret'',
     ac_Do = (\<lambda>q. if hr_url q = ''http://auth/internal/v1/auth/me'' then Response 200 [] else Response 204 []),
     ac_decode = (\<lambda>_. Some \<lparr>ap_Role = ''OWNER'', ap_TenantID = ''1111111'', ap_IdentityID = 1, ap_MustChangePassword = False\<rparr>)\<rparr>"

definition bx_app :: barber_service where
  "bx_app = \<lparr>bs_X = bx_X, bs_auth = bx_auth, bs_coll = (\<lambda>s. s)\<rparr>"

definition bx_io :: barber_io where
  "bx_io = \<lparr>bo_f = (\<lambda>_. NoFault), bo_new = 30\<rparr>"

definition bx_branch :: "string \<Rightarrow> bool \<Rightarrow> branch_input" where
  "bx_branch name active = \<lparr>bi_Name = name, bi_Address = [], bi_Active = Some active\<rparr>"

definition bx_barber :: "string \<Rightarrow> uuid list \<Rightarrow> barber_input" where
  "bx_barber name ids = \<lparr>bri_DisplayName = name, bri_Bio = ''bio'', bri_Active = None, bri_BranchIDs = Some ids\<rparr>"

definition bx_db :: barber_db where
  "bx_db = run_ops exec_barber [BoSaveBranch NoFault 11 7 0 (bx_branch ''Moda'' True), BoSaveBranch NoFault 12 7 0 (bx_branch ''Old'' False),
     BoSaveBarber NoFault 21 7 0 (bx_barber ''Ali'' [12, 11]), BoSaveBarber NoFault 22 7 0 (bx_barber ''Can'' [12])] empty_barber_db"

lemma bx_db_inv: "barber_inv bx_db"
  unfolding bx_db_def using barber.invar_reachable by blast

definition bx_ctx :: "string \<Rightarrow> tenant_ctx" where
  "bx_ctx app = \<lparr>TenantID = 7, AppType = app, RequestID = []\<rparr>"

definition bx_listed :: barber where
  "bx_listed = \<lparr>bv_ID = 21, bv_DisplayName = ''Ali'', bv_Bio = ''bio'', bv_Active = True, bv_IdentityID = None, bv_BranchIDs = [11, 12]\<rparr>"

lemma inr_eqI: "(case r of Inl _ \<Rightarrow> False | Inr v \<Rightarrow> v = w) \<Longrightarrow> r = Inr w"
  by (auto split: sum.splits)

theorem public_listing_bookable_witness:
  "bar_PublicBarbers bx_app bx_io (bx_ctx ''booking'') bx_db = Inr [bx_listed] \<and>
   (\<exists>br. BookingAccess bx_io (bx_ctx ''booking'') br 21 bx_db = Inr ()) \<and>
   \<not> (\<exists>br. BookingAccess bx_io (bx_ctx ''booking'') br 22 bx_db = Inr ())"
proof -
  have "bar_PublicBarbers bx_app bx_io (bx_ctx ''booking'') bx_db = Inr [bx_listed]" by (rule inr_eqI) code_simp
  moreover from public_listing_bookable [OF bx_db_inv this, of bx_io]
  have "21 \<in> bv_ID ` set [bx_listed] \<longleftrightarrow> (\<exists>br. BookingAccess bx_io (bx_ctx ''booking'') br 21 bx_db = Inr ())"
    "22 \<in> bv_ID ` set [bx_listed] \<longleftrightarrow> (\<exists>br. BookingAccess bx_io (bx_ctx ''booking'') br 22 bx_db = Inr ())"
    by (simp_all add: bx_io_def)
  ultimately show ?thesis by (simp add: bx_listed_def)
qed

definition bx_saved :: barber where
  "bx_saved = \<lparr>bv_ID = 22, bv_DisplayName = ''Can'', bv_Bio = ''bio'', bv_Active = True, bv_IdentityID = None,
     bv_BranchIDs = [12, 11, 12]\<rparr>"

lemma pair_Inr_eqI: "(case fst p of Inl _ \<Rightarrow> False | Inr v \<Rightarrow> v = w) \<Longrightarrow> p = (Inr w, snd p)"
  by (cases p) (auto split: sum.splits)

theorem save_barber_roundtrip_witness:
  "let r = bar_SaveBarber bx_app bx_io (bx_ctx ''admin'') ''c'' 22 (bx_barber '' Can '' [12, 11, 12]) bx_db in
   fst r = Inr bx_saved \<and> repo_Barber NoFault 7 22 (snd r) = Inr (bx_saved\<lparr>bv_BranchIDs := [11, 12]\<rparr>) \<and>
   is_assigned 7 11 21 (snd r)"
proof -
  let ?r = "bar_SaveBarber bx_app bx_io (bx_ctx ''admin'') ''c'' 22 (bx_barber '' Can '' [12, 11, 12]) bx_db"
  have ok: "?r = (Inr bx_saved, snd ?r)" by (rule pair_Inr_eqI) code_simp
  note saved = save_barber_roundtrip [OF bx_db_inv ok]
  have "sort (remdups (bv_BranchIDs bx_saved)) = [11, 12]" by (simp add: bx_saved_def)
  then have "repo_Barber NoFault 7 22 (snd ?r) = Inr (bx_saved\<lparr>bv_BranchIDs := [11, 12]\<rparr>)"
    using conjunct1 [OF saved] by (simp add: bx_ctx_def bx_saved_def)
  moreover have "is_assigned 7 11 21 (snd ?r) = is_assigned 7 11 21 bx_db"
    using conjunct2 [OF conjunct2 [OF saved]] by (simp add: bx_ctx_def bx_saved_def)
  moreover have "is_assigned 7 11 21 bx_db" by code_simp
  ultimately show ?thesis using arg_cong [OF ok, of fst] by (simp add: Let_def)
qed

definition bx_handler :: barber_handler where
  "bx_handler = \<lparr>bh_app = bx_app, bh_verify = (\<lambda>tok. tok = ''secret''), bh_branch = (\<lambda>_. None), bh_barber = (\<lambda>_. None),
     bh_raw = (\<lambda>_. Some False), bh_link = (\<lambda>b. Some (word_of_nat (length b)))\<rparr>"

definition bx_link :: fiber_ctx where
  "bx_link = \<lparr>c_Get = (\<lambda>k. if k = InternalHeaderName then ''secret'' else if k = TenantIDHeader then ''1111111''
       else if k = AppTypeHeader then ''admin'' else if k = ''Cookie'' then ''c'' else []),
     c_Params = (\<lambda>_. replicate 21 (CHR ''1'')), c_Query = (\<lambda>_. []), c_Body = ''id''\<rparr>"

text \<open>The owner links identity 2 to the barber Ali.\<close>

definition bx_linked :: barber_db where
  "bx_linked = snd (barber_serve bx_handler BrLink bx_io bx_link bx_db)"

lemma bx_links: "(7, 21, 2) \<in> links bx_linked" "(7, 21, 2) \<notin> links bx_db"
proof -
  have "list_ex (\<lambda>r. same_barber 7 21 r \<and> bb_identity r = Some 2) (barbers bx_linked)"
    "\<not> list_ex (\<lambda>r. same_barber 7 21 r \<and> bb_identity r = Some 2) (barbers bx_db)" by code_simp+
  then show "(7, 21, 2) \<in> links bx_linked" "(7, 21, 2) \<notin> links bx_db" unfolding links_iff list_ex_iff by blast+
qed

theorem barber_changes_authorized_witness:
  "\<exists>t p. bar_tenant bx_handler bx_link = Some t \<and> Authenticate bx_X bx_auth t ''c'' = Inr p \<and> CanWrite (ap_Role p) \<and>
     AppType t = ''admin'' \<and> (TenantID t = 8 \<or> barber_view 8 bx_linked = barber_view 8 bx_db)"
proof -
  have "snd (barber_serve bx_handler BrLink bx_io bx_link bx_db) \<noteq> bx_db" using bx_links unfolding bx_linked_def by metis
  moreover have "c_Get bx_link ''Cookie'' = ''c''" "bs_X (bh_app bx_handler) = bx_X" "bs_auth (bh_app bx_handler) = bx_auth"
    by (simp_all add: bx_link_def bx_handler_def bx_app_def InternalHeaderName_def TenantIDHeader_def AppTypeHeader_def)
  ultimately show ?thesis using barber_changes_authorized unfolding bx_linked_def by metis
qed

theorem identity_links_guarded_witness:
  "(7, 21, 2) \<in> links bx_linked \<and> bar_id bx_handler bx_link ''barber_id'' = Some 21 \<and>
   bh_link bx_handler (c_Body bx_link) = Some 2 \<and> (\<exists>r \<in> set (barbers bx_db). same_barber 7 21 r \<and> bb_identity r = None) \<and>
   {b'. (7, b', 2) \<in> links bx_linked} = {21}"
  using identity_links_guarded [OF bx_db_inv bx_links(1) [unfolded bx_linked_def] bx_links(2)] bx_links(1)
  unfolding bx_linked_def by blast

end
