(* ===== verification/Catalog_Examples.thy ===== *)
theory Catalog_Examples
  imports Catalog_Staff Barber_Examples
begin

text \<open>The catalog of the shop of the barber-service examples: two services, one of them offered by a barber.\<close>

definition kx_app :: catalog_service where
  "kx_app = \<lparr>cs_X = bx_X, cs_auth = bx_auth,
     cs_barber = \<lparr>bc_baseURL = ''http://barber'', bc_token = ''secret'', bc_Do = (\<lambda>_. Response 204 [])\<rparr>, cs_coll = (\<lambda>s. s)\<rparr>"

definition kx_io :: catalog_io where
  "kx_io = \<lparr>co_f = NoFault, co_new = 43\<rparr>"

definition kx_input :: "string \<Rightarrow> string \<Rightarrow> service_input" where
  "kx_input name price = \<lparr>si_Name = name, si_DurationMinutes = 30, si_BufferBeforeMinutes = 0, si_BufferAfterMinutes = 5,
     si_Price = price, si_Currency = ''TRY'', si_Active = None\<rparr>"

definition kx_db :: catalog_db where
  "kx_db = run_ops exec_catalog [CoSave NoFault 41 7 0 (kx_input ''Cut'' ''25.5''), CoSave NoFault 42 7 0 (kx_input ''Shave'' ''10''),
     CoAssign NoFault 7 21 42, CoAssign NoFault 7 21 41] empty_catalog_db"

lemma kx_db_inv: "catalog_inv kx_db"
  unfolding kx_db_def using catalog.invar_reachable by blast

definition kx_saved :: catalog_item where
  "kx_saved = \<lparr>ci_ID = 43, ci_Name = ''Colour'', ci_DurationMinutes = 30, ci_BufferBeforeMinutes = 0, ci_BufferAfterMinutes = 5,
     ci_Price = ''100.5'', ci_Currency = ''TRY'', ci_Active = True\<rparr>"

theorem price_roundtrip_witness:
  "let r = cat_Save kx_app kx_io (bx_ctx ''admin'') ''c'' 0 (kx_input '' Colour '' ''100.5'') kx_db in
   fst r = Inr kx_saved \<and> repo_Service NoFault 7 43 (snd r) = Inr (kx_saved\<lparr>ci_Price := ''100.50''\<rparr>)"
proof -
  let ?r = "cat_Save kx_app kx_io (bx_ctx ''admin'') ''c'' 0 (kx_input '' Colour '' ''100.5'') kx_db"
  have ok: "?r = (Inr kx_saved, snd ?r)" by (rule pair_Inr_eqI) code_simp
  have "amount_text (amount_cents ''100.5'') = ''100.50''" by code_simp
  with price_roundtrip [OF kx_db_inv ok] arg_cong [OF ok, of fst] show ?thesis
    by (simp add: kx_input_def kx_saved_def bx_ctx_def Let_def)
qed

theorem public_services_available_witness:
  "cat_PublicBarberServices kx_io (bx_ctx ''booking'') kx_db = Inr [\<lparr>pb_BarberID = 21, pb_ServiceIDs = [41, 42]\<rparr>] \<and>
   (\<exists>item. cat_Available kx_io (bx_ctx ''booking'') 21 42 kx_db = Inr item)"
proof -
  have vs: "cat_PublicBarberServices kx_io (bx_ctx ''booking'') kx_db = Inr [\<lparr>pb_BarberID = 21, pb_ServiceIDs = [41, 42]\<rparr>]"
    by (rule inr_eqI) code_simp
  have "co_f kx_io = NoFault" by (simp add: kx_io_def)
  from conjunct1 [OF public_services_available [OF kx_db_inv vs this]]
  have "(\<exists>v \<in> set [\<lparr>pb_BarberID = 21, pb_ServiceIDs = [41, 42]\<rparr>]. pb_BarberID v = 21 \<and> 42 \<in> set (pb_ServiceIDs v)) \<longleftrightarrow>
      (\<exists>item. cat_Available kx_io (bx_ctx ''booking'') 21 42 kx_db = Inr item)" by (elim allE)
  then have "\<exists>item. cat_Available kx_io (bx_ctx ''booking'') 21 42 kx_db = Inr item" by simp
  with vs show ?thesis by blast
qed

definition kx_handler :: catalog_handler where
  "kx_handler = \<lparr>ch_app = kx_app, ch_verify = (\<lambda>tok. tok = ''secret''), ch_service = (\<lambda>_. None), ch_assign = (\<lambda>_. Some 41)\<rparr>"

definition kx_assign :: fiber_ctx where
  "kx_assign = bx_link\<lparr>c_Params := (\<lambda>_. replicate 22 (CHR ''1''))\<rparr>"

text \<open>The owner lets the barber Can offer the cut.\<close>

theorem catalog_changes_authorized_witness:
  "\<exists>t p. cat_tenant kx_handler kx_assign = Some t \<and> Authenticate bx_X bx_auth t ''c'' = Inr p \<and> CanWrite (ap_Role p) \<and>
     EnsureExists bx_X (cs_barber kx_app) t 22 = None"
proof -
  let ?d = "snd (catalog_serve kx_handler CrAssign kx_io kx_assign kx_db)"
  have facts: "list_ex (\<lambda>x. same_offer 7 22 41 x \<and> of_active x) (barber_services ?d)"
    "list_ex (\<lambda>r. same_service 7 41 r \<and> sv_active r) (services ?d)"
    "\<not> list_ex (same_offer 7 22 41) (barber_services kx_db)" by code_simp+
  then have new: "offered ?d 7 22 41" "\<forall>x \<in> set (barber_services kx_db). \<not> same_offer 7 22 41 x"
    unfolding offered_def list_ex_iff by blast+
  have "?d \<noteq> kx_db" using facts unfolding list_ex_iff by metis
  from catalog_changes_authorized [OF this] obtain t p where t: "cat_tenant kx_handler kx_assign = Some t"
    "Authenticate (cs_X (ch_app kx_handler)) (cs_auth (ch_app kx_handler)) t (c_Get kx_assign ''Cookie'') = Inr p" "CanWrite (ap_Role p)"
    and offer: "\<forall>b s. offered ?d (TenantID t) b s \<and> (\<forall>x \<in> set (barber_services kx_db). \<not> same_offer (TenantID t) b s x) \<longrightarrow>
       EnsureExists (cs_X (ch_app kx_handler)) (cs_barber (ch_app kx_handler)) t b = None" by blast
  have "TenantID t = 7"
  proof -
    have "(case cat_tenant kx_handler kx_assign of None \<Rightarrow> False | Some t \<Rightarrow> TenantID t = 7)" by code_simp
    then show ?thesis using t(1) by simp
  qed
  moreover have "c_Get kx_assign ''Cookie'' = ''c''" "cs_X (ch_app kx_handler) = bx_X" "cs_auth (ch_app kx_handler) = bx_auth"
    "cs_barber (ch_app kx_handler) = cs_barber kx_app"
    by (simp_all add: kx_assign_def bx_link_def kx_handler_def kx_app_def InternalHeaderName_def TenantIDHeader_def AppTypeHeader_def)
  ultimately show ?thesis using t offer new by metis
qed

end
