(* ===== verification/Migrate.thy ===== *)
theory Migrate
  imports Platform "HOL-Library.List_Lexorder" "HOL-Library.Char_ord"
begin

text \<open>
  \<^verbatim>\<open>platform/migrate\<close>: the job that brings the schema of a service up to date. A schema is any type; what a SQL file does
  to it, or that PostgreSQL refuses the file, is the argument \<open>exec\<close>. The job meets faults: connecting may fail, the context
  may end, and the handling of a file may fail at any of its statements, at the commit included, which may have
  taken effect all the same.
\<close>

section \<open>Files\<close>

record dir_entry =
  de_name :: string
  de_dir :: bool
  de_sql :: string

text \<open>\<^verbatim>\<open>strings.HasSuffix\<close> and \<^verbatim>\<open>strings.TrimSuffix\<close>\<close>

definition HasSuffix :: "string \<Rightarrow> string \<Rightarrow> bool" where
  "HasSuffix s p = is_prefix (rev p) (rev s)"

definition TrimSuffix :: "string \<Rightarrow> string \<Rightarrow> string" where
  "TrimSuffix s p = (if HasSuffix s p then take (length s - length p) s else s)"

definition is_migration :: "dir_entry \<Rightarrow> bool" where
  "is_migration e \<longleftrightarrow> \<not> (de_dir e \<or> \<not> HasSuffix (de_name e) ''.up.sql'')"

definition version_of :: "dir_entry \<Rightarrow> string" where
  "version_of e = TrimSuffix (de_name e) ''.up.sql''"

section \<open>The database and what a run meets\<close>

text \<open>The table \<^verbatim>\<open>schema_migrations\<close> is \<open>None\<close> until it is created.\<close>

record 's migration_db =
  md_schema :: 's
  md_versions :: "string list option"

datatype file_fault = FileOk | ExistsFails | ReadFails | TxBeginFails | ExecFails | InsertFails | TxCommitFails | CommitUnknown

datatype migrate_error =
    MigConnect | MigContext | MigRole | MigTable | MigReadDir | MigExists | MigReadFile | MigBegin | MigApply string | MigCommit

text \<open>
  For the n-th attempt to connect: whether it succeeds, the clock after it, and whether the context ends during the pause
  of a second; then whether the role is set, the table created and the directory read, and the fault of each file.
\<close>

record migrate_io =
  mi_start :: time
  mi_connect :: "nat \<Rightarrow> bool"
  mi_now :: "nat \<Rightarrow> time"
  mi_done :: "nat \<Rightarrow> bool"
  mi_role :: bool
  mi_table :: bool
  mi_dir :: bool
  mi_fault :: "string \<Rightarrow> file_fault"

section \<open>Apply\<close>

definition connect_window :: duration where
  "connect_window = 45000000000"

text \<open>The loop that connects; \<open>Some None\<close> is a connection, \<open>None\<close> that the loop never ends.\<close>

partial_function (option) connect_loop :: "migrate_io \<Rightarrow> nat \<Rightarrow> migrate_error option option" where
  "connect_loop io n =
     (if mi_connect io n then Some None
      else if mi_now io n > mi_start io + connect_window then Some (Some MigConnect)
      else if mi_done io n then Some (Some MigContext)
      else connect_loop io (Suc n))"

definition apply_file ::
  "(string \<Rightarrow> 's \<Rightarrow> 's option) \<Rightarrow> file_fault \<Rightarrow> dir_entry \<Rightarrow> 's \<Rightarrow> string list \<Rightarrow> migrate_error option \<times> 's \<times> string list" where
  "apply_file exec f e s vs =
     (if f = ExistsFails then (Some MigExists, s, vs)
      else if List.member vs (version_of e) then (None, s, vs)
      else if f = ReadFails then (Some MigReadFile, s, vs)
      else if f = TxBeginFails then (Some MigBegin, s, vs)
      else case exec (de_sql e) s of
        None \<Rightarrow> (Some (MigApply (de_name e)), s, vs)
      | Some s' \<Rightarrow>
        if f = ExecFails \<or> f = InsertFails then (Some (MigApply (de_name e)), s, vs)
        else if f = TxCommitFails then (Some MigCommit, s, vs)
        else if f = CommitUnknown then (Some MigCommit, s', vs @ [version_of e])
        else (None, s', vs @ [version_of e]))"

fun apply_files ::
  "(string \<Rightarrow> 's \<Rightarrow> 's option) \<Rightarrow> (string \<Rightarrow> file_fault) \<Rightarrow> dir_entry list \<Rightarrow> 's \<Rightarrow> string list \<Rightarrow>
     migrate_error option \<times> 's \<times> string list" where
  "apply_files exec fault [] s vs = (None, s, vs)"
| "apply_files exec fault (e # es) s vs =
     (if \<not> is_migration e then apply_files exec fault es s vs
      else case apply_file exec (fault (de_name e)) e s vs of
        (Some err, s', vs') \<Rightarrow> (Some err, s', vs')
      | (None, s', vs') \<Rightarrow> apply_files exec fault es s' vs')"

definition migrate_Apply ::
  "(string \<Rightarrow> 's \<Rightarrow> 's option) \<Rightarrow> migrate_io \<Rightarrow> dir_entry list \<Rightarrow> 's migration_db \<Rightarrow>
     (migrate_error option \<times> 's migration_db) option" where
  "migrate_Apply exec io entries d =
     (case connect_loop io 0 of
        None \<Rightarrow> None
      | Some (Some err) \<Rightarrow> Some (Some err, d)
      | Some None \<Rightarrow>
        if \<not> mi_role io then Some (Some MigRole, d)
        else if \<not> mi_table io then Some (Some MigTable, d)
        else let vs = (case md_versions d of None \<Rightarrow> [] | Some vs \<Rightarrow> vs) in
          if \<not> mi_dir io then Some (Some MigReadDir, d\<lparr>md_versions := Some vs\<rparr>)
          else case apply_files exec (mi_fault io) (sort_key de_name entries) (md_schema d) vs of
            (err, s', vs') \<Rightarrow> Some (err, \<lparr>md_schema = s', md_versions = Some vs'\<rparr>))"

section \<open>The loop ends\<close>

lemma connect_loop_ends:
  assumes "\<And>n. mi_now io n + 1000000000 \<le> mi_now io (Suc n)" and "mi_start io \<le> mi_now io 0"
  shows "n \<le> 46 \<Longrightarrow> \<exists>r. connect_loop io n = Some r"
proof (induction "46 - n" arbitrary: n)
  case 0
  have "mi_start io + int k * 1000000000 \<le> mi_now io k" for k
  proof (induction k)
    case (Suc k)
    then show ?case using assms(1) [of k] by (simp add: algebra_simps)
  qed (use assms(2) in simp)
  from this [of 46] have "mi_now io 46 > mi_start io + connect_window" by (simp add: connect_window_def)
  moreover have "n = 46" using 0 by simp
  ultimately show ?case by (subst connect_loop.simps) simp
next
  case (Suc k)
  then have "\<exists>r. connect_loop io (Suc n) = Some r" by simp
  then show ?case by (subst connect_loop.simps) auto
qed

section \<open>Applying all files at once\<close>

fun exec_all :: "(string \<Rightarrow> 's \<Rightarrow> 's option) \<Rightarrow> dir_entry list \<Rightarrow> 's \<Rightarrow> 's option" where
  "exec_all exec [] s = Some s"
| "exec_all exec (e # es) s = (case exec (de_sql e) s of None \<Rightarrow> None | Some s' \<Rightarrow> exec_all exec es s')"

text \<open>The migrations of a directory, in the order of their names.\<close>

definition migrations :: "dir_entry list \<Rightarrow> dir_entry list" where
  "migrations entries = filter is_migration (sort_key de_name entries)"

lemma exec_all_append:
  "exec_all exec (xs @ ys) s = (case exec_all exec xs s of None \<Rightarrow> None | Some s' \<Rightarrow> exec_all exec ys s')"
  by (induction xs arbitrary: s) (auto split: option.splits)

lemma apply_files_migrations:
  "apply_files exec fault es s vs = apply_files exec fault (filter is_migration es) s vs"
  by (induction es arbitrary: s vs) (auto split: prod.splits option.splits)

lemma apply_files_append:
  "apply_files exec fault (xs @ ys) s vs = (case apply_files exec fault xs s vs of
     (Some err, s', vs') \<Rightarrow> (Some err, s', vs') | (None, s', vs') \<Rightarrow> apply_files exec fault ys s' vs')"
  by (induction xs arbitrary: s vs) (auto split: prod.splits option.splits)

lemma apply_files_skip:
  "list_all is_migration es \<Longrightarrow> set (map version_of es) \<subseteq> set vs \<Longrightarrow> apply_files exec fault es s vs = (err, s', vs') \<Longrightarrow>
     s' = s \<and> vs' = vs"
  by (induction es) (auto simp: apply_file_def split: if_splits option.splits prod.splits)

lemma apply_file_new:
  assumes "version_of e \<notin> set vs" and "apply_file exec f e s vs = (err, s', vs')"
  obtains (kept) "err \<noteq> None" "s' = s" "vs' = vs" | (applied) "exec (de_sql e) s = Some s'" "vs' = vs @ [version_of e]"
  using assms by (auto simp: apply_file_def split: if_splits option.splits)

lemma apply_files_new:
  assumes "list_all is_migration es" and "distinct (map version_of es)" and "set (map version_of es) \<inter> set vs = {}"
    and "apply_files exec fault es s vs = (err, s', vs')"
  shows "\<exists>n \<le> length es. vs' = vs @ map version_of (take n es) \<and> exec_all exec (take n es) s = Some s' \<and> (err = None \<longrightarrow> n = length es)"
  using assms
proof (induction es arbitrary: s vs)
  case (Cons e es)
  obtain r s1 vs1 where one: "apply_file exec (fault (de_name e)) e s vs = (r, s1, vs1)" by (metis prod_cases3)
  have new: "version_of e \<notin> set vs" using Cons.prems(3) by auto
  from new one show ?case
  proof (cases rule: apply_file_new)
    case kept
    then show ?thesis using Cons.prems one by (intro exI [of _ 0]) auto
  next
    case applied
    show ?thesis
    proof (cases r)
      case None
      have "\<exists>n \<le> length es. vs' = vs1 @ map version_of (take n es) \<and> exec_all exec (take n es) s1 = Some s' \<and> (err = None \<longrightarrow> n = length es)"
        by (rule Cons.IH) (use Cons.prems one None applied in \<open>auto split: if_splits\<close>)
      then obtain n where "n \<le> length es" "vs' = vs1 @ map version_of (take n es)" "exec_all exec (take n es) s1 = Some s'"
        "err = None \<longrightarrow> n = length es" by blast
      then show ?thesis using applied by (intro exI [of _ "Suc n"]) simp
    next
      case (Some x)
      then show ?thesis using Cons.prems one applied by (intro exI [of _ 1]) auto
    qed
  qed
qed simp

section \<open>Progress\<close>

text \<open>The first \<open>k\<close> migrations were applied, in order, to the schema \<open>s0\<close>.\<close>

definition migrated_up_to :: "(string \<Rightarrow> 's \<Rightarrow> 's option) \<Rightarrow> dir_entry list \<Rightarrow> 's \<Rightarrow> nat \<Rightarrow> 's migration_db \<Rightarrow> bool" where
  "migrated_up_to exec ms s0 k d \<longleftrightarrow> k \<le> length ms \<and> exec_all exec (take k ms) s0 = Some (md_schema d) \<and>
     (case md_versions d of None \<Rightarrow> [] | Some vs \<Rightarrow> vs) = map version_of (take k ms)"

lemma apply_files_progress:
  assumes ms: "list_all is_migration ms" "distinct (map version_of ms)" and es: "es = take m ms" "m \<le> length ms"
    and k: "k \<le> length ms" "exec_all exec (take k ms) s0 = Some s"
    and run: "apply_files exec fault es s (map version_of (take k ms)) = (err, s', vs')"
  shows "\<exists>k'. k \<le> k' \<and> k' \<le> length ms \<and> (err = None \<longrightarrow> m \<le> k') \<and> vs' = map version_of (take k' ms) \<and> exec_all exec (take k' ms) s0 = Some s'"
proof (cases "m \<le> k")
  case True
  have "list_all is_migration es" using ms(1) es set_take_subset [of m ms] by (auto simp: list_all_iff)
  moreover have "set (map version_of es) \<subseteq> set (map version_of (take k ms))"
    using True es set_take_subset_set_take [of m k ms] by auto
  ultimately have "s' = s \<and> vs' = map version_of (take k ms)" using run by (rule apply_files_skip)
  then show ?thesis using True k by auto
next
  case False
  let ?new = "take (m - k) (drop k ms)" and ?vs = "map version_of (take k ms)"
  have split: "es = take k ms @ ?new" using False es take_add [of k "m - k" ms] by simp
  have all: "list_all is_migration (take k ms)" "list_all is_migration ?new"
    using ms(1) by (auto simp: list_all_iff dest!: in_set_takeD in_set_dropD)
  obtain e1 s1 vs1 where first: "apply_files exec fault (take k ms) s ?vs = (e1, s1, vs1)" by (metis prod_cases3)
  then have same: "s1 = s" "vs1 = ?vs" using apply_files_skip [OF all(1) _ first] by auto
  show ?thesis
  proof (cases e1)
    case (Some x)
    then have "err = Some x" "s' = s" "vs' = ?vs" using run first same unfolding split apply_files_append by auto
    then show ?thesis using k by auto
  next
    case None
    then have rest: "apply_files exec fault ?new s ?vs = (err, s', vs')" using run first same unfolding split apply_files_append by simp
    have "distinct (map version_of (take k ms @ drop k ms))" using ms(2) by simp
    then have parts: "distinct (map version_of (drop k ms))" "set (map version_of (drop k ms)) \<inter> set ?vs = {}"
      unfolding map_append distinct_append by blast+
    have new: "map version_of ?new = take (m - k) (map version_of (drop k ms))" by (rule take_map [symmetric])
    have fresh: "distinct (map version_of ?new)" unfolding new by (rule distinct_take [OF parts(1)])
    have apart: "set (map version_of ?new) \<inter> set ?vs = {}"
      using parts(2) set_take_subset [of "m - k" "map version_of (drop k ms)"] unfolding new by blast
    from apply_files_new [OF all(2) fresh apart rest] obtain n where n: "n \<le> length ?new" "vs' = ?vs @ map version_of (take n ?new)"
      "exec_all exec (take n ?new) s = Some s'" "err = None \<longrightarrow> n = length ?new" by (elim exE conjE) (rule that)
    have grow: "take (k + n) ms = take k ms @ take n ?new"
      using n(1) by (simp add: take_add min_absorb1)
    show ?thesis
      using n k(2) es(2) False by (intro exI [of _ "k + n"]) (auto simp: grow exec_all_append)
  qed
qed

lemma is_prefix_refl: "is_prefix xs xs"
  by (induction xs) auto

lemma is_prefix_append: "is_prefix p s \<Longrightarrow> s = p @ drop (length p) s"
  by (induction p s rule: is_prefix.induct) auto

lemma HasSuffix_append:
  assumes "HasSuffix s p"
  shows "s = take (length s - length p) s @ p"
proof -
  have "rev s = rev p @ drop (length (rev p)) (rev s)" using assms is_prefix_append by (simp only: HasSuffix_def)
  then have "rev (rev s) = rev (drop (length p) (rev s)) @ rev (rev p)" by (metis rev_append length_rev)
  then show ?thesis by (simp add: rev_drop)
qed

lemma migration_name: "is_migration e \<Longrightarrow> de_name e = version_of e @ ''.up.sql''"
  using HasSuffix_append [of "de_name e" "''.up.sql''"] unfolding is_migration_def version_of_def TrimSuffix_def by presburger

lemma migrations_distinct:
  assumes "distinct (map de_name entries)"
  shows "distinct (map version_of (migrations entries))"
proof -
  have "distinct (map de_name (sort_key de_name entries))"
    using assms by (simp add: distinct_map)
  then have names: "distinct (map de_name (migrations entries))" by (simp add: migrations_def distinct_map_filter)
  have "map de_name (migrations entries) = map (\<lambda>v. v @ ''.up.sql'') (map version_of (migrations entries))"
    using migration_name by (simp add: migrations_def)
  with names show ?thesis by (metis distinct_map)
qed

lemma migrations_all: "list_all is_migration (migrations entries)"
  by (simp add: migrations_def list_all_iff)

lemma Apply_progress:
  assumes ms: "list_all is_migration ms" "distinct (map version_of ms)"
    and pre: "is_prefix (migrations entries) ms" and d: "migrated_up_to exec ms s0 k d"
    and run: "migrate_Apply exec io entries d = Some (err, d')"
  shows "\<exists>k' \<ge> k. migrated_up_to exec ms s0 k' d' \<and> (err = None \<longrightarrow> length (migrations entries) \<le> k' \<and> md_versions d' \<noteq> None)"
proof -
  let ?vs = "case md_versions d of None \<Rightarrow> [] | Some vs \<Rightarrow> vs"
  let ?run = "apply_files exec (mi_fault io) (migrations entries) (md_schema d) ?vs"
  let ?m = "length (migrations entries)"
  have es: "migrations entries = take ?m ms" "?m \<le> length ms"
    using is_prefix_append [OF pre] is_prefix_length [OF pre] by (metis append_eq_conv_conj, simp)
  consider (stopped) "md_schema d' = md_schema d" "md_versions d' = md_versions d \<or> md_versions d' = Some ?vs" "err \<noteq> None"
    | (ran) "?run = (err, md_schema d', the (md_versions d'))" "md_versions d' \<noteq> None"
    using run apply_files_migrations [of exec "mi_fault io" "sort_key de_name entries" "md_schema d" ?vs]
    unfolding migrate_Apply_def Let_def migrations_def
    by (auto split: option.splits if_splits prod.splits)
  then show ?thesis
  proof cases
    case stopped
    then have "migrated_up_to exec ms s0 k d'" using d by (auto simp: migrated_up_to_def)
    then show ?thesis using stopped(3) by blast
  next
    case ran
    then obtain vs' where vs': "md_versions d' = Some vs'" by blast
    have k: "k \<le> length ms" "exec_all exec (take k ms) s0 = Some (md_schema d)" "?vs = map version_of (take k ms)"
      using d by (auto simp: migrated_up_to_def)
    from apply_files_progress [OF ms es k(1,2) ran(1) [unfolded k(3)]] obtain k' where k': "k \<le> k'" "k' \<le> length ms"
      "err = None \<longrightarrow> ?m \<le> k'" "the (md_versions d') = map version_of (take k' ms)"
      "exec_all exec (take k' ms) s0 = Some (md_schema d')" by blast
    then have "migrated_up_to exec ms s0 k' d'" using vs' by (simp add: migrated_up_to_def)
    then show ?thesis using k'(1,3) vs' by auto
  qed
qed

section \<open>Runs\<close>

text \<open>The state after a run, whether it succeeded, failed or never ended.\<close>

definition run_job :: "(string \<Rightarrow> 's \<Rightarrow> 's option) \<Rightarrow> migrate_io \<times> dir_entry list \<Rightarrow> 's migration_db \<Rightarrow> 's migration_db" where
  "run_job exec run d = (case migrate_Apply exec (fst run) (snd run) d of None \<Rightarrow> d | Some (err, d') \<Rightarrow> d')"

lemma runs_progress:
  assumes ms: "list_all is_migration ms" "distinct (map version_of ms)"
    and "list_all (\<lambda>run. is_prefix (migrations (snd run)) ms) runs" and "migrated_up_to exec ms s0 k d"
  shows "\<exists>k'. migrated_up_to exec ms s0 k' (fold (run_job exec) runs d)"
  using assms(3,4)
proof (induction runs arbitrary: k d)
  case (Cons run runs)
  have "\<exists>k'. migrated_up_to exec ms s0 k' (run_job exec run d)"
    using Cons.prems Apply_progress [OF ms, of "snd run" exec s0 k d "fst run"]
    by (auto simp: run_job_def split: option.splits)
  then show ?case using Cons by auto
qed auto

text \<open>(C39)
  Migrations can be resumed. Starting from a database without applied migrations, let the job run any number of times,
  with releases that each extend the migrations of the release before, and fail anywhere, including a commit whose outcome is
  unknown. When a later run succeeds, the schema is what executing every migration once, in the order of the names, gives,
  and exactly these versions are recorded.
\<close>

theorem migrations_resume:
  assumes names: "distinct (map de_name entries)" and fresh: "md_versions d = None \<or> md_versions d = Some []"
    and releases: "list_all (\<lambda>run. is_prefix (migrations (snd run)) (migrations entries)) runs"
    and run: "migrate_Apply exec io entries (fold (run_job exec) runs d) = Some (None, d')"
  shows "exec_all exec (migrations entries) (md_schema d) = Some (md_schema d') \<and>
    md_versions d' = Some (map version_of (migrations entries))"
proof -
  let ?ms = "migrations entries"
  note ms = migrations_all [of entries] migrations_distinct [OF names]
  have "migrated_up_to exec ?ms (md_schema d) 0 d" using fresh by (auto simp: migrated_up_to_def)
  from runs_progress [OF ms releases this] obtain k where k: "migrated_up_to exec ?ms (md_schema d) k (fold (run_job exec) runs d)" by blast
  from Apply_progress [OF ms is_prefix_refl k run] obtain k' where "migrated_up_to exec ?ms (md_schema d) k' d'" "length ?ms \<le> k'" "md_versions d' \<noteq> None"
    by auto
  then show ?thesis by (auto simp: migrated_up_to_def)
qed

text \<open>The job ends, whatever happens, if its clock advances by the pause of a second between two attempts to connect.\<close>

theorem migrate_ends:
  assumes "\<forall>n. mi_now io n + 1000000000 \<le> mi_now io (Suc n)" and "mi_start io \<le> mi_now io 0"
  shows "\<exists>err d'. migrate_Apply exec io entries d = Some (err, d')"
proof -
  obtain r where "connect_loop io 0 = Some r" using connect_loop_ends [of io 0] assms by auto
  then show ?thesis by (cases r) (auto simp: migrate_Apply_def Let_def split: prod.splits)
qed

section \<open>Runs without faults\<close>

definition faultless :: "migrate_io \<Rightarrow> bool" where
  "faultless io \<longleftrightarrow> connect_loop io 0 = Some None \<and> mi_role io \<and> mi_table io \<and> mi_dir io \<and> (\<forall>name. mi_fault io name = FileOk)"

lemma apply_files_old:
  "list_all is_migration es \<Longrightarrow> set (map version_of es) \<subseteq> set vs \<Longrightarrow> apply_files exec (\<lambda>_. FileOk) es s vs = (None, s, vs)"
  by (induction es) (auto simp: apply_file_def)

lemma apply_files_all:
  "list_all is_migration es \<Longrightarrow> distinct (map version_of es) \<Longrightarrow> set (map version_of es) \<inter> set vs = {} \<Longrightarrow>
     exec_all exec es s = Some s' \<Longrightarrow> apply_files exec (\<lambda>_. FileOk) es s vs = (None, s', vs @ map version_of es)"
  by (induction es arbitrary: s vs) (auto simp: apply_file_def split: option.splits)

text \<open>
  A job that failed anywhere, any number of times, can always be completed: if the migrations execute one after the other,
  the next run without faults succeeds.
\<close>

theorem migrations_complete:
  assumes names: "distinct (map de_name entries)" and fresh: "md_versions d = None \<or> md_versions d = Some []"
    and releases: "list_all (\<lambda>run. is_prefix (migrations (snd run)) (migrations entries)) runs"
    and io: "faultless io" and all: "exec_all exec (migrations entries) (md_schema d) = Some s"
  shows "migrate_Apply exec io entries (fold (run_job exec) runs d) =
    Some (None, \<lparr>md_schema = s, md_versions = Some (map version_of (migrations entries))\<rparr>)"
proof -
  let ?ms = "migrations entries" and ?d = "fold (run_job exec) runs d"
  note ms = migrations_all [of entries] migrations_distinct [OF names]
  have "migrated_up_to exec ?ms (md_schema d) 0 d" using fresh by (auto simp: migrated_up_to_def)
  from runs_progress [OF ms releases this] obtain k where k: "exec_all exec (take k ?ms) (md_schema d) = Some (md_schema ?d)"
    "(case md_versions ?d of None \<Rightarrow> [] | Some vs \<Rightarrow> vs) = map version_of (take k ?ms)" unfolding migrated_up_to_def by blast
  let ?vs = "map version_of (take k ?ms)"
  have split: "map version_of ?ms = ?vs @ map version_of (drop k ?ms)" by (metis append_take_drop_id map_append)
  have old: "list_all is_migration (take k ?ms)" and new: "list_all is_migration (drop k ?ms)"
    using ms(1) by (auto simp: list_all_iff dest!: in_set_takeD in_set_dropD)
  have parts: "distinct (map version_of (drop k ?ms))" "set (map version_of (drop k ?ms)) \<inter> set ?vs = {}"
    using ms(2) unfolding split distinct_append by blast+
  have "exec_all exec (drop k ?ms) (md_schema ?d) = Some s"
    using all k(1) exec_all_append [of exec "take k ?ms" "drop k ?ms" "md_schema d"] by simp
  from apply_files_all [OF new parts this] apply_files_old [OF old, of ?vs exec "md_schema ?d"]
  have "apply_files exec (\<lambda>_. FileOk) (take k ?ms @ drop k ?ms) (md_schema ?d) ?vs = (None, s, map version_of ?ms)"
    unfolding apply_files_append split by simp
  then have "apply_files exec (mi_fault io) (sort_key de_name entries) (md_schema ?d) ?vs = (None, s, map version_of ?ms)"
    using io unfolding apply_files_migrations [of _ _ "sort_key de_name entries"] migrations_def [symmetric] append_take_drop_id
    by (simp add: faultless_def ext [of "mi_fault io" "\<lambda>_. FileOk"])
  then show ?thesis using io by (simp add: migrate_Apply_def faultless_def k(2) Let_def)
qed

section \<open>An example\<close>

text \<open>
  A schema is the list of the files executed. The first release has two migrations; the outcome of the commit of the
  second one is unknown. The second release adds a third migration.
\<close>

definition mx_exec :: "string \<Rightarrow> string list \<Rightarrow> string list option" where
  "mx_exec sql s = Some (s @ [sql])"

definition mx_file :: "string \<Rightarrow> dir_entry" where
  "mx_file name = \<lparr>de_name = name, de_dir = False, de_sql = name\<rparr>"

definition mx_first :: "dir_entry list" where
  "mx_first = [mx_file ''2.up.sql'', mx_file ''1.down.sql'', mx_file ''1.up.sql'']"

definition mx_second :: "dir_entry list" where
  "mx_second = mx_file ''3.up.sql'' # mx_first"

definition mx_io :: "(string \<Rightarrow> file_fault) \<Rightarrow> migrate_io" where
  "mx_io fault = \<lparr>mi_start = 0, mi_connect = (\<lambda>n. n = 2), mi_now = (\<lambda>n. 1100000000 * int n), mi_done = (\<lambda>_. False), mi_role = True,
     mi_table = True, mi_dir = True, mi_fault = fault\<rparr>"

definition mx_db :: "string list migration_db" where
  "mx_db = \<lparr>md_schema = [], md_versions = None\<rparr>"

definition mx_run :: "migrate_io \<times> dir_entry list" where
  "mx_run = (mx_io (\<lambda>name. if name = ''2.up.sql'' then CommitUnknown else FileOk), mx_first)"

lemma mx_connect: "connect_loop (mx_io fault) 0 = Some None"
  by (subst connect_loop.simps, subst connect_loop.simps, subst connect_loop.simps) (simp add: mx_io_def connect_window_def)

lemma mx_names: "distinct (map de_name mx_second)" "list_all (\<lambda>run. is_prefix (migrations (snd run)) (migrations mx_second)) [mx_run]"
  by code_simp+

lemma mx_migrations: "migrations mx_second = [mx_file ''1.up.sql'', mx_file ''2.up.sql'', mx_file ''3.up.sql'']"
  by code_simp

lemma mx_fresh: "md_versions mx_db = None \<or> md_versions mx_db = Some []"
  by (simp add: mx_db_def)

theorem migrations_complete_witness:
  "migrate_Apply mx_exec (mx_io (\<lambda>_. FileOk)) mx_second (fold (run_job mx_exec) [mx_run] mx_db) =
     Some (None, \<lparr>md_schema = [''1.up.sql'', ''2.up.sql'', ''3.up.sql''], md_versions = Some [''1'', ''2'', ''3'']\<rparr>)"
proof -
  have "faultless (mx_io (\<lambda>_. FileOk))" using mx_connect by (simp add: faultless_def mx_io_def)
  moreover have "exec_all mx_exec (migrations mx_second) (md_schema mx_db) = Some [''1.up.sql'', ''2.up.sql'', ''3.up.sql'']"
    unfolding mx_migrations by code_simp
  moreover have "map version_of (migrations mx_second) = [''1'', ''2'', ''3'']" unfolding mx_migrations by code_simp
  ultimately show ?thesis using migrations_complete [OF mx_names(1) mx_fresh mx_names(2)] by simp
qed

theorem migrations_resume_witness:
  "\<exists>d'. migrate_Apply mx_exec (mx_io (\<lambda>_. FileOk)) mx_second (fold (run_job mx_exec) [mx_run] mx_db) = Some (None, d') \<and>
     md_schema d' = [''1.up.sql'', ''2.up.sql'', ''3.up.sql''] \<and> md_versions d' = Some [''1'', ''2'', ''3'']"
proof -
  have all: "exec_all mx_exec (migrations mx_second) (md_schema mx_db) = Some [''1.up.sql'', ''2.up.sql'', ''3.up.sql'']"
    "map version_of (migrations mx_second) = [''1'', ''2'', ''3'']" unfolding mx_migrations by code_simp+
  have "migrate_Apply mx_exec (mx_io (\<lambda>_. FileOk)) mx_second (fold (run_job mx_exec) [mx_run] mx_db) = Some (None, d')"
    if "d' = \<lparr>md_schema = [''1.up.sql'', ''2.up.sql'', ''3.up.sql''], md_versions = Some [''1'', ''2'', ''3'']\<rparr>" for d'
    unfolding that fold_simps run_job_def mx_run_def fst_conv snd_conv migrate_Apply_def mx_connect option.case
    by code_simp
  then obtain d' where run: "migrate_Apply mx_exec (mx_io (\<lambda>_. FileOk)) mx_second (fold (run_job mx_exec) [mx_run] mx_db) = Some (None, d')"
    by blast
  from migrations_resume [OF mx_names(1) mx_fresh mx_names(2) run] run show ?thesis unfolding all by auto
qed

end
