(* ===== verification/Config.thy ===== *)
theory Config
  imports Platform Email
begin

text \<open>
  How a service is configured from its environment: \<^verbatim>\<open>platform/config\<close>, the configurations of gateway-service, auth-service and
  tenant-service, the connection pool of \<^verbatim>\<open>platform/db/pool.go\<close> and the optional connections of \<^verbatim>\<open>platform/infra\<close>.
  \<^verbatim>\<open>os.Getenv\<close> is the argument \<open>getenv\<close>; \<^verbatim>\<open>time.ParseDuration\<close>, the parsers of connection strings and the outcome of a connection
  are parameters too.
\<close>

section \<open>platform/config\<close>

record service_config =
  cf_ServiceName :: string
  cf_Port :: string
  cf_InternalAuthToken :: string
  cf_ServiceInternalToken :: string
  cf_DatabaseURL :: string
  cf_RedisURL :: string
  cf_NATSURL :: string

definition env_value :: "(string \<Rightarrow> string) \<Rightarrow> string \<Rightarrow> string \<Rightarrow> string" where
  "env_value getenv key fallback = (if getenv key \<noteq> [] then getenv key else fallback)"

definition config_Load :: "(string \<Rightarrow> string) \<Rightarrow> string \<Rightarrow> service_config" where
  "config_Load getenv serviceName =
     (let internalAuthToken = getenv ''INTERNAL_AUTH_TOKEN'';
          serviceInternalToken = env_value getenv ''SERVICE_INTERNAL_TOKEN'' internalAuthToken
      in \<lparr>cf_ServiceName = serviceName, cf_Port = env_value getenv ''PORT'' ''8080'', cf_InternalAuthToken = internalAuthToken,
          cf_ServiceInternalToken = serviceInternalToken, cf_DatabaseURL = getenv ''DATABASE_URL'',
          cf_RedisURL = getenv ''REDIS_URL'', cf_NATSURL = getenv ''NATS_URL''\<rparr>)"

definition unsafe_words :: "string list" where
  "unsafe_words = [''development'', ''dev-password'', ''dev-user'', ''changeme'', ''replace-with'', ''default'']"

definition config_secrets :: "service_config \<Rightarrow> string list" where
  "config_secrets c = map ToLower [cf_InternalAuthToken c, cf_ServiceInternalToken c, cf_DatabaseURL c, cf_RedisURL c, cf_NATSURL c]"

text \<open>\<open>Validate\<close>; \<open>None\<close> is a nil error.\<close>

definition config_Validate :: "(string \<Rightarrow> string) \<Rightarrow> service_config \<Rightarrow> string option" where
  "config_Validate getenv c =
     (if cf_InternalAuthToken c = [] then Some ''INTERNAL_AUTH_TOKEN is required''
      else if cf_DatabaseURL c = [] \<and> cf_ServiceName c \<noteq> ''gateway-service'' then Some ''DATABASE_URL is required''
      else if \<not> EqualFold (getenv ''APP_ENV'') ''production'' then None
      else if list_ex (\<lambda>word. list_ex (\<lambda>secret. Contains secret word) (config_secrets c)) unsafe_words
      then Some ''unsafe production secret configuration''
      else if cf_RedisURL c \<noteq> [] \<and> \<not> Contains (cf_RedisURL c) ''@'' then Some ''REDIS_URL must include credentials in production''
      else if cf_NATSURL c \<noteq> [] \<and> \<not> Contains (cf_NATSURL c) ''@'' then Some ''NATS_URL must include credentials in production''
      else None)"

section \<open>gateway-service/internal/config\<close>

record gateway_config =
  gf_ServiceConfig :: service_config
  gf_TenantServiceURL :: string
  gf_AuthServiceURL :: string
  gf_BarberServiceURL :: string
  gf_CatalogServiceURL :: string
  gf_SchedulingServiceURL :: string
  gf_AppointmentServiceURL :: string
  gf_NotificationServiceURL :: string
  gf_CustomerServiceURL :: string
  gf_AdminWebURL :: string
  gf_BookingWebURL :: string
  gf_PlatformAdminToken :: string
  gf_OutboundTimeout :: duration

definition defaultOutboundTimeoutMS :: int where
  "defaultOutboundTimeoutMS = 9000"

text \<open>The product with \<^verbatim>\<open>time.Millisecond\<close> wraps.\<close>

definition outboundTimeout :: "(string \<Rightarrow> string) \<Rightarrow> string \<Rightarrow> int \<Rightarrow> duration" where
  "outboundTimeout getenv key fallbackMS =
     (if getenv key = [] then int64 (fallbackMS * 1000000)
      else case Atoi (getenv key) of
        Some ms \<Rightarrow> if ms > 0 then int64 (ms * 1000000) else int64 (fallbackMS * 1000000)
      | None \<Rightarrow> int64 (fallbackMS * 1000000))"

definition gateway_config_Load :: "(string \<Rightarrow> string) \<Rightarrow> gateway_config" where
  "gateway_config_Load getenv =
     \<lparr>gf_ServiceConfig = config_Load getenv ''gateway-service'',
      gf_TenantServiceURL = env_value getenv ''TENANT_SERVICE_URL'' ''http://tenant-service:8080'',
      gf_AuthServiceURL = env_value getenv ''AUTH_SERVICE_URL'' ''http://auth-service:8080'',
      gf_BarberServiceURL = env_value getenv ''BARBER_SERVICE_URL'' ''http://barber-service:8080'',
      gf_CatalogServiceURL = env_value getenv ''CATALOG_SERVICE_URL'' ''http://catalog-service:8080'',
      gf_SchedulingServiceURL = env_value getenv ''SCHEDULING_SERVICE_URL'' ''http://scheduling-service:8080'',
      gf_AppointmentServiceURL = env_value getenv ''APPOINTMENT_SERVICE_URL'' ''http://appointment-service:8080'',
      gf_NotificationServiceURL = env_value getenv ''NOTIFICATION_SERVICE_URL'' ''http://notification-service:8080'',
      gf_CustomerServiceURL = env_value getenv ''CUSTOMER_SERVICE_URL'' ''http://customer-service:8080'',
      gf_AdminWebURL = env_value getenv ''ADMIN_WEB_URL'' ''http://admin-web:3000'',
      gf_BookingWebURL = env_value getenv ''BOOKING_WEB_URL'' ''http://booking-web:3000'',
      gf_PlatformAdminToken = env_value getenv ''PLATFORM_ADMIN_TOKEN'' [],
      gf_OutboundTimeout = outboundTimeout getenv ''GATEWAY_OUTBOUND_TIMEOUT_MS'' defaultOutboundTimeoutMS\<rparr>"

section \<open>auth-service/internal/config\<close>

record auth_config =
  uf_ServiceConfig :: service_config
  uf_CookieName :: string
  uf_CookieSecure :: bool
  uf_SessionTTL :: duration

text \<open>\<^verbatim>\<open>strconv.ParseBool\<close>\<close>

definition ParseBool :: "string \<Rightarrow> bool option" where
  "ParseBool s =
     (if List.member [''1'', ''t'', ''T'', ''TRUE'', ''true'', ''True''] s then Some True
      else if List.member [''0'', ''f'', ''F'', ''FALSE'', ''false'', ''False''] s then Some False
      else None)"

definition boolValue :: "(string \<Rightarrow> string) \<Rightarrow> string \<Rightarrow> bool \<Rightarrow> bool" where
  "boolValue getenv key fallback = (case ParseBool (getenv key) of None \<Rightarrow> fallback | Some v \<Rightarrow> v)"

definition intValue :: "(string \<Rightarrow> string) \<Rightarrow> string \<Rightarrow> int \<Rightarrow> int" where
  "intValue getenv key fallback = (case Atoi (getenv key) of None \<Rightarrow> fallback | Some v \<Rightarrow> if v < 1 then fallback else v)"

definition auth_config_Load :: "(string \<Rightarrow> string) \<Rightarrow> auth_config" where
  "auth_config_Load getenv =
     \<lparr>uf_ServiceConfig = config_Load getenv ''auth-service'',
      uf_CookieName = env_value getenv ''AUTH_COOKIE_NAME'' ''__Host-barber_session'',
      uf_CookieSecure = boolValue getenv ''AUTH_COOKIE_SECURE'' True,
      uf_SessionTTL = int64 (intValue getenv ''AUTH_SESSION_TTL_HOURS'' 24 * 3600000000000)\<rparr>"

section \<open>tenant-service/internal/config\<close>

record tenant_config =
  tf_ServiceConfig :: service_config
  tf_MigrationDatabaseURL :: string
  tf_DatabaseOwnerRole :: string
  tf_MigrationsDir :: string
  tf_AllowLocalhostDomains :: bool
  tf_AuthServiceURL :: string

definition tenant_config_Load :: "(string \<Rightarrow> string) \<Rightarrow> tenant_config" where
  "tenant_config_Load getenv =
     \<lparr>tf_ServiceConfig = config_Load getenv ''tenant-service'', tf_MigrationDatabaseURL = getenv ''MIGRATION_DATABASE_URL'',
      tf_DatabaseOwnerRole = env_value getenv ''DATABASE_OWNER_ROLE'' ''tenant_db_owner'',
      tf_MigrationsDir = env_value getenv ''MIGRATIONS_DIR'' ''migrations'',
      tf_AllowLocalhostDomains = (env_value getenv ''APP_ENV'' ''development'' = ''development''),
      tf_AuthServiceURL = env_value getenv ''AUTH_SERVICE_URL'' ''http://auth-service:8080''\<rparr>"

section \<open>platform/db/pool.go\<close>

record pool_config =
  po_MaxConns :: int
  po_MinConns :: int
  po_MaxConnLifetime :: duration
  po_MaxConnIdleTime :: duration
  po_HealthCheckPeriod :: duration
  po_ConnectTimeout :: duration

text \<open>\<^verbatim>\<open>strconv.ParseInt(value, 10, 32)\<close>\<close>

definition ParseInt32 :: "string \<Rightarrow> int option" where
  "ParseInt32 s = (case Atoi s of None \<Rightarrow> None | Some v \<Rightarrow> if - (2 ^ 31) \<le> v \<and> v < 2 ^ 31 then Some v else None)"

definition int32Env :: "(string \<Rightarrow> string) \<Rightarrow> string \<Rightarrow> int \<Rightarrow> string + int" where
  "int32Env getenv name fallback =
     (if getenv name = [] then Inr fallback
      else case ParseInt32 (getenv name) of None \<Rightarrow> Inl (name @ '' must be an integer'') | Some v \<Rightarrow> Inr v)"

definition durationEnv :: "(string \<Rightarrow> string) \<Rightarrow> (string \<Rightarrow> duration option) \<Rightarrow> string \<Rightarrow> duration \<Rightarrow> string + duration" where
  "durationEnv getenv ParseDuration name fallback =
     (if getenv name = [] then Inr fallback
      else case ParseDuration (getenv name) of None \<Rightarrow> Inl (name @ '' must be a duration'') | Some v \<Rightarrow> Inr v)"

definition PoolConfigFromEnvironment :: "(string \<Rightarrow> string) \<Rightarrow> (string \<Rightarrow> duration option) \<Rightarrow> string + pool_config" where
  "PoolConfigFromEnvironment getenv ParseDuration =
     (case int32Env getenv ''DB_MAX_CONNS'' 10 of Inl e \<Rightarrow> Inl e | Inr maxConns \<Rightarrow>
      case int32Env getenv ''DB_MIN_CONNS'' 1 of Inl e \<Rightarrow> Inl e | Inr minConns \<Rightarrow>
      case durationEnv getenv ParseDuration ''DB_MAX_CONN_LIFETIME'' 3600000000000 of Inl e \<Rightarrow> Inl e | Inr lifetime \<Rightarrow>
      case durationEnv getenv ParseDuration ''DB_MAX_CONN_IDLE_TIME'' 900000000000 of Inl e \<Rightarrow> Inl e | Inr idle \<Rightarrow>
      case durationEnv getenv ParseDuration ''DB_HEALTH_CHECK_PERIOD'' 30000000000 of Inl e \<Rightarrow> Inl e | Inr period \<Rightarrow>
      case durationEnv getenv ParseDuration ''DB_CONNECT_TIMEOUT'' 5000000000 of Inl e \<Rightarrow> Inl e | Inr timeout \<Rightarrow>
        if maxConns \<le> 0 \<or> minConns < 0 \<or> minConns > maxConns \<or> lifetime \<le> 0 \<or> idle \<le> 0 \<or> period \<le> 0 \<or> timeout \<le> 0
        then Inl ''invalid database pool configuration''
        else Inr \<lparr>po_MaxConns = maxConns, po_MinConns = minConns, po_MaxConnLifetime = lifetime, po_MaxConnIdleTime = idle,
               po_HealthCheckPeriod = period, po_ConnectTimeout = timeout\<rparr>)"

text \<open>
  \<open>OpenPool\<close>; \<open>parse\<close> says whether the connection string parses, \<open>dial\<close> and \<open>ping\<close> whether the pool is created and answers in
  the given time. An open pool is its configuration; a pool that does not answer is closed.
\<close>

definition OpenPool ::
  "(string \<Rightarrow> string) \<Rightarrow> (string \<Rightarrow> duration option) \<Rightarrow> (string \<Rightarrow> bool) \<Rightarrow> (duration \<Rightarrow> bool) \<Rightarrow> (duration \<Rightarrow> bool) \<Rightarrow> string \<Rightarrow>
     string + pool_config" where
  "OpenPool getenv ParseDuration parse dial ping databaseURL =
     (if databaseURL = [] then Inl ''DATABASE_URL is required''
      else case PoolConfigFromEnvironment getenv ParseDuration of
        Inl e \<Rightarrow> Inl e
      | Inr settings \<Rightarrow>
        if \<not> parse databaseURL then Inl ''parse database configuration''
        else if \<not> dial (po_ConnectTimeout settings) then Inl ''connect''
        else if \<not> ping (po_ConnectTimeout settings) then Inl ''ping''
        else Inr settings)"

section \<open>platform/infra\<close>

text \<open>\<open>ConnectRedis\<close> and \<open>ConnectNATS\<close>: without a URL there is no client and no error.\<close>

definition ConnectRedis :: "(string \<Rightarrow> bool) \<Rightarrow> bool \<Rightarrow> string \<Rightarrow> string + string option" where
  "ConnectRedis parse ping url =
     (if url = [] then Inr None
      else if \<not> parse url then Inl ''parse''
      else if \<not> ping then Inl ''ping''
      else Inr (Some url))"

definition ConnectNATS :: "(string \<Rightarrow> bool) \<Rightarrow> string \<Rightarrow> string + string option" where
  "ConnectNATS connect url =
     (if url = [] then Inr None else if connect url then Inr (Some url) else Inl ''connect nats'')"

section \<open>What a configuration guarantees\<close>

lemma config_tokens:
  assumes "config_Validate getenv (config_Load getenv name) = None"
  shows "cf_InternalAuthToken (config_Load getenv name) \<noteq> []" "cf_ServiceInternalToken (config_Load getenv name) \<noteq> []"
  using assms by (auto simp: config_Validate_def config_Load_def env_value_def Let_def split: if_splits)

lemma config_token_name:
  "cf_InternalAuthToken (config_Load getenv a) = cf_InternalAuthToken (config_Load getenv b)"
  "cf_ServiceInternalToken (config_Load getenv a) = cf_ServiceInternalToken (config_Load getenv b)"
  by (simp_all add: config_Load_def Let_def)

lemma pool_config_bounds:
  assumes "PoolConfigFromEnvironment getenv ParseDuration = Inr c"
  shows "0 < po_MaxConns c \<and> po_MaxConns c < 2 ^ 31 \<and> 0 \<le> po_MinConns c \<and> po_MinConns c \<le> po_MaxConns c \<and> 0 < po_ConnectTimeout c"
  using assms
  by (auto simp: PoolConfigFromEnvironment_def int32Env_def ParseInt32_def split: if_splits sum.splits option.splits)

lemma Atoi_range: "Atoi s = Some v \<Longrightarrow> - (2 ^ 63) \<le> v \<and> v < 2 ^ 63"
  by (auto simp: Atoi_def Let_def split: if_splits option.splits prod.splits)

lemma intValue_range: "1 \<le> fallback \<Longrightarrow> fallback < 2 ^ 63 \<Longrightarrow> 1 \<le> intValue getenv key fallback \<and> intValue getenv key fallback < 2 ^ 63"
  using Atoi_range [of "getenv key"] by (auto simp: intValue_def split: option.splits)

text \<open>One wrap of an int64 product makes it negative.\<close>

lemma int64_wrapped: "2 ^ 63 \<le> x \<Longrightarrow> x < 2 ^ 64 \<Longrightarrow> int64 x = x - 2 ^ 64"
proof -
  assume x: "2 ^ 63 \<le> x" "x < 2 ^ 64"
  have "(x + 2 ^ 63) mod 2 ^ 64 = (x + 2 ^ 63 - 2 ^ 64) mod 2 ^ 64" by (rule minus_mod_self2 [symmetric])
  also have "\<dots> = x + 2 ^ 63 - 2 ^ 64" using x by (intro mod_pos_pos_trivial) simp_all
  finally show ?thesis by (simp add: int64_def)
qed

end
