(* ===== verification/Startup.thy ===== *)
theory Startup
  imports Config Auth_Examples
begin

text \<open>
  What the configuration of the processes means for the services: whom a service trusts, and how long a session of
  auth-service lasts.
\<close>

section \<open>Trusted callers\<close>

text \<open>The verifier the entry points build from the configuration.\<close>

definition configured_verifier :: "service_config \<Rightarrow> string \<Rightarrow> bool" where
  "configured_verifier c = MultiTokenVerifier_Verify (NewMultiTokenVerifier [cf_InternalAuthToken c, cf_ServiceInternalToken c])"

lemma Contains_lower_secret:
  assumes "config_Validate getenv c = None" and "EqualFold (getenv ''APP_ENV'') ''production''"
    and "token = cf_InternalAuthToken c \<or> token = cf_ServiceInternalToken c"
  shows "list_all (\<lambda>word. \<not> Contains (ToLower token) word) unsafe_words"
  using assms by (auto simp: config_Validate_def config_secrets_def list_all_iff list_ex_iff split: if_splits)

text \<open>
  A service whose configuration is valid trusts exactly the token the gateway presents and the token the other services
  present when all of them read the same environment: a request without the token header gets no tenant context, and in
  production no token that holds a placeholder of a development setup is accepted.
\<close>

theorem trust_configured:
  assumes valid: "config_Validate getenv (config_Load getenv name) = None"
  shows "(configured_verifier (config_Load getenv name) token \<longleftrightarrow>
      token = cf_InternalAuthToken (config_Load getenv ''gateway-service'') \<or> token = cf_ServiceInternalToken (config_Load getenv other)) \<and>
    (c_Get c InternalHeaderName = [] \<longrightarrow> (\<exists>e. adminauth_Context X (configured_verifier (config_Load getenv name)) c = Inl e)) \<and>
    (EqualFold (getenv ''APP_ENV'') ''production'' \<and> configured_verifier (config_Load getenv name) token \<longrightarrow>
       list_all (\<lambda>word. \<not> Contains (ToLower token) word) unsafe_words)"
proof -
  let ?c = "config_Load getenv name"
  note tokens = config_tokens [OF valid] config_token_name [of getenv name]
  have trusted: "configured_verifier ?c p \<longleftrightarrow> p = cf_InternalAuthToken ?c \<or> p = cf_ServiceInternalToken ?c" for p
    using tokens(1,2) by (auto simp: configured_verifier_def MultiTokenVerifier_correct)
  have "\<not> configured_verifier ?c []" using trusted tokens(1,2) by metis
  then have "\<exists>e. adminauth_Context X (configured_verifier ?c) c = Inl e" if "c_Get c InternalHeaderName = []"
    using that by (simp add: adminauth_Context_def)
  moreover have "list_all (\<lambda>word. \<not> Contains (ToLower token) word) unsafe_words"
    if "EqualFold (getenv ''APP_ENV'') ''production''" "configured_verifier ?c token"
    using Contains_lower_secret [OF valid that(1)] that(2) trusted by blast
  ultimately show ?thesis using trusted tokens(3,4) by metis
qed

section \<open>Sessions of staff\<close>

lemma configured_ttl:
  fixes getenv :: "string \<Rightarrow> string"
  defines "h \<equiv> intValue getenv ''AUTH_SESSION_TTL_HOURS'' 24"
  shows "h \<le> 2562047 \<Longrightarrow> uf_SessionTTL (auth_config_Load getenv) = h * 3600000000000 \<and> 0 < h"
    and "2562048 \<le> h \<Longrightarrow> h \<le> 5124095 \<Longrightarrow> uf_SessionTTL (auth_config_Load getenv) < 0"
proof -
  have h: "1 \<le> h" using intValue_range [of 24 getenv "''AUTH_SESSION_TTL_HOURS''"] by (simp add: h_def)
  have ttl: "uf_SessionTTL (auth_config_Load getenv) = int64 (h * 3600000000000)" by (simp add: auth_config_Load_def h_def)
  show "uf_SessionTTL (auth_config_Load getenv) = h * 3600000000000 \<and> 0 < h" if "h \<le> 2562047"
    unfolding ttl using h that by (auto intro!: int64_id)
  show "uf_SessionTTL (auth_config_Load getenv) < 0" if "2562048 \<le> h" "h \<le> 5124095"
    unfolding ttl using that by (subst int64_wrapped) auto
qed

lemma login_session:
  assumes login: "svc_Login s io t inp d = (Inr ses, d')"
    and late: "as_ExpiresAt ses \<le> now"
  shows "svc_Current s f now t (as_Token ses) d' \<noteq> Inr p"
proof
  assume current: "svc_Current s f now t (as_Token ses) d' = Inr p"
  from login obtain v :: credential and bytes where token: "as_Token ses = EncodeToString bytes" and
    cs: "repo_CreateSession (ao_f io 1) (ao_env io 1) t (cv_IdentityID v) (av_sha256 s bytes) (as_ExpiresAt ses) d = (Inr (as_Principal ses), d')"
    by (elim svc_Login_ok)
  let ?row = "\<lparr>se_id = ae_id (ao_env io 1), se_tenant = t, se_identity = cv_IdentityID v, se_token = av_sha256 s bytes,
       se_expires = as_ExpiresAt ses, se_revoked = None\<rparr>"
  from cs have ins: "sql_insert_session t ?row d = Inr d'" by (elim repo_CreateSession_ok)
  have digest: "tokenDigest s (as_Token ses) = Some (av_sha256 s bytes)" using token by (simp add: tokenDigest_def)
  from current digest obtain q where q: "find (live_session now t (av_sha256 s bytes)) (sessions d') = Some q"
    by (auto simp: svc_Current_def repo_Session_def tenant_read_ok split: if_splits sum.splits option.splits)
  then have live: "q \<in> set (sessions d')" "se_tenant q = t" "se_token q = av_sha256 s bytes" "now < se_expires q"
    by (auto simp: live_session_def dest!: find_SomeD)
  then have "q \<noteq> ?row" using late by (metis linorder_not_le session_row.select_convs(5))
  then have "q \<in> set (sessions d)" using live(1) sql_insert_sessionD [OF ins] by auto
  then show False using live(2,3) sql_insert_sessionD [OF ins] by force
qed

text \<open>(C40)
  A session lasts the configured number of hours as long as that number is at most 2562047. From there on the
  conversion to nanoseconds wraps: for the next 2562048 values, which the configuration accepts, a login succeeds and its
  token is refused from the start.
\<close>

theorem session_ttl_bounds:
  assumes login: "svc_Login s io t inp d = (Inr ses, d')" and ttl: "av_sessionTTL s = uf_SessionTTL (auth_config_Load getenv)"
    and hours: "h = intValue getenv ''AUTH_SESSION_TTL_HOURS'' 24"
  shows "(h \<le> 2562047 \<longrightarrow> as_ExpiresAt ses = ao_now io + h * 3600000000000 \<and> ao_now io < as_ExpiresAt ses) \<and>
    (2562048 \<le> h \<and> h \<le> 5124095 \<longrightarrow> (\<forall>f now p. ao_now io \<le> now \<longrightarrow> svc_Current s f now t (as_Token ses) d' \<noteq> Inr p))"
proof -
  have expires: "as_ExpiresAt ses = ao_now io + uf_SessionTTL (auth_config_Load getenv)"
    using login ttl by (elim svc_Login_ok) simp
  have "svc_Current s f now t (as_Token ses) d' \<noteq> Inr p" if "2562048 \<le> h" "h \<le> 5124095" "ao_now io \<le> now" for f now p
    by (rule login_session [OF login]) (use configured_ttl(2) [of getenv] that expires hours in simp)
  then show ?thesis using configured_ttl(1) [of getenv] expires hours by auto
qed

section \<open>Examples\<close>

definition sx_env :: "string \<Rightarrow> string" where
  "sx_env key = (if key = ''APP_ENV'' then ''Production'' else if key = ''INTERNAL_AUTH_TOKEN'' then ''k1''
     else if key = ''SERVICE_INTERNAL_TOKEN'' then ''k2'' else if key = ''DATABASE_URL'' then ''postgres://u:p@db''
     else if key = ''AUTH_SESSION_TTL_HOURS'' then ''2562048'' else [])"

definition sx_ctx :: fiber_ctx where
  "sx_ctx = \<lparr>c_Get = (\<lambda>_. []), c_Params = (\<lambda>_. []), c_Query = (\<lambda>_. []), c_Body = []\<rparr>"

theorem trust_configured_witness:
  "configured_verifier (config_Load sx_env ''auth-service'') ''k2'' \<and> \<not> configured_verifier (config_Load sx_env ''auth-service'') ''k3'' \<and>
   (\<exists>e. adminauth_Context ax_X (configured_verifier (config_Load sx_env ''auth-service'')) sx_ctx = Inl e)"
proof -
  have valid: "config_Validate sx_env (config_Load sx_env ''auth-service'') = None" by code_simp
  have tokens: "cf_InternalAuthToken (config_Load sx_env name) = ''k1''" "cf_ServiceInternalToken (config_Load sx_env name) = ''k2''" for name
    by (simp_all add: config_Load_def Let_def env_value_def sx_env_def)
  have "c_Get sx_ctx InternalHeaderName = []" by (simp add: sx_ctx_def)
  with trust_configured [OF valid, of _ "''catalog-service''" sx_ctx ax_X] show ?thesis by (simp add: tokens)
qed

definition sx_service :: "email_message list auth_service" where
  "sx_service = ax_service\<lparr>av_sessionTTL := uf_SessionTTL (auth_config_Load sx_env)\<rparr>"

definition sx_session :: auth_session where
  "sx_session = ax_session\<lparr>as_ExpiresAt := 100 - 9223371273709551616\<rparr>"

theorem session_ttl_bounds_witness:
  "fst (svc_Login sx_service ax_io 7 ax_login ax_db) = Inr sx_session \<and>
   svc_Current sx_service NoFault 100 7 (as_Token sx_session) (snd (svc_Login sx_service ax_io 7 ax_login ax_db)) \<noteq> Inr (as_Principal sx_session)"
proof -
  let ?l = "svc_Login sx_service ax_io 7 ax_login ax_db"
  have ok: "?l = (Inr sx_session, snd ?l)" by (rule pair_InrI) code_simp
  have "intValue sx_env ''AUTH_SESSION_TTL_HOURS'' 24 = 2562048" by code_simp
  moreover have "av_sessionTTL sx_service = uf_SessionTTL (auth_config_Load sx_env)" by (simp add: sx_service_def)
  moreover have "ao_now ax_io = 100" by (simp add: ax_io_def)
  ultimately show ?thesis using session_ttl_bounds [OF ok _ refl, of sx_env] arg_cong [OF ok, of fst] by simp
qed

end
