(* ===== verification/Http_Server.thy ===== *)
theory Http_Server
  imports Gateway
begin

text \<open>
  What every service puts around its handlers: the middleware of \<^verbatim>\<open>platform/otelsetup\<close>, \<^verbatim>\<open>platform/logging\<close> and
  \<^verbatim>\<open>platform/obsmetrics\<close>, in the order of the entry points, the status and route they record (\<^verbatim>\<open>platform/httpx\<close>), the
  readiness checks, and the loop that serves until a signal. Spans, log lines and counters are kept in the state. The error handler of
  fiber is a parameter: for an error it says whether it succeeds and which status it leaves.
\<close>

section \<open>The status and the route of a request\<close>

datatype chain_error = FiberErrNotFound | FiberErrMethodNotAllowed | ChainError string

definition ResolveStatus :: "(chain_error \<Rightarrow> int \<Rightarrow> bool \<times> int) \<Rightarrow> chain_error option \<Rightarrow> int \<Rightarrow> int" where
  "ResolveStatus handler chainErr status =
     (case chainErr of
        None \<Rightarrow> status
      | Some e \<Rightarrow> (case handler e status of (True, status') \<Rightarrow> status' | (False, _) \<Rightarrow> 500))"

text \<open>\<open>route\<close> is the path of \<^verbatim>\<open>c.Route()\<close>, if it is not nil.\<close>

definition RoutePattern :: "string option \<Rightarrow> chain_error option \<Rightarrow> string" where
  "RoutePattern route chainErr =
     (if chainErr = Some FiberErrNotFound \<or> chainErr = Some FiberErrMethodNotAllowed then ''unmatched''
      else case route of None \<Rightarrow> ''unmatched'' | Some path \<Rightarrow> if path = [] then ''unmatched'' else path)"

section \<open>Middleware\<close>

record log_line =
  ll_request_id :: string
  ll_trace_id :: string
  ll_method :: string
  ll_route :: string
  ll_status :: int
  ll_tenant_id :: "string option"

record span =
  sp_name :: string
  sp_method :: string
  sp_route :: string
  sp_status :: int

text \<open>The labels service, method, route and status of \<^verbatim>\<open>http_requests_total\<close>.\<close>

type_synonym request_label = "string \<times> string \<times> string \<times> int"

record 'a http_state =
  hs_status :: int
  hs_requests :: "request_label \<Rightarrow> nat"
  hs_log :: "log_line list"
  hs_spans :: "span list"
  hs_app :: 'a

text \<open>A request as the middleware sees it; \<open>hq_trace\<close> is the trace identifier of its context.\<close>

record http_seen =
  hq_Method :: string
  hq_route :: "string option"
  hq_request_id :: string
  hq_trace :: string
  hq_tenant :: string

type_synonym 'a chain = "'a http_state \<Rightarrow> chain_error option \<times> 'a http_state"

definition HTTPMiddleware ::
  "string \<Rightarrow> (chain_error \<Rightarrow> int \<Rightarrow> bool \<times> int) \<Rightarrow> http_seen \<Rightarrow> 'a chain \<Rightarrow> 'a chain" where
  "HTTPMiddleware service handler q following s =
     (case following s of (err, s1) \<Rightarrow>
        let route = RoutePattern (hq_route q) err; status = ResolveStatus handler err (hs_status s1);
            label = (service, hq_Method q, route, status)
        in (err, s1\<lparr>hs_status := status, hs_requests := (hs_requests s1)(label := Suc (hs_requests s1 label))\<rparr>))"

definition HTTPCompletionMiddleware ::
  "(chain_error \<Rightarrow> int \<Rightarrow> bool \<times> int) \<Rightarrow> http_seen \<Rightarrow> 'a chain \<Rightarrow> 'a chain" where
  "HTTPCompletionMiddleware handler q following s =
     (case following s of (err, s1) \<Rightarrow>
        let status = ResolveStatus handler err (hs_status s1);
            line = \<lparr>ll_request_id = hq_request_id q, ll_trace_id = hq_trace q, ll_method = hq_Method q,
              ll_route = RoutePattern (hq_route q) err, ll_status = status,
              ll_tenant_id = (if hq_tenant q \<noteq> [] then Some (hq_tenant q) else None)\<rparr>
        in (err, s1\<lparr>hs_status := status, hs_log := hs_log s1 @ [line]\<rparr>))"

definition otel_Middleware ::
  "(chain_error \<Rightarrow> int \<Rightarrow> bool \<times> int) \<Rightarrow> http_seen \<Rightarrow> 'a chain \<Rightarrow> 'a chain" where
  "otel_Middleware handler q following s =
     (case following s of (err, s1) \<Rightarrow>
        let route = RoutePattern (hq_route q) err; status = ResolveStatus handler err (hs_status s1)
        in (err, s1\<lparr>hs_status := status, hs_spans := hs_spans s1 @ [\<lparr>sp_name = hq_Method q @ '' '' @ route,
             sp_method = hq_Method q, sp_route = route, sp_status = status\<rparr>]\<rparr>))"

text \<open>
  A request of a service, with the middleware in the order of the entry points. After the chain the server applies the
  error handler to an error that is left, and sends the status.
\<close>

definition http_serve ::
  "string \<Rightarrow> (chain_error \<Rightarrow> int \<Rightarrow> bool \<times> int) \<Rightarrow> http_seen \<Rightarrow> 'a chain \<Rightarrow> 'a http_state \<Rightarrow> int \<times> 'a http_state" where
  "http_serve service handler q app s =
     (case otel_Middleware handler q (HTTPCompletionMiddleware handler q (HTTPMiddleware service handler q app)) s of
        (err, s') \<Rightarrow> (ResolveStatus handler err (hs_status s'), s'\<lparr>hs_status := ResolveStatus handler err (hs_status s')\<rparr>))"

lemma ResolveStatus_again:
  "(\<And>e st st'. handler e st = handler e st') \<Longrightarrow> ResolveStatus handler err (ResolveStatus handler err st) = ResolveStatus handler err st"
  by (metis (no_types, lifting) ResolveStatus_def option.case_eq_if)

text \<open>
  If the error handler sets a status that depends on the error only, what is recorded is what is sent: for every request
  and handler exactly one log line, one span and one count are added, and all of them carry the status that is sent and
  the same route, which is the pattern of the route or \<^verbatim>\<open>unmatched\<close>.
\<close>

theorem recorded_status_sent:
  assumes det: "\<forall>e st st'. handler e st = handler e st'" and app: "app s = (err, s1)"
    and serve: "http_serve service handler q app s = (sent, s')"
  shows "\<exists>line sp. hs_log s' = hs_log s1 @ [line] \<and> hs_spans s' = hs_spans s1 @ [sp] \<and> hs_app s' = hs_app s1 \<and>
    ll_status line = sent \<and> sp_status sp = sent \<and> sp_route sp = ll_route line \<and> (ll_route line = ''unmatched'' \<or> hq_route q = Some (ll_route line)) \<and>
    (\<forall>label. hs_requests s' label = hs_requests s1 label + (if label = (service, hq_Method q, ll_route line, sent) then 1 else 0))"
proof -
  have again: "ResolveStatus handler err (ResolveStatus handler err st) = ResolveStatus handler err st" for st
    by (rule ResolveStatus_again) (use det in blast)
  have route: "RoutePattern (hq_route q) err = ''unmatched'' \<or> hq_route q = Some (RoutePattern (hq_route q) err)"
    by (auto simp: RoutePattern_def split: option.splits)
  show ?thesis using serve route
    unfolding http_serve_def otel_Middleware_def HTTPCompletionMiddleware_def HTTPMiddleware_def app prod.case Let_def
    by (auto simp: again)
qed

section \<open>Readiness\<close>

definition SetDependencyUp :: "string \<Rightarrow> bool \<Rightarrow> (string \<Rightarrow> bool option) \<Rightarrow> string \<Rightarrow> bool option" where
  "SetDependencyUp dependency up gauges = gauges(dependency := Some up)"

text \<open>The checks of an entry point, in order, up to the first that fails; each sets its gauge.\<close>

fun ready_checks :: "(string \<times> bool) list \<Rightarrow> (string \<Rightarrow> bool option) \<Rightarrow> bool \<times> (string \<Rightarrow> bool option)" where
  "ready_checks [] gauges = (True, gauges)"
| "ready_checks ((dependency, up) # rest) gauges =
     (let gauges' = SetDependencyUp dependency up gauges in if up then ready_checks rest gauges' else (False, gauges'))"

definition Health_ready :: "bool \<Rightarrow> int \<times> string" where
  "Health_ready ready = (if ready then (200, ''ready'') else (503, ''not_ready''))"

lemma ready_checks_exact:
  assumes "distinct (map fst checks)" and "ready_checks checks gauges = (r, gauges')"
  shows "(r \<longleftrightarrow> list_all snd checks) \<and> (r \<longrightarrow> (\<forall>(dependency, up) \<in> set checks. gauges' dependency = Some up))"
proof -
  have frame: "dep \<notin> fst ` set cs \<Longrightarrow> snd (ready_checks cs g) dep = g dep" for dep cs g
    by (induction cs arbitrary: g) (auto simp: SetDependencyUp_def Let_def)
  show ?thesis using assms
  proof (induction checks arbitrary: gauges)
    case (Cons x xs)
    obtain dep up where x: "x = (dep, up)" by fastforce
    show ?case
    proof (cases up)
      case True
      then have "ready_checks xs (SetDependencyUp dep up gauges) = (r, gauges')" using Cons.prems(2) x by (simp add: Let_def)
      then show ?thesis using Cons True x frame [of dep xs "SetDependencyUp dep up gauges"] by (auto simp: SetDependencyUp_def)
    next
      case False
      then show ?thesis using Cons.prems(2) x by (auto simp: Let_def)
    qed
  qed simp
qed

section \<open>Serving\<close>

text \<open>
  \<open>run\<close>: the first event is the end of the listener, with its error, or a signal. After a signal the server is shut down
  in ten seconds; then the result of the listener comes, or the time is over.
\<close>

datatype serve_error = ErrNotRunning | ListenError string | ShutdownError string | DeadlineExceeded

datatype serve_event = ServerResult "serve_error option" | Signal

definition http_run :: "serve_event \<Rightarrow> serve_error option \<Rightarrow> serve_error option option \<Rightarrow> serve_error option" where
  "http_run event shutdown result =
     (case event of
        ServerResult err \<Rightarrow> if err = None \<or> err = Some ErrNotRunning then None else err
      | Signal \<Rightarrow>
        if shutdown \<noteq> None \<and> shutdown \<noteq> Some ErrNotRunning then shutdown
        else case result of Some _ \<Rightarrow> None | None \<Rightarrow> Some DeadlineExceeded)"

section \<open>An example\<close>

text \<open>A request that matches no route: the handlers leave the status 200, the error handler answers 404.\<close>

definition hx_handler :: "chain_error \<Rightarrow> int \<Rightarrow> bool \<times> int" where
  "hx_handler e status = (case e of FiberErrNotFound \<Rightarrow> (True, 404) | FiberErrMethodNotAllowed \<Rightarrow> (True, 405) | ChainError _ \<Rightarrow> (True, 500))"

definition hx_seen :: http_seen where
  "hx_seen = \<lparr>hq_Method = ''GET'', hq_route = Some ''/'', hq_request_id = ''r'', hq_trace = [], hq_tenant = []\<rparr>"

definition hx_start :: "unit http_state" where
  "hx_start = \<lparr>hs_status = 200, hs_requests = (\<lambda>_. 0), hs_log = [], hs_spans = [], hs_app = ()\<rparr>"

theorem recorded_status_sent_witness:
  "\<exists>line. hs_log (snd (http_serve ''auth-service'' hx_handler hx_seen (\<lambda>s. (Some FiberErrNotFound, s)) hx_start)) = [line] \<and>
     ll_status line = 404 \<and> fst (http_serve ''auth-service'' hx_handler hx_seen (\<lambda>s. (Some FiberErrNotFound, s)) hx_start) = 404"
proof -
  let ?r = "http_serve ''auth-service'' hx_handler hx_seen (\<lambda>s. (Some FiberErrNotFound, s)) hx_start"
  have code: "fst ?r = 404" by code_simp
  then have sent: "?r = (404, snd ?r)" by (metis prod.collapse)
  have "\<forall>e st st'. hx_handler e st = hx_handler e st'" by (simp add: hx_handler_def)
  from recorded_status_sent [OF this refl sent] obtain line where
    "hs_log (snd ?r) = hs_log hx_start @ [line]" "ll_status line = 404" by blast
  moreover have "hs_log hx_start = []" by (simp add: hx_start_def)
  ultimately show ?thesis using code by (metis append_Nil)
qed

end
