(* ===== verification/Spec2Isabelle.thy ===== *)
theory Spec2Isabelle
  imports Sched_Examples Notif_Examples Gateway_Examples Customer_Examples Catalog_Examples Migrate Startup Http_Server
begin

text \<open>
  Verification of the barber appointment platform: the Go services under \<^verbatim>\<open>src/services\<close> and the shared
  packages under \<^verbatim>\<open>src/platform\<close>.

  \<^bold>\<open>The program.\<close> Browsers talk to \<^verbatim>\<open>gateway-service\<close> only. It resolves the hostname at
  \<^verbatim>\<open>tenant-service\<close> and forwards the request, with the tenant in trusted headers, to a private service:
  \<^verbatim>\<open>appointment-service\<close> (bookings, with an outbox that publishes events to NATS),
  \<^verbatim>\<open>scheduling-service\<close> (opening hours and free slots), \<^verbatim>\<open>notification-service\<close> (mails planned from events and
  delivered by workers), \<^verbatim>\<open>auth-service\<close> (staff, sessions and passwords), \<^verbatim>\<open>barber-service\<close> (branches and
  barbers), \<^verbatim>\<open>catalog-service\<close> (services and prices) and \<^verbatim>\<open>customer-service\<close> (accounts of customers and guests). The other
  services ask auth-service which member of the staff is signed in, and the gateway asks customer-service which customer.
  Every service owns a PostgreSQL database whose rows carry a tenant; \<^verbatim>\<open>platform/db\<close> opens the transaction of one tenant.

  \<^bold>\<open>How it is modelled.\<close> A database is a record of tables, a table a list of rows; a statement is
  a function that checks the row policy, the checks, keys, foreign keys and exclusion constraints of
  the migrations and returns an SQLSTATE or the new tables. A repository operation runs statements in
  \<open>WithTenantTx\<close>, with an argument that says where the transaction fails. Errors are values of
  sum types, one constructor per sentinel of the source. Time is an argument, in nanoseconds;
  durations are int64 and wrap. Strings are byte lists. Code outside the repository (google/uuid, JSON, HTTP
  transport, NATS, SMTP, Redis calls, DNS, SHA-256, bcrypt, random bytes, the collation of the
  database, the zone database, fiber's choice of a route) is a parameter. Concurrency is interleaving: of operations, each a
  transaction (\<open>exec_appt\<close>, \<open>exec_sched\<close>, \<open>exec_notif\<close>, \<open>exec_tenant\<close>, \<open>exec_auth\<close>,
  \<open>exec_barber\<close>, \<open>exec_catalog\<close>, \<open>exec_customer\<close>), or, where a request reads and
  writes in separate steps, of those steps (\<open>sys_step\<close>, \<open>nsys_step\<close>, \<open>exec_event\<close>, \<open>exec_staff\<close>).

  \<^bold>\<open>Theories.\<close>

  \<^item> \<open>Prelude\<close>: identifiers, instants, int64 durations, the package strings, \<^verbatim>\<open>strconv.Atoi\<close>, lists of rows.
  \<^item> \<open>Platform\<close>: \<^verbatim>\<open>tenantctx\<close>, \<^verbatim>\<open>internalauth\<close>, \<^verbatim>\<open>adminauth\<close>, \<^verbatim>\<open>schedulingdeps\<close>, \<^verbatim>\<open>db\<close>. \<open>Email\<close>: \<^verbatim>\<open>platform/email\<close>.
    \<open>Rate_Limit\<close>: \<^verbatim>\<open>platform/ratelimit\<close>, with the bound it gives. \<open>Base64\<close>: \<^verbatim>\<open>base64.RawURLEncoding\<close> of the Go library,
    with its round trip. \<open>Migrate\<close>: \<^verbatim>\<open>platform/migrate\<close>, which can be interrupted and resumed. \<open>Config\<close>: \<^verbatim>\<open>platform/config\<close>,
    \<^verbatim>\<open>platform/infra\<close>, the pool of \<^verbatim>\<open>platform/db\<close> and the configurations of the services; \<open>Startup\<close>: what they mean for trusted callers and
    sessions. \<open>Http_Server\<close>: the middleware of \<^verbatim>\<open>logging\<close>, \<^verbatim>\<open>obsmetrics\<close> and \<^verbatim>\<open>otelsetup\<close> around every handler, readiness and the
    server loop of \<^verbatim>\<open>httpx\<close>: what is recorded is what is sent.
  \<^item> \<open>Store_Spec\<close>: the interfaces of the stores as locales: \<open>invariant_store\<close>, \<open>tenant_store\<close> (operations of
    other tenants leave what a tenant sees), \<open>claim_store\<close> (completion under a token that is no longer
    current has no effect), \<open>session_store\<close> (a session that was ended is not accepted again). They are interpreted on the stores of the services below.
  \<^item> appointment-service: \<open>Appt_Store\<close> (\<^verbatim>\<open>internal/repository\<close> and migrations), \<open>Appt_Inv\<close> and \<open>Appt_Ops\<close> (its
    invariant and that every operation keeps it), \<open>Appt_Calendar\<close> (the abstract calendar of a barber),
    \<open>Appt_Safety\<close> (no double booking, idempotent creation, life cycle, events, isolation),
    \<open>Appt_Moves\<close> (rescheduling and transitions refine the calendar), \<open>Appt_Booking\<close> (\<^verbatim>\<open>internal/application\<close>),
    \<open>Appt_Policy\<close> (its rules), \<open>Appt_Http\<close> (\<^verbatim>\<open>internal/client\<close> and \<^verbatim>\<open>internal/handler\<close>), \<open>Appt_Access\<close> (what
    requests may change), \<open>Appt_Outbox\<close> (\<^verbatim>\<open>internal/outbox\<close>: nothing is lost, published means
    acknowledged, retries end for a backlog of any size), \<open>Appt_Examples\<close> and \<open>Appt_Runs\<close> (concrete runs).
  \<^item> scheduling-service: \<open>Sched_Avail\<close> (\<^verbatim>\<open>internal/service/availability.go\<close>: the slots are exactly the free grid
    points), \<open>Sched_Store\<close> and \<open>Sched_Inv\<close> (\<^verbatim>\<open>internal/repository\<close>), \<open>Sched_Hours\<close> (hours round trip),
    \<open>Sched_App\<close> (occupancy client, \<^verbatim>\<open>internal/application\<close>, \<^verbatim>\<open>internal/handler\<close>), \<open>Sched_Policy\<close> (days off, authorization,
    conflicts, isolation), \<open>Booking_Flow\<close> (an offered slot is bookable across both services, with the
    availability check of the one answered by the handler of the other),
    \<open>Sched_Examples\<close>.
  \<^item> notification-service: \<open>Notif_Store\<close> (\<^verbatim>\<open>internal/repository\<close> with the claim functions of the migrations),
    \<open>Notif_Consumer\<close> (\<^verbatim>\<open>internal/consumer\<close> and \<^verbatim>\<open>platform/tenantsettings\<close>), \<open>Notif_Policy\<close> (redelivery), \<open>Notif_Worker\<close>
    (\<^verbatim>\<open>internal/worker\<close>, any number of workers with crashes), \<open>Notif_Examples\<close>.
  \<^item> tenant-service: \<open>Tenant_Settings\<close> (settings and hostnames), \<open>Tenant_Store\<close> (\<^verbatim>\<open>internal/repository\<close>,
    \<^verbatim>\<open>generated\<close> and the Redis cache), \<open>Tenant_Service\<close> (\<^verbatim>\<open>internal/service\<close> and \<^verbatim>\<open>internal/handler\<close>), \<open>Tenant_Inv\<close> and
    \<open>Tenant_Runs\<close> (invariant, interleaved requests), \<open>Tenant_Policy\<close> (verification by DNS, exactness of the
    cache, suspension), \<open>Tenant_Examples\<close>.
  \<^item> gateway-service: \<open>Gateway\<close> (resolver client, handlers and route table, \<^verbatim>\<open>platform/platformauth\<close>, the request
    identifier of \<^verbatim>\<open>platform/httpx\<close>), \<open>Gateway_Tenant\<close> (gateway and tenant-service together),
    \<open>Gateway_Examples\<close>.
  \<^item> auth-service: \<open>Auth_Store\<close> (\<^verbatim>\<open>internal/repository\<close>, \<^verbatim>\<open>internal/domain\<close>, migrations), \<open>Auth_Inv\<close> and \<open>Auth_Runs\<close> (invariant,
    interleaved operations, isolation, sessions and delivery claims), \<open>Auth_Service\<close> (\<^verbatim>\<open>internal/service\<close> and
    \<^verbatim>\<open>internal/handler\<close> with its middleware), \<open>Auth_Policy\<close> (login, logout, change of a password), \<open>Auth_Staff\<close> (who changes
    memberships; owners stay), \<open>Auth_Delivery\<close> (the mailed password), \<open>Auth_Examples\<close>.
  \<^item> barber-service: \<open>Barber_Store\<close> and \<open>Barber_Inv\<close> (\<^verbatim>\<open>internal/repository\<close> and migrations), \<open>Barber_App\<close>
    (\<^verbatim>\<open>internal/application\<close> and \<^verbatim>\<open>internal/handler\<close>), \<open>Barber_Policy\<close> (the public listing is what can be booked, saving round
    trips), \<open>Barber_Staff\<close> (authorization, identity links), \<open>Barber_Examples\<close>.
  \<^item> catalog-service: \<open>Catalog_Store\<close> (\<^verbatim>\<open>internal/repository\<close> and migrations, decimal amounts), \<open>Catalog_App\<close>
    (\<^verbatim>\<open>platform/barberclient\<close>, \<^verbatim>\<open>internal/application\<close>, \<^verbatim>\<open>internal/handler\<close>), \<open>Catalog_Policy\<close> (invariant, prices, the public
    projection), \<open>Catalog_Staff\<close> (authorization), \<open>Catalog_Examples\<close>.
  \<^item> customer-service: \<open>Customer_Store\<close> and \<open>Customer_Inv\<close> (\<^verbatim>\<open>internal/domain\<close>, \<^verbatim>\<open>internal/repository\<close>, migrations; the store as an
    instance of the interfaces), \<open>Customer_App\<close> (\<^verbatim>\<open>internal/client\<close>, \<^verbatim>\<open>internal/application\<close>, \<^verbatim>\<open>internal/handler\<close>),
    \<open>Customer_Policy\<close> (guests, sign-in, change of a password), \<open>Customer_Access\<close> (who changes a customer),
    \<open>Gateway_Customer\<close> (gateway and customer-service together), \<open>Customer_Examples\<close>.

  \<^bold>\<open>Termination and bounds.\<close> The models have no fuel. The slot loop is a \<open>partial_function\<close> into
  option, since the source loops for ever on a step that is not positive; it is proved to return for positive
  steps, and the handler to pass only those. So is the loop in which a migration connects; it returns if the clock advances. Minutes up to 150 million do not overflow an int64
  duration, which covers what the checks of the tables admit. Offsets and notices are at most
  10080 minutes.

  \<^bold>\<open>What the lemmas show that the code does not mean.\<close> \<open>override_move_conflicts\<close> (a schedule override with
  intervals cannot change its day), \<open>redelivered_reschedule_drops_reminders\<close> (a second delivery of an event
  cancels the reminders of the first), \<open>stale_resolution\<close> (a resolution under way restores the cache
  entry of a suspended tenant), \<open>auth_path_sticks\<close> (the gateway forwards member requests to the
  member of the first request), \<open>registration_replaces_password\<close> (adding an existing identity to a tenant can
  replace the password it uses), \<open>customer_password_change\<close> (a change of the password is answered as successful when
  the other sessions could not be revoked), \<open>session_ttl_bounds\<close> (a large configured session time wraps to a negative one),
  \<open>admin_booking_refused\<close> (no administrator can create an appointment: the availability check is sent with the application
  type admin to a route that accepts booking only), \<open>repeated_weekday_refused\<close> (hours that validate are refused by the
  database), \<open>backlog_gauge_blind\<close> (the gauges of the outbox read zero, since the application role may not read the table).

  \<^bold>\<open>Abstractions.\<close> A transaction whose commit fails leaves no trace (\<open>WithTenantTx\<close>); a commit with unknown outcome is
  modelled for migrations only. Instants keep nanoseconds in the tables, where PostgreSQL rounds to microseconds. The claim
  functions of the outbox return the claimed rows by age, while \<^verbatim>\<open>RETURNING\<close> promises no order; concurrent claims are
  whole statements one after the other, so \<^verbatim>\<open>SKIP LOCKED\<close> has nothing to skip. The reminder offsets of a tenant are a
  function of the consumer: its statements are about handlings between which a tenant's offsets do not change. A response of
  customer-service whose body cannot be read counts as no customer. A key of Redis is gone at the instant of its expiry, and a
  call of the limiter that fails has not counted. Texts that PostgreSQL cannot store (the byte zero, invalid UTF-8) are
  stored, and lower case is that of ASCII letters.

  \<^bold>\<open>Not modelled.\<close> Of the platform \<^verbatim>\<open>authcontract\<close> (a test harness), and of \<^verbatim>\<open>otelsetup\<close>, \<^verbatim>\<open>obsmetrics\<close> and \<^verbatim>\<open>logging\<close> the
  construction of exporters, collectors and the logger; the \<^verbatim>\<open>main\<close> functions, but for their readiness checks; tracing,
  logging and metric counters inside the modelled functions, which change no modelled state; the tickers and
  subscription loops around the modelled rounds; the browser applications.
\<close>

end
